(* ===== verification/Prelude.thy ===== *)
theory Prelude
  imports
    Main
    "HOL-Library.Word"
    "HOL-Library.Char_ord"
    "HOL-Library.List_Lexorder"
    "HOL-Library.Multiset"
begin

unbundle bit_operations_syntax

text \<open>
  Shared vocabulary of the development: the machine integers of the Rust code, saturating
  arithmetic, decimal text, the two map types the code uses (\<open>BTreeMap\<close>, iterated in key order,
  and \<open>HashMap\<close>) behind one interface, and the stable descending sort behind \<open>sort_by\<close>.
  A Rust \<open>String\<close> is its sequence of UTF-8 bytes, one \<open>char\<close> per byte, so \<open>length\<close> is
  \<open>String::len\<close> and the lexicographic order of \<open>string\<close> is the order of \<open>String\<close>.
\<close>

type_synonym u8 = "8 word"
type_synonym u16 = "16 word"
type_synonym u32 = "32 word"
type_synonym u64 = "64 word"
type_synonym bytes = "8 word list"

named_theorems word_to_nat \<open>readings of word operations as natural number operations\<close>
named_theorems map_laws \<open>lookup after update of the map types\<close>

section \<open>Saturating arithmetic\<close>

definition sat_add :: "'a::len word \<Rightarrow> 'a word \<Rightarrow> 'a word" where
  "sat_add a b = (if unat a + unat b < 2 ^ LENGTH('a) then a + b else - 1)"

definition sat_sub :: "'a::len word \<Rightarrow> 'a word \<Rightarrow> 'a word" where
  "sat_sub a b = (if b \<le> a then a - b else 0)"

lemma unat_max_word: "unat (- 1 :: 'a::len word) = 2 ^ LENGTH('a) - 1"
  by transfer (simp add: mask_eq_exp_minus_1 nat_diff_distrib nat_power_eq)

lemma unat_sat_add [word_to_nat]:
  "unat (sat_add a b) = min (unat a + unat b) (2 ^ LENGTH('a) - 1)"
  for a b :: "'a::len word"
  by (auto simp: sat_add_def unat_add_lem [THEN iffD1] unat_max_word)

lemma unat_sat_sub [word_to_nat]: "unat (sat_sub a b) = unat a - unat b"
  for a b :: "'a::len word"
  by (simp add: sat_sub_def unat_sub word_le_nat_alt)

lemma unat_of_nat_small [word_to_nat]:
  "n < 2 ^ LENGTH('a) \<Longrightarrow> unat (of_nat n :: 'a::len word) = n"
  by (simp add: unat_of_nat take_bit_nat_eq_self)

lemma unat_add_small [word_to_nat]:
  "unat a + unat b < 2 ^ LENGTH('a) \<Longrightarrow> unat (a + b) = unat a + unat b"
  for a b :: "'a::len word"
  by (simp add: unat_add_lem [THEN iffD1])

lemma unat_mult_small [word_to_nat]:
  "unat a * unat b < 2 ^ LENGTH('a) \<Longrightarrow> unat (a * b) = unat a * unat b"
  for a b :: "'a::len word"
  by (simp add: unat_mult_lem [THEN iffD1])

lemma unat_inc_small:
  "unat a + 1 < 2 ^ LENGTH('a) \<Longrightarrow> unat (a + 1) = unat a + 1"
  for a :: "'a::len word"
  using unat_add_small [of a 1] by simp

text \<open>\<open>u16::div_ceil\<close>: the quotient rounded up, computed without overflow.\<close>

definition div_ceil :: "'a::len word \<Rightarrow> 'a word \<Rightarrow> 'a word" where
  "div_ceil a b = (if a mod b = 0 then a div b else a div b + 1)"

text \<open>Exclusive or of a list of checksums, the fold of \<open>checksum ^= ...\<close>.\<close>

definition xor_list :: "u64 list \<Rightarrow> u64" where
  "xor_list xs = foldr (XOR) xs 0"

lemma xor_list_simps [simp]:
  "xor_list [] = 0"
  "xor_list (x # xs) = x XOR xor_list xs"
  by (simp_all add: xor_list_def)

lemma xor_list_append [simp]: "xor_list (xs @ ys) = xor_list xs XOR xor_list ys"
  by (induction xs) (simp_all add: ac_simps)

lemma fold_xor_list: "fold (\<lambda>x c. c XOR f x) xs c = c XOR xor_list (map f xs)"
  by (induction xs arbitrary: c) (simp_all add: ac_simps)

lemma xor_list_remove1: "x \<in> set ys \<Longrightarrow> xor_list ys = x XOR xor_list (remove1 x ys)"
  by (induction ys) (auto simp: ac_simps)

lemma xor_list_mset: "mset xs = mset ys \<Longrightarrow> xor_list xs = xor_list ys"
proof (induction xs arbitrary: ys)
  case Nil
  then show ?case by simp
next
  case (Cons x xs)
  then have "x \<in> set ys" by (metis list.set_intros(1) mset_eq_setD)
  moreover from Cons.prems have "mset xs = mset (remove1 x ys)"
    by (metis mset_remove1 add_mset_remove_trivial mset.simps(2))
  ultimately show ?case
    using Cons.IH [of "remove1 x ys"] xor_list_remove1 [of x ys] by simp
qed

section \<open>Sorting with a comparator\<close>

text \<open>
  \<open>slice::sort_by\<close> is stable. \<open>le x y\<close> says that \<open>x\<close> may stand before \<open>y\<close>.
\<close>

fun insert_by :: "('a \<Rightarrow> 'a \<Rightarrow> bool) \<Rightarrow> 'a \<Rightarrow> 'a list \<Rightarrow> 'a list" where
  "insert_by le x [] = [x]"
| "insert_by le x (y # ys) = (if le x y then x # y # ys else y # insert_by le x ys)"

definition sort_by :: "('a \<Rightarrow> 'a \<Rightarrow> bool) \<Rightarrow> 'a list \<Rightarrow> 'a list" where
  "sort_by le xs = foldr (insert_by le) xs []"

lemma sort_by_simps [simp]:
  "sort_by le [] = []"
  "sort_by le (x # xs) = insert_by le x (sort_by le xs)"
  by (simp_all add: sort_by_def)

lemma mset_insert_by [simp]: "mset (insert_by le x xs) = add_mset x (mset xs)"
  by (induction xs) auto

lemma mset_sort_by [simp]: "mset (sort_by le xs) = mset xs"
  by (induction xs) auto

lemma set_sort_by [simp]: "set (sort_by le xs) = set xs"
  by (metis mset_sort_by set_mset_mset)

lemma length_sort_by [simp]: "length (sort_by le xs) = length xs"
  by (metis mset_sort_by size_mset)

lemma distinct_sort_by [simp]: "distinct (map f (sort_by le xs)) = distinct (map f xs)"
  by (rule mset_eq_imp_distinct_iff) simp

lemma set_insert_by [simp]: "set (insert_by le x xs) = insert x (set xs)"
  by (metis mset_insert_by set_mset_add_mset_insert set_mset_mset)

lemma sorted_insert_by:
  assumes total: "\<And>a b. P a \<Longrightarrow> P b \<Longrightarrow> le a b \<or> le b a"
    and trans: "\<And>a b c. P a \<Longrightarrow> P b \<Longrightarrow> P c \<Longrightarrow> le a b \<Longrightarrow> le b c \<Longrightarrow> le a c"
    and P: "P x" "\<forall>y\<in>set xs. P y"
    and sorted: "sorted_wrt le xs"
  shows "sorted_wrt le (insert_by le x xs)"
  using P sorted
proof (induction xs)
  case Nil
  then show ?case by simp
next
  case (Cons y ys)
  show ?case
  proof (cases "le x y")
    case True
    moreover have "\<forall>z\<in>set ys. le x z"
      using Cons.prems True trans [of x y] by auto
    ultimately show ?thesis using Cons.prems by simp
  next
    case False
    then have "le y x" using total [of x y] Cons.prems by simp
    moreover have "sorted_wrt le (insert_by le x ys)"
      using Cons by simp
    ultimately show ?thesis using False Cons.prems by simp
  qed
qed

lemma sorted_sort_by:
  assumes total: "\<And>a b. P a \<Longrightarrow> P b \<Longrightarrow> le a b \<or> le b a"
    and trans: "\<And>a b c. P a \<Longrightarrow> P b \<Longrightarrow> P c \<Longrightarrow> le a b \<Longrightarrow> le b c \<Longrightarrow> le a c"
    and P: "\<forall>x\<in>set xs. P x"
  shows "sorted_wrt le (sort_by le xs)"
  using P
proof (induction xs)
  case Nil
  then show ?case by simp
next
  case (Cons x xs)
  then show ?case
    using sorted_insert_by [of P le x "sort_by le xs", OF total trans] by simp
qed

section \<open>Maps\<close>

text \<open>
  What the code asks of a map: lookup after insertion and removal. \<open>BTreeMap\<close> is a sorted
  association list, because its iteration order is visible; \<open>HashMap\<close> is a distinct one, whose
  order carries no meaning.
\<close>

locale key_map =
  fixes get :: "'m \<Rightarrow> 'k \<Rightarrow> 'v option"
    and ins :: "'k \<Rightarrow> 'v \<Rightarrow> 'm \<Rightarrow> 'm"
    and del :: "'k \<Rightarrow> 'm \<Rightarrow> 'm"
    and ok :: "'m \<Rightarrow> bool"
  assumes get_ins: "ok m \<Longrightarrow> get (ins k v m) k' = (if k' = k then Some v else get m k')"
    and get_del: "ok m \<Longrightarrow> get (del k m) k' = (if k' = k then None else get m k')"
    and ok_ins: "ok m \<Longrightarrow> ok (ins k v m)"
    and ok_del: "ok m \<Longrightarrow> ok (del k m)"
begin

lemma get_ins_fun: "ok m \<Longrightarrow> get (ins k v m) = (get m)(k \<mapsto> v)"
  by (simp add: fun_eq_iff get_ins)

lemma get_del_fun: "ok m \<Longrightarrow> get (del k m) = (get m)(k := None)"
  by (simp add: fun_eq_iff get_del)

lemma dom_ins: "ok m \<Longrightarrow> dom (get (ins k v m)) = insert k (dom (get m))"
  by (simp add: get_ins_fun)

lemma dom_del: "ok m \<Longrightarrow> dom (get (del k m)) = dom (get m) - {k}"
  by (simp add: get_del_fun)

lemma del_ins_fun: "ok m \<Longrightarrow> get m k = None \<Longrightarrow> get (del k (ins k v m)) = get m"
  by (auto simp: fun_eq_iff get_del get_ins ok_ins)

end

type_synonym ('k, 'v) btree_map = "('k \<times> 'v) list"
type_synonym ('k, 'v) hash_map = "('k \<times> 'v) list"

abbreviation bt_get :: "('k, 'v) btree_map \<Rightarrow> 'k \<Rightarrow> 'v option" where
  "bt_get \<equiv> map_of"

fun bt_insert :: "'k::linorder \<Rightarrow> 'v \<Rightarrow> ('k, 'v) btree_map \<Rightarrow> ('k, 'v) btree_map" where
  "bt_insert k v [] = [(k, v)]"
| "bt_insert k v ((k', v') # m) =
     (if k < k' then (k, v) # (k', v') # m
      else if k = k' then (k, v) # m
      else (k', v') # bt_insert k v m)"

definition map_remove :: "'k \<Rightarrow> ('k \<times> 'v) list \<Rightarrow> ('k \<times> 'v) list" where
  "map_remove k m = filter (\<lambda>e. fst e \<noteq> k) m"

definition bt_ok :: "('k::linorder, 'v) btree_map \<Rightarrow> bool" where
  "bt_ok m = sorted_wrt (<) (map fst m)"

definition hm_insert :: "'k \<Rightarrow> 'v \<Rightarrow> ('k, 'v) hash_map \<Rightarrow> ('k, 'v) hash_map" where
  "hm_insert k v m = (k, v) # map_remove k m"

definition hm_ok :: "('k, 'v) hash_map \<Rightarrow> bool" where
  "hm_ok m = distinct (map fst m)"

lemma map_of_map_remove [map_laws]: "map_of (map_remove k m) k' = (if k' = k then None else map_of m k')"
  by (induction m) (auto simp: map_remove_def)

lemma set_map_remove: "set (map_remove k m) = {e \<in> set m. fst e \<noteq> k}"
  by (simp add: map_remove_def)

lemma map_remove_absent: "k \<notin> fst ` set m \<Longrightarrow> map_remove k m = m"
  by (induction m) (auto simp: map_remove_def)

lemma map_of_bt_insert [map_laws]: "map_of (bt_insert k v m) k' = (if k' = k then Some v else map_of m k')"
  by (induction k v m rule: bt_insert.induct) auto

lemma fst_set_bt_insert: "fst ` set (bt_insert k v m) = insert k (fst ` set m)"
  by (induction k v m rule: bt_insert.induct) auto

lemma bt_ok_insert: "bt_ok m \<Longrightarrow> bt_ok (bt_insert k v m)"
proof (induction k v m rule: bt_insert.induct)
  case (1 k v)
  then show ?case by (simp add: bt_ok_def)
next
  case (2 k v k' v' m)
  then show ?case
    using fst_set_bt_insert [of k v m] by (force simp: bt_ok_def)
qed

lemma bt_ok_remove: "bt_ok m \<Longrightarrow> bt_ok (map_remove k m)"
  by (induction m) (auto simp: bt_ok_def map_remove_def)

lemma bt_ok_distinct: "bt_ok m \<Longrightarrow> distinct (map fst m)"
  by (induction m) (auto simp: bt_ok_def)

lemma hm_ok_remove: "hm_ok m \<Longrightarrow> hm_ok (map_remove k m)"
  by (simp add: hm_ok_def map_remove_def distinct_map_filter)

lemma hm_ok_insert: "hm_ok m \<Longrightarrow> hm_ok (hm_insert k v m)"
  using hm_ok_remove [of m k] by (auto simp: hm_ok_def hm_insert_def set_map_remove)

lemma map_of_hm_insert [map_laws]: "map_of (hm_insert k v m) k' = (if k' = k then Some v else map_of m k')"
  by (simp add: hm_insert_def map_of_map_remove)

interpretation btree: key_map bt_get bt_insert map_remove bt_ok
  by unfold_locales (simp_all add: map_laws bt_ok_insert bt_ok_remove)

interpretation hash: key_map "map_of :: ('k, 'v) hash_map \<Rightarrow> 'k \<Rightarrow> 'v option" hm_insert map_remove hm_ok
  by unfold_locales (simp_all add: map_laws hm_ok_insert hm_ok_remove)

section \<open>State machines\<close>

text \<open>
  The states a component gets to from its fresh ones by its steps. Each component that reacts to events is such a machine; what it keeps
  in one step it keeps in every run.
\<close>

inductive reachable :: "('s \<Rightarrow> bool) \<Rightarrow> ('s \<Rightarrow> 's \<Rightarrow> bool) \<Rightarrow> 's \<Rightarrow> bool" for start step where
  init: "start s \<Longrightarrow> reachable start step s"
| step: "reachable start step s \<Longrightarrow> step s t \<Longrightarrow> reachable start step t"

locale machine_invariant =
  fixes start :: "'s \<Rightarrow> bool"
    and step :: "'s \<Rightarrow> 's \<Rightarrow> bool"
    and inv :: "'s \<Rightarrow> bool"
  assumes start_inv: "start s \<Longrightarrow> inv s"
    and step_inv: "inv s \<Longrightarrow> step s t \<Longrightarrow> inv t"
begin

lemma run_inv: "reachable start step s \<Longrightarrow> inv s"
  by (induction rule: reachable.induct) (auto intro: start_inv step_inv)

lemma run_from: "rtranclp step s t \<Longrightarrow> inv s \<Longrightarrow> inv t"
  by (induction rule: rtranclp_induct) (auto intro: step_inv)

end

lemma reachable_mono:
  assumes "reachable start step s" "\<And>s. start s \<Longrightarrow> start' s" "\<And>s t. step s t \<Longrightarrow> step' s t"
  shows "reachable start' step' s"
  using assms by (induction rule: reachable.induct) (auto intro: reachable.intros)

end
