(* ===== verification/FileSystem.thy ===== *)
theory FileSystem
  imports Prelude
begin

text \<open>
  The part of \<open>std::fs\<close> the code uses, as a state: the files by path, and a schedule of faults.
  Every system call that can fail takes the next entry of the schedule: \<open>None\<close> lets it work,
  \<open>Some k\<close> makes it fail (a write has then stored its first \<open>k\<close> bytes). An exhausted schedule
  means no more failures, so a property for every schedule covers every failure point.
  \<open>io_bind\<close> is the \<open>?\<close> operator.
\<close>

datatype io_error = NotFound | AlreadyExists | SystemFault

record 'p fs =
  files :: "('p, bytes) hash_map"
  faults :: "nat option list"
  temp_counter :: u64

type_synonym ('e, 'a, 's) io = "'s \<Rightarrow> ('e + 'a) \<times> 's"

section \<open>Sequencing\<close>

definition io_return :: "'a \<Rightarrow> ('e, 'a, 's) io" where
  "io_return x = (\<lambda>s. (Inr x, s))"

definition io_throw :: "'e \<Rightarrow> ('e, 'a, 's) io" where
  "io_throw e = (\<lambda>s. (Inl e, s))"

definition io_bind :: "('e, 'a, 's) io \<Rightarrow> ('a \<Rightarrow> ('e, 'b, 's) io) \<Rightarrow> ('e, 'b, 's) io" where
  "io_bind m f = (\<lambda>s. case m s of (Inl e, s') \<Rightarrow> (Inl e, s') | (Inr x, s') \<Rightarrow> f x s')"

definition io_map_err :: "('d \<Rightarrow> 'e) \<Rightarrow> ('d, 'a, 's) io \<Rightarrow> ('e, 'a, 's) io" where
  "io_map_err g m = (\<lambda>s. case m s of (Inl e, s') \<Rightarrow> (Inl (g e), s') | (Inr x, s') \<Rightarrow> (Inr x, s'))"

text \<open>\<open>let _ = ...\<close> and \<open>.ok()\<close>: the result as an option, never an error.\<close>

definition io_ok :: "('d, 'a, 's) io \<Rightarrow> ('e, 'a option, 's) io" where
  "io_ok m = (\<lambda>s. case m s of (Inl e, s') \<Rightarrow> (Inr None, s') | (Inr x, s') \<Rightarrow> (Inr (Some x), s'))"

text \<open>A closure whose result is inspected before it is returned, as \<open>let result = (|| ...)()\<close>.\<close>

definition io_try :: "('d, 'a, 's) io \<Rightarrow> ('e, 'd + 'a, 's) io" where
  "io_try m = (\<lambda>s. case m s of (r, s') \<Rightarrow> (Inr r, s'))"

definition io_lift :: "('e + 'a) \<Rightarrow> ('e, 'a, 's) io" where
  "io_lift r = (\<lambda>s. (r, s))"

definition io_get :: "('s \<Rightarrow> 'a) \<Rightarrow> ('e, 'a, 's) io" where
  "io_get f = (\<lambda>s. (Inr (f s), s))"

lemmas io_defs = io_return_def io_throw_def io_bind_def io_map_err_def io_ok_def io_get_def io_try_def io_lift_def

section \<open>System calls\<close>

definition take_fault :: "'p fs \<Rightarrow> nat option \<times> 'p fs" where
  "take_fault s = (case faults s of [] \<Rightarrow> (None, s) | f # fl \<Rightarrow> (f, s\<lparr>faults := fl\<rparr>))"

definition file_at :: "'p fs \<Rightarrow> 'p \<Rightarrow> bytes option" where
  "file_at s p = map_of (files s) p"

definition is_file :: "'p \<Rightarrow> 'p fs \<Rightarrow> bool" where
  "is_file p s = (file_at s p \<noteq> None)"

definition put_file :: "'p \<Rightarrow> bytes \<Rightarrow> 'p fs \<Rightarrow> 'p fs" where
  "put_file p b s = s\<lparr>files := hm_insert p b (files s)\<rparr>"

definition del_file :: "'p \<Rightarrow> 'p fs \<Rightarrow> 'p fs" where
  "del_file p s = s\<lparr>files := map_remove p (files s)\<rparr>"

definition fs_check :: "(io_error, unit, 'p fs) io" where
  "fs_check s = (case take_fault s of (None, s') \<Rightarrow> (Inr (), s') | (Some k, s') \<Rightarrow> (Inl SystemFault, s'))"

definition fs_read :: "'p \<Rightarrow> (io_error, bytes, 'p fs) io" where
  "fs_read p = io_bind fs_check (\<lambda>_ s.
     case file_at s p of None \<Rightarrow> (Inl NotFound, s) | Some b \<Rightarrow> (Inr b, s))"

definition fs_create_new :: "'p \<Rightarrow> (io_error, unit, 'p fs) io" where
  "fs_create_new p = io_bind fs_check (\<lambda>_ s.
     case file_at s p of None \<Rightarrow> (Inr (), put_file p [] s) | Some b \<Rightarrow> (Inl AlreadyExists, s))"

text \<open>\<open>File::create\<close> and \<open>fs::write\<close> truncate an existing file.\<close>

definition fs_create :: "'p \<Rightarrow> (io_error, unit, 'p fs) io" where
  "fs_create p = io_bind fs_check (\<lambda>_ s. (Inr (), put_file p [] s))"

definition fs_append :: "'p \<Rightarrow> bytes \<Rightarrow> (io_error, unit, 'p fs) io" where
  "fs_append p b s =
     (case take_fault s of
        (None, s') \<Rightarrow> (case file_at s' p of None \<Rightarrow> (Inl NotFound, s')
                       | Some a \<Rightarrow> (Inr (), put_file p (a @ b) s'))
      | (Some k, s') \<Rightarrow> (case file_at s' p of None \<Rightarrow> (Inl SystemFault, s')
                         | Some a \<Rightarrow> (Inl SystemFault, put_file p (a @ take k b) s')))"

definition fs_write :: "'p \<Rightarrow> bytes \<Rightarrow> (io_error, unit, 'p fs) io" where
  "fs_write p b = io_bind (fs_create p) (\<lambda>_. fs_append p b)"

definition fs_rename :: "'p \<Rightarrow> 'p \<Rightarrow> (io_error, unit, 'p fs) io" where
  "fs_rename p q = io_bind fs_check (\<lambda>_ s.
     case file_at s p of None \<Rightarrow> (Inl NotFound, s) | Some b \<Rightarrow> (Inr (), put_file q b (del_file p s)))"

definition fs_remove :: "'p \<Rightarrow> (io_error, unit, 'p fs) io" where
  "fs_remove p = io_bind fs_check (\<lambda>_ s.
     case file_at s p of None \<Rightarrow> (Inl NotFound, s) | Some b \<Rightarrow> (Inr (), del_file p s))"

definition fs_copy :: "'p \<Rightarrow> 'p \<Rightarrow> (io_error, unit, 'p fs) io" where
  "fs_copy p q = io_bind (fs_read p) (\<lambda>b. fs_write q b)"

definition fs_ok :: "'p fs \<Rightarrow> bool" where
  "fs_ok s = hm_ok (files s)"

section \<open>What the calls do to the files\<close>

lemma file_put [simp]: "file_at (put_file p b s) q = (if q = p then Some b else file_at s q)"
  by (simp add: file_at_def put_file_def map_of_hm_insert)

lemma file_del [simp]: "file_at (del_file p s) q = (if q = p then None else file_at s q)"
  by (simp add: file_at_def del_file_def map_of_map_remove)

lemma file_faults [simp]: "file_at (s\<lparr>faults := fl\<rparr>) p = file_at s p" "file_at (s\<lparr>temp_counter := n\<rparr>) p = file_at s p"
  by (simp_all add: file_at_def)

lemma fs_ok_simps [simp]:
  "fs_ok (put_file p b s) = fs_ok (del_file p s)"
  "fs_ok (s\<lparr>faults := fl\<rparr>) = fs_ok s" "fs_ok (s\<lparr>temp_counter := n\<rparr>) = fs_ok s"
  by (auto simp: fs_ok_def put_file_def del_file_def hm_insert_def hm_ok_def set_map_remove)

lemma fs_ok_del: "fs_ok s \<Longrightarrow> fs_ok (del_file p s)"
  by (simp add: fs_ok_def del_file_def hm_ok_remove)

lemma files_frame [simp]:
  "files (s\<lparr>faults := fl\<rparr>) = files s" "files (s\<lparr>temp_counter := n\<rparr>) = files s"
  by simp_all

lemma take_fault_files:
  "take_fault s = (f, s') \<Longrightarrow> files s' = files s" "take_fault s = (f, s') \<Longrightarrow> temp_counter s' = temp_counter s"
  by (auto simp: take_fault_def split: list.splits)

lemma take_fault_none [simp]: "faults s = [] \<Longrightarrow> take_fault s = (None, s)"
  by (simp add: take_fault_def)

section \<open>A small Hoare logic for state-passing code with errors\<close>

text \<open>\<open>triple P m Q E\<close>: from a state with \<open>P\<close>, \<open>m\<close> returns with \<open>Q\<close> or fails with \<open>E\<close>.\<close>

definition triple :: "('s \<Rightarrow> bool) \<Rightarrow> ('e, 'a, 's) io \<Rightarrow> ('a \<Rightarrow> 's \<Rightarrow> bool) \<Rightarrow> ('e \<Rightarrow> 's \<Rightarrow> bool) \<Rightarrow> bool" where
  "triple P m Q E = (\<forall>s. P s \<longrightarrow> (case m s of (Inr x, s') \<Rightarrow> Q x s' | (Inl e, s') \<Rightarrow> E e s'))"

lemma tripleD:
  "triple P m Q E \<Longrightarrow> P s \<Longrightarrow> m s = (Inr x, s') \<Longrightarrow> Q x s'"
  "triple P m Q E \<Longrightarrow> P s \<Longrightarrow> m s = (Inl e, s') \<Longrightarrow> E e s'"
  by (auto simp: triple_def)

lemma tripleI:
  "(\<And>s x s'. P s \<Longrightarrow> m s = (Inr x, s') \<Longrightarrow> Q x s') \<Longrightarrow>
   (\<And>s e s'. P s \<Longrightarrow> m s = (Inl e, s') \<Longrightarrow> E e s') \<Longrightarrow> triple P m Q E"
  by (auto simp: triple_def split: prod.splits sum.splits)

lemma triple_conseq:
  assumes t: "triple P' m Q' E'" and "\<And>s. P s \<Longrightarrow> P' s" "\<And>x s. Q' x s \<Longrightarrow> Q x s"
    "\<And>e s. E' e s \<Longrightarrow> E e s"
  shows "triple P m Q E"
  by (rule tripleI) (use assms(2-) tripleD [OF t] in blast)+

lemma io_bind_cases:
  assumes "io_bind m f s = (r, s')"
  obtains (err) e where "m s = (Inl e, s')" "r = Inl e"
  | (ok) x t where "m s = (Inr x, t)" "f x t = (r, s')"
  using assms unfolding io_bind_def by (auto split: prod.splits sum.splits)

text \<open>What a run that gave a result must have done.\<close>

lemma io_runs:
  "io_return x s = (r, s') \<longleftrightarrow> r = Inr x \<and> s' = s"
  "io_throw e s = (r, s') \<longleftrightarrow> r = Inl e \<and> s' = s"
  "io_get f s = (rg, s') \<longleftrightarrow> rg = Inr (f s) \<and> s' = s"
  "io_lift q s = (rl, s') \<longleftrightarrow> rl = q \<and> s' = s"
  "io_try m s = (rt, s') \<longleftrightarrow> (\<exists>q. m s = (q, s') \<and> rt = Inr q)"
  "io_ok m s = (ro, s') \<longleftrightarrow> (\<exists>q. m s = (q, s') \<and> ro = Inr (case q of Inl _ \<Rightarrow> None | Inr x \<Rightarrow> Some x))"
  "io_map_err g w s = (Inr x, s') \<longleftrightarrow> w s = (Inr x, s')"
  "io_map_err g w s = (Inl e, s') \<longleftrightarrow> (\<exists>d. w s = (Inl d, s') \<and> e = g d)"
  "io_bind n k s = (Inr y, s') \<longleftrightarrow> (\<exists>x t. n s = (Inr x, t) \<and> k x t = (Inr y, s'))"
  "io_bind n k s = (Inl e, s') \<longleftrightarrow> n s = (Inl e, s') \<or> (\<exists>x t. n s = (Inr x, t) \<and> k x t = (Inl e, s'))"
  by (auto simp: io_defs split: prod.splits sum.splits)

text \<open>Running a program step by step.\<close>

lemma io_apply:
  "io_return x s = (Inr x, s)" "io_throw e s = (Inl e, s)" "io_get f s = (Inr (f s), s)" "io_lift q s = (q, s)"
  "io_bind m k s = (case m s of (r, s') \<Rightarrow> case r of Inl e \<Rightarrow> (Inl e, s') | Inr x \<Rightarrow> k x s')"
  "io_map_err g w s = (case w s of (r, s') \<Rightarrow> case r of Inl e \<Rightarrow> (Inl (g e), s') | Inr x \<Rightarrow> (Inr x, s'))"
  "io_ok w s = (case w s of (r, s') \<Rightarrow> case r of Inl e \<Rightarrow> (Inr None, s') | Inr x \<Rightarrow> (Inr (Some x), s'))"
  "io_try w s = (case w s of (r, s') \<Rightarrow> (Inr r, s'))"
  by (simp_all add: io_defs split: prod.splits sum.splits)

lemma triple_bind:
  assumes m: "triple P m R E" and f: "\<And>x. triple (R x) (f x) Q E"
  shows "triple P (io_bind m f) Q E"
proof (rule tripleI)
  fix s x s' assume "P s" "io_bind m f s = (Inr x, s')"
  then show "Q x s'" by (elim io_bind_cases) (blast dest: tripleD [OF m] tripleD [OF f])+
next
  fix s e s' assume "P s" "io_bind m f s = (Inl e, s')"
  then show "E e s'" by (elim io_bind_cases) (use tripleD [OF m] tripleD [OF f] in blast)+
qed

lemma triple_return: "(\<And>s. P s \<Longrightarrow> Q x s) \<Longrightarrow> triple P (io_return x) Q E"
  by (simp add: triple_def io_return_def)

lemma triple_throw: "(\<And>s. P s \<Longrightarrow> E e s) \<Longrightarrow> triple P (io_throw e) Q E"
  by (simp add: triple_def io_throw_def)

lemma triple_get: "(\<And>s. P s \<Longrightarrow> Q (f s) s) \<Longrightarrow> triple P (io_get f) Q E"
  by (simp add: triple_def io_get_def)

lemma triple_map_err: "triple P m Q (\<lambda>e. E (g e)) \<Longrightarrow> triple P (io_map_err g m) Q E"
  unfolding triple_def io_map_err_def by (fastforce split: prod.splits sum.splits)

lemma triple_ok:
  "triple P m (\<lambda>x. Q (Some x)) (\<lambda>_. Q None) \<Longrightarrow> triple P (io_ok m) Q E"
  unfolding triple_def io_ok_def by (fastforce split: prod.splits sum.splits)

lemma triple_if:
  "(c \<Longrightarrow> triple P m Q E) \<Longrightarrow> (\<not> c \<Longrightarrow> triple P n Q E) \<Longrightarrow> triple P (if c then m else n) Q E"
  by simp

lemma triple_state_pre: "(\<And>s. P s \<Longrightarrow> triple (\<lambda>t. t = s) m Q E) \<Longrightarrow> triple P m Q E"
  by (simp add: triple_def)

lemma triple_fact: "(\<And>s. P s \<Longrightarrow> F) \<Longrightarrow> (F \<Longrightarrow> triple P m Q E) \<Longrightarrow> triple P m Q E"
  by (auto simp: triple_def)

lemmas triple_intros = triple_bind triple_return triple_throw triple_get triple_map_err triple_ok

text \<open>A predicate that depends only on the files survives every call that leaves them alone.\<close>

definition on_files :: "('p fs \<Rightarrow> bool) \<Rightarrow> bool" where
  "on_files P = (\<forall>s t. files s = files t \<longrightarrow> P s = P t)"

lemma on_filesD: "on_files P \<Longrightarrow> files s = files t \<Longrightarrow> P s \<Longrightarrow> P t"
  unfolding on_files_def by blast

lemma on_files_take: "on_files P \<Longrightarrow> take_fault s = (f, t) \<Longrightarrow> P s \<Longrightarrow> P t"
  using take_fault_files(1) [of s f t] on_filesD [of P s t] by simp

lemma triple_check: "on_files P \<Longrightarrow> triple P fs_check (\<lambda>_. P) (\<lambda>_. P)"
  by (rule tripleI) (auto simp: fs_check_def on_files_take split: prod.splits option.splits)

lemma triple_read:
  assumes "on_files P"
  shows "triple P (fs_read p) (\<lambda>b s. P s \<and> file_at s p = Some b) (\<lambda>_. P)"
  unfolding fs_read_def
  by (rule triple_bind [OF triple_check [OF assms]])
    (auto simp: triple_def split: option.splits)

lemma triple_rename:
  assumes "on_files P"
  shows "triple P (fs_rename p q) (\<lambda>_ s. \<exists>t b. P t \<and> file_at t p = Some b \<and> s = put_file q b (del_file p t)) (\<lambda>_. P)"
  unfolding fs_rename_def
  by (rule triple_bind [OF triple_check [OF assms]])
    (auto simp: triple_def split: option.splits)

lemma triple_remove:
  assumes "on_files P"
  shows "triple P (fs_remove p) (\<lambda>_ s. \<exists>t. P t \<and> s = del_file p t) (\<lambda>_. P)"
  unfolding fs_remove_def
  by (rule triple_bind [OF triple_check [OF assms]])
    (auto simp: triple_def split: option.splits)

lemma triple_create_new:
  assumes "on_files P"
  shows "triple P (fs_create_new p) (\<lambda>_ s. \<exists>t. P t \<and> file_at t p = None \<and> s = put_file p [] t) (\<lambda>_. P)"
  unfolding fs_create_new_def
  by (rule triple_bind [OF triple_check [OF assms]])
    (auto simp: triple_def split: option.splits)

lemma triple_append:
  assumes "on_files P"
  shows "triple P (fs_append p b)
    (\<lambda>_ s. \<exists>t a. P t \<and> file_at t p = Some a \<and> s = put_file p (a @ b) t)
    (\<lambda>_ s. P s \<or> (\<exists>t a k. P t \<and> file_at t p = Some a \<and> s = put_file p (a @ take k b) t))"
proof (rule tripleI)
  fix s x s'
  assume "P s" "fs_append p b s = (Inr x, s')"
  then obtain t a where "take_fault s = (None, t)" "file_at t p = Some a" "s' = put_file p (a @ b) t"
    by (auto simp: fs_append_def split: prod.splits option.splits)
  moreover from calculation(1) have "P t" using on_files_take [OF assms] \<open>P s\<close> by blast
  ultimately show "\<exists>t a. P t \<and> file_at t p = Some a \<and> s' = put_file p (a @ b) t" by blast
next
  fix s e s'
  assume a: "P s" "fs_append p b s = (Inl e, s')"
  obtain f t where t: "take_fault s = (f, t)" by fastforce
  then have "P t" using on_files_take [OF assms] a(1) by blast
  with a t show "P s' \<or> (\<exists>t a k. P t \<and> file_at t p = Some a \<and> s' = put_file p (a @ take k b) t)"
    by (auto simp: fs_append_def split: option.splits)
qed

section \<open>The effect of a call on what the files hold\<close>

lemma take_fault_at: "take_fault s = (f, t) \<Longrightarrow> file_at t = file_at s"
  using take_fault_files(1) [of s f t] by (simp add: file_at_def fun_eq_iff)

lemma fs_check_at: "fs_check s = (r, t) \<Longrightarrow> file_at t = file_at s"
  unfolding fs_check_def by (auto split: prod.splits option.splits dest: take_fault_at)

lemma fs_read_at: "fs_read p s = (r, t) \<Longrightarrow> file_at t = file_at s \<and> (\<forall>b. r = Inr b \<longrightarrow> file_at s p = Some b)"
  unfolding fs_read_def by (elim io_bind_cases) (auto split: option.splits dest: fs_check_at)

lemma fs_create_at: "fs_create p s = (r, t) \<Longrightarrow> (isl r \<and> file_at t = file_at s) \<or> (r = Inr () \<and> file_at t = (file_at s)(p \<mapsto> []))"
  unfolding fs_create_def by (elim io_bind_cases) (auto simp: fun_eq_iff dest: fs_check_at)

lemma fs_append_at:
  assumes "fs_append p b s = (r, t)"
  shows "(\<forall>q. q \<noteq> p \<longrightarrow> file_at t q = file_at s q) \<and>
    (r = Inr () \<longrightarrow> (\<exists>a. file_at s p = Some a \<and> file_at t p = Some (a @ b)))"
proof -
  obtain f s1 where t: "take_fault s = (f, s1)" by fastforce
  show ?thesis using assms take_fault_at [OF t] by (auto simp: fs_append_def t split: option.splits)
qed

lemma fs_write_at:
  assumes "fs_write p b s = (r, t)"
  shows "(\<forall>q. q \<noteq> p \<longrightarrow> file_at t q = file_at s q) \<and> (r = Inr () \<longrightarrow> file_at t p = Some b)"
  using assms unfolding fs_write_def
proof (cases rule: io_bind_cases)
  case (err e)
  with fs_create_at [OF err(1)] show ?thesis by auto
next
  case (ok x s1)
  with fs_create_at [OF ok(1)] fs_append_at [OF ok(2)] show ?thesis by auto
qed

lemma fs_remove_at: "fs_remove p s = (r, t) \<Longrightarrow> (isl r \<and> file_at t = file_at s) \<or> (r = Inr () \<and> file_at t = (file_at s)(p := None))"
  unfolding fs_remove_def by (elim io_bind_cases) (auto simp: fun_eq_iff split: option.splits dest: fs_check_at)

lemma fs_rename_at:
  "fs_rename p q s = (r, t) \<Longrightarrow> (isl r \<and> file_at t = file_at s) \<or>
     (r = Inr () \<and> (\<exists>b. file_at s p = Some b \<and> file_at t = (file_at s)(p := None, q \<mapsto> b)))"
  unfolding fs_rename_def by (elim io_bind_cases) (auto simp: fun_eq_iff split: option.splits dest: fs_check_at)

lemma fs_copy_at:
  assumes "fs_copy p q s = (r, t)"
  shows "(\<forall>x. x \<noteq> q \<longrightarrow> file_at t x = file_at s x) \<and> (r = Inr () \<longrightarrow> (\<exists>b. file_at s p = Some b \<and> file_at t q = Some b))"
  using assms unfolding fs_copy_def
proof (cases rule: io_bind_cases)
  case (err e)
  with fs_read_at [OF err(1)] show ?thesis by auto
next
  case (ok b s1)
  with fs_read_at [OF ok(1)] fs_write_at [OF ok(2)] show ?thesis by auto
qed

text \<open>Calls that do not fail.\<close>

lemma faults_files [simp]: "faults (put_file p b s) = faults s" "faults (del_file p s) = faults s"
  by (simp_all add: put_file_def del_file_def)

lemma calls_without_faults:
  assumes "faults s = []"
  shows "fs_check s = (Inr (), s)" "fs_read p s = (case file_at s p of None \<Rightarrow> (Inl NotFound, s) | Some b \<Rightarrow> (Inr b, s))"
    "fs_create p s = (Inr (), put_file p [] s)"
    "fs_append p b s = (case file_at s p of None \<Rightarrow> (Inl NotFound, s) | Some a \<Rightarrow> (Inr (), put_file p (a @ b) s))"
    "fs_write p b s = (Inr (), put_file p b (put_file p [] s))"
    "fs_remove p s = (case file_at s p of None \<Rightarrow> (Inl NotFound, s) | Some b \<Rightarrow> (Inr (), del_file p s))"
    "fs_rename p q s = (case file_at s p of None \<Rightarrow> (Inl NotFound, s) | Some b \<Rightarrow> (Inr (), put_file q b (del_file p s)))"
  using assms by (simp_all add: fs_check_def fs_read_def fs_create_def fs_append_def fs_write_def fs_remove_def fs_rename_def io_apply
      split: option.splits)

end
