(* ===== verification/Storage.thy ===== *)
theory Storage
  imports FileSystem Strings
begin

text \<open>
  The crate \<open>swagri-storage\<close>: immutable, content-addressed artifacts under a byte quota, over
  the fault-injecting file system of \<open>FileSystem\<close>. SHA-256, the JSON encoding of a
  manifest and the hex crate are fields of \<open>store_env\<close>: third-party code the source only calls.
  Paths are the four kinds of path the store touches; \<open>with_extension\<close> makes the temporary name
  of a path from the path and a nonce, here \<open>PartPath\<close>. Creating a directory that the store
  created at \<open>open\<close> has no effect on files and appears only as a call that can fail.
\<close>

section \<open>Data\<close>

definition BLOCK_BYTES :: nat where "BLOCK_BYTES = 256 * 1024"
definition MAX_ARTIFACT_BLOCKS :: nat where "MAX_ARTIFACT_BLOCKS = 16384"
definition MANIFEST_VERSION :: u16 where "MANIFEST_VERSION = 1"

datatype content_id = ContentId (id_bytes: bytes)

instantiation content_id :: linorder
begin

fun less_content_id :: "content_id \<Rightarrow> content_id \<Rightarrow> bool" where
  "less_content_id (ContentId a) (ContentId b) = ord_class.lexordp a b"

definition less_eq_content_id :: "content_id \<Rightarrow> content_id \<Rightarrow> bool" where
  "less_eq_content_id a b = (a < b \<or> a = b)"

instance
proof
  fix x y z :: content_id
  show "(x < y) = (x \<le> y \<and> \<not> y \<le> x)"
    by (cases x; cases y) (auto simp: less_eq_content_id_def simp: lexordp_irreflexive' dest: lexordp_antisym)
  show "x \<le> x" by (simp add: less_eq_content_id_def)
  show "x \<le> y \<Longrightarrow> y \<le> z \<Longrightarrow> x \<le> z"
    by (cases x; cases y; cases z) (auto simp: less_eq_content_id_def intro: lexordp_trans)
  show "x \<le> y \<Longrightarrow> y \<le> x \<Longrightarrow> x = y"
    by (cases x; cases y) (auto simp: less_eq_content_id_def simp: lexordp_irreflexive' dest: lexordp_antisym)
  show "x \<le> y \<or> y \<le> x"
    using lexordp_linear [of "id_bytes x" "id_bytes y"]
    by (cases x; cases y) (auto simp: less_eq_content_id_def)
qed

end

record block_ref =
  block_id :: content_id
  block_len :: u32

record artifact_manifest =
  version :: u16
  artifact_id :: content_id
  artifact_size :: u64
  block_size :: u32
  blocks :: "block_ref list"

record store_stats =
  artifact_count :: u64
  block_count :: u64
  used_bytes :: u64
  stats_quota :: u64

datatype spath = BlockPath content_id | ManifestPath content_id | PartPath spath u64 | UserPath string

datatype storage_error =
    InvalidContentId
  | ArtifactNotFound content_id
  | Integrity content_id string
  | QuotaExceeded u64 u64
  | DestinationExists spath
  | StoreIo spath io_error
  | ManifestError spath

record store_env =
  digest :: "bytes \<Rightarrow> content_id"
  to_json :: "artifact_manifest \<Rightarrow> bytes"
  from_json :: "bytes \<Rightarrow> artifact_manifest option"
  hex_encode :: "bytes \<Rightarrow> string"
  hex_decode :: "string \<Rightarrow> bytes option"

record artifact_store =
  env :: store_env
  quota_bytes :: u64

type_synonym 'a store_io = "(storage_error, 'a, spath fs) io"

section \<open>Content identifiers as text\<close>

definition content_hex :: "store_env \<Rightarrow> content_id \<Rightarrow> string" where
  "content_hex e i = hex_encode e (id_bytes i)"

definition content_display :: "store_env \<Rightarrow> content_id \<Rightarrow> string" where
  "content_display e i = ''sha256:'' @ hex_encode e (id_bytes i)"

definition content_from_str :: "store_env \<Rightarrow> string \<Rightarrow> storage_error + content_id" where
  "content_from_str e t =
     (let v = (case strip_prefix ''sha256:'' t of Some r \<Rightarrow> r | None \<Rightarrow> t) in
      case hex_decode e v of
        None \<Rightarrow> Inl InvalidContentId
      | Some b \<Rightarrow> if length b = 32 then Inr (ContentId b) else Inl InvalidContentId)"

section \<open>Reading a source\<close>

text \<open>
  A file opened for reading is the list of results its successive \<open>read\<close> calls give, each with
  a buffer large enough; a smaller buffer splits an entry. So short reads and a source that
  changes between the two passes of an import are both possible.
\<close>

type_synonym source = "(io_error + bytes) list"

fun source_read :: "nat \<Rightarrow> source \<Rightarrow> (io_error + bytes) \<times> source" where
  "source_read n [] = (Inr [], [])"
| "source_read n (Inl e # r) = (Inl e, r)"
| "source_read n (Inr b # r) = (Inr (take n b), if n < length b then Inr (drop n b) # r else r)"

definition source_bytes :: "source \<Rightarrow> nat" where
  "source_bytes src = sum_list (map (\<lambda>r. case r of Inl _ \<Rightarrow> 0 | Inr b \<Rightarrow> length b) src)"

lemma source_read_take: "source_read n src = (Inr b, r) \<Longrightarrow> length b \<le> n"
  by (induction n src rule: source_read.induct) (auto split: if_splits)

lemma source_read_bytes: "source_read n src = (Inr b, r) \<Longrightarrow> source_bytes src = length b + source_bytes r"
  by (induction n src rule: source_read.induct) (auto simp: source_bytes_def split: if_splits)

text \<open>\<open>read_block\<close>: fill the buffer of \<open>cap\<close> bytes until it is full or a read returns nothing.\<close>

function read_block_from :: "nat \<Rightarrow> source \<Rightarrow> (io_error + bytes) \<times> source" where
  "read_block_from cap src =
     (if cap = 0 then (Inr [], src) else
      case source_read cap src of
        (Inl e, r) \<Rightarrow> (Inl e, r)
      | (Inr b, r) \<Rightarrow>
          if b = [] then (Inr [], r) else
          case read_block_from (cap - length b) r of
            (Inl e, r') \<Rightarrow> (Inl e, r')
          | (Inr b', r') \<Rightarrow> (Inr (b @ b'), r'))"
  by pat_completeness auto
termination by (relation "measure fst") auto

declare read_block_from.simps [simp del]

section \<open>Describing a source\<close>

lemma read_block_from_bytes:
  "read_block_from cap src = (Inr b, r) \<Longrightarrow> source_bytes src = length b + source_bytes r \<and> length b \<le> cap"
proof (induction cap src arbitrary: b r rule: read_block_from.induct)
  case (1 cap src)
  show ?case
  proof (cases "cap = 0")
    case True
    with "1.prems" show ?thesis by (simp add: read_block_from.simps)
  next
    case False
    with "1.prems" obtain c q where c: "source_read cap src = (Inr c, q)"
      by (subst (asm) read_block_from.simps) (auto split: prod.splits sum.splits if_splits)
    show ?thesis
    proof (cases "c = []")
      case True
      with False c "1.prems" source_read_bytes [OF c] show ?thesis
        by (subst (asm) read_block_from.simps) auto
    next
      case ne: False
      with False c "1.prems" obtain c' where
        "read_block_from (cap - length c) q = (Inr c', r)" "b = c @ c'"
        by (subst (asm) (2) read_block_from.simps) (auto split: prod.splits sum.splits)
      with "1.IH" [OF False c [symmetric] refl ne] source_read_bytes [OF c] source_read_take [OF c]
      show ?thesis by auto
    qed
  qed
qed

text \<open>The loop of \<open>describe\<close>; the incremental hasher is the list of the bytes it has been fed.\<close>

function describe_loop :: "store_env \<Rightarrow> source \<Rightarrow> bytes \<Rightarrow> u64 \<Rightarrow> block_ref list
    \<Rightarrow> (io_error + bytes \<times> u64 \<times> block_ref list) \<times> source" where
  "describe_loop e src hashed sz bs =
     (case read_block_from BLOCK_BYTES src of
        (Inl err, r) \<Rightarrow> (Inl err, r)
      | (Inr b, r) \<Rightarrow>
          if b = [] then (Inr (hashed, sz, bs), r) else
          describe_loop e r (hashed @ b) (sz + of_nat (length b))
            (bs @ [\<lparr>block_id = digest e b, block_len = of_nat (length b)\<rparr>]))"
  by pat_completeness auto
termination
  by (relation "measure (\<lambda>(e, src, h, z, b). source_bytes src)")
    (auto dest!: sym [of _ "read_block_from _ _"] dest: read_block_from_bytes)

declare describe_loop.simps [simp del]

definition describe :: "store_env \<Rightarrow> spath \<Rightarrow> source \<Rightarrow> storage_error + artifact_manifest" where
  "describe e path src =
     (case describe_loop e src [] 0 [] of
        (Inl err, _) \<Rightarrow> Inl (StoreIo path err)
      | (Inr (hashed, sz, bs), _) \<Rightarrow>
          Inr \<lparr>version = MANIFEST_VERSION, artifact_id = digest e hashed, artifact_size = sz,
               block_size = of_nat BLOCK_BYTES, blocks = bs\<rparr>)"

section \<open>Validation\<close>

definition declared_size :: "artifact_manifest \<Rightarrow> u64" where
  "declared_size m = fold (\<lambda>b acc. acc + ucast (block_len b)) (blocks m) 0"

definition validate_manifest :: "artifact_manifest \<Rightarrow> storage_error + unit" where
  "validate_manifest m =
     (let invalid_blocks =
            (blocks m = [] \<and> artifact_size m \<noteq> 0 \<or> length (blocks m) > MAX_ARTIFACT_BLOCKS \<or>
             (\<exists>b\<in>set (blocks m). block_len b = 0 \<or> unat (block_len b) > BLOCK_BYTES)) in
      if version m \<noteq> MANIFEST_VERSION \<or> block_size m \<noteq> of_nat BLOCK_BYTES \<or> invalid_blocks
         \<or> declared_size m \<noteq> artifact_size m
      then Inl (Integrity (artifact_id m) ''invalid manifest metadata'')
      else Inr ())"

end
