(* ===== verification/Store.thy ===== *)
theory Store
  imports Storage
begin

text \<open>
  The operations of \<open>ArtifactStore\<close>, each in the order the source makes its system calls, over
  \<open>spath fs\<close>. \<open>path.is_file()\<close> cannot fail (it is false on an error in the source as well).
\<close>

section \<open>System calls with the error type of the store\<close>

abbreviation store_call :: "spath \<Rightarrow> (io_error, 'a, spath fs) io \<Rightarrow> 'a store_io" where
  "store_call p m \<equiv> io_map_err (StoreIo p) m"

definition temporary_path :: "spath \<Rightarrow> spath store_io" where
  "temporary_path p = (\<lambda>s. (Inr (PartPath p (temp_counter s)), s\<lparr>temp_counter := temp_counter s + 1\<rparr>))"

definition create_dir :: "spath \<Rightarrow> unit store_io" where
  "create_dir p = store_call p fs_check"

definition create_new_file :: "spath \<Rightarrow> unit store_io" where
  "create_new_file p = store_call p (fs_create_new p)"

definition write_atomic_body :: "spath \<Rightarrow> spath \<Rightarrow> bytes \<Rightarrow> unit store_io" where
  "write_atomic_body path tmp b =
     io_bind (create_new_file tmp) (\<lambda>_.
     io_bind (store_call tmp (fs_append tmp b)) (\<lambda>_.
     io_bind (store_call tmp fs_check) (\<lambda>_.
     io_bind (io_try (fs_rename tmp path)) (\<lambda>renamed.
     case renamed of
       Inr _ \<Rightarrow> io_return ()
     | Inl e \<Rightarrow> io_bind (io_get (is_file path)) (\<lambda>there.
                 if there then io_return () else io_throw (StoreIo path e))))))"

definition write_atomic :: "spath \<Rightarrow> bytes \<Rightarrow> unit store_io" where
  "write_atomic path b =
     io_bind (io_get (is_file path)) (\<lambda>there.
     if there then io_return () else
     io_bind (create_dir path) (\<lambda>_.
     io_bind (temporary_path path) (\<lambda>tmp.
     io_bind (io_try (write_atomic_body path tmp b)) (\<lambda>result.
     io_bind (io_get (is_file path)) (\<lambda>now.
     io_bind (if isl result \<or> now then io_ok (fs_remove tmp) else io_return None) (\<lambda>_.
     io_lift result))))))"

section \<open>Usage and statistics\<close>

fun in_blocks :: "spath \<Rightarrow> bool" where
  "in_blocks (BlockPath _) = True"
| "in_blocks (PartPath (BlockPath _) _) = True"
| "in_blocks _ = False"

fun in_manifests :: "spath \<Rightarrow> bool" where
  "in_manifests (ManifestPath _) = True"
| "in_manifests (PartPath (ManifestPath _) _) = True"
| "in_manifests _ = False"

definition dir_entries :: "(spath \<Rightarrow> bool) \<Rightarrow> spath fs \<Rightarrow> (spath \<times> bytes) list" where
  "dir_entries inside s = filter (\<lambda>e. inside (fst e)) (files s)"

text \<open>One fallible call for the entry and one for its metadata.\<close>

fun usage_loop :: "(spath \<times> bytes) list \<Rightarrow> u64 \<Rightarrow> u64 \<Rightarrow> (u64 \<times> u64) store_io" where
  "usage_loop [] cnt tot = io_return (cnt, tot)"
| "usage_loop ((p, b) # es) cnt tot =
     io_bind (store_call p fs_check) (\<lambda>_.
     io_bind (store_call p fs_check) (\<lambda>_.
     usage_loop es (cnt + 1) (sat_add tot (of_nat (length b)))))"

definition directory_usage :: "spath \<Rightarrow> (spath \<Rightarrow> bool) \<Rightarrow> (u64 \<times> u64) store_io" where
  "directory_usage dir inside =
     io_bind (store_call dir fs_check) (\<lambda>_.
     io_bind (io_get (dir_entries inside)) (\<lambda>es. usage_loop es 0 0))"

abbreviation blocks_dir :: spath where "blocks_dir \<equiv> UserPath ''blocks/sha256''"
abbreviation manifests_dir :: spath where "manifests_dir \<equiv> UserPath ''manifests/sha256''"

definition stats :: "artifact_store \<Rightarrow> store_stats store_io" where
  "stats st =
     io_bind (directory_usage blocks_dir in_blocks) (\<lambda>(nblocks, block_bytes).
     io_bind (directory_usage manifests_dir in_manifests) (\<lambda>(artifacts, manifest_bytes).
     io_return \<lparr>artifact_count = artifacts, block_count = nblocks,
       used_bytes = sat_add block_bytes manifest_bytes, stats_quota = quota_bytes st\<rparr>))"

definition store_open :: "store_env \<Rightarrow> u64 \<Rightarrow> artifact_store store_io" where
  "store_open e quota =
     io_bind (create_dir (UserPath '''')) (\<lambda>_.
     io_bind (create_dir blocks_dir) (\<lambda>_.
     io_bind (create_dir manifests_dir) (\<lambda>_.
     io_return \<lparr>env = e, quota_bytes = quota\<rparr>)))"

section \<open>Blocks\<close>

text \<open>The test of a block's bytes against its reference.\<close>

definition block_matches :: "store_env \<Rightarrow> block_ref \<Rightarrow> bytes \<Rightarrow> bool" where
  "block_matches e r b = (length b = unat (block_len r) \<and> digest e b = block_id r)"

definition store_read_block :: "artifact_store \<Rightarrow> block_ref \<Rightarrow> bytes store_io" where
  "store_read_block st r =
     (let path = BlockPath (block_id r) in
     io_bind (store_call path (fs_read path)) (\<lambda>b.
     if \<not> block_matches (env st) r b
     then io_throw (Integrity (block_id r) ''cached block digest mismatch'')
     else io_return b))"

definition store_block :: "artifact_store \<Rightarrow> block_ref \<Rightarrow> bytes \<Rightarrow> unit store_io" where
  "store_block st r b =
     (if block_len r = 0 \<or> unat (block_len r) > BLOCK_BYTES \<or> \<not> block_matches (env st) r b
      then io_throw (Integrity (block_id r) ''received block does not match its content address'')
      else
      let path = BlockPath (block_id r) in
      io_bind (io_ok (fs_read path)) (\<lambda>existing.
      if (case existing of Some v \<Rightarrow> length v = length b \<and> digest (env st) v = block_id r | None \<Rightarrow> False)
      then io_return ()
      else
      io_bind (stats st) (\<lambda>t.
      let reclaimable = (case existing of Some v \<Rightarrow> of_nat (length v) | None \<Rightarrow> 0);
          available = sat_add (sat_sub (quota_bytes st) (used_bytes t)) reclaimable in
      if of_nat (length b) > available
      then io_throw (QuotaExceeded (of_nat (length b)) available)
      else
      io_bind (io_get (is_file path)) (\<lambda>there.
      io_bind (if there then store_call path (fs_remove path) else io_return ()) (\<lambda>_.
      write_atomic path b)))))"

fun missing_loop :: "artifact_store \<Rightarrow> block_ref list \<Rightarrow> content_id list \<Rightarrow> block_ref list
    \<Rightarrow> block_ref list store_io" where
  "missing_loop st [] seen missing = io_return missing"
| "missing_loop st (r # rs) seen missing =
     (if block_id r \<in> set seen then missing_loop st rs seen missing else
      io_bind (io_ok (fs_read (BlockPath (block_id r)))) (\<lambda>found.
      let valid = (case found of Some b \<Rightarrow> block_matches (env st) r b | None \<Rightarrow> False) in
      missing_loop st rs (block_id r # seen) (if valid then missing else missing @ [r])))"

definition missing_blocks :: "artifact_store \<Rightarrow> artifact_manifest \<Rightarrow> block_ref list store_io" where
  "missing_blocks st m = io_bind (io_lift (validate_manifest m)) (\<lambda>_. missing_loop st (blocks m) [] [])"

section \<open>Manifests\<close>

definition manifest_of :: "artifact_store \<Rightarrow> content_id \<Rightarrow> artifact_manifest store_io" where
  "manifest_of st i =
     (let path = ManifestPath i in
     io_bind (io_get (is_file path)) (\<lambda>there.
     if \<not> there then io_throw (ArtifactNotFound i) else
     io_bind (store_call path (fs_read path)) (\<lambda>b.
     case from_json (env st) b of
       None \<Rightarrow> io_throw (ManifestError path)
     | Some m \<Rightarrow>
         io_bind (io_lift (validate_manifest m)) (\<lambda>_.
         if artifact_id m \<noteq> i then io_throw (Integrity i ''manifest ID mismatch'')
         else io_return m))))"

fun digest_loop :: "artifact_store \<Rightarrow> block_ref list \<Rightarrow> u64 \<Rightarrow> bytes \<Rightarrow> (u64 \<times> bytes) store_io" where
  "digest_loop st [] tot hashed = io_return (tot, hashed)"
| "digest_loop st (r # rs) tot hashed =
     io_bind (store_read_block st r) (\<lambda>b. digest_loop st rs (tot + of_nat (length b)) (hashed @ b))"

definition verified_artifact_digest :: "artifact_store \<Rightarrow> artifact_manifest \<Rightarrow> (u64 \<times> content_id) store_io" where
  "verified_artifact_digest st m =
     io_bind (digest_loop st (blocks m) 0 []) (\<lambda>(tot, hashed). io_return (tot, digest (env st) hashed))"

definition verify_manifest_blocks :: "artifact_store \<Rightarrow> artifact_manifest \<Rightarrow> unit store_io" where
  "verify_manifest_blocks st m =
     io_bind (verified_artifact_digest st m) (\<lambda>(tot, d).
     if tot \<noteq> artifact_size m \<or> d \<noteq> artifact_id m
     then io_throw (Integrity (artifact_id m) ''artifact digest mismatch'')
     else io_return ())"

definition commit_manifest :: "artifact_store \<Rightarrow> artifact_manifest \<Rightarrow> unit store_io" where
  "commit_manifest st m =
     io_bind (io_lift (validate_manifest m)) (\<lambda>_.
     io_bind (verify_manifest_blocks st m) (\<lambda>_.
     let path = ManifestPath (artifact_id m) in
     io_bind (io_get (is_file path)) (\<lambda>there.
     if there then io_return () else
     let b = to_json (env st) m in
     io_bind (stats st) (\<lambda>t.
     let available = sat_sub (quota_bytes st) (used_bytes t) in
     if of_nat (length b) > available
     then io_throw (QuotaExceeded (of_nat (length b)) available)
     else write_atomic path b))))"

definition verify :: "artifact_store \<Rightarrow> content_id \<Rightarrow> artifact_manifest store_io" where
  "verify st i =
     io_bind (manifest_of st i) (\<lambda>m. io_bind (verify_manifest_blocks st m) (\<lambda>_. io_return m))"

fun list_loop :: "artifact_store \<Rightarrow> (spath \<times> bytes) list \<Rightarrow> artifact_manifest list
    \<Rightarrow> artifact_manifest list store_io" where
  "list_loop st [] ms = io_return ms"
| "list_loop st ((p, _) # es) ms =
     io_bind (store_call manifests_dir fs_check) (\<lambda>_.
     if (case p of ManifestPath _ \<Rightarrow> False | _ \<Rightarrow> True) then list_loop st es ms else
     io_bind (store_call p (fs_read p)) (\<lambda>b.
     case from_json (env st) b of
       None \<Rightarrow> io_throw (ManifestError p)
     | Some m \<Rightarrow> list_loop st es (ms @ [m])))"

definition list_artifacts :: "artifact_store \<Rightarrow> artifact_manifest list store_io" where
  "list_artifacts st =
     io_bind (store_call manifests_dir fs_check) (\<lambda>_.
     io_bind (io_get (dir_entries in_manifests)) (\<lambda>es.
     io_bind (list_loop st es []) (\<lambda>ms.
     io_return (sort_by (\<lambda>a b. artifact_id a \<le> artifact_id b) ms))))"

section \<open>Import and export\<close>

text \<open>
  The bytes an import still needs: each new block once. \<open>unique_new.insert\<close> happens only where
  the block is not a file yet.
\<close>

fun required_loop :: "spath fs \<Rightarrow> block_ref list \<Rightarrow> content_id list \<Rightarrow> u64 \<Rightarrow> u64" where
  "required_loop s [] new required = required"
| "required_loop s (r # rs) new required =
     (if \<not> is_file (BlockPath (block_id r)) s \<and> block_id r \<notin> set new
      then required_loop s rs (block_id r # new) (sat_add required (ucast (block_len r)))
      else required_loop s rs new required)"

fun import_loop :: "artifact_store \<Rightarrow> spath \<Rightarrow> content_id \<Rightarrow> block_ref list \<Rightarrow> source \<Rightarrow> source store_io" where
  "import_loop st path i [] src = io_return src"
| "import_loop st path i (r # rs) src =
     (case read_block_from BLOCK_BYTES src of
        (Inl err, _) \<Rightarrow> io_throw (StoreIo path err)
      | (Inr b, src') \<Rightarrow>
          if length b \<noteq> unat (block_len r) \<or> digest (env st) b \<noteq> block_id r
          then io_throw (Integrity i ''source changed while it was being imported'')
          else
          let target = BlockPath (block_id r) in
          io_bind (io_get (is_file target)) (\<lambda>there.
          io_bind
            (if there then
               io_bind (store_call target (fs_read target)) (\<lambda>existing.
               if \<not> block_matches (env st) r existing
               then io_throw (Integrity i (''existing block '' @ content_display (env st) (block_id r) @ '' is damaged''))
               else io_return ())
             else write_atomic target b) (\<lambda>_.
          import_loop st path i rs src')))"

definition import_artifact :: "artifact_store \<Rightarrow> spath \<Rightarrow> source \<Rightarrow> source \<Rightarrow> artifact_manifest store_io" where
  "import_artifact st path first_pass second_pass =
     io_bind (store_call path fs_check) (\<lambda>_.
     io_bind (io_lift (describe (env st) path first_pass)) (\<lambda>m.
     io_bind (io_lift (validate_manifest m)) (\<lambda>_.
     let manifest_bytes = to_json (env st) m in
     io_bind (io_get (\<lambda>s. required_loop s (blocks m) []
       (if is_file (ManifestPath (artifact_id m)) s then 0 else of_nat (length manifest_bytes)))) (\<lambda>required.
     io_bind (stats st) (\<lambda>t.
     let available = sat_sub (quota_bytes st) (used_bytes t) in
     if required > available then io_throw (QuotaExceeded required available) else
     io_bind (store_call path fs_check) (\<lambda>_.
     io_bind (import_loop st path (artifact_id m) (blocks m) second_pass) (\<lambda>rest.
     case read_block_from BLOCK_BYTES rest of
       (Inl err, _) \<Rightarrow> io_throw (StoreIo path err)
     | (Inr b, _) \<Rightarrow>
         if b \<noteq> [] then io_throw (Integrity (artifact_id m) ''source grew while it was being imported'')
         else
         io_bind (write_atomic (ManifestPath (artifact_id m)) manifest_bytes) (\<lambda>_.
         io_return m))))))))"

fun export_loop :: "block_ref list \<Rightarrow> spath \<Rightarrow> unit store_io" where
  "export_loop [] tmp = io_return ()"
| "export_loop (r # rs) tmp =
     io_bind (store_call (BlockPath (block_id r)) (fs_read (BlockPath (block_id r)))) (\<lambda>b.
     io_bind (store_call tmp (fs_append tmp b)) (\<lambda>_.
     export_loop rs tmp))"

definition export_body :: "artifact_manifest \<Rightarrow> spath \<Rightarrow> spath \<Rightarrow> unit store_io" where
  "export_body m tmp dest =
     io_bind (create_new_file tmp) (\<lambda>_.
     io_bind (export_loop (blocks m) tmp) (\<lambda>_.
     io_bind (store_call tmp fs_check) (\<lambda>_.
     store_call dest (fs_rename tmp dest))))"

definition export_artifact :: "artifact_store \<Rightarrow> content_id \<Rightarrow> spath \<Rightarrow> unit store_io" where
  "export_artifact st i dest =
     io_bind (io_get (is_file dest)) (\<lambda>there.
     if there then io_throw (DestinationExists dest) else
     io_bind (verify st i) (\<lambda>m.
     io_bind (create_dir dest) (\<lambda>_.
     io_bind (temporary_path dest) (\<lambda>tmp.
     io_bind (io_try (export_body m tmp dest)) (\<lambda>result.
     io_bind (if isl result then io_ok (fs_remove tmp) else io_return None) (\<lambda>_.
     io_lift result))))))"

end
