(* ===== verification/Store_Frame.thy ===== *)
theory Store_Frame
  imports Store
begin

text \<open>
  What each operation of the store does to the files, under every schedule of faults: the
  read-only operations, the outcomes of \<open>write_atomic\<close>, and the bytes the store occupies.
\<close>

section \<open>Operations that only read\<close>

definition reads_only :: "('e, 'a, 'p fs) io \<Rightarrow> bool" where
  "reads_only m = (\<forall>s r s'. m s = (r, s') \<longrightarrow> files s' = files s)"

named_theorems reads \<open>operations that leave the files alone\<close>

lemma reads_onlyD: "reads_only m \<Longrightarrow> m s = (r, s') \<Longrightarrow> files s' = files s"
  by (simp add: reads_only_def)

lemma reads_only_view: "reads_only m \<Longrightarrow> m s = (r, s') \<Longrightarrow> file_at s' = file_at s"
  by (simp add: reads_only_def file_at_def fun_eq_iff)

lemma reads_bind [reads]: "reads_only m \<Longrightarrow> (\<And>x. reads_only (f x)) \<Longrightarrow> reads_only (io_bind m f)"
  unfolding reads_only_def by (auto elim!: io_bind_cases)

lemma reads_basic [reads]:
  "reads_only (io_return x)" "reads_only (io_throw e)" "reads_only (io_get g)" "reads_only (io_lift r)"
  by (simp_all add: reads_only_def io_return_def io_throw_def io_get_def io_lift_def)

lemma reads_map_err [reads]: "reads_only m \<Longrightarrow> reads_only (io_map_err g m)"
  unfolding reads_only_def io_map_err_def by (auto split: prod.splits sum.splits)

lemma reads_ok [reads]: "reads_only m \<Longrightarrow> reads_only (io_ok m)"
  unfolding reads_only_def io_ok_def by (auto split: prod.splits sum.splits)

lemma reads_check [reads]: "reads_only (fs_check :: (io_error, unit, 'p fs) io)"
  unfolding reads_only_def fs_check_def
  by (auto split: prod.splits option.splits dest: take_fault_files(1))

lemma reads_read [reads]: "reads_only (fs_read p)"
proof -
  have "reads_only (\<lambda>s. case file_at s p of None \<Rightarrow> (Inl NotFound, s) | Some b \<Rightarrow> (Inr b, s))"
    by (simp add: reads_only_def split: option.splits)
  then show ?thesis unfolding fs_read_def by (intro reads_bind reads_check)
qed

lemma reads_if [reads]: "(c \<Longrightarrow> reads_only m) \<Longrightarrow> (\<not> c \<Longrightarrow> reads_only n) \<Longrightarrow> reads_only (if c then m else n)"
  by simp

lemma reads_option [reads]:
  "reads_only n \<Longrightarrow> (\<And>x. z = Some x \<Longrightarrow> reads_only (f x)) \<Longrightarrow> reads_only (case z of None \<Rightarrow> n | Some x \<Rightarrow> f x)"
  by (cases z) simp_all

lemma reads_prod [reads]: "(\<And>x y. reads_only (f x y)) \<Longrightarrow> reads_only (case z of (x, y) \<Rightarrow> f x y)"
  by (cases z) simp

lemma reads_create_dir [reads]: "reads_only (create_dir p)"
  unfolding create_dir_def by (intro reads)

lemma reads_temporary_path [reads]: "reads_only (temporary_path p)"
  by (simp add: reads_only_def temporary_path_def)

lemma reads_usage_loop [reads]: "reads_only (usage_loop es c t)"
  by (induction es c t rule: usage_loop.induct) (auto intro!: reads)

lemma reads_directory_usage [reads]: "reads_only (directory_usage d f)"
  unfolding directory_usage_def by (intro reads)

lemma reads_stats [reads]: "reads_only (stats st)"
  unfolding stats_def by (intro reads)

lemma reads_read_block [reads]: "reads_only (store_read_block st r)"
  unfolding store_read_block_def Let_def by (intro reads)

lemma reads_missing_loop [reads]: "reads_only (missing_loop st rs seen ms)"
  by (induction st rs seen ms rule: missing_loop.induct) (auto simp: Let_def intro!: reads)

lemma reads_missing_blocks [reads]: "reads_only (missing_blocks st m)"
  unfolding missing_blocks_def by (intro reads)

lemma reads_manifest_of [reads]: "reads_only (manifest_of st i)"
  unfolding manifest_of_def Let_def by (intro reads)

lemma reads_digest_loop [reads]: "reads_only (digest_loop st rs t h)"
  by (induction st rs t h rule: digest_loop.induct) (auto intro!: reads)

lemma reads_verify_blocks [reads]: "reads_only (verify_manifest_blocks st m)"
  unfolding verify_manifest_blocks_def verified_artifact_digest_def by (intro reads)

lemma reads_verify [reads]: "reads_only (verify st i)"
  unfolding verify_def by (intro reads)

lemma reads_list_loop [reads]: "reads_only (list_loop st es ms)"
  by (induction st es ms rule: list_loop.induct) (auto intro!: reads)

lemma reads_list_artifacts [reads]: "reads_only (list_artifacts st)"
  unfolding list_artifacts_def by (intro reads)

section \<open>The outcomes of an atomic write\<close>

abbreviation view :: "'p fs \<Rightarrow> 'p \<Rightarrow> bytes option" where
  "view \<equiv> file_at"

text \<open>
  \<open>wrote path b F G\<close>: the file was written whole. \<open>scratch\<close>: at most the temporary file is
  different, and holds a prefix of the bytes.
\<close>

definition scratch :: "spath \<Rightarrow> bytes \<Rightarrow> (spath \<Rightarrow> bytes option) \<Rightarrow> (spath \<Rightarrow> bytes option) \<Rightarrow> bool" where
  "scratch path b F G = (\<exists>n c. (G = F \<or> G = F(PartPath path n := c)) \<and> (\<forall>x. c = Some x \<longrightarrow> length x \<le> length b))"

lemma scratch_refl [simp]: "scratch path b F F"
  unfolding scratch_def by (metis option.distinct(1))

lemma view_put [simp]: "view (put_file p b s) = (view s)(p \<mapsto> b)"
  and view_del [simp]: "view (del_file p s) = (view s)(p := None)"
  and view_faults [simp]: "view (s\<lparr>faults := fl\<rparr>) = view s"
  and view_counter [simp]: "view (s\<lparr>temp_counter := k\<rparr>) = view s"
  by (auto simp: fun_eq_iff)

lemma fs_check_view: "fs_check s = (r, s') \<Longrightarrow> view s' = view s"
  by (rule reads_only_view [OF reads_check])

lemma fs_remove_view:
  "fs_remove p s = (r, s') \<Longrightarrow> view s' = (view s)(p := None) \<or> view s' = view s \<and> isl r"
  unfolding fs_remove_def by (elim io_bind_cases) (auto split: option.splits dest: fs_check_view)

lemma fs_create_new_view:
  "fs_create_new p s = (r, s') \<Longrightarrow>
   (isl r \<and> view s' = view s) \<or> (r = Inr () \<and> view s p = None \<and> view s' = (view s)(p \<mapsto> []))"
  unfolding fs_create_new_def by (elim io_bind_cases) (auto split: option.splits dest: fs_check_view)

lemma take_fault_view: "take_fault s = (f, t) \<Longrightarrow> view t = view s"
  using take_fault_files(1) [of s f t] by (simp add: file_at_def fun_eq_iff)

lemma fs_append_view:
  assumes "fs_append p b s = (r, s')" "view s p = Some a"
  shows "(r = Inr () \<and> view s' = (view s)(p \<mapsto> a @ b)) \<or> (isl r \<and> (\<exists>k. view s' = (view s)(p \<mapsto> a @ take k b)))"
proof -
  obtain f t where t: "take_fault s = (f, t)" by fastforce
  have v: "view t = view s" by (rule take_fault_view [OF t])
  show ?thesis using assms v by (cases f) (auto simp: fs_append_def t)
qed

lemma fs_rename_view:
  "fs_rename p q s = (r, s') \<Longrightarrow>
   (isl r \<and> view s' = view s) \<or>
   (r = Inr () \<and> (\<exists>b. view s p = Some b \<and> view s' = (view s)(p := None, q \<mapsto> b)))"
  unfolding fs_rename_def by (elim io_bind_cases) (auto split: option.splits dest: fs_check_view)

lemma write_atomic_body_view:
  assumes run: "write_atomic_body path tmp b s = (r, s')" and ne: "tmp \<noteq> path" and no: "view s path = None"
  shows "(r = Inr () \<and> view s tmp = None \<and> view s' = (view s)(path \<mapsto> b)) \<or>
    (isl r \<and> (view s' = view s \<or> (\<exists>x. length x \<le> length b \<and> view s' = (view s)(tmp \<mapsto> x))))"
proof -
  obtain q1 s1 where c: "fs_create_new tmp s = (q1, s1)" by fastforce
  show ?thesis
  proof (cases q1)
    case (Inl e)
    with fs_create_new_view [OF c] c run show ?thesis
      by (cases r) (auto simp: write_atomic_body_def create_new_file_def io_runs)
  next
    case (Inr u)
    with fs_create_new_view [OF c] have v1: "view s tmp = None" "view s1 = (view s)(tmp \<mapsto> [])" by auto
    obtain q2 s2 where a: "fs_append tmp b s1 = (q2, s2)" by fastforce
    obtain q3 s3 where k: "fs_check s2 = (q3, s3)" by fastforce
    obtain q4 s4 where n: "fs_rename tmp path s3 = (q4, s4)" by fastforce
    from fs_append_view [OF a, of "[]"] v1
    have v2: "(q2 = Inr () \<and> view s2 = (view s)(tmp \<mapsto> b)) \<or> (isl q2 \<and> (\<exists>k. view s2 = (view s)(tmp \<mapsto> take k b)))"
      by auto
    have v3: "view s3 = view s2" by (rule fs_check_view [OF k])
    show ?thesis
    proof (cases q2)
      case Inl
      with v2 have "\<exists>x. length x \<le> length b \<and> view s2 = (view s)(tmp \<mapsto> x)" by (metis Inr_not_Inl length_take min.cobounded1)
      with Inl Inr c a run show ?thesis
        by (cases r) (auto simp: write_atomic_body_def create_new_file_def io_runs)
    next
      case q2: (Inr u2)
      with v2 v3 have v: "view s3 = (view s)(tmp \<mapsto> b)" by simp
      show ?thesis
      proof (cases q3)
        case Inl
        with q2 Inr c a k run have "isl r" "s' = s3"
          by (cases r; auto simp: write_atomic_body_def create_new_file_def io_runs)+
        with v show ?thesis by auto
      next
        case q3: (Inr u3)
        show ?thesis
        proof (cases q4)
          case (Inl e)
          with fs_rename_view [OF n] v have v4: "view s4 = (view s)(tmp \<mapsto> b)" by auto
          with no ne have "\<not> is_file path s4" by (simp add: is_file_def)
          with Inl q3 q2 Inr c a k n run have "isl r" "s' = s4"
            by (cases r; auto simp: write_atomic_body_def create_new_file_def io_runs)+
          with v4 show ?thesis by auto
        next
          case q4: (Inr u4)
          with fs_rename_view [OF n] v have "view s4 = (view s)(tmp := None, path \<mapsto> b)" by auto
          with v1 have "view s4 = (view s)(path \<mapsto> b)" by (auto simp: fun_eq_iff)
          moreover from q4 q3 q2 Inr c a k n run have "r = Inr ()" "s' = s4"
            by (cases r; auto simp: write_atomic_body_def create_new_file_def io_runs)+
          ultimately show ?thesis using v1 by blast
        qed
      qed
    qed
  qed
qed

lemma PartPath_ne [simp]: "PartPath p n \<noteq> p" "p \<noteq> PartPath p n"
proof -
  show *: "PartPath p n \<noteq> p" by (induction p arbitrary: n) auto
  then show "p \<noteq> PartPath p n" by metis
qed

lemma write_atomic_view:
  assumes run: "write_atomic path b s = (r, s')"
  shows "view s path \<noteq> None \<Longrightarrow> r = Inr () \<and> view s' = view s"
    and "view s path = None \<Longrightarrow>
      (r = Inr () \<and> view s' = (view s)(path \<mapsto> b)) \<or> (isl r \<and> scratch path b (view s) (view s'))"
proof -
  assume "view s path \<noteq> None"
  with run show "r = Inr () \<and> view s' = view s"
    by (cases r) (auto simp: write_atomic_def io_runs is_file_def)
next
  assume no: "view s path = None"
  obtain q1 s1 where d: "create_dir path s = (q1, s1)" by fastforce
  have v1: "view s1 = view s" by (rule reads_only_view [OF reads_create_dir d])
  show "(r = Inr () \<and> view s' = (view s)(path \<mapsto> b)) \<or> (isl r \<and> scratch path b (view s) (view s'))"
  proof (cases q1)
    case (Inl e)
    with run d no v1 show ?thesis by (cases r) (auto simp: write_atomic_def io_runs is_file_def)
  next
    case (Inr u)
    define tmp where "tmp = PartPath path (temp_counter s1)"
    define s2 where "s2 = s1\<lparr>temp_counter := temp_counter s1 + 1\<rparr>"
    have t: "temporary_path path s1 = (Inr tmp, s2)" by (simp add: temporary_path_def tmp_def s2_def)
    have v2: "view s2 = view s" by (simp add: s2_def v1)
    obtain q3 s3 where w: "write_atomic_body path tmp b s2 = (q3, s3)" by fastforce
    obtain q4 s4 where m: "fs_remove tmp s3 = (q4, s4)" by fastforce
    have rest: "r = q3 \<and> (if isl q3 \<or> is_file path s3 then s' = s4 else s' = s3)"
      using run d no Inr t w m
      by (cases r; cases q3) (auto simp: write_atomic_def io_runs is_file_def split: if_splits)
    have ne: "tmp \<noteq> path" by (simp add: tmp_def)
    from write_atomic_body_view [OF w ne] v2 no
    consider (good) "q3 = Inr ()" "view s tmp = None" "view s3 = (view s)(path \<mapsto> b)"
      | (bad) "isl q3" "view s3 = view s \<or> (\<exists>x. length x \<le> length b \<and> view s3 = (view s)(tmp \<mapsto> x))"
      by auto
    then show ?thesis
    proof cases
      case good
      with rest fs_remove_view [OF m] ne have "view s' = (view s)(path \<mapsto> b)"
        by (auto simp: is_file_def fun_eq_iff)
      with good rest show ?thesis by simp
    next
      case bad
      have g: "scratch path b F (F(tmp := c))" if "\<forall>x. c = Some x \<longrightarrow> length x \<le> length b" for F c
        using that unfolding scratch_def tmp_def by blast
      have "scratch path b (view s) (view s4)"
        using fs_remove_view [OF m] bad(2) g [of None] g [of "Some _"] by (auto simp: fun_upd_upd)
      with bad rest show ?thesis by auto
    qed
  qed
qed

section \<open>The bytes a store occupies\<close>

definition in_store :: "spath \<Rightarrow> bool" where
  "in_store p = (in_blocks p \<or> in_manifests p)"

definition usage :: "(spath \<Rightarrow> bytes option) \<Rightarrow> nat" where
  "usage F = (\<Sum>p \<in> {p \<in> dom F. in_store p}. length (the (F p)))"

lemma usage_upd:
  assumes "finite (dom F)"
  shows "usage (F(p \<mapsto> b)) = usage (F(p := None)) + (if in_store p then length b else 0)"
    and "usage F = usage (F(p := None)) + (if in_store p then (case F p of None \<Rightarrow> 0 | Some a \<Rightarrow> length a) else 0)"
proof -
  let ?A = "{q \<in> dom F. in_store q} - {p}"
  have fin: "finite ?A" using assms by simp
  have "{q \<in> dom (F(p := None)). in_store q} = ?A" by auto
  then have none: "usage (F(p := None)) = (\<Sum>q\<in>?A. length (the (F q)))"
    unfolding usage_def by (auto intro: sum.cong)
  have some: "{q \<in> dom (F(p \<mapsto> b)). in_store q} = (if in_store p then insert p ?A else ?A)" by auto
  have same: "(\<Sum>q\<in>?A. length (the ((F(p \<mapsto> b)) q))) = (\<Sum>q\<in>?A. length (the (F q)))"
    by (rule sum.cong) auto
  show "usage (F(p \<mapsto> b)) = usage (F(p := None)) + (if in_store p then length b else 0)"
  proof (cases "in_store p")
    case True
    have "usage (F(p \<mapsto> b)) = (\<Sum>q\<in>insert p ?A. length (the ((F(p \<mapsto> b)) q)))"
      unfolding usage_def using some True by simp
    also have "\<dots> = length b + (\<Sum>q\<in>?A. length (the ((F(p \<mapsto> b)) q)))"
      by (subst sum.insert [OF fin]) simp_all
    finally show ?thesis unfolding same none using True by simp
  next
    case False
    then have "usage (F(p \<mapsto> b)) = (\<Sum>q\<in>?A. length (the ((F(p \<mapsto> b)) q)))"
      by (simp only: usage_def some if_False)
    with False same none show ?thesis by simp
  qed
  show "usage F = usage (F(p := None)) + (if in_store p then (case F p of None \<Rightarrow> 0 | Some a \<Rightarrow> length a) else 0)"
  proof (cases "F p")
    case None
    then have "F(p := None) = F" by (simp add: fun_eq_iff)
    with None show ?thesis by simp
  next
    case (Some a)
    then have dom: "{q \<in> dom F. in_store q} = (if in_store p then insert p ?A else ?A)" by auto
    show ?thesis
    proof (cases "in_store p")
      case True
      have "usage F = (\<Sum>q\<in>insert p ?A. length (the (F q)))"
        unfolding usage_def by (subst dom) (simp only: True if_True)
      also have "\<dots> = length a + (\<Sum>q\<in>?A. length (the (F q)))"
        by (subst sum.insert [OF fin]) (simp_all add: Some)
      finally show ?thesis using True none Some by simp
    next
      case False
      have "usage F = (\<Sum>q\<in>?A. length (the (F q)))" unfolding usage_def by (subst dom) (simp only: False if_False)
      with False none show ?thesis by simp
    qed
  qed
qed

lemma finite_view [simp]: "finite (dom (view s))"
  by (simp add: file_at_def [abs_def] finite_dom_map_of)

lemma usage_del_le: "finite (dom F) \<Longrightarrow> usage (F(p := None)) \<le> usage F"
  using usage_upd(2) [of F p] by simp

lemma usage_put_le: "finite (dom F) \<Longrightarrow> length b \<le> n \<Longrightarrow> usage (F(p \<mapsto> b)) \<le> usage F + n"
  using usage_upd(1) [of F p b] usage_del_le [of F p] by (simp split: if_splits)

lemma usage_scratch:
  assumes "scratch path b F G" "finite (dom F)"
  shows "usage G \<le> usage F + length b"
proof -
  from assms(1) obtain n c where g: "G = F \<or> G = F(PartPath path n := c)" "\<forall>x. c = Some x \<longrightarrow> length x \<le> length b"
    unfolding scratch_def by blast
  with usage_put_le [OF assms(2)] usage_del_le [OF assms(2), of "PartPath path n"] show ?thesis
    by (cases c) (auto intro: le_trans)
qed

lemma usage_write_atomic:
  assumes "write_atomic path b s = (r, s')"
  shows "usage (view s') \<le> usage (view s) + length b"
    and "view s path \<noteq> None \<Longrightarrow> usage (view s') = usage (view s)"
  using write_atomic_view [OF assms] usage_put_le [OF finite_view, of b "length b" s path]
    usage_scratch [OF _ finite_view, of path b s "view s'"]
  by (cases "view s path"; auto)+

text \<open>The files of the store as the directory listing counts them.\<close>

definition dir_bytes :: "(spath \<Rightarrow> bool) \<Rightarrow> spath fs \<Rightarrow> nat" where
  "dir_bytes inside s = sum_list (map (\<lambda>e. length (snd e)) (dir_entries inside s))"

definition fs_sane :: "spath fs \<Rightarrow> bool" where
  "fs_sane s = (fs_ok s \<and> usage (view s) < 2 ^ 64)"

lemma fs_sane_length: "fs_sane s \<Longrightarrow> view s p = Some b \<Longrightarrow> in_store p \<Longrightarrow> length b < 2 ^ 64"
  using usage_upd(2) [of "view s" p] by (simp add: fs_sane_def)

lemma sum_entries:
  assumes "fs_ok s"
  shows "sum_list (map (\<lambda>e. length (snd e)) (filter (\<lambda>e. P (fst e)) (files s))) =
    (\<Sum>p \<in> {p \<in> dom (view s). P p}. length (the (view s p)))"
proof -
  let ?l = "filter (\<lambda>e. P (fst e)) (files s)"
  have d: "distinct (map fst (files s))" using assms by (simp add: fs_ok_def hm_ok_def)
  then have dl: "distinct ?l" by (simp add: distinct_map)
  have "sum_list (map (\<lambda>e. length (snd e)) ?l) = (\<Sum>e\<in>set ?l. length (snd e))"
    using dl by (simp add: sum_list_distinct_conv_sum_set)
  also have "\<dots> = (\<Sum>e\<in>set ?l. length (the (view s (fst e))))"
    by (rule sum.cong) (auto simp: file_at_def d)
  also have "\<dots> = (\<Sum>p\<in>fst ` set ?l. length (the (view s p)))"
  proof (rule sum.reindex [symmetric, unfolded o_def])
    show "inj_on fst (set ?l)" using d by (auto simp: distinct_map inj_on_def)
  qed
  also have "fst ` set ?l = {p \<in> dom (view s). P p}"
    by (auto simp: file_at_def [abs_def] dom_map_of_conv_image_fst)
  finally show ?thesis .
qed

section \<open>No file appears twice\<close>

definition keeps_ok :: "('e, 'a, 'p fs) io \<Rightarrow> bool" where
  "keeps_ok m = (\<forall>s r s'. m s = (r, s') \<longrightarrow> fs_ok s \<longrightarrow> fs_ok s')"

named_theorems keeps \<open>operations that keep the file table well formed\<close>

lemma keeps_okD: "keeps_ok m \<Longrightarrow> m s = (r, s') \<Longrightarrow> fs_ok s \<Longrightarrow> fs_ok s'"
  by (simp add: keeps_ok_def)

lemma keeps_reads: "reads_only m \<Longrightarrow> keeps_ok m"
  by (simp add: keeps_ok_def reads_only_def fs_ok_def)

lemmas keeps_basic [keeps] = reads_basic [THEN keeps_reads] reads_check [THEN keeps_reads]
  reads_read [THEN keeps_reads] reads_create_dir [THEN keeps_reads] reads_temporary_path [THEN keeps_reads]
  reads_stats [THEN keeps_reads] reads_verify_blocks [THEN keeps_reads] reads_verify [THEN keeps_reads]

lemma keeps_bind [keeps]: "keeps_ok m \<Longrightarrow> (\<And>x. keeps_ok (f x)) \<Longrightarrow> keeps_ok (io_bind m f)"
  unfolding keeps_ok_def by (auto elim!: io_bind_cases)

lemma keeps_map_err [keeps]: "keeps_ok m \<Longrightarrow> keeps_ok (io_map_err g m)"
  unfolding keeps_ok_def io_map_err_def by (auto split: prod.splits sum.splits)

lemma keeps_ok [keeps]: "keeps_ok m \<Longrightarrow> keeps_ok (io_ok m)"
  unfolding keeps_ok_def io_ok_def by (auto split: prod.splits sum.splits)

lemma keeps_try [keeps]: "keeps_ok m \<Longrightarrow> keeps_ok (io_try m)"
  unfolding keeps_ok_def io_try_def by (auto split: prod.splits)

lemma keeps_if [keeps]: "keeps_ok m \<Longrightarrow> keeps_ok n \<Longrightarrow> keeps_ok (if c then m else n)"
  by simp

lemma keeps_sum [keeps]:
  "(\<And>x. keeps_ok (f x)) \<Longrightarrow> (\<And>x. keeps_ok (g x)) \<Longrightarrow> keeps_ok (case z of Inl x \<Rightarrow> f x | Inr x \<Rightarrow> g x)"
  by (cases z) simp_all

lemma keeps_prod [keeps]: "(\<And>x y. keeps_ok (f x y)) \<Longrightarrow> keeps_ok (case z of (x, y) \<Rightarrow> f x y)"
  by (cases z) simp

lemma fs_ok_put: "fs_ok s \<Longrightarrow> fs_ok (put_file p b s)"
  by (simp add: fs_ok_del)

lemma keeps_create_new [keeps]: "keeps_ok (fs_create_new p)"
proof -
  have "keeps_ok (\<lambda>s. case view s p of None \<Rightarrow> (Inr (), put_file p [] s) | Some b \<Rightarrow> (Inl AlreadyExists, s))"
    by (auto simp: keeps_ok_def fs_ok_del split: option.splits)
  then show ?thesis unfolding fs_create_new_def by (intro keeps)
qed

lemma keeps_append [keeps]: "keeps_ok (fs_append p b)"
proof -
  have "fs_ok t = fs_ok s" if "take_fault s = (f, t)" for s t :: "'a fs" and f
    using take_fault_files(1) [OF that] by (simp add: fs_ok_def)
  then show ?thesis
    by (auto simp: keeps_ok_def fs_append_def fs_ok_del split: prod.splits option.splits)
qed

lemma keeps_rename [keeps]: "keeps_ok (fs_rename p q)"
proof -
  have "keeps_ok (\<lambda>s. case view s p of None \<Rightarrow> (Inl NotFound, s) | Some b \<Rightarrow> (Inr (), put_file q b (del_file p s)))"
    by (auto simp: keeps_ok_def fs_ok_del split: option.splits)
  then show ?thesis unfolding fs_rename_def by (intro keeps)
qed

lemma keeps_remove [keeps]: "keeps_ok (fs_remove p)"
proof -
  have "keeps_ok (\<lambda>s. case view s p of None \<Rightarrow> (Inl NotFound, s) | Some b \<Rightarrow> (Inr (), del_file p s))"
    by (auto simp: keeps_ok_def fs_ok_del split: option.splits)
  then show ?thesis unfolding fs_remove_def by (intro keeps)
qed

lemma keeps_write_atomic [keeps]: "keeps_ok (write_atomic p b)"
  unfolding write_atomic_def write_atomic_body_def create_new_file_def by (intro keeps)

lemma keeps_store_block [keeps]: "keeps_ok (store_block st r b)"
  unfolding store_block_def Let_def by (intro keeps)

lemma keeps_commit_manifest [keeps]: "keeps_ok (commit_manifest st m)"
  unfolding commit_manifest_def Let_def by (intro keeps)

lemma keeps_import_loop [keeps]: "keeps_ok (import_loop st path i rs src)"
  by (induction st path i rs src rule: import_loop.induct)
    (auto simp: Let_def split: prod.splits sum.splits intro!: keeps)

lemma keeps_import [keeps]: "keeps_ok (import_artifact st path a b)"
  unfolding import_artifact_def Let_def by (intro keeps)

lemma keeps_export_loop [keeps]: "keeps_ok (export_loop rs tmp)"
  by (induction rs) (auto intro!: keeps)

lemma keeps_export [keeps]: "keeps_ok (export_artifact st i dest)"
  unfolding export_artifact_def export_body_def create_new_file_def by (intro keeps)

end
