(* ===== verification/Store_Quota.thy ===== *)
theory Store_Quota
  imports Store_Frame
begin

text \<open>The byte quota: what \<open>stats\<close> reports, and that no operation exceeds the quota.\<close>

section \<open>What stats reports\<close>

lemma unat_le64: "unat (w :: u64) \<le> 2 ^ 64 - 1"
proof -
  have "unat w < 2 ^ LENGTH(64)" by (rule unsigned_less)
  then show ?thesis by simp
qed

lemma usage_loop_total:
  assumes "usage_loop es c t s = (Inr (c', t'), s')" "\<forall>e\<in>set es. length (snd e) < 2 ^ 64"
  shows "unat t' = min (unat t + sum_list (map (\<lambda>e. length (snd e)) es)) (2 ^ 64 - 1)"
  using assms
proof (induction es c t arbitrary: s rule: usage_loop.induct)
  case (1 c t)
  then show ?case using unat_le64 [of t] by (simp add: io_runs)
next
  case (2 p b es c t)
  from 2(2,3) obtain s1 where
    r: "usage_loop es (c + 1) (sat_add t (of_nat (length b))) s1 = (Inr (c', t'), s')"
    by (auto simp: io_runs)
  have "unat (sat_add t (of_nat (length b))) = min (unat t + length b) (2 ^ 64 - 1)"
    using 2(3) by (simp add: unat_sat_add unat_of_nat_small)
  with 2(1) [OF r] 2(3) show ?case by simp
qed

lemma directory_usage_total:
  assumes "directory_usage d inside s = (Inr (c, t), s')" "fs_sane s" "\<And>p. inside p \<Longrightarrow> in_store p"
  shows "unat t = min (\<Sum>p \<in> {p \<in> dom (view s). inside p}. length (the (view s p))) (2 ^ 64 - 1)"
proof -
  from assms(1) obtain s1 where s1: "fs_check s = (Inr (), s1)"
    and l: "usage_loop (dir_entries inside s1) 0 0 s1 = (Inr (c, t), s')"
    by (auto simp: directory_usage_def io_runs)
  have f: "files s1 = files s" by (rule reads_onlyD [OF reads_check s1])
  have d: "distinct (map fst (files s))" using assms(2) by (simp add: fs_sane_def fs_ok_def hm_ok_def)
  have "\<forall>e\<in>set (dir_entries inside s1). length (snd e) < 2 ^ 64"
  proof
    fix e assume "e \<in> set (dir_entries inside s1)"
    then have "e \<in> set (files s)" by (simp add: dir_entries_def f)
    then have "view s (fst e) = Some (snd e)" using d by (simp add: file_at_def)
    moreover have "in_store (fst e)" using \<open>e \<in> set (dir_entries inside s1)\<close> assms(3) by (simp add: dir_entries_def)
    ultimately show "length (snd e) < 2 ^ 64" by (rule fs_sane_length [OF assms(2)])
  qed
  from usage_loop_total [OF l this] show ?thesis
    using sum_entries [of s inside] assms(2) by (simp add: dir_entries_def f fs_sane_def)
qed

lemma fs_sane_reads: "reads_only m \<Longrightarrow> m s = (r, s') \<Longrightarrow> fs_sane s' = fs_sane s"
  using reads_onlyD [of m s r s'] reads_only_view [of m s r s'] by (simp add: fs_sane_def fs_ok_def)

lemma in_store_disjoint: "\<not> (in_blocks p \<and> in_manifests p)"
  by (cases p rule: in_blocks.cases) auto

lemma stats_used:
  assumes "stats st s = (Inr t, s')" "fs_sane s"
  shows "unat (used_bytes t) = min (usage (view s)) (2 ^ 64 - 1)"
    and "stats_quota t = quota_bytes st" and "view s' = view s"
proof -
  from assms(1) obtain c1 b1 s1 c2 b2 where
    d1: "directory_usage blocks_dir in_blocks s = (Inr (c1, b1), s1)" and
    d2: "directory_usage manifests_dir in_manifests s1 = (Inr (c2, b2), s')" and
    t: "t = \<lparr>artifact_count = c2, block_count = c1, used_bytes = sat_add b1 b2, stats_quota = quota_bytes st\<rparr>"
    by (auto simp: stats_def io_runs)
  have v: "view s1 = view s" by (rule reads_only_view [OF reads_directory_usage d1])
  have sane: "fs_sane s1" using fs_sane_reads [OF reads_directory_usage d1] assms(2) by simp
  let ?S = "\<lambda>P. \<Sum>p \<in> {p \<in> dom (view s). P p}. length (the (view s p))"
  have "{p \<in> dom (view s). in_store p} = {p \<in> dom (view s). in_blocks p} \<union> {p \<in> dom (view s). in_manifests p}"
    by (auto simp: in_store_def)
  then have "usage (view s) = ?S in_blocks + ?S in_manifests"
    unfolding usage_def using in_store_disjoint by (simp add: sum.union_disjoint disjoint_iff)
  then show "unat (used_bytes t) = min (usage (view s)) (2 ^ 64 - 1)"
    using directory_usage_total [OF d1 assms(2)] directory_usage_total [OF d2 sane]
    by (simp add: t unat_sat_add v in_store_def)
  show "stats_quota t = quota_bytes st" by (simp add: t)
  show "view s' = view s" by (rule reads_only_view [OF reads_stats assms(1)])
qed

section \<open>Storing a block\<close>

lemma store_call_reads_view: "reads_only m \<Longrightarrow> m s = (r, s') \<Longrightarrow> usage (view s') = usage (view s)"
  by (simp add: reads_only_view)

lemma fs_read_some: "fs_read p s = (Inr b, s') \<Longrightarrow> view s p = Some b \<and> view s' = view s"
  unfolding fs_read_def by (elim io_bind_cases) (auto split: option.splits dest: fs_check_view)

lemma fs_remove_usage:
  assumes "fs_remove p s = (r, s')"
  shows "usage (view s') \<le> usage (view s)"
  using fs_remove_view [OF assms] usage_del_le [OF finite_view, of s p] by auto

text \<open>
  What \<open>store_block\<close> can do: change nothing, remove the damaged copy it found, or go on to the
  atomic write, which it does only within the quota.
\<close>

lemma store_block_cases:
  assumes run: "store_block st r b s = (res, s')"
  obtains (same) "view s' = view s"
      "res = Inr () \<Longrightarrow> \<exists>c. view s (BlockPath (block_id r)) = Some c \<and> block_matches (env st) r c"
  | (removed) x e where "view s (BlockPath (block_id r)) = Some x"
      "res = Inl (StoreIo (BlockPath (block_id r)) e)"
      "view s' = (view s)(BlockPath (block_id r) := None)"
      "block_matches (env st) r b"
  | (written) existing t s1 s2 s3 where "block_matches (env st) r b" "view s1 = view s"
      "stats st s1 = (Inr t, s2)" "files s1 = files s"
      "case existing of None \<Rightarrow> True | Some v \<Rightarrow> view s (BlockPath (block_id r)) = Some v \<and>
         \<not> (length v = length b \<and> digest (env st) v = block_id r)"
      "\<not> of_nat (length b) > sat_add (sat_sub (quota_bytes st) (used_bytes t))
         (case existing of Some v \<Rightarrow> of_nat (length v) | None \<Rightarrow> 0)"
      "view s3 = (view s)(BlockPath (block_id r) := None)"
      "write_atomic (BlockPath (block_id r)) b s3 = (res, s')"
      "unat (block_len r) \<le> BLOCK_BYTES" "block_len r \<noteq> 0"
proof -
  let ?p = "BlockPath (block_id r)"
  show ?thesis
  proof (cases "block_len r = 0 \<or> unat (block_len r) > BLOCK_BYTES \<or> \<not> block_matches (env st) r b")
    case True
    with run have "view s' = view s" "isl res" by (simp_all add: store_block_def io_throw_def) auto
    then show ?thesis by (auto intro: same)
  next
    case ok: False
    obtain q1 s1 where rd: "fs_read ?p s = (q1, s1)" by fastforce
    have v1: "view s1 = view s" and f1: "files s1 = files s"
      by (rule reads_only_view [OF reads_read rd], rule reads_onlyD [OF reads_read rd])
    define ex where "ex = (case q1 of Inl _ \<Rightarrow> None | Inr x \<Rightarrow> Some x)"
    have exv: "view s ?p = Some v" if "ex = Some v" for v
      using that fs_read_some [of ?p s v s1] rd by (auto simp: ex_def split: sum.splits)
    show ?thesis
    proof (cases "case ex of Some v \<Rightarrow> length v = length b \<and> digest (env st) v = block_id r | None \<Rightarrow> False")
      case True
      with run ok rd have "s' = s1"
        by (cases res) (auto simp: store_block_def io_runs Let_def ex_def [symmetric])
      moreover have "\<exists>c. view s ?p = Some c \<and> block_matches (env st) r c"
        using True ok exv by (auto simp: block_matches_def split: option.splits)
      ultimately show ?thesis using v1 by (auto intro: same)
    next
      case new: False
      obtain q2 s2 where st2: "stats st s1 = (q2, s2)" by fastforce
      have v2: "view s2 = view s" using reads_only_view [OF reads_stats st2] v1 by simp
      show ?thesis
      proof (cases q2)
        case (Inl e)
        with run ok rd new st2 have "s' = s2" "isl res"
          by (cases res; auto simp: store_block_def io_runs Let_def ex_def [symmetric])+
        with v2 show ?thesis by (auto intro: same)
      next
        case (Inr t)
        let ?av = "sat_add (sat_sub (quota_bytes st) (used_bytes t))
          (case ex of Some v \<Rightarrow> of_nat (length v) | None \<Rightarrow> 0)"
        show ?thesis
        proof (cases "of_nat (length b) > ?av")
          case True
          with run ok rd new st2 Inr have "s' = s2" "isl res"
            by (cases res; auto simp: store_block_def io_runs Let_def ex_def [symmetric])+
          with v2 show ?thesis by (auto intro: same)
        next
          case room: False
          have tail: "io_bind (if is_file ?p s2 then store_call ?p (fs_remove ?p) else io_return ())
              (\<lambda>_. write_atomic ?p b) s2 = (res, s')"
            using run ok rd new st2 Inr room
            by (cases res) (auto simp: store_block_def io_runs Let_def ex_def [symmetric])
          have exc: "case ex of None \<Rightarrow> True | Some v \<Rightarrow> view s ?p = Some v \<and>
              \<not> (length v = length b \<and> digest (env st) v = block_id r)"
            using new exv by (cases ex) auto
          have go: thesis if "view s3 = (view s)(?p := None)" "write_atomic ?p b s3 = (res, s')" for s3
            using written [OF _ v1 _ f1 exc room that] ok st2 Inr by auto
          show ?thesis
          proof (cases "is_file ?p s2")
            case False
            with v2 have "view s2 = (view s)(?p := None)" by (auto simp: is_file_def fun_eq_iff)
            with False tail show ?thesis by (intro go) (auto simp: io_defs)
          next
            case True
            obtain q3 s3 where rm: "fs_remove ?p s2 = (q3, s3)" by fastforce
            show ?thesis
            proof (cases q3)
              case (Inl e)
              with tail True rm have "s' = s3" "res = Inl (StoreIo ?p e)" by (cases res; auto simp: io_runs)+
              moreover have "\<exists>x. view s ?p = Some x" using True v2 by (auto simp: is_file_def)
              ultimately show ?thesis
                using fs_remove_view [OF rm] v2 ok removed same by auto
            next
              case (Inr u)
              with fs_remove_view [OF rm] v2 have "view s3 = (view s)(?p := None)" by auto
              moreover from tail True rm Inr have "write_atomic ?p b s3 = (res, s')"
                by (cases res) (auto simp: io_runs)
              ultimately show ?thesis by (rule go)
            qed
          qed
        qed
      qed
    qed
  qed
qed

text \<open>Storing a block never takes the store over its quota, whichever call fails.\<close>

lemma store_block_usage:
  assumes run: "store_block st r b s = (res, s')" and sane: "fs_sane s"
  shows "usage (view s') \<le> max (unat (quota_bytes st)) (usage (view s))"
using run
proof (cases rule: store_block_cases)
  case same
  then show ?thesis by simp
next
  case (removed x e)
  then show ?thesis using usage_del_le [OF finite_view, of s] by (simp add: le_max_iff_disj)
next
  case (written ex t s1 s2 s3)
  let ?p = "BlockPath (block_id r)"
  have sane1: "fs_sane s1" using sane written(2,4) by (simp add: fs_sane_def fs_ok_def)
  have used: "unat (used_bytes t) = min (usage (view s)) (2 ^ 64 - 1)"
    using stats_used(1) [OF written(3) sane1] written(2) by simp
  have len: "length b < 2 ^ 64"
    using written(1,9) by (simp add: block_matches_def BLOCK_BYTES_def)
  define old where "old = (case view s ?p of None \<Rightarrow> 0 | Some a \<Rightarrow> length a)"
  have old: "old < 2 ^ 64" using fs_sane_length [OF sane, of ?p] by (auto simp: old_def in_store_def split: option.splits)
  have base: "usage (view s) = usage (view s3) + old"
    using usage_upd(2) [OF finite_view, of s ?p] by (simp add: written(7) old_def in_store_def)
  have rec: "unat (case ex of Some v \<Rightarrow> of_nat (length v) | None \<Rightarrow> (0 :: u64)) \<le> old"
    using written(5) old by (auto simp: old_def unat_of_nat_small split: option.splits)
  have "length b \<le> unat (sat_add (sat_sub (quota_bytes st) (used_bytes t))
      (case ex of Some v \<Rightarrow> of_nat (length v) | None \<Rightarrow> 0))"
    using written(6) len by (simp add: word_le_nat_alt [symmetric] not_less) (simp add: word_le_nat_alt unat_of_nat_small)
  also have "\<dots> \<le> (unat (quota_bytes st) - min (usage (view s)) (2 ^ 64 - 1)) + old"
    using rec used by (simp add: unat_sat_add unat_sat_sub)
  finally have b: "length b \<le> (unat (quota_bytes st) - usage (view s)) + old"
    using unat_le64 [of "quota_bytes st"] by linarith
  have "usage (view s') \<le> usage (view s3) + length b"
    by (rule usage_write_atomic(1) [OF written(8)])
  with b base show ?thesis by linarith
qed

section \<open>Committing a manifest\<close>

lemma quota_write:
  assumes "write_atomic p b s2 = (res, s')" "stats st s1 = (Inr t, s2)" "fs_sane s1" "length b < 2 ^ 64"
    and "\<not> of_nat (length b) > sat_sub (quota_bytes st) (used_bytes t)"
  shows "usage (view s') \<le> max (unat (quota_bytes st)) (usage (view s1))"
proof -
  have "length b \<le> unat (sat_sub (quota_bytes st) (used_bytes t))"
    using assms(4,5) by (simp add: word_le_nat_alt unat_of_nat_small not_less)
  also have "\<dots> = unat (quota_bytes st) - min (usage (view s1)) (2 ^ 64 - 1)"
    by (simp add: unat_sat_sub stats_used(1) [OF assms(2,3)])
  finally have "length b \<le> unat (quota_bytes st) - usage (view s1)"
    using unat_le64 [of "quota_bytes st"] by linarith
  with usage_write_atomic(1) [OF assms(1)] stats_used(3) [OF assms(2,3)] show ?thesis by simp
qed

text \<open>A commit verified the artifact and then found the manifest, or wrote it within the quota.\<close>

lemma commit_manifest_cases:
  assumes run: "commit_manifest st m s = (res, s')"
  obtains (failed) "isl res" "view s' = view s"
  | (kept) s1 where "res = Inr ()" "validate_manifest m = Inr ()" "verify_manifest_blocks st m s = (Inr (), s1)"
      "view s (ManifestPath (artifact_id m)) \<noteq> None" "view s' = view s"
  | (written) s1 t s2 where "validate_manifest m = Inr ()" "verify_manifest_blocks st m s = (Inr (), s1)"
      "stats st s1 = (Inr t, s2)" "view s (ManifestPath (artifact_id m)) = None"
      "\<not> of_nat (length (to_json (env st) m)) > sat_sub (quota_bytes st) (used_bytes t)"
      "write_atomic (ManifestPath (artifact_id m)) (to_json (env st) m) s2 = (res, s')"
proof -
  obtain q1 s1 where v: "verify_manifest_blocks st m s = (q1, s1)" by fastforce
  have v1: "view s1 = view s" by (rule reads_only_view [OF reads_verify_blocks v])
  obtain q2 s2 where t: "stats st s1 = (q2, s2)" by fastforce
  have v2: "view s2 = view s" using reads_only_view [OF reads_stats t] v1 by simp
  show ?thesis
  proof (cases "validate_manifest m")
    case Inl
    with run have "isl res" "s' = s" by (cases res; auto simp: commit_manifest_def io_runs)+
    then show ?thesis by (auto intro: failed)
  next
    case val: (Inr u)
    show ?thesis
    proof (cases q1)
      case Inl
      with val run v have "isl res" "s' = s1" by (cases res; auto simp: commit_manifest_def io_runs)+
      then show ?thesis using v1 by (auto intro: failed)
    next
      case q1: (Inr u1)
      show ?thesis
      proof (cases "is_file (ManifestPath (artifact_id m)) s1")
        case True
        with val run v q1 have "res = Inr ()" "s' = s1"
          by (cases res; auto simp: commit_manifest_def io_runs Let_def)+
        with True val v q1 v1 show ?thesis by (auto simp: is_file_def intro: kept)
      next
        case False
        show ?thesis
        proof (cases q2)
          case Inl
          with False val run v q1 t have "isl res" "s' = s2"
            by (cases res; auto simp: commit_manifest_def io_runs Let_def)+
          then show ?thesis using v2 by (auto intro: failed)
        next
          case (Inr tt)
          show ?thesis
          proof (cases "of_nat (length (to_json (env st) m)) > sat_sub (quota_bytes st) (used_bytes tt)")
            case True
            with Inr False val run v q1 t have "isl res" "s' = s2"
              by (cases res; auto simp: commit_manifest_def io_runs Let_def)+
            then show ?thesis using v2 by (auto intro: failed)
          next
            case room: False
            with Inr False val run v q1 t
            have "write_atomic (ManifestPath (artifact_id m)) (to_json (env st) m) s2 = (res, s')"
              by (cases res; auto simp: commit_manifest_def io_runs Let_def)
            with room Inr False val v q1 t v1 show ?thesis by (auto simp: is_file_def intro: written)
          qed
        qed
      qed
    qed
  qed
qed

definition json_small :: "store_env \<Rightarrow> bool" where
  "json_small e = (\<forall>m. length (to_json e m) < 2 ^ 63)"

lemma commit_manifest_usage:
  assumes run: "commit_manifest st m s = (res, s')" and sane: "fs_sane s" and small: "json_small (env st)"
  shows "usage (view s') \<le> max (unat (quota_bytes st)) (usage (view s))"
using run
proof (cases rule: commit_manifest_cases)
  case (written s1 t s2)
  have v: "view s1 = view s" by (rule reads_only_view [OF reads_verify_blocks written(2)])
  have sane1: "fs_sane s1" using fs_sane_reads [OF reads_verify_blocks written(2)] sane by simp
  have "length (to_json (env st) m) < 2 ^ 63" using small by (simp add: json_small_def)
  then have "length (to_json (env st) m) < 2 ^ 64" by simp
  from quota_write [OF written(6,3) sane1 this written(5)] v show ?thesis by simp
qed simp_all

end
