(* ===== verification/Store_Import.thy ===== *)
theory Store_Import
  imports Store_Quota
begin

text \<open>Importing a file: the bytes needed, the loop over the blocks, and the quota.\<close>

section \<open>What a pass over the source reads\<close>

definition source_all :: "source \<Rightarrow> bytes" where
  "source_all src = concat (map (\<lambda>r. case r of Inl _ \<Rightarrow> [] | Inr b \<Rightarrow> b) src)"

lemma source_read_all: "source_read n src = (Inr b, r) \<Longrightarrow> source_all src = b @ source_all r"
  by (induction n src rule: source_read.induct) (auto simp: source_all_def split: if_splits)

lemma read_block_from_all: "read_block_from cap src = (Inr b, r) \<Longrightarrow> source_all src = b @ source_all r"
proof (induction cap src arbitrary: b r rule: read_block_from.induct)
  case (1 cap src)
  show ?case
  proof (cases "cap = 0")
    case True
    with "1.prems" show ?thesis by (simp add: read_block_from.simps)
  next
    case False
    with "1.prems" obtain c q where c: "source_read cap src = (Inr c, q)"
      by (subst (asm) read_block_from.simps) (auto split: prod.splits sum.splits if_splits)
    show ?thesis
    proof (cases "c = []")
      case True
      with False c "1.prems" source_read_all [OF c] show ?thesis
        by (subst (asm) read_block_from.simps) auto
    next
      case ne: False
      with False c "1.prems" obtain c' where
        "read_block_from (cap - length c) q = (Inr c', r)" "b = c @ c'"
        by (subst (asm) (2) read_block_from.simps) (auto split: prod.splits sum.splits)
      with "1.IH" [OF False c [symmetric] refl ne] source_read_all [OF c] show ?thesis by simp
    qed
  qed
qed

definition ref_of :: "store_env \<Rightarrow> bytes \<Rightarrow> block_ref" where
  "ref_of e b = \<lparr>block_id = digest e b, block_len = of_nat (length b)\<rparr>"

lemma ref_of_sel [simp]: "block_id (ref_of e b) = digest e b" "block_len (ref_of e b) = of_nat (length b)"
  by (simp_all add: ref_of_def)

lemma block_len_ref: "length b \<le> BLOCK_BYTES \<Longrightarrow> unat (block_len (ref_of e b)) = length b"
  by (simp add: BLOCK_BYTES_def unat_of_nat_small)

lemma describe_loop_spec:
  assumes "describe_loop e src h z bs = (Inr (h', z', bs'), r)"
  shows "\<exists>cs. h' = h @ concat cs \<and> z' = z + of_nat (length (concat cs)) \<and> bs' = bs @ map (ref_of e) cs
    \<and> (\<forall>c\<in>set cs. c \<noteq> [] \<and> length c \<le> BLOCK_BYTES) \<and> source_all src = concat cs @ source_all r"
  using assms
proof (induction e src h z bs rule: describe_loop.induct)
  case (1 e src h z bs)
  from "1.prems" obtain b q where b: "read_block_from BLOCK_BYTES src = (Inr b, q)"
    by (subst (asm) describe_loop.simps) (auto split: prod.splits sum.splits)
  note all = read_block_from_all [OF b] read_block_from_bytes [OF b]
  show ?case
  proof (cases "b = []")
    case True
    with "1.prems" b all show ?thesis
      by (subst (asm) describe_loop.simps) (auto intro!: exI [of _ "[]"])
  next
    case False
    with "1.prems" b have "describe_loop e q (h @ b) (z + of_nat (length b)) (bs @ [ref_of e b]) = (Inr (h', z', bs'), r)"
      by (subst (asm) describe_loop.simps) (simp add: ref_of_def)
    from "1.IH" [OF b [symmetric] refl False] this obtain cs where
      "h' = h @ b @ concat cs" "z' = z + of_nat (length b) + of_nat (length (concat cs))"
      "bs' = bs @ ref_of e b # map (ref_of e) cs"
      "\<forall>c\<in>set cs. c \<noteq> [] \<and> length c \<le> BLOCK_BYTES" "source_all q = concat cs @ source_all r"
      by (auto simp: ref_of_def)
    with all False show ?thesis by (intro exI [of _ "b # cs"]) auto
  qed
qed

text \<open>The manifest of a file cut into the pieces \<open>cs\<close>.\<close>

definition manifest_for :: "store_env \<Rightarrow> bytes list \<Rightarrow> artifact_manifest" where
  "manifest_for e cs = \<lparr>version = MANIFEST_VERSION, artifact_id = digest e (concat cs),
     artifact_size = of_nat (length (concat cs)), block_size = of_nat BLOCK_BYTES, blocks = map (ref_of e) cs\<rparr>"

lemma manifest_for_sel [simp]:
  "artifact_id (manifest_for e cs) = digest e (concat cs)" "blocks (manifest_for e cs) = map (ref_of e) cs"
  "artifact_size (manifest_for e cs) = of_nat (length (concat cs))"
  by (simp_all add: manifest_for_def)

lemma describe_spec:
  assumes "describe e path src = Inr m"
  obtains cs r where "m = manifest_for e cs" "\<forall>c\<in>set cs. c \<noteq> [] \<and> length c \<le> BLOCK_BYTES"
    "source_all src = concat cs @ r"
proof -
  from assms obtain h z bs r where d: "describe_loop e src [] 0 [] = (Inr (h, z, bs), r)"
    and m: "m = \<lparr>version = MANIFEST_VERSION, artifact_id = digest e h, artifact_size = z,
               block_size = of_nat BLOCK_BYTES, blocks = bs\<rparr>"
    by (auto simp: describe_def split: prod.splits sum.splits)
  from describe_loop_spec [OF d] m that show thesis by (auto simp: manifest_for_def)
qed

section \<open>The bytes an import needs\<close>

lemma unat_u32_u64: "unat (ucast (w :: u32) :: u64) = unat w"
proof -
  have "unat w < 2 ^ LENGTH(32)" by (rule unsigned_less)
  then show ?thesis by (simp add: unsigned_ucast_eq take_bit_nat_eq_self)
qed

fun need :: "content_id set \<Rightarrow> block_ref list \<Rightarrow> nat" where
  "need H [] = 0"
| "need H (r # rs) =
     (if block_id r \<in> H then need H rs else unat (block_len r) + need (insert (block_id r) H) rs)"

definition have_blocks :: "(spath \<Rightarrow> bytes option) \<Rightarrow> content_id set" where
  "have_blocks F = {i. F (BlockPath i) \<noteq> None}"

lemma required_loop_need:
  "unat (required_loop s rs new req) = min (unat req + need (have_blocks (view s) \<union> set new) rs) (2 ^ 64 - 1)"
proof (induction s rs new req rule: required_loop.induct)
  case (1 s new req)
  then show ?case using unat_le64 [of req] by simp
next
  case (2 s r rs new req)
  have w: "unat (ucast (block_len r) :: u64) = unat (block_len r)"
    by (rule unat_u32_u64)
  show ?case
  proof (cases "\<not> is_file (BlockPath (block_id r)) s \<and> block_id r \<notin> set new")
    case True
    then have n: "block_id r \<notin> have_blocks (view s) \<union> set new" by (auto simp: is_file_def have_blocks_def)
    have "unat (required_loop s (r # rs) new req) =
      min (unat (sat_add req (ucast (block_len r))) + need (have_blocks (view s) \<union> set (block_id r # new)) rs) (2 ^ 64 - 1)"
      using True 2(1) by simp
    then show ?thesis using n by (simp add: unat_sat_add w)
  next
    case False
    then have n: "block_id r \<in> have_blocks (view s) \<union> set new" by (auto simp: is_file_def have_blocks_def)
    have "unat (required_loop s (r # rs) new req) =
      min (unat req + need (have_blocks (view s) \<union> set new) rs) (2 ^ 64 - 1)"
      by (subst required_loop.simps(2), subst if_not_P [OF False]) (rule 2(2) [OF False])
    then show ?thesis using n by simp
  qed
qed

lemma need_le: "\<forall>r\<in>set rs. unat (block_len r) \<le> k \<Longrightarrow> need H rs \<le> length rs * k"
  by (induction H rs rule: need.induct) (auto simp: add.commute intro: order.trans add_mono)

section \<open>How an import changes the blocks\<close>

text \<open>Blocks are only added, each under the digest of its bytes; manifests stay.\<close>

definition grows :: "store_env \<Rightarrow> (spath \<Rightarrow> bytes option) \<Rightarrow> (spath \<Rightarrow> bytes option) \<Rightarrow> bool" where
  "grows e F G =
     ((\<forall>i b. F (BlockPath i) = Some b \<longrightarrow> G (BlockPath i) = Some b) \<and>
      (\<forall>i b. G (BlockPath i) = Some b \<longrightarrow> F (BlockPath i) = Some b \<or> digest e b = i) \<and>
      (\<forall>i. G (ManifestPath i) = F (ManifestPath i)) \<and> (\<forall>u. G (UserPath u) = F (UserPath u)))"

lemma grows_refl [simp]: "grows e F F"
  by (simp add: grows_def)

lemma grows_trans: "grows e F G \<Longrightarrow> grows e G H \<Longrightarrow> grows e F H"
  unfolding grows_def by metis

lemma grows_write:
  assumes "write_atomic (BlockPath i) b s = (r, s')" "digest e b = i"
  shows "grows e (view s) (view s')"
proof (cases "view s (BlockPath i)")
  case None
  from write_atomic_view(2) [OF assms(1) None] show ?thesis
  proof
    assume "r = Inr () \<and> view s' = (view s)(BlockPath i \<mapsto> b)"
    with None assms(2) show ?thesis by (auto simp: grows_def)
  next
    assume "isl r \<and> scratch (BlockPath i) b (view s) (view s')"
    then show ?thesis by (auto simp: grows_def scratch_def)
  qed
next
  case (Some x)
  with write_atomic_view(1) [OF assms(1)] show ?thesis by simp
qed

lemma import_loop_step:
  assumes "import_loop st path i (r # rs) src s = (res, s')"
  obtains (stop) s1 where "isl res" "s' = s1" "grows (env st) (view s) (view s1)"
      "usage (view s1) \<le> usage (view s) + (if block_id r \<in> have_blocks (view s) then 0 else unat (block_len r))"
  | (go) b src' s1 c where "read_block_from BLOCK_BYTES src = (Inr b, src')" "block_matches (env st) r b"
      "import_loop st path i rs src' s1 = (res, s')"
      "grows (env st) (view s) (view s1)" "view s1 (BlockPath (block_id r)) = Some c"
      "block_matches (env st) r c"
      "have_blocks (view s1) = insert (block_id r) (have_blocks (view s))"
      "usage (view s1) \<le> usage (view s) + (if block_id r \<in> have_blocks (view s) then 0 else unat (block_len r))"
proof -
  let ?p = "BlockPath (block_id r)"
  obtain q src' where rb: "read_block_from BLOCK_BYTES src = (q, src')" by fastforce
  show ?thesis
  proof (cases "\<exists>b. q = Inr b \<and> block_matches (env st) r b")
    case False
    with assms rb have "isl res" "s' = s" by (cases q; auto simp: io_runs block_matches_def)+
    then show ?thesis by (auto intro: stop)
  next
    case True
    then obtain b where q: "q = Inr b" and m: "block_matches (env st) r b" by blast
    define act where "act = (if is_file ?p s then
               io_bind (store_call ?p (fs_read ?p)) (\<lambda>existing.
               if \<not> block_matches (env st) r existing
               then io_throw (Integrity i (''existing block '' @ content_display (env st) (block_id r) @ '' is damaged''))
               else io_return ())
             else write_atomic ?p b)"
    obtain q1 s1 where a: "act s = (q1, s1)" by fastforce
    from assms rb q m have run: "io_bind act (\<lambda>_. import_loop st path i rs src') s = (res, s')"
      by (cases res) (auto simp: io_runs block_matches_def act_def Let_def)
    have inv: "grows (env st) (view s) (view s1) \<and>
      usage (view s1) \<le> usage (view s) + (if block_id r \<in> have_blocks (view s) then 0 else unat (block_len r)) \<and>
      (q1 = Inr () \<longrightarrow> (\<exists>c. view s1 ?p = Some c \<and> block_matches (env st) r c) \<and>
         have_blocks (view s1) = insert (block_id r) (have_blocks (view s)))"
    proof (cases "is_file ?p s")
      case there: True
      have "reads_only act" unfolding act_def using there by (auto intro!: reads)
      from reads_only_view [OF this a] have v: "view s1 = view s" .
      have "\<exists>c. view s1 ?p = Some c \<and> block_matches (env st) r c" if "q1 = Inr ()"
      proof -
        from a that there obtain c s0 where "fs_read ?p s = (Inr c, s0)" "block_matches (env st) r c"
          by (auto simp: act_def io_runs split: if_splits)
        with fs_read_some v show ?thesis by fastforce
      qed
      with there v show ?thesis by (auto simp: have_blocks_def is_file_def)
    next
      case False
      then have w: "write_atomic ?p b s = (q1, s1)" using a by (simp add: act_def)
      have none: "view s ?p = None" using False by (simp add: is_file_def)
      have "digest (env st) b = block_id r" "length b = unat (block_len r)" using m by (simp_all add: block_matches_def)
      with grows_write [OF w] usage_write_atomic(1) [OF w] write_atomic_view(2) [OF w none] none m show ?thesis
        by (auto simp: have_blocks_def)
    qed
    show ?thesis
    proof (cases q1)
      case (Inl err)
      with run a have "isl res" "s' = s1" by (cases res; auto simp: io_runs)+
      with inv show ?thesis by (auto intro: stop)
    next
      case (Inr u)
      with run a have "import_loop st path i rs src' s1 = (res, s')" by (cases res) (auto simp: io_runs)
      with inv Inr rb q m show ?thesis by (auto intro: go)
    qed
  qed
qed

text \<open>\<open>stored e F rs cs\<close>: the files of the blocks \<open>rs\<close> hold \<open>cs\<close>, which match their references.\<close>

definition stored :: "store_env \<Rightarrow> (spath \<Rightarrow> bytes option) \<Rightarrow> block_ref list \<Rightarrow> bytes list \<Rightarrow> bool" where
  "stored e F rs cs = list_all2 (\<lambda>r c. F (BlockPath (block_id r)) = Some c \<and> block_matches e r c) rs cs"

lemma stored_grows: "stored e F rs cs \<Longrightarrow> grows e F G \<Longrightarrow> stored e G rs cs"
  unfolding stored_def by (erule list_all2_mono) (auto simp: grows_def)

lemma import_loop_spec:
  assumes "import_loop st path i rs src s = (res, s')"
  shows "grows (env st) (view s) (view s') \<and> usage (view s') \<le> usage (view s) + need (have_blocks (view s)) rs \<and>
    (\<forall>src'. res = Inr src' \<longrightarrow> (\<exists>ds cs. source_all src = concat ds @ source_all src' \<and>
       list_all2 (block_matches (env st)) rs ds \<and> stored (env st) (view s') rs cs))"
  using assms
proof (induction rs arbitrary: src s)
  case Nil
  then show ?case by (auto simp: io_runs stored_def intro: exI [of _ "[]"])
next
  case (Cons r rs)
  from Cons.prems show ?case
  proof (cases rule: import_loop_step)
    case (stop s1)
    then show ?thesis by auto
  next
    case (go b src' s1 c)
    from Cons.IH [OF go(3)] have g: "grows (env st) (view s1) (view s')"
      and u: "usage (view s') \<le> usage (view s1) + need (insert (block_id r) (have_blocks (view s))) rs"
      and r: "\<And>x. res = Inr x \<Longrightarrow> \<exists>ds cs. source_all src' = concat ds @ source_all x \<and>
         list_all2 (block_matches (env st)) rs ds \<and> stored (env st) (view s') rs cs"
      using go(7) by auto
    have "usage (view s') \<le> usage (view s) + need (have_blocks (view s)) (r # rs)"
      using u go(8) by (cases "block_id r \<in> have_blocks (view s)") (simp_all add: insert_absorb)
    moreover have "\<exists>ds cs. source_all src = concat ds @ source_all x \<and>
         list_all2 (block_matches (env st)) (r # rs) ds \<and> stored (env st) (view s') (r # rs) cs" if "res = Inr x" for x
    proof -
      from r [OF that] obtain ds cs where d: "source_all src' = concat ds @ source_all x"
        "list_all2 (block_matches (env st)) rs ds" "stored (env st) (view s') rs cs" by blast
      have "view s' (BlockPath (block_id r)) = Some c" using g go(5) by (simp add: grows_def)
      with d go(2,6) read_block_from_all [OF go(1)] show ?thesis
        by (intro exI [of _ "b # ds"] exI [of _ "c # cs"]) (simp add: stored_def)
    qed
    ultimately show ?thesis using grows_trans [OF go(4) g] by blast
  qed
qed

text \<open>What an import did: nothing, a part of the blocks, or everything.\<close>

definition import_required :: "artifact_store \<Rightarrow> artifact_manifest \<Rightarrow> spath fs \<Rightarrow> u64" where
  "import_required st m s = required_loop s (blocks m) []
     (if is_file (ManifestPath (artifact_id m)) s then 0 else of_nat (length (to_json (env st) m)))"

lemma import_cases:
  assumes run: "import_artifact st path src1 src2 s = (res, s')"
  obtains (failed) "isl res" "view s' = view s"
  | (partial) m sb t sc sd q where "isl res" "describe (env st) path src1 = Inr m" "validate_manifest m = Inr ()"
      "files sb = files s" "stats st sb = (Inr t, sc)" "files sd = files s"
      "\<not> import_required st m sb > sat_sub (quota_bytes st) (used_bytes t)"
      "import_loop st path (artifact_id m) (blocks m) src2 sd = (q, s')"
      "\<forall>n k. res = Inl (QuotaExceeded n k) \<longrightarrow> q = Inl (QuotaExceeded n k)"
  | (complete) m sb t sc sd se rest rest' w where "describe (env st) path src1 = Inr m" "validate_manifest m = Inr ()"
      "files sb = files s" "stats st sb = (Inr t, sc)" "files sd = files s"
      "\<not> import_required st m sb > sat_sub (quota_bytes st) (used_bytes t)"
      "import_loop st path (artifact_id m) (blocks m) src2 sd = (Inr rest, se)"
      "read_block_from BLOCK_BYTES rest = (Inr [], rest')"
      "write_atomic (ManifestPath (artifact_id m)) (to_json (env st) m) se = (w, s')"
      "res = (case w of Inl e \<Rightarrow> Inl e | Inr _ \<Rightarrow> Inr m)"
proof -
  obtain q1 sb where c1: "fs_check s = (q1, sb)" by fastforce
  have f1: "files sb = files s" by (rule reads_onlyD [OF reads_check c1])
  then have v1: "view sb = view s" by (simp add: file_at_def fun_eq_iff)
  obtain q2 sc where st: "stats st sb = (q2, sc)" by fastforce
  have f2: "files sc = files s" using reads_onlyD [OF reads_stats st] f1 by simp
  then have v2: "view sc = view s" by (simp add: file_at_def fun_eq_iff)
  obtain q3 sd where c2: "fs_check sc = (q3, sd)" by fastforce
  have f3: "files sd = files s" using reads_onlyD [OF reads_check c2] f2 by simp
  then have v3: "view sd = view s" by (simp add: file_at_def fun_eq_iff)
  note D = import_artifact_def io_runs Let_def import_required_def
  show ?thesis
  proof (cases q1)
    case Inl
    with run c1 have "isl res" "s' = sb" by (cases res; auto simp: D)+
    with v1 show ?thesis by (auto intro: failed)
  next
    case q1: (Inr u1)
    show ?thesis
    proof (cases "describe (env st) path src1")
      case Inl
      with q1 run c1 have "isl res" "s' = sb" by (cases res; auto simp: D)+
      with v1 show ?thesis by (auto intro: failed)
    next
      case m: (Inr m)
      show ?thesis
      proof (cases "validate_manifest m")
        case Inl
        with m q1 run c1 have "isl res" "s' = sb" by (cases res; auto simp: D)+
        with v1 show ?thesis by (auto intro: failed)
      next
        case val: (Inr u2)
        show ?thesis
        proof (cases q2)
          case Inl
          with val m q1 run c1 st have "isl res" "s' = sc" by (cases res; auto simp: D)+
          with v2 show ?thesis by (auto intro: failed)
        next
          case q2: (Inr t)
          show ?thesis
          proof (cases "import_required st m sb > sat_sub (quota_bytes st) (used_bytes t)")
            case True
            with q2 val m q1 run c1 st have "isl res" "s' = sc" by (cases res; auto simp: D)+
            with v2 show ?thesis by (auto intro: failed)
          next
            case room: False
            show ?thesis
            proof (cases q3)
              case Inl
              with room q2 val m q1 run c1 st c2 have "isl res" "s' = sd" by (cases res; auto simp: D)+
              with v3 show ?thesis by (auto intro: failed)
            next
              case q3: (Inr u3)
              obtain q4 se where lp: "import_loop st path (artifact_id m) (blocks m) src2 sd = (q4, se)" by fastforce
              have tail: "io_bind (import_loop st path (artifact_id m) (blocks m) src2) (\<lambda>rest.
                 case read_block_from BLOCK_BYTES rest of
                   (Inl err, _) \<Rightarrow> io_throw (StoreIo path err)
                 | (Inr b, _) \<Rightarrow>
                     if b \<noteq> [] then io_throw (Integrity (artifact_id m) ''source grew while it was being imported'')
                     else io_bind (write_atomic (ManifestPath (artifact_id m)) (to_json (env st) m)) (\<lambda>_. io_return m)) sd = (res, s')"
                using q3 room q2 val m q1 run c1 st c2 by (cases res) (auto simp: D)
              show ?thesis
              proof (cases "\<exists>rest rest'. q4 = Inr rest \<and> read_block_from BLOCK_BYTES rest = (Inr [], rest')")
                case False
                with tail lp have "isl res" "s' = se" "\<forall>n k. res = Inl (QuotaExceeded n k) \<longrightarrow> q4 = Inl (QuotaExceeded n k)"
                  by (cases res; cases q4; auto simp: io_runs split: prod.splits sum.splits if_splits)+
                with partial [OF _ m _ f1 st [unfolded q2] f3 room, of q4] lp val show ?thesis by auto
              next
                case True
                then obtain rest rest' where r: "q4 = Inr rest" "read_block_from BLOCK_BYTES rest = (Inr [], rest')" by blast
                obtain w sf where w: "write_atomic (ManifestPath (artifact_id m)) (to_json (env st) m) se = (w, sf)" by fastforce
                from tail lp r w have "s' = sf" "res = (case w of Inl e \<Rightarrow> Inl e | Inr _ \<Rightarrow> Inr m)"
                  by (cases res; cases w; auto simp: io_runs)+
                with complete [OF m _ f1 st [unfolded q2] f3 room] lp r w val show ?thesis by auto
              qed
            qed
          qed
        qed
      qed
    qed
  qed
qed

end
