(* ===== verification/Store_Session.thy ===== *)
theory Store_Session
  imports Store_Import
begin

text \<open>
  Exports, and sessions: sequences of the public operations of one store, each under its own
  schedule of faults. The quota and the content addressing of a whole session.
\<close>

section \<open>Manifests that pass validation\<close>

lemma declared_size_sum:
  assumes "sum_list (map (\<lambda>b. unat (block_len b)) (blocks m)) < 2 ^ 64"
  shows "unat (declared_size m) = sum_list (map (\<lambda>b. unat (block_len b)) (blocks m))"
proof -
  have "unat (fold (\<lambda>b acc. acc + ucast (block_len b)) bs a) = unat a + sum_list (map (\<lambda>b. unat (block_len b)) bs)"
    if "unat a + sum_list (map (\<lambda>b. unat (block_len b)) bs) < 2 ^ 64" for a :: u64 and bs
    using that
  proof (induction bs arbitrary: a)
    case (Cons b bs)
    then have "unat (a + ucast (block_len b)) = unat a + unat (block_len b)"
      by (subst unat_add_small) (simp_all add: unat_u32_u64)
    with Cons show ?case by simp
  qed simp
  from this [of 0] assms show ?thesis by (simp add: declared_size_def)
qed

lemma validate_manifestD:
  assumes "validate_manifest m = Inr ()"
  shows "length (blocks m) \<le> MAX_ARTIFACT_BLOCKS" and "\<forall>r\<in>set (blocks m). 0 < unat (block_len r) \<and> unat (block_len r) \<le> BLOCK_BYTES"
    and "unat (artifact_size m) = sum_list (map (\<lambda>b. unat (block_len b)) (blocks m))"
    and "unat (artifact_size m) \<le> MAX_ARTIFACT_BLOCKS * BLOCK_BYTES"
proof -
  show n: "length (blocks m) \<le> MAX_ARTIFACT_BLOCKS"
    and r: "\<forall>r\<in>set (blocks m). 0 < unat (block_len r) \<and> unat (block_len r) \<le> BLOCK_BYTES"
    using assms by (auto simp: validate_manifest_def Let_def not_less unat_gt_0 split: if_splits)
  have "sum_list (map (\<lambda>b. unat (block_len b)) (blocks m)) \<le> sum_list (map (\<lambda>b. BLOCK_BYTES) (blocks m))"
    using r by (intro sum_list_mono) auto
  also have "\<dots> = length (blocks m) * BLOCK_BYTES" by (simp add: sum_list_triv)
  also have "\<dots> \<le> MAX_ARTIFACT_BLOCKS * BLOCK_BYTES" using n by simp
  finally have le: "sum_list (map (\<lambda>b. unat (block_len b)) (blocks m)) \<le> MAX_ARTIFACT_BLOCKS * BLOCK_BYTES" .
  then have "sum_list (map (\<lambda>b. unat (block_len b)) (blocks m)) < 2 ^ 64"
    by (simp add: MAX_ARTIFACT_BLOCKS_def BLOCK_BYTES_def)
  from declared_size_sum [OF this] assms show s: "unat (artifact_size m) = sum_list (map (\<lambda>b. unat (block_len b)) (blocks m))"
    by (auto simp: validate_manifest_def Let_def split: if_splits)
  show "unat (artifact_size m) \<le> MAX_ARTIFACT_BLOCKS * BLOCK_BYTES" using s le by simp
qed

section \<open>An import within the quota\<close>

lemma import_room:
  assumes val: "validate_manifest m = Inr ()" and fb: "files sb = files s" and st: "stats st sb = (Inr t, sc)"
    and room: "\<not> import_required st m sb > sat_sub (quota_bytes st) (used_bytes t)"
    and sane: "fs_sane s" and small: "json_small (env st)"
  shows "(if view s (ManifestPath (artifact_id m)) = None then length (to_json (env st) m) else 0) +
    need (have_blocks (view s)) (blocks m) \<le> unat (quota_bytes st) - usage (view s)"
proof -
  have v: "view sb = view s" using fb by (simp add: file_at_def fun_eq_iff)
  have sane1: "fs_sane sb" using sane fb v by (simp add: fs_sane_def fs_ok_def)
  let ?x = "if view s (ManifestPath (artifact_id m)) = None then length (to_json (env st) m) else 0"
  let ?n = "need (have_blocks (view s)) (blocks m)"
  have j: "length (to_json (env st) m) < 2 ^ 63" using small by (simp add: json_small_def)
  have "?n \<le> length (blocks m) * BLOCK_BYTES"
    using validate_manifestD(2) [OF val] by (intro need_le) auto
  also have "\<dots> \<le> MAX_ARTIFACT_BLOCKS * BLOCK_BYTES"
    using validate_manifestD(1) [OF val] by simp
  finally have n: "?n \<le> 2 ^ 32" by (simp add: MAX_ARTIFACT_BLOCKS_def BLOCK_BYTES_def)
  have x: "unat (if is_file (ManifestPath (artifact_id m)) sb then 0 else of_nat (length (to_json (env st) m)) :: u64) = ?x"
    using j v by (simp add: is_file_def unat_of_nat_small)
  have "unat (import_required st m sb) = min (?x + ?n) (2 ^ 64 - 1)"
    unfolding import_required_def required_loop_need x by (simp add: v)
  also have "\<dots> = ?x + ?n" using n j by (simp split: if_splits)
  finally have "?x + ?n \<le> unat (sat_sub (quota_bytes st) (used_bytes t))"
    using room by (simp add: word_le_nat_alt not_less)
  then have "?x + ?n \<le> unat (quota_bytes st) - min (usage (view s)) (2 ^ 64 - 1)"
    by (simp add: unat_sat_sub stats_used(1) [OF st sane1] v)
  then show ?thesis using unat_le64 [of "quota_bytes st"] by linarith
qed

lemma import_usage:
  assumes run: "import_artifact st path a b s = (res, s')" and sane: "fs_sane s" and small: "json_small (env st)"
  shows "usage (view s') \<le> max (unat (quota_bytes st)) (usage (view s))"
  using run
proof (cases rule: import_cases)
  case failed
  then show ?thesis by simp
next
  case (partial m sb t sc sd q)
  have v: "view sd = view s" using partial(6) by (simp add: file_at_def fun_eq_iff)
  from import_loop_spec [OF partial(8)] v
  have "usage (view s') \<le> usage (view s) + need (have_blocks (view s)) (blocks m)" by simp
  with import_room [OF partial(3,4,5,7) sane small] show ?thesis by linarith
next
  case (complete m sb t sc sd se rest rest' w)
  have v: "view sd = view s" using complete(5) by (simp add: file_at_def fun_eq_iff)
  from import_loop_spec [OF complete(7)] v
  have u: "usage (view se) \<le> usage (view s) + need (have_blocks (view s)) (blocks m)"
    and g: "view se (ManifestPath (artifact_id m)) = view s (ManifestPath (artifact_id m))"
    by (auto simp: grows_def)
  from usage_write_atomic [OF complete(9)] g
  have "usage (view s') \<le> usage (view se) + (if view s (ManifestPath (artifact_id m)) = None then length (to_json (env st) m) else 0)"
    by auto
  with u import_room [OF complete(2,3,4,6) sane small] show ?thesis by linarith
qed

section \<open>Exporting\<close>

lemma export_loop_view:
  assumes "export_loop rs tmp s = (res, s')" "view s tmp = Some a" "\<forall>r\<in>set rs. BlockPath (block_id r) \<noteq> tmp"
  shows "(res = Inr () \<and> (\<exists>cs. list_all2 (\<lambda>r c. view s (BlockPath (block_id r)) = Some c) rs cs \<and>
      view s' = (view s)(tmp \<mapsto> a @ concat cs))) \<or> (isl res \<and> (\<exists>x. view s' = (view s)(tmp \<mapsto> x)))"
  using assms
proof (induction rs arbitrary: s a)
  case Nil
  then show ?case by (auto simp: io_runs fun_eq_iff)
next
  case (Cons r rs)
  let ?p = "BlockPath (block_id r)"
  obtain q1 s1 where rd: "fs_read ?p s = (q1, s1)" by fastforce
  have v1: "view s1 = view s" by (rule reads_only_view [OF reads_read rd])
  show ?case
  proof (cases q1)
    case (Inl e)
    with Cons.prems rd have "isl res" "s' = s1" by (cases res; auto simp: io_runs)+
    moreover have "(view s)(tmp \<mapsto> a) = view s" using Cons.prems(2) by (simp add: fun_upd_idem)
    ultimately show ?thesis using v1 by metis
  next
    case (Inr b)
    with rd have b: "view s ?p = Some b" using fs_read_some [of ?p s b s1] by simp
    obtain q2 s2 where ap: "fs_append tmp b s1 = (q2, s2)" by fastforce
    from fs_append_view [OF ap, of a] v1 Cons.prems(2)
    have v2: "(q2 = Inr () \<and> view s2 = (view s)(tmp \<mapsto> a @ b)) \<or> (isl q2 \<and> (\<exists>x. view s2 = (view s)(tmp \<mapsto> x)))"
      by auto
    show ?thesis
    proof (cases q2)
      case Inl
      with Cons.prems rd Inr ap have "isl res" "s' = s2" by (cases res; auto simp: io_runs)+
      moreover from v2 Inl have "\<exists>x. view s2 = (view s)(tmp \<mapsto> x)" by blast
      ultimately show ?thesis by blast
    next
      case q2: (Inr u)
      with Cons.prems rd Inr ap have run: "export_loop rs tmp s2 = (res, s')" by (cases res) (auto simp: io_runs)
      from v2 q2 have v: "view s2 = (view s)(tmp \<mapsto> a @ b)" by simp
      have blk: "view s2 (BlockPath (block_id x)) = view s (BlockPath (block_id x))" if "x \<in> set rs" for x
        using that Cons.prems(3) v by auto
      from Cons.IH [OF run, of "a @ b"] v Cons.prems(3)
      consider (good) cs where "res = Inr ()" "list_all2 (\<lambda>r c. view s2 (BlockPath (block_id r)) = Some c) rs cs"
          "view s' = (view s2)(tmp \<mapsto> (a @ b) @ concat cs)"
        | (bad) x where "isl res" "view s' = (view s2)(tmp \<mapsto> x)" by fastforce
      then show ?thesis
      proof cases
        case good
        have "list_all2 (\<lambda>r c. view s (BlockPath (block_id r)) = Some c) rs cs"
          using good(2) blk by (auto intro: list.rel_mono_strong)
        with good b v show ?thesis by (intro disjI1) (auto intro!: exI [of _ "b # cs"])
      next
        case bad
        with v show ?thesis by auto
      qed
    qed
  qed
qed

lemma export_view:
  assumes run: "export_artifact st i dest s = (res, s')" and user: "dest = UserPath u"
  obtains (failed) n c where "isl res" "view s' = view s \<or> view s' = (view s)(PartPath dest n := c)"
  | (finished) m cs s1 where "res = Inr ()" "view s dest = None" "verify st i s = (Inr m, s1)"
      "list_all2 (\<lambda>r c. view s (BlockPath (block_id r)) = Some c) (blocks m) cs"
      "view s' = (view s)(dest \<mapsto> concat cs)"
proof (cases "is_file dest s")
  case True
  with run have "isl res" "s' = s" by (cases res; auto simp: export_artifact_def io_runs)+
  then show ?thesis by (auto intro: failed)
next
  case none: False
  then have no: "view s dest = None" by (simp add: is_file_def)
  obtain q1 s1 where vf: "verify st i s = (q1, s1)" by fastforce
  have v1: "view s1 = view s" by (rule reads_only_view [OF reads_verify vf])
  obtain q2 s2 where cd: "create_dir dest s1 = (q2, s2)" by fastforce
  have v2: "view s2 = view s" using reads_only_view [OF reads_create_dir cd] v1 by simp
  show ?thesis
  proof (cases "\<exists>m. q1 = Inr m \<and> q2 = Inr ()")
    case False
    with none run vf cd v1 v2 have "isl res \<and> view s' = view s"
      by (cases res; cases q1; cases q2) (auto simp: export_artifact_def io_runs)
    then show ?thesis by (auto intro: failed)
  next
    case True
    then obtain m where q: "q1 = Inr m" "q2 = Inr ()" by blast
    define tmp where "tmp = PartPath dest (temp_counter s2)"
    define s3 where "s3 = s2\<lparr>temp_counter := temp_counter s2 + 1\<rparr>"
    have v3: "view s3 = view s" by (simp add: s3_def v2)
    obtain q4 s4 where bd: "export_body m tmp dest s3 = (q4, s4)" by fastforce
    obtain q5 s5 where rm: "fs_remove tmp s4 = (q5, s5)" by fastforce
    have t: "temporary_path dest s2 = (Inr tmp, s3)" by (simp add: temporary_path_def tmp_def s3_def)
    have fin: "res = q4 \<and> s' = (if isl q4 then s5 else s4)"
      using run none vf cd q t bd rm
      by (cases res; cases q4) (auto simp: export_artifact_def io_runs)
    have "(isl q4 \<and> (\<exists>c. view s4 = (view s)(tmp := c))) \<or> (q4 = Inr () \<and> (\<exists>cs.
      list_all2 (\<lambda>r c. view s (BlockPath (block_id r)) = Some c) (blocks m) cs \<and> view s4 = (view s)(dest \<mapsto> concat cs)))"
    proof -
      obtain p1 t1 where c: "fs_create_new tmp s3 = (p1, t1)" by fastforce
      obtain p2 t2 where l: "export_loop (blocks m) tmp t1 = (p2, t2)" by fastforce
      obtain p3 t3 where k: "fs_check t2 = (p3, t3)" by fastforce
      obtain p4 t4 where n: "fs_rename tmp dest t3 = (p4, t4)" by fastforce
      note k3 = fs_check_view [OF k]
      have same: "\<exists>c. view s = (view s)(tmp := c)" by (metis fun_upd_triv)
      show ?thesis
      proof (cases p1)
        case Inl
        with bd c have "isl q4" "s4 = t1" unfolding export_body_def create_new_file_def by (cases q4; auto simp: io_runs)+
        moreover have "view t1 = view s" using fs_create_new_view [OF c] Inl v3 by auto
        ultimately show ?thesis using same by simp
      next
        case p1: (Inr x1)
        with fs_create_new_view [OF c] v3 have w: "view s tmp = None" "view t1 = (view s)(tmp \<mapsto> [])" by auto
        have ne: "\<forall>r\<in>set (blocks m). BlockPath (block_id r) \<noteq> tmp" by (simp add: tmp_def)
        from export_loop_view [OF l, of "[]"] w ne
        have lv: "(p2 = Inr () \<and> (\<exists>cs. list_all2 (\<lambda>r c. view t1 (BlockPath (block_id r)) = Some c) (blocks m) cs \<and>
          view t2 = (view s)(tmp \<mapsto> concat cs))) \<or> (isl p2 \<and> (\<exists>x. view t2 = (view s)(tmp \<mapsto> x)))" by auto
        show ?thesis
        proof (cases p2)
          case Inl
          with bd c p1 l have "isl q4" "s4 = t2" unfolding export_body_def create_new_file_def by (cases q4; auto simp: io_runs)+
          with lv Inl show ?thesis by auto
        next
          case p2: (Inr x2)
          with lv obtain cs where cs: "list_all2 (\<lambda>r c. view t1 (BlockPath (block_id r)) = Some c) (blocks m) cs"
            "view t2 = (view s)(tmp \<mapsto> concat cs)" by auto
          have cs': "list_all2 (\<lambda>r c. view s (BlockPath (block_id r)) = Some c) (blocks m) cs"
            using cs(1) ne w by (auto intro!: list.rel_mono_strong [OF cs(1)])
          show ?thesis
          proof (cases p3)
            case Inl
            with bd c p1 l p2 k have "isl q4" "s4 = t3" unfolding export_body_def create_new_file_def by (cases q4; auto simp: io_runs)+
            with k3 cs show ?thesis by auto
          next
            case p3: (Inr x3)
            with bd c p1 l p2 k n have e: "s4 = t4" "isl q4 = isl p4" "isl p4 \<or> q4 = Inr ()"
              unfolding export_body_def create_new_file_def by (cases q4; cases p4; auto simp: io_runs)+
            show ?thesis
            proof (cases p4)
              case Inl
              with fs_rename_view [OF n] e k3 cs show ?thesis by auto
            next
              case (Inr x4)
              with fs_rename_view [OF n] k3 cs have "view t4 = ((view s)(tmp \<mapsto> concat cs))(tmp := None, dest \<mapsto> concat cs)"
                by auto
              then have "view t4 = (view s)(dest \<mapsto> concat cs)" using w by (auto simp: fun_eq_iff)
              with e Inr cs' show ?thesis by auto
            qed
          qed
        qed
      qed
    qed
    then consider (bad) c where "isl q4" "view s4 = (view s)(tmp := c)"
      | (good) cs where "q4 = Inr ()" "list_all2 (\<lambda>r c. view s (BlockPath (block_id r)) = Some c) (blocks m) cs"
        "view s4 = (view s)(dest \<mapsto> concat cs)" by blast
    then show ?thesis
    proof cases
      case bad
      with fs_remove_view [OF rm] have "view s5 = (view s)(tmp := None) \<or> view s5 = (view s)(tmp := c)" by auto
      with bad fin show ?thesis unfolding tmp_def by (auto intro: failed)
    next
      case good
      with fin no vf q show ?thesis by (auto intro: finished)
    qed
  qed
qed

end
