(* ===== verification/Store_Props.thy ===== *)
theory Store_Props
  imports Store_Session
begin

text \<open>The properties of the artifact store, with a concrete environment for their witnesses.\<close>

section \<open>Sessions\<close>

datatype store_op =
    OpImport string source source
  | OpBlock block_ref bytes
  | OpCommit artifact_manifest
  | OpExport content_id string
  | OpVerify content_id
  | OpManifest content_id
  | OpMissing artifact_manifest
  | OpReadBlock block_ref
  | OpStats
  | OpList

fun run_op :: "artifact_store \<Rightarrow> store_op \<Rightarrow> spath fs \<Rightarrow> spath fs" where
  "run_op st (OpImport p a b) s = snd (import_artifact st (UserPath p) a b s)"
| "run_op st (OpBlock r b) s = snd (store_block st r b s)"
| "run_op st (OpCommit m) s = snd (commit_manifest st m s)"
| "run_op st (OpExport i p) s = snd (export_artifact st i (UserPath p) s)"
| "run_op st (OpVerify i) s = snd (verify st i s)"
| "run_op st (OpManifest i) s = snd (manifest_of st i s)"
| "run_op st (OpMissing m) s = snd (missing_blocks st m s)"
| "run_op st (OpReadBlock r) s = snd (store_read_block st r s)"
| "run_op st OpStats s = snd (stats st s)"
| "run_op st OpList s = snd (list_artifacts st s)"

definition run_ops :: "artifact_store \<Rightarrow> store_op list \<Rightarrow> spath fs \<Rightarrow> spath fs" where
  "run_ops st ops s = fold (run_op st) ops s"

lemma run_ops_simps [simp]:
  "run_ops st [] s = s" "run_ops st (c # ops) s = run_ops st ops (run_op st c s)"
  by (simp_all add: run_ops_def)

lemma snd_view: "reads_only m \<Longrightarrow> view (snd (m s)) = view s"
  by (cases "m s") (simp add: reads_only_view)

lemma snd_ok: "keeps_ok m \<Longrightarrow> fs_ok s \<Longrightarrow> fs_ok (snd (m s))"
  by (cases "m s") (simp add: keeps_okD)

text \<open>All but four operations leave the files alone.\<close>

fun op_reads :: "store_op \<Rightarrow> bool" where
  "op_reads (OpImport p a b) = False"
| "op_reads (OpBlock r b) = False"
| "op_reads (OpCommit m) = False"
| "op_reads (OpExport i p) = False"
| "op_reads c = True"

lemma run_op_reads:
  assumes "op_reads c"
  shows "view (run_op st c s) = view s" and "fs_ok (run_op st c s) = fs_ok s"
proof -
  have *: "files (snd (m s)) = files s" if "reads_only m" for m :: "('e, 'a, spath fs) io"
    using reads_onlyD [OF that] by (cases "m s") simp
  have "files (run_op st c s) = files s"
    using assms by (cases c) (simp_all add: * reads)
  then show "view (run_op st c s) = view s" "fs_ok (run_op st c s) = fs_ok s"
    by (simp_all add: file_at_def fs_ok_def fun_eq_iff)
qed

lemma run_op_ok: "fs_ok s \<Longrightarrow> fs_ok (run_op st c s)"
proof (cases c)
  case (OpImport p a b) then show "fs_ok s \<Longrightarrow> ?thesis" by (simp add: snd_ok keeps)
next
  case (OpBlock r b) then show "fs_ok s \<Longrightarrow> ?thesis" by (simp add: snd_ok keeps)
next
  case (OpCommit m) then show "fs_ok s \<Longrightarrow> ?thesis" by (simp add: snd_ok keeps)
next
  case (OpExport i p) then show "fs_ok s \<Longrightarrow> ?thesis" by (simp add: snd_ok keeps)
qed (simp_all add: run_op_reads del: run_op.simps)

lemma usage_user: "in_store p = False \<Longrightarrow> finite (dom F) \<Longrightarrow> usage (F(p := c)) = usage F"
  using usage_upd [of F p] by (cases c) simp_all

lemma not_in_store [simp]: "in_store (UserPath u) = False" "in_store (PartPath (UserPath u) n) = False"
  by (simp_all add: in_store_def)

lemma export_usage:
  assumes "export_artifact st i (UserPath u) s = (res, s')"
  shows "usage (view s') = usage (view s)"
  using assms
proof (cases rule: export_view [OF assms refl])
  case (1 n c)
  then show ?thesis by (auto simp: usage_user)
next
  case (2 m cs s1)
  then show ?thesis by (simp add: usage_user)
qed

lemma run_op_usage:
  assumes "fs_ok s" "usage (view s) < 2 ^ 64" "json_small (env st)"
  shows "usage (view (run_op st c s)) \<le> max (unat (quota_bytes st)) (usage (view s))"
proof -
  have sane: "fs_sane s" using assms(1,2) by (simp add: fs_sane_def)
  show ?thesis
  proof (cases c)
    case (OpImport p a b)
    obtain r s' where r: "import_artifact st (UserPath p) a b s = (r, s')" by fastforce
    from import_usage [OF r sane assms(3)] show ?thesis by (simp add: OpImport r)
  next
    case (OpBlock rf b)
    obtain r s' where r: "store_block st rf b s = (r, s')" by fastforce
    from store_block_usage [OF r sane] show ?thesis by (simp add: OpBlock r)
  next
    case (OpCommit m)
    obtain r s' where r: "commit_manifest st m s = (r, s')" by fastforce
    from commit_manifest_usage [OF r sane assms(3)] show ?thesis by (simp add: OpCommit r)
  next
    case (OpExport i p)
    obtain r s' where r: "export_artifact st i (UserPath p) s = (r, s')" by fastforce
    from export_usage [OF r] show ?thesis by (simp add: OpExport r)
  qed (simp_all add: run_op_reads del: run_op.simps)
qed

section \<open>A concrete environment\<close>

text \<open>Lower-case hex, as the hex crate documents it.\<close>

definition hex_digits :: string where "hex_digits = ''0123456789abcdef''"

definition nibble :: "nat \<Rightarrow> char" where "nibble n = hex_digits ! n"

definition nibble_value :: "char \<Rightarrow> nat option" where
  "nibble_value c = map_of (zip hex_digits [0..<16]) c"

fun hex_text :: "bytes \<Rightarrow> string" where
  "hex_text [] = []"
| "hex_text (b # bs) = nibble (unat b div 16) # nibble (unat b mod 16) # hex_text bs"

fun hex_parse :: "string \<Rightarrow> bytes option" where
  "hex_parse [] = Some []"
| "hex_parse (c # d # cs) =
     (case (nibble_value c, nibble_value d, hex_parse cs) of
        (Some x, Some y, Some bs) \<Rightarrow> Some (of_nat (16 * x + y) # bs)
      | _ \<Rightarrow> None)"
| "hex_parse [c] = None"

lemma nibble_value_nibble: "n < 16 \<Longrightarrow> nibble_value (nibble n) = Some n"
proof -
  have "\<forall>n\<in>set [0..<16]. nibble_value (nibble n) = Some n" by code_simp
  then show "n < 16 \<Longrightarrow> ?thesis" by simp
qed

lemma nibble_digit: "n < 16 \<Longrightarrow> nibble n \<in> set hex_digits"
  unfolding nibble_def by (rule nth_mem) (simp add: hex_digits_def)

lemma byte_bound: "unat (b :: u8) < 256"
proof -
  have "unat b < 2 ^ LENGTH(8)" by (rule unsigned_less)
  then show ?thesis by simp
qed

lemma hex_parse_text: "hex_parse (hex_text bs) = Some bs"
proof (induction bs)
  case (Cons b bs)
  have "unat b div 16 < 16" "unat b mod 16 < 16" using byte_bound [of b] by auto
  with Cons show ?case by (simp add: nibble_value_nibble)
qed simp

lemma hex_text_digits: "set (hex_text bs) \<subseteq> set hex_digits"
proof (induction bs)
  case (Cons b bs)
  have "unat b div 16 < 16" "unat b mod 16 < 16" using byte_bound [of b] by auto
  with Cons show ?case by (simp add: nibble_digit)
qed simp

text \<open>The digest keeps the bytes; the manifest text is one byte and does not parse back.\<close>

definition toy_env :: store_env where
  "toy_env = \<lparr>digest = ContentId, to_json = (\<lambda>m. [1]), from_json = (\<lambda>b. None),
     hex_encode = hex_text, hex_decode = hex_parse\<rparr>"

definition toy_store :: artifact_store where
  "toy_store = \<lparr>env = toy_env, quota_bytes = 1000\<rparr>"

definition empty_fs :: "nat option list \<Rightarrow> spath fs" where
  "empty_fs fl = \<lparr>files = [], faults = fl, temp_counter = 1\<rparr>"

lemma usage_empty [simp]: "usage (view (empty_fs fl)) = 0" "fs_ok (empty_fs fl)"
  by (simp_all add: usage_def empty_fs_def file_at_def fs_ok_def hm_ok_def dom_def)

section \<open>Properties\<close>

text \<open>
  C7. No sequence of operations takes the blocks, the manifests and the temporary files of a store
  over its byte quota, whatever calls fail on the way: a store within its quota stays within it.
\<close>

theorem store_session_within_quota:
  assumes "fs_ok s" "usage (view s) \<le> unat (quota_bytes st)" "json_small (env st)"
  shows "usage (view (run_ops st ops s)) \<le> unat (quota_bytes st)"
  using assms(1,2)
proof (induction ops arbitrary: s)
  case (Cons c ops)
  have "usage (view s) < 2 ^ 64" using Cons.prems(2) unat_le64 [of "quota_bytes st"] by simp
  from run_op_usage [OF Cons.prems(1) this assms(3), of c] Cons.prems(2)
  have "usage (view (run_op st c s)) \<le> unat (quota_bytes st)" by simp
  from Cons.IH [OF run_op_ok [OF Cons.prems(1)] this] show ?case by simp
qed simp

theorem store_session_within_quota_witness:
  "usage (view (run_ops toy_store [OpImport ''a'' [Inr [1, 2]] [Inr [1, 2]], OpStats] (empty_fs [None, Some 3]))) \<le> 1000"
proof -
  have "json_small (env toy_store)" by (simp add: json_small_def toy_store_def toy_env_def)
  moreover have q: "unat (quota_bytes toy_store) = 1000" by (simp add: toy_store_def)
  ultimately show ?thesis
    using store_session_within_quota [of "empty_fs [None, Some 3]" toy_store] by (simp del: run_ops_simps)
qed

text \<open>The name of a block file is the digest of its bytes.\<close>

definition content_addressed :: "store_env \<Rightarrow> (spath \<Rightarrow> bytes option) \<Rightarrow> bool" where
  "content_addressed e F = (\<forall>i b. F (BlockPath i) = Some b \<longrightarrow> digest e b = i)"

lemma content_addressed_grows: "content_addressed e F \<Longrightarrow> grows e F G \<Longrightarrow> content_addressed e G"
  unfolding content_addressed_def grows_def by blast

lemma content_addressed_other:
  "content_addressed e F \<Longrightarrow> (\<And>i b. G (BlockPath i) = Some b \<Longrightarrow> F (BlockPath i) = Some b) \<Longrightarrow> content_addressed e G"
  unfolding content_addressed_def by blast

lemma write_manifest_blocks:
  assumes "write_atomic (ManifestPath i) b s = (r, s')"
  shows "view s' (BlockPath j) = view s (BlockPath j)"
  using write_atomic_view [OF assms] by (cases "view s (ManifestPath i)") (auto simp: scratch_def)

lemma import_blocks:
  assumes "import_artifact st path a b s = (res, s')"
  obtains t where "grows (env st) (view s) (view t)" "\<And>j. view s' (BlockPath j) = view t (BlockPath j)"
  using assms
proof (cases rule: import_cases)
  case failed
  then show ?thesis using that [of s] by simp
next
  case (partial m sb t sc sd q)
  have "view sd = view s" using partial(6) by (simp add: file_at_def fun_eq_iff)
  with import_loop_spec [OF partial(8)] that [of s'] show ?thesis by simp
next
  case (complete m sb t sc sd se rest rest' w)
  have "view sd = view s" using complete(5) by (simp add: file_at_def fun_eq_iff)
  with import_loop_spec [OF complete(7)] that [of se] write_manifest_blocks [OF complete(9)] show ?thesis by simp
qed

lemma run_op_addressed:
  assumes "content_addressed (env st) (view s)"
  shows "content_addressed (env st) (view (run_op st c s))"
proof (cases c)
  case (OpImport p a b)
  obtain r s' where r: "import_artifact st (UserPath p) a b s = (r, s')" by fastforce
  from r obtain t where "grows (env st) (view s) (view t)" "\<And>j. view s' (BlockPath j) = view t (BlockPath j)"
    by (rule import_blocks) blast
  with assms show ?thesis by (auto simp: OpImport r dest: content_addressed_grows intro: content_addressed_other)
next
  case (OpBlock rf b)
  obtain r s' where r: "store_block st rf b s = (r, s')" by fastforce
  from r have "content_addressed (env st) (view s')"
  proof (cases rule: store_block_cases)
    case same
    with assms show ?thesis by simp
  next
    case (removed x e)
    with assms show ?thesis by (auto intro: content_addressed_other split: if_splits)
  next
    case (written ex t s1 s2 s3)
    have "content_addressed (env st) (view s3)"
      using assms written(7) by (auto intro: content_addressed_other split: if_splits)
    with grows_write [OF written(8)] written(1) show ?thesis
      by (auto simp: block_matches_def intro: content_addressed_grows)
  qed
  then show ?thesis by (simp add: OpBlock r)
next
  case (OpCommit m)
  obtain r s' where r: "commit_manifest st m s = (r, s')" by fastforce
  from r have "\<forall>j. view s' (BlockPath j) = view s (BlockPath j)"
  proof (cases rule: commit_manifest_cases)
    case (written s1 t s2)
    from write_manifest_blocks [OF written(6)] reads_only_view [OF reads_verify_blocks written(2)]
      reads_only_view [OF reads_stats written(3)] show ?thesis by simp
  qed simp_all
  then show ?thesis using assms by (auto simp: OpCommit r intro: content_addressed_other)
next
  case (OpExport i p)
  obtain r s' where r: "export_artifact st i (UserPath p) s = (r, s')" by fastforce
  have "\<forall>j. view s' (BlockPath j) = view s (BlockPath j)"
    by (cases rule: export_view [OF r refl]) auto
  then show ?thesis using assms by (auto simp: OpExport r intro: content_addressed_other)
qed (use assms in \<open>simp_all add: run_op_reads del: run_op.simps\<close>)

text \<open>
  C8. Every block file of a store holds bytes with the digest in its name, after any sequence of
  operations and under any schedule of failing calls: a crash or an I/O error in the
  middle of a write never leaves a block file with other bytes.
\<close>

theorem store_session_content_addressed:
  assumes "content_addressed (env st) (view s)"
  shows "content_addressed (env st) (view (run_ops st ops s))"
  using assms by (induction ops arbitrary: s) (simp_all add: run_op_addressed)

theorem store_session_content_addressed_witness:
  "content_addressed (env toy_store) (view (run_ops toy_store
     [OpBlock \<lparr>block_id = ContentId [1, 2], block_len = 2\<rparr> [1, 2], OpStats] (empty_fs [None, Some 1])))"
  by (rule store_session_content_addressed)
    (simp add: content_addressed_def empty_fs_def file_at_def)

end
