(* ===== verification/Store_Contents.thy ===== *)
theory Store_Contents
  imports Store_Props "HOL-Library.Sublist"
begin

text \<open>What the store delivers: verification, commits, exports, imports, missing blocks, identifiers.\<close>

section \<open>Verification\<close>

lemma read_block_some:
  assumes "store_read_block st r s = (Inr b, s')"
  shows "view s (BlockPath (block_id r)) = Some b" and "block_matches (env st) r b" and "view s' = view s"
proof -
  from assms have "fs_read (BlockPath (block_id r)) s = (Inr b, s') \<and> block_matches (env st) r b"
    by (auto simp: store_read_block_def io_runs Let_def split: if_splits)
  with fs_read_some [of "BlockPath (block_id r)" s b s']
  show "view s (BlockPath (block_id r)) = Some b" "block_matches (env st) r b" "view s' = view s" by auto
qed

lemma digest_loop_stored:
  assumes "digest_loop st rs t h s = (Inr (t', h'), s')"
  shows "\<exists>cs. stored (env st) (view s) rs cs \<and> h' = h @ concat cs \<and> t' = t + of_nat (length (concat cs))"
  using assms
proof (induction rs arbitrary: t h s)
  case Nil
  then show ?case by (auto simp: io_runs stored_def intro: exI [of _ "[]"])
next
  case (Cons r rs)
  from Cons.prems obtain b s1 where b: "store_read_block st r s = (Inr b, s1)"
    and l: "digest_loop st rs (t + of_nat (length b)) (h @ b) s1 = (Inr (t', h'), s')"
    by (auto simp: io_runs)
  from Cons.IH [OF l] obtain cs where "stored (env st) (view s1) rs cs" "h' = (h @ b) @ concat cs"
    "t' = t + of_nat (length b) + of_nat (length (concat cs))" by blast
  with read_block_some [OF b] show ?case
    by (intro exI [of _ "b # cs"]) (auto simp: stored_def)
qed

lemma verify_manifest_blocks_stored:
  assumes "verify_manifest_blocks st m s = (Inr (), s')"
  obtains cs where "stored (env st) (view s) (blocks m) cs" "digest (env st) (concat cs) = artifact_id m"
proof -
  from assms obtain t h where d: "digest_loop st (blocks m) 0 [] s = (Inr (t, h), s')"
    and "digest (env st) h = artifact_id m"
    by (auto simp: verify_manifest_blocks_def verified_artifact_digest_def io_runs split: if_splits)
  with digest_loop_stored [OF d] that show thesis by auto
qed

lemma manifest_of_some:
  assumes "manifest_of st i s = (Inr m, s')"
  shows "artifact_id m = i" and "validate_manifest m = Inr ()" and "view s' = view s"
    and "\<exists>b. view s (ManifestPath i) = Some b \<and> from_json (env st) b = Some m"
proof -
  from assms obtain b s1 where r: "fs_read (ManifestPath i) s = (Inr b, s1)" "from_json (env st) b = Some m"
    "validate_manifest m = Inr ()" "artifact_id m = i"
    by (auto simp: manifest_of_def io_runs Let_def split: if_splits option.splits)
  then show "artifact_id m = i" "validate_manifest m = Inr ()" "view s' = view s"
    "\<exists>b. view s (ManifestPath i) = Some b \<and> from_json (env st) b = Some m"
    using fs_read_some [OF r(1)] reads_only_view [OF reads_manifest_of assms] by auto
qed

lemma verify_stored:
  assumes "verify st i s = (Inr m, s')"
  obtains cs where "stored (env st) (view s) (blocks m) cs" "digest (env st) (concat cs) = i"
    "artifact_id m = i" "validate_manifest m = Inr ()"
proof -
  from assms obtain s1 where m: "manifest_of st i s = (Inr m, s1)" and v: "verify_manifest_blocks st m s1 = (Inr (), s')"
    by (auto simp: verify_def io_runs)
  from v obtain cs where "stored (env st) (view s1) (blocks m) cs" "digest (env st) (concat cs) = artifact_id m"
    by (rule verify_manifest_blocks_stored)
  with manifest_of_some [OF m] that show thesis by auto
qed

lemma stored_unique:
  assumes "stored e F rs cs" "list_all2 (\<lambda>r c. F (BlockPath (block_id r)) = Some c) rs ds"
  shows "ds = cs"
  using assms(2,1) unfolding stored_def
proof (induction arbitrary: cs rule: list_all2_induct)
  case (Cons r rs d ds)
  then obtain c cs' where "cs = c # cs'" "F (BlockPath (block_id r)) = Some c"
    "list_all2 (\<lambda>r c. F (BlockPath (block_id r)) = Some c \<and> block_matches e r c) rs cs'"
    by (auto simp: list_all2_Cons1)
  with Cons show ?case by simp
qed simp

text \<open>
  C9. An export delivers verified bytes or nothing: when it succeeds the destination, which did not
  exist, holds bytes whose digest is the requested identifier and no other file differs; when it
  fails, whatever call failed, no file but the temporary one differs, so a destination
  that existed keeps its bytes and one that did not is not created.
\<close>

theorem export_delivers_verified_bytes:
  assumes "export_artifact st i (UserPath u) s = (res, s')"
  shows "case res of
      Inr _ \<Rightarrow> file_at s (UserPath u) = None \<and>
        (\<exists>b. digest (env st) b = i \<and> file_at s' = (file_at s)(UserPath u \<mapsto> b))
    | Inl _ \<Rightarrow> \<exists>n. \<forall>p. p \<noteq> PartPath (UserPath u) n \<longrightarrow> file_at s' p = file_at s p"
proof (cases rule: export_view [OF assms refl])
  case (1 n c)
  then show ?thesis by (cases res) auto
next
  case (2 m cs s1)
  from 2(3) obtain ds where "stored (env st) (view s) (blocks m) ds" "digest (env st) (concat ds) = i"
    by (rule verify_stored)
  with stored_unique [OF _ 2(4)] 2 show ?thesis by auto
qed

text \<open>An artifact of one block, with the manifest as JSON.\<close>

definition one_env :: store_env where
  "one_env = toy_env\<lparr>from_json := (\<lambda>b. Some (manifest_for toy_env [[7]]))\<rparr>"

definition one_store :: artifact_store where
  "one_store = \<lparr>env = one_env, quota_bytes = 1000\<rparr>"

definition one_fs :: "spath fs" where
  "one_fs = \<lparr>files = [(BlockPath (ContentId [7]), [7]), (ManifestPath (ContentId [7]), [1])],
     faults = [], temp_counter = 1\<rparr>"

lemmas one_defs = one_env_def one_store_def one_fs_def toy_env_def

lemma one_fs_view [simp]: "view one_fs (BlockPath (ContentId [7])) = Some [7]"
  "view one_fs (ManifestPath (ContentId [7])) = Some [1]" "view one_fs (UserPath u) = None"
  by (simp_all add: one_fs_def file_at_def)

theorem export_delivers_verified_bytes_witness:
  "case fst (export_artifact one_store (ContentId [7]) (UserPath ''out'') one_fs) of
      Inr _ \<Rightarrow> file_at one_fs (UserPath ''out'') = None \<and>
        (\<exists>b. digest (env one_store) b = ContentId [7] \<and>
          file_at (snd (export_artifact one_store (ContentId [7]) (UserPath ''out'') one_fs)) =
            (file_at one_fs)(UserPath ''out'' \<mapsto> b))
    | Inl _ \<Rightarrow> \<exists>n. \<forall>p. p \<noteq> PartPath (UserPath ''out'') n \<longrightarrow>
        file_at (snd (export_artifact one_store (ContentId [7]) (UserPath ''out'') one_fs)) p = file_at one_fs p"
  by (rule export_delivers_verified_bytes) simp

section \<open>Runs without faults\<close>

lemma faultless [simp]:
  assumes "faults s = []"
  shows "fs_check s = (Inr (), s)"
    and "fs_read p s = (case view s p of None \<Rightarrow> (Inl NotFound, s) | Some b \<Rightarrow> (Inr b, s))"
    and "create_dir p s = (Inr (), s)"
  using assms by (auto simp: fs_check_def fs_read_def create_dir_def io_defs split: option.splits)

lemma faultless_read_block:
  "faults s = [] \<Longrightarrow> view s (BlockPath (block_id r)) = Some b \<Longrightarrow> block_matches (env st) r b \<Longrightarrow>
   store_read_block st r s = (Inr b, s)"
  by (simp add: store_read_block_def io_defs Let_def)

lemma faultless_digest_loop:
  assumes "faults s = []" "stored (env st) (view s) rs cs"
  shows "digest_loop st rs t h s = (Inr (t + of_nat (length (concat cs)), h @ concat cs), s)"
  using assms(2)
proof (induction rs arbitrary: cs t h)
  case Nil
  then show ?case by (simp add: stored_def io_defs)
next
  case (Cons r rs)
  then obtain c cs' where c: "cs = c # cs'" "view s (BlockPath (block_id r)) = Some c" "block_matches (env st) r c"
    "stored (env st) (view s) rs cs'"
    by (auto simp: stored_def list_all2_Cons1)
  with Cons.IH [OF c(4)] show ?case
    by (simp add: io_bind_def faultless_read_block [OF assms(1)] add.assoc)
qed

lemma stored_total:
  assumes "validate_manifest m = Inr ()" "stored e F (blocks m) cs"
  shows "of_nat (length (concat cs)) = artifact_size m"
proof -
  have "length (concat cs) = sum_list (map (\<lambda>b. unat (block_len b)) rs)"
    if "list_all2 (\<lambda>r c. F (BlockPath (block_id r)) = Some c \<and> block_matches e r c) rs cs" for rs
    using that by (induction rule: list_all2_induct) (simp_all add: block_matches_def)
  from this [of "blocks m"] assms have "length (concat cs) = unat (artifact_size m)"
    by (simp add: stored_def validate_manifestD(3))
  then show ?thesis by simp
qed

lemma faultless_verify:
  assumes "faults s = []" "view s (ManifestPath i) = Some b" "from_json (env st) b = Some m"
    "validate_manifest m = Inr ()" "artifact_id m = i" "stored (env st) (view s) (blocks m) cs"
    "digest (env st) (concat cs) = i"
  shows "verify st i s = (Inr m, s)"
  using assms stored_total [OF assms(4,6)]
  by (simp add: verify_def manifest_of_def Let_def is_file_def verify_manifest_blocks_def
      verified_artifact_digest_def faultless_digest_loop [OF assms(1,6)] io_defs)

lemma faultless_export_loop:
  assumes "faults s = []" "view s tmp = Some a" "\<forall>r\<in>set rs. BlockPath (block_id r) \<noteq> tmp"
    "list_all2 (\<lambda>r c. view s (BlockPath (block_id r)) = Some c) rs cs"
  shows "\<exists>s'. export_loop rs tmp s = (Inr (), s') \<and> faults s' = []"
  using assms
proof (induction rs arbitrary: s a cs)
  case Nil
  then show ?case by (simp add: io_defs)
next
  case (Cons r rs)
  then obtain c cs' where c: "cs = c # cs'" "view s (BlockPath (block_id r)) = Some c"
    "list_all2 (\<lambda>r c. view s (BlockPath (block_id r)) = Some c) rs cs'"
    by (auto simp: list_all2_Cons1)
  let ?s = "put_file tmp (a @ c) s"
  have f: "faults ?s = []" using Cons.prems(1) by simp
  have l: "list_all2 (\<lambda>r c. view ?s (BlockPath (block_id r)) = Some c) rs cs'"
    using Cons.prems(3) by (intro list.rel_mono_strong [OF c(3)]) auto
  from Cons.IH [OF f _ _ l, of "a @ c"] Cons.prems(3)
  obtain s' where s': "export_loop rs tmp ?s = (Inr (), s')" "faults s' = []" by auto
  have "export_loop (r # rs) tmp s = export_loop rs tmp ?s"
    using Cons.prems(1,2) c(2) by (simp add: io_defs fs_append_def)
  with s' show ?case by simp
qed

lemma faultless_export:
  assumes f: "faults s = []" and no: "view s dest = None" and tmp: "view s (PartPath dest (temp_counter s)) = None"
    and v: "verify st i s = (Inr m, s)" and cs: "list_all2 (\<lambda>r c. view s (BlockPath (block_id r)) = Some c) (blocks m) cs"
    and user: "dest = UserPath u"
  shows "\<exists>s'. export_artifact st i dest s = (Inr (), s') \<and> view s' = (view s)(dest \<mapsto> concat cs)"
proof -
  let ?t = "PartPath dest (temp_counter s)"
  let ?s1 = "s\<lparr>temp_counter := temp_counter s + 1\<rparr>"
  let ?s2 = "put_file ?t [] ?s1"
  have "list_all2 (\<lambda>r c. view ?s2 (BlockPath (block_id r)) = Some c) (blocks m) cs"
    using cs by (rule list.rel_mono_strong) (auto simp: user)
  from faultless_export_loop [OF _ _ _ this, of ?t "[]"] f user
  obtain s3 where s3: "export_loop (blocks m) ?t ?s2 = (Inr (), s3)" "faults s3 = []"
    by auto
  from export_loop_view [OF s3(1), of "[]"] user obtain ds where "view s3 ?t = Some (concat ds)" by auto
  then have body: "\<exists>s4. export_body m ?t dest ?s1 = (Inr (), s4)"
    using f s3 tmp by (simp add: export_body_def create_new_file_def fs_create_new_def fs_rename_def io_defs)
  then obtain s4 where b: "export_body m ?t dest ?s1 = (Inr (), s4)" by blast
  have run: "export_artifact st i dest s = (Inr (), s4)"
    using no v f b by (simp add: export_artifact_def is_file_def temporary_path_def io_defs)
  show ?thesis
  proof (cases rule: export_view [OF run user])
    case (1 n c)
    then show ?thesis by simp
  next
    case (2 m' ds s1)
    then have "m' = m" "s1 = s" using v by simp_all
    moreover have "ds = cs"
      using 2(4) cs \<open>m' = m\<close> by (auto simp: list_all2_conv_all_nth intro: nth_equalityI)
    ultimately show ?thesis using 2(5) run by blast
  qed
qed

section \<open>Importing and exporting again\<close>

definition good_source :: "source \<Rightarrow> bool" where
  "good_source src = (\<forall>r\<in>set src. case r of Inl _ \<Rightarrow> False | Inr b \<Rightarrow> b \<noteq> [])"

lemma good_source_read:
  "good_source src \<Longrightarrow> 0 < n \<Longrightarrow> source_read n src = (q, r) \<Longrightarrow> good_source r \<and> (q = Inr [] \<longrightarrow> src = [])"
  by (induction n src rule: source_read.induct) (auto simp: good_source_def split: if_splits)

lemma good_source_block:
  "good_source src \<Longrightarrow> read_block_from cap src = (Inr b, r) \<Longrightarrow> good_source r \<and> (0 < cap \<and> b = [] \<longrightarrow> r = [])"
proof (induction cap src arbitrary: b r rule: read_block_from.induct)
  case (1 cap src)
  show ?case
  proof (cases "cap = 0")
    case True
    with "1.prems" show ?thesis by (simp add: read_block_from.simps)
  next
    case False
    with "1.prems" obtain c q where c: "source_read cap src = (Inr c, q)"
      by (subst (asm) read_block_from.simps) (auto split: prod.splits sum.splits if_splits)
    from good_source_read [OF "1.prems"(1) _ c] False have g: "good_source q" "c = [] \<longrightarrow> src = []" by auto
    show ?thesis
    proof (cases "c = []")
      case True
      with False c "1.prems" g show ?thesis
        by (subst (asm) read_block_from.simps) auto
    next
      case ne: False
      with False c "1.prems" obtain c' where
        "read_block_from (cap - length c) q = (Inr c', r)" "b = c @ c'"
        by (subst (asm) (2) read_block_from.simps) (auto split: prod.splits sum.splits)
      with "1.IH" [OF False c [symmetric] refl ne g(1)] ne show ?thesis by simp
    qed
  qed
qed

lemma describe_loop_consumes:
  "describe_loop e src h z bs = (Inr x, r) \<Longrightarrow> good_source src \<Longrightarrow> r = []"
proof (induction e src h z bs rule: describe_loop.induct)
  case (1 e src h z bs)
  from "1.prems"(1) obtain b q where b: "read_block_from BLOCK_BYTES src = (Inr b, q)"
    by (subst (asm) describe_loop.simps) (auto split: prod.splits sum.splits)
  note g = good_source_block [OF "1.prems"(2) b]
  show ?case
  proof (cases "b = []")
    case True
    with "1.prems" b g show ?thesis
      by (subst (asm) describe_loop.simps) (auto simp: BLOCK_BYTES_def)
  next
    case False
    with "1.prems"(1) b have "describe_loop e q (h @ b) (z + of_nat (length b))
        (bs @ [\<lparr>block_id = digest e b, block_len = of_nat (length b)\<rparr>]) = (Inr x, r)"
      by (subst (asm) describe_loop.simps) simp
    from "1.IH" [OF b [symmetric] refl False this] g show ?thesis by simp
  qed
qed

lemma describe_good:
  assumes "describe e path src = Inr m" "good_source src"
  obtains cs where "m = manifest_for e cs" "\<forall>c\<in>set cs. c \<noteq> [] \<and> length c \<le> BLOCK_BYTES" "source_all src = concat cs"
proof -
  from assms obtain h z bs r where d: "describe_loop e src [] 0 [] = (Inr (h, z, bs), r)"
    and m: "m = \<lparr>version = MANIFEST_VERSION, artifact_id = digest e h, artifact_size = z,
               block_size = of_nat BLOCK_BYTES, blocks = bs\<rparr>"
    by (auto simp: describe_def split: prod.splits sum.splits)
  from describe_loop_consumes [OF d assms(2)] describe_loop_spec [OF d] m that show thesis
    by (auto simp: manifest_for_def source_all_def)
qed

lemma block_matches_ref:
  "length c \<le> BLOCK_BYTES \<Longrightarrow> block_matches e (ref_of e c) b \<longleftrightarrow> length b = length c \<and> digest e b = digest e c"
  by (simp add: block_matches_def BLOCK_BYTES_def unat_of_nat_small)

lemma validate_manifest_for:
  assumes "\<forall>c\<in>set cs. c \<noteq> [] \<and> length c \<le> BLOCK_BYTES" "validate_manifest (manifest_for e cs) = Inr ()"
  shows "length cs \<le> MAX_ARTIFACT_BLOCKS"
  using validate_manifestD(1) [OF assms(2)] by simp

text \<open>The contents of the blocks are the pieces of the source, when none of them collides.\<close>

lemma stored_pieces:
  assumes "stored e F (map (ref_of e) cs) ds" "\<forall>c\<in>set cs. length c \<le> BLOCK_BYTES"
    "inj_on (digest e) ({b. \<exists>i. F (BlockPath i) = Some b} \<union> set cs)"
  shows "ds = cs"
  using assms unfolding stored_def
proof (induction cs arbitrary: ds)
  case (Cons c cs)
  from Cons.prems(1) obtain d ds' where d: "ds = d # ds'" "F (BlockPath (digest e c)) = Some d"
    "digest e d = digest e c" "list_all2 (\<lambda>r c. F (BlockPath (block_id r)) = Some c \<and> block_matches e r c) (map (ref_of e) cs) ds'"
    by (auto simp: list_all2_Cons1 block_matches_def)
  have "d = c" by (rule inj_onD [OF Cons.prems(3) d(3)]) (use d(2) in auto)
  moreover have "ds' = cs"
    by (rule Cons.IH [OF d(4)]) (use Cons.prems in \<open>auto intro: inj_on_subset\<close>)
  ultimately show ?case using d by simp
qed simp

lemma sublist_piece: "c \<in> set cs \<Longrightarrow> sublist c (concat cs)"
proof -
  assume "c \<in> set cs"
  then obtain as bs where "cs = as @ c # bs" by (auto simp: in_set_conv_decomp)
  then have "concat cs = concat as @ c @ concat bs" by simp
  then show "sublist c (concat cs)" unfolding sublist_def by blast
qed

lemma import_success:
  assumes run: "import_artifact st path src1 src2 s = (Inr m, s')" and good: "good_source src1"
  obtains cs ds where "m = manifest_for (env st) cs" "\<forall>c\<in>set cs. c \<noteq> [] \<and> length c \<le> BLOCK_BYTES"
    "source_all src1 = concat cs" "stored (env st) (view s') (blocks m) ds" "validate_manifest m = Inr ()"
    "view s (ManifestPath (artifact_id m)) = None \<Longrightarrow> view s' (ManifestPath (artifact_id m)) = Some (to_json (env st) m)"
  using run
proof (cases rule: import_cases)
  case (complete m' sb t sc sd se rest rest' w)
  then have m: "m' = m" "w = Inr ()" by (cases w; simp)+
  have v: "view sd = view s" using complete(5) by (simp add: file_at_def fun_eq_iff)
  from describe_good [OF complete(1) good] m obtain cs where cs: "m = manifest_for (env st) cs"
    "\<forall>c\<in>set cs. c \<noteq> [] \<and> length c \<le> BLOCK_BYTES" "source_all src1 = concat cs" by blast
  from import_loop_spec [OF complete(7)] m obtain ds where ds: "stored (env st) (view se) (blocks m) ds"
    and g: "grows (env st) (view s) (view se)" by (auto simp: v)
  have blk: "stored (env st) (view s') (blocks m) ds"
    using ds write_manifest_blocks [OF complete(9)] by (simp add: stored_def)
  have "view s' (ManifestPath (artifact_id m)) = Some (to_json (env st) m)"
    if "view s (ManifestPath (artifact_id m)) = None"
  proof -
    have "view se (ManifestPath (artifact_id m)) = None" using that g by (simp add: grows_def)
    with write_atomic_view(2) [OF complete(9)] m show ?thesis by auto
  qed
  then show thesis using that [OF cs blk] complete(2) m(1) by simp
qed simp_all

text \<open>
  C10. Importing a file and exporting it again gives the file back. The import may run under any
  faults and its second pass may read anything: when it returns a manifest for a new artifact,
  a later fault-free export of its identifier writes exactly the bytes of the first pass, if the
  JSON of this manifest reads back and no stored block has the digest of other bytes of the source.
\<close>

theorem import_export_roundtrip:
  assumes "import_artifact st path src1 src2 s = (Inr m, s1)" "good_source src1"
    and "file_at s (ManifestPath (artifact_id m)) = None"
    and "from_json (env st) (to_json (env st) m) = Some m"
    and "inj_on (digest (env st)) ({b. \<exists>i. file_at s1 (BlockPath i) = Some b} \<union> {b. sublist b (source_all src1)})"
    and "faults s2 = []" "files s2 = files s1"
    and "file_at s2 (UserPath u) = None" "file_at s2 (PartPath (UserPath u) (temp_counter s2)) = None"
  shows "artifact_id m = digest (env st) (source_all src1) \<and>
    (\<exists>s3. export_artifact st (artifact_id m) (UserPath u) s2 = (Inr (), s3) \<and>
      file_at s3 (UserPath u) = Some (source_all src1))"
proof -
  from import_success [OF assms(1,2)] obtain cs ds where m: "m = manifest_for (env st) cs"
    "\<forall>c\<in>set cs. c \<noteq> [] \<and> length c \<le> BLOCK_BYTES" "source_all src1 = concat cs"
    "stored (env st) (view s1) (blocks m) ds" "validate_manifest m = Inr ()"
    "view s1 (ManifestPath (artifact_id m)) = Some (to_json (env st) m)" using assms(3) by metis
  have v2: "view s2 = view s1" using assms(7) by (simp add: file_at_def fun_eq_iff)
  have "inj_on (digest (env st)) ({b. \<exists>i. view s1 (BlockPath i) = Some b} \<union> set cs)"
    by (rule inj_on_subset [OF assms(5)]) (auto simp: m(3) sublist_piece)
  with stored_pieces [of "env st" "view s1" cs ds] m have ds: "ds = cs" by simp
  have st: "stored (env st) (view s2) (blocks m) cs" using m(4) ds v2 by simp
  have vf: "verify st (artifact_id m) s2 = (Inr m, s2)"
    by (rule faultless_verify [OF assms(6) _ assms(4) m(5) refl st]) (use m v2 in simp_all)
  have "list_all2 (\<lambda>r c. view s2 (BlockPath (block_id r)) = Some c) (blocks m) cs"
    using st unfolding stored_def by (rule list_all2_mono) simp
  from faultless_export [OF assms(6,8,9) vf this refl] m show ?thesis by auto
qed

lemma one_describe: "describe one_env p [Inr [7]] = Inr (manifest_for one_env [[7]])"
  by (simp add: describe_def describe_loop.simps read_block_from.simps BLOCK_BYTES_def manifest_for_def ref_of_def one_defs)

lemma one_validate: "validate_manifest (manifest_for one_env [[7]]) = Inr ()"
  by (simp add: validate_manifest_def manifest_for_def ref_of_def BLOCK_BYTES_def declared_size_def MAX_ARTIFACT_BLOCKS_def)

lemma one_stats: "stats one_store (empty_fs []) =
    (Inr \<lparr>artifact_count = 0, block_count = 0, used_bytes = 0, stats_quota = 1000\<rparr>, empty_fs [])"
  by (simp add: stats_def directory_usage_def io_defs empty_fs_def dir_entries_def one_defs sat_add_def)

lemma one_sel [simp]: "faults (empty_fs fl) = fl" "env one_store = one_env" "to_json one_env m = [1]"
    "quota_bytes one_store = 1000" "digest one_env b = ContentId b"
  by (simp_all add: one_defs empty_fs_def)

lemma one_import: "import_artifact one_store (UserPath ''a'') [Inr [7]] [Inr [7]] (empty_fs []) =
    (Inr (manifest_for one_env [[7]]), \<lparr>files = [(ManifestPath (ContentId [7]), [1]), (BlockPath (ContentId [7]), [7])],
       faults = [], temp_counter = 3\<rparr>)"
  by (simp add: import_artifact_def io_apply one_stats one_validate one_describe Let_def sat_sub_def sat_add_def is_file_def)
    (simp add: empty_fs_def is_file_def file_at_def sat_add_def read_block_from.simps BLOCK_BYTES_def io_apply Let_def
      write_atomic_def write_atomic_body_def create_new_file_def fs_create_new_def fs_append_def fs_rename_def
      fs_remove_def temporary_path_def put_file_def del_file_def hm_insert_def map_remove_def)

theorem import_export_roundtrip_witness:
  "\<exists>s3. export_artifact one_store (ContentId [7]) (UserPath ''b'')
      (snd (import_artifact one_store (UserPath ''a'') [Inr [7]] [Inr [7]] (empty_fs []))) = (Inr (), s3) \<and>
    file_at s3 (UserPath ''b'') = Some [7]"
proof -
  let ?s1 = "snd (import_artifact one_store (UserPath ''a'') [Inr [7]] [Inr [7]] (empty_fs []))"
  have json: "from_json one_env b = Some (manifest_for one_env [[7]])" for b
    by (simp add: one_defs manifest_for_def ref_of_def)
  have none: "file_at (empty_fs []) p = None" for p by (simp add: empty_fs_def file_at_def)
  have "artifact_id (manifest_for one_env [[7]]) = digest (env one_store) (source_all [Inr [7]]) \<and>
    (\<exists>s3. export_artifact one_store (artifact_id (manifest_for one_env [[7]])) (UserPath ''b'') ?s1 = (Inr (), s3) \<and>
      file_at s3 (UserPath ''b'') = Some (source_all [Inr [7]]))"
    by (rule import_export_roundtrip [OF one_import])
      (simp_all add: good_source_def none json inj_on_def one_import, simp_all add: file_at_def)
  then show ?thesis by (simp add: source_all_def)
qed

section \<open>Commits\<close>

lemma commit_complete:
  assumes "commit_manifest st m s = (Inr (), s')"
  shows "(\<exists>cs. list_all2 (\<lambda>r c. file_at s' (BlockPath (block_id r)) = Some c \<and> digest (env st) c = block_id r \<and>
      length c = unat (block_len r)) (blocks m) cs \<and> digest (env st) (concat cs) = artifact_id m \<and>
      of_nat (length (concat cs)) = artifact_size m) \<and>
    file_at s' (ManifestPath (artifact_id m)) = (case file_at s (ManifestPath (artifact_id m)) of
        None \<Rightarrow> Some (to_json (env st) m) | Some b \<Rightarrow> Some b)"
proof -
  have fin: ?thesis if v: "verify_manifest_blocks st m s = (Inr (), t)" "validate_manifest m = Inr ()"
    and same: "\<forall>i. view s' (BlockPath i) = view s (BlockPath i)"
    and "view s' (ManifestPath (artifact_id m)) = (case view s (ManifestPath (artifact_id m)) of
        None \<Rightarrow> Some (to_json (env st) m) | Some b \<Rightarrow> Some b)" for t
  proof -
    from v(1) obtain cs where cs: "stored (env st) (view s) (blocks m) cs" "digest (env st) (concat cs) = artifact_id m"
      by (rule verify_manifest_blocks_stored)
    from cs(1) have "list_all2 (\<lambda>r c. view s' (BlockPath (block_id r)) = Some c \<and> digest (env st) c = block_id r \<and>
      length c = unat (block_len r)) (blocks m) cs"
      unfolding stored_def by (rule list_all2_mono) (simp add: same block_matches_def)
    with cs stored_total [OF v(2) cs(1)] that(4) show ?thesis by blast
  qed
  from assms show ?thesis
  proof (cases rule: commit_manifest_cases)
    case (kept s1)
    then show ?thesis by (intro fin [OF kept(3,2)]) auto
  next
    case (written s1 t s2)
    have v: "view s2 = view s"
      using reads_only_view [OF reads_verify_blocks written(2)] reads_only_view [OF reads_stats written(3)] by simp
    from write_atomic_view(2) [OF written(6)] written(4) v
    have "view s' = (view s)(ManifestPath (artifact_id m) \<mapsto> to_json (env st) m)" by simp
    with written show ?thesis by (intro fin [OF written(2,1)]) auto
  qed simp
qed

text \<open>
  C11. A manifest is committed only over a complete artifact: when \<open>commit_manifest\<close> returns, every
  block it lists is a file with the listed length and digest, the blocks in order have the
  artifact's digest and size, and the manifest file is there. A manifest file that was already
  there is kept as it is, whatever it holds.
\<close>

theorem commit_only_complete_artifact:
  assumes "commit_manifest st m s = (Inr (), s')"
  shows "(\<exists>cs. list_all2 (\<lambda>r c. file_at s' (BlockPath (block_id r)) = Some c \<and> digest (env st) c = block_id r \<and>
      length c = unat (block_len r)) (blocks m) cs \<and> digest (env st) (concat cs) = artifact_id m \<and>
      of_nat (length (concat cs)) = artifact_size m) \<and>
    file_at s' (ManifestPath (artifact_id m)) = (case file_at s (ManifestPath (artifact_id m)) of
        None \<Rightarrow> Some (to_json (env st) m) | Some b \<Rightarrow> Some b)"
  by (rule commit_complete [OF assms])

lemma one_commit: "commit_manifest one_store (manifest_for one_env [[7]]) one_fs = (Inr (), one_fs)"
  by (simp add: commit_manifest_def one_validate verify_manifest_blocks_def verified_artifact_digest_def io_apply
      store_read_block_def block_matches_def Let_def is_file_def one_fs_def file_at_def)

theorem commit_only_complete_artifact_witness:
  "\<exists>cs. list_all2 (\<lambda>r c. file_at one_fs (BlockPath (block_id r)) = Some c \<and> digest one_env c = block_id r \<and>
      length c = unat (block_len r)) (blocks (manifest_for one_env [[7]])) cs \<and> digest one_env (concat cs) = ContentId [7]"
  using commit_only_complete_artifact [OF one_commit] by (auto simp del: manifest_for_sel(2))

section \<open>Refusals\<close>

lemma write_atomic_error:
  assumes "write_atomic p b s = (Inl e, s')"
  shows "\<exists>q x. e = StoreIo q x"
proof -
  have body: "\<exists>q x. e = StoreIo q x" if "write_atomic_body p tmp b s = (Inl e, s')" for tmp s s'
    using that by (simp add: write_atomic_body_def create_new_file_def io_apply split: prod.splits sum.splits if_splits)
      auto
  show ?thesis using assms
    by (auto simp: write_atomic_def create_dir_def temporary_path_def io_runs split: if_splits dest: body)
qed

lemma import_loop_error:
  assumes "import_loop st path i rs src s = (Inl e, s')"
  shows "\<forall>n a. e \<noteq> QuotaExceeded n a"
  using assms
proof (induction rs arbitrary: src s)
  case Nil
  then show ?case by (simp add: io_runs)
next
  case (Cons r rs)
  obtain q src' where rb: "read_block_from BLOCK_BYTES src = (q, src')" by fastforce
  show ?case
  proof (cases q)
    case (Inl x)
    with Cons.prems rb show ?thesis by (auto simp: io_runs)
  next
    case (Inr b)
    with Cons.prems rb Cons.IH show ?thesis
      by (auto simp: io_runs Let_def split: if_splits dest: write_atomic_error)
  qed
qed

text \<open>
  A refusal for lack of quota changes no file: whichever operation answers \<open>QuotaExceeded\<close>,
  under whatever faults, the blocks, the manifests and every other file are as they were.
\<close>

theorem quota_refusal_changes_nothing:
  assumes "import_artifact st path a b s = (Inl (QuotaExceeded n k), s') \<or>
    store_block st r c s = (Inl (QuotaExceeded n k), s') \<or>
    commit_manifest st m s = (Inl (QuotaExceeded n k), s')"
  shows "file_at s' = file_at s"
  using assms
proof (elim disjE)
  assume "import_artifact st path a b s = (Inl (QuotaExceeded n k), s')"
  then show ?thesis
  proof (cases rule: import_cases)
    case (partial m sb t sc sd q)
    then show ?thesis using import_loop_error by blast
  next
    case (complete m sb t sc sd se rest rest' w)
    then show ?thesis by (cases w) (auto dest: write_atomic_error)
  qed simp
next
  assume "store_block st r c s = (Inl (QuotaExceeded n k), s')"
  then show ?thesis
    by (cases rule: store_block_cases) (auto dest: write_atomic_error)
next
  assume "commit_manifest st m s = (Inl (QuotaExceeded n k), s')"
  then show ?thesis
    by (cases rule: commit_manifest_cases) (auto dest: write_atomic_error)
qed

definition full_store :: artifact_store where
  "full_store = one_store\<lparr>quota_bytes := 0\<rparr>"

lemma full_refuses: "store_block full_store \<lparr>block_id = ContentId [9], block_len = 1\<rparr> [9] (empty_fs []) =
    (Inl (QuotaExceeded 1 0), empty_fs [])"
  by (simp add: store_block_def io_apply block_matches_def BLOCK_BYTES_def full_store_def Let_def sat_sub_def sat_add_def
      stats_def directory_usage_def dir_entries_def empty_fs_def file_at_def)

theorem quota_refusal_changes_nothing_witness:
  "fst (store_block full_store \<lparr>block_id = ContentId [9], block_len = 1\<rparr> [9] (empty_fs [])) = Inl (QuotaExceeded 1 0) \<and>
   file_at (snd (store_block full_store \<lparr>block_id = ContentId [9], block_len = 1\<rparr> [9] (empty_fs []))) = file_at (empty_fs [])"
proof -
  have "file_at (empty_fs []) = file_at (empty_fs [])"
    by (rule quota_refusal_changes_nothing) (rule disjI2, rule disjI1, rule full_refuses)
  then show ?thesis by (simp add: full_refuses)
qed

section \<open>Receiving blocks\<close>

text \<open>
  A block that \<open>store_block\<close> accepts is on disk: after success the block's file holds bytes of the
  listed length and digest, and no other file differs. After a failure at most that block's file
  and its temporary file differ, and the block's file holds its old bytes or is gone, never others.
\<close>

theorem store_block_correct:
  assumes "store_block st r b s = (res, s')"
  shows "case res of
      Inr _ \<Rightarrow> (\<exists>c. length c = unat (block_len r) \<and> digest (env st) c = block_id r \<and>
        file_at s' = (file_at s)(BlockPath (block_id r) \<mapsto> c))
    | Inl _ \<Rightarrow> (\<exists>n c. c \<in> {None, file_at s (BlockPath (block_id r))} \<and>
        (\<forall>p. p \<noteq> PartPath (BlockPath (block_id r)) n \<longrightarrow>
          file_at s' p = ((file_at s)(BlockPath (block_id r) := c)) p))"
proof -
  let ?p = "BlockPath (block_id r)"
  show ?thesis
  proof (cases res)
    case (Inl e)
    from assms show ?thesis
    proof (cases rule: store_block_cases)
      case same
      then show ?thesis using Inl by (auto intro!: exI [of _ "view s ?p"])
    next
      case (removed x e')
      then show ?thesis using Inl by (auto intro!: exI [of _ None])
    next
      case (written ex t s1 s2 s3)
      have "view s3 ?p = None" using written(7) by simp
      from write_atomic_view(2) [OF written(8) this] Inl have "scratch ?p b (view s3) (view s')" by auto
      then obtain n where "\<forall>p. p \<noteq> PartPath ?p n \<longrightarrow> view s' p = ((view s)(?p := None)) p"
        unfolding scratch_def written(7) by fastforce
      then show ?thesis using Inl by (auto intro!: exI [of _ n] exI [of _ None])
    qed
  next
    case (Inr u)
    from assms show ?thesis
    proof (cases rule: store_block_cases)
      case same
      with Inr obtain c where "view s ?p = Some c" "block_matches (env st) r c" by auto
      with Inr same show ?thesis by (auto simp: block_matches_def fun_upd_idem intro!: exI [of _ c])
    next
      case (removed x e')
      then show ?thesis using Inr by simp
    next
      case (written ex t s1 s2 s3)
      have "view s3 ?p = None" using written(7) by simp
      from write_atomic_view(2) [OF written(8) this] Inr have "view s' = (view s3)(?p \<mapsto> b)" by auto
      with written(1,7) Inr show ?thesis by (auto simp: block_matches_def)
    qed
  qed
qed

theorem store_block_correct_witness:
  "case fst (store_block one_store \<lparr>block_id = ContentId [9], block_len = 1\<rparr> [9] one_fs) of
      Inr _ \<Rightarrow> (\<exists>c. length c = unat (1 :: u32) \<and> digest (env one_store) c = ContentId [9] \<and>
        file_at (snd (store_block one_store \<lparr>block_id = ContentId [9], block_len = 1\<rparr> [9] one_fs)) =
          (file_at one_fs)(BlockPath (ContentId [9]) \<mapsto> c))
    | Inl _ \<Rightarrow> True"
  using store_block_correct [of one_store "\<lparr>block_id = ContentId [9], block_len = 1\<rparr>" "[9]" one_fs
    "fst (store_block one_store \<lparr>block_id = ContentId [9], block_len = 1\<rparr> [9] one_fs)"
    "snd (store_block one_store \<lparr>block_id = ContentId [9], block_len = 1\<rparr> [9] one_fs)"]
  by (auto split: sum.splits)

lemma missing_loop_spec:
  assumes "faults s = []" "distinct (map block_id ms)" "block_id ` set ms \<subseteq> set seen"
  shows "\<exists>ms'. missing_loop st rs seen ms s = (Inr (ms @ ms'), s) \<and> distinct (map block_id (ms @ ms')) \<and>
    set ms' \<subseteq> set rs \<and> block_id ` set ms' \<inter> set seen = {} \<and>
    (\<forall>r\<in>set ms'. \<forall>b. view s (BlockPath (block_id r)) = Some b \<longrightarrow> \<not> block_matches (env st) r b) \<and>
    (\<forall>r\<in>set rs. block_id r \<notin> set seen \<union> block_id ` set ms' \<longrightarrow>
       (\<exists>q\<in>set rs. block_id q = block_id r \<and> (\<exists>b. view s (BlockPath (block_id q)) = Some b \<and> block_matches (env st) q b)))"
  using assms(2,3)
proof (induction rs arbitrary: seen ms)
  case Nil
  then show ?case by (simp add: io_return_def)
next
  case (Cons r rs)
  show ?case
  proof (cases "block_id r \<in> set seen")
    case True
    from Cons.IH [OF Cons.prems] obtain ms' where IH: "missing_loop st rs seen ms s = (Inr (ms @ ms'), s)"
      "distinct (map block_id (ms @ ms'))" "set ms' \<subseteq> set rs" "block_id ` set ms' \<inter> set seen = {}"
      "\<forall>r\<in>set ms'. \<forall>b. view s (BlockPath (block_id r)) = Some b \<longrightarrow> \<not> block_matches (env st) r b"
      "\<forall>r\<in>set rs. block_id r \<notin> set seen \<union> block_id ` set ms' \<longrightarrow>
       (\<exists>q\<in>set rs. block_id q = block_id r \<and> (\<exists>b. view s (BlockPath (block_id q)) = Some b \<and> block_matches (env st) q b))"
      by blast
    then show ?thesis using True by (intro exI [of _ ms']) auto
  next
    case new: False
    define found where "found = (\<exists>b. view s (BlockPath (block_id r)) = Some b \<and> block_matches (env st) r b)"
    define k where "k = (if found then [] else [r])"
    have step: "missing_loop st (r # rs) seen ms s = missing_loop st rs (block_id r # seen) (ms @ k) s"
      using new assms(1)
      by (cases "view s (BlockPath (block_id r))") (auto simp: io_apply k_def found_def Let_def)
    have "distinct (map block_id (ms @ k))" "block_id ` set (ms @ k) \<subseteq> set (block_id r # seen)"
      using Cons.prems new by (auto simp: k_def)
    from Cons.IH [OF this] obtain ms' where
      IH: "missing_loop st rs (block_id r # seen) (ms @ k) s = (Inr ((ms @ k) @ ms'), s)"
      "distinct (map block_id ((ms @ k) @ ms'))" "set ms' \<subseteq> set rs" "block_id ` set ms' \<inter> set (block_id r # seen) = {}"
      "\<forall>r\<in>set ms'. \<forall>b. view s (BlockPath (block_id r)) = Some b \<longrightarrow> \<not> block_matches (env st) r b"
      "\<forall>q\<in>set rs. block_id q \<notin> set (block_id r # seen) \<union> block_id ` set ms' \<longrightarrow>
       (\<exists>p\<in>set rs. block_id p = block_id q \<and> (\<exists>b. view s (BlockPath (block_id p)) = Some b \<and> block_matches (env st) p b))"
      by blast
    have "\<forall>q\<in>set (r # rs). block_id q \<notin> set seen \<union> block_id ` set (k @ ms') \<longrightarrow>
       (\<exists>p\<in>set (r # rs). block_id p = block_id q \<and> (\<exists>b. view s (BlockPath (block_id p)) = Some b \<and> block_matches (env st) p b))"
    proof (intro ballI impI)
      fix q assume q: "q \<in> set (r # rs)" "block_id q \<notin> set seen \<union> block_id ` set (k @ ms')"
      show "\<exists>p\<in>set (r # rs). block_id p = block_id q \<and> (\<exists>b. view s (BlockPath (block_id p)) = Some b \<and> block_matches (env st) p b)"
      proof (cases "block_id q = block_id r")
        case True
        with q(2) have found by (auto simp: k_def split: if_splits)
        with True show ?thesis unfolding found_def by auto
      next
        case False
        with q IH(6) show ?thesis by auto
      qed
    qed
    moreover have "\<forall>q\<in>set (k @ ms'). \<forall>b. view s (BlockPath (block_id q)) = Some b \<longrightarrow> \<not> block_matches (env st) q b"
      using IH(5) by (auto simp: k_def found_def)
    moreover have "set (k @ ms') \<subseteq> set (r # rs)" "block_id ` set (k @ ms') \<inter> set seen = {}"
      using IH(3,4) new by (auto simp: k_def)
    ultimately show ?thesis using IH(1,2) step by (intro exI [of _ "k @ ms'"]) simp
  qed
qed

text \<open>
  A transfer can resume: without I/O errors \<open>missing_blocks\<close> lists exactly what is still needed, each
  identifier once, every listed block absent or damaged, and for every identifier of
  the manifest that is not listed the store holds bytes of its length and digest.
\<close>

theorem missing_blocks_correct:
  assumes "faults s = []" "validate_manifest m = Inr ()"
  shows "\<exists>ms. missing_blocks st m s = (Inr ms, s) \<and> distinct (map block_id ms) \<and> set ms \<subseteq> set (blocks m) \<and>
    (\<forall>r\<in>set ms. \<forall>b. file_at s (BlockPath (block_id r)) = Some b \<longrightarrow> \<not> block_matches (env st) r b) \<and>
    (\<forall>r\<in>set (blocks m). block_id r \<notin> block_id ` set ms \<longrightarrow>
       (\<exists>q\<in>set (blocks m). block_id q = block_id r \<and>
         (\<exists>b. file_at s (BlockPath (block_id q)) = Some b \<and> block_matches (env st) q b)))"
  using missing_loop_spec [OF assms(1), of "[]" "[]" st "blocks m"] assms(2)
  by (simp add: missing_blocks_def io_apply)

theorem missing_blocks_correct_witness:
  "\<exists>ms. missing_blocks one_store (manifest_for one_env [[7]]) (empty_fs []) = (Inr ms, empty_fs []) \<and> distinct (map block_id ms)"
  using missing_blocks_correct [of "empty_fs []" "manifest_for one_env [[7]]" one_store] one_validate by auto

section \<open>Identifiers as text\<close>

text \<open>
  A content identifier survives its text: both the plain hex and the \<open>sha256:\<close> form parse back to it, for every hex
  codec that decodes what it encodes and writes only lower-case hex digits.
\<close>

theorem content_id_text_roundtrip:
  assumes "length (id_bytes i) = 32" "\<And>b. hex_decode e (hex_encode e b) = Some b"
    and "\<And>b. set (hex_encode e b) \<subseteq> set ''0123456789abcdef''"
  shows "content_from_str e (content_display e i) = Inr i \<and> content_from_str e (content_hex e i) = Inr i"
proof -
  have "strip_prefix ''sha256:'' (hex_encode e (id_bytes i)) = None"
    using assms(3) [of "id_bytes i"] by (cases "hex_encode e (id_bytes i)") auto
  with assms show ?thesis
    by (cases i) (simp add: content_from_str_def content_display_def content_hex_def)
qed

theorem content_id_text_roundtrip_witness:
  "content_from_str toy_env (content_display toy_env (ContentId (replicate 32 5))) = Inr (ContentId (replicate 32 5))"
proof -
  have "length (id_bytes (ContentId (replicate 32 5))) = 32" by simp
  moreover have "hex_decode toy_env (hex_encode toy_env b) = Some b" for b
    by (simp add: toy_env_def hex_parse_text)
  moreover have "set (hex_encode toy_env b) \<subseteq> set ''0123456789abcdef''" for b
    using hex_text_digits [of b] by (simp add: toy_env_def hex_digits_def)
  ultimately show ?thesis using content_id_text_roundtrip [of "ContentId (replicate 32 5)" toy_env] by blast
qed

end
