(* ===== verification/Floats.thy ===== *)
theory Floats
  imports Prelude "HOL-Library.Log_Nat"
begin

text \<open>
  The \<open>f32\<close> and \<open>f64\<close> values of the Rust code: a NaN, the two infinities, and finite values as
  exact rationals. Every arithmetic operation is the exact result rounded to the format, to
  nearest with ties to even, with gradual underflow and overflow to infinity, as IEEE 754
  prescribes. The sign of a zero and the payload of a NaN are not represented: no branch of
  the modelled code depends on either.
\<close>

datatype flt = NaN | Inf bool | Fin rat

section \<open>Rounding\<close>

definition ilog2 :: "rat \<Rightarrow> int" where
  "ilog2 x = (let (n, d) = quotient_of x; k = bitlen n - bitlen d
              in if 2 powi k \<le> x then k else k - 1)"

definition round_even :: "rat \<Rightarrow> int" where
  "round_even x = (let f = \<lfloor>x\<rfloor>; r = x - of_int f
     in if r < 1 / 2 then f else if 1 / 2 < r then f + 1 else if even f then f else f + 1)"

definition ulp_exp :: "nat \<Rightarrow> int \<Rightarrow> rat \<Rightarrow> int" where
  "ulp_exp p emin x = max (ilog2 x - int (p - 1)) emin"

definition round_mag :: "nat \<Rightarrow> int \<Rightarrow> rat \<Rightarrow> rat" where
  "round_mag p emin x = of_int (round_even (x / 2 powi ulp_exp p emin x)) * 2 powi ulp_exp p emin x"

definition round_to :: "nat \<Rightarrow> int \<Rightarrow> int \<Rightarrow> rat \<Rightarrow> flt" where
  "round_to p emin emax x =
     (if x = 0 then Fin 0
      else let y = round_mag p emin \<bar>x\<bar> in
        if 2 powi emax \<le> y then Inf (x < 0) else Fin (if x < 0 then - y else y))"

definition rnd64 :: "rat \<Rightarrow> flt" where "rnd64 = round_to 53 (- 1074) 1024"
definition rnd32 :: "rat \<Rightarrow> flt" where "rnd32 = round_to 24 (- 149) 128"

section \<open>Operations\<close>

fun fl_neg :: "flt \<Rightarrow> flt" where
  "fl_neg NaN = NaN"
| "fl_neg (Inf s) = Inf (\<not> s)"
| "fl_neg (Fin x) = Fin (- x)"

fun fl_add :: "(rat \<Rightarrow> flt) \<Rightarrow> flt \<Rightarrow> flt \<Rightarrow> flt" where
  "fl_add r NaN b = NaN"
| "fl_add r a NaN = NaN"
| "fl_add r (Inf s) (Inf t) = (if s = t then Inf s else NaN)"
| "fl_add r (Inf s) (Fin y) = Inf s"
| "fl_add r (Fin x) (Inf t) = Inf t"
| "fl_add r (Fin x) (Fin y) = r (x + y)"

definition fl_sub :: "(rat \<Rightarrow> flt) \<Rightarrow> flt \<Rightarrow> flt \<Rightarrow> flt" where
  "fl_sub r a b = fl_add r a (fl_neg b)"

fun fl_mul :: "(rat \<Rightarrow> flt) \<Rightarrow> flt \<Rightarrow> flt \<Rightarrow> flt" where
  "fl_mul r NaN b = NaN"
| "fl_mul r a NaN = NaN"
| "fl_mul r (Inf s) (Inf t) = Inf (s \<noteq> t)"
| "fl_mul r (Inf s) (Fin y) = (if y = 0 then NaN else Inf (s \<noteq> (y < 0)))"
| "fl_mul r (Fin x) (Inf t) = (if x = 0 then NaN else Inf ((x < 0) \<noteq> t))"
| "fl_mul r (Fin x) (Fin y) = r (x * y)"

text \<open>The code divides only by positive finite numbers.\<close>

fun fl_div :: "(rat \<Rightarrow> flt) \<Rightarrow> flt \<Rightarrow> flt \<Rightarrow> flt" where
  "fl_div r NaN b = NaN"
| "fl_div r a NaN = NaN"
| "fl_div r (Inf s) (Inf t) = NaN"
| "fl_div r (Inf s) (Fin y) = Inf (s \<noteq> (y < 0))"
| "fl_div r (Fin x) (Inf t) = Fin 0"
| "fl_div r (Fin x) (Fin y) = (if y = 0 then (if x = 0 then NaN else Inf (x < 0)) else r (x / y))"

fun fl_less :: "flt \<Rightarrow> flt \<Rightarrow> bool" where
  "fl_less NaN b = False"
| "fl_less a NaN = False"
| "fl_less (Inf s) (Inf t) = (s \<and> \<not> t)"
| "fl_less (Inf s) (Fin y) = s"
| "fl_less (Fin x) (Inf t) = (\<not> t)"
| "fl_less (Fin x) (Fin y) = (x < y)"

fun fl_le :: "flt \<Rightarrow> flt \<Rightarrow> bool" where
  "fl_le NaN b = False"
| "fl_le a NaN = False"
| "fl_le a b = (\<not> fl_less b a)"

text \<open>\<open>max\<close>, \<open>min\<close> ignore a NaN operand; \<open>clamp\<close> keeps it.\<close>

definition fl_max :: "flt \<Rightarrow> flt \<Rightarrow> flt" where
  "fl_max a b = (if a = NaN then b else if b = NaN then a else if fl_less a b then b else a)"

definition fl_min :: "flt \<Rightarrow> flt \<Rightarrow> flt" where
  "fl_min a b = (if a = NaN then b else if b = NaN then a else if fl_less b a then b else a)"

definition fl_clamp :: "flt \<Rightarrow> flt \<Rightarrow> flt \<Rightarrow> flt" where
  "fl_clamp x lo hi = (if fl_less x lo then lo else if fl_less hi x then hi else x)"

fun is_finite :: "flt \<Rightarrow> bool" where
  "is_finite (Fin x) = True"
| "is_finite _ = False"

text \<open>\<open>total_cmp\<close> orders a (positive) NaN above every number.\<close>

definition total_le :: "flt \<Rightarrow> flt \<Rightarrow> bool" where
  "total_le a b = (b = NaN \<or> fl_le a b)"

text \<open>The saturating cast \<open>as u64\<close>.\<close>

fun f64_to_u64 :: "flt \<Rightarrow> u64" where
  "f64_to_u64 NaN = 0"
| "f64_to_u64 (Inf s) = (if s then 0 else - 1)"
| "f64_to_u64 (Fin x) = (if x < 0 then 0 else if 2 ^ 64 \<le> \<lfloor>x\<rfloor> then - 1 else of_int \<lfloor>x\<rfloor>)"

definition f64_of_nat :: "nat \<Rightarrow> flt" where "f64_of_nat n = rnd64 (of_nat n)"
definition f32_of_nat :: "nat \<Rightarrow> flt" where "f32_of_nat n = rnd32 (of_nat n)"

section \<open>The exponent of a number\<close>

lemma powi_2_pos [simp]: "0 < (2::rat) powi e"
  by simp

lemma powi_2_le: "(2::rat) powi a \<le> 2 powi b \<longleftrightarrow> a \<le> b"
  by (meson one_less_numeral_iff semiring_norm(76) power_int_strict_increasing power_int_increasing
      linorder_not_le less_imp_le)

lemma powi_2_less: "(2::rat) powi a < 2 powi b \<longleftrightarrow> a < b"
  by (meson linorder_not_le powi_2_le)

lemma powi_2_add: "(2::rat) powi (a + b) = 2 powi a * 2 powi b"
  by (simp add: power_int_add)

lemma scale_powi_2: "(of_int (2 ^ n) :: rat) * 2 powi a = 2 powi (a + int n)"
  by (simp add: powi_2_add mult.commute)

lemma ilog2_bounds:
  assumes "0 < x"
  shows "2 powi ilog2 x \<le> x \<and> x < 2 powi (ilog2 x + 1)"
proof -
  obtain n d where q: "quotient_of x = (n, d)" by (cases "quotient_of x")
  have x: "x = of_int n / of_int d" and d: "0 < d"
    using quotient_of_div [OF q] quotient_of_denom_pos [OF q] by auto
  with assms have n: "0 < n" by (simp add: zero_less_divide_iff)
  have pow: "(2::rat) powi bitlen m = of_int (2 ^ nat (bitlen m)) \<and>
      (2::rat) powi (bitlen m - 1) = of_int (2 ^ nat (bitlen m - 1))" if "0 < m" for m
  proof -
    have "1 \<le> bitlen m" using that bitlen_nonneg [of m] bitlen_eq_zero_iff [of m] by linarith
    then show ?thesis by (simp add: power_int_def)
  qed
  have nb: "2 powi (bitlen n - 1) \<le> (of_int n :: rat)" "(of_int n :: rat) < 2 powi bitlen n"
    using bitlen_bounds [OF n] pow [OF n] by (simp_all only: of_int_le_iff of_int_less_iff)
  have db: "2 powi (bitlen d - 1) \<le> (of_int d :: rat)" "(of_int d :: rat) < 2 powi bitlen d"
    using bitlen_bounds [OF d] pow [OF d] by (simp_all only: of_int_le_iff of_int_less_iff)
  let ?k = "bitlen n - bitlen d"
  have up: "x < 2 powi (?k + 1)"
  proof -
    have "(of_int n :: rat) < 2 powi bitlen n" by (rule nb)
    also have "\<dots> = 2 powi (?k + 1) * 2 powi (bitlen d - 1)" by (simp flip: powi_2_add)
    also have "\<dots> \<le> 2 powi (?k + 1) * of_int d" using db by (intro mult_left_mono) auto
    finally show ?thesis using d by (simp add: x divide_less_eq)
  qed
  have low: "2 powi (?k - 1) \<le> x"
  proof -
    have "(2::rat) powi (?k - 1) * of_int d \<le> 2 powi (?k - 1) * 2 powi bitlen d"
      using db by (intro mult_left_mono) auto
    also have "\<dots> = 2 powi (bitlen n - 1)" by (simp flip: powi_2_add)
    also have "\<dots> \<le> of_int n" by (rule nb)
    finally show ?thesis using d by (simp add: x le_divide_eq)
  qed
  show ?thesis
    using up low by (auto simp: ilog2_def q Let_def)
qed

lemma ilog2_unique: "2 powi k \<le> x \<Longrightarrow> x < 2 powi (k + 1) \<Longrightarrow> ilog2 x = k"
proof -
  assume k: "2 powi k \<le> x" "x < 2 powi (k + 1)"
  then have "0 < x" by (metis powi_2_pos less_le_trans)
  note b = ilog2_bounds [OF this]
  from k b have "(2::rat) powi k < 2 powi (ilog2 x + 1)" "(2::rat) powi ilog2 x < 2 powi (k + 1)"
    by (auto intro: le_less_trans)
  then show ?thesis by (simp add: powi_2_less)
qed

lemma ilog2_mono: "0 < x \<Longrightarrow> x \<le> y \<Longrightarrow> ilog2 x \<le> ilog2 y"
proof -
  assume a: "0 < x" "x \<le> y"
  then have "2 powi ilog2 x \<le> y" "y < 2 powi (ilog2 y + 1)"
    using ilog2_bounds [of x] ilog2_bounds [of y] by auto
  then have "(2::rat) powi ilog2 x < 2 powi (ilog2 y + 1)" by simp
  then show ?thesis by (simp add: powi_2_less)
qed

section \<open>Rounding is monotone and exact on representable numbers\<close>

lemma round_even_of_int [simp]: "round_even (of_int n) = n"
  by (simp add: round_even_def)

lemma round_even_mono: "x \<le> y \<Longrightarrow> round_even x \<le> round_even y"
proof -
  assume le: "x \<le> y"
  then have fl: "\<lfloor>x\<rfloor> \<le> \<lfloor>y\<rfloor>" by (rule floor_mono)
  show ?thesis
  proof (cases "\<lfloor>x\<rfloor> = \<lfloor>y\<rfloor>")
    case True
    with le show ?thesis by (simp add: round_even_def Let_def)
  next
    case False
    with fl have "\<lfloor>x\<rfloor> + 1 \<le> \<lfloor>y\<rfloor>" by simp
    moreover have "round_even x \<le> \<lfloor>x\<rfloor> + 1" "\<lfloor>y\<rfloor> \<le> round_even y"
      by (simp_all add: round_even_def Let_def)
    ultimately show ?thesis by simp
  qed
qed

lemma round_even_ge: "of_int n \<le> x \<Longrightarrow> n \<le> round_even x"
  using round_even_mono [of "of_int n" x] by simp

lemma round_even_le: "x \<le> of_int n \<Longrightarrow> round_even x \<le> n"
  using round_even_mono [of x "of_int n"] by simp

lemma round_mag_nonneg: "0 < x \<Longrightarrow> 0 \<le> round_mag p emin x"
  unfolding round_mag_def
  by (intro mult_nonneg_nonneg) (auto intro: round_even_ge)

lemma round_mag_mono:
  assumes "0 < x" "x \<le> y" "0 < p"
  shows "round_mag p emin x \<le> round_mag p emin y"
proof -
  let ?a = "ulp_exp p emin x" and ?b = "ulp_exp p emin y"
  have ab: "?a \<le> ?b" using ilog2_mono [OF assms(1,2)] by (simp add: ulp_exp_def)
  show ?thesis
  proof (cases "?a = ?b")
    case True
    with assms show ?thesis
      by (auto simp: round_mag_def intro!: mult_right_mono round_even_mono divide_right_mono)
  next
    case False
    with ab have lt: "?a < ?b" by simp
    then have b: "?b = ilog2 y - int (p - 1)" by (auto simp: ulp_exp_def)
    have p1: "int (p - 1) = int p - 1" using \<open>0 < p\<close> by simp
    have "2 powi (?b + int (p - 1)) \<le> y"
      using ilog2_bounds [of y] assms b by simp
    then have "of_int (2 ^ (p - 1)) \<le> y / 2 powi ?b"
      by (simp add: le_divide_eq scale_powi_2 del: of_int_power)
    then have "2 ^ (p - 1) \<le> round_even (y / 2 powi ?b)" by (rule round_even_ge)
    then have "(of_int (2 ^ (p - 1)) :: rat) * 2 powi ?b \<le> round_mag p emin y"
      unfolding round_mag_def by (intro mult_right_mono) (simp_all only: of_int_le_iff, simp)
    then have hi: "2 powi (?b + int (p - 1)) \<le> round_mag p emin y"
      by (simp add: scale_powi_2 del: of_int_power)
    have "ilog2 x + 1 \<le> ?a + int p" using \<open>0 < p\<close> by (auto simp: ulp_exp_def)
    then have "x \<le> 2 powi (?a + int p)"
      using ilog2_bounds [OF assms(1)] powi_2_le [of "ilog2 x + 1" "?a + int p"] by linarith
    then have "x / 2 powi ?a \<le> of_int (2 ^ p)"
      by (simp add: divide_le_eq scale_powi_2 del: of_int_power)
    then have "round_even (x / 2 powi ?a) \<le> 2 ^ p" by (rule round_even_le)
    then have "round_mag p emin x \<le> of_int (2 ^ p) * 2 powi ?a"
      unfolding round_mag_def by (intro mult_right_mono) (simp_all only: of_int_le_iff, simp)
    then have "round_mag p emin x \<le> 2 powi (?a + int p)"
      by (simp add: scale_powi_2 del: of_int_power)
    also have "\<dots> \<le> 2 powi (?b + int (p - 1))" using lt p1 by (simp only: powi_2_le)
    finally show ?thesis using hi by simp
  qed
qed
lemma round_mag_int:
  assumes "0 < n" "n < 2 ^ p" "0 < p" "emin \<le> 0"
  shows "round_mag p emin (of_int n) = of_int n"
proof -
  let ?e = "ulp_exp p emin (of_int n)"
  have "(of_int n :: rat) < of_int (2 ^ p)" using assms(2) by (simp only: of_int_less_iff)
  then have lt: "(of_int n :: rat) < 2 powi int p" by simp
  have "2 powi ilog2 (of_int n) \<le> (of_int n :: rat)"
    using ilog2_bounds [of "of_int n"] assms(1) by simp
  then have "(2::rat) powi ilog2 (of_int n) < 2 powi int p" using lt by (rule le_less_trans)
  then have "ilog2 (of_int n) < int p" by (simp only: powi_2_less)
  then have "?e \<le> 0" using assms(3,4) by (simp add: ulp_exp_def)
  then have "(1::rat) / 2 powi ?e = of_int (2 ^ nat (- ?e))"
    by (simp add: power_int_def field_simps)
  then have "(of_int n :: rat) / 2 powi ?e = of_int (n * 2 ^ nat (- ?e))"
    by (metis divide_inverse inverse_eq_divide of_int_mult)
  then have "round_even (of_int n / 2 powi ?e) = n * 2 ^ nat (- ?e)" by (simp only: round_even_of_int)
  then have "round_mag p emin (of_int n) = of_int n / 2 powi ?e * 2 powi ?e"
    using \<open>(of_int n :: rat) / 2 powi ?e = of_int (n * 2 ^ nat (- ?e))\<close>
    by (simp only: round_mag_def)
  then show ?thesis by simp
qed

lemma round_to_int:
  assumes "\<bar>n\<bar> < 2 ^ p" "0 < p" "emin \<le> 0" "int p \<le> emax"
  shows "round_to p emin emax (of_int n) = Fin (of_int n)"
proof (cases "n = 0")
  case True
  then show ?thesis by (simp add: round_to_def)
next
  case False
  then have mag: "round_mag p emin (of_int \<bar>n\<bar>) = of_int \<bar>n\<bar>"
    using assms by (intro round_mag_int) auto
  have "(of_int \<bar>n\<bar> :: rat) < of_int (2 ^ p)" using assms(1) by (simp only: of_int_less_iff)
  also have "\<dots> = 2 powi int p" by simp
  also have "\<dots> \<le> 2 powi emax" using assms(4) by (simp only: powi_2_le)
  finally show ?thesis using False mag by (auto simp: round_to_def Let_def)
qed

lemma rnd64_int: "\<bar>n\<bar> < 2 ^ 53 \<Longrightarrow> rnd64 (of_int n) = Fin (of_int n)"
  unfolding rnd64_def by (rule round_to_int) auto

lemma rnd32_int: "\<bar>n\<bar> < 2 ^ 24 \<Longrightarrow> rnd32 (of_int n) = Fin (of_int n)"
  unfolding rnd32_def by (rule round_to_int) auto

lemma rnd_0 [simp]: "rnd64 0 = Fin 0" "rnd32 0 = Fin 0"
  by (simp_all add: rnd64_def rnd32_def round_to_def)

lemma rnd_numeral:
  "numeral k < (2::int) ^ 53 \<Longrightarrow> rnd64 (numeral k) = Fin (numeral k)"
  "numeral k < (2::int) ^ 24 \<Longrightarrow> rnd32 (numeral k) = Fin (numeral k)"
  using rnd64_int [of "numeral k"] rnd32_int [of "numeral k"] by simp_all

section \<open>Order\<close>

definition fl_nonneg :: "flt \<Rightarrow> bool" where
  "fl_nonneg a = (a = Inf False \<or> (\<exists>x\<ge>0. a = Fin x))"

lemma fl_nonneg_simps [simp]:
  "fl_nonneg (Fin x) = (0 \<le> x)" "fl_nonneg (Inf s) = (\<not> s)" "\<not> fl_nonneg NaN"
  by (auto simp: fl_nonneg_def)

lemma fl_le_refl: "a \<noteq> NaN \<Longrightarrow> fl_le a a"
  by (cases a) auto

lemma fl_le_trans: "fl_le a b \<Longrightarrow> fl_le b c \<Longrightarrow> fl_le a c"
  by (cases a; cases b; cases c) auto

lemma fl_le_total: "a \<noteq> NaN \<Longrightarrow> b \<noteq> NaN \<Longrightarrow> fl_le a b \<or> fl_le b a"
  by (cases a; cases b) auto

lemma fl_less_le: "fl_less a b \<Longrightarrow> fl_le a b"
  by (cases a; cases b) auto

lemma fl_less_not_le: "fl_less a b \<Longrightarrow> \<not> fl_le b a"
  by (cases a; cases b) auto

lemma fl_not_le: "a \<noteq> NaN \<Longrightarrow> b \<noteq> NaN \<Longrightarrow> \<not> fl_le a b \<Longrightarrow> fl_less b a"
  by (cases a; cases b) auto

lemma fl_le_less_trans: "fl_le a b \<Longrightarrow> fl_less b c \<Longrightarrow> fl_less a c"
  by (cases a; cases b; cases c) auto

lemma fl_less_le_trans: "fl_less a b \<Longrightarrow> fl_le b c \<Longrightarrow> fl_less a c"
  by (cases a; cases b; cases c) auto

lemma fl_le_NaN [simp]: "\<not> fl_le NaN b" "\<not> fl_le a NaN"
  by (cases a; simp)+

lemma round_to_nonneg: "0 \<le> x \<Longrightarrow> 0 < p \<Longrightarrow> fl_nonneg (round_to p emin emax x)"
  using round_mag_nonneg [of x p emin] by (auto simp: round_to_def Let_def)

lemma round_to_mono:
  assumes "0 \<le> x" "x \<le> y" "0 < p"
  shows "fl_le (round_to p emin emax x) (round_to p emin emax y)"
proof (cases "x = 0")
  case True
  have "fl_nonneg (round_to p emin emax y)" using assms by (intro round_to_nonneg) auto
  with True show ?thesis by (auto simp: round_to_def fl_nonneg_def)
next
  case False
  with assms have "round_mag p emin x \<le> round_mag p emin y" by (intro round_mag_mono) auto
  with False assms show ?thesis by (auto simp: round_to_def Let_def)
qed

lemmas rnd64_nonneg = round_to_nonneg [of _ 53 "- 1074" 1024, folded rnd64_def, simplified]
lemmas rnd32_nonneg = round_to_nonneg [of _ 24 "- 149" 128, folded rnd32_def, simplified]
lemmas rnd64_mono = round_to_mono [of _ _ 53 "- 1074" 1024, folded rnd64_def, simplified]
lemmas rnd32_mono = round_to_mono [of _ _ 24 "- 149" 128, folded rnd32_def, simplified]

lemma fl_max_0_nonneg: "fl_nonneg (fl_max a (Fin 0))"
  by (cases a) (auto simp: fl_max_def)

lemma fl_max_mono: "fl_le a b \<Longrightarrow> fl_le (fl_max a (Fin c)) (fl_max b (Fin c))"
  by (cases a; cases b) (auto simp: fl_max_def)

lemma fl_min_mono: "fl_le a b \<Longrightarrow> fl_le c d \<Longrightarrow> fl_le (fl_min a c) (fl_min b d)"
  by (cases a; cases b; cases c; cases d) (auto simp: fl_min_def)

lemma fl_mul_nonneg:
  "fl_nonneg a \<Longrightarrow> fl_nonneg b \<Longrightarrow> fl_mul rnd64 a b = NaN \<or> fl_nonneg (fl_mul rnd64 a b)"
  by (cases a; cases b) (auto intro: rnd64_nonneg)

lemma fl_mul_mono:
  assumes "fl_nonneg a" "fl_nonneg c" "fl_le a b" "fl_le c d" "is_finite b" "is_finite d"
  shows "fl_le (fl_mul rnd64 a c) (fl_mul rnd64 b d)"
  using assms by (cases a; cases b; cases c; cases d) (auto intro!: rnd64_mono mult_mono)

lemma fl_div_mono:
  "0 < q \<Longrightarrow> fl_nonneg a \<Longrightarrow> fl_le a b \<Longrightarrow> fl_le (fl_div rnd64 a (Fin q)) (fl_div rnd64 b (Fin q))"
proof (cases a; cases b)
  fix x s
  assume "0 < q" "fl_nonneg a" "fl_le a b" and ab: "a = Fin x" "b = Inf s"
  then have "fl_nonneg (rnd64 (x / q))" by (intro rnd64_nonneg) auto
  then have "rnd64 (x / q) \<noteq> NaN" by (auto simp: fl_nonneg_def)
  with ab \<open>0 < q\<close> \<open>fl_le a b\<close> show ?thesis by (cases "rnd64 (x / q)") auto
qed (auto intro!: rnd64_mono divide_right_mono)

end
