(* ===== verification/Core.thy ===== *)
theory Core
  imports Floats Strings
begin

text \<open>
  The crate \<open>swagri-core\<close>: the task and result types, their validation, the update manifest with
  its three signature domains, the effective CPU score and the local-first placement decision.
\<close>

section \<open>Limits\<close>

definition TASK_PROTOCOL_V1 :: string where "TASK_PROTOCOL_V1 = ''/swagri/task/1''"
definition UPDATE_PROTOCOL_V1 :: string where "UPDATE_PROTOCOL_V1 = ''/swagri/update/1''"
definition ARTIFACT_PROTOCOL_V1 :: string where "ARTIFACT_PROTOCOL_V1 = ''/swagri/artifact/1''"

definition MAX_UPDATE_BYTES :: u64 where "MAX_UPDATE_BYTES = 128 * 1024 * 1024"
definition UPDATE_CHUNK_BYTES :: u32 where "UPDATE_CHUNK_BYTES = 256 * 1024"
definition MAX_TEXT_BYTES :: nat where "MAX_TEXT_BYTES = 1024 * 1024"
definition MAX_SUM_VALUES :: nat where "MAX_SUM_VALUES = 100000"
definition MAX_BENCHMARK_ITERATIONS :: u64 where "MAX_BENCHMARK_ITERATIONS = 50000000"
definition MIN_MATRIX_SIZE :: u16 where "MIN_MATRIX_SIZE = 16"
definition MAX_MATRIX_SIZE :: u16 where "MAX_MATRIX_SIZE = 384"
definition MAX_DISTRIBUTED_MATRIX_SIZE :: u16 where "MAX_DISTRIBUTED_MATRIX_SIZE = 768"
definition MAX_MATRIX_CHUNK_ROWS :: u16 where "MAX_MATRIX_CHUNK_ROWS = 128"
definition NODE_PROTOCOL_VERSION :: u16 where "NODE_PROTOCOL_VERSION = 4"
definition REMOTE_CPU_MINIMUM_GAIN :: flt where "REMOTE_CPU_MINIMUM_GAIN = rnd64 (6 / 5)"

lemmas core_limits =
  MAX_UPDATE_BYTES_def UPDATE_CHUNK_BYTES_def MAX_TEXT_BYTES_def MAX_SUM_VALUES_def
  MAX_BENCHMARK_ITERATIONS_def MIN_MATRIX_SIZE_def MAX_MATRIX_SIZE_def
  MAX_DISTRIBUTED_MATRIX_SIZE_def MAX_MATRIX_CHUNK_ROWS_def NODE_PROTOCOL_VERSION_def

section \<open>Resource snapshots and scores\<close>

record resource_snapshot =
  observed_at_unix_ms :: u64
  os :: string
  arch :: string
  cpu_brand :: string
  physical_cores :: u16
  logical_cores :: u16
  total_memory_bytes :: u64
  available_memory_bytes :: u64
  host_cpu_percent :: flt
  agent_cpu_percent :: flt
  agent_memory_bytes :: u64
  active_tasks :: u32
  cpu_limit_percent :: flt
  memory_limit_percent :: flt
  allocatable_memory_bytes :: u64
  calibrated_cpu_score :: flt
  snapshot_cpu_score :: flt
  contribution_paused :: bool
  battery_percent :: "u8 option"
  charging :: "bool option"
  thermal_status :: "u8 option"
  unmetered_network :: "bool option"

definition effective_cpu_score :: "flt \<Rightarrow> flt \<Rightarrow> flt \<Rightarrow> flt \<Rightarrow> flt" where
  "effective_cpu_score calibrated host agent limit =
     (let host_free = fl_max (fl_sub rnd32 (Fin 100) (fl_clamp host (Fin 0) (Fin 100))) (Fin 0);
          policy_free = fl_max (fl_sub rnd32 (fl_clamp limit (Fin 0) (Fin 100))
                                             (fl_clamp agent (Fin 0) (Fin 100))) (Fin 0)
      in fl_div rnd64 (fl_mul rnd64 (fl_max calibrated (Fin 0)) (fl_min host_free policy_free)) (Fin 100))"

record cpu_placement_decision =
  remote_candidate_index :: "nat option"
  local_score :: flt
  selected_score :: flt
  minimum_remote_score :: flt

definition finite_non_negative :: "flt \<Rightarrow> flt" where
  "finite_non_negative v = (if is_finite v then fl_max v (Fin 0) else Fin 0)"

text \<open>\<open>filter_map\<close> over the enumerated scores, then \<open>max_by\<close>, which keeps the last maximum.\<close>

fun usable_scores :: "nat \<Rightarrow> flt list \<Rightarrow> (nat \<times> flt) list" where
  "usable_scores i [] = []"
| "usable_scores i (s # ss) =
     (if is_finite s \<and> fl_less (Fin 0) (fl_max s (Fin 0))
      then (i, fl_max s (Fin 0)) # usable_scores (Suc i) ss
      else usable_scores (Suc i) ss)"

fun max_by_score :: "(nat \<times> flt) list \<Rightarrow> (nat \<times> flt) option" where
  "max_by_score [] = None"
| "max_by_score (e # es) =
     (case max_by_score es of None \<Rightarrow> Some e
      | Some m \<Rightarrow> Some (if total_le (snd e) (snd m) then m else e))"

definition choose_cpu_placement :: "flt \<Rightarrow> flt list \<Rightarrow> flt \<Rightarrow> cpu_placement_decision" where
  "choose_cpu_placement loc remotes gain =
     (let loc' = finite_non_negative loc;
          gain' = (if is_finite gain then fl_max gain (Fin 1) else REMOTE_CPU_MINIMUM_GAIN);
          min_remote = fl_mul rnd64 loc' gain';
          stay = \<lparr>remote_candidate_index = None, local_score = loc',
                  selected_score = loc', minimum_remote_score = min_remote\<rparr>
      in case max_by_score (usable_scores 0 remotes) of
           None \<Rightarrow> stay
         | Some (i, s) \<Rightarrow>
             if fl_le min_remote s \<and> fl_less loc' s
             then \<lparr>remote_candidate_index = Some i, local_score = loc',
                   selected_score = s, minimum_remote_score = min_remote\<rparr>
             else stay)"

section \<open>Update manifests\<close>

record update_manifest =
  um_version :: string
  um_target_os :: string
  um_target_arch :: string
  um_size :: u64
  um_sha256_hex :: string

definition newline :: char where "newline = CHR 0x0A"

abbreviation nl :: string where "nl \<equiv> [newline]"

definition payload_with :: "string \<Rightarrow> update_manifest \<Rightarrow> string" where
  "payload_with domain m =
     domain @ nl @ um_version m @ nl @ um_target_os m @ nl @ um_target_arch m @ nl
       @ show_word (um_size m) @ nl @ um_sha256_hex m @ nl"

definition signing_payload :: "update_manifest \<Rightarrow> string" where
  "signing_payload m = payload_with ''swagri-update-v1'' m"

definition debugger_signing_payload :: "update_manifest \<Rightarrow> string" where
  "debugger_signing_payload m = payload_with ''swagri-debugger-update-v1'' m"

definition android_signing_payload :: "update_manifest \<Rightarrow> string" where
  "android_signing_payload m = payload_with ''swagri-android-update-v1'' m"

record signed_update_manifest =
  su_manifest :: update_manifest
  su_signer_public_key :: bytes
  su_signature :: bytes

datatype update_request =
    UManifest
  | UDebuggerManifest
  | UAndroidManifest
  | UChunk string u64 u32
  | UDebuggerChunk string u64 u32
  | UAndroidChunk string u64 u32

datatype update_response =
    UpManifest signed_update_manifest
  | UpChunk u64 bytes
  | UpError string

section \<open>Tasks\<close>

datatype task =
    TNodeInfo
  | TEcho string
  | TSum "flt list"
  | TSha256 string
  | TCpuBenchmark u64
  | TMatrixMultiply u16
  | TMatrixChunk u16 u16 u16

datatype task_kind =
    KNodeInfo | KEcho | KSum | KSha256 | KCpuBenchmark | KMatrixMultiply | KMatrixChunk

datatype task_validation_error =
    TextTooLarge | TooManyValues | NonFiniteNumber
  | InvalidBenchmarkIterations | InvalidMatrixSize | InvalidMatrixChunk

fun kind :: "task \<Rightarrow> task_kind" where
  "kind TNodeInfo = KNodeInfo"
| "kind (TEcho _) = KEcho"
| "kind (TSum _) = KSum"
| "kind (TSha256 _) = KSha256"
| "kind (TCpuBenchmark _) = KCpuBenchmark"
| "kind (TMatrixMultiply _) = KMatrixMultiply"
| "kind (TMatrixChunk _ _ _) = KMatrixChunk"

text \<open>The guards stand in the order of the match arms; \<open>None\<close> is \<open>Ok(())\<close>.\<close>

fun validate :: "task \<Rightarrow> task_validation_error option" where
  "validate (TEcho m) = (if MAX_TEXT_BYTES < length m then Some TextTooLarge else None)"
| "validate (TSha256 t) = (if MAX_TEXT_BYTES < length t then Some TextTooLarge else None)"
| "validate (TSum vs) =
     (if MAX_SUM_VALUES < length vs then Some TooManyValues
      else if list_ex (\<lambda>v. \<not> is_finite v) vs then Some NonFiniteNumber else None)"
| "validate (TCpuBenchmark n) =
     (if n = 0 \<or> MAX_BENCHMARK_ITERATIONS < n then Some InvalidBenchmarkIterations else None)"
| "validate (TMatrixMultiply n) =
     (if \<not> (MIN_MATRIX_SIZE \<le> n \<and> n \<le> MAX_MATRIX_SIZE) then Some InvalidMatrixSize else None)"
| "validate (TMatrixChunk n a b) =
     (if \<not> (MIN_MATRIX_SIZE \<le> n \<and> n \<le> MAX_DISTRIBUTED_MATRIX_SIZE) \<or> b \<le> a \<or> n < b
         \<or> MAX_MATRIX_CHUNK_ROWS < b - a
      then Some InvalidMatrixChunk else None)"
| "validate TNodeInfo = None"

fun validation_message :: "task_validation_error \<Rightarrow> string" where
  "validation_message TextTooLarge = ''text payload exceeds the configured limit''"
| "validation_message TooManyValues = ''sum contains too many values''"
| "validation_message NonFiniteNumber = ''sum values must be finite''"
| "validation_message InvalidBenchmarkIterations =
     ''benchmark iterations must be between 1 and the configured limit''"
| "validation_message InvalidMatrixSize = ''matrix size must be between 16 and 384''"
| "validation_message InvalidMatrixChunk =
     ''matrix chunk must contain 1 to 128 rows within a matrix of size 16 to 768''"

record task_request =
  req_id :: string
  req_task :: task

record node_capabilities =
  cap_protocol_version :: u16
  task_kinds :: "task_kind list"
  max_text_bytes :: nat

definition default_capabilities :: node_capabilities where
  "default_capabilities =
     \<lparr>cap_protocol_version = NODE_PROTOCOL_VERSION,
      task_kinds = [KNodeInfo, KEcho, KSum, KSha256, KCpuBenchmark, KMatrixMultiply, KMatrixChunk],
      max_text_bytes = MAX_TEXT_BYTES\<rparr>"

datatype task_result =
    RNodeInfo string u16 string "resource_snapshot option"
  | REcho string
  | RSum flt
  | RSha256 string
  | RCpuBenchmark u64 u64
  | RMatrixMultiply u64 u16
  | RMatrixChunk u64 u16 u16 u16
  | RDistributedMatrix u64 u16 u16

datatype task_outcome = Success task_result | Failure string string

record task_response =
  resp_id :: string
  duration_ms :: u64
  outcome :: task_outcome

definition response_success :: "string \<Rightarrow> u64 \<Rightarrow> task_result \<Rightarrow> task_response" where
  "response_success i d r = \<lparr>resp_id = i, duration_ms = d, outcome = Success r\<rparr>"

definition response_failure :: "string \<Rightarrow> u64 \<Rightarrow> string \<Rightarrow> string \<Rightarrow> task_response" where
  "response_failure i d code msg = \<lparr>resp_id = i, duration_ms = d, outcome = Failure code msg\<rparr>"

section \<open>Validation\<close>

definition task_bounds :: "task \<Rightarrow> bool" where
  "task_bounds t = (case t of
     TNodeInfo \<Rightarrow> True
   | TEcho m \<Rightarrow> length m \<le> 2 ^ 20
   | TSha256 m \<Rightarrow> length m \<le> 2 ^ 20
   | TSum vs \<Rightarrow> length vs \<le> 100000 \<and> (\<forall>v\<in>set vs. \<exists>q. v = Fin q)
   | TCpuBenchmark n \<Rightarrow> 1 \<le> unat n \<and> unat n \<le> 50000000
   | TMatrixMultiply n \<Rightarrow> 16 \<le> unat n \<and> unat n \<le> 384
   | TMatrixChunk n a b \<Rightarrow> 16 \<le> unat n \<and> unat n \<le> 768 \<and> unat a < unat b \<and> unat b \<le> unat n
       \<and> unat b - unat a \<le> 128)"

lemma is_finite_iff: "is_finite v \<longleftrightarrow> (\<exists>q. v = Fin q)"
  by (cases v) auto

lemma validate_chunk_iff:
  "validate (TMatrixChunk n a b) = None \<longleftrightarrow> task_bounds (TMatrixChunk n a b)"
  by (auto simp: task_bounds_def core_limits word_le_nat_alt word_less_nat_alt unat_sub)

lemma validate_iff_bounds: "validate t = None \<longleftrightarrow> task_bounds t"
proof (cases t)
  case (TMatrixChunk n a b)
  then show ?thesis using validate_chunk_iff by simp
next
  case (TCpuBenchmark n)
  have "n = 0 \<longleftrightarrow> unat n < 1" by (simp add: unat_eq_0)
  with TCpuBenchmark show ?thesis
    by (auto simp: task_bounds_def core_limits word_le_nat_alt word_less_nat_alt)
qed (auto simp: task_bounds_def core_limits word_le_nat_alt word_less_nat_alt is_finite_iff
       list_ex_iff not_less)

section \<open>Signature domains\<close>

lemma cut_at:
  "c \<notin> set w \<Longrightarrow> c \<notin> set w' \<Longrightarrow> w @ c # s = w' @ c # s' \<Longrightarrow> w = w' \<and> s = s'"
  by (induction w arbitrary: w') (force simp: Cons_eq_append_conv)+

lemma payload_domain:
  "newline \<notin> set d \<Longrightarrow> newline \<notin> set d' \<Longrightarrow> payload_with d m = payload_with d' m' \<Longrightarrow> d = d'"
  unfolding payload_with_def append.simps
  by (drule (2) cut_at) blast

lemma newline_show [simp]: "newline \<notin> set (show_nat n)"
  by (rule show_nat_avoids) (simp add: newline_def)

definition clean_fields :: "update_manifest \<Rightarrow> bool" where
  "clean_fields m = (newline \<notin> set (um_version m) \<and> newline \<notin> set (um_target_os m)
     \<and> newline \<notin> set (um_target_arch m))"

lemma payload_fields:
  assumes "clean_fields m" "clean_fields m'" "payload_with d m = payload_with d m'"
  shows "m = m'"
proof -
  define tail3 where "tail3 k = show_word (um_size k) @ newline # um_sha256_hex k @ [newline]" for k :: update_manifest
  define tail2 where "tail2 k = um_target_arch k @ newline # tail3 k" for k :: update_manifest
  define tail1 where "tail1 k = um_target_os k @ newline # tail2 k" for k :: update_manifest
  have "um_version m @ newline # tail1 m = um_version m' @ newline # tail1 m'"
    using assms(3) unfolding payload_with_def tail1_def tail2_def tail3_def
    by (simp only: same_append_eq append.simps append_assoc list.inject simp_thms)
  then have v: "um_version m = um_version m'" "tail1 m = tail1 m'"
    using assms(1,2) cut_at [of newline "um_version m" "um_version m'" "tail1 m" "tail1 m'"]
    unfolding clean_fields_def by blast+
  from v(2) have o: "um_target_os m = um_target_os m'" "tail2 m = tail2 m'"
    using assms(1,2) cut_at [of newline "um_target_os m" "um_target_os m'" "tail2 m" "tail2 m'"]
    unfolding clean_fields_def tail1_def by blast+
  from o(2) have a: "um_target_arch m = um_target_arch m'" "tail3 m = tail3 m'"
    using assms(1,2) cut_at [of newline "um_target_arch m" "um_target_arch m'" "tail3 m" "tail3 m'"]
    unfolding clean_fields_def tail2_def by blast+
  from a(2) have "show_word (um_size m) = show_word (um_size m')" "um_sha256_hex m = um_sha256_hex m'"
    using cut_at [OF newline_show newline_show, of "unat (um_size m)" "um_sha256_hex m @ nl"
        "unat (um_size m')" "um_sha256_hex m' @ nl"]
    unfolding tail3_def by blast+
  with v o a show ?thesis using decimal_u64.encode_inj [of "um_size m" "um_size m'"] by simp
qed

section \<open>Scores\<close>

lemma effective_headroom_nonneg:
  "fl_nonneg (fl_min (fl_max a (Fin 0)) (fl_max b (Fin 0)))"
  using fl_max_0_nonneg [of a] fl_max_0_nonneg [of b]
  by (auto simp: fl_min_def)

lemma fl_div_nonneg: "0 < q \<Longrightarrow> fl_nonneg a \<Longrightarrow> fl_nonneg (fl_div rnd64 a (Fin q))"
  by (cases a) (auto intro: rnd64_nonneg)

lemma clamp_range:
  "x \<noteq> NaN \<Longrightarrow> \<exists>q. fl_clamp x (Fin 0) (Fin 100) = Fin q \<and> 0 \<le> q \<and> q \<le> 100"
  by (cases x) (auto simp: fl_clamp_def)

lemma clamp_mono:
  "fl_le a b \<Longrightarrow> fl_le (fl_clamp a (Fin 0) (Fin 100)) (fl_clamp b (Fin 0) (Fin 100))"
  by (cases a; cases b) (auto simp: fl_clamp_def)

lemma rnd32_negative: "x \<le> 0 \<Longrightarrow> fl_max (rnd32 x) (Fin 0) = Fin 0"
proof -
  assume x: "x \<le> 0"
  show ?thesis
  proof (cases "x = 0")
    case True
    then show ?thesis by (simp add: fl_max_def)
  next
    case False
    with x have "0 \<le> round_mag 24 (- 149) \<bar>x\<bar>" by (intro round_mag_nonneg) simp
    with False x show ?thesis by (auto simp: rnd32_def round_to_def Let_def fl_max_def)
  qed
qed

lemma headroom_range:
  assumes "x \<le> 100"
  shows "\<exists>z\<ge>0. fl_max (rnd32 x) (Fin 0) = Fin z"
proof (cases "x \<le> 0")
  case True
  then show ?thesis using rnd32_negative by auto
next
  case False
  have "fl_le (rnd32 x) (rnd32 100)" using False assms by (intro rnd32_mono) auto
  moreover have "rnd32 100 = Fin 100" by (rule rnd_numeral) simp
  moreover have "fl_nonneg (rnd32 x)" using False by (intro rnd32_nonneg) simp
  ultimately show ?thesis by (cases "rnd32 x") (auto simp: fl_max_def)
qed

lemma headroom_mono:
  assumes "x \<le> y" "y \<le> 100"
  shows "fl_le (fl_max (rnd32 x) (Fin 0)) (fl_max (rnd32 y) (Fin 0))"
proof (cases "x \<le> 0")
  case True
  then show ?thesis using headroom_range [OF assms(2)] rnd32_negative by auto
next
  case False
  then show ?thesis using assms by (intro fl_max_mono rnd32_mono) auto
qed

lemma max_0_mono:
  "is_finite c' \<Longrightarrow> fl_le c c' \<Longrightarrow>
     \<exists>k k'. fl_max c (Fin 0) = Fin k \<and> fl_max c' (Fin 0) = Fin k' \<and> 0 \<le> k \<and> k \<le> k'"
  by (cases c; cases c') (auto simp: fl_max_def)

lemma effective_mono:
  assumes "is_finite c'" "fl_le c c'" "fl_le h' h" "fl_le a' a" "fl_le l l'"
  shows "fl_le (effective_cpu_score c h a l) (effective_cpu_score c' h' a' l')
    \<and> fl_nonneg (effective_cpu_score c h a l)"
proof -
  have nn: "h \<noteq> NaN" "h' \<noteq> NaN" "a \<noteq> NaN" "a' \<noteq> NaN" "l \<noteq> NaN" "l' \<noteq> NaN"
    using assms fl_le_NaN by metis+
  obtain qh where qh: "fl_clamp h (Fin 0) (Fin 100) = Fin qh" "0 \<le> qh" "qh \<le> 100"
    using clamp_range [OF nn(1)] by blast
  obtain qh' where qh': "fl_clamp h' (Fin 0) (Fin 100) = Fin qh'" "0 \<le> qh'" "qh' \<le> 100"
    using clamp_range [OF nn(2)] by blast
  obtain qa where qa: "fl_clamp a (Fin 0) (Fin 100) = Fin qa" "0 \<le> qa" "qa \<le> 100"
    using clamp_range [OF nn(3)] by blast
  obtain qa' where qa': "fl_clamp a' (Fin 0) (Fin 100) = Fin qa'" "0 \<le> qa'" "qa' \<le> 100"
    using clamp_range [OF nn(4)] by blast
  obtain ql where ql: "fl_clamp l (Fin 0) (Fin 100) = Fin ql" "0 \<le> ql" "ql \<le> 100"
    using clamp_range [OF nn(5)] by blast
  obtain ql' where ql': "fl_clamp l' (Fin 0) (Fin 100) = Fin ql'" "0 \<le> ql'" "ql' \<le> 100"
    using clamp_range [OF nn(6)] by blast
  note q = qh qh' qa qa' ql ql'
  have ord: "qh' \<le> qh" "qa' \<le> qa" "ql \<le> ql'"
    using clamp_mono [OF assms(3)] clamp_mono [OF assms(4)] clamp_mono [OF assms(5)] q by auto
  let ?hr = "\<lambda>x. fl_max (rnd32 x) (Fin 0)"
  obtain z1 z2 z3 z4 where z: "?hr (100 - qh) = Fin z1" "?hr (ql - qa) = Fin z2"
      "?hr (100 - qh') = Fin z3" "?hr (ql' - qa') = Fin z4" "0 \<le> z1" "0 \<le> z2"
    using headroom_range [of "100 - qh"] headroom_range [of "ql - qa"]
      headroom_range [of "100 - qh'"] headroom_range [of "ql' - qa'"] q by auto
  have "z1 \<le> z3" "z2 \<le> z4"
    using headroom_mono [of "100 - qh" "100 - qh'"] headroom_mono [of "ql - qa" "ql' - qa'"] q ord z by auto
  moreover obtain k k' where k: "fl_max c (Fin 0) = Fin k" "fl_max c' (Fin 0) = Fin k'" "0 \<le> k" "k \<le> k'"
    using max_0_mono [OF assms(1,2)] by blast
  moreover have "fl_min (Fin u) (Fin v) = Fin (min u v)" for u v
    by (auto simp: fl_min_def min_def)
  ultimately have le: "fl_le (fl_mul rnd64 (Fin k) (Fin (min z1 z2))) (fl_mul rnd64 (Fin k') (Fin (min z3 z4)))"
    and nn: "fl_nonneg (fl_mul rnd64 (Fin k) (Fin (min z1 z2)))"
    using z by (auto intro!: rnd64_mono rnd64_nonneg mult_mono)
  from k q z \<open>\<And>u v. fl_min (Fin u) (Fin v) = Fin (min u v)\<close>
  have "effective_cpu_score c h a l = fl_div rnd64 (fl_mul rnd64 (Fin k) (Fin (min z1 z2))) (Fin 100)"
    "effective_cpu_score c' h' a' l' = fl_div rnd64 (fl_mul rnd64 (Fin k') (Fin (min z3 z4))) (Fin 100)"
    by (simp_all add: effective_cpu_score_def fl_sub_def)
  then show ?thesis
    using fl_div_mono [of 100, OF _ nn le] fl_div_nonneg [of 100, OF _ nn] by simp
qed

section \<open>Placement\<close>

lemma usable_score: "(is_finite x \<and> fl_less (Fin 0) (fl_max x (Fin 0))) = (is_finite x \<and> fl_less (Fin 0) x)"
  by (cases x) (auto simp: fl_max_def)

lemma usable_score_eq: "is_finite x \<Longrightarrow> fl_less (Fin 0) x \<Longrightarrow> fl_max x (Fin 0) = x"
  by (cases x) (auto simp: fl_max_def)

lemma usable_scores_set:
  "(j, s) \<in> set (usable_scores i ss) \<longleftrightarrow>
     i \<le> j \<and> j - i < length ss \<and> is_finite (ss ! (j - i)) \<and> s = ss ! (j - i) \<and> fl_less (Fin 0) s"
proof (induction ss arbitrary: i)
  case Nil
  then show ?case by simp
next
  case (Cons x xs)
  have here: "(j, s) \<in> set (usable_scores i (x # xs)) \<longleftrightarrow>
      (is_finite x \<and> fl_less (Fin 0) x \<and> j = i \<and> s = x) \<or> (j, s) \<in> set (usable_scores (Suc i) xs)"
    using usable_score [of x] usable_score_eq [of x] by (cases "is_finite x \<and> fl_less (Fin 0) x") auto
  consider "j < i" | "j = i" | d where "j = Suc (i + d)"
    by (metis less_imp_Suc_add linorder_neqE_nat)
  then show ?case
    unfolding here Cons.IH by cases (auto simp: Suc_diff_le)
qed

lemma max_by_score_spec:
  "\<forall>e\<in>set es. snd e \<noteq> NaN \<Longrightarrow>
     (case max_by_score es of None \<Rightarrow> es = []
      | Some m \<Rightarrow> m \<in> set es \<and> (\<forall>e\<in>set es. fl_le (snd e) (snd m)))"
proof (induction es)
  case Nil
  then show ?case by simp
next
  case (Cons e es)
  then have ih: "case max_by_score es of None \<Rightarrow> es = []
      | Some m \<Rightarrow> m \<in> set es \<and> (\<forall>e\<in>set es. fl_le (snd e) (snd m))" by simp
  show ?case
  proof (cases "max_by_score es")
    case None
    with ih Cons.prems show ?thesis by (simp add: fl_le_refl)
  next
    case (Some m)
    with ih have m: "m \<in> set es" "\<forall>e\<in>set es. fl_le (snd e) (snd m)" by auto
    with Cons.prems have nn: "snd e \<noteq> NaN" "snd m \<noteq> NaN" by auto
    show ?thesis
    proof (cases "fl_le (snd e) (snd m)")
      case True
      with Some m nn show ?thesis by (simp add: total_le_def)
    next
      case False
      with nn have "fl_le (snd m) (snd e)" by (metis fl_le_total)
      with Some m nn False show ?thesis
        by (auto simp: total_le_def fl_le_refl intro: fl_le_trans)
    qed
  qed
qed

lemma max_by_usable:
  "case max_by_score (usable_scores 0 ss) of
     None \<Rightarrow> (\<forall>j<length ss. is_finite (ss ! j) \<longrightarrow> \<not> fl_less (Fin 0) (ss ! j))
   | Some (i, s) \<Rightarrow> i < length ss \<and> s = ss ! i \<and> is_finite s \<and> fl_less (Fin 0) s \<and>
       (\<forall>j<length ss. is_finite (ss ! j) \<longrightarrow> fl_le (ss ! j) s)"
proof -
  have "\<forall>e\<in>set (usable_scores 0 ss). snd e \<noteq> NaN"
    using usable_scores_set [of _ _ 0 ss] by fastforce
  note spec = max_by_score_spec [OF this]
  show ?thesis
  proof (cases "max_by_score (usable_scores 0 ss)")
    case None
    with spec have "usable_scores 0 ss = []" by simp
    then have "(j, ss ! j) \<notin> set (usable_scores 0 ss)" for j by simp
    with None show ?thesis by (simp add: usable_scores_set)
  next
    case (Some m)
    obtain i s where m: "m = (i, s)" by (cases m)
    with Some spec have mem: "(i, s) \<in> set (usable_scores 0 ss)"
      and top: "\<forall>e\<in>set (usable_scores 0 ss). fl_le (snd e) s" by auto
    from mem have i: "i < length ss" "s = ss ! i" "is_finite s" "fl_less (Fin 0) s"
      by (auto simp: usable_scores_set)
    have "fl_le (ss ! j) s" if "j < length ss" "is_finite (ss ! j)" for j
    proof (cases "fl_less (Fin 0) (ss ! j)")
      case True
      with that have "(j, ss ! j) \<in> set (usable_scores 0 ss)" by (simp add: usable_scores_set)
      with top show ?thesis by force
    next
      case False
      with that i(3,4) show ?thesis by (cases "ss ! j"; cases s) auto
    qed
    with i Some m show ?thesis by simp
  qed
qed

lemma choose_placement_remote:
  fixes loc remotes gain
  defines "d \<equiv> choose_cpu_placement loc remotes gain"
  assumes "remote_candidate_index d = Some i"
  shows "i < length remotes" "fl_less (finite_non_negative loc) (remotes ! i)"
    "\<And>j. j < length remotes \<Longrightarrow> is_finite (remotes ! j) \<Longrightarrow> fl_le (remotes ! j) (remotes ! i)"
    "local_score d = finite_non_negative loc" "is_finite (remotes ! i)" "selected_score d = remotes ! i"
    "fl_le (minimum_remote_score d) (remotes ! i)"
proof -
  from assms obtain x where m: "max_by_score (usable_scores 0 remotes) = Some (i, x)" "fl_less (finite_non_negative loc) x"
      "selected_score d = x" "fl_le (minimum_remote_score d) x" "local_score d = finite_non_negative loc"
    by (auto simp: choose_cpu_placement_def Let_def split: option.splits prod.splits if_splits)
  with max_by_usable [of remotes, unfolded m(1), simplified]
  show "i < length remotes" "fl_less (finite_non_negative loc) (remotes ! i)"
    "\<And>j. j < length remotes \<Longrightarrow> is_finite (remotes ! j) \<Longrightarrow> fl_le (remotes ! j) (remotes ! i)"
    "local_score d = finite_non_negative loc" "is_finite (remotes ! i)" "selected_score d = remotes ! i"
    "fl_le (minimum_remote_score d) (remotes ! i)"
    by auto
qed

lemma choose_placement_local:
  fixes loc remotes gain
  defines "d \<equiv> choose_cpu_placement loc remotes gain"
  assumes "remote_candidate_index d = None"
  shows "selected_score d = finite_non_negative loc" "local_score d = finite_non_negative loc"
    "\<And>j. j < length remotes \<Longrightarrow> is_finite (remotes ! j) \<Longrightarrow> fl_less (Fin 0) (remotes ! j) \<Longrightarrow>
       \<not> (fl_le (minimum_remote_score d) (remotes ! j) \<and> fl_less (local_score d) (remotes ! j))"
proof -
  show "selected_score d = finite_non_negative loc" "local_score d = finite_non_negative loc"
    using assms by (auto simp: choose_cpu_placement_def Let_def split: option.splits prod.splits if_splits)
next
  fix j assume j: "j < length remotes" "is_finite (remotes ! j)" "fl_less (Fin 0) (remotes ! j)"
  show "\<not> (fl_le (minimum_remote_score d) (remotes ! j) \<and> fl_less (local_score d) (remotes ! j))"
  proof (cases "max_by_score (usable_scores 0 remotes)")
    case None
    with max_by_usable [of remotes] j show ?thesis by simp
  next
    case (Some m)
    obtain i s where m: "m = (i, s)" by (cases m)
    have top: "fl_le (remotes ! j) s" using max_by_usable [of remotes] j unfolding Some m by auto
    have "\<not> (fl_le (minimum_remote_score d) s \<and> fl_less (local_score d) s)"
      using assms by (auto simp: choose_cpu_placement_def Let_def Some m split: if_splits)
    with top show ?thesis using fl_le_trans fl_less_le_trans by blast
  qed
qed

lemma choose_placement_margin:
  "local_score (choose_cpu_placement loc remotes gain) = (if is_finite loc \<and> fl_less (Fin 0) loc then loc else Fin 0)"
  "minimum_remote_score (choose_cpu_placement loc remotes gain) =
     fl_mul rnd64 (if is_finite loc \<and> fl_less (Fin 0) loc then loc else Fin 0)
       (if is_finite gain then fl_max gain (Fin 1) else rnd64 (6 / 5))"
  by (cases loc; auto simp: choose_cpu_placement_def finite_non_negative_def fl_max_def REMOTE_CPU_MINIMUM_GAIN_def Let_def
      split: option.split prod.split)+

text \<open>
  C5. Local-first placement. The local score counts as zero unless it is finite and positive, and the margin is that score times the
  gain asked for (at least one; 1.2 when the gain is not finite), rounded to \<open>f64\<close>; the decision reports both. A remote candidate is
  chosen only when its score is finite, exceeds the local score and clears the margin, and then it is the strongest finite candidate;
  the task stays local only when no finite positive candidate both clears the margin and beats the local score. Invalid scores never win.
\<close>

theorem choose_cpu_placement_correct:
  "let d = choose_cpu_placement loc remotes gain;
       own = (if is_finite loc \<and> fl_less (Fin 0) loc then loc else Fin 0);
       margin = fl_mul rnd64 own (if is_finite gain then fl_max gain (Fin 1) else rnd64 (6 / 5))
   in local_score d = own \<and> minimum_remote_score d = margin \<and>
      (case remote_candidate_index d of
         Some i \<Rightarrow>
           i < length remotes \<and> selected_score d = remotes ! i \<and> is_finite (remotes ! i)
           \<and> fl_less own (remotes ! i) \<and> fl_le margin (remotes ! i)
           \<and> (\<forall>j<length remotes. is_finite (remotes ! j) \<longrightarrow> fl_le (remotes ! j) (remotes ! i))
       | None \<Rightarrow>
           selected_score d = own
           \<and> (\<forall>j<length remotes. is_finite (remotes ! j) \<and> fl_less (Fin 0) (remotes ! j) \<longrightarrow>
                \<not> (fl_le margin (remotes ! j) \<and> fl_less own (remotes ! j))))"
  using choose_placement_remote [of loc remotes gain] choose_placement_local [of loc remotes gain]
    choose_placement_margin [of loc remotes gain]
  by (cases "remote_candidate_index (choose_cpu_placement loc remotes gain)") (simp_all add: Let_def)

theorem choose_cpu_placement_correct_witness:
  "let d = choose_cpu_placement (Fin 30) [NaN, Fin 50, Fin 20] (Fin (3 / 2)) in
     remote_candidate_index d = Some 1 \<and> selected_score d = Fin 50
     \<and> fl_less (Fin 30) (Fin 50) \<and> fl_le (minimum_remote_score d) (Fin 50) \<and>
     remote_candidate_index (choose_cpu_placement (Fin 30) [NaN, Fin 40, Fin 20] (Fin (3 / 2))) = None"
proof -
  have "rnd64 45 = Fin 45" using rnd64_int [of 45] by simp
  then have "remote_candidate_index (choose_cpu_placement (Fin 30) [NaN, Fin 50, Fin 20] (Fin (3 / 2))) = Some 1"
    "remote_candidate_index (choose_cpu_placement (Fin 30) [NaN, Fin 40, Fin 20] (Fin (3 / 2))) = None"
    by (simp_all add: choose_cpu_placement_def finite_non_negative_def fl_max_def total_le_def Let_def)
  with choose_cpu_placement_correct [of "Fin 30" "[NaN, Fin 50, Fin 20]" "Fin (3 / 2)"]
  show ?thesis by (simp add: Let_def)
qed

text \<open>
  C6. The effective score never rewards load: it is non-negative, and it does not decrease when
  the calibrated strength or the CPU limit grows or when the host or Agent load falls, with every
  rounding of \<open>f32\<close> and \<open>f64\<close> taken into account.
\<close>

theorem effective_cpu_score_monotone:
  assumes "is_finite c'" "fl_le c c'" "fl_le h' h" "fl_le a' a" "fl_le l l'"
  shows "fl_le (effective_cpu_score c h a l) (effective_cpu_score c' h' a' l')
    \<and> fl_nonneg (effective_cpu_score c h a l)"
  using effective_mono [OF assms] .

theorem effective_cpu_score_monotone_witness:
  "fl_le (effective_cpu_score (Fin 400) (Fin 72) (Fin 0) (Fin 100))
         (effective_cpu_score (Fin 400) (Fin 10) (Fin 0) (Fin 100))
    \<and> fl_nonneg (effective_cpu_score (Fin 400) (Fin 72) (Fin 0) (Fin 100))"
  by (rule effective_cpu_score_monotone) simp_all

end
