(* ===== verification/Executor.thy ===== *)
theory Executor
  imports Core
begin

text \<open>
  The crate \<open>swagri-executor\<close>: the compiled-in tasks. Vectors are lists updated in place, loops
  over a range are folds over the list of its indices in order, and \<open>usize\<close> arithmetic is on
  natural numbers (the validated sizes keep every index far below \<open>2^64\<close>). SHA-256 with its hex
  text is the parameter \<open>sha\<close>; the milliseconds measured by the clock are the parameter \<open>ms\<close>.
\<close>

definition CARGO_PKG_VERSION :: string where "CARGO_PKG_VERSION = ''0.16.0''"

section \<open>The synthetic benchmark\<close>

definition bench_step :: "u64 \<Rightarrow> u64 \<Rightarrow> u64" where
  "bench_step index value =
     word_rotl 17 (value + (index XOR 0xa0761d6478bd642f)) * 0xe7037ed1a0b428db"

fun bench_loop :: "nat \<Rightarrow> u64 \<Rightarrow> u64 \<Rightarrow> u64" where
  "bench_loop 0 index value = value"
| "bench_loop (Suc k) index value = bench_loop k (index + 1) (bench_step index value)"

definition cpu_benchmark :: "u64 \<Rightarrow> u64" where
  "cpu_benchmark iterations = bench_loop (unat iterations) 0 0x9e3779b97f4a7c15"

section \<open>Matrix multiplication\<close>

definition left_value :: "nat \<Rightarrow> nat \<Rightarrow> u64" where
  "left_value row column = of_nat ((row * 31 + column * 17 + 1) mod 251 + 1)"

definition right_value :: "nat \<Rightarrow> nat \<Rightarrow> u64" where
  "right_value row column = of_nat ((row * 13 + column * 29 + 7) mod 241 + 1)"

text \<open>The nested loop that fills one vector of \<open>side * side\<close> cells.\<close>

definition fill_cells :: "(nat \<Rightarrow> nat \<Rightarrow> u64) \<Rightarrow> nat \<Rightarrow> u64 list" where
  "fill_cells f side =
     fold (\<lambda>row. fold (\<lambda>column v. v[row * side + column := f row column]) [0..<side])
       [0..<side] (replicate (side * side) 0)"

definition multiply_row :: "u64 list \<Rightarrow> u64 list \<Rightarrow> nat \<Rightarrow> nat \<Rightarrow> u64 list \<Rightarrow> u64 list" where
  "multiply_row left right side row =
     fold (\<lambda>inner. fold (\<lambda>column out.
         out[row * side + column :=
           out ! (row * side + column) + left ! (row * side + inner) * right ! (inner * side + column)])
         [0..<side]) [0..<side]"

definition multiply_cells :: "u64 list \<Rightarrow> u64 list \<Rightarrow> nat \<Rightarrow> u64 list" where
  "multiply_cells left right side =
     fold (multiply_row left right side) [0..<side] (replicate (side * side) 0)"

definition fold_checksum :: "u64 list \<Rightarrow> u64" where
  "fold_checksum out =
     fold (\<lambda>(index, value) c. word_rotl 11 (c + (value XOR of_nat index)))
       (enumerate 0 out) 0x6a09e667f3bcc909"

definition matrix_multiply :: "u16 \<Rightarrow> u64" where
  "matrix_multiply n =
     (let side = unat n;
          left = fill_cells left_value side;
          right = fill_cells right_value side
      in fold_checksum (multiply_cells left right side))"

definition matrix_cell_checksum :: "nat \<Rightarrow> u64 \<Rightarrow> u64" where
  "matrix_cell_checksum index value =
     word_rotl (index mod 63 + 1) (value + of_nat index * 0x9e3779b97f4a7c15) * 0xa0761d6478bd642f"

definition chunk_cell :: "u64 list \<Rightarrow> nat \<Rightarrow> nat \<Rightarrow> nat \<Rightarrow> u64" where
  "chunk_cell right side row column =
     fold (\<lambda>inner value. value + left_value row inner * right ! (inner * side + column)) [0..<side] 0"

definition matrix_chunk :: "u16 \<Rightarrow> u16 \<Rightarrow> u16 \<Rightarrow> u64" where
  "matrix_chunk n row_start row_end =
     (let side = unat n; right = fill_cells right_value side
      in fold (\<lambda>row. fold (\<lambda>column checksum.
             checksum XOR matrix_cell_checksum (row * side + column) (chunk_cell right side row column))
             [0..<side]) [unat row_start..<unat row_end] 0)"

section \<open>Execution\<close>

definition elapsed_millis :: "nat \<Rightarrow> u64" where
  "elapsed_millis ms = (if ms < 2 ^ 64 then of_nat ms else - 1)"

definition run_task :: "(string \<Rightarrow> string) \<Rightarrow> task \<Rightarrow> task_result" where
  "run_task sha t = (case t of
     TNodeInfo \<Rightarrow> RNodeInfo CARGO_PKG_VERSION NODE_PROTOCOL_VERSION [] None
   | TEcho m \<Rightarrow> REcho m
   | TSum vs \<Rightarrow> RSum (fold (\<lambda>v acc. fl_add rnd64 acc v) vs (Fin 0))
   | TSha256 m \<Rightarrow> RSha256 (sha m)
   | TCpuBenchmark n \<Rightarrow> RCpuBenchmark (cpu_benchmark n) n
   | TMatrixMultiply n \<Rightarrow> RMatrixMultiply (matrix_multiply n) n
   | TMatrixChunk n a b \<Rightarrow> RMatrixChunk (matrix_chunk n a b) n a b)"

definition execute :: "(string \<Rightarrow> string) \<Rightarrow> nat \<Rightarrow> task_request \<Rightarrow> task_response" where
  "execute sha ms request =
     (case validate (req_task request) of
        Some e \<Rightarrow> response_failure (req_id request) (elapsed_millis ms) ''invalid_task''
                   (validation_message e)
      | None \<Rightarrow> response_success (req_id request) (elapsed_millis ms)
                  (run_task sha (req_task request)))"

section \<open>The loops compute the matrix product\<close>

lemma fold_update_range:
  assumes "base + n \<le> length xs"
  shows "fold (\<lambda>c v. v[base + c := g c (v ! (base + c))]) [0..<n] xs =
    take base xs @ map (\<lambda>c. g c (xs ! (base + c))) [0..<n] @ drop (base + n) xs"
  using assms
proof (induction n)
  case 0
  then show ?case by simp
next
  case (Suc n)
  let ?ys = "take base xs @ map (\<lambda>c. g c (xs ! (base + c))) [0..<n]"
  have len: "length ?ys = base + n" using Suc.prems by simp
  have "drop (base + n) xs = xs ! (base + n) # drop (base + Suc n) xs"
    using Suc.prems by (simp add: Cons_nth_drop_Suc)
  then show ?case using Suc len
    by (simp add: list_update_append nth_append)
qed

lemma cell_index:
  assumes "i < side * side"
  obtains r c where "i = r * side + c" "r < side" "c < (side::nat)"
proof
  have "0 < side" using assms by (cases side) auto
  then show "i = (i div side) * side + i mod side" "i mod side < side" by simp_all
  show "i div side < side" using assms by (simp add: less_mult_imp_div_less)
qed

lemma cell_index_less: "r < side \<Longrightarrow> c < side \<Longrightarrow> r * side + c < side * (side::nat)"
proof -
  assume "r < side" "c < side"
  then have "r * side + c < Suc r * side" by simp
  also have "\<dots> \<le> side * side" using \<open>r < side\<close> by (intro mult_le_mono1) simp
  finally show ?thesis .
qed

lemma nth_row_update:
  assumes "r < side" "c < side" "q < side" "length xs = side * (side::nat)"
  shows "(take (q * side) xs @ map h [0..<side] @ drop (q * side + side) xs) ! (r * side + c) =
    (if r = q then h c else xs ! (r * side + c))"
proof -
  have i: "r * side + c < side * side" by (rule cell_index_less [OF assms(1,2)])
  have q: "q * side + side \<le> side * side"
    using assms(3) mult_le_mono1 [of "Suc q" side side] by simp
  consider "r < q" | "r = q" | "q < r" by linarith
  then show ?thesis
  proof cases
    case 1
    then have "Suc r * side \<le> q * side" by (intro mult_le_mono1) simp
    with assms(2) have "r * side + c < q * side" by simp
    with 1 q assms(4) show ?thesis by (simp add: nth_append)
  next
    case 2
    with q assms show ?thesis by (simp add: nth_append)
  next
    case 3
    then have "Suc q * side \<le> r * side" by (intro mult_le_mono1) simp
    then have "q * side + side \<le> r * side" by simp
    moreover have "min (side * side) (q * side) = q * side" using q by simp
    moreover have "\<not> r * side + c - q * side < side" using \<open>q * side + side \<le> r * side\<close> by linarith
    ultimately show ?thesis using 3 q i assms(4) by (simp add: nth_append)
  qed
qed

lemma fold_rows:
  assumes F: "\<And>row xs. row < side \<Longrightarrow> length xs = side * side \<Longrightarrow>
      length (F row xs) = side * side \<and>
      (\<forall>r < side. \<forall>c < side. F row xs ! (r * side + c) =
         (if r = row then G row c (xs ! (r * side + c)) else xs ! (r * side + c)))"
    and "length xs = side * side" "m \<le> (side::nat)"
  shows "length (fold F [0..<m] xs) = side * side \<and>
    (\<forall>r < side. \<forall>c < side. fold F [0..<m] xs ! (r * side + c) =
       (if r < m then G r c (xs ! (r * side + c)) else xs ! (r * side + c)))"
  using assms(3)
proof (induction m)
  case 0
  then show ?case using assms(2) by simp
next
  case (Suc m)
  then show ?case using F [of m "fold F [0..<m] xs"] by (auto simp: less_Suc_eq)
qed

lemma fill_row:
  assumes "row < side" "length xs = side * side"
  shows "length (fold (\<lambda>column v. v[row * side + column := f row column]) [0..<side] xs) = side * side \<and>
    (\<forall>r < side. \<forall>c < side. fold (\<lambda>column v. v[row * side + column := f row column]) [0..<side] xs ! (r * side + c) =
       (if r = row then f row c else xs ! (r * side + c)))"
proof -
  have "row * side + side \<le> length xs"
    using assms mult_le_mono1 [of "Suc row" side side] by simp
  from fold_update_range [OF this, of "\<lambda>c _. f row c"] this show ?thesis
    using nth_row_update [OF _ _ assms] assms(2) by simp
qed

lemma fill_cells_spec:
  "length (fill_cells f side) = side * side \<and>
   (\<forall>r < side. \<forall>c < side. fill_cells f side ! (r * side + c) =
      (if r < side then f r c else replicate (side * side) 0 ! (r * side + c)))"
  unfolding fill_cells_def
  by (rule fold_rows [where G = "\<lambda>r c _. f r c"], rule fill_row) simp_all

lemma length_fill_cells [simp]: "length (fill_cells f side) = side * side"
  using fill_cells_spec by blast

lemma nth_fill_cells: "r < side \<Longrightarrow> c < side \<Longrightarrow> fill_cells f side ! (r * side + c) = f r c"
  using fill_cells_spec [of f side] by simp

lemma multiply_inner:
  assumes "row < side" "length xs = side * side"
  shows "length (fold (\<lambda>inner. fold (\<lambda>column out.
         out[row * side + column :=
           out ! (row * side + column) + left ! (row * side + inner) * right ! (inner * side + column)])
         [0..<side]) [0..<m] xs) = side * side \<and>
     (\<forall>r < side. \<forall>c < side. fold (\<lambda>inner. fold (\<lambda>column out.
         out[row * side + column :=
           out ! (row * side + column) + left ! (row * side + inner) * right ! (inner * side + column)])
         [0..<side]) [0..<m] xs ! (r * side + c) =
       (if r = row then xs ! (r * side + c) + (\<Sum>k < m. left ! (row * side + k) * right ! (k * side + c))
        else xs ! (r * side + c)))"
    (is "length (?F m) = _ \<and> ?P m")
proof (induction m)
  case 0
  then show ?case using assms by simp
next
  case (Suc m)
  let ?g = "\<lambda>c v. v + left ! (row * side + m) * right ! (m * side + c)"
  have le: "row * side + side \<le> length (?F m)"
    using Suc assms(1) mult_le_mono1 [of "Suc row" side side] by simp
  from fold_update_range [OF le, of ?g]
  have step: "?F (Suc m) = take (row * side) (?F m)
      @ map (\<lambda>c. ?g c (?F m ! (row * side + c))) [0..<side] @ drop (row * side + side) (?F m)"
    by simp
  have "length (?F (Suc m)) = side * side"
    unfolding step using le Suc by simp
  moreover have "?P (Suc m)"
  proof (intro allI impI)
    fix r c
    assume rc: "r < side" "c < side"
    then have ih: "?F m ! (r * side + c) = (if r = row
        then xs ! (r * side + c) + (\<Sum>k < m. left ! (row * side + k) * right ! (k * side + c))
        else xs ! (r * side + c))"
      using Suc by blast
    show "?F (Suc m) ! (r * side + c) = (if r = row
        then xs ! (r * side + c) + (\<Sum>k < Suc m. left ! (row * side + k) * right ! (k * side + c))
        else xs ! (r * side + c))"
      unfolding step nth_row_update [OF rc assms(1) Suc [THEN conjunct1]]
      using ih by (cases "r = row") (simp_all only: refl if_True if_False sum.lessThan_Suc add.assoc)
  qed
  ultimately show ?case by simp
qed

lemma multiply_cells_spec:
  "length (multiply_cells left right side) = side * side \<and>
   (\<forall>r < side. \<forall>c < side. multiply_cells left right side ! (r * side + c) =
      (if r < side
       then replicate (side * side) 0 ! (r * side + c)
         + (\<Sum>k < side. left ! (r * side + k) * right ! (k * side + c))
       else replicate (side * side) 0 ! (r * side + c)))"
  unfolding multiply_cells_def
  by (rule fold_rows [where
        G = "\<lambda>r c v. v + (\<Sum>k < side. left ! (r * side + k) * right ! (k * side + c))"],
      unfold multiply_row_def, rule multiply_inner) simp_all

lemma length_multiply_cells [simp]: "length (multiply_cells left right side) = side * side"
  using multiply_cells_spec by blast

lemma nth_multiply_cells:
  "r < side \<Longrightarrow> c < side \<Longrightarrow> multiply_cells left right side ! (r * side + c) =
     (\<Sum>k < side. left ! (r * side + k) * right ! (k * side + c))"
  using multiply_cells_spec [of left right side] cell_index_less [of r side c] by simp

text \<open>The mathematical product of the two deterministic matrices, modulo \<open>2^64\<close>.\<close>

definition product_cell :: "nat \<Rightarrow> nat \<Rightarrow> nat \<Rightarrow> u64" where
  "product_cell side r c = (\<Sum>k < side. left_value r k * right_value k c)"

definition product_cells :: "nat \<Rightarrow> u64 list" where
  "product_cells side = map (\<lambda>i. product_cell side (i div side) (i mod side)) [0..<side * side]"

lemma multiply_filled: "multiply_cells (fill_cells left_value side) (fill_cells right_value side) side
    = product_cells side"
proof (rule nth_equalityI)
  fix i
  assume "i < length (multiply_cells (fill_cells left_value side) (fill_cells right_value side) side)"
  then have i: "i < side * side" by simp
  then obtain r c where rc: "i = r * side + c" "r < side" "c < side" by (rule cell_index)
  then have "i div side = r" "i mod side = c" by auto
  with i rc show "multiply_cells (fill_cells left_value side) (fill_cells right_value side) side ! i
      = product_cells side ! i"
    by (simp add: nth_multiply_cells product_cells_def product_cell_def nth_fill_cells)
qed (simp add: product_cells_def)

lemma fold_add_sum: "fold (\<lambda>k v. v + f k) [0..<n] (a::u64) = a + (\<Sum>k<n. f k)"
  by (induction n) (simp_all add: algebra_simps)

lemma chunk_cell_product:
  "c < side \<Longrightarrow> chunk_cell (fill_cells right_value side) side r c = product_cell side r c"
  by (simp add: chunk_cell_def product_cell_def fold_add_sum nth_fill_cells)

text \<open>The checksum of one row, and of a set of rows given as a list.\<close>

definition row_checksum :: "nat \<Rightarrow> nat \<Rightarrow> u64" where
  "row_checksum side r =
     xor_list (map (\<lambda>c. matrix_cell_checksum (r * side + c) (product_cell side r c)) [0..<side])"

definition rows_checksum :: "nat \<Rightarrow> nat list \<Rightarrow> u64" where
  "rows_checksum side rows = xor_list (map (row_checksum side) rows)"

lemma fold_cong_set: "(\<And>x a. x \<in> set xs \<Longrightarrow> f x a = g x a) \<Longrightarrow> fold f xs a = fold g xs a"
  by (induction xs arbitrary: a) auto

lemma matrix_chunk_rows:
  "matrix_chunk n a b = rows_checksum (unat n) [unat a..<unat b]"
proof -
  let ?s = "unat n"
  have cells: "map (\<lambda>c. matrix_cell_checksum (r * ?s + c) (chunk_cell (fill_cells right_value ?s) ?s r c)) [0..<?s]
      = map (\<lambda>c. matrix_cell_checksum (r * ?s + c) (product_cell ?s r c)) [0..<?s]" for r
    by (rule map_cong) (simp_all add: chunk_cell_product)
  show ?thesis
    unfolding matrix_chunk_def Let_def fold_xor_list cells rows_checksum_def row_checksum_def by simp
qed

lemma rows_checksum_mset: "mset rows = mset rows' \<Longrightarrow> rows_checksum side rows = rows_checksum side rows'"
  unfolding rows_checksum_def by (rule xor_list_mset) simp

lemma rows_checksum_concat:
  "rows_checksum side (concat rss) = xor_list (map (rows_checksum side) rss)"
  by (induction rss) (simp_all add: rows_checksum_def)

section \<open>Properties\<close>

text \<open>
  C2. The in-place triple loop of \<open>matrix_multiply\<close> computes the matrix product: its checksum
  is the running rotate-and-add checksum over the row-major cells of the mathematical product of
  the two deterministic matrices, for every size.
\<close>

theorem matrix_multiply_is_product:
  "matrix_multiply n = fold_checksum (product_cells (unat n))"
  by (simp add: matrix_multiply_def multiply_filled)

text \<open>
  C3. Partial checksums of matrix chunks aggregate independently of partitioning and order:
  when the row ranges of a list of chunks cover each row of the matrix exactly once, in any
  order, the exclusive or of the chunk checksums is the checksum of the whole matrix.
\<close>

theorem matrix_chunks_aggregate:
  assumes "mset (concat (map (\<lambda>(a, b). [unat a..<unat b]) plan)) = mset [0..<unat n]"
  shows "xor_list (map (\<lambda>(a, b). matrix_chunk n a b) plan) = matrix_chunk n 0 n"
proof -
  have "xor_list (map (\<lambda>(a, b). matrix_chunk n a b) plan)
      = rows_checksum (unat n) (concat (map (\<lambda>(a, b). [unat a..<unat b]) plan))"
    by (simp add: rows_checksum_concat matrix_chunk_rows comp_def split_def)
  also have "\<dots> = rows_checksum (unat n) [0..<unat n]"
    by (rule rows_checksum_mset) (rule assms)
  finally show ?thesis by (simp add: matrix_chunk_rows)
qed

theorem matrix_chunks_aggregate_witness:
  "xor_list (map (\<lambda>(a, b). matrix_chunk 3 a b) [(2, 3), (0, 2)]) = matrix_chunk 3 0 3"
  by (rule matrix_chunks_aggregate) (simp add: upt_rec)

definition result_matches :: "task \<Rightarrow> task_result \<Rightarrow> bool" where
  "result_matches t r = (case t of
     TNodeInfo \<Rightarrow> (\<exists>v p nm res. r = RNodeInfo v p nm res)
   | TEcho m \<Rightarrow> r = REcho m
   | TSum vs \<Rightarrow> (\<exists>x. r = RSum x)
   | TSha256 m \<Rightarrow> (\<exists>h. r = RSha256 h)
   | TCpuBenchmark n \<Rightarrow> (\<exists>c. r = RCpuBenchmark c n)
   | TMatrixMultiply n \<Rightarrow> r = RMatrixMultiply (fold_checksum (product_cells (unat n))) n
   | TMatrixChunk n a b \<Rightarrow> r = RMatrixChunk (rows_checksum (unat n) [unat a..<unat b]) n a b)"

text \<open>
  C4. Execution: the response carries the request's id; an invalid task is refused with
  \<open>invalid_task\<close> and no work; a valid task succeeds with the result of its own kind, and a
  chunk result echoes the size and the row range it was asked for.
\<close>

theorem execute_correct:
  "resp_id (execute sha ms req) = req_id req \<and>
   (if task_bounds (req_task req)
    then \<exists>r. outcome (execute sha ms req) = Success r \<and> result_matches (req_task req) r
    else \<exists>m. outcome (execute sha ms req) = Failure ''invalid_task'' m)"
proof (cases "validate (req_task req)")
  case None
  then have "task_bounds (req_task req)" by (simp add: validate_iff_bounds)
  with None show ?thesis
    by (simp add: execute_def response_success_def result_matches_def run_task_def
        matrix_multiply_def multiply_filled matrix_chunk_rows split: task.split)
next
  case (Some e)
  then have "\<not> task_bounds (req_task req)" by (simp flip: validate_iff_bounds)
  with Some show ?thesis
    by (simp add: execute_def response_failure_def)
qed

text \<open>The index bounds the vectors rely on, for every task that passes validation.\<close>

lemma validated_sizes_small:
  "validate (TMatrixMultiply n) = None \<Longrightarrow> unat n * unat n \<le> 384 * 384"
  "validate (TMatrixChunk n a b) = None \<Longrightarrow> unat n * unat n \<le> 768 * 768"
  using mult_le_mono [of "unat n" 384 "unat n" 384] mult_le_mono [of "unat n" 768 "unat n" 768]
  by (simp_all add: validate_iff_bounds task_bounds_def del: validate.simps)

end
