(* ===== verification/Events.thy ===== *)
theory Events
  imports Executor Strings
begin

text \<open>
  The event protocol of the agent (\<open>emit_event\<close> and its callers that only format): tab-separated
  lines on standard output, the same lines in the bounded queue of the mobile bridge, and the
  decoder of the debugger. Text printed for a person (\<open>println!\<close> without \<open>SWAGRI_EVENT\<close>) is not
  modelled.
\<close>

section \<open>Decimal text of floats\<close>

definition pad_zeros :: "nat \<Rightarrow> string \<Rightarrow> string" where
  "pad_zeros n s = replicate (n - length s) (CHR ''0'') @ s"

text \<open>\<open>{:.d}\<close>: the exact value, rounded to \<open>d\<close> decimals.\<close>

definition fmt_fixed :: "nat \<Rightarrow> flt \<Rightarrow> string" where
  "fmt_fixed d x = (case x of
     NaN \<Rightarrow> ''NaN''
   | Inf s \<Rightarrow> if s then ''-inf'' else ''inf''
   | Fin q \<Rightarrow>
       (let n = nat (round_even (\<bar>q\<bar> * 10 ^ d));
            sign = (if q < 0 then ''-'' else '''')
        in sign @ show_nat (n div 10 ^ d) @
           (if d = 0 then '''' else ''.'' @ pad_zeros d (show_nat (n mod 10 ^ d)))))"

text \<open>
  \<open>{}\<close> of an \<open>f64\<close>: the fewest significant digits that round back to the value, written
  without an exponent. Seventeen digits always do.
\<close>

definition ilog10 :: "rat \<Rightarrow> int" where
  "ilog10 x = (if 1 \<le> x then int (length (show_nat (nat \<lfloor>x\<rfloor>))) - 1
               else - int (length (show_nat (nat \<lceil>1 / x\<rceil> - 1))))"

definition digits_of :: "rat \<Rightarrow> nat \<Rightarrow> int \<times> int" where
  "digits_of x n = (let e = ilog10 x - int n + 1 in (round_even (x / 10 powi e), e))"

fun shortest_digits :: "nat \<Rightarrow> nat \<Rightarrow> rat \<Rightarrow> int \<times> int" where
  "shortest_digits 0 n x = digits_of x n"
| "shortest_digits (Suc k) n x =
     (let (m, e) = digits_of x n in
      if rnd64 (of_int m * 10 powi e) = Fin x then (m, e) else shortest_digits k (n + 1) x)"

definition show_f64 :: "flt \<Rightarrow> string" where
  "show_f64 x = (case x of
     NaN \<Rightarrow> ''NaN''
   | Inf s \<Rightarrow> if s then ''-inf'' else ''inf''
   | Fin q \<Rightarrow>
       if q = 0 then ''0'' else
       (let (m, e) = shortest_digits 16 1 \<bar>q\<bar>;
            sign = (if q < 0 then ''-'' else '''')
        in sign @ (if 0 \<le> e then show_nat (nat (m * 10 ^ nat e))
                   else let d = 10 ^ nat (- e)
                        in show_nat (nat m div d) @ ''.'' @ pad_zeros (nat (- e)) (show_nat (nat m mod d)))))"

section \<open>Event lines\<close>

definition TAB :: char where "TAB = CHR 0x09"
definition CR :: char where "CR = CHR 0x0D"
definition LF :: char where "LF = CHR 0x0A"

definition sanitise :: "string \<Rightarrow> string" where
  "sanitise f = map (\<lambda>c. if c = TAB \<or> c = CR \<or> c = LF then CHR '' '' else c) f"

definition event_line :: "string \<Rightarrow> string list \<Rightarrow> string" where
  "event_line ev fs = fold (\<lambda>f l. l @ [TAB] @ sanitise f) fs (''SWAGRI_EVENT'' @ [TAB] @ ev)"

text \<open>What was printed since the start, and the queue that the mobile bridge drains.\<close>

record event_log =
  printed :: "string list"
  mobile_events :: "string list"

definition MOBILE_QUEUE :: nat where "MOBILE_QUEUE = 2000"

definition emit_event :: "string \<Rightarrow> string list \<Rightarrow> event_log \<Rightarrow> event_log" where
  "emit_event ev fs l =
     (let line = event_line ev fs;
          q = (if length (mobile_events l) \<ge> MOBILE_QUEUE then tl (mobile_events l) else mobile_events l)
      in l\<lparr>printed := printed l @ [line], mobile_events := q @ [line]\<rparr>)"

definition drain_mobile_events :: "event_log \<Rightarrow> string list \<times> event_log" where
  "drain_mobile_events l = (mobile_events l, l\<lparr>mobile_events := []\<rparr>)"

text \<open>How the debugger splits a line: \<open>strip_prefix\<close> and \<open>split\<close> on the tab.\<close>

definition parse_event :: "string \<Rightarrow> string list option" where
  "parse_event line = (case strip_prefix (''SWAGRI_EVENT'' @ [TAB]) line of
     None \<Rightarrow> None | Some payload \<Rightarrow> Some (split_on TAB payload))"

definition optional :: "('a \<Rightarrow> string) \<Rightarrow> 'a option \<Rightarrow> string" where
  "optional f x = (case x of None \<Rightarrow> ''-'' | Some v \<Rightarrow> f v)"

definition resource_fields :: "string \<Rightarrow> resource_snapshot \<Rightarrow> string list" where
  "resource_fields peer r =
     [peer, show_word (observed_at_unix_ms r), os r, arch r, cpu_brand r,
      show_word (physical_cores r), show_word (logical_cores r),
      show_word (total_memory_bytes r), show_word (available_memory_bytes r),
      fmt_fixed 2 (host_cpu_percent r), fmt_fixed 2 (agent_cpu_percent r),
      show_word (agent_memory_bytes r), show_word (resource_snapshot.active_tasks r),
      fmt_fixed 2 (cpu_limit_percent r), fmt_fixed 2 (memory_limit_percent r),
      show_word (allocatable_memory_bytes r),
      fmt_fixed 3 (calibrated_cpu_score r), fmt_fixed 3 (snapshot_cpu_score r),
      show_bool (contribution_paused r), optional show_word (battery_percent r),
      optional show_bool (charging r), optional show_word (thermal_status r),
      optional show_bool (unmetered_network r)]"

definition emit_resource_event :: "string \<Rightarrow> string \<Rightarrow> resource_snapshot \<Rightarrow> event_log \<Rightarrow> event_log" where
  "emit_resource_event ev peer r = emit_event ev (resource_fields peer r)"

section \<open>Texts of tasks and results\<close>

definition task_description :: "task \<Rightarrow> string" where
  "task_description t = (case t of
     TNodeInfo \<Rightarrow> ''Node info''
   | TEcho m \<Rightarrow> ''Echo''
   | TSum vs \<Rightarrow> ''Sum ('' @ show_nat (length vs) @ '' values)''
   | TSha256 x \<Rightarrow> ''SHA-256''
   | TCpuBenchmark n \<Rightarrow> ''CPU benchmark ('' @ show_word n @ '' iterations)''
   | TMatrixMultiply n \<Rightarrow> ''Matrix '' @ show_word n @ ''x'' @ show_word n
   | TMatrixChunk n a b \<Rightarrow> ''Matrix '' @ show_word n @ ''x'' @ show_word n @ '', rows '' @ show_word a @ ''..'' @ show_word b)"

definition task_result_summary :: "task_result \<Rightarrow> string" where
  "task_result_summary r = (case r of
     RMatrixMultiply c n \<Rightarrow> ''matrix '' @ show_word n @ ''x'' @ show_word n @ '', checksum '' @ show_word c
   | RMatrixChunk c n a b \<Rightarrow> ''matrix '' @ show_word n @ ''x'' @ show_word n @ '' rows '' @ show_word a @ ''-'' @
       show_word (sat_sub b 1) @ '', checksum '' @ show_word c
   | RDistributedMatrix c n k \<Rightarrow> ''distributed matrix '' @ show_word n @ ''x'' @ show_word n @ '', '' @ show_word k @
       '' chunks, checksum '' @ show_word c
   | RCpuBenchmark c n \<Rightarrow> ''CPU benchmark '' @ show_word n @ '' iterations, checksum '' @ show_word c
   | RSum v \<Rightarrow> ''sum '' @ show_f64 v
   | RSha256 h \<Rightarrow> ''SHA-256 '' @ h
   | REcho m \<Rightarrow> ''echo '' @ m
   | RNodeInfo v p n rs \<Rightarrow> ''Agent '' @ v)"

definition report_task_response :: "string \<Rightarrow> task_response \<Rightarrow> event_log \<Rightarrow> event_log" where
  "report_task_response peer r = (case outcome r of
     Success x \<Rightarrow> emit_event ''TASK_RESULT'' [peer, resp_id r, show_word (duration_ms r), task_result_summary x]
   | Failure code m \<Rightarrow> emit_event ''TASK_FAILED'' [peer, resp_id r, show_word (duration_ms r), m])"

definition emit_task_started :: "string \<Rightarrow> string \<Rightarrow> string \<Rightarrow> string \<Rightarrow> event_log \<Rightarrow> event_log" where
  "emit_task_started i description executor direction =
     emit_event ''TASK_STARTED'' [i, description, executor, direction]"

definition emit_placement_decision :: "string \<Rightarrow> string \<Rightarrow> cpu_placement_decision \<Rightarrow> nat \<Rightarrow> string \<Rightarrow> event_log \<Rightarrow> event_log" where
  "emit_placement_decision target_kind target d candidates ev =
     emit_event ''PLACEMENT_DECISION'' [target_kind, target, fmt_fixed 3 (local_score d), fmt_fixed 3 (selected_score d),
       fmt_fixed 3 (minimum_remote_score d), show_nat candidates, ev]"

section \<open>Lines decode to their fields\<close>

lemma sanitise_clean: "TAB \<notin> set (sanitise f)" "LF \<notin> set (sanitise f)" "CR \<notin> set (sanitise f)"
  by (auto simp: sanitise_def TAB_def CR_def LF_def)

lemma sanitise_id: "TAB \<notin> set f \<Longrightarrow> CR \<notin> set f \<Longrightarrow> LF \<notin> set f \<Longrightarrow> sanitise f = f"
  by (induction f) (auto simp: sanitise_def)

lemma event_line_join: "event_line ev fs = ''SWAGRI_EVENT'' @ [TAB] @ join_with [TAB] (ev # map sanitise fs)"
proof -
  have "fold (\<lambda>f l. l @ [TAB] @ sanitise f) fs a = a @ concat (map (\<lambda>f. TAB # sanitise f) fs)" for a
    by (induction fs arbitrary: a) simp_all
  moreover have "join_with [TAB] (ev # map sanitise fs) = ev @ concat (map (\<lambda>f. TAB # sanitise f) fs)"
    by (induction fs arbitrary: ev) simp_all
  ultimately show ?thesis by (simp add: event_line_def)
qed

lemma parse_event_line:
  assumes "TAB \<notin> set ev"
  shows "parse_event (event_line ev fs) = Some (ev # map sanitise fs)"
proof -
  have "strip_prefix (''SWAGRI_EVENT'' @ [TAB]) (event_line ev fs) = Some (join_with [TAB] (ev # map sanitise fs))"
    by (simp add: strip_prefix_Some event_line_join)
  moreover have "split_on TAB (join_with [TAB] (ev # map sanitise fs)) = ev # map sanitise fs"
    by (rule split_on_join) (use assms sanitise_clean in auto)
  ultimately show ?thesis by (simp add: parse_event_def)
qed

text \<open>No text of a field can end the line early.\<close>

lemma event_line_one_line:
  assumes "LF \<notin> set ev"
  shows "LF \<notin> set (event_line ev fs)"
proof -
  have "set (join_with [TAB] ws) \<subseteq> insert TAB (\<Union> (set ` set ws))" for ws
    by (induction "[TAB]" ws rule: join_with.induct) auto
  from this [of "ev # map sanitise fs"] assms sanitise_clean(2) show ?thesis
    by (auto simp: event_line_join TAB_def LF_def)
qed

lemma mobile_emit:
  "mobile_events (emit_event k fs l) = drop (length (mobile_events l @ [event_line k fs]) - MOBILE_QUEUE) (mobile_events l @ [event_line k fs])"
  if "length (mobile_events l) \<le> MOBILE_QUEUE"
proof (cases "length (mobile_events l) = MOBILE_QUEUE")
  case True
  then have "mobile_events l \<noteq> []" by (auto simp: MOBILE_QUEUE_def)
  with True show ?thesis by (cases "mobile_events l") (simp_all add: emit_event_def Let_def)
next
  case False
  with that show ?thesis by (simp add: emit_event_def Let_def)
qed

text \<open>
  The mobile queue holds the most recent lines since the last drain: after emitting any events it is
  the last two thousand of what it held and what was printed, and the memory it takes is bounded.
\<close>

theorem mobile_queue_keeps_latest:
  assumes "length (mobile_events l) \<le> MOBILE_QUEUE"
  shows "\<exists>new. printed (fold (\<lambda>(k, fs). emit_event k fs) es l) = printed l @ new \<and>
    mobile_events (fold (\<lambda>(k, fs). emit_event k fs) es l) =
      drop (length (mobile_events l @ new) - MOBILE_QUEUE) (mobile_events l @ new) \<and> length new = length es"
  using assms
proof (induction es arbitrary: l)
  case Nil
  then show ?case by simp
next
  case (Cons e es)
  obtain k fs where e: "e = (k, fs)" by fastforce
  let ?l = "emit_event k fs l"
  have "length (mobile_events ?l) \<le> MOBILE_QUEUE" by (simp add: mobile_emit [OF Cons.prems])
  from Cons.IH [OF this] obtain new where
    "printed (fold (\<lambda>(k, fs). emit_event k fs) es ?l) = printed ?l @ new"
    "mobile_events (fold (\<lambda>(k, fs). emit_event k fs) es ?l) =
      drop (length (mobile_events ?l @ new) - MOBILE_QUEUE) (mobile_events ?l @ new)" "length new = length es" by blast
  then show ?case
    using Cons.prems
    by (intro exI [of _ "event_line k fs # new"])
      (simp add: e mobile_emit emit_event_def [of k fs l] Let_def, auto simp: drop_Suc MOBILE_QUEUE_def)
qed

theorem mobile_queue_keeps_latest_witness:
  "\<exists>new. printed (fold (\<lambda>(k, fs). emit_event k fs) [(''A'', []), (''B'', [''x''])] \<lparr>printed = [], mobile_events = []\<rparr>) = new \<and>
    mobile_events (fold (\<lambda>(k, fs). emit_event k fs) [(''A'', []), (''B'', [''x''])] \<lparr>printed = [], mobile_events = []\<rparr>) =
      drop (length new - MOBILE_QUEUE) new \<and> length new = 2"
  using mobile_queue_keeps_latest [of "\<lparr>printed = [], mobile_events = []\<rparr>" "[(''A'', []), (''B'', [''x''])]"] by simp

end
