(* ===== verification/Node.thy ===== *)
theory Node
  imports Events "HOL-Library.List_Lexorder" "HOL-Library.Char_ord"
begin

text \<open>
  The state the agent's scheduler works on and the operations that submit and place tasks
  (\<open>submit_task\<close>, \<open>submit_local_task\<close>, \<open>place_cpu_task\<close>). A peer identity is a number in the order of
  libp2p's \<open>PeerId\<close>; its text is a parameter. Time is a clock in nanoseconds. The swarm is the list
  of requests sent, with the identifiers it gave them; a task spawned on the blocking pool waits in
  \<open>spawned\<close> until it runs, and its completion waits in \<open>local_queue\<close>.
\<close>

section \<open>Data\<close>

datatype peer_id = PeerId nat

instantiation peer_id :: linorder
begin

fun less_eq_peer_id :: "peer_id \<Rightarrow> peer_id \<Rightarrow> bool" where
  "less_eq_peer_id (PeerId a) (PeerId b) = (a \<le> b)"

fun less_peer_id :: "peer_id \<Rightarrow> peer_id \<Rightarrow> bool" where
  "less_peer_id (PeerId a) (PeerId b) = (a < b)"

instance
proof
  fix x y z :: peer_id
  show "(x < y) = (x \<le> y \<and> \<not> y \<le> x)" by (cases x; cases y) auto
  show "x \<le> x" by (cases x) auto
  show "x \<le> y \<Longrightarrow> y \<le> z \<Longrightarrow> x \<le> z" by (cases x; cases y; cases z) auto
  show "x \<le> y \<Longrightarrow> y \<le> x \<Longrightarrow> x = y" by (cases x; cases y) auto
  show "x \<le> y \<or> y \<le> x" by (cases x; cases y) auto
qed

end

datatype matrix_worker = Local | Remote peer_id

record matrix_chunk_plan =
  chunk_index :: u16
  row_start :: u16
  row_end :: u16
  attempts :: u8

record matrix_job =
  job_name :: string
  job_size :: u16
  total_chunks :: u16
  completed_chunks :: u16
  job_checksum :: u64
  started_at :: nat
  pending :: "matrix_chunk_plan list"
  available_workers :: "matrix_worker list"
  in_flight :: u16

record outbound_task_meta =
  meta_id :: string
  tracked :: bool
  meta_job :: "string option"
  meta_worker :: "matrix_worker option"
  meta_chunk :: "matrix_chunk_plan option"

record local_task =
  sp_request :: task_request
  sp_job :: "string option"
  sp_worker :: "matrix_worker option"

record completed_local_task =
  cl_peer :: peer_id
  cl_response :: task_response
  cl_job :: "string option"
  cl_worker :: "matrix_worker option"

record peer_resource_observation =
  snapshot :: resource_snapshot
  received_at :: nat
  obs_protocol :: u16

record node_env =
  local_peer :: peer_id
  peer_text :: "peer_id \<Rightarrow> string"
  sha256_hex :: "string \<Rightarrow> string"

record node =
  trace :: event_log
  clock :: nat
  request_counter :: u64
  own_resources :: resource_snapshot
  peer_resources :: "(peer_id, peer_resource_observation) btree_map"
  outbound_tasks :: "(nat, outbound_task_meta) hash_map"
  matrix_jobs :: "(string, matrix_job) btree_map"
  next_request :: nat
  sent :: "(nat \<times> peer_id \<times> task_request) list"
  spawned :: "local_task list"
  local_queue :: "completed_local_task list"
  running_tasks :: u32

definition REMOTE_RESOURCE_MAX_AGE :: nat where "REMOTE_RESOURCE_MAX_AGE = 20 * 10 ^ 9"
definition MAX_MATRIX_CHUNK_ATTEMPTS :: u8 where "MAX_MATRIX_CHUNK_ATTEMPTS = 3"

definition emit :: "string \<Rightarrow> string list \<Rightarrow> node \<Rightarrow> node" where
  "emit ev fs s = s\<lparr>trace := emit_event ev fs (trace s)\<rparr>"

definition report :: "node_env \<Rightarrow> peer_id \<Rightarrow> task_response \<Rightarrow> node \<Rightarrow> node" where
  "report e p r s = s\<lparr>trace := report_task_response (peer_text e p) r (trace s)\<rparr>"

definition task_started :: "node_env \<Rightarrow> string \<Rightarrow> string \<Rightarrow> peer_id \<Rightarrow> string \<Rightarrow> node \<Rightarrow> node" where
  "task_started e i description executor direction s =
     s\<lparr>trace := emit_task_started i description (peer_text e executor) direction (trace s)\<rparr>"

text \<open>\<open>Instant::elapsed\<close>, and \<open>as_millis() as u64\<close>.\<close>

definition elapsed :: "nat \<Rightarrow> node \<Rightarrow> nat" where
  "elapsed since s = clock s - since"

definition elapsed_ms :: "nat \<Rightarrow> node \<Rightarrow> u64" where
  "elapsed_ms since s = of_nat (elapsed since s div 10 ^ 6)"

definition next_sequence :: "node \<Rightarrow> u64 \<times> node" where
  "next_sequence s = (request_counter s, s\<lparr>request_counter := request_counter s + 1\<rparr>)"

text \<open>\<open>send_request\<close> of the request-response behaviour.\<close>

definition send_request :: "peer_id \<Rightarrow> task_request \<Rightarrow> node \<Rightarrow> nat \<times> node" where
  "send_request p r s = (next_request s, s\<lparr>next_request := next_request s + 1, sent := sent s @ [(next_request s, p, r)]\<rparr>)"

definition spawn_task :: "local_task \<Rightarrow> node \<Rightarrow> node" where
  "spawn_task t s = s\<lparr>running_tasks := running_tasks s + 1, spawned := spawned s @ [t]\<rparr>"

definition add_outbound :: "nat \<Rightarrow> outbound_task_meta \<Rightarrow> node \<Rightarrow> node" where
  "add_outbound i m s = s\<lparr>outbound_tasks := hm_insert i m (outbound_tasks s)\<rparr>"

definition queue_local :: "completed_local_task \<Rightarrow> node \<Rightarrow> node" where
  "queue_local c s = s\<lparr>local_queue := local_queue s @ [c]\<rparr>"

section \<open>Submitting tasks\<close>

definition submit_task :: "node_env \<Rightarrow> peer_id \<Rightarrow> task \<Rightarrow> node \<Rightarrow> node" where
  "submit_task e p t s0 =
     (let (sequence, s1) = next_sequence s0;
          i = peer_text e (local_peer e) @ ''-'' @ show_word sequence;
          tr = (t \<noteq> TNodeInfo);
          (rid, s2) = send_request p \<lparr>req_id = i, req_task = t\<rparr> s1;
          s3 = add_outbound rid \<lparr>meta_id = i, tracked = tr, meta_job = None, meta_worker = None, meta_chunk = None\<rparr> s2
      in if tr then task_started e i (task_description t) p ''outbound'' s3 else s3)"

definition submit_local_task :: "node_env \<Rightarrow> task \<Rightarrow> node \<Rightarrow> node" where
  "submit_local_task e t s0 =
     (let (sequence, s1) = next_sequence s0;
          i = peer_text e (local_peer e) @ ''-local-'' @ show_word sequence
      in spawn_task \<lparr>sp_request = \<lparr>req_id = i, req_task = t\<rparr>, sp_job = None, sp_worker = None\<rparr>
           (task_started e i (task_description t) (local_peer e) ''local'' s1))"

text \<open>A spawned task runs to its end, in any order: it is executed, counted down and its completion queued.\<close>

definition run_spawned :: "node_env \<Rightarrow> nat \<Rightarrow> nat \<Rightarrow> node \<Rightarrow> node" where
  "run_spawned e k ms s =
     (let t = spawned s ! k
      in queue_local \<lparr>cl_peer = local_peer e, cl_response = execute (sha256_hex e) ms (sp_request t),
                      cl_job = sp_job t, cl_worker = sp_worker t\<rparr>
           (s\<lparr>running_tasks := running_tasks s - 1, spawned := take k (spawned s) @ drop (Suc k) (spawned s)\<rparr>))"

section \<open>Placement of a CPU task\<close>

definition kind_name :: "task \<Rightarrow> string" where
  "kind_name t = (case t of TNodeInfo \<Rightarrow> ''NodeInfo'' | TEcho _ \<Rightarrow> ''Echo'' | TSum _ \<Rightarrow> ''Sum'' | TSha256 _ \<Rightarrow> ''Sha256''
     | TCpuBenchmark _ \<Rightarrow> ''CpuBenchmark'' | TMatrixMultiply _ \<Rightarrow> ''MatrixMultiply'' | TMatrixChunk _ _ _ \<Rightarrow> ''MatrixChunk'')"

definition placement_candidates :: "u16 \<Rightarrow> node \<Rightarrow> (peer_id \<times> flt) list" where
  "placement_candidates min_protocol s =
     map (\<lambda>(p, ob). (p, snapshot_cpu_score (snapshot ob)))
       (filter (\<lambda>(p, ob). elapsed (received_at ob) s \<le> REMOTE_RESOURCE_MAX_AGE \<and> obs_protocol ob \<ge> min_protocol \<and>
          \<not> contribution_paused (snapshot ob) \<and> fl_less (Fin 0) (snapshot_cpu_score (snapshot ob)))
        (peer_resources s))"

definition place_cpu_task :: "node_env \<Rightarrow> task \<Rightarrow> u16 \<Rightarrow> node \<Rightarrow> node" where
  "place_cpu_task e t min_protocol s =
     (if validate t \<noteq> None then s else
      let candidates = placement_candidates min_protocol s;
          decision = choose_cpu_placement (snapshot_cpu_score (own_resources s)) (map snd candidates) REMOTE_CPU_MINIMUM_GAIN;
          placed = (\<lambda>target p. s\<lparr>trace := emit_placement_decision target (peer_text e p) decision
                       (length candidates) (kind_name t) (trace s)\<rparr>)
      in case remote_candidate_index decision of
           Some index \<Rightarrow>
             let p = fst (candidates ! index) in submit_task e p t (placed ''remote'' p)
         | None \<Rightarrow>
             if contribution_paused (own_resources s) then
               let (sequence, s1) = next_sequence s;
                   i = peer_text e (local_peer e) @ ''-blocked-'' @ show_word sequence;
                   s2 = task_started e i (task_description t) (local_peer e) ''scheduler'' s1;
                   r = response_failure i 0 ''no_eligible_resources''
                         ''local contribution is paused and no compatible remote Agent is available'';
                   s3 = emit ''PLACEMENT_UNAVAILABLE'' [kind_name t, show_nat (length candidates)] s2
               in queue_local \<lparr>cl_peer = local_peer e, cl_response = r, cl_job = None, cl_worker = None\<rparr> s3
             else submit_local_task e t (placed ''local'' (local_peer e)))"

end
