(* ===== verification/Matrix.thy ===== *)
theory Matrix
  imports Node
begin

text \<open>
  Distributed matrix jobs: the plan, the ranking of workers, dispatch, completion, retry and
  failure, as the agent's event loop calls them (\<open>start_distributed_matrix\<close> to \<open>fail_matrix_job\<close>).
\<close>

section \<open>Workers\<close>

definition fresh_observation :: "node \<Rightarrow> peer_resource_observation \<Rightarrow> bool" where
  "fresh_observation s ob = (elapsed (received_at ob) s \<le> REMOTE_RESOURCE_MAX_AGE)"

definition offers_cpu :: "resource_snapshot \<Rightarrow> bool" where
  "offers_cpu r = (\<not> contribution_paused r \<and> fl_less (Fin 0) (snapshot_cpu_score r))"

text \<open>\<open>sort_by\<close> with \<open>partial_cmp\<close>, the larger score first; incomparable scores count as equal.\<close>

definition eligible_matrix_workers :: "node \<Rightarrow> matrix_worker list" where
  "eligible_matrix_workers s =
     (let own = (if offers_cpu (own_resources s) then [(Local, snapshot_cpu_score (own_resources s))] else []);
          remote = map (\<lambda>(p, ob). (Remote p, snapshot_cpu_score (snapshot ob)))
            (filter (\<lambda>(p, ob). fresh_observation s ob \<and> obs_protocol ob \<ge> NODE_PROTOCOL_VERSION \<and> offers_cpu (snapshot ob))
              (peer_resources s))
      in map fst (sort_by (\<lambda>l r. \<not> fl_less (snd l) (snd r)) (own @ remote)))"

definition matrix_worker_score :: "matrix_worker \<Rightarrow> node \<Rightarrow> flt option" where
  "matrix_worker_score w s =
     (let snap = (case w of
          Local \<Rightarrow> Some (own_resources s)
        | Remote p \<Rightarrow> (case bt_get (peer_resources s) p of
              None \<Rightarrow> None
            | Some ob \<Rightarrow> if \<not> fresh_observation s ob \<or> obs_protocol ob < NODE_PROTOCOL_VERSION
                then None else Some (snapshot ob)))
      in case snap of
           None \<Rightarrow> None
         | Some r \<Rightarrow> if \<not> contribution_paused r \<and> is_finite (snapshot_cpu_score r) \<and> fl_less (Fin 0) (snapshot_cpu_score r)
             then Some (snapshot_cpu_score r) else None)"

section \<open>Starting a job\<close>

definition plan_chunk :: "u16 \<Rightarrow> u16 \<Rightarrow> u16 \<Rightarrow> matrix_chunk_plan" where
  "plan_chunk n rows index =
     (let start = index * rows
      in \<lparr>chunk_index = index, row_start = start, row_end = min (start + rows) n, attempts = 0\<rparr>)"

definition matrix_plan :: "u16 \<Rightarrow> u16 \<Rightarrow> matrix_chunk_plan list" where
  "matrix_plan n rows = map (\<lambda>i. plan_chunk n rows (of_nat i)) [0..<unat (div_ceil n rows)]"

definition put_job :: "string \<Rightarrow> matrix_job \<Rightarrow> node \<Rightarrow> node" where
  "put_job i j s = s\<lparr>matrix_jobs := bt_insert i j (matrix_jobs s)\<rparr>"

definition drop_job :: "string \<Rightarrow> node \<Rightarrow> node" where
  "drop_job i s = s\<lparr>matrix_jobs := map_remove i (matrix_jobs s)\<rparr>"

definition start_distributed_matrix :: "node_env \<Rightarrow> u16 \<Rightarrow> u16 \<Rightarrow> node \<Rightarrow> node" where
  "start_distributed_matrix e n rows s =
     (if \<not> (MIN_MATRIX_SIZE \<le> n \<and> n \<le> MAX_DISTRIBUTED_MATRIX_SIZE) then s
      else if \<not> (1 \<le> rows \<and> rows \<le> MAX_MATRIX_CHUNK_ROWS) then s
      else
      let workers = eligible_matrix_workers s;
          (sequence, s1) = next_sequence s;
          i = peer_text e (local_peer e) @ ''-distributed-'' @ show_word sequence;
          total = div_ceil n rows;
          s2 = emit ''TASK_STARTED'' [i, ''Distributed Matrix '' @ show_word n @ ''x'' @ show_word n @ '' ('' @ show_word total @ '' chunks)'',
                 ''swarm'', ''orchestrator''] s1
      in if workers = [] then
           report e (local_peer e) (response_failure i 0 ''no_eligible_resources''
             ''no compatible Agent currently offers compute resources'') s2
         else
           put_job i \<lparr>job_name = i, job_size = n, total_chunks = total, completed_chunks = 0, job_checksum = 0,
               started_at = clock s, pending = matrix_plan n rows, available_workers = workers, in_flight = 0\<rparr>
             (emit ''MATRIX_PLAN'' [i, show_word n, show_word total, show_nat (length workers)] s2))"

section \<open>Failure and retry\<close>

definition fail_matrix_job :: "node_env \<Rightarrow> string \<Rightarrow> string \<Rightarrow> node \<Rightarrow> node" where
  "fail_matrix_job e i message s =
     (case bt_get (matrix_jobs s) i of
        None \<Rightarrow> s
      | Some j \<Rightarrow> report e (local_peer e)
          (response_failure (job_name j) (elapsed_ms (started_at j) s) ''distributed_matrix_failed'' message) (drop_job i s))"

definition retry_matrix_chunk :: "node_env \<Rightarrow> string \<Rightarrow> matrix_worker \<Rightarrow> matrix_chunk_plan \<Rightarrow> string \<Rightarrow> node \<Rightarrow> node" where
  "retry_matrix_chunk e i failed_worker chunk message s =
     (case bt_get (matrix_jobs s) i of
        None \<Rightarrow> s
      | Some j0 \<Rightarrow>
          let j1 = j0\<lparr>in_flight := sat_sub (in_flight j0) 1,
                      available_workers := filter (\<lambda>w. w \<noteq> failed_worker) (available_workers j0)\<rparr>
          in if attempts chunk \<ge> MAX_MATRIX_CHUNK_ATTEMPTS then
               fail_matrix_job e i (''chunk '' @ show_word (chunk_index chunk + 1) @ '' failed after '' @
                 show_word (attempts chunk) @ '' attempts: '' @ message) (put_job i j1 s)
             else
               let next_attempt = attempts chunk + 1;
                   j2 = j1\<lparr>pending := chunk # pending j1\<rparr>;
                   s1 = emit ''MATRIX_RETRY'' [job_name j2, show_word (chunk_index chunk + 1), show_word next_attempt,
                          show_word MAX_MATRIX_CHUNK_ATTEMPTS, message] (put_job i j2 s);
                   s2 = emit ''TASK_PROGRESS'' [job_name j2, show_word (completed_chunks j2), show_word (total_chunks j2),
                          ''chunk '' @ show_word (chunk_index chunk + 1) @ '' queued for retry '' @ show_word next_attempt @
                          ''/'' @ show_word MAX_MATRIX_CHUNK_ATTEMPTS @ '': '' @ message] s1
               in if available_workers j2 = [] \<and> in_flight j2 = 0 then
                    fail_matrix_job e i (''chunk '' @ show_word (chunk_index chunk + 1) @
                      '' could not be reassigned because no healthy worker remains: '' @ message) s2
                  else s2)"

definition fail_or_retry_matrix_chunk :: "node_env \<Rightarrow> string \<Rightarrow> matrix_worker \<Rightarrow> matrix_chunk_plan option \<Rightarrow> string \<Rightarrow> node \<Rightarrow> node" where
  "fail_or_retry_matrix_chunk e i w chunk message s =
     (case (w, chunk) of
        (Remote _, Some c) \<Rightarrow> retry_matrix_chunk e i w c message s
      | _ \<Rightarrow> fail_matrix_job e i message s)"

section \<open>Completion\<close>

definition accept_chunk :: "node_env \<Rightarrow> string \<Rightarrow> matrix_worker \<Rightarrow> u64 \<Rightarrow> matrix_job \<Rightarrow> node \<Rightarrow> node" where
  "accept_chunk e i w checksum j s =
     (let j' = j\<lparr>in_flight := sat_sub (in_flight j) 1, available_workers := available_workers j @ [w],
                 completed_chunks := completed_chunks j + 1, job_checksum := job_checksum j XOR checksum\<rparr>;
          s' = emit ''TASK_PROGRESS'' [job_name j', show_word (completed_chunks j'), show_word (total_chunks j'),
                 ''matrix chunks completed''] (put_job i j' s)
      in if completed_chunks j' = total_chunks j' then
           report e (local_peer e) (response_success (job_name j') (elapsed_ms (started_at j') s')
             (RDistributedMatrix (job_checksum j') (job_size j') (total_chunks j'))) (drop_job (job_name j') s')
         else s')"

definition complete_matrix_chunk :: "node_env \<Rightarrow> string \<Rightarrow> matrix_worker \<Rightarrow> matrix_chunk_plan option \<Rightarrow> task_response \<Rightarrow> node \<Rightarrow> node" where
  "complete_matrix_chunk e i w chunk r s =
     (case outcome r of
        Failure code message \<Rightarrow> fail_or_retry_matrix_chunk e i w chunk (''chunk failed: '' @ message) s
      | Success (RMatrixChunk checksum n a b) \<Rightarrow>
          (case bt_get (matrix_jobs s) i of
             None \<Rightarrow> s
           | Some j \<Rightarrow>
               if n \<noteq> job_size j then
                 fail_or_retry_matrix_chunk e i w chunk ''worker returned a result for a different matrix size'' s
               else if (case chunk of None \<Rightarrow> False | Some c \<Rightarrow> a \<noteq> row_start c \<or> b \<noteq> row_end c) then
                 fail_or_retry_matrix_chunk e i w chunk ''worker returned a result for different matrix rows'' s
               else accept_chunk e i w checksum j s)
      | Success _ \<Rightarrow> fail_or_retry_matrix_chunk e i w chunk ''worker returned an unexpected result type'' s)"

section \<open>Dispatch\<close>

record matrix_dispatch =
  dp_job :: string
  dp_task_id :: string
  dp_task :: task
  dp_worker :: matrix_worker
  dp_chunk :: matrix_chunk_plan

definition chunk_task_id :: "matrix_job \<Rightarrow> matrix_chunk_plan \<Rightarrow> string" where
  "chunk_task_id j c =
     (if attempts c = 1 then job_name j @ ''-chunk-'' @ show_word (chunk_index c + 1)
      else job_name j @ ''-chunk-'' @ show_word (chunk_index c + 1) @ ''-retry-'' @ show_word (attempts c))"

fun dispatch_loop :: "matrix_worker list \<Rightarrow> matrix_job \<Rightarrow> matrix_dispatch list \<Rightarrow> matrix_dispatch list \<times> matrix_job" where
  "dispatch_loop [] j ds = (ds, j)"
| "dispatch_loop (w # ws) j ds =
     (case pending j of
        [] \<Rightarrow> (ds, j)
      | c0 # rest \<Rightarrow>
          let c = c0\<lparr>attempts := attempts c0 + 1\<rparr>;
              j' = j\<lparr>pending := rest, available_workers := filter (\<lambda>x. x \<noteq> w) (available_workers j),
                     in_flight := in_flight j + 1\<rparr>
          in dispatch_loop ws j'
               (ds @ [\<lparr>dp_job = job_name j', dp_task_id = chunk_task_id j' c,
                       dp_task = TMatrixChunk (job_size j') (row_start c) (row_end c), dp_worker = w, dp_chunk = c\<rparr>]))"

definition ranked_workers :: "node \<Rightarrow> matrix_job \<Rightarrow> matrix_worker list" where
  "ranked_workers s j =
     map fst (sort_by (\<lambda>l r. total_le (snd r) (snd l))
       (List.map_filter (\<lambda>w. map_option (Pair w) (matrix_worker_score w s)) (available_workers j)))"

definition take_matrix_dispatches :: "node \<Rightarrow> matrix_job \<Rightarrow> matrix_dispatch list \<times> matrix_job" where
  "take_matrix_dispatches s j = dispatch_loop (ranked_workers s j) j []"

definition job_unavailable :: "node \<Rightarrow> matrix_job \<Rightarrow> bool" where
  "job_unavailable s j =
     (pending j \<noteq> [] \<and> in_flight j = 0 \<and>
      \<not> (\<exists>w\<in>set (available_workers j). matrix_worker_score w s \<noteq> None))"

definition start_dispatch :: "node_env \<Rightarrow> matrix_dispatch \<Rightarrow> node \<Rightarrow> node" where
  "start_dispatch e d s =
     (case dp_worker d of
        Local \<Rightarrow>
          spawn_task \<lparr>sp_request = \<lparr>req_id = dp_task_id d, req_task = dp_task d\<rparr>,
                      sp_job = Some (dp_job d), sp_worker = Some Local\<rparr>
            (task_started e (dp_task_id d) (task_description (dp_task d)) (local_peer e) ''local'' s)
      | Remote p \<Rightarrow>
          let s1 = task_started e (dp_task_id d) (task_description (dp_task d)) p ''outbound'' s;
              (rid, s2) = send_request p \<lparr>req_id = dp_task_id d, req_task = dp_task d\<rparr> s1
          in add_outbound rid \<lparr>meta_id = dp_task_id d, tracked = True, meta_job = Some (dp_job d),
               meta_worker = Some (Remote p), meta_chunk = Some (dp_chunk d)\<rparr> s2)"

definition unavailable_message :: string where
  "unavailable_message = ''no eligible matrix worker remains after resource or policy changes''"

definition dispatch_matrix_jobs :: "node_env \<Rightarrow> node \<Rightarrow> node" where
  "dispatch_matrix_jobs e s =
     (let taken = map (\<lambda>(i, j). (i, take_matrix_dispatches s j)) (matrix_jobs s);
          s1 = s\<lparr>matrix_jobs := map (\<lambda>(i, ds, j). (i, j)) taken\<rparr>;
          dispatches = concat (map (\<lambda>(i, ds, j). ds) taken);
          unavailable = map (\<lambda>(i, j). job_name j) (filter (\<lambda>(i, j). job_unavailable s j) (matrix_jobs s1));
          s2 = fold (\<lambda>i. fail_matrix_job e i unavailable_message) unavailable s1
      in fold (start_dispatch e) dispatches s2)"

section \<open>Events of the network and of the blocking pool\<close>

text \<open>The matrix part of the run loop: a completion of a local task.\<close>

definition deliver_local :: "node_env \<Rightarrow> node \<Rightarrow> node" where
  "deliver_local e s =
     (case local_queue s of
        [] \<Rightarrow> s
      | c # rest \<Rightarrow>
          let s1 = report e (cl_peer c) (cl_response c) (s\<lparr>local_queue := rest\<rparr>)
          in case (cl_job c, cl_worker c) of
               (Some i, Some w) \<Rightarrow> dispatch_matrix_jobs e (complete_matrix_chunk e i w None (cl_response c) s1)
             | _ \<Rightarrow> s1)"

text \<open>A response: node information updates what is known of the peer, anything else is reported and
  completes the chunk it belongs to.\<close>

definition handle_response :: "node_env \<Rightarrow> nat \<Rightarrow> peer_id \<Rightarrow> task_response \<Rightarrow> node \<Rightarrow> node" where
  "handle_response e rid p r s =
     (let outbound = map_of (outbound_tasks s) rid;
          s1 = s\<lparr>outbound_tasks := map_remove rid (outbound_tasks s)\<rparr>
      in case outcome r of
           Success (RNodeInfo version protocol nm res) \<Rightarrow>
             let s2 = emit ''PEER_VERSION'' [peer_text e p, version, show_word protocol] s1;
                 s3 = (if nm \<noteq> [] then emit ''PEER_NAME'' [peer_text e p, nm] s2 else s2)
             in (case res of
                   None \<Rightarrow> s3
                 | Some rs \<Rightarrow> s3\<lparr>trace := emit_resource_event ''PEER_RESOURCES'' (peer_text e p) rs (trace s3),
                     peer_resources := bt_insert p \<lparr>snapshot = rs, received_at = clock s, obs_protocol = protocol\<rparr>
                       (peer_resources s3)\<rparr>)
         | _ \<Rightarrow>
             let s2 = report e p r s1
             in (case outbound of
                   None \<Rightarrow> s2
                 | Some m \<Rightarrow>
                     (case (meta_job m, meta_worker m, meta_chunk m) of
                        (Some i, Some w, Some c) \<Rightarrow> complete_matrix_chunk e i w (Some c) r s2
                      | _ \<Rightarrow> s2)))"

definition handle_outbound_failure :: "node_env \<Rightarrow> nat \<Rightarrow> peer_id \<Rightarrow> string \<Rightarrow> node \<Rightarrow> node" where
  "handle_outbound_failure e rid p failure s =
     (case map_of (outbound_tasks s) rid of
        None \<Rightarrow> emit ''PEER_POLL_FAILED'' [peer_text e p, failure] s
      | Some m \<Rightarrow>
          let s1 = s\<lparr>outbound_tasks := map_remove rid (outbound_tasks s)\<rparr>;
              s2 = (if tracked m then emit ''TASK_FAILED'' [peer_text e p, meta_id m, ''0'', failure] s1
                    else emit ''PEER_POLL_FAILED'' [peer_text e p, failure] s1)
          in (case (meta_job m, meta_chunk m) of
                (Some i, Some c) \<Rightarrow> retry_matrix_chunk e i (Remote p) c
                   (''connection to '' @ peer_text e p @ '' failed: '' @ failure) s2
              | _ \<Rightarrow> s2))"

end
