(* ===== verification/Artifacts.thy ===== *)
theory Artifacts
  imports Node Store
begin

text \<open>
  The artifact exchange of the agent: what a peer is served (\<open>serve_artifact_request\<close>), and the client that
  fetches an artifact's missing blocks from several providers at once (\<open>begin_artifact_download\<close> to
  \<open>fail_artifact_provider\<close>). The state is the store's file system, the downloads, the requests sent and not
  answered, and the event log. The order in which a \<open>HashMap\<close> is walked is an argument.
\<close>

section \<open>Data\<close>

definition MAX_ARTIFACT_PROVIDERS :: nat where "MAX_ARTIFACT_PROVIDERS = 8"
definition MAX_PARALLEL_ARTIFACT_BLOCKS :: nat where "MAX_PARALLEL_ARTIFACT_BLOCKS = 4"

datatype artifact_completion =
    Imported spath "string + artifact_manifest"
  | Verified content_id "string + artifact_manifest"
  | Exported content_id spath "string + unit"

datatype artifact_request = AInventory | AManifest content_id | ABlock block_ref

record artifact_summary =
  summary_id :: content_id
  summary_size :: u64
  summary_blocks :: u32

datatype artifact_response =
    RInventory "artifact_summary list"
  | RManifest artifact_manifest
  | RBlock block_ref bytes
  | RError string

datatype artifact_outbound =
    OInventory peer_id
  | OManifest peer_id content_id
  | OBlock peer_id content_id block_ref

record artifact_download =
  providers :: "peer_id list"
  failed_providers :: "peer_id set"
  next_provider :: nat
  dl_manifest :: "artifact_manifest option"
  dl_pending :: "block_ref list"
  dl_in_flight :: nat
  dl_completed :: nat
  dl_reused :: nat
  dl_total_missing :: nat

definition download_new :: "peer_id list \<Rightarrow> artifact_download" where
  "download_new ps = \<lparr>providers = ps, failed_providers = {}, next_provider = 0, dl_manifest = None, dl_pending = [],
     dl_in_flight = 0, dl_completed = 0, dl_reused = 0, dl_total_missing = 0\<rparr>"

definition active_provider_count :: "artifact_download \<Rightarrow> nat" where
  "active_provider_count d = length (filter (\<lambda>p. p \<notin> failed_providers d) (providers d))"

fun next_active_loop :: "nat \<Rightarrow> artifact_download \<Rightarrow> peer_id option \<times> artifact_download" where
  "next_active_loop 0 d = (None, d)"
| "next_active_loop (Suc k) d =
     (let p = providers d ! (next_provider d mod length (providers d));
          d' = d\<lparr>next_provider := (next_provider d + 1) mod length (providers d)\<rparr>
      in if p \<notin> failed_providers d' then (Some p, d') else next_active_loop k d')"

definition next_active_provider :: "artifact_download \<Rightarrow> peer_id option \<times> artifact_download" where
  "next_active_provider d = next_active_loop (length (providers d)) d"

text \<open>The texts of libp2p identities, of paths and of the errors of the system and of the JSON library are parameters.\<close>

record exchange_env =
  store :: artifact_store
  id_text :: "peer_id \<Rightarrow> string"
  path_text :: "spath \<Rightarrow> string"
  io_text :: "io_error \<Rightarrow> string"
  json_text :: "spath \<Rightarrow> string"
  root_text :: string

record exchange =
  log_of :: event_log
  disk :: "spath fs"
  downloads :: "(content_id, artifact_download) btree_map"
  requests :: "(nat, artifact_outbound) hash_map"
  next_ask :: nat
  asked :: "(nat \<times> peer_id \<times> artifact_request) list"

definition cid_text :: "exchange_env \<Rightarrow> content_id \<Rightarrow> string" where
  "cid_text e i = content_display (env (store e)) i"

fun storage_message :: "exchange_env \<Rightarrow> storage_error \<Rightarrow> string" where
  "storage_message e InvalidContentId = ''content ID must be a 32-byte SHA-256 digest''"
| "storage_message e (ArtifactNotFound i) = ''artifact '' @ cid_text e i @ '' was not found''"
| "storage_message e (Integrity i m) = ''artifact '' @ cid_text e i @ '' failed integrity verification: '' @ m"
| "storage_message e (QuotaExceeded n a) = ''artifact needs '' @ show_word n @ '' bytes but only '' @ show_word a @
     '' bytes remain in the Swagri quota''"
| "storage_message e (DestinationExists p) = ''destination already exists: '' @ path_text e p"
| "storage_message e (StoreIo p x) = ''I/O error at '' @ path_text e p @ '': '' @ io_text e x"
| "storage_message e (ManifestError p) = ''invalid artifact manifest at '' @ path_text e p @ '': '' @ json_text e p"

definition say :: "string \<Rightarrow> string list \<Rightarrow> exchange \<Rightarrow> exchange" where
  "say ev fs x = x\<lparr>log_of := emit_event ev fs (log_of x)\<rparr>"

definition on_disk :: "'a store_io \<Rightarrow> exchange \<Rightarrow> (storage_error + 'a) \<times> exchange" where
  "on_disk m x = (let (r, s) = m (disk x) in (r, x\<lparr>disk := s\<rparr>))"

definition ask :: "peer_id \<Rightarrow> artifact_request \<Rightarrow> artifact_outbound \<Rightarrow> exchange \<Rightarrow> exchange" where
  "ask p r meta x = x\<lparr>next_ask := next_ask x + 1, asked := asked x @ [(next_ask x, p, r)],
     requests := hm_insert (next_ask x) meta (requests x)\<rparr>"

definition put_download :: "content_id \<Rightarrow> artifact_download \<Rightarrow> exchange \<Rightarrow> exchange" where
  "put_download i d x = x\<lparr>downloads := bt_insert i d (downloads x)\<rparr>"

definition drop_download :: "content_id \<Rightarrow> exchange \<Rightarrow> exchange" where
  "drop_download i x = x\<lparr>downloads := map_remove i (downloads x)\<rparr>"

section \<open>Serving\<close>

definition summary_of :: "artifact_manifest \<Rightarrow> artifact_summary" where
  "summary_of m = \<lparr>summary_id = artifact_id m, summary_size = artifact_size m,
     summary_blocks = of_nat (min (length (blocks m)) (unat (- 1 :: u32)))\<rparr>"

definition serve_artifact_request :: "exchange_env \<Rightarrow> artifact_request \<Rightarrow> exchange \<Rightarrow> artifact_response \<times> exchange" where
  "serve_artifact_request e r x = (case r of
     AInventory \<Rightarrow> (case on_disk (list_artifacts (store e)) x of
         (Inr ms, x') \<Rightarrow> (RInventory (map summary_of (take 128 ms)), x')
       | (Inl err, x') \<Rightarrow> (RError (storage_message e err), x'))
   | AManifest i \<Rightarrow> (case on_disk (manifest_of (store e) i) x of
         (Inr m, x') \<Rightarrow> (RManifest m, x')
       | (Inl err, x') \<Rightarrow> (RError (storage_message e err), x'))
   | ABlock b \<Rightarrow> (case on_disk (store_read_block (store e) b) x of
         (Inr v, x') \<Rightarrow> (RBlock b v, x')
       | (Inl err, x') \<Rightarrow> (RError (storage_message e err), x')))"

definition answer_artifact_request :: "exchange_env \<Rightarrow> peer_id set \<Rightarrow> peer_id \<Rightarrow> artifact_request \<Rightarrow> exchange \<Rightarrow> artifact_response \<times> exchange" where
  "answer_artifact_request e trusted p r x =
     (if p \<in> trusted then serve_artifact_request e r x
      else (RError ''requesting peer is not trusted for artifact sharing'', x))"

section \<open>Status and completions\<close>

definition emit_artifact_status :: "exchange_env \<Rightarrow> exchange \<Rightarrow> exchange" where
  "emit_artifact_status e x = (case on_disk (stats (store e)) x of
     (Inr t, x') \<Rightarrow> say ''ARTIFACT_STATUS'' [show_word (artifact_count t), show_word (block_count t), show_word (used_bytes t),
         show_word (stats_quota t), root_text e] x'
   | (Inl err, x') \<Rightarrow> say ''ARTIFACT_FAILED'' [''status'', storage_message e err] x')"

definition report_artifact_completion :: "exchange_env \<Rightarrow> artifact_completion \<Rightarrow> exchange \<Rightarrow> exchange" where
  "report_artifact_completion e c x = emit_artifact_status e (case c of
     Imported src (Inr m) \<Rightarrow> say ''ARTIFACT_STORED'' [cid_text e (artifact_id m), show_word (artifact_size m),
         show_nat (length (blocks m)), path_text e src] x
   | Imported src (Inl err) \<Rightarrow> say ''ARTIFACT_FAILED'' [''import'', err] x
   | Verified i (Inr m) \<Rightarrow> say ''ARTIFACT_VERIFIED'' [cid_text e i, show_word (artifact_size m), show_nat (length (blocks m))] x
   | Verified i (Inl err) \<Rightarrow> say ''ARTIFACT_FAILED'' [''verify'', err] x
   | Exported i dest (Inr u) \<Rightarrow> say ''ARTIFACT_EXPORTED'' [cid_text e i, path_text e dest] x
   | Exported i dest (Inl err) \<Rightarrow> say ''ARTIFACT_FAILED'' [''export'', err] x)"

definition finish_artifact_download :: "exchange_env \<Rightarrow> artifact_download \<Rightarrow> exchange \<Rightarrow> exchange" where
  "finish_artifact_download e d x = (case dl_manifest d of
     None \<Rightarrow> say ''ARTIFACT_PEER_FAILED'' [''swarm'', ''artifact manifest was not received''] x
   | Some m \<Rightarrow> (case on_disk (commit_manifest (store e) m) x of
         (Inl err, x') \<Rightarrow> say ''ARTIFACT_PEER_FAILED'' [''swarm'', storage_message e err] x'
       | (Inr _, x') \<Rightarrow> emit_artifact_status e
           (if length (providers d) = 1
            then say ''ARTIFACT_PEER_COMPLETE'' [id_text e (providers d ! 0), cid_text e (artifact_id m), show_word (artifact_size m),
                   show_nat (length (blocks m)), show_nat (dl_completed d), show_nat (dl_reused d)] x'
            else say ''ARTIFACT_MULTI_COMPLETE'' [cid_text e (artifact_id m), show_word (artifact_size m),
                   show_nat (length (blocks m)), show_nat (dl_completed d), show_nat (dl_reused d),
                   show_nat (length (providers d)), show_nat (active_provider_count d)] x')))"

definition emit_artifact_download_progress :: "exchange_env \<Rightarrow> content_id \<Rightarrow> peer_id \<Rightarrow> artifact_download \<Rightarrow> exchange \<Rightarrow> exchange" where
  "emit_artifact_download_progress e i p d x =
     (if length (providers d) = 1
      then say ''ARTIFACT_PEER_PROGRESS'' [id_text e p, cid_text e i, show_nat (dl_completed d), show_nat (dl_total_missing d),
             show_nat (dl_reused d)] x
      else say ''ARTIFACT_MULTI_PROGRESS'' [cid_text e i, show_nat (dl_completed d), show_nat (dl_total_missing d),
             show_nat (dl_reused d), id_text e p, show_nat (active_provider_count d)] x)"

section \<open>Requests\<close>

definition artifact_request_context :: "artifact_outbound \<Rightarrow> peer_id \<times> content_id option" where
  "artifact_request_context r = (case r of OInventory p \<Rightarrow> (p, None) | OManifest p i \<Rightarrow> (p, Some i) | OBlock p i b \<Rightarrow> (p, Some i))"

definition request_artifact_manifest :: "exchange_env \<Rightarrow> content_id \<Rightarrow> exchange \<Rightarrow> exchange" where
  "request_artifact_manifest e i x =
     (let (p, x') = (case bt_get (downloads x) i of
            None \<Rightarrow> (None, x)
          | Some d \<Rightarrow> (let (p, d') = next_active_provider d in (p, put_download i d' x)))
      in case p of
           None \<Rightarrow> say ''ARTIFACT_PEER_FAILED'' [''swarm'', ''no trusted artifact provider remains; verified blocks were retained'']
                    (drop_download i x')
         | Some p \<Rightarrow> ask p (AManifest i) (OManifest p i) x')"

definition begin_artifact_download :: "exchange_env \<Rightarrow> content_id \<Rightarrow> peer_id list \<Rightarrow> exchange \<Rightarrow> exchange" where
  "begin_artifact_download e i ps x = request_artifact_manifest e i (put_download i (download_new ps) x)"

lemma next_active_loop_frame:
  assumes "next_active_loop k d = (r, d')"
  shows "dl_pending d' = dl_pending d \<and> dl_in_flight d' = dl_in_flight d \<and> providers d' = providers d \<and>
    failed_providers d' = failed_providers d \<and> dl_manifest d' = dl_manifest d \<and> dl_completed d' = dl_completed d \<and>
    dl_reused d' = dl_reused d \<and> dl_total_missing d' = dl_total_missing d"
  using assms by (induction k d rule: next_active_loop.induct) (auto simp: Let_def split: if_splits)

lemmas next_active_frame = next_active_loop_frame [of "length (providers d)" d, folded next_active_provider_def] for d

text \<open>The loop of \<open>request_artifact_blocks\<close>: each round takes a block off the queue, or ends.\<close>

function request_artifact_blocks :: "exchange_env \<Rightarrow> content_id \<Rightarrow> exchange \<Rightarrow> exchange" where
  "request_artifact_blocks e i x =
     (case bt_get (downloads x) i of
        None \<Rightarrow> x
      | Some d \<Rightarrow>
          if dl_in_flight d \<ge> MAX_PARALLEL_ARTIFACT_BLOCKS then x
          else (case dl_pending d of
            [] \<Rightarrow> x
          | b # rest \<Rightarrow>
              (case next_active_provider (d\<lparr>dl_pending := rest\<rparr>) of
                 (Some p, d') \<Rightarrow> request_artifact_blocks e i (ask p (ABlock b) (OBlock p i b)
                    (put_download i (d'\<lparr>dl_in_flight := dl_in_flight d' + 1\<rparr>) x))
               | (None, d') \<Rightarrow> say ''ARTIFACT_PEER_FAILED'' [''swarm'', ''all artifact providers failed; verified blocks were retained for resume'']
                    (drop_download i (put_download i (d'\<lparr>dl_pending := b # dl_pending d'\<rparr>) x)))))"
  by pat_completeness auto

termination
  by (relation "measure (\<lambda>(e, i, x). case bt_get (downloads x) i of None \<Rightarrow> 0 | Some d \<Rightarrow> length (dl_pending d))")
    (auto simp: ask_def put_download_def map_of_bt_insert dest!: next_active_frame [OF sym])

declare request_artifact_blocks.simps [simp del]

section \<open>Failures\<close>

definition handle_artifact_request_failure :: "exchange_env \<Rightarrow> artifact_outbound \<Rightarrow> string \<Rightarrow> exchange \<Rightarrow> exchange" where
  "handle_artifact_request_failure e expected reason x = (case expected of
     OInventory p \<Rightarrow> say ''ARTIFACT_PEER_FAILED'' [id_text e p, reason] x
   | OManifest p i \<Rightarrow> (case bt_get (downloads x) i of
         None \<Rightarrow> x
       | Some d \<Rightarrow>
           let d' = d\<lparr>failed_providers := insert p (failed_providers d)\<rparr>;
               x' = put_download i d' x
           in request_artifact_manifest e i
                (if p \<notin> failed_providers d
                 then say ''ARTIFACT_PROVIDER_FAILED'' [cid_text e i, id_text e p, reason, show_nat (active_provider_count d')] x'
                 else x'))
   | OBlock p i b \<Rightarrow> (case bt_get (downloads x) i of
         None \<Rightarrow> x
       | Some d \<Rightarrow>
           let d' = d\<lparr>dl_in_flight := dl_in_flight d - 1, failed_providers := insert p (failed_providers d),
                      dl_pending := dl_pending d @ [b]\<rparr>;
               active = active_provider_count d';
               x' = put_download i d' x;
               x'' = (if p \<notin> failed_providers d
                      then say ''ARTIFACT_PROVIDER_FAILED'' [cid_text e i, id_text e p, reason, show_nat active] x' else x')
           in if active = 0
              then say ''ARTIFACT_PEER_FAILED'' [''swarm'', ''all artifact providers failed; verified blocks were retained for resume'']
                     (drop_download i x'')
              else request_artifact_blocks e i x''))"

type_synonym walk = "(nat \<times> artifact_outbound) list \<Rightarrow> (nat \<times> artifact_outbound) list"

definition fail_affected :: "exchange_env \<Rightarrow> peer_id \<Rightarrow> content_id \<Rightarrow> exchange \<Rightarrow> exchange" where
  "fail_affected e p i x = (case bt_get (downloads x) i of
     None \<Rightarrow> x
   | Some d \<Rightarrow>
       let d' = d\<lparr>failed_providers := insert p (failed_providers d)\<rparr>;
           x' = put_download i d' x
       in if active_provider_count d' = 0
          then say ''ARTIFACT_PEER_FAILED'' [''swarm'', ''all artifact providers disconnected; verified blocks were retained for resume'']
                 (drop_download i x')
          else if dl_manifest d' \<noteq> None then request_artifact_blocks e i x' else x')"

definition fail_request :: "exchange_env \<Rightarrow> string \<Rightarrow> nat \<times> artifact_outbound \<Rightarrow> exchange \<Rightarrow> exchange" where
  "fail_request e reason r x = handle_artifact_request_failure e (snd r) reason (x\<lparr>requests := map_remove (fst r) (requests x)\<rparr>)"

definition fail_artifact_provider :: "exchange_env \<Rightarrow> walk \<Rightarrow> peer_id \<Rightarrow> string \<Rightarrow> exchange \<Rightarrow> exchange" where
  "fail_artifact_provider e walk p reason x =
     (let failed_requests = filter (\<lambda>r. fst (artifact_request_context (snd r)) = p) (walk (requests x));
          x1 = fold (fail_request e reason) failed_requests x;
          affected = map fst (filter (\<lambda>(i, d). p \<in> set (providers d)) (downloads x1))
      in fold (fail_affected e p) affected x1)"

section \<open>Responses\<close>

definition received_manifest :: "exchange_env \<Rightarrow> peer_id \<Rightarrow> content_id \<Rightarrow> artifact_manifest \<Rightarrow> exchange \<Rightarrow> exchange" where
  "received_manifest e p i m x0 = (case on_disk (missing_blocks (store e) m) x0 of
     (Inl err, x) \<Rightarrow> handle_artifact_request_failure e (OManifest p i) (storage_message e err) x
   | (Inr missing, x) \<Rightarrow>
       let unique_blocks = card (set (map block_id (blocks m)));
           reused = unique_blocks - length missing
       in case bt_get (downloads x) i of
            None \<Rightarrow> x
          | Some d \<Rightarrow>
              if missing = [] then finish_artifact_download e (d\<lparr>dl_manifest := Some m, dl_reused := reused\<rparr>) (drop_download i x)
              else
                let d' = d\<lparr>dl_manifest := Some m, dl_total_missing := length missing, dl_pending := missing, dl_reused := reused\<rparr>;
                    x' = put_download i d' x
                in request_artifact_blocks e i
                     (if length (providers d') > 1
                      then say ''ARTIFACT_MULTI_STARTED'' [cid_text e i, show_nat (length (providers d')), show_nat (dl_total_missing d'),
                             show_nat (dl_reused d')] x'
                      else x'))"

definition received_block :: "exchange_env \<Rightarrow> peer_id \<Rightarrow> content_id \<Rightarrow> block_ref \<Rightarrow> bytes \<Rightarrow> exchange \<Rightarrow> exchange" where
  "received_block e p i b v x0 =
     (let (result, x) = on_disk (store_block (store e) b v) x0
      in case bt_get (downloads x) i of
           None \<Rightarrow> x
         | Some d0 \<Rightarrow>
             let d = d0\<lparr>dl_in_flight := dl_in_flight d0 - 1\<rparr>
             in (case result of
                  Inl err \<Rightarrow> say ''ARTIFACT_PEER_FAILED'' [id_text e p, storage_message e err] (drop_download i x)
                | Inr _ \<Rightarrow>
                    let d' = d\<lparr>dl_completed := dl_completed d + 1\<rparr>;
                        x' = emit_artifact_download_progress e i p d' (put_download i d' x)
                    in if dl_pending d' = [] \<and> dl_in_flight d' = 0 then finish_artifact_download e d' (drop_download i x')
                       else request_artifact_blocks e i x'))"

definition received_inventory :: "exchange_env \<Rightarrow> peer_id \<Rightarrow> artifact_summary list \<Rightarrow> exchange \<Rightarrow> exchange" where
  "received_inventory e p items x =
     say ''ARTIFACT_PEER_INVENTORY'' [id_text e p, ''complete'']
       (fold (\<lambda>a. say ''ARTIFACT_PEER_ITEM'' [id_text e p, cid_text e (summary_id a), show_word (summary_size a), show_word (summary_blocks a)])
          (take 128 items) (say ''ARTIFACT_PEER_INVENTORY'' [id_text e p, ''begin''] x))"

definition refuse_response :: "exchange_env \<Rightarrow> walk \<Rightarrow> artifact_outbound \<Rightarrow> string \<Rightarrow> exchange \<Rightarrow> exchange" where
  "refuse_response e walk expected message x =
     fail_artifact_provider e walk (fst (artifact_request_context expected)) message
       (handle_artifact_request_failure e expected message x)"

definition handle_artifact_response :: "exchange_env \<Rightarrow> walk \<Rightarrow> artifact_response \<Rightarrow> artifact_outbound \<Rightarrow> exchange \<Rightarrow> exchange" where
  "handle_artifact_response e walk response expected x = (case (expected, response) of
     (_, RError message) \<Rightarrow> refuse_response e walk expected message x
   | (OInventory p, RInventory items) \<Rightarrow> received_inventory e p items x
   | (OManifest p i, RManifest m) \<Rightarrow>
       if artifact_id m = i then received_manifest e p i m x
       else refuse_response e walk expected ''artifact response did not match the request'' x
   | (OBlock p i expected_block, RBlock b v) \<Rightarrow>
       if b = expected_block then received_block e p i b v x
       else refuse_response e walk expected ''artifact response did not match the request'' x
   | _ \<Rightarrow> refuse_response e walk expected ''artifact response did not match the request'' x)"

section \<open>Events of the exchange\<close>

definition artifact_answered :: "exchange_env \<Rightarrow> walk \<Rightarrow> nat \<Rightarrow> artifact_response \<Rightarrow> exchange \<Rightarrow> exchange" where
  "artifact_answered e walk rid response x = (case map_of (requests x) rid of
     None \<Rightarrow> x
   | Some expected \<Rightarrow> handle_artifact_response e walk response expected (x\<lparr>requests := map_remove rid (requests x)\<rparr>))"

definition artifact_failed :: "exchange_env \<Rightarrow> walk \<Rightarrow> nat \<Rightarrow> peer_id \<Rightarrow> string \<Rightarrow> exchange \<Rightarrow> exchange" where
  "artifact_failed e walk rid p failure x =
     (let message = ''request failed: '' @ failure
      in case map_of (requests x) rid of
           Some expected \<Rightarrow> fail_artifact_provider e walk p message
             (handle_artifact_request_failure e expected message (x\<lparr>requests := map_remove rid (requests x)\<rparr>))
         | None \<Rightarrow> say ''ARTIFACT_PEER_FAILED'' [id_text e p, message] x)"

end
