(* ===== verification/Updates.thy ===== *)
theory Updates
  imports Node FileSystem
begin

text \<open>
  Signed updates between peers: what a node offers and serves (\<open>build_signed_update_source\<close>,
  \<open>serve_update_request\<close>), the checks of an offered manifest, the transfer in chunks into the staging
  directory, and the start of the updater process. Semantic versions, keys and signatures, SHA-256 with
  its hex text, path joining and the texts of system errors are parameters; the open download file is the
  file at its path, written at its end.
\<close>

section \<open>Data\<close>

datatype update_policy = Disabled | Manual | Automatic

datatype update_component = Agent | Debugger | Android

record update_source =
  src_path :: string
  src_signed :: signed_update_manifest

record pending_download =
  pd_peer :: peer_id
  pd_component :: update_component
  pd_signed :: signed_update_manifest
  pd_path :: string
  pd_received :: u64
  pd_apply :: bool

record update_manager =
  policy :: update_policy
  trust_path :: string
  staging :: string
  updater_path :: string
  trusted :: "peer_id set"
  agent_source :: "update_source option"
  debugger_source :: "update_source option"
  android_source :: "update_source option"
  requested :: "(peer_id \<times> update_component \<times> bool) option"
  download :: "pending_download option"

record update_env =
  peer_name :: "peer_id \<Rightarrow> string"
  parse_peer_id :: "string \<Rightarrow> peer_id option"
  const_os :: string
  const_arch :: string
  package_version :: string
  version_valid :: "string \<Rightarrow> bool"
  version_newer :: "string \<Rightarrow> string \<Rightarrow> bool"
  decode_key :: "bytes \<Rightarrow> bytes option"
  peer_of_key :: "bytes \<Rightarrow> peer_id"
  verify_signature :: "bytes \<Rightarrow> string \<Rightarrow> bytes \<Rightarrow> bool"
  sign_payload :: "string \<Rightarrow> bytes option"
  own_public_key :: bytes
  sha_hex :: "bytes \<Rightarrow> string"
  path_join :: "string \<Rightarrow> string \<Rightarrow> string"
  with_extension :: "string \<Rightarrow> string \<Rightarrow> string"
  parent_dir :: "string \<Rightarrow> string"
  update_io_text :: "io_error \<Rightarrow> string"
  eof_text :: string
  args_json :: "string list \<Rightarrow> bytes"
  process_id :: string
  decode_text :: "bytes \<Rightarrow> string option"
  encode_text :: "string \<Rightarrow> bytes"

record updates =
  up_log :: event_log
  up_disk :: "string fs"
  manager :: update_manager
  up_sent :: "(peer_id \<times> update_request) list"
  launched :: "string list list"

type_synonym 'a update_io = "(string, 'a, string fs) io"

abbreviation update_call :: "update_env \<Rightarrow> (io_error, 'a, string fs) io \<Rightarrow> 'a update_io" where
  "update_call e m \<equiv> io_map_err (update_io_text e) m"

definition tell :: "string \<Rightarrow> string list \<Rightarrow> updates \<Rightarrow> updates" where
  "tell ev fs u = u\<lparr>up_log := emit_event ev fs (up_log u)\<rparr>"

definition run_files :: "'a update_io \<Rightarrow> updates \<Rightarrow> (string + 'a) \<times> updates" where
  "run_files m u = (let (r, s) = m (up_disk u) in (r, u\<lparr>up_disk := s\<rparr>))"

definition remove_quietly :: "string \<Rightarrow> updates \<Rightarrow> updates" where
  "remove_quietly p u = snd (run_files (io_ok (fs_remove p)) u)"

section \<open>Offering an update\<close>

definition expected_target :: "update_env \<Rightarrow> update_component \<Rightarrow> string \<times> string" where
  "expected_target e c = (case c of Android \<Rightarrow> (''android'', ''aarch64'') | _ \<Rightarrow> (const_os e, const_arch e))"

definition component_payload :: "update_component \<Rightarrow> update_manifest \<Rightarrow> string" where
  "component_payload c m = (case c of Agent \<Rightarrow> signing_payload m | Debugger \<Rightarrow> debugger_signing_payload m
     | Android \<Rightarrow> android_signing_payload m)"

definition build_signed_update_source :: "update_env \<Rightarrow> string \<Rightarrow> string \<Rightarrow> update_component \<Rightarrow> update_source update_io" where
  "build_signed_update_source e path vers c =
     io_bind (io_map_err (\<lambda>_. ''could not open update source '' @ path) fs_check) (\<lambda>_.
     io_bind (update_call e fs_check) (\<lambda>_.
     io_bind (update_call e (fs_read path)) (\<lambda>b.
     let (tos, tarch) = expected_target e c;
         m = \<lparr>um_version = vers, um_target_os = tos, um_target_arch = tarch, um_size = of_nat (length b), um_sha256_hex = sha_hex e b\<rparr>
     in case sign_payload e (component_payload c m) of
          None \<Rightarrow> io_throw ''node identity could not sign its update manifest''
        | Some sig \<Rightarrow> io_return \<lparr>src_path = path,
            src_signed = \<lparr>su_manifest = m, su_signer_public_key = own_public_key e, su_signature = sig\<rparr>\<rparr>)))"

text \<open>\<open>current_exe\<close> is the path of the running agent, or an error.\<close>

definition build_update_source :: "update_env \<Rightarrow> string option \<Rightarrow> update_source update_io" where
  "build_update_source e exe = (case exe of
     None \<Rightarrow> io_throw ''could not locate running agent executable''
   | Some path \<Rightarrow> build_signed_update_source e path (package_version e) Agent)"

definition build_debugger_update_source :: "update_env \<Rightarrow> string option \<Rightarrow> string \<Rightarrow> update_source option update_io" where
  "build_debugger_update_source e exe debugger_filename = (case exe of
     None \<Rightarrow> io_throw ''could not locate running agent executable''
   | Some agent \<Rightarrow>
       let path = path_join e (parent_dir e agent) debugger_filename;
           marker = with_extension e path ''version''
       in io_bind (io_get (is_file path)) (\<lambda>there.
          if \<not> there then io_return None else
          io_bind (io_get (is_file marker)) (\<lambda>marked.
          if \<not> marked then io_return None else
          io_bind (io_map_err (\<lambda>_. ''could not read '' @ marker) (fs_read marker)) (\<lambda>b.
          case decode_text e b of
            None \<Rightarrow> io_throw (''could not read '' @ marker)
          | Some t \<Rightarrow>
              if \<not> version_valid e (trim t) then io_throw ''Debugger version marker is invalid'' else
              io_bind (build_signed_update_source e path (trim t) Debugger) (\<lambda>s. io_return (Some s))))))"

section \<open>Trust\<close>

definition persist_trust :: "update_env \<Rightarrow> update_manager \<Rightarrow> unit update_io" where
  "persist_trust e m =
     (let t = join_with [LF] (map (peer_name e) (sorted_list_of_set (trusted m))) in
      io_bind (update_call e fs_check) (\<lambda>_.
      io_map_err (\<lambda>_. ''could not save '' @ trust_path m) (fs_write (trust_path m) (encode_text e (t @ [LF])))))"

definition strip_cr :: "string \<Rightarrow> string" where
  "strip_cr l = (if l \<noteq> [] \<and> last l = CR then butlast l else l)"

definition text_lines :: "string \<Rightarrow> string list" where
  "text_lines t = map strip_cr (let ls = split_on LF t in if last ls = [] then butlast ls else ls)"

fun parse_trusted :: "update_env \<Rightarrow> string list \<Rightarrow> string + peer_id set" where
  "parse_trusted e [] = Inr {}"
| "parse_trusted e (l # ls) =
     (case parse_peer_id e l of
        None \<Rightarrow> Inl (''invalid trusted peer ID: '' @ l)
      | Some p \<Rightarrow> (case parse_trusted e ls of Inl m \<Rightarrow> Inl m | Inr ps \<Rightarrow> Inr (insert p ps)))"

definition load_trusted_peers :: "update_env \<Rightarrow> string \<Rightarrow> peer_id set update_io" where
  "load_trusted_peers e path =
     io_bind (io_get (is_file path)) (\<lambda>there.
     if \<not> there then io_return {} else
     io_bind (update_call e (fs_read path)) (\<lambda>b.
     case decode_text e b of
       None \<Rightarrow> io_throw ''stream did not contain valid UTF-8''
     | Some t \<Rightarrow> io_lift (parse_trusted e (filter (\<lambda>l. l \<noteq> []) (map trim (text_lines t))))))"

definition update_manager_new :: "update_env \<Rightarrow> update_policy \<Rightarrow> string \<Rightarrow> string \<Rightarrow> string
    \<Rightarrow> update_source option \<Rightarrow> update_source option \<Rightarrow> update_source option \<Rightarrow> update_manager update_io" where
  "update_manager_new e pol trust stage updater a d n =
     io_bind (io_map_err (\<lambda>_. ''could not create update staging at '' @ stage) fs_check) (\<lambda>_.
     io_bind (load_trusted_peers e trust) (\<lambda>ps.
     io_return \<lparr>policy = pol, trust_path = trust, staging = stage, updater_path = updater, trusted = ps,
       agent_source = a, debugger_source = d, android_source = n, requested = None, download = None\<rparr>))"

section \<open>Serving\<close>

definition serve_update_chunk :: "update_env \<Rightarrow> update_source \<Rightarrow> string \<Rightarrow> u64 \<Rightarrow> u32 \<Rightarrow> string fs \<Rightarrow> update_response \<times> string fs" where
  "serve_update_chunk e src vers offset len s =
     (let m = su_manifest (src_signed src)
      in if vers \<noteq> um_version m then (UpError ''requested update version is unavailable'', s)
         else if offset \<ge> um_size m then (UpError ''update offset is outside the package'', s)
         else
           let remaining = um_size m - offset;
               n = unat (min (ucast (min len UPDATE_CHUNK_BYTES)) remaining)
           in case fs_read (src_path src) s of
                (Inl err, s') \<Rightarrow> (UpError (update_io_text e err), s')
              | (Inr b, s') \<Rightarrow>
                  if unat offset + n \<le> length b then (UpChunk offset (take n (drop (unat offset) b)), s')
                  else (UpError (eof_text e), s'))"

definition no_agent_share :: string where "no_agent_share = ''this platform does not share self-update binaries''"
definition no_debugger_share :: string where "no_debugger_share = ''this peer does not have a Debugger binary to share''"
definition no_android_share :: string where "no_android_share = ''this peer does not have an Android APK to share''"

definition offer :: "update_source option \<Rightarrow> string \<Rightarrow> update_response" where
  "offer src message = (case src of None \<Rightarrow> UpError message | Some x \<Rightarrow> UpManifest (src_signed x))"

definition serve_update_request :: "update_env \<Rightarrow> update_request \<Rightarrow> update_manager \<Rightarrow> string fs \<Rightarrow> update_response \<times> string fs" where
  "serve_update_request e r m s = (case r of
     UManifest \<Rightarrow> (offer (agent_source m) no_agent_share, s)
   | UDebuggerManifest \<Rightarrow> (offer (debugger_source m) no_debugger_share, s)
   | UAndroidManifest \<Rightarrow> (offer (android_source m) no_android_share, s)
   | UChunk v off len \<Rightarrow> (case agent_source m of None \<Rightarrow> (UpError no_agent_share, s) | Some x \<Rightarrow> serve_update_chunk e x v off len s)
   | UDebuggerChunk v off len \<Rightarrow> (case debugger_source m of None \<Rightarrow> (UpError no_debugger_share, s) | Some x \<Rightarrow> serve_update_chunk e x v off len s)
   | UAndroidChunk v off len \<Rightarrow> (case android_source m of None \<Rightarrow> (UpError no_android_share, s) | Some x \<Rightarrow> serve_update_chunk e x v off len s))"

section \<open>Checks\<close>

definition is_newer_version :: "update_env \<Rightarrow> string \<Rightarrow> bool" where
  "is_newer_version e v = (version_valid e v \<and> version_valid e (package_version e) \<and> version_newer e v (package_version e))"

definition verify_update_manifest :: "update_env \<Rightarrow> peer_id \<Rightarrow> signed_update_manifest \<Rightarrow> update_component \<Rightarrow> string + unit" where
  "verify_update_manifest e p sm c =
     (let m = su_manifest sm; (tos, tarch) = expected_target e c
      in if um_target_os m \<noteq> tos \<or> um_target_arch m \<noteq> tarch then Inl ''update target does not match this device''
         else if um_size m = 0 \<or> um_size m > MAX_UPDATE_BYTES then Inl ''update package size is outside the allowed range''
         else if \<not> version_valid e (um_version m) then Inl ''offered update version is invalid''
         else if (c = Agent \<or> c = Android) \<and> \<not> is_newer_version e (um_version m)
           then Inl ''offered version is not newer than the running agent''
         else case decode_key e (su_signer_public_key sm) of
           None \<Rightarrow> Inl ''update signer key is invalid''
         | Some key \<Rightarrow>
             if peer_of_key e key \<noteq> p then Inl ''update signature key does not match the connected peer''
             else if \<not> verify_signature e key (component_payload c m) (su_signature sm)
               then Inl ''update manifest signature is invalid''
             else Inr ())"

definition verify_download :: "update_env \<Rightarrow> string \<Rightarrow> update_manifest \<Rightarrow> unit update_io" where
  "verify_download e path m =
     io_bind (update_call e (fs_read path)) (\<lambda>b.
     if length b \<noteq> unat (um_size m) then io_throw ''downloaded update size does not match its manifest''
     else
     io_bind (update_call e fs_check) (\<lambda>_.
     if sha_hex e b \<noteq> um_sha256_hex m then io_throw ''downloaded update SHA-256 does not match its manifest''
     else io_return ()))"

section \<open>Requesting\<close>

definition component_event :: "update_component \<Rightarrow> string \<Rightarrow> string" where
  "component_event c suffix =
     (if suffix \<in> {''REQUESTED'', ''PROGRESS'', ''READY'', ''FAILED''}
      then (case c of Agent \<Rightarrow> ''UPDATE_'' | Debugger \<Rightarrow> ''DEBUGGER_UPDATE_'' | Android \<Rightarrow> ''ANDROID_UPDATE_'') @ suffix
      else ''UPDATE_FAILED'')"

definition fail_update :: "update_env \<Rightarrow> update_component \<Rightarrow> peer_id \<Rightarrow> string \<Rightarrow> updates \<Rightarrow> updates" where
  "fail_update e c p message u = tell (component_event c ''FAILED'') [peer_name e p, message] u"

definition send_update :: "peer_id \<Rightarrow> update_request \<Rightarrow> updates \<Rightarrow> updates" where
  "send_update p r u = u\<lparr>up_sent := up_sent u @ [(p, r)]\<rparr>"

definition set_download :: "pending_download option \<Rightarrow> updates \<Rightarrow> updates" where
  "set_download d u = u\<lparr>manager := (manager u)\<lparr>download := d\<rparr>\<rparr>"

definition set_requested :: "(peer_id \<times> update_component \<times> bool) option \<Rightarrow> updates \<Rightarrow> updates" where
  "set_requested r u = u\<lparr>manager := (manager u)\<lparr>requested := r\<rparr>\<rparr>"

definition manifest_request :: "update_component \<Rightarrow> update_request" where
  "manifest_request c = (case c of Agent \<Rightarrow> UManifest | Debugger \<Rightarrow> UDebuggerManifest | Android \<Rightarrow> UAndroidManifest)"

definition begin_component_update_request :: "update_env \<Rightarrow> peer_id \<Rightarrow> update_component \<Rightarrow> bool \<Rightarrow> updates \<Rightarrow> updates" where
  "begin_component_update_request e p c apply_when_ready u =
     (let m = manager u
      in if policy m = Disabled then fail_update e c p ''updates are disabled'' u
         else if p \<notin> trusted m then fail_update e c p ''peer is not trusted for updates'' u
         else if download m \<noteq> None \<or> requested m \<noteq> None then fail_update e c p ''another update is already active'' u
         else tell (component_event c ''REQUESTED'') [peer_name e p]
           (send_update p (manifest_request c) (set_requested (Some (p, c, apply_when_ready)) u)))"

definition begin_update_request :: "update_env \<Rightarrow> peer_id \<Rightarrow> bool \<Rightarrow> updates \<Rightarrow> updates" where
  "begin_update_request e p apply_when_ready u = begin_component_update_request e p Agent apply_when_ready u"

definition begin_debugger_update_request :: "update_env \<Rightarrow> peer_id \<Rightarrow> updates \<Rightarrow> updates" where
  "begin_debugger_update_request e p u = begin_component_update_request e p Debugger False u"

definition begin_android_update_request :: "update_env \<Rightarrow> peer_id \<Rightarrow> updates \<Rightarrow> updates" where
  "begin_android_update_request e p u = begin_component_update_request e p Android False u"

definition chunk_request :: "pending_download \<Rightarrow> update_request" where
  "chunk_request d = (let v = um_version (su_manifest (pd_signed d)) in case pd_component d of
     Agent \<Rightarrow> UChunk v (pd_received d) UPDATE_CHUNK_BYTES
   | Debugger \<Rightarrow> UDebuggerChunk v (pd_received d) UPDATE_CHUNK_BYTES
   | Android \<Rightarrow> UAndroidChunk v (pd_received d) UPDATE_CHUNK_BYTES)"

definition request_next_update_chunk :: "updates \<Rightarrow> updates" where
  "request_next_update_chunk u = (case download (manager u) of
     None \<Rightarrow> u | Some d \<Rightarrow> send_update (pd_peer d) (chunk_request d) u)"

section \<open>Applying an Agent update\<close>

definition updater_arguments :: "update_env \<Rightarrow> string \<Rightarrow> string \<Rightarrow> string \<Rightarrow> string \<Rightarrow> string list" where
  "updater_arguments e updater target replacement args_path =
     [updater, ''--target'', target, ''--replacement'', replacement, ''--backup'', with_extension e target ''previous.exe'',
      ''--restart-args'', args_path]"

definition schedule_self_update :: "update_env \<Rightarrow> string \<Rightarrow> string list \<Rightarrow> peer_id \<Rightarrow> updates \<Rightarrow> bool \<times> updates" where
  "schedule_self_update e replacement restart_arguments p u =
     (let m = manager u
      in case agent_source m of
           None \<Rightarrow> (False, tell ''UPDATE_FAILED'' [peer_name e p, ''self-update is not supported on this platform''] u)
         | Some src \<Rightarrow>
             if \<not> is_file (updater_path m) (up_disk u)
             then (False, tell ''UPDATE_FAILED'' [peer_name e p, ''updater helper not found: '' @ updater_path m] u)
             else
               let args_path = path_join e (staging m) (''restart-'' @ process_id e @ ''.json'');
                   prepare = io_bind (update_call e (fs_write args_path (args_json e restart_arguments))) (\<lambda>_.
                     io_map_err (\<lambda>_. ''could not start updater helper'') fs_check)
               in case run_files prepare u of
                    (Inr _, u') \<Rightarrow> (True, tell ''UPDATE_APPLYING'' [peer_name e p, src_path src]
                        (u'\<lparr>launched := launched u' @ [updater_arguments e (updater_path m) (src_path src) replacement args_path]\<rparr>))
                  | (Inl err, u') \<Rightarrow> (False, tell ''UPDATE_FAILED'' [peer_name e p, err] u'))"

section \<open>Responses\<close>

definition component_filename :: "update_component \<Rightarrow> string" where
  "component_filename c = (case c of Agent \<Rightarrow> ''agent'' | Debugger \<Rightarrow> ''debugger'' | Android \<Rightarrow> ''android.apk'')"

definition download_path :: "update_env \<Rightarrow> update_manager \<Rightarrow> update_component \<Rightarrow> string \<Rightarrow> peer_id \<Rightarrow> string" where
  "download_path e m c v p = path_join e (staging m)
     (''swagri-'' @ component_filename c @ ''-'' @ v @ ''-'' @ peer_name e p @ ''.download'')"

definition manifest_received :: "update_env \<Rightarrow> peer_id \<Rightarrow> signed_update_manifest \<Rightarrow> updates \<Rightarrow> updates" where
  "manifest_received e p sm u0 = (case requested (manager u0) of
     None \<Rightarrow> u0
   | Some (requested_peer, c, apply_when_ready) \<Rightarrow>
       let u = set_requested None u0
       in if requested_peer \<noteq> p then fail_update e c p ''unexpected update source'' u
          else case verify_update_manifest e p sm c of
            Inl err \<Rightarrow> fail_update e c p err u
          | Inr _ \<Rightarrow>
              let path = download_path e (manager u) c (um_version (su_manifest sm)) p
              in case run_files (update_call e (fs_create path)) u of
                   (Inl err, u') \<Rightarrow> fail_update e c p err u'
                 | (Inr _, u') \<Rightarrow> request_next_update_chunk (set_download (Some \<lparr>pd_peer = p, pd_component = c, pd_signed = sm,
                       pd_path = path, pd_received = 0, pd_apply = apply_when_ready\<rparr>) u'))"

definition abandon :: "update_env \<Rightarrow> pending_download \<Rightarrow> peer_id \<Rightarrow> string \<Rightarrow> updates \<Rightarrow> bool \<times> updates" where
  "abandon e d p message u = (False, remove_quietly (pd_path d) (fail_update e (pd_component d) p message u))"

definition finish_download :: "update_env \<Rightarrow> string list \<Rightarrow> pending_download \<Rightarrow> peer_id \<Rightarrow> updates \<Rightarrow> bool \<times> updates" where
  "finish_download e restart_arguments d p u =
     (case run_files (update_call e fs_check) u of
        (Inl err, u1) \<Rightarrow> abandon e d p err u1
      | (Inr _, u1) \<Rightarrow>
          (case run_files (verify_download e (pd_path d) (su_manifest (pd_signed d))) u1 of
             (Inl err, u2) \<Rightarrow> abandon e d p err u2
           | (Inr _, u2) \<Rightarrow>
               let u3 = tell (component_event (pd_component d) ''READY'')
                     [peer_name e p, um_version (su_manifest (pd_signed d)), pd_path d] u2
               in if pd_component d = Agent \<and> pd_apply d then schedule_self_update e (pd_path d) restart_arguments p u3
                  else (False, u3)))"

definition chunk_received :: "update_env \<Rightarrow> string list \<Rightarrow> peer_id \<Rightarrow> u64 \<Rightarrow> bytes \<Rightarrow> updates \<Rightarrow> bool \<times> updates" where
  "chunk_received e restart_arguments p offset v u0 = (case download (manager u0) of
     None \<Rightarrow> (False, u0)
   | Some d0 \<Rightarrow>
       let u = set_download None u0; total_size = um_size (su_manifest (pd_signed d0))
       in if pd_peer d0 \<noteq> p \<or> offset \<noteq> pd_received d0 then abandon e d0 p ''invalid update chunk order'' u
          else if v = [] \<or> sat_add (pd_received d0) (of_nat (length v)) > total_size then abandon e d0 p ''invalid update chunk size'' u
          else case run_files (update_call e (fs_append (pd_path d0) v)) u of
            (Inl err, u1) \<Rightarrow> abandon e d0 p err u1
          | (Inr _, u1) \<Rightarrow>
              let d = d0\<lparr>pd_received := pd_received d0 + of_nat (length v)\<rparr>;
                  u2 = tell (component_event (pd_component d) ''PROGRESS'')
                    [peer_name e p, show_word (pd_received d), show_word total_size] u1
              in if pd_received d = total_size then finish_download e restart_arguments d p u2
                 else (False, request_next_update_chunk (set_download (Some d) u2)))"

definition error_received :: "update_env \<Rightarrow> peer_id \<Rightarrow> string \<Rightarrow> updates \<Rightarrow> updates" where
  "error_received e p message u =
     (let c = (case requested (manager u) of None \<Rightarrow> Agent | Some (_, c, _) \<Rightarrow> c)
      in fail_update e c p message (set_download None (set_requested None u)))"

definition update_answered :: "update_env \<Rightarrow> string list \<Rightarrow> peer_id \<Rightarrow> update_response \<Rightarrow> updates \<Rightarrow> bool \<times> updates" where
  "update_answered e restart_arguments p r u = (case r of
     UpManifest sm \<Rightarrow> (False, manifest_received e p sm u)
   | UpChunk offset v \<Rightarrow> chunk_received e restart_arguments p offset v u
   | UpError message \<Rightarrow> (False, error_received e p message u))"

definition update_outbound_failed :: "update_env \<Rightarrow> peer_id \<Rightarrow> string \<Rightarrow> updates \<Rightarrow> updates" where
  "update_outbound_failed e p err u =
     (let c = (case requested (manager u) of
            Some (_, c, _) \<Rightarrow> c
          | None \<Rightarrow> (case download (manager u) of Some d \<Rightarrow> pd_component d | None \<Rightarrow> Agent));
          u1 = set_requested None u;
          u2 = (case download (manager u1) of None \<Rightarrow> u1 | Some d \<Rightarrow> remove_quietly (pd_path d) (set_download None u1))
      in fail_update e c p err u2)"

end
