(* ===== verification/Inbound.thy ===== *)
theory Inbound
  imports Node
begin

text \<open>
  The tasks other peers send: the request branch of \<open>handle_request_response\<close>, the work it spawns on the blocking
  pool, the queue of completed responses and their sending in the run loop. A response channel is a number; work that
  was spawned runs to its end at any later time, in any order. The counter of active tasks that is
  shared with local tasks is the sum of this one and \<open>running_tasks\<close> of \<open>Node\<close>.
\<close>

record debug_faults =
  fail_next_matrix_chunk :: bool
  delay_next_matrix_chunk_ms :: u64

definition take_debug_matrix_fault :: "task \<Rightarrow> debug_faults \<Rightarrow> (bool \<times> u64) \<times> debug_faults" where
  "take_debug_matrix_fault t f = (case t of
     TMatrixChunk _ _ _ \<Rightarrow> ((fail_next_matrix_chunk f, delay_next_matrix_chunk_ms f),
        \<lparr>fail_next_matrix_chunk = False, delay_next_matrix_chunk_ms = 0\<rparr>)
   | _ \<Rightarrow> ((False, 0), f))"

record inbound_work =
  wk_channel :: nat
  wk_request :: task_request
  wk_fail :: bool
  wk_delay :: u64

record completed_response =
  cr_channel :: nat
  cr_response :: task_response
  cr_track :: bool

record inbound =
  in_log :: event_log
  in_faults :: debug_faults
  in_active :: u32
  work_list :: "inbound_work list"
  completed_list :: "completed_response list"
  answered :: "(nat \<times> task_response) list"
  undelivered :: "(nat \<times> task_response) list"

record inbound_env =
  node_env_of :: node_env
  agent_version :: string
  node_name :: string

definition task_allowed_while_contribution_paused :: "task \<Rightarrow> bool" where
  "task_allowed_while_contribution_paused t = (case t of TNodeInfo \<Rightarrow> True | TEcho _ \<Rightarrow> True | _ \<Rightarrow> False)"

definition push_completed :: "completed_response \<Rightarrow> inbound \<Rightarrow> inbound" where
  "push_completed c x = x\<lparr>completed_list := completed_list x @ [c]\<rparr>"

definition node_info_response :: "inbound_env \<Rightarrow> resource_snapshot \<Rightarrow> string \<Rightarrow> task_response" where
  "node_info_response e snap i =
     response_success i 0 (RNodeInfo (agent_version e) NODE_PROTOCOL_VERSION (node_name e) (Some snap))"

definition paused_response :: "string \<Rightarrow> task_response" where
  "paused_response i = response_failure i 0 ''resources_paused'' ''the selected Agent has paused its compute contribution''"

definition receive_task :: "inbound_env \<Rightarrow> resource_snapshot \<Rightarrow> peer_id \<Rightarrow> nat \<Rightarrow> task_request \<Rightarrow> inbound \<Rightarrow> inbound" where
  "receive_task e snap p ch r x =
     (if req_task r = TNodeInfo
      then push_completed \<lparr>cr_channel = ch, cr_response = node_info_response e snap (req_id r), cr_track = False\<rparr> x
      else if contribution_paused snap \<and> \<not> task_allowed_while_contribution_paused (req_task r)
      then push_completed \<lparr>cr_channel = ch, cr_response = paused_response (req_id r), cr_track = False\<rparr>
             (x\<lparr>in_log := emit_event ''INBOUND_TASK_REJECTED'' [peer_text (node_env_of e) p, ''local contribution is paused''] (in_log x)\<rparr>)
      else
        let ((fail, delay), f) = take_debug_matrix_fault (req_task r) (in_faults x);
            log1 = (if (fail, delay) \<noteq> (False, 0)
                    then emit_event ''DEBUG_FAULT_CONSUMED'' [req_id r, show_bool fail, show_word delay] (in_log x) else in_log x);
            log2 = emit_task_started (req_id r) (task_description (req_task r))
                     (peer_text (node_env_of e) (local_peer (node_env_of e))) ''inbound'' log1
        in x\<lparr>in_log := log2, in_faults := f, in_active := in_active x + 1,
             work_list := work_list x @ [\<lparr>wk_channel = ch, wk_request = r, wk_fail = fail, wk_delay = delay\<rparr>]\<rparr>)"

definition work_response :: "inbound_env \<Rightarrow> nat \<Rightarrow> u64 \<Rightarrow> inbound_work \<Rightarrow> task_response" where
  "work_response e ms whole w =
     (let response = (if wk_fail w
           then response_failure (req_id (wk_request w)) 0 ''debug_injected_failure''
                  ''the worker intentionally failed this matrix chunk for a retry test''
           else execute (sha256_hex (node_env_of e)) ms (wk_request w))
      in if wk_delay w > 0 then response\<lparr>duration_ms := whole\<rparr> else response)"

text \<open>Work number \<open>k\<close> ends, after \<open>ms\<close> of execution and \<open>whole\<close> milliseconds in all.\<close>

definition finish_work :: "inbound_env \<Rightarrow> nat \<Rightarrow> nat \<Rightarrow> u64 \<Rightarrow> inbound \<Rightarrow> inbound" where
  "finish_work e k ms whole x =
     (let w = work_list x ! k
      in push_completed \<lparr>cr_channel = wk_channel w, cr_response = work_response e ms whole w, cr_track = True\<rparr>
           (x\<lparr>in_active := in_active x - 1, work_list := take k (work_list x) @ drop (Suc k) (work_list x)\<rparr>))"

text \<open>The run loop sends the next completed response; it fails when the requester is gone.\<close>

definition send_completed :: "inbound_env \<Rightarrow> bool \<Rightarrow> inbound \<Rightarrow> inbound" where
  "send_completed e alive x = (case completed_list x of
     [] \<Rightarrow> x
   | c # rest \<Rightarrow>
       let x1 = x\<lparr>completed_list := rest,
             in_log := (if cr_track c then report_task_response (peer_text (node_env_of e) (local_peer (node_env_of e))) (cr_response c) (in_log x)
                        else in_log x)\<rparr>
       in if alive then x1\<lparr>answered := answered x1 @ [(cr_channel c, cr_response c)]\<rparr>
          else x1\<lparr>undelivered := undelivered x1 @ [(cr_channel c, cr_response c)]\<rparr>)"

section \<open>Runs\<close>

text \<open>A run carries the requests received, with the snapshot each was judged by.\<close>

inductive inbound_run :: "inbound_env \<Rightarrow> (nat \<times> task_request \<times> resource_snapshot) list \<Rightarrow> inbound \<Rightarrow> bool" for e where
  init: "work_list x = [] \<Longrightarrow> completed_list x = [] \<Longrightarrow> answered x = [] \<Longrightarrow> undelivered x = [] \<Longrightarrow> in_active x = 0 \<Longrightarrow> inbound_run e [] x"
| receive: "inbound_run e rs x \<Longrightarrow> inbound_run e (rs @ [(ch, r, snap)]) (receive_task e snap p ch r x)"
| finish: "inbound_run e rs x \<Longrightarrow> k < length (work_list x) \<Longrightarrow> inbound_run e rs (finish_work e k ms whole x)"
| send: "inbound_run e rs x \<Longrightarrow> inbound_run e rs (send_completed e alive x)"
| arm: "inbound_run e rs x \<Longrightarrow> inbound_run e rs (x\<lparr>in_faults := f\<rparr>)"

text \<open>What a request may be answered with.\<close>

definition fit_answer :: "inbound_env \<Rightarrow> task_request \<Rightarrow> resource_snapshot \<Rightarrow> task_response \<Rightarrow> bool" where
  "fit_answer e r snap a = (resp_id a = req_id r \<and>
     (if req_task r = TNodeInfo then a = node_info_response e snap (req_id r)
      else if contribution_paused snap \<and> \<not> task_allowed_while_contribution_paused (req_task r) then a = paused_response (req_id r)
      else (\<exists>m. outcome a = Failure ''debug_injected_failure'' m \<and> (\<exists>n i j. req_task r = TMatrixChunk n i j)) \<or>
           (\<exists>ms. outcome a = outcome (execute (sha256_hex (node_env_of e)) ms r))))"

text \<open>Where the channels are.\<close>

definition channels :: "inbound \<Rightarrow> nat multiset" where
  "channels x = mset (map wk_channel (work_list x)) + mset (map cr_channel (completed_list x)) + mset (map fst (answered x)) +
     mset (map fst (undelivered x))"

definition work_ok :: "(nat \<times> task_request \<times> resource_snapshot) list \<Rightarrow> inbound_work \<Rightarrow> bool" where
  "work_ok rs w = (\<exists>snap. (wk_channel w, wk_request w, snap) \<in> set rs \<and> req_task (wk_request w) \<noteq> TNodeInfo \<and>
     \<not> (contribution_paused snap \<and> \<not> task_allowed_while_contribution_paused (req_task (wk_request w))) \<and>
     (wk_fail w \<longrightarrow> (\<exists>n i j. req_task (wk_request w) = TMatrixChunk n i j)))"

definition inbound_ok :: "inbound_env \<Rightarrow> (nat \<times> task_request \<times> resource_snapshot) list \<Rightarrow> inbound \<Rightarrow> bool" where
  "inbound_ok e rs x = (channels x = mset (map fst rs) \<and> in_active x = of_nat (length (work_list x)) \<and>
     (\<forall>w\<in>set (work_list x). work_ok rs w) \<and>
     (\<forall>(ch, a)\<in>(\<lambda>c. (cr_channel c, cr_response c)) ` set (completed_list x) \<union> set (answered x) \<union> set (undelivered x).
        \<exists>r snap. (ch, r, snap) \<in> set rs \<and> fit_answer e r snap a))"

end
