(* ===== verification/Resources.thy ===== *)
theory Resources
  imports Node FileSystem
begin

text \<open>
  The resource monitor of the agent: sampling and smoothing (\<open>ResourceMonitor::refresh\<close>, \<open>ewma\<close>), the pause of the
  contribution, the environment a mobile host reports through four atomics, the CPU calibration with its
  cache file, and the checks of the limits given on the command line. What \<open>sysinfo\<close> and the clock say at a refresh is
  an argument; \<open>f32\<close> and \<open>f64\<close> arithmetic is rounded as in \<open>Floats\<close>.
\<close>

section \<open>The mobile environment\<close>

definition MOBILE_UNKNOWN :: u32 where "MOBILE_UNKNOWN = - 1"

record mobile_environment =
  battery_code :: u32
  charging_code :: u32
  thermal_code :: u32
  network_code :: u32

definition mobile_start :: mobile_environment where
  "mobile_start = \<lparr>battery_code = MOBILE_UNKNOWN, charging_code = MOBILE_UNKNOWN, thermal_code = MOBILE_UNKNOWN,
     network_code = MOBILE_UNKNOWN\<rparr>"

definition mobile_u8 :: "u32 \<Rightarrow> u8 option" where
  "mobile_u8 v = (if v \<noteq> MOBILE_UNKNOWN then Some (ucast (min v 255)) else None)"

definition mobile_bool :: "u32 \<Rightarrow> bool option" where
  "mobile_bool v = (if v = 0 then Some False else if v = 1 then Some True else None)"

definition mobile_safe_to_contribute :: "u8 option \<Rightarrow> bool option \<Rightarrow> u8 option \<Rightarrow> bool option \<Rightarrow> bool" where
  "mobile_safe_to_contribute battery charge thermal network =
     ((case battery of None \<Rightarrow> False | Some b \<Rightarrow> b \<ge> 50 \<or> charge = Some True) \<and>
      (case thermal of None \<Rightarrow> False | Some t \<Rightarrow> t < 3) \<and> network = Some True)"

definition code_u8 :: "u8 option \<Rightarrow> u32" where
  "code_u8 v = (case v of None \<Rightarrow> MOBILE_UNKNOWN | Some b \<Rightarrow> ucast b)"

definition code_bool :: "bool option \<Rightarrow> u32" where
  "code_bool v = (case v of None \<Rightarrow> MOBILE_UNKNOWN | Some b \<Rightarrow> of_bool b)"

text \<open>The new environment, and the command sent to the agent.\<close>

definition update_mobile_environment :: "u8 option \<Rightarrow> bool option \<Rightarrow> u8 option \<Rightarrow> bool option \<Rightarrow> mobile_environment \<times> string" where
  "update_mobile_environment battery charge thermal network =
     (\<lparr>battery_code = code_u8 battery, charging_code = code_bool charge, thermal_code = code_u8 thermal,
       network_code = code_bool network\<rparr>,
      if mobile_safe_to_contribute battery charge thermal network then ''resume-resources'' else ''pause-resources'')"

section \<open>Sampling\<close>

definition ewma :: "flt option \<Rightarrow> flt \<Rightarrow> flt" where
  "ewma previous sample = (case previous of
     None \<Rightarrow> sample
   | Some old \<Rightarrow> fl_add rnd32 (fl_mul rnd32 old (Fin (3 / 4))) (fl_mul rnd32 sample (Fin (1 / 4))))"

text \<open>What the system says at a refresh: \<open>process\<close> is the agent's own CPU use and memory, if it is found.\<close>

record readings =
  global_cpu :: flt
  own_process :: "(flt \<times> u64) option"
  memory_available :: u64
  unix_ms :: u64
  tasks_active :: u32
  phone :: mobile_environment

record resource_monitor =
  monitored :: resource_snapshot
  ewma_host :: "flt option"
  ewma_agent :: "flt option"

definition memory_policy :: "u64 \<Rightarrow> flt \<Rightarrow> u64" where
  "memory_policy memory limit = f64_to_u64 (fl_div rnd64 (fl_mul rnd64 (f64_of_nat (unat memory)) limit) (Fin 100))"

definition monitor_refresh :: "readings \<Rightarrow> resource_monitor \<Rightarrow> resource_monitor" where
  "monitor_refresh r m =
     (let s = monitored m;
          host = ewma (ewma_host m) (fl_clamp (global_cpu r) (Fin 0) (Fin 100));
          process_cpu = (case own_process r of None \<Rightarrow> Fin 0 | Some (c, _) \<Rightarrow> c);
          agent = ewma (ewma_agent m)
            (fl_clamp (fl_div rnd32 process_cpu (f32_of_nat (unat (max (logical_cores s) 1)))) (Fin 0) (Fin 100));
          agent_memory = (case own_process r of None \<Rightarrow> 0 | Some (_, k) \<Rightarrow> k);
          policy_bytes = memory_policy (total_memory_bytes s) (memory_limit_percent s);
          s1 = s\<lparr>observed_at_unix_ms := unix_ms r, available_memory_bytes := memory_available r, host_cpu_percent := host,
                 agent_cpu_percent := agent, agent_memory_bytes := agent_memory, active_tasks := tasks_active r,
                 battery_percent := mobile_u8 (battery_code (phone r)), charging := mobile_bool (charging_code (phone r)),
                 thermal_status := mobile_u8 (thermal_code (phone r)), unmetered_network := mobile_bool (network_code (phone r))\<rparr>;
          s2 = (if contribution_paused s1 then s1\<lparr>allocatable_memory_bytes := 0, snapshot_cpu_score := Fin 0\<rparr>
                else s1\<lparr>allocatable_memory_bytes := min (available_memory_bytes s1) (sat_sub policy_bytes agent_memory),
                        snapshot_cpu_score := effective_cpu_score (calibrated_cpu_score s1) host agent (cpu_limit_percent s1)\<rparr>)
      in \<lparr>monitored = s2, ewma_host = Some host, ewma_agent = Some agent\<rparr>)"

definition set_contribution_paused :: "bool \<Rightarrow> readings \<Rightarrow> resource_monitor \<Rightarrow> resource_monitor" where
  "set_contribution_paused paused r m =
     monitor_refresh r (m\<lparr>monitored := (monitored m)\<lparr>contribution_paused := paused\<rparr>\<rparr>)"

section \<open>Calibration\<close>

record calibration_cache =
  cached_key :: string
  cached_score :: flt

text \<open>The file format of the cache, and the directory of a path when it has one.\<close>

record calibration_env =
  parse_cache :: "bytes \<Rightarrow> calibration_cache option"
  cache_json :: "calibration_cache \<Rightarrow> bytes"
  has_parent :: "string \<Rightarrow> bool"

text \<open>The rate measured in the timed loop: \<open>iterations\<close> rounds in \<open>seconds\<close>, for each core.\<close>

definition measured_score :: "u64 \<Rightarrow> flt \<Rightarrow> u16 \<Rightarrow> flt" where
  "measured_score iterations seconds cores =
     fl_mul rnd64 (fl_div rnd64 (fl_div rnd64 (f64_of_nat (unat iterations)) seconds) (Fin 1000000))
       (f64_of_nat (unat (max cores 1)))"

definition calibrate_and_save :: "calibration_env \<Rightarrow> u64 \<Rightarrow> flt \<Rightarrow> string \<Rightarrow> string \<Rightarrow> u16 \<Rightarrow> (io_error, flt, string fs) io" where
  "calibrate_and_save e iterations seconds path key cores =
     (let score = measured_score iterations seconds cores
      in io_bind (if has_parent e path then fs_check else io_return ()) (\<lambda>_.
         io_bind (fs_write path (cache_json e \<lparr>cached_key = key, cached_score = score\<rparr>)) (\<lambda>_.
         io_return score)))"

definition load_or_calibrate_cpu :: "calibration_env \<Rightarrow> u64 \<Rightarrow> flt \<Rightarrow> string \<Rightarrow> string \<Rightarrow> u16 \<Rightarrow> (io_error, flt, string fs) io" where
  "load_or_calibrate_cpu e iterations seconds path key cores =
     io_bind (io_ok (fs_read path)) (\<lambda>cached.
     case Option.bind cached (parse_cache e) of
       Some c \<Rightarrow> if cached_key c = key \<and> is_finite (cached_score c) \<and> fl_less (Fin 0) (cached_score c)
                 then io_return (cached_score c)
                 else calibrate_and_save e iterations seconds path key cores
     | None \<Rightarrow> calibrate_and_save e iterations seconds path key cores)"

section \<open>Starting the monitor\<close>

record machine =
  cpu_count :: nat
  physical_count :: "nat option"
  first_brand :: "string option"
  memory_size :: u64
  machine_os :: string
  machine_arch :: string

definition logical_cores_of :: "machine \<Rightarrow> u16" where
  "logical_cores_of k = of_nat (min (max (cpu_count k) 1) 65535)"

definition physical_cores_of :: "machine \<Rightarrow> u16" where
  "physical_cores_of k = of_nat (min (max (case physical_count k of None \<Rightarrow> unat (logical_cores_of k) | Some n \<Rightarrow> n) 1) 65535)"

definition brand_of :: "machine \<Rightarrow> string" where
  "brand_of k = (case map_option trim (first_brand k) of
     None \<Rightarrow> ''unknown CPU'' | Some b \<Rightarrow> if b = [] then ''unknown CPU'' else b)"

definition hardware_key :: "machine \<Rightarrow> string" where
  "hardware_key k = brand_of k @ ''|'' @ show_word (logical_cores_of k) @ ''|'' @ show_word (memory_size k) @ ''|'' @ machine_arch k"

definition monitor_start :: "machine \<Rightarrow> flt \<Rightarrow> flt \<Rightarrow> flt \<Rightarrow> readings \<Rightarrow> resource_monitor" where
  "monitor_start k calibrated cpu_limit memory_limit r = monitor_refresh r
     \<lparr>monitored = \<lparr>observed_at_unix_ms = unix_ms r, os = machine_os k, arch = machine_arch k, cpu_brand = brand_of k,
        physical_cores = physical_cores_of k, logical_cores = logical_cores_of k, total_memory_bytes = memory_size k,
        available_memory_bytes = memory_available r, host_cpu_percent = global_cpu r, agent_cpu_percent = Fin 0,
        agent_memory_bytes = (case own_process r of None \<Rightarrow> 0 | Some (_, n) \<Rightarrow> n), active_tasks = 0,
        cpu_limit_percent = cpu_limit, memory_limit_percent = memory_limit, allocatable_memory_bytes = 0,
        calibrated_cpu_score = calibrated, snapshot_cpu_score = Fin 0, contribution_paused = False,
        battery_percent = None, charging = None, thermal_status = None, unmetered_network = None\<rparr>,
      ewma_host = None, ewma_agent = None\<rparr>"

definition resource_monitor_new :: "calibration_env \<Rightarrow> u64 \<Rightarrow> flt \<Rightarrow> string \<Rightarrow> machine \<Rightarrow> flt \<Rightarrow> flt \<Rightarrow> readings \<Rightarrow> (io_error, resource_monitor, string fs) io" where
  "resource_monitor_new e iterations seconds path k cpu_limit memory_limit r =
     io_bind (load_or_calibrate_cpu e iterations seconds path (hardware_key k) (logical_cores_of k)) (\<lambda>calibrated.
     io_return (monitor_start k calibrated cpu_limit memory_limit r))"

end
