(* ===== verification/Agent.thy ===== *)
theory Agent
  imports Matrix Artifacts Updates Inbound Resources
begin

text \<open>
  The state of a running agent: its components side by side, as the locals of \<open>run_agent\<close> are, the event
  output they share, and the lifting of a component's operation to the whole. A component keeps the lines it
  emitted itself; \<open>said\<close> interleaves all lines in the order of the operations and holds the queue a mobile host drains.
\<close>

datatype store_job = JImport spath | JVerify content_id | JExport content_id spath

record agent =
  ag_node :: node
  ag_exchange :: exchange
  ag_updates :: updates
  ag_inbound :: inbound
  ag_monitor :: resource_monitor
  ag_phone :: mobile_environment
  known_peers :: "(peer_id, string set) btree_map"
  connected_peers :: "peer_id list"
  store_jobs :: "store_job list"
  store_results :: "artifact_completion list"
  dials :: "(peer_id + string) list"
  update_replies :: "(peer_id \<times> update_response) list"
  artifact_replies :: "(peer_id \<times> artifact_response) list"
  said :: event_log

text \<open>
  What is outside the agent: the environments of the components, the texts \<open>FromStr\<close> of a peer identity, a
  multiaddress and an \<open>f64\<close> accept, and the arguments with which the next agent is started.
\<close>

record agent_env =
  ae_inbound :: inbound_env
  ae_exchange :: exchange_env
  ae_update :: update_env
  ae_restart :: "string list"
  ae_peer :: "string \<Rightarrow> string + peer_id"
  ae_address :: "string \<Rightarrow> string option"
  ae_float :: "string \<Rightarrow> flt option"

abbreviation ae_node :: "agent_env \<Rightarrow> node_env" where
  "ae_node e \<equiv> node_env_of (ae_inbound e)"

abbreviation peer_string :: "agent_env \<Rightarrow> peer_id \<Rightarrow> string" where
  "peer_string e \<equiv> peer_text (ae_node e)"

section \<open>The shared output\<close>

definition push_line :: "string \<Rightarrow> event_log \<Rightarrow> event_log" where
  "push_line line l = l\<lparr>printed := printed l @ [line],
     mobile_events := (if length (mobile_events l) \<ge> MOBILE_QUEUE then tl (mobile_events l) else mobile_events l) @ [line]\<rparr>"

text \<open>The lines a component added.\<close>

definition record_lines :: "event_log \<Rightarrow> event_log \<Rightarrow> event_log \<Rightarrow> event_log" where
  "record_lines before after l = fold push_line (drop (length (printed before)) (printed after)) l"

definition announce :: "string \<Rightarrow> string list \<Rightarrow> agent \<Rightarrow> agent" where
  "announce ev fs a = a\<lparr>said := emit_event ev fs (said a)\<rparr>"

definition announce_resources :: "agent_env \<Rightarrow> agent \<Rightarrow> agent" where
  "announce_resources e a = a\<lparr>said := emit_resource_event ''LOCAL_RESOURCES'' (peer_string e (local_peer (ae_node e)))
     (monitored (ag_monitor a)) (said a)\<rparr>"

section \<open>Operations of a component\<close>

definition on_node :: "(node \<Rightarrow> node) \<Rightarrow> agent \<Rightarrow> agent" where
  "on_node f a = (let n = f (ag_node a)
     in a\<lparr>ag_node := n, said := record_lines (trace (ag_node a)) (trace n) (said a)\<rparr>)"

definition on_exchange :: "(exchange \<Rightarrow> exchange) \<Rightarrow> agent \<Rightarrow> agent" where
  "on_exchange f a = (let x = f (ag_exchange a)
     in a\<lparr>ag_exchange := x, said := record_lines (log_of (ag_exchange a)) (log_of x) (said a)\<rparr>)"

definition on_updates :: "(updates \<Rightarrow> updates) \<Rightarrow> agent \<Rightarrow> agent" where
  "on_updates f a = (let u = f (ag_updates a)
     in a\<lparr>ag_updates := u, said := record_lines (up_log (ag_updates a)) (up_log u) (said a)\<rparr>)"

definition on_inbound :: "(inbound \<Rightarrow> inbound) \<Rightarrow> agent \<Rightarrow> agent" where
  "on_inbound f a = (let x = f (ag_inbound a)
     in a\<lparr>ag_inbound := x, said := record_lines (in_log (ag_inbound a)) (in_log x) (said a)\<rparr>)"

abbreviation dispatch_jobs :: "agent_env \<Rightarrow> agent \<Rightarrow> agent" where
  "dispatch_jobs e \<equiv> on_node (dispatch_matrix_jobs (ae_node e))"

text \<open>The readings of a refresh: the shared task counter and the phone's state come from the agent itself.\<close>

definition readings_of :: "agent \<Rightarrow> readings \<Rightarrow> readings" where
  "readings_of a r = r\<lparr>tasks_active := running_tasks (ag_node a) + in_active (ag_inbound a), phone := ag_phone a\<rparr>"

text \<open>The scheduler sees the monitor's snapshot.\<close>

definition set_monitor :: "resource_monitor \<Rightarrow> agent \<Rightarrow> agent" where
  "set_monitor m a = a\<lparr>ag_monitor := m, ag_node := (ag_node a)\<lparr>own_resources := monitored m\<rparr>\<rparr>"

definition pause_resources :: "bool \<Rightarrow> readings \<Rightarrow> agent \<Rightarrow> agent" where
  "pause_resources p r a = set_monitor (set_contribution_paused p (readings_of a r) (ag_monitor a)) a"

definition refresh_resources :: "readings \<Rightarrow> agent \<Rightarrow> agent" where
  "refresh_resources r a = set_monitor (monitor_refresh (readings_of a r) (ag_monitor a)) a"

end
