(* ===== verification/Commands.thy ===== *)
theory Commands
  imports Agent
begin

text \<open>
  The commands of standard input and of the mobile bridge (\<open>handle_command\<close>): parsing of the arguments, and one
  definition for each group of commands; a command answers the new state and whether the agent keeps running. Lines printed
  for people are left out. Whether the library accepts a \<open>dial\<close> is an argument.
\<close>

section \<open>Parsing\<close>

definition command_tail :: "string \<Rightarrow> string \<Rightarrow> string option" where
  "command_tail line command = (case strip_prefix command line of
     None \<Rightarrow> None
   | Some rest \<Rightarrow> (let tail = trim (trim_matches (CHR 0x22) (trim rest)) in if tail = [] then None else Some tail))"

definition parse_peer :: "agent_env \<Rightarrow> string list \<Rightarrow> string + peer_id" where
  "parse_peer e parts = (case parts of
     [] \<Rightarrow> Inl ''missing peer ID''
   | v # _ \<Rightarrow> (case ae_peer e v of Inl why \<Rightarrow> Inl (''invalid peer ID: '' @ v @ '': '' @ why) | Inr p \<Rightarrow> Inr p))"

definition cid_of_text :: "agent_env \<Rightarrow> string \<Rightarrow> storage_error + content_id" where
  "cid_of_text e t = content_from_str (env (store (ae_exchange e))) t"

text \<open>The identifier of an artifact among the arguments, with the context of its errors.\<close>

definition parse_content :: "agent_env \<Rightarrow> string \<Rightarrow> string list \<Rightarrow> string + content_id" where
  "parse_content e command parts = (case parts of
     [] \<Rightarrow> Inl (command @ '' requires a content ID'')
   | t # _ \<Rightarrow> (case cid_of_text e t of
        Inl err \<Rightarrow> Inl (''invalid content ID: '' @ storage_message (ae_exchange e) err)
      | Inr i \<Rightarrow> Inr i))"

definition parse_fetch :: "agent_env \<Rightarrow> string list \<Rightarrow> string + peer_id \<times> content_id" where
  "parse_fetch e parts = (case parse_peer e parts of
     Inl why \<Rightarrow> Inl why
   | Inr p \<Rightarrow> (case parse_content e ''artifact-fetch'' (tl parts) of Inl why \<Rightarrow> Inl why | Inr i \<Rightarrow> Inr (p, i)))"

fun parse_providers :: "agent_env \<Rightarrow> string list \<Rightarrow> peer_id list \<Rightarrow> string + peer_id list" where
  "parse_providers e [] ps = Inr ps"
| "parse_providers e (v # vs) ps = (case ae_peer e v of
     Inl why \<Rightarrow> Inl (''invalid provider Peer ID: '' @ v @ '': '' @ why)
   | Inr p \<Rightarrow> parse_providers e vs (if p \<in> set ps then ps else ps @ [p]))"

definition parse_fetch_many :: "agent_env \<Rightarrow> string list \<Rightarrow> string + content_id \<times> peer_id list" where
  "parse_fetch_many e parts = (case parse_content e ''artifact-fetch-many'' parts of
     Inl why \<Rightarrow> Inl why
   | Inr i \<Rightarrow>
       if length (tl parts) > MAX_ARTIFACT_PROVIDERS
       then Inl (''artifact-fetch-many accepts at most '' @ show_nat MAX_ARTIFACT_PROVIDERS @ '' providers'')
       else (case parse_providers e (tl parts) [] of
         Inl why \<Rightarrow> Inl why
       | Inr ps \<Rightarrow> if ps = [] then Inl ''artifact-fetch-many requires at least one provider Peer ID'' else Inr (i, ps)))"

section \<open>Artifact commands\<close>

definition list_command :: "exchange_env \<Rightarrow> exchange \<Rightarrow> exchange" where
  "list_command e x = (case on_disk (list_artifacts (store e)) x of
     (Inr ms, x') \<Rightarrow> emit_artifact_status e (fold (\<lambda>m. say ''ARTIFACT_LIST''
        [cid_text e (artifact_id m), show_word (artifact_size m), show_nat (length (blocks m))]) ms x')
   | (Inl err, x') \<Rightarrow> say ''ARTIFACT_FAILED'' [''list'', storage_message e err] x')"

definition spawn_store_job :: "store_job \<Rightarrow> agent \<Rightarrow> agent" where
  "spawn_store_job j a = a\<lparr>store_jobs := store_jobs a @ [j]\<rparr>"

definition import_command :: "string \<Rightarrow> string \<Rightarrow> agent \<Rightarrow> agent" where
  "import_command line command a = (case command_tail line command of
     None \<Rightarrow> announce ''ARTIFACT_FAILED'' [''import'', ''artifact-import requires a file path''] a
   | Some src \<Rightarrow>
       if is_file (UserPath src) (disk (ag_exchange a))
       then spawn_store_job (JImport (UserPath src)) (announce ''ARTIFACT_STARTED'' [''import'', src] a)
       else announce ''ARTIFACT_FAILED'' [''import'', ''file does not exist: '' @ src] a)"

definition verify_command :: "agent_env \<Rightarrow> string list \<Rightarrow> agent \<Rightarrow> agent" where
  "verify_command e parts a = (case parts of
     [] \<Rightarrow> announce ''ARTIFACT_FAILED'' [''verify'', ''artifact-verify requires a content ID''] a
   | t # _ \<Rightarrow> (case cid_of_text e t of
        Inr i \<Rightarrow> spawn_store_job (JVerify i) (announce ''ARTIFACT_STARTED'' [''verify'', cid_text (ae_exchange e) i] a)
      | Inl err \<Rightarrow> announce ''ARTIFACT_FAILED'' [''verify'', storage_message (ae_exchange e) err] a))"

definition export_command :: "agent_env \<Rightarrow> string \<Rightarrow> string \<Rightarrow> agent \<Rightarrow> agent" where
  "export_command e line command a = (case Option.bind (command_tail line command) (split_once (CHR '' '')) of
     None \<Rightarrow> announce ''ARTIFACT_FAILED'' [''export'', ''artifact-export requires an ID and destination path''] a
   | Some (t, destination) \<Rightarrow> (case cid_of_text e t of
        Inl err \<Rightarrow> announce ''ARTIFACT_FAILED'' [''export'', storage_message (ae_exchange e) err] a
      | Inr i \<Rightarrow>
          let dest = trim_matches (CHR 0x22) (trim destination)
          in spawn_store_job (JExport i (UserPath dest)) (announce ''ARTIFACT_STARTED'' [''export'', dest] a)))"

definition is_trusted :: "peer_id \<Rightarrow> agent \<Rightarrow> bool" where
  "is_trusted p a = (p \<in> trusted (manager (ag_updates a)))"

definition peer_list_command :: "agent_env \<Rightarrow> string list \<Rightarrow> agent \<Rightarrow> agent" where
  "peer_list_command e parts a = (case parse_peer e parts of
     Inl why \<Rightarrow> announce ''ARTIFACT_PEER_FAILED'' [''unknown'', ''invalid peer: '' @ why] a
   | Inr p \<Rightarrow>
       if is_trusted p a
       then announce ''ARTIFACT_PEER_STARTED'' [peer_string e p, ''inventory'']
              (on_exchange (ask p AInventory (OInventory p)) a)
       else announce ''ARTIFACT_PEER_FAILED'' [peer_string e p, ''trust this Peer ID before reading its artifact inventory''] a)"

definition fetch_command :: "agent_env \<Rightarrow> string list \<Rightarrow> agent \<Rightarrow> agent" where
  "fetch_command e parts a = (case parse_fetch e parts of
     Inl why \<Rightarrow> announce ''ARTIFACT_PEER_FAILED'' [''unknown'', ''invalid fetch command: '' @ why] a
   | Inr (p, i) \<Rightarrow>
       if \<not> is_trusted p a
       then announce ''ARTIFACT_PEER_FAILED'' [peer_string e p, ''trust this Peer ID before downloading artifacts''] a
       else if bt_get (downloads (ag_exchange a)) i \<noteq> None
       then announce ''ARTIFACT_PEER_FAILED'' [peer_string e p, ''this artifact download is already active''] a
       else announce ''ARTIFACT_PEER_STARTED'' [peer_string e p, cid_text (ae_exchange e) i]
              (on_exchange (begin_artifact_download (ae_exchange e) i [p]) a))"

definition fetch_many_command :: "agent_env \<Rightarrow> string list \<Rightarrow> agent \<Rightarrow> agent" where
  "fetch_many_command e parts a = (case parse_fetch_many e parts of
     Inl why \<Rightarrow> announce ''ARTIFACT_PEER_FAILED'' [''swarm'', ''invalid multi-provider fetch: '' @ why] a
   | Inr (i, ps) \<Rightarrow>
       if bt_get (downloads (ag_exchange a)) i \<noteq> None
       then announce ''ARTIFACT_PEER_FAILED'' [''swarm'', ''this artifact download is already active''] a
       else (case find (\<lambda>p. \<not> is_trusted p a) ps of
         Some p \<Rightarrow> announce ''ARTIFACT_PEER_FAILED'' [peer_string e p, ''every artifact provider must be explicitly trusted''] a
       | None \<Rightarrow> announce ''ARTIFACT_MULTI_REQUESTED'' [cid_text (ae_exchange e) i, show_nat (length ps)]
              (on_exchange (begin_artifact_download (ae_exchange e) i ps) a)))"

definition artifact_command :: "agent_env \<Rightarrow> string \<Rightarrow> string \<Rightarrow> string list \<Rightarrow> agent \<Rightarrow> agent option" where
  "artifact_command e line command parts a =
     (if command = ''artifact-status'' then Some (on_exchange (emit_artifact_status (ae_exchange e)) a)
      else if command = ''artifact-list'' then Some (on_exchange (list_command (ae_exchange e)) a)
      else if command = ''artifact-import'' then Some (import_command line command a)
      else if command = ''artifact-verify'' then Some (verify_command e parts a)
      else if command = ''artifact-export'' then Some (export_command e line command a)
      else if command = ''artifact-peer-list'' then Some (peer_list_command e parts a)
      else if command = ''artifact-fetch'' then Some (fetch_command e parts a)
      else if command = ''artifact-fetch-many'' then Some (fetch_many_command e parts a)
      else None)"

section \<open>Trust and update commands\<close>

definition set_trusted :: "peer_id set \<Rightarrow> updates \<Rightarrow> updates" where
  "set_trusted ps u = u\<lparr>manager := (manager u)\<lparr>trusted := ps\<rparr>\<rparr>"

definition trust_peer :: "update_env \<Rightarrow> peer_id \<Rightarrow> updates \<Rightarrow> updates" where
  "trust_peer e p u0 = (let u = set_trusted (insert p (trusted (manager u0))) u0
     in case run_files (persist_trust e (manager u)) u of
          (Inr _, u') \<Rightarrow> tell ''UPDATE_TRUSTED'' [peer_name e p] u'
        | (Inl _, u') \<Rightarrow> u')"

definition untrust_peer :: "update_env \<Rightarrow> peer_id \<Rightarrow> updates \<Rightarrow> updates" where
  "untrust_peer e p u0 = (let u = set_trusted (trusted (manager u0) - {p}) u0
     in case run_files (persist_trust e (manager u)) u of
          (Inr _, u') \<Rightarrow> tell ''UPDATE_UNTRUSTED'' [peer_name e p] u'
        | (Inl _, u') \<Rightarrow> u')"

definition list_trusted :: "update_env \<Rightarrow> updates \<Rightarrow> updates" where
  "list_trusted e u = fold (\<lambda>p. tell ''UPDATE_TRUSTED'' [peer_name e p]) (sorted_list_of_set (trusted (manager u))) u"

text \<open>A command for a peer: without one, only a message is printed.\<close>

definition for_peer :: "agent_env \<Rightarrow> string list \<Rightarrow> (peer_id \<Rightarrow> agent \<Rightarrow> agent) \<Rightarrow> agent \<Rightarrow> agent" where
  "for_peer e parts f a = (case parse_peer e parts of Inl _ \<Rightarrow> a | Inr p \<Rightarrow> f p a)"

definition update_command :: "agent_env \<Rightarrow> string \<Rightarrow> string list \<Rightarrow> agent \<Rightarrow> agent option" where
  "update_command e command parts a =
     (if command = ''trusted'' then Some (on_updates (list_trusted (ae_update e)) a)
      else if command = ''trust'' then Some (for_peer e parts (\<lambda>p. on_updates (trust_peer (ae_update e) p)) a)
      else if command = ''untrust'' then Some (for_peer e parts (\<lambda>p. on_updates (untrust_peer (ae_update e) p)) a)
      else if command = ''update'' then Some (for_peer e parts (\<lambda>p. on_updates (begin_update_request (ae_update e) p True)) a)
      else if command = ''download-update'' then Some (for_peer e parts (\<lambda>p. on_updates (begin_update_request (ae_update e) p False)) a)
      else if command = ''download-debugger-update'' then Some (for_peer e parts (\<lambda>p. on_updates (begin_debugger_update_request (ae_update e) p)) a)
      else if command = ''download-android-update'' then Some (for_peer e parts (\<lambda>p. on_updates (begin_android_update_request (ae_update e) p)) a)
      else None)"

text \<open>\<open>apply-update\<close> ends the agent when the updater was started.\<close>

definition apply_update_command :: "agent_env \<Rightarrow> string list \<Rightarrow> agent \<Rightarrow> bool \<times> agent" where
  "apply_update_command e parts a = (case (parse_peer e parts, tl parts) of
     (Inr p, path # _) \<Rightarrow>
       if is_file path (up_disk (ag_updates a))
       then (let (applied, u) = schedule_self_update (ae_update e) path (ae_restart e) p (ag_updates a)
             in (\<not> applied, on_updates (\<lambda>_. u) a))
       else (True, a)
   | _ \<Rightarrow> (True, a))"

section \<open>Connections, resources and injected faults\<close>

definition dial_command :: "agent_env \<Rightarrow> bool \<Rightarrow> string \<Rightarrow> string list \<Rightarrow> agent \<Rightarrow> agent option" where
  "dial_command e accepted command parts a =
     (if command = ''connect'' then Some (for_peer e parts (\<lambda>p a.
        if accepted then announce ''PEER_CONNECTING'' [peer_string e p] (a\<lparr>dials := dials a @ [Inl p]\<rparr>) else a) a)
      else if command = ''dial'' then Some (case parts of
         [] \<Rightarrow> a
       | v # _ \<Rightarrow> (case ae_address e v of None \<Rightarrow> a | Some addr \<Rightarrow> if accepted then a\<lparr>dials := dials a @ [Inr addr]\<rparr> else a))
      else None)"

definition contribution_command :: "agent_env \<Rightarrow> bool \<Rightarrow> readings \<Rightarrow> agent \<Rightarrow> agent" where
  "contribution_command e paused r a =
     announce_resources e (announce ''CONTRIBUTION_STATE'' [if paused then ''paused'' else ''enabled'']
       (pause_resources paused r a))"

definition set_faults :: "debug_faults \<Rightarrow> agent \<Rightarrow> agent" where
  "set_faults f a = a\<lparr>ag_inbound := (ag_inbound a)\<lparr>in_faults := f\<rparr>\<rparr>"

definition resource_command :: "agent_env \<Rightarrow> readings \<Rightarrow> string \<Rightarrow> string list \<Rightarrow> agent \<Rightarrow> agent option" where
  "resource_command e r command parts a =
     (if command = ''pause-resources'' then Some (contribution_command e True r a)
      else if command = ''resume-resources'' then Some (contribution_command e False r a)
      else if command = ''debug-fail-next-matrix-chunk''
      then Some (announce ''DEBUG_FAULT_ARMED'' [''fail-next-matrix-chunk'', ''1'']
             (set_faults ((in_faults (ag_inbound a))\<lparr>fail_next_matrix_chunk := True\<rparr>) a))
      else if command = ''debug-delay-next-matrix-chunk''
      then Some (case Option.bind (if parts = [] then None else Some (hd parts)) parse_u64 of
             None \<Rightarrow> a
           | Some ms \<Rightarrow> if 1 \<le> ms \<and> ms \<le> 30000
               then announce ''DEBUG_FAULT_ARMED'' [''delay-next-matrix-chunk'', show_word ms]
                      (set_faults ((in_faults (ag_inbound a))\<lparr>delay_next_matrix_chunk_ms := ms\<rparr>) a)
               else a)
      else if command = ''local-resources'' then Some (announce_resources e a)
      else None)"

section \<open>Task commands\<close>

text \<open>The peer and the task of a command that names both.\<close>

definition parse_task :: "agent_env \<Rightarrow> string \<Rightarrow> string list \<Rightarrow> (peer_id \<times> task) option" where
  "parse_task e command parts = (case parse_peer e parts of
     Inl _ \<Rightarrow> None
   | Inr p \<Rightarrow>
       let rest = tl parts in
       map_option (\<lambda>t. (p, t))
        (if command = ''info'' \<or> command = ''resources'' then Some TNodeInfo
         else if command = ''echo'' then (let m = join_with '' '' rest in if m = [] then None else Some (TEcho m))
         else if command = ''sum'' then (let vs = map (ae_float e) rest in
           if None \<in> set vs \<or> vs = [] then None else Some (TSum (map the vs)))
         else if command = ''sha256'' then Some (TSha256 (join_with '' '' rest))
         else if command = ''benchmark'' then map_option TCpuBenchmark (Option.bind (if rest = [] then None else Some (hd rest)) parse_u64)
         else if command = ''matrix'' then map_option TMatrixMultiply (Option.bind (if rest = [] then None else Some (hd rest)) parse_u16)
         else None))"

definition submit_parsed :: "agent_env \<Rightarrow> (peer_id \<times> task) option \<Rightarrow> agent \<Rightarrow> agent" where
  "submit_parsed e parsed a = (case parsed of
     None \<Rightarrow> a
   | Some (p, t) \<Rightarrow> if validate t \<noteq> None then a else on_node (submit_task (ae_node e) p t) a)"

definition parse_distributed :: "string list \<Rightarrow> (u16 \<times> u16) option" where
  "parse_distributed parts = (case parts of
     [] \<Rightarrow> None
   | s # rest \<Rightarrow> Option.bind (parse_u16 s) (\<lambda>n. case rest of
       [] \<Rightarrow> Some (n, 96)
     | r # _ \<Rightarrow> map_option (Pair n) (parse_u16 r)))"

definition task_command :: "agent_env \<Rightarrow> string \<Rightarrow> string list \<Rightarrow> agent \<Rightarrow> agent option" where
  "task_command e command parts a =
     (if command \<in> {''info'', ''resources'', ''echo'', ''sum'', ''sha256'', ''benchmark'', ''matrix''}
      then Some (submit_parsed e (parse_task e command parts) a)
      else if command = ''auto-benchmark''
      then Some (case Option.bind (if parts = [] then None else Some (hd parts)) parse_u64 of
             None \<Rightarrow> a | Some n \<Rightarrow> on_node (place_cpu_task (ae_node e) (TCpuBenchmark n) 2) a)
      else if command = ''auto-matrix''
      then Some (case Option.bind (if parts = [] then None else Some (hd parts)) parse_u16 of
             None \<Rightarrow> a | Some n \<Rightarrow> on_node (place_cpu_task (ae_node e) (TMatrixMultiply n) NODE_PROTOCOL_VERSION) a)
      else if command = ''distributed-matrix''
      then Some (case parse_distributed parts of
             None \<Rightarrow> a | Some (n, rows) \<Rightarrow> on_node (start_distributed_matrix (ae_node e) n rows) a)
      else None)"

section \<open>The command handler\<close>

definition handle_command :: "agent_env \<Rightarrow> readings \<Rightarrow> bool \<Rightarrow> string \<Rightarrow> agent \<Rightarrow> bool \<times> agent" where
  "handle_command e r accepted text a =
     (let line = trim text in
      case split_whitespace line of
        [] \<Rightarrow> (True, a)
      | command # parts \<Rightarrow>
          if command = ''quit'' \<or> command = ''exit'' then (False, a)
          else if command = ''apply-update'' then apply_update_command e parts a
          else (True,
            case artifact_command e line command parts a of Some a' \<Rightarrow> a'
          | None \<Rightarrow> case update_command e command parts a of Some a' \<Rightarrow> a'
          | None \<Rightarrow> case dial_command e accepted command parts a of Some a' \<Rightarrow> a'
          | None \<Rightarrow> case resource_command e r command parts a of Some a' \<Rightarrow> a'
          | None \<Rightarrow> case task_command e command parts a of Some a' \<Rightarrow> a'
          | None \<Rightarrow> a))"

end
