(* ===== verification/Run_Loop.thy ===== *)
theory Run_Loop
  imports Commands
begin

text \<open>
  The agent's event loop (\<open>run_agent\<close>): the events of the network (\<open>handle_swarm_event\<close>), commands, completed work, the
  resource tick, and the environment's moves between them: time passes, spawned tasks and store jobs end, a
  mobile host reports its state. An event carries what the network library says with it.
\<close>

section \<open>Network events\<close>

datatype swarm_event =
    NewListenAddr string
  | ConnectionEstablished peer_id
  | ConnectionClosed peer_id nat walk
  | OutgoingConnectionError peer_id string
  | Discovered "(peer_id \<times> string \<times> bool \<times> bool) list"
  | Expired "(peer_id \<times> string) list"
  | TaskRequested peer_id nat task_request
  | TaskAnswered nat peer_id task_response
  | TaskFailed nat peer_id string
  | UpdateRequested peer_id update_request
  | UpdateAnswered peer_id update_response
  | UpdateFailed peer_id string
  | ArtifactRequested peer_id artifact_request
  | ArtifactAnswered nat artifact_response walk
  | ArtifactFailed nat peer_id string walk
  | Identified peer_id string
  | OtherNetworkEvent

text \<open>\<open>BTreeSet\<close> of peers as a sorted list.\<close>

definition peers_insert :: "peer_id \<Rightarrow> peer_id list \<Rightarrow> peer_id list" where
  "peers_insert p ps = (if p \<in> set ps then ps else insort p ps)"

definition know_peer :: "peer_id \<Rightarrow> string set \<Rightarrow> agent \<Rightarrow> agent" where
  "know_peer p addrs a = a\<lparr>known_peers := bt_insert p
     ((case bt_get (known_peers a) p of None \<Rightarrow> {} | Some old \<Rightarrow> old) \<union> addrs) (known_peers a)\<rparr>"

text \<open>One peer found by mDNS: whether it is already connected and whether the library starts the dial are its arguments.\<close>

definition discover_peer :: "agent_env \<Rightarrow> peer_id \<times> string \<times> bool \<times> bool \<Rightarrow> agent \<Rightarrow> agent" where
  "discover_peer e d a = (case d of (p, addr, is_connected, accepted) \<Rightarrow>
     let a1 = announce ''PEER_DISCOVERED'' [peer_string e p, addr] (know_peer p {addr} a)
     in if \<not> is_connected \<and> accepted
        then announce ''PEER_CONNECTING'' [peer_string e p] (a1\<lparr>dials := dials a1 @ [Inl p]\<rparr>) else a1)"

definition expire_address :: "peer_id \<times> string \<Rightarrow> agent \<Rightarrow> agent" where
  "expire_address d a = (case bt_get (known_peers a) (fst d) of
     None \<Rightarrow> a
   | Some addrs \<Rightarrow> a\<lparr>known_peers := bt_insert (fst d) (addrs - {snd d}) (known_peers a)\<rparr>)"

text \<open>The protocol a version speaks; comparing semantic versions is left to their library.\<close>

record version_env =
  at_least :: "string \<Rightarrow> string \<Rightarrow> bool"

definition protocol_hint_for_version :: "version_env \<Rightarrow> string \<Rightarrow> u16" where
  "protocol_hint_for_version v ver =
     (if at_least v ver ''0.10.0'' then NODE_PROTOCOL_VERSION else if at_least v ver ''0.7.0'' then 3 else 2)"

definition identified_version :: "string \<Rightarrow> string" where
  "identified_version agent = (case strip_prefix ''swagri/'' agent of
     None \<Rightarrow> agent
   | Some rest \<Rightarrow> (case split_whitespace rest of [] \<Rightarrow> agent | v # _ \<Rightarrow> v))"

definition peer_identified :: "agent_env \<Rightarrow> version_env \<Rightarrow> peer_id \<Rightarrow> string \<Rightarrow> agent \<Rightarrow> agent" where
  "peer_identified e v p agent_text a =
     (let ver = identified_version agent_text;
          a1 = announce ''PEER_VERSION'' [peer_string e p, ver, show_word (protocol_hint_for_version v ver)] a;
          m = manager (ag_updates a1)
      in if policy m = Automatic \<and> p \<in> trusted m \<and> download m = None \<and> is_newer_version (ae_update e) ver
         then on_updates (begin_update_request (ae_update e) p True) a1 else a1)"

definition answer_update :: "agent_env \<Rightarrow> peer_id \<Rightarrow> update_request \<Rightarrow> agent \<Rightarrow> agent" where
  "answer_update e p r a =
     (let (response, s) = serve_update_request (ae_update e) r (manager (ag_updates a)) (up_disk (ag_updates a))
      in a\<lparr>ag_updates := (ag_updates a)\<lparr>up_disk := s\<rparr>, update_replies := update_replies a @ [(p, response)]\<rparr>)"

definition answer_artifact :: "agent_env \<Rightarrow> peer_id \<Rightarrow> artifact_request \<Rightarrow> agent \<Rightarrow> agent" where
  "answer_artifact e p r a =
     (let (response, x) = answer_artifact_request (ae_exchange e) (trusted (manager (ag_updates a))) p r (ag_exchange a)
      in (on_exchange (\<lambda>_. x) a)\<lparr>artifact_replies := artifact_replies a @ [(p, response)]\<rparr>)"

definition handle_swarm_event :: "agent_env \<Rightarrow> version_env \<Rightarrow> swarm_event \<Rightarrow> agent \<Rightarrow> bool \<times> agent" where
  "handle_swarm_event e v ev a = (case ev of
     NewListenAddr addr \<Rightarrow> (False, announce ''LISTENING'' [addr] a)
   | ConnectionEstablished p \<Rightarrow> (False, announce ''PEER_CONNECTED'' [peer_string e p]
       ((know_peer p {} a)\<lparr>connected_peers := peers_insert p (connected_peers a)\<rparr>))
   | ConnectionClosed p num_established w \<Rightarrow> (False,
       on_exchange (fail_artifact_provider (ae_exchange e) w p ''peer disconnected'')
         (announce ''PEER_DISCONNECTED'' [peer_string e p]
           (if num_established = 0 then a\<lparr>connected_peers := filter (\<lambda>q. q \<noteq> p) (connected_peers a)\<rparr> else a)))
   | OutgoingConnectionError p err \<Rightarrow> (False, announce ''PEER_FAILED'' [peer_string e p, err] a)
   | Discovered ps \<Rightarrow> (False, fold (discover_peer e) ps a)
   | Expired ps \<Rightarrow> (False, fold expire_address ps a)
   | TaskRequested p ch r \<Rightarrow> (False, on_inbound (receive_task (ae_inbound e) (monitored (ag_monitor a)) p ch r) a)
   | TaskAnswered rid p r \<Rightarrow> (False, on_node (handle_response (ae_node e) rid p r) a)
   | TaskFailed rid p err \<Rightarrow> (False, on_node (handle_outbound_failure (ae_node e) rid p err) a)
   | UpdateRequested p r \<Rightarrow> (False, answer_update e p r a)
   | UpdateAnswered p r \<Rightarrow>
       let (shutdown, u) = update_answered (ae_update e) (ae_restart e) p r (ag_updates a) in (shutdown, on_updates (\<lambda>_. u) a)
   | UpdateFailed p err \<Rightarrow> (False, on_updates (update_outbound_failed (ae_update e) p err) a)
   | ArtifactRequested p r \<Rightarrow> (False, answer_artifact e p r a)
   | ArtifactAnswered rid r w \<Rightarrow> (False, on_exchange (artifact_answered (ae_exchange e) w rid r) a)
   | ArtifactFailed rid p err w \<Rightarrow> (False, on_exchange (artifact_failed (ae_exchange e) w rid p err) a)
   | Identified p agent_text \<Rightarrow> (False, peer_identified e v p agent_text a)
   | OtherNetworkEvent \<Rightarrow> (False, a))"

section \<open>Background work\<close>

text \<open>A store job runs on the blocking pool; the two passes over an imported file may read different bytes.\<close>

definition run_store_job :: "exchange_env \<Rightarrow> source \<Rightarrow> source \<Rightarrow> store_job \<Rightarrow> exchange \<Rightarrow> artifact_completion \<times> exchange" where
  "run_store_job e first_pass second_pass j x =
     (let text = (\<lambda>r. case r of Inl err \<Rightarrow> Inl (storage_message e err) | Inr y \<Rightarrow> Inr y)
      in case j of
           JImport path \<Rightarrow> (let (r, x') = on_disk (import_artifact (store e) path first_pass second_pass) x in (Imported path (text r), x'))
         | JVerify i \<Rightarrow> (let (r, x') = on_disk (verify (store e) i) x in (Verified i (text r), x'))
         | JExport i path \<Rightarrow> (let (r, x') = on_disk (export_artifact (store e) i path) x in
             (Exported i path (case r of Inl err \<Rightarrow> Inl (storage_message e err) | Inr u \<Rightarrow> Inr u), x')))"

definition finish_store_job :: "agent_env \<Rightarrow> nat \<Rightarrow> source \<Rightarrow> source \<Rightarrow> agent \<Rightarrow> agent" where
  "finish_store_job e k first_pass second_pass a =
     (let (c, x) = run_store_job (ae_exchange e) first_pass second_pass (store_jobs a ! k) (ag_exchange a)
      in (on_exchange (\<lambda>_. x) a)\<lparr>store_jobs := take k (store_jobs a) @ drop (Suc k) (store_jobs a),
            store_results := store_results a @ [c]\<rparr>)"

definition report_store_result :: "agent_env \<Rightarrow> agent \<Rightarrow> agent" where
  "report_store_result e a = (case store_results a of
     [] \<Rightarrow> a
   | c # rest \<Rightarrow> on_exchange (report_artifact_completion (ae_exchange e) c) (a\<lparr>store_results := rest\<rparr>))"

section \<open>The loop\<close>

datatype agent_event =
    CommandLine string readings bool
  | Network swarm_event
  | ResponseCompleted bool
  | LocalCompleted
  | StoreCompleted
  | ResourceTick readings
  | TaskEnds nat nat
  | InboundEnds nat nat u64
  | StoreJobEnds nat source source
  | TimePasses nat
  | PhoneReports "u8 option" "bool option" "u8 option" "bool option"

definition poll_peers :: "agent_env \<Rightarrow> agent \<Rightarrow> agent" where
  "poll_peers e a = fold (\<lambda>p. on_node (submit_task (ae_node e) p TNodeInfo)) (connected_peers a) a"

definition resource_tick :: "agent_env \<Rightarrow> readings \<Rightarrow> agent \<Rightarrow> agent" where
  "resource_tick e r a = poll_peers e (dispatch_jobs e (announce_resources e (refresh_resources r a)))"

text \<open>
  One step: whether the agent keeps running, and its state. A mobile host's report stores its atomics; the
  command it sends comes as a \<open>CommandLine\<close> of its own.
\<close>

definition agent_step :: "agent_env \<Rightarrow> version_env \<Rightarrow> agent_event \<Rightarrow> agent \<Rightarrow> bool \<times> agent" where
  "agent_step e v ev a = (case ev of
     CommandLine line r accepted \<Rightarrow>
       let (running, a') = handle_command e r accepted line a in if running then (True, dispatch_jobs e a') else (False, a')
   | Network nev \<Rightarrow>
       let (shutdown, a') = handle_swarm_event e v nev a in if shutdown then (False, a') else (True, dispatch_jobs e a')
   | ResponseCompleted alive \<Rightarrow> (True, on_inbound (send_completed (ae_inbound e) alive) a)
   | LocalCompleted \<Rightarrow> (True, on_node (deliver_local (ae_node e)) a)
   | StoreCompleted \<Rightarrow> (True, report_store_result e a)
   | ResourceTick r \<Rightarrow> (True, resource_tick e r a)
   | TaskEnds k ms \<Rightarrow> (True, if k < length (spawned (ag_node a)) then on_node (run_spawned (ae_node e) k ms) a else a)
   | InboundEnds k ms whole \<Rightarrow> (True, if k < length (work_list (ag_inbound a)) then on_inbound (finish_work (ae_inbound e) k ms whole) a else a)
   | StoreJobEnds k s1 s2 \<Rightarrow> (True, if k < length (store_jobs a) then finish_store_job e k s1 s2 a else a)
   | TimePasses t \<Rightarrow> (True, a\<lparr>ag_node := (ag_node a)\<lparr>clock := clock (ag_node a) + t\<rparr>\<rparr>)
   | PhoneReports battery charge thermal network \<Rightarrow>
       (True, a\<lparr>ag_phone := fst (update_mobile_environment battery charge thermal network)\<rparr>))"

end
