(* ===== verification/Matrix_Plan.thy ===== *)
theory Matrix_Plan
  imports Matrix
begin

text \<open>The plan of a distributed job: its chunks cover the rows once, in 16-bit arithmetic.\<close>

type_synonym rows = "u16 \<times> u16"

definition plan_rows :: "matrix_chunk_plan \<Rightarrow> rows" where
  "plan_rows c = (row_start c, row_end c)"

definition params_ok :: "u16 \<Rightarrow> u16 \<Rightarrow> bool" where
  "params_ok n rows = (MIN_MATRIX_SIZE \<le> n \<and> n \<le> MAX_DISTRIBUTED_MATRIX_SIZE \<and> 1 \<le> rows \<and> rows \<le> MAX_MATRIX_CHUNK_ROWS)"

lemma params_nat:
  assumes "params_ok n rows"
  shows "2 \<le> unat n" "unat n \<le> 768" "1 \<le> unat rows" "unat rows \<le> 768"
  using assms
  by (auto simp: params_ok_def word_le_nat_alt MIN_MATRIX_SIZE_def MAX_DISTRIBUTED_MATRIX_SIZE_def MAX_MATRIX_CHUNK_ROWS_def)

lemma unat_div_ceil: "unat (div_ceil a b) = (if unat a mod unat b = 0 then unat a div unat b else unat a div unat b + 1)"
  if "unat b \<noteq> 0" "unat a < 2 ^ LENGTH('a) - 1" for a b :: "'a::len word"
proof -
  have "unat (a div b) \<le> unat a" by (simp add: unat_div_distrib)
  then have "unat (a div b) + 1 < 2 ^ LENGTH('a)" using that(2) by linarith
  then have "unat (a div b + 1) = unat a div unat b + 1"
    by (subst unat_inc_small) (simp_all add: unat_div_distrib)
  moreover have "a mod b = 0 \<longleftrightarrow> unat a mod unat b = 0"
    by (metis unat_eq_zero unat_mod_distrib)
  ultimately show ?thesis by (simp add: div_ceil_def unat_div_distrib)
qed

lemma chunk_count:
  assumes "params_ok n rows"
  shows "unat (div_ceil n rows) \<le> unat n"
    and "\<And>i. i < unat (div_ceil n rows) \<Longrightarrow> i * unat rows < unat n"
    and "unat n \<le> unat (div_ceil n rows) * unat rows" and "0 < unat (div_ceil n rows)"
proof -
  note p = params_nat [OF assms]
  define q where "q = unat n div unat rows"
  have eq: "unat n = q * unat rows + unat n mod unat rows" by (simp add: q_def)
  have c: "unat (div_ceil n rows) = (if unat n mod unat rows = 0 then q else q + 1)"
    unfolding q_def using p by (intro unat_div_ceil) simp_all
  have m: "unat n mod unat rows < unat rows" using p by simp
  show ge: "unat n \<le> unat (div_ceil n rows) * unat rows"
  proof (cases "unat n mod unat rows = 0")
    case False
    then have "unat (div_ceil n rows) * unat rows = q * unat rows + unat rows" using c by (simp add: algebra_simps)
    with eq m show ?thesis by linarith
  qed (use c eq in simp)
  show i: "i * unat rows < unat n" if "i < unat (div_ceil n rows)" for i
  proof (cases "unat n mod unat rows = 0")
    case True
    then have "Suc i \<le> q" using that c by simp
    then have "Suc i * unat rows \<le> q * unat rows" by (rule mult_le_mono1)
    then have "i * unat rows + unat rows \<le> q * unat rows" by simp
    with eq True p show ?thesis by linarith
  next
    case False
    then have "i \<le> q" using that c by simp
    then have "i * unat rows \<le> q * unat rows" by (rule mult_le_mono1)
    with eq False show ?thesis by linarith
  qed
  show "0 < unat (div_ceil n rows)" using ge p by (cases "unat (div_ceil n rows)") simp_all
  show "unat (div_ceil n rows) \<le> unat n"
  proof (cases "unat (div_ceil n rows)")
    case (Suc k)
    from i [of k] Suc have "k * unat rows < unat n" by simp
    moreover have "k \<le> k * unat rows" using p by simp
    ultimately show ?thesis using Suc by linarith
  qed simp
qed

lemma plan_chunk_nat:
  assumes "params_ok n rows" "i < unat (div_ceil n rows)"
  shows "unat (row_start (plan_chunk n rows (of_nat i))) = i * unat rows"
    and "unat (row_end (plan_chunk n rows (of_nat i))) = min (i * unat rows + unat rows) (unat n)"
proof -
  note p = params_nat [OF assms(1)]
  have lt: "i * unat rows < unat n" by (rule chunk_count(2) [OF assms])
  have i: "i < 2 ^ 16" using assms(2) chunk_count(1) [OF assms(1)] p by simp
  then have ui: "unat (of_nat i :: u16) = i" by (simp add: unat_of_nat_small)
  show s: "unat (row_start (plan_chunk n rows (of_nat i))) = i * unat rows"
    using lt p by (simp add: plan_chunk_def Let_def unat_mult_small ui)
  have "unat (of_nat i * rows + rows) = i * unat rows + unat rows"
    using lt p s by (subst unat_add_small) (simp_all add: plan_chunk_def Let_def)
  then show "unat (row_end (plan_chunk n rows (of_nat i))) = min (i * unat rows + unat rows) (unat n)"
    by (auto simp: plan_chunk_def Let_def min_def word_le_nat_alt)
qed

lemma upt_join: "i \<le> j \<Longrightarrow> j \<le> k \<Longrightarrow> [i..<j] @ [j..<k] = [i..<k]" for i j k :: nat
  by (metis le_Suc_ex upt_add_eq_append)

lemma plan_covers:
  assumes "params_ok n rows"
  shows "concat (map (\<lambda>(a, b). [unat a..<unat b]) (map plan_rows (matrix_plan n rows))) = [0..<unat n]"
proof -
  let ?r = "unat rows"
  have "concat (map (\<lambda>i. [i * ?r..<min (i * ?r + ?r) (unat n)]) [0..<k]) = [0..<min (k * ?r) (unat n)]" for k
  proof (induction k)
    case (Suc k)
    show ?case
    proof (cases "k * ?r \<le> unat n")
      case True
      then have "min (k * ?r) (unat n) = k * ?r" by simp
      moreover have "k * ?r \<le> min (k * ?r + ?r) (unat n)" using True by simp
      ultimately show ?thesis using Suc upt_join [of 0 "k * ?r" "min (k * ?r + ?r) (unat n)"]
        by (simp add: add.commute)
    next
      case False
      with Suc show ?thesis by (simp add: min_def)
    qed
  qed simp
  moreover have "map (\<lambda>(a, b). [unat a..<unat b]) (map plan_rows (matrix_plan n rows)) =
      map (\<lambda>i. [i * ?r..<min (i * ?r + ?r) (unat n)]) [0..<unat (div_ceil n rows)]"
    by (simp add: matrix_plan_def plan_rows_def plan_chunk_nat [OF assms])
  ultimately show ?thesis using chunk_count(3) [OF assms] by (simp add: min_absorb2)
qed

lemma length_matrix_plan: "length (matrix_plan n rows) = unat (div_ceil n rows)"
  by (simp add: matrix_plan_def)

lemma plan_rows_valid:
  assumes "params_ok n rows" "(a, b) \<in> set (map plan_rows (matrix_plan n rows))"
  shows "validate (TMatrixChunk n a b) = None"
proof -
  from assms(2) obtain i where i: "i < unat (div_ceil n rows)"
    and ab: "a = row_start (plan_chunk n rows (of_nat i))" "b = row_end (plan_chunk n rows (of_nat i))"
    by (auto simp: matrix_plan_def plan_rows_def)
  note p = params_nat [OF assms(1)] and c = plan_chunk_nat [OF assms(1) i] and lt = chunk_count(2) [OF assms(1) i]
  have "unat a < unat b" "unat b \<le> unat n" "unat b - unat a \<le> unat rows" using c lt p ab by auto
  moreover have "unat (b - a) = unat b - unat a" using calculation(1) by (intro unat_sub) (simp add: word_le_nat_alt)
  moreover have "unat rows \<le> unat MAX_MATRIX_CHUNK_ROWS" using assms(1) by (simp add: params_ok_def word_le_nat_alt)
  ultimately show ?thesis using assms(1)
    by (simp add: validate_iff_bounds task_bounds_def params_ok_def word_le_nat_alt word_less_nat_alt)
qed

text \<open>
  C14. A distributed job's plan covers every row of the matrix exactly once, in order: for every size and
  chunk height the command accepts, the 16-bit arithmetic does not overflow, each chunk passes the
  validation a worker applies, and the number of chunks is the announced total.
\<close>

theorem matrix_plan_partitions_rows:
  assumes "MIN_MATRIX_SIZE \<le> n" "n \<le> MAX_DISTRIBUTED_MATRIX_SIZE" "1 \<le> rows" "rows \<le> MAX_MATRIX_CHUNK_ROWS"
  shows "concat (map (\<lambda>c. [unat (row_start c)..<unat (row_end c)]) (matrix_plan n rows)) = [0..<unat n] \<and>
    length (matrix_plan n rows) = unat (div_ceil n rows) \<and>
    (\<forall>c\<in>set (matrix_plan n rows). validate (TMatrixChunk n (row_start c) (row_end c)) = None)"
proof -
  have p: "params_ok n rows" using assms by (simp add: params_ok_def)
  from plan_covers [OF p] plan_rows_valid [OF p] show ?thesis
    by (auto simp: length_matrix_plan plan_rows_def o_def)
qed

theorem matrix_plan_partitions_rows_witness:
  "concat (map (\<lambda>c. [unat (row_start c)..<unat (row_end c)]) (matrix_plan 16 12)) = [0..<16] \<and>
   length (matrix_plan 16 12) = 2"
  using matrix_plan_partitions_rows [of 16 12]
  by (simp add: MIN_MATRIX_SIZE_def MAX_DISTRIBUTED_MATRIX_SIZE_def MAX_MATRIX_CHUNK_ROWS_def div_ceil_def)

end
