(* ===== verification/Matrix_Job.thy ===== *)
theory Matrix_Job
  imports Matrix_Plan "HOL-Library.Multiset"
begin

text \<open>
  The accounting of one job: the rows of the plan are pending, out with exactly one worker, or done, and the
  checksum is that of the done rows. One lemma per thing that can happen to a job.
\<close>

type_synonym work = "(matrix_worker \<times> rows) multiset"

definition job_accounts :: "rows list \<Rightarrow> u16 \<Rightarrow> work \<Rightarrow> matrix_job \<Rightarrow> bool" where
  "job_accounts finished chunk_rows M j =
     (params_ok (job_size j) chunk_rows \<and> total_chunks j = div_ceil (job_size j) chunk_rows \<and>
      image_mset snd M + mset (map plan_rows (pending j)) + mset finished =
        mset (map plan_rows (matrix_plan (job_size j) chunk_rows)) \<and>
      unat (completed_chunks j) = length finished \<and>
      job_checksum j = xor_list (map (\<lambda>(a, b). matrix_chunk (job_size j) a b) finished) \<and>
      unat (in_flight j) = size M)"

definition workers_once :: "work \<Rightarrow> matrix_job \<Rightarrow> bool" where
  "workers_once M j = (\<forall>w. count (mset (available_workers j) + image_mset fst M) w \<le> 1)"

definition job_ok :: "string \<Rightarrow> work \<Rightarrow> matrix_job \<Rightarrow> bool" where
  "job_ok i M j =
     (job_name j = i \<and> (\<exists>finished chunk_rows. job_accounts finished chunk_rows M j) \<and>
      completed_chunks j \<noteq> total_chunks j \<and> workers_once M j \<and>
      (\<forall>c\<in>set (pending j). unat (attempts c) < 3))"

definition work_of :: "matrix_dispatch \<Rightarrow> matrix_worker \<times> rows" where
  "work_of d = (dp_worker d, plan_rows (dp_chunk d))"

definition dispatch_ok :: "string \<Rightarrow> u16 \<Rightarrow> matrix_dispatch \<Rightarrow> bool" where
  "dispatch_ok i n d =
     (dp_job d = i \<and> dp_task d = TMatrixChunk n (row_start (dp_chunk d)) (row_end (dp_chunk d)) \<and>
      validate (dp_task d) = None \<and> 1 \<le> unat (attempts (dp_chunk d)) \<and> unat (attempts (dp_chunk d)) \<le> 3)"

lemma count_at_most_one: "(\<forall>w. count M w \<le> 1) \<Longrightarrow> w \<in># M \<Longrightarrow> count M w = 1"
  by (metis count_greater_zero_iff le_neq_implies_less less_one not_less_zero)

lemma job_ok_once: "job_ok i M j \<Longrightarrow> count (mset (available_workers j)) w + count (image_mset fst M) w \<le> 1"
  by (simp add: job_ok_def workers_once_def)

lemma count_filter_neq: "count (mset (filter (\<lambda>x. x \<noteq> w) xs)) v = (if v = w then 0 else count (mset xs) v)"
  by (induction xs) auto

lemma job_accounts_size:
  assumes "job_accounts fin r M j"
  shows "size M + length (pending j) + length fin = unat (total_chunks j)" and "unat (total_chunks j) \<le> 768"
proof -
  from assms have eq: "image_mset snd M + mset (map plan_rows (pending j)) + mset fin = mset (map plan_rows (matrix_plan (job_size j) r))"
    and t: "total_chunks j = div_ceil (job_size j) r" and p: "params_ok (job_size j) r" by (auto simp: job_accounts_def)
  from arg_cong [OF eq, of size] t show "size M + length (pending j) + length fin = unat (total_chunks j)"
    by (simp add: length_matrix_plan)
  show "unat (total_chunks j) \<le> 768" using chunk_count(1) [OF p] params_nat [OF p] t by simp
qed

lemma job_rows_valid:
  assumes "job_accounts fin r M j" "ab \<in># image_mset snd M + mset (map plan_rows (pending j))"
  shows "validate (TMatrixChunk (job_size j) (fst ab) (snd ab)) = None"
proof -
  from assms have "ab \<in> set (map plan_rows (matrix_plan (job_size j) r))"
    unfolding job_accounts_def by (metis set_mset_mset union_iff)
  with assms(1) plan_rows_valid [of "job_size j" r "fst ab" "snd ab"] show ?thesis by (simp add: job_accounts_def)
qed

section \<open>Dispatch\<close>

lemma dispatch_one:
  assumes ok: "job_ok i M j" and pend: "pending j = c0 # rest" and w: "w \<in> set (available_workers j)"
    and c: "c = c0\<lparr>attempts := attempts c0 + 1\<rparr>"
    and j': "j' = j\<lparr>pending := rest, available_workers := filter (\<lambda>x. x \<noteq> w) (available_workers j), in_flight := in_flight j + 1\<rparr>"
    and d: "d = \<lparr>dp_job = job_name j', dp_task_id = tid, dp_task = TMatrixChunk (job_size j') (row_start c) (row_end c), dp_worker = w, dp_chunk = c\<rparr>"
  shows "job_ok i (add_mset (work_of d) M) j'" and "dispatch_ok i (job_size j) d"
proof -
  from ok obtain fin r where acc: "job_accounts fin r M j" by (auto simp: job_ok_def)
  have att: "unat (attempts c0) < 3" using ok pend by (simp add: job_ok_def)
  have rows: "plan_rows c = plan_rows c0" by (simp add: c plan_rows_def)
  have "unat (in_flight j) + 1 < 2 ^ 16"
    using job_accounts_size [OF acc] acc pend by (simp add: job_accounts_def)
  then have f: "unat (in_flight j + 1) = Suc (size M)"
    using acc unat_inc_small [of "in_flight j"] by (simp add: job_accounts_def)
  have "job_accounts fin r (add_mset (work_of d) M) j'"
    using acc pend rows f by (simp add: job_accounts_def j' d work_of_def)
  moreover have "workers_once (add_mset (work_of d) M) j'"
    unfolding workers_once_def
  proof
    fix v
    have once: "count (mset (available_workers j)) v + count (image_mset fst M) v \<le> 1"
      using ok by (simp add: job_ok_def workers_once_def)
    show "count (mset (available_workers j') + image_mset fst (add_mset (work_of d) M)) v \<le> 1"
    proof (cases "v = w")
      case True
      have "0 < count (mset (available_workers j)) w" using w by simp
      then have "count (image_mset fst M) w = 0" using once unfolding True by linarith
      with True show ?thesis by (simp add: j' d work_of_def count_filter_neq)
    next
      case False
      with once show ?thesis by (simp add: j' d work_of_def count_filter_neq)
    qed
  qed
  ultimately show "job_ok i (add_mset (work_of d) M) j'"
    using ok pend unfolding job_ok_def by (auto simp: j')
  have "plan_rows c0 \<in># image_mset snd M + mset (map plan_rows (pending j))" by (simp add: pend)
  from job_rows_valid [OF acc this] att ok show "dispatch_ok i (job_size j) d"
    using unat_inc_small [of "attempts c0"] by (simp add: dispatch_ok_def d j' c plan_rows_def job_ok_def)
qed

lemma dispatch_loop_ok:
  assumes "job_ok i M j" "distinct ws" "set ws \<subseteq> set (available_workers j)" "dispatch_loop ws j ds = (ds', j')"
  shows "\<exists>new. ds' = ds @ new \<and> job_ok i (M + mset (map work_of new)) j' \<and>
    (\<forall>d\<in>set new. dispatch_ok i (job_size j) d) \<and> job_size j' = job_size j \<and>
    length new = min (length ws) (length (pending j))"
  using assms
proof (induction ws arbitrary: M j ds)
  case Nil
  then show ?case by (auto intro: exI [of _ "[]"])
next
  case (Cons w ws)
  show ?case
  proof (cases "pending j")
    case Nil
    with Cons.prems show ?thesis by (auto intro: exI [of _ "[]"])
  next
    case (Cons c0 rest)
    define c where "c = c0\<lparr>attempts := attempts c0 + 1\<rparr>"
    define j1 where "j1 = j\<lparr>pending := rest, available_workers := filter (\<lambda>x. x \<noteq> w) (available_workers j), in_flight := in_flight j + 1\<rparr>"
    define d where "d = \<lparr>dp_job = job_name j1, dp_task_id = chunk_task_id j1 c,
       dp_task = TMatrixChunk (job_size j1) (row_start c) (row_end c), dp_worker = w, dp_chunk = c\<rparr>"
    have run: "dispatch_loop ws j1 (ds @ [d]) = (ds', j')"
      using Cons.prems(4) Cons by (simp add: Let_def c_def j1_def d_def)
    note one = dispatch_one [OF Cons.prems(1) Cons _ c_def j1_def d_def]
    have w: "w \<in> set (available_workers j)" using Cons.prems(3) by simp
    have sub: "set ws \<subseteq> set (available_workers j1)" using Cons.prems(2,3) by (auto simp: j1_def)
    have "distinct ws" using Cons.prems(2) by simp
    from Cons.IH [OF one(1) [OF w] this sub run] obtain new where new: "ds' = (ds @ [d]) @ new"
      "job_ok i (add_mset (work_of d) M + mset (map work_of new)) j'"
      "\<forall>d\<in>set new. dispatch_ok i (job_size j1) d" "job_size j' = job_size j1"
      "length new = min (length ws) (length (pending j1))" by blast
    show ?thesis
      using new one(2) [OF w] Cons by (intro exI [of _ "d # new"]) (auto simp: j1_def)
  qed
qed

section \<open>Completion\<close>

lemma job_accounts_accept:
  assumes acc: "job_accounts fin r (add_mset (w, ab) M) j"
  shows "job_accounts (ab # fin) r M (j\<lparr>in_flight := sat_sub (in_flight j) 1, available_workers := ws,
      completed_chunks := completed_chunks j + 1,
      job_checksum := job_checksum j XOR matrix_chunk (job_size j) (fst ab) (snd ab)\<rparr>)"
proof -
  have "unat (completed_chunks j) + 1 < 2 ^ 16"
    using job_accounts_size [OF acc] acc by (simp add: job_accounts_def)
  then have c: "unat (completed_chunks j + 1) = Suc (length fin)"
    using acc unat_inc_small [of "completed_chunks j"] by (simp add: job_accounts_def)
  show ?thesis using acc c
    by (cases ab) (simp add: job_accounts_def unat_sat_sub xor.commute)
qed

lemma workers_once_return:
  assumes "workers_once (add_mset (w, ab) M) j"
  shows "workers_once M (j\<lparr>in_flight := f, available_workers := available_workers j @ [w], completed_chunks := k, job_checksum := x\<rparr>)"
  using assms unfolding workers_once_def by (auto simp: add.assoc split: if_splits) 

lemma accept_ok:
  assumes "job_ok i (add_mset (w, ab) M) j"
    and j': "j' = j\<lparr>in_flight := sat_sub (in_flight j) 1, available_workers := available_workers j @ [w],
                 completed_chunks := completed_chunks j + 1,
                 job_checksum := job_checksum j XOR matrix_chunk (job_size j) (fst ab) (snd ab)\<rparr>"
  shows "completed_chunks j' \<noteq> total_chunks j' \<Longrightarrow> job_ok i M j'"
    and "completed_chunks j' = total_chunks j' \<Longrightarrow>
      job_checksum j' = matrix_chunk (job_size j) 0 (job_size j) \<and> M = {#} \<and> pending j = []"
proof -
  from assms(1) obtain fin r where acc: "job_accounts fin r (add_mset (w, ab) M) j" by (auto simp: job_ok_def)
  have acc': "job_accounts (ab # fin) r M j'" unfolding j' by (rule job_accounts_accept [OF acc])
  have w: "workers_once M j'"
    unfolding j' by (rule workers_once_return [where ab = ab]) (use assms(1) in \<open>simp add: job_ok_def\<close>)
  show "completed_chunks j' \<noteq> total_chunks j' \<Longrightarrow> job_ok i M j'"
    using acc' w assms(1) unfolding job_ok_def by (auto simp: j')
  assume last: "completed_chunks j' = total_chunks j'"
  have "size M + length (pending j') = 0"
  proof -
    have "unat (completed_chunks j') = length (ab # fin)" using acc' unfolding job_accounts_def by blast
    with job_accounts_size(1) [OF acc', folded last] show ?thesis by linarith
  qed
  then have e: "M = {#}" "pending j' = []" by simp_all
  with acc' have m: "mset (ab # fin) = mset (map plan_rows (matrix_plan (job_size j') r))"
    and x: "job_checksum j' = xor_list (map (\<lambda>(a, b). matrix_chunk (job_size j') a b) (ab # fin))"
    and p: "params_ok (job_size j') r"
    by (simp_all add: job_accounts_def)
  have "xor_list (map (\<lambda>(a, b). matrix_chunk (job_size j') a b) (ab # fin)) =
      xor_list (map (\<lambda>(a, b). matrix_chunk (job_size j') a b) (map plan_rows (matrix_plan (job_size j') r)))"
    by (rule xor_list_mset) (metis m mset_map)
  also have "\<dots> = rows_checksum (unat (job_size j')) (concat (map (\<lambda>(a, b). [unat a..<unat b]) (map plan_rows (matrix_plan (job_size j') r))))"
    by (simp add: rows_checksum_concat o_def matrix_chunk_rows case_prod_beta)
  also have "\<dots> = matrix_chunk (job_size j') 0 (job_size j')"
    unfolding plan_covers [OF p] by (simp add: matrix_chunk_rows)
  finally show "job_checksum j' = matrix_chunk (job_size j) 0 (job_size j) \<and> M = {#} \<and> pending j = []"
    using x e by (simp add: j')
qed

section \<open>Retry\<close>

lemma retry_ok:
  assumes "job_ok i (add_mset (w, plan_rows c) M) j" "unat (attempts c) < 3"
  shows "job_ok i M (j\<lparr>in_flight := sat_sub (in_flight j) 1,
    available_workers := filter (\<lambda>v. v \<noteq> w) (available_workers j), pending := c # pending j\<rparr>)"
proof -
  let ?j = "j\<lparr>in_flight := sat_sub (in_flight j) 1,
    available_workers := filter (\<lambda>v. v \<noteq> w) (available_workers j), pending := c # pending j\<rparr>"
  from assms(1) obtain fin r where "job_accounts fin r (add_mset (w, plan_rows c) M) j" by (auto simp: job_ok_def)
  then have "job_accounts fin r M ?j"
    by (simp add: job_accounts_def unat_sat_sub add.assoc)
  moreover have "workers_once M ?j"
    unfolding workers_once_def
  proof
    fix v
    have "count (mset (available_workers j)) v + count (image_mset fst (add_mset (w, plan_rows c) M)) v \<le> 1"
      by (rule job_ok_once [OF assms(1)])
    then show "count (mset (available_workers ?j) + image_mset fst M) v \<le> 1"
      by (simp add: count_filter_neq split: if_splits)
  qed
  ultimately show ?thesis using assms unfolding job_ok_def by auto
qed

lemma start_ok:
  assumes "params_ok n rows" "distinct ws"
  shows "job_ok i {#} \<lparr>job_name = i, job_size = n, total_chunks = div_ceil n rows, completed_chunks = 0, job_checksum = 0,
     started_at = t, pending = matrix_plan n rows, available_workers = ws, in_flight = 0\<rparr>"
proof -
  have "job_accounts [] rows {#} \<lparr>job_name = i, job_size = n, total_chunks = div_ceil n rows, completed_chunks = 0, job_checksum = 0,
     started_at = t, pending = matrix_plan n rows, available_workers = ws, in_flight = 0\<rparr>"
    using assms(1) by (simp add: job_accounts_def)
  moreover have "div_ceil n rows \<noteq> 0" using chunk_count(4) [OF assms(1)] by auto
  ultimately show ?thesis
    using assms(2) unfolding job_ok_def workers_once_def
    by (auto simp: matrix_plan_def plan_chunk_def Let_def distinct_count_atmost_1)
qed

end
