(* ===== verification/Matrix_Inv.thy ===== *)
theory Matrix_Inv
  imports Matrix_Job
begin

text \<open>
  The invariant of the scheduler: every job accounts for its rows against the work that is really
  out (requests sent and not answered, tasks spawned, completions queued), and every operation of
  the scheduler keeps it. \<open>X\<close> is work taken from a job and not started, or answered and not booked yet.
\<close>

section \<open>Work that is out\<close>

definition meta_work :: "string \<Rightarrow> outbound_task_meta \<Rightarrow> work" where
  "meta_work i m = (case (meta_job m, meta_worker m, meta_chunk m) of
     (Some k, Some w, Some c) \<Rightarrow> if k = i then {#(w, plan_rows c)#} else {#} | _ \<Rightarrow> {#})"

definition spawned_work :: "string \<Rightarrow> local_task \<Rightarrow> work" where
  "spawned_work i t = (case (sp_job t, req_task (sp_request t)) of
     (Some k, TMatrixChunk n a b) \<Rightarrow> if k = i then {#(Local, a, b)#} else {#} | _ \<Rightarrow> {#})"

definition queued_work :: "string \<Rightarrow> completed_local_task \<Rightarrow> work" where
  "queued_work i c = (case (cl_job c, outcome (cl_response c)) of
     (Some k, Success (RMatrixChunk x n a b)) \<Rightarrow> if k = i then {#(Local, a, b)#} else {#} | _ \<Rightarrow> {#})"

definition outstanding :: "string \<Rightarrow> node \<Rightarrow> work" where
  "outstanding i s = sum_list (map (\<lambda>x. meta_work i (snd x)) (outbound_tasks s)) +
     sum_list (map (spawned_work i) (spawned s)) + sum_list (map (queued_work i) (local_queue s))"

section \<open>The invariant\<close>

definition size_allows :: "node \<Rightarrow> string \<Rightarrow> u16 \<Rightarrow> bool" where
  "size_allows s i n = (\<forall>j. bt_get (matrix_jobs s) i = Some j \<longrightarrow> job_size j = n)"

definition issued :: "node_env \<Rightarrow> node \<Rightarrow> string set" where
  "issued e s = {peer_text e (local_peer e) @ ''-distributed-'' @ show_word k | k. k < request_counter s}"

definition meta_ok :: "node_env \<Rightarrow> node \<Rightarrow> nat \<times> outbound_task_meta \<Rightarrow> bool" where
  "meta_ok e s x = (fst x < next_request s \<and> (\<forall>i. meta_job (snd x) = Some i \<longrightarrow> i \<in> issued e s \<and>
     (\<exists>p c n tid. meta_worker (snd x) = Some (Remote p) \<and> meta_chunk (snd x) = Some c \<and>
        1 \<le> unat (attempts c) \<and> unat (attempts c) \<le> 3 \<and> size_allows s i n \<and>
        (fst x, p, \<lparr>req_id = tid, req_task = TMatrixChunk n (row_start c) (row_end c)\<rparr>) \<in> set (sent s))))"

definition spawned_ok :: "node_env \<Rightarrow> node \<Rightarrow> local_task \<Rightarrow> bool" where
  "spawned_ok e s t = (\<forall>i. sp_job t = Some i \<longrightarrow> i \<in> issued e s \<and> sp_worker t = Some Local \<and>
     (\<exists>n a b. req_task (sp_request t) = TMatrixChunk n a b \<and> validate (TMatrixChunk n a b) = None \<and> size_allows s i n))"

definition queued_ok :: "node_env \<Rightarrow> node \<Rightarrow> completed_local_task \<Rightarrow> bool" where
  "queued_ok e s c = (\<forall>i. cl_job c = Some i \<longrightarrow> i \<in> issued e s \<and> cl_worker c = Some Local \<and>
     (\<exists>n a b. outcome (cl_response c) = Success (RMatrixChunk (matrix_chunk n a b) n a b) \<and> size_allows s i n))"

definition tables_ok :: "node_env \<Rightarrow> node \<Rightarrow> bool" where
  "tables_ok e s =
     (bt_ok (matrix_jobs s) \<and> hm_ok (outbound_tasks s) \<and> bt_ok (peer_resources s) \<and>
      (\<forall>i j. bt_get (matrix_jobs s) i = Some j \<longrightarrow> i \<in> issued e s) \<and>
      (\<forall>x\<in>set (outbound_tasks s). meta_ok e s x) \<and>
      distinct (map fst (sent s)) \<and> (\<forall>x\<in>set (sent s). fst x < next_request s) \<and>
      (\<forall>t\<in>set (spawned s). spawned_ok e s t) \<and> (\<forall>c\<in>set (local_queue s). queued_ok e s c))"

definition jobs_ok :: "(string \<Rightarrow> work) \<Rightarrow> node \<Rightarrow> bool" where
  "jobs_ok X s = (\<forall>i j. bt_get (matrix_jobs s) i = Some j \<longrightarrow> job_ok i (outstanding i s + X i) j)"

definition sched_inv :: "node_env \<Rightarrow> (string \<Rightarrow> work) \<Rightarrow> node \<Rightarrow> bool" where
  "sched_inv e X s = (tables_ok e s \<and> jobs_ok X s)"

lemma sched_invD:
  "sched_inv e X s \<Longrightarrow> bt_get (matrix_jobs s) i = Some j \<Longrightarrow> job_ok i (outstanding i s + X i) j"
  by (simp add: sched_inv_def jobs_ok_def)

section \<open>Events and logs change nothing\<close>

definition same_tables :: "node \<Rightarrow> node \<Rightarrow> bool" where
  "same_tables s t = (matrix_jobs t = matrix_jobs s \<and> outbound_tasks t = outbound_tasks s \<and> peer_resources t = peer_resources s \<and>
     sent t = sent s \<and> next_request t = next_request s \<and> spawned t = spawned s \<and> local_queue t = local_queue s \<and>
     request_counter t = request_counter s)"

lemma same_tables_emit [simp]:
  "same_tables s (emit ev fs t) = same_tables s t" "same_tables s (report e p r t) = same_tables s t"
  "same_tables s (task_started e i d p dir t) = same_tables s t" "same_tables s s"
  by (simp_all add: same_tables_def emit_def report_def task_started_def)

lemma outstanding_same: "same_tables s t \<Longrightarrow> outstanding i t = outstanding i s"
  by (simp add: same_tables_def outstanding_def)

lemma sched_inv_same: "same_tables s t \<Longrightarrow> sched_inv e X t = sched_inv e X s"
  unfolding sched_inv_def jobs_ok_def tables_ok_def outstanding_def same_tables_def
    meta_ok_def spawned_ok_def queued_ok_def size_allows_def issued_def by simp

lemma sched_inv_emit [simp]:
  "sched_inv e X (emit ev fs s) = sched_inv e X s" "sched_inv e X (report e' p r s) = sched_inv e X s"
  "sched_inv e X (task_started e' i d p dir s) = sched_inv e X s"
  by (rule sched_inv_same; simp)+

lemma tables_emit [simp]:
  "matrix_jobs (emit ev fs s) = matrix_jobs s" "matrix_jobs (report e p r s) = matrix_jobs s"
  "matrix_jobs (task_started e i d p dir s) = matrix_jobs s"
  "outbound_tasks (emit ev fs s) = outbound_tasks s" "outbound_tasks (report e p r s) = outbound_tasks s"
  by (simp_all add: emit_def report_def task_started_def)

section \<open>Changing or dropping one job\<close>

lemma bt_get_put: "bt_get (matrix_jobs (put_job i j s)) k = (if k = i then Some j else bt_get (matrix_jobs s) k)"
  by (simp add: put_job_def map_of_bt_insert)

lemma bt_get_drop: "bt_get (matrix_jobs (drop_job i s)) k = (if k = i then None else bt_get (matrix_jobs s) k)"
  by (simp add: drop_job_def map_of_map_remove)

lemma outstanding_jobs [simp]: "outstanding i (s\<lparr>matrix_jobs := m\<rparr>) = outstanding i s"
  by (simp add: outstanding_def)

lemma outstanding_put [simp]: "outstanding k (put_job i j s) = outstanding k s" "outstanding k (drop_job i s) = outstanding k s"
  by (simp_all add: put_job_def drop_job_def)

lemma tables_ok_jobs:
  assumes "tables_ok e s" "bt_ok m" "\<And>i j. bt_get m i = Some j \<Longrightarrow> \<exists>j0. bt_get (matrix_jobs s) i = Some j0 \<and> job_size j0 = job_size j"
  shows "tables_ok e (s\<lparr>matrix_jobs := m\<rparr>)"
proof -
  let ?t = "s\<lparr>matrix_jobs := m\<rparr>"
  have sz: "size_allows s i n \<Longrightarrow> size_allows ?t i n" for i n
    using assms(3) unfolding size_allows_def by fastforce
  have iss: "issued e ?t = issued e s" by (simp add: issued_def)
  have "meta_ok e s x \<Longrightarrow> meta_ok e ?t x" for x
    unfolding meta_ok_def iss using sz by fastforce
  moreover have "spawned_ok e s x \<Longrightarrow> spawned_ok e ?t x" for x
    unfolding spawned_ok_def iss using sz by blast
  moreover have "queued_ok e s x \<Longrightarrow> queued_ok e ?t x" for x
    unfolding queued_ok_def iss using sz by blast
  moreover have "i \<in> issued e s" if "bt_get m i = Some j" for i j
    using assms(3) [OF that] assms(1) unfolding tables_ok_def by blast
  ultimately show ?thesis using assms(1,2) unfolding tables_ok_def iss by simp
qed

lemma tables_ok_put:
  assumes "tables_ok e s" "bt_get (matrix_jobs s) i = Some j0" "job_size j = job_size j0"
  shows "tables_ok e (put_job i j s)"
  unfolding put_job_def
  by (rule tables_ok_jobs [OF assms(1)])
    (use assms in \<open>auto simp: tables_ok_def bt_ok_insert map_of_bt_insert split: if_splits\<close>)

lemma tables_ok_drop: "tables_ok e s \<Longrightarrow> tables_ok e (drop_job i s)"
  unfolding drop_job_def
  by (rule tables_ok_jobs) (auto simp: tables_ok_def bt_ok_remove map_of_map_remove split: if_splits)

lemma sched_inv_put:
  assumes "sched_inv e X s" "bt_get (matrix_jobs s) i = Some j0" "job_size j = job_size j0"
    "job_ok i (outstanding i s + X' i) j" "\<And>k. k \<noteq> i \<Longrightarrow> X' k = X k"
  shows "sched_inv e X' (put_job i j s)"
  using assms tables_ok_put [of e s i j0 j] unfolding sched_inv_def jobs_ok_def by (auto simp: bt_get_put)

lemma sched_inv_drop:
  assumes "sched_inv e X s" "\<And>k. k \<noteq> i \<Longrightarrow> X' k = X k"
  shows "sched_inv e X' (drop_job i s)"
  using assms tables_ok_drop [of e s i] unfolding sched_inv_def jobs_ok_def by (auto simp: bt_get_drop)

lemma sched_inv_absent:
  assumes "sched_inv e X s" "bt_get (matrix_jobs s) i = None" "\<And>k. k \<noteq> i \<Longrightarrow> X' k = X k"
  shows "sched_inv e X' s"
  using assms unfolding sched_inv_def jobs_ok_def by (metis option.distinct(1))

lemma drop_put: "drop_job i (put_job i j s) = drop_job i s"
proof -
  have "map_remove i (bt_insert i j m) = map_remove i m" for m :: "(string, matrix_job) btree_map"
    by (induction i j m rule: bt_insert.induct) (auto simp: map_remove_def)
  then show ?thesis by (simp add: drop_job_def put_job_def)
qed

section \<open>Failure, retry and completion\<close>

lemma fail_inv:
  assumes "sched_inv e X s" "\<And>k. k \<noteq> i \<Longrightarrow> X' k = X k" "X' i = X i \<or> bt_get (matrix_jobs s) i \<noteq> None"
  shows "sched_inv e X' (fail_matrix_job e i msg s)"
proof (cases "bt_get (matrix_jobs s) i")
  case None
  then have "X' = X" using assms(2,3) by (intro ext) metis
  with None assms(1) show ?thesis by (simp add: fail_matrix_job_def)
next
  case (Some j)
  then show ?thesis using sched_inv_drop [OF assms(1,2)] by (simp add: fail_matrix_job_def)
qed

lemma fail_put_inv:
  assumes "sched_inv e X s" "\<And>k. k \<noteq> i \<Longrightarrow> X' k = X k"
  shows "sched_inv e X' (fail_matrix_job e i msg (put_job i j s))"
  using sched_inv_drop [OF assms] by (simp add: fail_matrix_job_def bt_get_put drop_put)

lemma retry_inv:
  assumes inv: "sched_inv e X s" and X: "X i = add_mset (w, plan_rows c) (X' i)" "\<And>k. k \<noteq> i \<Longrightarrow> X' k = X k"
    and att: "unat (attempts c) \<le> 3"
  shows "sched_inv e X' (retry_matrix_chunk e i w c msg s)"
proof (cases "bt_get (matrix_jobs s) i")
  case None
  with sched_inv_absent [OF inv None X(2)] show ?thesis by (simp add: retry_matrix_chunk_def)
next
  case (Some j0)
  let ?j1 = "j0\<lparr>in_flight := sat_sub (in_flight j0) 1, available_workers := filter (\<lambda>v. v \<noteq> w) (available_workers j0)\<rparr>"
  let ?j2 = "?j1\<lparr>pending := c # pending ?j1\<rparr>"
  show ?thesis
  proof (cases "attempts c \<ge> MAX_MATRIX_CHUNK_ATTEMPTS")
    case True
    with Some fail_put_inv [OF inv X(2)] show ?thesis by (simp add: retry_matrix_chunk_def Let_def)
  next
    case False
    then have "unat (attempts c) < 3" by (simp add: MAX_MATRIX_CHUNK_ATTEMPTS_def word_le_nat_alt)
    moreover have "job_ok i (add_mset (w, plan_rows c) (outstanding i s + X' i)) j0"
      using sched_invD [OF inv Some] X(1) by simp
    ultimately have "job_ok i (outstanding i s + X' i) ?j2" using retry_ok by simp
    from sched_inv_put [OF inv Some _ this X(2)] have p: "sched_inv e X' (put_job i ?j2 s)" by simp
    have f: "sched_inv e X' (fail_matrix_job e i m t)" if "sched_inv e X' t" for t m
      by (rule fail_inv [OF that]) simp_all
    have both: "sched_inv e X' (if b then t else u)" if "sched_inv e X' t" "sched_inv e X' u" for b t u
      using that by simp
    show ?thesis
      unfolding retry_matrix_chunk_def Some option.case Let_def if_not_P [OF False]
      by (intro both f) (simp_all only: sched_inv_emit p)
  qed
qed

lemma fail_or_retry_inv:
  assumes inv: "sched_inv e X s" and X: "X i = add_mset (w, ab) (X' i)" "\<And>k. k \<noteq> i \<Longrightarrow> X' k = X k"
    and c: "\<And>c. chunk = Some c \<Longrightarrow> ab = plan_rows c \<and> unat (attempts c) \<le> 3"
  shows "sched_inv e X' (fail_or_retry_matrix_chunk e i w chunk msg s)"
proof -
  have f: "sched_inv e X' (fail_matrix_job e i msg s)"
  proof (cases "bt_get (matrix_jobs s) i")
    case None
    with sched_inv_absent [OF inv None X(2)] show ?thesis by (simp add: fail_matrix_job_def)
  next
    case (Some j)
    then show ?thesis by (intro fail_inv [OF inv X(2)]) simp_all
  qed
  show ?thesis
  proof (cases chunk)
    case None
    with f show ?thesis by (cases w) (simp_all add: fail_or_retry_matrix_chunk_def)
  next
    case (Some ch)
    with c [OF Some] X retry_inv [OF inv, of i w ch X' msg] f show ?thesis
      by (cases w) (simp_all add: fail_or_retry_matrix_chunk_def)
  qed
qed

lemma accept_inv:
  assumes inv: "sched_inv e X s" and X: "X i = add_mset (w, ab) (X' i)" "\<And>k. k \<noteq> i \<Longrightarrow> X' k = X k"
    and j: "bt_get (matrix_jobs s) i = Some j" and x: "x = matrix_chunk (job_size j) (fst ab) (snd ab)"
  shows "sched_inv e X' (accept_chunk e i w x j s)"
proof -
  let ?j = "j\<lparr>in_flight := sat_sub (in_flight j) 1, available_workers := available_workers j @ [w],
                 completed_chunks := completed_chunks j + 1,
                 job_checksum := job_checksum j XOR matrix_chunk (job_size j) (fst ab) (snd ab)\<rparr>"
  have ok: "job_ok i (add_mset (w, ab) (outstanding i s + X' i)) j"
    using sched_invD [OF inv j] X(1) by simp
  then have nm: "job_name j = i" by (simp add: job_ok_def)
  show ?thesis
  proof (cases "completed_chunks ?j = total_chunks ?j")
    case True
    then have "accept_chunk e i w x j s = report e (local_peer e) (response_success i (elapsed_ms (started_at j)
        (emit ''TASK_PROGRESS'' [i, show_word (completed_chunks ?j), show_word (total_chunks ?j), ''matrix chunks completed''] (put_job i ?j s)))
        (RDistributedMatrix (job_checksum ?j) (job_size j) (total_chunks j)))
        (drop_job i (emit ''TASK_PROGRESS'' [i, show_word (completed_chunks ?j), show_word (total_chunks ?j), ''matrix chunks completed''] (put_job i ?j s)))"
      by (simp add: accept_chunk_def Let_def x nm)
    moreover have "sched_inv e X' (drop_job i (emit ev fs (put_job i ?j s)))" for ev fs
    proof -
      have "drop_job i (emit ev fs (put_job i ?j s)) = emit ev fs (drop_job i (put_job i ?j s))"
        by (simp add: drop_job_def emit_def put_job_def)
      with sched_inv_drop [OF inv X(2)] show ?thesis by (simp add: drop_put)
    qed
    ultimately show ?thesis by simp
  next
    case False
    from accept_ok(1) [OF ok refl] False have "job_ok i (outstanding i s + X' i) ?j" by simp
    from sched_inv_put [OF inv j _ this X(2)] False show ?thesis
      by (simp add: accept_chunk_def Let_def x)
  qed
qed

lemma complete_inv:
  assumes inv: "sched_inv e X s" and X: "X i = add_mset (w, ab) (X' i)" "\<And>k. k \<noteq> i \<Longrightarrow> X' k = X k"
    and c: "\<And>c. chunk = Some c \<Longrightarrow> ab = plan_rows c \<and> unat (attempts c) \<le> 3"
    and honest: "\<And>x n a b j. outcome r = Success (RMatrixChunk x n a b) \<Longrightarrow>
      bt_get (matrix_jobs s) i = Some j \<Longrightarrow> n = job_size j \<Longrightarrow>
      (chunk = None \<or> (a, b) = ab) \<Longrightarrow> (a, b) = ab \<and> x = matrix_chunk n a b"
  shows "sched_inv e X' (complete_matrix_chunk e i w chunk r s)"
proof -
  note fr = fail_or_retry_inv [OF inv X c]
  show ?thesis
  proof (cases "\<exists>x n a b. outcome r = Success (RMatrixChunk x n a b)")
    case False
    then show ?thesis by (auto simp: complete_matrix_chunk_def fr split: task_outcome.splits task_result.splits)
  next
    case True
    then obtain x n a b where o: "outcome r = Success (RMatrixChunk x n a b)" by blast
    show ?thesis
    proof (cases "bt_get (matrix_jobs s) i")
      case None
      with sched_inv_absent [OF inv None X(2)] o show ?thesis by (simp add: complete_matrix_chunk_def)
    next
      case (Some j)
      show ?thesis
      proof (cases "n \<noteq> job_size j \<or> (case chunk of None \<Rightarrow> False | Some c \<Rightarrow> a \<noteq> row_start c \<or> b \<noteq> row_end c)")
        case True
        with Some o fr show ?thesis by (auto simp: complete_matrix_chunk_def)
      next
        case False
        have "chunk = None \<or> (a, b) = ab"
          using False c by (cases chunk) (auto simp: plan_rows_def)
        with honest [OF o Some] False have "(a, b) = ab" "x = matrix_chunk n a b" by auto
        with accept_inv [OF inv X Some, of x] False o Some show ?thesis
          by (auto simp: complete_matrix_chunk_def)
      qed
    qed
  qed
qed

end
