(* ===== verification/Matrix_Dispatch.thy ===== *)
theory Matrix_Dispatch
  imports Matrix_Inv
begin

text \<open>Dispatch keeps the invariant and leaves no job without work that is out.\<close>

section \<open>Taking chunks for the ranked workers\<close>

lemma ranked_workers_filter:
  "set (ranked_workers s j) = {w \<in> set (available_workers j). matrix_worker_score w s \<noteq> None}"
  "distinct (available_workers j) \<Longrightarrow> distinct (ranked_workers s j)"
proof -
  let ?l = "List.map_filter (\<lambda>w. map_option (Pair w) (matrix_worker_score w s)) (available_workers j)"
  have "map fst (List.map_filter (\<lambda>w. map_option (Pair w) (matrix_worker_score w s)) ws) = filter (\<lambda>w. matrix_worker_score w s \<noteq> None) ws" for ws
    by (induction ws) (auto simp: List.map_filter_simps)
  then have m: "map fst ?l = filter (\<lambda>w. matrix_worker_score w s \<noteq> None) (available_workers j)" .
  have "fst ` set ?l = {w \<in> set (available_workers j). matrix_worker_score w s \<noteq> None}"
    using arg_cong [OF m, of set] by simp
  then show "set (ranked_workers s j) = {w \<in> set (available_workers j). matrix_worker_score w s \<noteq> None}"
    by (simp add: ranked_workers_def)
  show "distinct (available_workers j) \<Longrightarrow> distinct (ranked_workers s j)"
    by (simp add: ranked_workers_def m)
qed

lemma job_ok_distinct: "job_ok i M j \<Longrightarrow> distinct (available_workers j)"
proof -
  assume "job_ok i M j"
  then have "count (mset (available_workers j)) w \<le> 1" for w using job_ok_once [of i M j w] by simp
  then show ?thesis by (metis distinct_count_atmost_1 le_antisym less_one linorder_not_le count_mset_0_iff count_greater_eq_one_iff set_mset_mset)
qed

lemma take_dispatches_ok:
  assumes "job_ok i M j" "take_matrix_dispatches s j = (ds, j')"
  shows "job_ok i (M + mset (map work_of ds)) j'" and "\<forall>d\<in>set ds. dispatch_ok i (job_size j) d"
    and "job_size j' = job_size j" and "length ds = min (length (ranked_workers s j)) (length (pending j))"
proof -
  note r = ranked_workers_filter [where s = s and j = j]
  have "\<exists>new. ds = [] @ new \<and> job_ok i (M + mset (map work_of new)) j' \<and>
    (\<forall>d\<in>set new. dispatch_ok i (job_size j) d) \<and> job_size j' = job_size j \<and>
    length new = min (length (ranked_workers s j)) (length (pending j))"
    by (rule dispatch_loop_ok [OF assms(1)])
      (use r job_ok_distinct [OF assms(1)] assms(2) in \<open>auto simp: take_matrix_dispatches_def\<close>)
  then show "job_ok i (M + mset (map work_of ds)) j'" "\<forall>d\<in>set ds. dispatch_ok i (job_size j) d"
    "job_size j' = job_size j" "length ds = min (length (ranked_workers s j)) (length (pending j))" by auto
qed

text \<open>A job that keeps rows pending and has nothing out has no worker left, or it is unavailable.\<close>

lemma idle_job_unavailable:
  assumes "job_ok i M j" "take_matrix_dispatches s j = (ds, j')" "in_flight j' = 0"
  shows "job_unavailable s j'"
proof -
  note t = take_dispatches_ok [OF assms(1,2)]
  from t(1) obtain fin r where acc: "job_accounts fin r (M + mset (map work_of ds)) j'" and c: "completed_chunks j' \<noteq> total_chunks j'"
    by (auto simp: job_ok_def)
  have "size (M + mset (map work_of ds)) = 0" using acc assms(3) by (simp add: job_accounts_def)
  then have M: "M = {#}" "ds = []" by auto
  have j': "j' = j" if "ranked_workers s j = []" using assms(2) that by (simp add: take_matrix_dispatches_def)
  have jp: "j' = j" if "pending j = []"
    using assms(2) that by (cases "ranked_workers s j") (simp_all add: take_matrix_dispatches_def)
  have "pending j \<noteq> []"
  proof
    assume e: "pending j = []"
    from job_accounts_size(1) [OF acc] M e jp have "length fin = unat (total_chunks j')" by simp
    with acc have "unat (completed_chunks j') = unat (total_chunks j')" by (simp add: job_accounts_def)
    from unsigned_word_eqI [OF this] c show False by simp
  qed
  with t(4) M have r: "ranked_workers s j = []" by (auto simp: min_def split: if_splits)
  with ranked_workers_filter(1) [where s = s and j = j] have "\<not> (\<exists>w\<in>set (available_workers j). matrix_worker_score w s \<noteq> None)" by auto
  with j' [OF r] \<open>pending j \<noteq> []\<close> assms(3) show ?thesis by (simp add: job_unavailable_def)
qed

section \<open>Starting what was taken\<close>

definition dispatch_work :: "matrix_dispatch list \<Rightarrow> string \<Rightarrow> work" where
  "dispatch_work ds i = mset (map work_of (filter (\<lambda>d. dp_job d = i) ds))"

definition ready :: "node_env \<Rightarrow> node \<Rightarrow> matrix_dispatch \<Rightarrow> bool" where
  "ready e s d = (dp_job d \<in> issued e s \<and> (\<exists>n. dispatch_ok (dp_job d) n d \<and> size_allows s (dp_job d) n))"

lemma next_request_fresh: "tables_ok e s \<Longrightarrow> next_request s \<notin> fst ` set (outbound_tasks s)"
  by (auto simp: tables_ok_def meta_ok_def)

definition sent_state :: "peer_id \<Rightarrow> task_request \<Rightarrow> outbound_task_meta \<Rightarrow> node \<Rightarrow> node" where
  "sent_state p r m s = add_outbound (next_request s) m (snd (send_request p r s))"

lemma meta_ok_sent:
  assumes "meta_ok e s x" "issued e t = issued e s" "matrix_jobs t = matrix_jobs s"
    "set (sent s) \<subseteq> set (sent t)" "next_request s \<le> next_request t"
  shows "meta_ok e t x"
  using assms unfolding meta_ok_def size_allows_def by fastforce

lemma tables_ok_sent:
  assumes ok: "tables_ok e s"
    and m: "\<And>i. meta_job m = Some i \<Longrightarrow> i \<in> issued e s \<and> (\<exists>c n. meta_worker m = Some (Remote p) \<and> meta_chunk m = Some c \<and>
      1 \<le> unat (attempts c) \<and> unat (attempts c) \<le> 3 \<and> size_allows s i n \<and> req_task r = TMatrixChunk n (row_start c) (row_end c))"
  shows "tables_ok e (sent_state p r m s)"
    and "outstanding i (sent_state p r m s) = outstanding i s + meta_work i m"
    and "matrix_jobs (sent_state p r m s) = matrix_jobs s"
proof -
  let ?t = "sent_state p r m s"
  have o: "outbound_tasks ?t = (next_request s, m) # outbound_tasks s"
    using next_request_fresh [OF ok]
    by (simp add: sent_state_def send_request_def add_outbound_def hm_insert_def map_remove_absent)
  have f: "matrix_jobs ?t = matrix_jobs s" "peer_resources ?t = peer_resources s" "spawned ?t = spawned s" "local_queue ?t = local_queue s"
    "sent ?t = sent s @ [(next_request s, p, r)]" "next_request ?t = next_request s + 1" "issued e ?t = issued e s"
    by (simp_all add: sent_state_def send_request_def add_outbound_def issued_def)
  have sz: "size_allows ?t = size_allows s" by (simp add: size_allows_def f fun_eq_iff)
  have "meta_ok e ?t (next_request s, m)"
  proof -
    have "\<exists>p' c n tid. meta_worker m = Some (Remote p') \<and> meta_chunk m = Some c \<and> 1 \<le> unat (attempts c) \<and>
        unat (attempts c) \<le> 3 \<and> size_allows s i n \<and>
        (next_request s, p', \<lparr>req_id = tid, req_task = TMatrixChunk n (row_start c) (row_end c)\<rparr>) \<in> set (sent s @ [(next_request s, p, r)])"
      if "meta_job m = Some i" for i
    proof -
      from m [OF that] obtain c n where c: "meta_worker m = Some (Remote p)" "meta_chunk m = Some c" "1 \<le> unat (attempts c)"
        "unat (attempts c) \<le> 3" "size_allows s i n" "req_task r = TMatrixChunk n (row_start c) (row_end c)" by blast
      then have "r = \<lparr>req_id = req_id r, req_task = TMatrixChunk n (row_start c) (row_end c)\<rparr>" by (cases r) simp
      then have "(next_request s, p, \<lparr>req_id = req_id r, req_task = TMatrixChunk n (row_start c) (row_end c)\<rparr>) \<in> set (sent s @ [(next_request s, p, r)])"
        by simp
      with c show ?thesis by blast
    qed
    with m show ?thesis unfolding meta_ok_def by (auto simp: f sz)
  qed
  moreover have "meta_ok e ?t x" if "meta_ok e s x" for x
    by (rule meta_ok_sent [OF that]) (auto simp: f)
  moreover have "spawned_ok e ?t x = spawned_ok e s x" "queued_ok e ?t y = queued_ok e s y" for x y
    by (simp_all add: spawned_ok_def queued_ok_def f sz)
  ultimately show "tables_ok e ?t"
    using ok next_request_fresh [OF ok] unfolding tables_ok_def by (auto simp: o f hm_ok_def)
  show "outstanding i ?t = outstanding i s + meta_work i m"
    by (simp add: outstanding_def o f ac_simps)
  show "matrix_jobs ?t = matrix_jobs s" by (rule f)
qed

lemma tables_ok_spawn:
  assumes "tables_ok e s" "spawned_ok e s t"
  shows "tables_ok e (spawn_task t s)" and "outstanding i (spawn_task t s) = outstanding i s + spawned_work i t"
    and "matrix_jobs (spawn_task t s) = matrix_jobs s"
proof -
  have f: "issued e (spawn_task t s) = issued e s" "size_allows (spawn_task t s) = size_allows s"
    by (simp_all add: issued_def size_allows_def spawn_task_def fun_eq_iff)
  have w: "meta_ok e (spawn_task t s) x = meta_ok e s x" "spawned_ok e (spawn_task t s) y = spawned_ok e s y"
    "queued_ok e (spawn_task t s) z = queued_ok e s z" for x y z
    by (simp_all add: meta_ok_def spawned_ok_def queued_ok_def f) (simp_all add: spawn_task_def)
  show "tables_ok e (spawn_task t s)"
    using assms unfolding tables_ok_def w f by (auto simp: spawn_task_def)
  show "outstanding i (spawn_task t s) = outstanding i s + spawned_work i t"
    by (simp add: outstanding_def spawn_task_def ac_simps)
  show "matrix_jobs (spawn_task t s) = matrix_jobs s" by (simp add: spawn_task_def)
qed

lemma start_dispatch_inv:
  assumes inv: "sched_inv e (dispatch_work (d # ds)) s" and d: "ready e s d"
  shows "sched_inv e (dispatch_work ds) (start_dispatch e d s)"
    and "matrix_jobs (start_dispatch e d s) = matrix_jobs s" and "request_counter (start_dispatch e d s) = request_counter s"
proof -
  from d obtain n where n: "dispatch_ok (dp_job d) n d" "size_allows s (dp_job d) n" and iss: "dp_job d \<in> issued e s"
    by (auto simp: ready_def)
  show "matrix_jobs (start_dispatch e d s) = matrix_jobs s" "request_counter (start_dispatch e d s) = request_counter s"
    by (simp_all add: start_dispatch_def spawn_task_def task_started_def send_request_def add_outbound_def Let_def split: matrix_worker.splits)
  show "sched_inv e (dispatch_work ds) (start_dispatch e d s)"
  proof (cases "dp_worker d")
    case Local
    define t where "t = task_started e (dp_task_id d) (task_description (dp_task d)) (local_peer e) ''local'' s"
    define l where "l = \<lparr>sp_request = \<lparr>req_id = dp_task_id d, req_task = dp_task d\<rparr>, sp_job = Some (dp_job d), sp_worker = Some Local\<rparr>"
    have t: "start_dispatch e d s = spawn_task l t" by (simp add: start_dispatch_def Local t_def l_def)
    have invt: "sched_inv e (dispatch_work (d # ds)) t" using inv by (simp add: t_def)
    have same: "issued e t = issued e s" "size_allows t = size_allows s"
      by (simp_all add: t_def task_started_def issued_def size_allows_def fun_eq_iff)
    have l: "spawned_ok e t l" using n iss by (auto simp: spawned_ok_def l_def same dispatch_ok_def simp del: validate.simps)
    have tok: "tables_ok e t" using invt by (simp add: sched_inv_def)
    have w: "dispatch_work (d # ds) i = spawned_work i l + dispatch_work ds i" for i
      using n(1) by (simp add: dispatch_work_def spawned_work_def l_def dispatch_ok_def work_of_def Local plan_rows_def)
    show ?thesis unfolding t sched_inv_def jobs_ok_def
      using tables_ok_spawn [OF tok l] sched_invD [OF invt] by (simp add: w add.assoc)
  next
    case (Remote p)
    define t where "t = task_started e (dp_task_id d) (task_description (dp_task d)) p ''outbound'' s"
    define r where "r = \<lparr>req_id = dp_task_id d, req_task = dp_task d\<rparr>"
    define m where "m = \<lparr>meta_id = dp_task_id d, tracked = True, meta_job = Some (dp_job d),
               meta_worker = Some (Remote p), meta_chunk = Some (dp_chunk d)\<rparr>"
    have t: "start_dispatch e d s = sent_state p r m t"
      by (simp add: start_dispatch_def Remote t_def r_def m_def sent_state_def send_request_def Let_def)
    have invt: "sched_inv e (dispatch_work (d # ds)) t" using inv by (simp add: t_def)
    have same: "issued e t = issued e s" "size_allows t = size_allows s"
      by (simp_all add: t_def task_started_def issued_def size_allows_def fun_eq_iff)
    have tok: "tables_ok e t" using invt by (simp add: sched_inv_def)
    have w: "dispatch_work (d # ds) i = meta_work i m + dispatch_work ds i" for i
      by (simp add: dispatch_work_def meta_work_def m_def work_of_def Remote)
    have meta: "i \<in> issued e t \<and> (\<exists>c k. meta_worker m = Some (Remote p) \<and> meta_chunk m = Some c \<and> 1 \<le> unat (attempts c) \<and>
        unat (attempts c) \<le> 3 \<and> size_allows t i k \<and> req_task r = TMatrixChunk k (row_start c) (row_end c))"
      if "meta_job m = Some i" for i
      using that n iss by (auto simp: m_def r_def same dispatch_ok_def)
    show ?thesis unfolding t sched_inv_def jobs_ok_def
      using tables_ok_sent [OF tok meta] sched_invD [OF invt] by (simp add: w add.assoc)
  qed
qed

lemma start_all_inv:
  assumes "sched_inv e (dispatch_work ds) s" "\<forall>d\<in>set ds. ready e s d"
  shows "sched_inv e (\<lambda>_. {#}) (fold (start_dispatch e) ds s) \<and> matrix_jobs (fold (start_dispatch e) ds s) = matrix_jobs s"
  using assms
proof (induction ds arbitrary: s)
  case Nil
  then show ?case by (simp add: dispatch_work_def [abs_def])
next
  case (Cons d ds)
  have r: "ready e s d" using Cons.prems(2) by simp
  note st = start_dispatch_inv [OF Cons.prems(1) r]
  have "\<forall>x\<in>set ds. ready e (start_dispatch e d s) x"
    using Cons.prems(2) st(2,3) unfolding ready_def size_allows_def issued_def by simp
  from Cons.IH [OF st(1) this] st(2) show ?case by simp
qed

section \<open>A dispatch over all jobs\<close>

lemma dispatch_work_concat:
  assumes "distinct (map fst m)" "\<And>i j d. (i, j) \<in> set m \<Longrightarrow> d \<in> set (f j) \<Longrightarrow> dp_job d = i"
  shows "dispatch_work (concat (map (\<lambda>(i, j). f j) m)) i =
    (case map_of m i of None \<Rightarrow> {#} | Some j \<Rightarrow> mset (map work_of (f j)))"
  using assms
proof (induction m)
  case Nil
  then show ?case by (simp add: dispatch_work_def)
next
  case (Cons x m)
  obtain k j where x: "x = (k, j)" by fastforce
  have all: "\<forall>d\<in>set (f j). dp_job d = k" using Cons.prems(2) x by auto
  have here: "filter (\<lambda>d. dp_job d = i) (f j) = (if k = i then f j else [])"
    using all by (auto simp: filter_id_conv filter_empty_conv)
  have IH: "dispatch_work (concat (map (\<lambda>(i, j). f j) m)) i = (case map_of m i of None \<Rightarrow> {#} | Some j \<Rightarrow> mset (map work_of (f j)))"
    by (rule Cons.IH) (use Cons.prems in auto)
  have "map_of m i = None" if "k = i" using Cons.prems(1) that x by (auto simp: map_of_eq_None_iff)
  then show ?case using IH here by (auto simp: x dispatch_work_def)
qed

lemma map_of_update: "map_of (map (\<lambda>(k, v). (k, g v)) m) i = map_option g (map_of m i)"
  by (induction m) auto

lemma fail_all_inv:
  assumes "sched_inv e X s"
  shows "sched_inv e X (fold (\<lambda>i. fail_matrix_job e i msg) ks s) \<and>
    request_counter (fold (\<lambda>i. fail_matrix_job e i msg) ks s) = request_counter s \<and>
    (\<forall>i. bt_get (matrix_jobs (fold (\<lambda>i. fail_matrix_job e i msg) ks s)) i =
      (if i \<in> set ks then None else bt_get (matrix_jobs s) i))"
  using assms
proof (induction ks arbitrary: s)
  case (Cons k ks)
  have f: "sched_inv e X (fail_matrix_job e k msg s)" by (rule fail_inv [OF Cons.prems]) simp_all
  have g: "bt_get (matrix_jobs (fail_matrix_job e k msg s)) i = (if i = k then None else bt_get (matrix_jobs s) i)" for i
    by (auto simp: fail_matrix_job_def bt_get_drop split: option.splits)
  have c: "request_counter (fail_matrix_job e k msg s) = request_counter s"
    by (simp add: fail_matrix_job_def report_def drop_job_def split: option.splits)
  from Cons.IH [OF f] g c show ?case by simp
qed simp

definition no_idle :: "node \<Rightarrow> bool" where
  "no_idle s = (\<forall>i j. bt_get (matrix_jobs s) i = Some j \<longrightarrow> in_flight j \<noteq> 0)"

lemma dispatch_inv:
  assumes inv: "sched_inv e (\<lambda>_. {#}) s"
  shows "sched_inv e (\<lambda>_. {#}) (dispatch_matrix_jobs e s)" and "no_idle (dispatch_matrix_jobs e s)"
proof -
  define g where "g = (\<lambda>j. snd (take_matrix_dispatches s j))"
  define f where "f = (\<lambda>j. fst (take_matrix_dispatches s j))"
  define s1 where "s1 = s\<lparr>matrix_jobs := map (\<lambda>(i, j). (i, g j)) (matrix_jobs s)\<rparr>"
  define ds where "ds = concat (map (\<lambda>(i, j). f j) (matrix_jobs s))"
  define gone where "gone = map (\<lambda>(i, j). job_name j) (filter (\<lambda>(i, j). job_unavailable s j) (matrix_jobs s1))"
  define s2 where "s2 = fold (\<lambda>i. fail_matrix_job e i unavailable_message) gone s1"
  have def: "dispatch_matrix_jobs e s = fold (start_dispatch e) ds s2"
    by (simp add: dispatch_matrix_jobs_def Let_def s2_def gone_def s1_def ds_def f_def g_def o_def case_prod_unfold)
  have tok: "tables_ok e s" using inv by (simp add: sched_inv_def)
  have dist: "distinct (map fst (matrix_jobs s))" using tok by (simp add: tables_ok_def bt_ok_distinct)
  have job: "job_ok i (outstanding i s) j" if "bt_get (matrix_jobs s) i = Some j" for i j
    using sched_invD [OF inv that] by simp
  have jb: "bt_get (matrix_jobs s) i = Some j" if "(i, j) \<in> set (matrix_jobs s)" for i j
    using that dist by simp
  have taken: "job_ok i (outstanding i s + mset (map work_of (f j))) (g j)" "\<forall>d\<in>set (f j). dispatch_ok i (job_size j) d"
    "job_size (g j) = job_size j" if "bt_get (matrix_jobs s) i = Some j" for i j
    using take_dispatches_ok [OF job [OF that], of s "f j" "g j"] by (simp_all add: f_def g_def)
  have get1: "bt_get (matrix_jobs s1) i = map_option g (bt_get (matrix_jobs s) i)" for i
    by (simp add: s1_def map_of_update)
  have work: "dispatch_work ds i = (case bt_get (matrix_jobs s) i of None \<Rightarrow> {#} | Some j \<Rightarrow> mset (map work_of (f j)))" for i
    unfolding ds_def by (rule dispatch_work_concat [OF dist]) (use taken(2) jb in \<open>auto simp: dispatch_ok_def\<close>)
  have "tables_ok e s1" unfolding s1_def
  proof (rule tables_ok_jobs [OF tok])
    have "map fst (map (\<lambda>(i, j). (i, g j)) (matrix_jobs s)) = map fst (matrix_jobs s)" by auto
    then show "bt_ok (map (\<lambda>(i, j). (i, g j)) (matrix_jobs s))" using tok by (simp only: tables_ok_def bt_ok_def)
    show "\<exists>j0. bt_get (matrix_jobs s) i = Some j0 \<and> job_size j0 = job_size j"
      if "bt_get (map (\<lambda>(i, j). (i, g j)) (matrix_jobs s)) i = Some j" for i j
      using that taken(3) by (auto simp: map_of_update)
  qed
  then have inv1: "sched_inv e (dispatch_work ds) s1"
    unfolding sched_inv_def jobs_ok_def using taken(1) by (auto simp: get1 work) (simp add: s1_def)
  note f2 = fail_all_inv [OF inv1, of unavailable_message gone, folded s2_def]
  have "\<forall>d\<in>set ds. ready e s2 d"
  proof
    fix d assume "d \<in> set ds"
    then obtain i j where ij: "(i, j) \<in> set (matrix_jobs s)" "d \<in> set (f j)" by (auto simp: ds_def)
    have d: "dispatch_ok i (job_size j) d" "job_size (g j) = job_size j" using taken(2,3) [OF jb [OF ij(1)]] ij(2) by auto
    have "size_allows s2 i (job_size j)" using f2 jb [OF ij(1)] d(2) by (auto simp: size_allows_def get1)
    moreover have "i \<in> issued e s" using tok jb [OF ij(1)] by (auto simp: tables_ok_def)
    moreover have "issued e s2 = issued e s" using f2 by (simp add: issued_def s1_def)
    ultimately show "ready e s2 d" using d(1) by (auto simp: ready_def dispatch_ok_def simp del: validate.simps)
  qed
  from start_all_inv [OF _ this] f2 have fin: "sched_inv e (\<lambda>_. {#}) (fold (start_dispatch e) ds s2)"
    "matrix_jobs (fold (start_dispatch e) ds s2) = matrix_jobs s2" by auto
  from fin(1) show "sched_inv e (\<lambda>_. {#}) (dispatch_matrix_jobs e s)" unfolding def .
  show "no_idle (dispatch_matrix_jobs e s)" unfolding def no_idle_def fin(2)
  proof (intro allI impI notI)
    fix i k assume k: "bt_get (matrix_jobs s2) i = Some k" "in_flight k = 0"
    then have k1: "bt_get (matrix_jobs s1) i = Some k" "i \<notin> set gone" using f2 by (auto split: if_splits)
    then obtain j where j: "bt_get (matrix_jobs s) i = Some j" "k = g j" by (auto simp: get1)
    have "job_unavailable s k"
      by (rule idle_job_unavailable [OF job [OF j(1)], of s "f j"]) (use k(2) j(2) in \<open>simp_all add: f_def g_def\<close>)
    moreover have "(i, k) \<in> set (matrix_jobs s1)" by (rule map_of_SomeD [OF k1(1)])
    moreover have "job_name k = i" using taken(1) [OF j(1)] j(2) by (simp add: job_ok_def)
    ultimately have "i \<in> set gone" by (force simp: gone_def)
    with k1(2) show False by simp
  qed
qed

end
