(* ===== verification/Matrix_System.thy ===== *)
theory Matrix_System
  imports Matrix_Dispatch
begin

text \<open>
  The scheduler as a transition system: commands, answers and failures of remote workers, local
  tasks that run and complete, and changes of resources, in any order. Workers may fail or answer
  anything the scheduler can tell from a result for its rows.
\<close>

section \<open>Answers\<close>

text \<open>
  A worker's answer to a request may be any response, except that a chunk result for the
  very rows that were asked carries their checksum, and that node information answers only a
  request for it.
\<close>

definition answers_ok :: "task_request \<Rightarrow> task_response \<Rightarrow> bool" where
  "answers_ok req r =
     ((\<forall>x n a b. outcome r = Success (RMatrixChunk x n a b) \<and> req_task req = TMatrixChunk n a b \<longrightarrow> x = matrix_chunk n a b) \<and>
      ((\<exists>v pv nm res. outcome r = Success (RNodeInfo v pv nm res)) \<longrightarrow> req_task req = TNodeInfo))"

definition answered_work :: "nat \<Rightarrow> node \<Rightarrow> string \<Rightarrow> work" where
  "answered_work rid s i = (case map_of (outbound_tasks s) rid of None \<Rightarrow> {#} | Some m \<Rightarrow> meta_work i m)"

lemma sum_list_remove:
  fixes f :: "'v \<Rightarrow> 'b::comm_monoid_add"
  assumes "hm_ok m" "map_of m k = Some v"
  shows "sum_list (map (\<lambda>x. f (snd x)) m) = f v + sum_list (map (\<lambda>x. f (snd x)) (map_remove k m))"
  using assms
proof (induction m)
  case (Cons x m)
  obtain k' v' where x: "x = (k', v')" by fastforce
  show ?case
  proof (cases "k' = k")
    case True
    then have "k \<notin> fst ` set m" using Cons.prems(1) x by (simp add: hm_ok_def)
    then have "map_remove k (x # m) = m" using map_remove_absent [of k m] x True by (simp add: map_remove_def)
    with Cons.prems(2) x True show ?thesis by simp
  next
    case False
    with Cons x show ?thesis by (simp add: map_remove_def hm_ok_def ac_simps)
  qed
qed simp

lemma remove_outbound_inv:
  assumes inv: "sched_inv e (\<lambda>_. {#}) s"
  shows "sched_inv e (answered_work rid s) (s\<lparr>outbound_tasks := map_remove rid (outbound_tasks s)\<rparr>)"
proof -
  let ?t = "s\<lparr>outbound_tasks := map_remove rid (outbound_tasks s)\<rparr>"
  have hm: "hm_ok (outbound_tasks s)" using inv by (simp add: sched_inv_def tables_ok_def)
  have o: "outstanding i s = outstanding i ?t + answered_work rid s i" for i
  proof (cases "map_of (outbound_tasks s) rid")
    case None
    then have "map_remove rid (outbound_tasks s) = outbound_tasks s"
      by (intro map_remove_absent) (auto simp: map_of_eq_None_iff)
    with None show ?thesis by (simp add: outstanding_def answered_work_def)
  next
    case (Some m)
    from sum_list_remove [OF hm Some, of "meta_work i"] show ?thesis
      by (simp add: outstanding_def answered_work_def Some ac_simps)
  qed
  have same: "issued e ?t = issued e s" "size_allows ?t = size_allows s"
    by (simp_all add: issued_def size_allows_def fun_eq_iff)
  have "tables_ok e ?t"
    using inv unfolding sched_inv_def tables_ok_def
    by (auto simp: hm_ok_remove set_map_remove meta_ok_def spawned_ok_def queued_ok_def same)
  moreover have "jobs_ok (answered_work rid s) ?t"
    using inv unfolding sched_inv_def jobs_ok_def by (simp add: o)
  ultimately show ?thesis by (simp add: sched_inv_def)
qed

lemma outbound_meta:
  assumes "sched_inv e X s" "map_of (outbound_tasks s) rid = Some m" "meta_job m = Some i" "(rid, p, req) \<in> set (sent s)"
  obtains c n where "meta_worker m = Some (Remote p)" "meta_chunk m = Some c" "1 \<le> unat (attempts c)" "unat (attempts c) \<le> 3"
    "size_allows s i n" "req_task req = TMatrixChunk n (row_start c) (row_end c)" "i \<in> issued e s"
proof -
  have "meta_ok e s (rid, m)"
    using assms(1) map_of_SomeD [OF assms(2)] by (auto simp: sched_inv_def tables_ok_def)
  then obtain p' c n tid where c: "meta_worker m = Some (Remote p')" "meta_chunk m = Some c" "1 \<le> unat (attempts c)"
    "unat (attempts c) \<le> 3" "size_allows s i n" "i \<in> issued e s"
    "(rid, p', \<lparr>req_id = tid, req_task = TMatrixChunk n (row_start c) (row_end c)\<rparr>) \<in> set (sent s)"
    using assms(3) by (auto simp: meta_ok_def)
  have "distinct (map fst (sent s))" using assms(1) by (simp add: sched_inv_def tables_ok_def)
  then have "(p', \<lparr>req_id = tid, req_task = TMatrixChunk n (row_start c) (row_end c)\<rparr>) = (p, req)"
    using c(7) assms(4) by (meson eq_key_imp_eq_value)
  with c that show thesis by auto
qed

lemma no_job_work: "meta_job m = None \<Longrightarrow> meta_work i m = {#}"
  by (simp add: meta_work_def)

lemma sched_inv_peers:
  assumes "sched_inv e X s" "bt_ok pr"
  shows "sched_inv e X (s\<lparr>peer_resources := pr, trace := t\<rparr>)" "sched_inv e X (s\<lparr>peer_resources := pr\<rparr>)"
  using assms unfolding sched_inv_def tables_ok_def jobs_ok_def outstanding_def meta_ok_def spawned_ok_def
    queued_ok_def size_allows_def issued_def by simp_all

lemma handle_response_inv:
  assumes inv: "sched_inv e (\<lambda>_. {#}) s" and sent: "(rid, p, req) \<in> set (sent s)" and ok: "answers_ok req r"
  shows "sched_inv e (\<lambda>_. {#}) (handle_response e rid p r s)"
proof -
  let ?s1 = "s\<lparr>outbound_tasks := map_remove rid (outbound_tasks s)\<rparr>"
  note rm = remove_outbound_inv [OF inv, of rid]
  show ?thesis
  proof (cases "\<exists>v pv nm res. outcome r = Success (RNodeInfo v pv nm res)")
    case True
    then obtain v pv nm res where o: "outcome r = Success (RNodeInfo v pv nm res)" by blast
    have "req_task req = TNodeInfo" using ok o by (simp add: answers_ok_def)
    then have "answered_work rid s = (\<lambda>_. {#})"
    proof (cases "map_of (outbound_tasks s) rid")
      case (Some m)
      show ?thesis
      proof (cases "meta_job m")
        case None
        with Some show ?thesis by (simp add: answered_work_def no_job_work fun_eq_iff)
      next
        case (Some i)
        with outbound_meta [OF inv \<open>map_of (outbound_tasks s) rid = Some m\<close> Some sent] \<open>req_task req = TNodeInfo\<close>
        show ?thesis by auto
      qed
    qed (simp add: answered_work_def fun_eq_iff)
    with rm have base: "sched_inv e (\<lambda>_. {#}) ?s1" by simp
    have pr: "bt_ok (peer_resources s)" using inv by (simp add: sched_inv_def tables_ok_def)
    show ?thesis
    proof (cases res)
      case None
      with base o show ?thesis by (simp add: handle_response_def Let_def)
    next
      case (Some rs)
      define t where "t = (if nm \<noteq> [] then emit ''PEER_NAME'' [peer_text e p, nm]
          (emit ''PEER_VERSION'' [peer_text e p, v, show_word pv] ?s1)
        else emit ''PEER_VERSION'' [peer_text e p, v, show_word pv] ?s1)"
      have "sched_inv e (\<lambda>_. {#}) t" using base by (simp add: t_def)
      moreover have "peer_resources t = peer_resources s" by (simp add: t_def emit_def)
      moreover have "handle_response e rid p r s = t\<lparr>peer_resources := bt_insert p \<lparr>snapshot = rs, received_at = clock s, obs_protocol = pv\<rparr> (peer_resources t),
          trace := emit_resource_event ''PEER_RESOURCES'' (peer_text e p) rs (trace t)\<rparr>"
        using o Some by (simp add: handle_response_def Let_def t_def)
      ultimately show ?thesis using sched_inv_peers(1) bt_ok_insert [OF pr] by simp
    qed
  next
    case False
    define s2 where "s2 = report e p r ?s1"
    have i2: "sched_inv e (answered_work rid s) s2" using rm by (simp add: s2_def)
    have eq: "handle_response e rid p r s = (case map_of (outbound_tasks s) rid of None \<Rightarrow> s2
        | Some m \<Rightarrow> (case (meta_job m, meta_worker m, meta_chunk m) of
            (Some i, Some w, Some c) \<Rightarrow> complete_matrix_chunk e i w (Some c) r s2 | _ \<Rightarrow> s2))"
      unfolding handle_response_def Let_def s2_def using False by (simp split: task_outcome.splits task_result.splits)
    show ?thesis
    proof (cases "map_of (outbound_tasks s) rid")
      case None
      with i2 eq show ?thesis by (simp add: answered_work_def [abs_def])
    next
      case (Some m)
      show ?thesis
      proof (cases "meta_job m")
        case None
        with i2 eq Some show ?thesis by (simp add: answered_work_def [abs_def] no_job_work)
      next
        case job: (Some i)
        from outbound_meta [OF inv Some job sent] obtain c n where m: "meta_worker m = Some (Remote p)" "meta_chunk m = Some c"
          "unat (attempts c) \<le> 3" "size_allows s i n" "req_task req = TMatrixChunk n (row_start c) (row_end c)" by metis
        have X: "answered_work rid s k = (if k = i then {#(Remote p, plan_rows c)#} else {#})" for k
          by (simp add: answered_work_def Some meta_work_def job m)
        have hon: "(a, b) = plan_rows c \<and> x = matrix_chunk k a b"
          if "outcome r = Success (RMatrixChunk x k a b)" "bt_get (matrix_jobs s2) i = Some j" "k = job_size j"
            "Some c = None \<or> (a, b) = plan_rows c" for x k a b j
        proof -
          have "k = n" using that(2,3) m(4) by (simp add: size_allows_def s2_def)
          with ok that m(5) show ?thesis by (auto simp: answers_ok_def plan_rows_def)
        qed
        have "sched_inv e (\<lambda>_. {#}) (complete_matrix_chunk e i (Remote p) (Some c) r s2)"
          by (rule complete_inv [OF i2 _ _ _ hon]) (use m(3) in \<open>auto simp: X\<close>)
        with eq Some job m show ?thesis by simp
      qed
    qed
  qed
qed

lemma handle_outbound_failure_inv:
  assumes inv: "sched_inv e (\<lambda>_. {#}) s" and sent: "(rid, p, req) \<in> set (sent s)"
  shows "sched_inv e (\<lambda>_. {#}) (handle_outbound_failure e rid p msg s)"
proof (cases "map_of (outbound_tasks s) rid")
  case None
  with inv show ?thesis by (simp add: handle_outbound_failure_def)
next
  case (Some m)
  define s2 where "s2 = (if tracked m then emit ''TASK_FAILED'' [peer_text e p, meta_id m, ''0'', msg] (s\<lparr>outbound_tasks := map_remove rid (outbound_tasks s)\<rparr>)
      else emit ''PEER_POLL_FAILED'' [peer_text e p, msg] (s\<lparr>outbound_tasks := map_remove rid (outbound_tasks s)\<rparr>))"
  have i2: "sched_inv e (answered_work rid s) s2" using remove_outbound_inv [OF inv] by (simp add: s2_def)
  have eq: "handle_outbound_failure e rid p msg s = (case (meta_job m, meta_chunk m) of
      (Some i, Some c) \<Rightarrow> retry_matrix_chunk e i (Remote p) c (''connection to '' @ peer_text e p @ '' failed: '' @ msg) s2 | _ \<Rightarrow> s2)"
    unfolding handle_outbound_failure_def Let_def s2_def by (simp add: Some)
  show ?thesis
  proof (cases "meta_job m")
    case None
    with i2 eq Some show ?thesis by (simp add: answered_work_def [abs_def] no_job_work)
  next
    case job: (Some i)
    from outbound_meta [OF inv Some job sent] obtain c where m: "meta_worker m = Some (Remote p)" "meta_chunk m = Some c"
      "unat (attempts c) \<le> 3" by metis
    have X: "answered_work rid s k = (if k = i then {#(Remote p, plan_rows c)#} else {#})" for k
      by (simp add: answered_work_def Some meta_work_def job m)
    have "sched_inv e (\<lambda>_. {#}) (retry_matrix_chunk e i (Remote p) c t s2)" for t
      by (rule retry_inv [OF i2]) (use m(3) in \<open>auto simp: X\<close>)
    with eq job m show ?thesis by simp
  qed
qed

section \<open>Local tasks\<close>

lemma run_spawned_inv:
  assumes inv: "sched_inv e (\<lambda>_. {#}) s" and k: "k < length (spawned s)"
  shows "sched_inv e (\<lambda>_. {#}) (run_spawned e k ms s)"
proof -
  let ?t = "spawned s ! k" and ?s' = "run_spawned e k ms s"
  define c where "c = \<lparr>cl_peer = local_peer e, cl_response = execute (sha256_hex e) ms (sp_request ?t), cl_job = sp_job ?t, cl_worker = sp_worker ?t\<rparr>"
  have f: "matrix_jobs ?s' = matrix_jobs s" "outbound_tasks ?s' = outbound_tasks s" "peer_resources ?s' = peer_resources s" "sent ?s' = sent s"
    "next_request ?s' = next_request s" "spawned ?s' = take k (spawned s) @ drop (Suc k) (spawned s)" "local_queue ?s' = local_queue s @ [c]"
    "issued e ?s' = issued e s" "size_allows ?s' = size_allows s"
    by (simp_all add: run_spawned_def queue_local_def Let_def c_def issued_def size_allows_def fun_eq_iff)
  have sp: "spawned s = take k (spawned s) @ ?t # drop (Suc k) (spawned s)" using k by (simp add: id_take_nth_drop)
  have sub: "set (spawned ?s') \<subseteq> set (spawned s)" unfolding f using set_take_subset set_drop_subset by fastforce
  have tok: "spawned_ok e s ?t" using inv k by (simp add: sched_inv_def tables_ok_def)
  have run: "outcome (cl_response c) = Success (RMatrixChunk (matrix_chunk n a b) n a b)"
    if "req_task (sp_request ?t) = TMatrixChunk n a b" "validate (TMatrixChunk n a b) = None" for n a b
    using that by (simp add: c_def execute_def response_success_def run_task_def del: validate.simps)
  have "queued_ok e ?s' c"
    using tok run unfolding queued_ok_def spawned_ok_def f by (auto simp: c_def simp del: validate.simps)
  moreover have "meta_ok e ?s' x = meta_ok e s x" "spawned_ok e ?s' y = spawned_ok e s y" "queued_ok e ?s' z = queued_ok e s z" for x y z
    by (simp_all add: meta_ok_def spawned_ok_def queued_ok_def f)
  ultimately have "tables_ok e ?s'"
    using inv sub unfolding sched_inv_def tables_ok_def by (auto simp: f)
  moreover have "outstanding i ?s' = outstanding i s" for i
  proof -
    have w: "queued_work i c = spawned_work i ?t"
    proof (cases "sp_job ?t")
      case None
      then show ?thesis by (simp add: queued_work_def spawned_work_def c_def)
    next
      case (Some j)
      with tok obtain n a b where "req_task (sp_request ?t) = TMatrixChunk n a b" "validate (TMatrixChunk n a b) = None"
        by (auto simp: spawned_ok_def simp del: validate.simps)
      with run Some show ?thesis by (simp add: queued_work_def spawned_work_def c_def)
    qed
    have "sum_list (map (spawned_work i) (spawned s)) =
        spawned_work i ?t + sum_list (map (spawned_work i) (take k (spawned s) @ drop (Suc k) (spawned s)))"
      by (subst sp) (simp add: ac_simps)
    with w show ?thesis by (simp add: outstanding_def f ac_simps)
  qed
  ultimately show ?thesis using inv unfolding sched_inv_def jobs_ok_def by (simp add: f)
qed

lemma deliver_local_inv:
  assumes inv: "sched_inv e (\<lambda>_. {#}) s" and "no_idle s"
  shows "sched_inv e (\<lambda>_. {#}) (deliver_local e s) \<and> no_idle (deliver_local e s)"
proof (cases "local_queue s")
  case Nil
  with assms show ?thesis by (simp add: deliver_local_def)
next
  case (Cons c rest)
  define s1 where "s1 = report e (cl_peer c) (cl_response c) (s\<lparr>local_queue := rest\<rparr>)"
  have same: "issued e (s\<lparr>local_queue := rest\<rparr>) = issued e s" "size_allows (s\<lparr>local_queue := rest\<rparr>) = size_allows s"
    by (simp_all add: issued_def size_allows_def fun_eq_iff)
  have o: "outstanding i s = outstanding i (s\<lparr>local_queue := rest\<rparr>) + queued_work i c" for i
    by (simp add: outstanding_def Cons ac_simps)
  have "tables_ok e (s\<lparr>local_queue := rest\<rparr>)"
    using inv Cons unfolding sched_inv_def tables_ok_def
    by (auto simp: meta_ok_def spawned_ok_def queued_ok_def same)
  moreover have "jobs_ok (\<lambda>i. queued_work i c) (s\<lparr>local_queue := rest\<rparr>)"
    using inv unfolding sched_inv_def jobs_ok_def by (simp add: o)
  ultimately have "sched_inv e (\<lambda>i. queued_work i c) (s\<lparr>local_queue := rest\<rparr>)" by (simp only: sched_inv_def)
  then have i1: "sched_inv e (\<lambda>i. queued_work i c) s1" by (simp add: s1_def)
  have cok: "queued_ok e s c" using inv Cons by (simp add: sched_inv_def tables_ok_def)
  show ?thesis
  proof (cases "cl_job c")
    case None
    then have "deliver_local e s = s1" by (simp add: deliver_local_def Cons s1_def Let_def split: option.splits)
    moreover have "(\<lambda>i. queued_work i c) = (\<lambda>_. {#})" by (simp add: queued_work_def None fun_eq_iff)
    moreover have "no_idle s1" using assms(2) by (simp add: no_idle_def s1_def)
    ultimately show ?thesis using i1 by simp
  next
    case (Some i)
    with cok obtain n a b where c: "cl_worker c = Some Local" "size_allows s i n"
      "outcome (cl_response c) = Success (RMatrixChunk (matrix_chunk n a b) n a b)" by (auto simp: queued_ok_def)
    have eq: "deliver_local e s = dispatch_matrix_jobs e (complete_matrix_chunk e i Local None (cl_response c) s1)"
      by (simp add: deliver_local_def Cons s1_def Let_def Some c)
    have X: "queued_work k c = (if k = i then {#(Local, (a, b))#} else {#})" for k
      by (simp add: queued_work_def Some c)
    have "sched_inv e (\<lambda>_. {#}) (complete_matrix_chunk e i Local None (cl_response c) s1)"
      by (rule complete_inv [OF i1]) (use c in \<open>auto simp: X\<close>)
    with dispatch_inv eq show ?thesis by simp
  qed
qed

section \<open>Commands and other changes\<close>

lemma counter_less: "a \<noteq> - 1 \<Longrightarrow> a < a + 1" for a :: u64
proof -
  assume "a \<noteq> - 1"
  then have "unat a \<noteq> unat (- 1 :: u64)" using unsigned_word_eqI by blast
  then have "unat a \<noteq> 2 ^ 64 - 1" by (simp add: unat_max_word)
  moreover have "unat a < 2 ^ LENGTH(64)" by (rule unsigned_less)
  ultimately have "unat a + 1 < 2 ^ LENGTH(64)" by simp
  from unat_inc_small [OF this] show ?thesis by (simp add: word_less_nat_alt)
qed

lemma issued_step: "request_counter s \<noteq> - 1 \<Longrightarrow> request_counter t = request_counter s + 1 \<Longrightarrow>
    issued e s \<subseteq> issued e t \<and> peer_text e (local_peer e) @ ''-distributed-'' @ show_word (request_counter s) \<in> issued e t"
proof -
  assume a: "request_counter s \<noteq> - 1" "request_counter t = request_counter s + 1"
  then have "request_counter s < request_counter t" using counter_less by simp
  with less_trans show ?thesis unfolding issued_def by blast
qed

lemma sched_inv_counter:
  assumes "sched_inv e X s" "request_counter s \<noteq> - 1"
  shows "sched_inv e X (s\<lparr>request_counter := request_counter s + 1\<rparr>)"
proof -
  let ?t = "s\<lparr>request_counter := request_counter s + 1\<rparr>"
  from issued_step [OF assms(2), of ?t e] have iss: "issued e s \<subseteq> issued e ?t" by simp
  have sz: "size_allows ?t = size_allows s" by (simp add: size_allows_def fun_eq_iff)
  have "meta_ok e s x \<Longrightarrow> meta_ok e ?t x" for x
    using iss unfolding meta_ok_def sz by fastforce
  moreover have "spawned_ok e s x \<Longrightarrow> spawned_ok e ?t x" "queued_ok e s y \<Longrightarrow> queued_ok e ?t y" for x y
    using iss unfolding spawned_ok_def queued_ok_def sz by blast+
  ultimately show ?thesis
    using assms(1) iss unfolding sched_inv_def tables_ok_def jobs_ok_def outstanding_def by auto
qed

end
