(* ===== verification/Matrix_Props.thy ===== *)
theory Matrix_Props
  imports Matrix_System
begin

text \<open>The scheduler's step relation, its invariant over every run, and the properties of distributed jobs.\<close>

section \<open>New jobs and new tasks\<close>

lemma sum_list_empty: "(\<And>x. x \<in> set xs \<Longrightarrow> f x = {#}) \<Longrightarrow> sum_list (map f xs) = {#}"
  by (induction xs) auto

lemma outstanding_unissued:
  assumes "tables_ok e s" "i \<notin> issued e s"
  shows "outstanding i s = {#}"
proof -
  have "meta_work i (snd x) = {#}" if "x \<in> set (outbound_tasks s)" for x
  proof -
    have "meta_ok e s x" using assms(1) that by (simp add: tables_ok_def)
    then have "meta_job (snd x) \<noteq> Some i" using assms(2) by (auto simp: meta_ok_def)
    then show ?thesis by (auto simp: meta_work_def split: option.splits)
  qed
  moreover have "spawned_work i t = {#}" if "t \<in> set (spawned s)" for t
  proof -
    have "spawned_ok e s t" using assms(1) that by (simp add: tables_ok_def)
    then have "sp_job t \<noteq> Some i" using assms(2) by (auto simp: spawned_ok_def)
    then show ?thesis by (auto simp: spawned_work_def split: option.splits task.splits)
  qed
  moreover have "queued_work i c = {#}" if "c \<in> set (local_queue s)" for c
  proof -
    have "queued_ok e s c" using assms(1) that by (simp add: tables_ok_def)
    then have "cl_job c \<noteq> Some i" using assms(2) by (auto simp: queued_ok_def)
    then show ?thesis by (auto simp: queued_work_def split: option.splits task_outcome.splits task_result.splits)
  qed
  ultimately show ?thesis unfolding outstanding_def by (simp add: sum_list_empty)
qed

lemma new_id_unissued: "peer_text e (local_peer e) @ ''-distributed-'' @ show_word (request_counter s) \<notin> issued e s"
proof
  assume "peer_text e (local_peer e) @ ''-distributed-'' @ show_word (request_counter s) \<in> issued e s"
  then obtain k where "k < request_counter s" "show_word k = show_word (request_counter s)" by (auto simp: issued_def)
  then show False using decimal_u64.encode_inj [of k "request_counter s"] by simp
qed

lemma new_job_inv:
  assumes inv: "sched_inv e (\<lambda>_. {#}) s" and c: "request_counter s \<noteq> - 1"
    and i: "i = peer_text e (local_peer e) @ ''-distributed-'' @ show_word (request_counter s)"
    and j: "job_ok i {#} j"
  shows "sched_inv e (\<lambda>_. {#}) (put_job i j (s\<lparr>request_counter := request_counter s + 1\<rparr>))"
proof -
  let ?t = "put_job i j (s\<lparr>request_counter := request_counter s + 1\<rparr>)"
  have tok: "tables_ok e s" using inv by (simp add: sched_inv_def)
  have new: "i \<notin> issued e s" unfolding i by (rule new_id_unissued)
  have rc: "request_counter ?t = request_counter s + 1" by (simp add: put_job_def)
  from issued_step [OF c rc] have iss: "issued e s \<subseteq> issued e ?t" "i \<in> issued e ?t" by (simp_all add: i)
  have f: "matrix_jobs ?t = bt_insert i j (matrix_jobs s)" "outbound_tasks ?t = outbound_tasks s" "peer_resources ?t = peer_resources s"
    "sent ?t = sent s" "next_request ?t = next_request s" "spawned ?t = spawned s" "local_queue ?t = local_queue s"
    by (simp_all add: put_job_def)
  have sz: "size_allows s k n \<Longrightarrow> k \<in> issued e s \<Longrightarrow> size_allows ?t k n" for k n
    using new by (auto simp: size_allows_def f map_of_bt_insert)
  have "meta_ok e s x \<Longrightarrow> meta_ok e ?t x" for x
    using iss sz unfolding meta_ok_def f by fastforce
  moreover have "spawned_ok e s x \<Longrightarrow> spawned_ok e ?t x" "queued_ok e s y \<Longrightarrow> queued_ok e ?t y" for x y
    using iss sz unfolding spawned_ok_def queued_ok_def by (meson subsetD)+
  ultimately have "tables_ok e ?t"
    using tok iss unfolding tables_ok_def f by (auto simp: bt_ok_insert map_of_bt_insert split: if_splits)
  moreover have "outstanding k ?t = outstanding k s" for k by (simp add: outstanding_def f)
  ultimately show ?thesis
    using inv j outstanding_unissued [OF tok new] unfolding sched_inv_def jobs_ok_def
    by (auto simp: f map_of_bt_insert split: if_splits)
qed

lemma eligible_distinct:
  assumes "bt_ok (peer_resources s)"
  shows "distinct (eligible_matrix_workers s)"
proof -
  have d: "distinct (map fst (filter P (peer_resources s)))" for P
    using bt_ok_distinct [OF assms] by (simp add: distinct_map_filter)
  have "distinct (map (\<lambda>x. Remote (fst x)) (filter P (peer_resources s)))" for P
    using d [of P] by (auto simp: distinct_map inj_on_def)
  then show ?thesis
    by (auto simp: eligible_matrix_workers_def Let_def case_prod_unfold o_def)
qed

lemma start_distributed_inv:
  assumes inv: "sched_inv e (\<lambda>_. {#}) s" and c: "request_counter s \<noteq> - 1"
  shows "sched_inv e (\<lambda>_. {#}) (start_distributed_matrix e n rows s)"
proof (cases "params_ok n rows")
  case False
  with inv show ?thesis by (simp add: start_distributed_matrix_def params_ok_def)
next
  case True
  define s1 where "s1 = s\<lparr>request_counter := request_counter s + 1\<rparr>"
  have i1: "sched_inv e (\<lambda>_. {#}) s1" unfolding s1_def by (rule sched_inv_counter [OF inv c])
  define i where "i = peer_text e (local_peer e) @ ''-distributed-'' @ show_word (request_counter s)"
  show ?thesis
  proof (cases "eligible_matrix_workers s = []")
    case w: True
    with True i1 show ?thesis
      by (simp add: start_distributed_matrix_def params_ok_def next_sequence_def Let_def s1_def)
  next
    case w: False
    define j where "j = \<lparr>job_name = i, job_size = n, total_chunks = div_ceil n rows, completed_chunks = 0, job_checksum = 0,
               started_at = clock s, pending = matrix_plan n rows, available_workers = eligible_matrix_workers s, in_flight = 0\<rparr>"
    have "bt_ok (peer_resources s)" using inv by (simp add: sched_inv_def tables_ok_def)
    then have "job_ok i {#} j" unfolding j_def by (intro start_ok [OF True] eligible_distinct)
    from new_job_inv [OF inv c i_def this] have p: "sched_inv e (\<lambda>_. {#}) (put_job i j s1)" by (simp add: s1_def)
    have swap: "put_job i j (emit ev fs t) = emit ev fs (put_job i j t)" for ev fs t by (simp add: put_job_def emit_def)
    have "start_distributed_matrix e n rows s = put_job i j (emit ''MATRIX_PLAN'' [i, show_word n, show_word (div_ceil n rows), show_nat (length (eligible_matrix_workers s))]
       (emit ''TASK_STARTED'' [i, ''Distributed Matrix '' @ show_word n @ ''x'' @ show_word n @ '' ('' @ show_word (div_ceil n rows) @ '' chunks)'',
                 ''swarm'', ''orchestrator''] s1))"
      using True w by (simp add: start_distributed_matrix_def params_ok_def next_sequence_def Let_def s1_def i_def j_def)
    with p show ?thesis by (simp add: swap)
  qed
qed

lemma submit_task_inv:
  assumes "sched_inv e (\<lambda>_. {#}) s" "request_counter s \<noteq> - 1"
  shows "sched_inv e (\<lambda>_. {#}) (submit_task e p t s) \<and> matrix_jobs (submit_task e p t s) = matrix_jobs s"
proof -
  define s1 where "s1 = s\<lparr>request_counter := request_counter s + 1\<rparr>"
  have i1: "sched_inv e (\<lambda>_. {#}) s1" unfolding s1_def by (rule sched_inv_counter [OF assms])
  define r where "r = \<lparr>req_id = peer_text e (local_peer e) @ ''-'' @ show_word (request_counter s), req_task = t\<rparr>"
  define m where "m = \<lparr>meta_id = peer_text e (local_peer e) @ ''-'' @ show_word (request_counter s), tracked = (t \<noteq> TNodeInfo),
     meta_job = None, meta_worker = None, meta_chunk = None\<rparr>"
  have tok: "tables_ok e s1" using i1 by (simp add: sched_inv_def)
  have none: "meta_job m = Some i \<Longrightarrow> P" for i P by (simp add: m_def)
  note st = tables_ok_sent [OF tok, of m p r, OF none]
  have "sched_inv e (\<lambda>_. {#}) (sent_state p r m s1)"
    using i1 st unfolding sched_inv_def jobs_ok_def by (simp add: no_job_work m_def)
  moreover have "submit_task e p t s = (if t \<noteq> TNodeInfo then task_started e (req_id r) (task_description t) p ''outbound'' (sent_state p r m s1)
      else sent_state p r m s1)"
    by (simp add: submit_task_def next_sequence_def sent_state_def send_request_def Let_def s1_def r_def m_def)
  moreover have "matrix_jobs (sent_state p r m s1) = matrix_jobs s"
    by (simp add: sent_state_def send_request_def add_outbound_def s1_def)
  ultimately show ?thesis by simp
qed

lemma submit_local_inv:
  assumes "sched_inv e (\<lambda>_. {#}) s" "request_counter s \<noteq> - 1"
  shows "sched_inv e (\<lambda>_. {#}) (submit_local_task e t s)"
proof -
  define s1 where "s1 = s\<lparr>request_counter := request_counter s + 1\<rparr>"
  have i1: "sched_inv e (\<lambda>_. {#}) s1" unfolding s1_def by (rule sched_inv_counter [OF assms])
  define l where "l = \<lparr>sp_request = \<lparr>req_id = peer_text e (local_peer e) @ ''-local-'' @ show_word (request_counter s), req_task = t\<rparr>,
     sp_job = None, sp_worker = None\<rparr>"
  define t1 where "t1 = task_started e (req_id (sp_request l)) (task_description t) (local_peer e) ''local'' s1"
  have i2: "sched_inv e (\<lambda>_. {#}) t1" using i1 by (simp add: t1_def)
  then have tok: "tables_ok e t1" by (simp add: sched_inv_def)
  have "spawned_ok e t1 l" by (simp add: spawned_ok_def l_def)
  note st = tables_ok_spawn [OF tok this]
  have "spawned_work i l = {#}" for i by (simp add: spawned_work_def l_def)
  then have "sched_inv e (\<lambda>_. {#}) (spawn_task l t1)"
    using i2 st unfolding sched_inv_def jobs_ok_def by simp
  moreover have "submit_local_task e t s = spawn_task l t1"
    by (simp add: submit_local_task_def next_sequence_def Let_def s1_def l_def t1_def)
  ultimately show ?thesis by simp
qed

lemma queue_plain_inv:
  assumes "sched_inv e X s" "cl_job c = None"
  shows "sched_inv e X (queue_local c s)"
proof -
  have f: "issued e (queue_local c s) = issued e s" "size_allows (queue_local c s) = size_allows s"
    by (simp_all add: queue_local_def issued_def size_allows_def fun_eq_iff)
  have "queued_work i c = {#}" for i by (simp add: queued_work_def assms(2))
  then have "outstanding i (queue_local c s) = outstanding i s" for i by (simp add: outstanding_def queue_local_def)
  then show ?thesis
    using assms unfolding sched_inv_def jobs_ok_def tables_ok_def
    by (auto simp: queue_local_def meta_ok_def spawned_ok_def queued_ok_def f [unfolded queue_local_def])
qed

lemma sched_inv_trace [simp]: "sched_inv e X (s\<lparr>trace := t\<rparr>) = sched_inv e X s"
  by (rule sched_inv_same) (simp add: same_tables_def)

lemma place_inv:
  assumes inv: "sched_inv e (\<lambda>_. {#}) s" and c: "request_counter s \<noteq> - 1"
  shows "sched_inv e (\<lambda>_. {#}) (place_cpu_task e t v s)"
proof -
  have pl: "sched_inv e (\<lambda>_. {#}) (s\<lparr>trace := x\<rparr>)" "request_counter (s\<lparr>trace := x\<rparr>) \<noteq> - 1" for x
    using inv c by simp_all
  have "sched_inv e (\<lambda>_. {#}) (s\<lparr>request_counter := request_counter s + 1\<rparr>)" by (rule sched_inv_counter [OF inv c])
  then show ?thesis
    using inv submit_task_inv [OF pl] submit_local_inv [OF pl]
    by (auto simp: place_cpu_task_def Let_def next_sequence_def intro!: queue_plain_inv split: option.splits)
qed

section \<open>Runs\<close>

inductive matrix_step :: "node_env \<Rightarrow> node \<Rightarrow> node \<Rightarrow> bool" for e where
  start: "request_counter s \<noteq> - 1 \<Longrightarrow>
    matrix_step e s (dispatch_matrix_jobs e (start_distributed_matrix e n rows s))"
| place: "request_counter s \<noteq> - 1 \<Longrightarrow> matrix_step e s (dispatch_matrix_jobs e (place_cpu_task e t v s))"
| submit: "request_counter s \<noteq> - 1 \<Longrightarrow> matrix_step e s (submit_task e p t s)"
| run: "k < length (spawned s) \<Longrightarrow> matrix_step e s (run_spawned e k ms s)"
| deliver: "matrix_step e s (deliver_local e s)"
| response: "(rid, p, req) \<in> set (sent s) \<Longrightarrow> answers_ok req r \<Longrightarrow>
    matrix_step e s (dispatch_matrix_jobs e (handle_response e rid p r s))"
| failure: "(rid, p, req) \<in> set (sent s) \<Longrightarrow>
    matrix_step e s (dispatch_matrix_jobs e (handle_outbound_failure e rid p msg s))"
| refresh: "bt_ok pr \<Longrightarrow> clock s \<le> c \<Longrightarrow>
    matrix_step e s (dispatch_matrix_jobs e (s\<lparr>clock := c, own_resources := r, peer_resources := pr\<rparr>))"
| observe: "bt_ok pr \<Longrightarrow> clock s \<le> c \<Longrightarrow> matrix_step e s (s\<lparr>clock := c, own_resources := r, peer_resources := pr\<rparr>)"
| dispatch: "matrix_step e s (dispatch_matrix_jobs e s)"

inductive_cases matrix_stepE: "matrix_step e s t"

definition fresh_node :: "node \<Rightarrow> bool" where
  "fresh_node s = (matrix_jobs s = [] \<and> outbound_tasks s = [] \<and> peer_resources s = [] \<and> sent s = [] \<and>
     spawned s = [] \<and> local_queue s = [])"

abbreviation matrix_reach :: "node_env \<Rightarrow> node \<Rightarrow> bool" where
  "matrix_reach e \<equiv> reachable fresh_node (matrix_step e)"

lemmas matrix_reach_step = reachable.step [where start = fresh_node and step = "matrix_step e" for e]

lemma refresh_inv:
  assumes "sched_inv e X s" "bt_ok pr"
  shows "sched_inv e X (s\<lparr>clock := c, own_resources := r, peer_resources := pr\<rparr>)"
proof -
  have "same_tables (s\<lparr>peer_resources := pr\<rparr>) (s\<lparr>clock := c, own_resources := r, peer_resources := pr\<rparr>)"
    by (simp add: same_tables_def)
  from sched_inv_same [OF this] sched_inv_peers(2) [OF assms] show ?thesis by simp
qed

lemma run_spawned_jobs: "matrix_jobs (run_spawned e k ms s) = matrix_jobs s"
  by (simp add: run_spawned_def queue_local_def Let_def)

lemma step_inv:
  assumes "matrix_step e s t" "sched_inv e (\<lambda>_. {#}) s" "no_idle s"
  shows "sched_inv e (\<lambda>_. {#}) t \<and> no_idle t"
  using assms
proof (induction rule: matrix_step.induct)
  case (start s n rows)
  then show ?case using dispatch_inv start_distributed_inv by blast
next
  case (place s ta v)
  then show ?case using dispatch_inv place_inv by blast
next
  case (submit s p ta)
  then show ?case using submit_task_inv [of e s p ta] by (simp add: no_idle_def)
next
  case (run k s ms)
  then show ?case using run_spawned_inv by (simp add: no_idle_def run_spawned_jobs)
next
  case (deliver s)
  then show ?case by (rule deliver_local_inv)
next
  case (response rid p req s r)
  then show ?case using dispatch_inv handle_response_inv by blast
next
  case (failure rid p req s msg)
  then show ?case using dispatch_inv handle_outbound_failure_inv by blast
next
  case (refresh pr s c r)
  then show ?case using dispatch_inv refresh_inv by blast
next
  case (observe pr s c r)
  then show ?case using refresh_inv by (simp add: no_idle_def)
next
  case (dispatch s)
  then show ?case using dispatch_inv by blast
qed

interpretation scheduler_machine: machine_invariant fresh_node "matrix_step e" "\<lambda>s. sched_inv e (\<lambda>_. {#}) s \<and> no_idle s" for e
proof unfold_locales
  fix s assume "fresh_node s"
  then show "sched_inv e (\<lambda>_. {#}) s \<and> no_idle s"
    by (simp add: fresh_node_def sched_inv_def tables_ok_def jobs_ok_def no_idle_def bt_ok_def hm_ok_def)
qed (use step_inv in blast)

lemmas reach_inv = scheduler_machine.run_inv

section \<open>A small run for the witnesses\<close>

definition idle_resources :: resource_snapshot where
  "idle_resources = \<lparr>observed_at_unix_ms = 0, os = [], arch = [], cpu_brand = [], physical_cores = 1, logical_cores = 1,
     total_memory_bytes = 0, available_memory_bytes = 0, host_cpu_percent = Fin 0, agent_cpu_percent = Fin 0,
     agent_memory_bytes = 0, active_tasks = 0, cpu_limit_percent = Fin 100, memory_limit_percent = Fin 100,
     allocatable_memory_bytes = 0, calibrated_cpu_score = Fin 10, snapshot_cpu_score = Fin 10,
     contribution_paused = True, battery_percent = None, charging = None, thermal_status = None, unmetered_network = None\<rparr>"

definition demo_env :: node_env where
  "demo_env = \<lparr>local_peer = PeerId 0, peer_text = (\<lambda>p. case p of PeerId n \<Rightarrow> ''p'' @ show_nat n), sha256_hex = (\<lambda>t. t)\<rparr>"

definition empty_node :: node where
  "empty_node = \<lparr>trace = \<lparr>printed = [], mobile_events = []\<rparr>, clock = 0, request_counter = 1, own_resources = idle_resources,
     peer_resources = [], outbound_tasks = [], matrix_jobs = [], next_request = 0, sent = [], spawned = [], local_queue = [],
     running_tasks = 0\<rparr>"

definition peer_ready :: peer_resource_observation where
  "peer_ready = \<lparr>snapshot = idle_resources\<lparr>contribution_paused := False\<rparr>, received_at = 0, obs_protocol = 4\<rparr>"

definition demo_node :: node where
  "demo_node = empty_node\<lparr>peer_resources := [(PeerId 1, peer_ready)]\<rparr>"

definition demo_chunk :: matrix_chunk_plan where
  "demo_chunk = \<lparr>chunk_index = 0, row_start = 0, row_end = 16, attempts = 0\<rparr>"

definition demo_job :: matrix_job where
  "demo_job = \<lparr>job_name = ''p0-distributed-1'', job_size = 16, total_chunks = 1, completed_chunks = 0, job_checksum = 0,
     started_at = 0, pending = [], available_workers = [], in_flight = 1\<rparr>"

text \<open>One job of one chunk, sent to the only peer.\<close>

definition demo_started :: node where
  "demo_started = dispatch_matrix_jobs demo_env (start_distributed_matrix demo_env 16 16 demo_node)"

lemma demo_reach: "matrix_reach demo_env demo_started"
proof -
  have "dispatch_matrix_jobs demo_env (empty_node\<lparr>clock := 0, own_resources := idle_resources, peer_resources := [(PeerId 1, peer_ready)]\<rparr>) = demo_node"
    by (simp add: dispatch_matrix_jobs_def empty_node_def demo_node_def)
  moreover have "matrix_step demo_env empty_node (dispatch_matrix_jobs demo_env
      (empty_node\<lparr>clock := 0, own_resources := idle_resources, peer_resources := [(PeerId 1, peer_ready)]\<rparr>))"
    by (rule matrix_step.refresh) (simp_all add: bt_ok_def empty_node_def)
  moreover have "matrix_reach demo_env empty_node"
    by (rule reachable.init) (simp add: fresh_node_def empty_node_def)
  ultimately have "matrix_reach demo_env demo_node" by (simp only: matrix_reach_step)
  moreover have "matrix_step demo_env demo_node demo_started"
    unfolding demo_started_def by (rule matrix_step.start) (simp add: demo_node_def empty_node_def)
  ultimately show ?thesis by (rule matrix_reach_step)
qed

end
