(* ===== verification/Artifact_Inv.thy ===== *)
theory Artifact_Inv
  imports Artifacts
begin

text \<open>
  The invariant of the artifact client: the blocks a download counts in flight are requests that are
  really out, never more than four, some provider is still usable, and some request for the artifact is out,
  so that a download cannot wait for nothing. \<open>bound\<close> is the slack while an answered request is being booked.
\<close>

section \<open>Counting requests\<close>

definition is_block_of :: "content_id \<Rightarrow> nat \<times> artifact_outbound \<Rightarrow> bool" where
  "is_block_of i r = (case snd r of OBlock p k b \<Rightarrow> k = i | _ \<Rightarrow> False)"

definition concerns :: "content_id \<Rightarrow> nat \<times> artifact_outbound \<Rightarrow> bool" where
  "concerns i r = (snd (artifact_request_context (snd r)) = Some i)"

definition blocks_out :: "content_id \<Rightarrow> exchange \<Rightarrow> nat" where
  "blocks_out i x = length (filter (is_block_of i) (requests x))"

definition requests_out :: "content_id \<Rightarrow> exchange \<Rightarrow> nat" where
  "requests_out i x = length (filter (concerns i) (requests x))"

definition table_ok :: "exchange \<Rightarrow> bool" where
  "table_ok x = (bt_ok (downloads x) \<and> hm_ok (requests x) \<and> (\<forall>r\<in>set (requests x). fst r < next_ask x))"

definition counts_ok :: "nat \<Rightarrow> content_id \<Rightarrow> exchange \<Rightarrow> artifact_download \<Rightarrow> bool" where
  "counts_ok slack i x d = (dl_in_flight d \<le> 4 \<and> dl_in_flight d \<le> blocks_out i x + slack)"

definition download_ok :: "content_id \<Rightarrow> exchange \<Rightarrow> artifact_download \<Rightarrow> bool" where
  "download_ok i x d = (counts_ok 0 i x d \<and> 0 < active_provider_count d \<and> 0 < requests_out i x)"

definition others_ok :: "content_id \<Rightarrow> exchange \<Rightarrow> bool" where
  "others_ok i x = (table_ok x \<and> (\<forall>k d. bt_get (downloads x) k = Some d \<and> k \<noteq> i \<longrightarrow> download_ok k x d))"

definition exchange_ok :: "exchange \<Rightarrow> bool" where
  "exchange_ok x = (table_ok x \<and> (\<forall>k d. bt_get (downloads x) k = Some d \<longrightarrow> download_ok k x d))"

lemma exchange_ok_others: "exchange_ok x = (others_ok i x \<and> (\<forall>d. bt_get (downloads x) i = Some d \<longrightarrow> download_ok i x d))"
  unfolding exchange_ok_def others_ok_def by blast

lemma block_concerns: "is_block_of i r \<Longrightarrow> concerns i r"
  by (auto simp: is_block_of_def concerns_def artifact_request_context_def split: artifact_outbound.splits)

lemma blocks_out_le: "blocks_out i x \<le> requests_out i x"
proof -
  have "length (filter (is_block_of i) m) \<le> length (filter (concerns i) m)" for m
    by (induction m) (auto dest: block_concerns)
  then show ?thesis by (simp add: blocks_out_def requests_out_def)
qed

section \<open>What leaves the tables alone\<close>

definition same_links :: "exchange \<Rightarrow> exchange \<Rightarrow> bool" where
  "same_links x y = (downloads y = downloads x \<and> requests y = requests x \<and> next_ask y = next_ask x)"

lemma same_links_refl [simp]: "same_links x x"
  by (simp add: same_links_def)

lemma links_say [simp]:
  "downloads (say ev fs x) = downloads x" "requests (say ev fs x) = requests x" "next_ask (say ev fs x) = next_ask x"
  by (simp_all add: say_def)

lemma links_on_disk:
  "on_disk m x = (r, y) \<Longrightarrow> downloads y = downloads x \<and> requests y = requests x \<and> next_ask y = next_ask x"
  by (auto simp: on_disk_def split: prod.splits)

lemma links_status [simp]:
  "downloads (emit_artifact_status e x) = downloads x" "requests (emit_artifact_status e x) = requests x"
  "next_ask (emit_artifact_status e x) = next_ask x"
  by (auto simp: emit_artifact_status_def split: prod.splits sum.splits dest: links_on_disk)

lemma links_finish [simp]:
  "downloads (finish_artifact_download e d x) = downloads x" "requests (finish_artifact_download e d x) = requests x"
  "next_ask (finish_artifact_download e d x) = next_ask x"
  by (auto simp: finish_artifact_download_def split: prod.splits sum.splits option.splits dest: links_on_disk)

lemma links_progress [simp]:
  "downloads (emit_artifact_download_progress e i p d x) = downloads x"
  "requests (emit_artifact_download_progress e i p d x) = requests x"
  "next_ask (emit_artifact_download_progress e i p d x) = next_ask x"
  by (simp_all add: emit_artifact_download_progress_def)

lemma counts_same: "requests y = requests x \<Longrightarrow> blocks_out i y = blocks_out i x"
  "requests y = requests x \<Longrightarrow> requests_out i y = requests_out i x"
  by (simp_all add: blocks_out_def requests_out_def)

lemma ok_same:
  assumes "same_links x y"
  shows "others_ok i y = others_ok i x" "exchange_ok y = exchange_ok x" "counts_ok k i y d = counts_ok k i x d"
    "download_ok i y d = download_ok i x d" "table_ok y = table_ok x"
  using assms unfolding others_ok_def exchange_ok_def download_ok_def counts_ok_def table_ok_def same_links_def
  by (simp_all add: blocks_out_def requests_out_def)

section \<open>Changing one download\<close>

lemma get_put_download: "bt_get (downloads (put_download i d x)) k = (if k = i then Some d else bt_get (downloads x) k)"
  by (simp add: put_download_def map_of_bt_insert)

lemma get_drop_download: "bt_get (downloads (drop_download i x)) k = (if k = i then None else bt_get (downloads x) k)"
  by (simp add: drop_download_def map_of_map_remove)

lemma requests_put [simp]: "requests (put_download i d x) = requests x" "requests (drop_download i x) = requests x"
  "next_ask (put_download i d x) = next_ask x" "next_ask (drop_download i x) = next_ask x"
  by (simp_all add: put_download_def drop_download_def)

lemma counts_put [simp]:
  "blocks_out k (put_download i d x) = blocks_out k x" "blocks_out k (drop_download i x) = blocks_out k x"
  "requests_out k (put_download i d x) = requests_out k x" "requests_out k (drop_download i x) = requests_out k x"
  "counts_ok n k (put_download i d x) d' = counts_ok n k x d'" "download_ok k (put_download i d x) d' = download_ok k x d'"
  "download_ok k (drop_download i x) d' = download_ok k x d'"
  by (simp_all add: blocks_out_def requests_out_def counts_ok_def download_ok_def)

lemma table_put: "table_ok x \<Longrightarrow> table_ok (put_download i d x)" "table_ok x \<Longrightarrow> table_ok (drop_download i x)"
  by (simp_all add: table_ok_def put_download_def drop_download_def bt_ok_insert bt_ok_remove)

lemma others_put: "others_ok i x \<Longrightarrow> others_ok i (put_download i d x)" "others_ok i x \<Longrightarrow> others_ok i (drop_download i x)"
  unfolding others_ok_def by (simp_all add: table_put get_put_download get_drop_download)

lemma ok_drop: "others_ok i x \<Longrightarrow> exchange_ok (drop_download i x)"
  unfolding others_ok_def exchange_ok_def by (auto simp: table_put get_drop_download split: if_splits)

lemma ok_put: "others_ok i x \<Longrightarrow> download_ok i x d \<Longrightarrow> exchange_ok (put_download i d x)"
  unfolding exchange_ok_others [of _ i] by (simp add: others_put get_put_download)

lemma ok_says [simp]:
  "others_ok i (say ev fs x) = others_ok i x" "exchange_ok (say ev fs x) = exchange_ok x"
  "exchange_ok (finish_artifact_download e d x) = exchange_ok x" "exchange_ok (emit_artifact_status e x) = exchange_ok x"
  "others_ok i (emit_artifact_download_progress e i' p d x) = others_ok i x"
  by (rule ok_same; simp add: same_links_def)+

section \<open>One more request\<close>

lemma downloads_ask [simp]: "downloads (ask p r meta x) = downloads x"
  by (simp add: ask_def)

lemma ask_counts:
  assumes "table_ok x"
  shows "requests (ask p r meta x) = (next_ask x, meta) # requests x" "downloads (ask p r meta x) = downloads x"
    "table_ok (ask p r meta x)"
proof -
  have "next_ask x \<notin> fst ` set (requests x)" using assms by (auto simp: table_ok_def)
  then have "map_remove (next_ask x) (requests x) = requests x"
    by (rule map_remove_absent)
  then show r: "requests (ask p r meta x) = (next_ask x, meta) # requests x" by (simp add: ask_def hm_insert_def)
  show d: "downloads (ask p r meta x) = downloads x" by (simp add: ask_def)
  have "next_ask (ask p r meta x) = next_ask x + 1" by (simp add: ask_def)
  then show "table_ok (ask p r meta x)"
    using assms \<open>next_ask x \<notin> _\<close> unfolding table_ok_def r d by (auto simp: hm_ok_def less_Suc_eq)
qed

lemma ask_more:
  assumes "table_ok x"
  shows "blocks_out k x \<le> blocks_out k (ask p r meta x)" "requests_out k x \<le> requests_out k (ask p r meta x)"
    "blocks_out i (ask p r (OBlock q i b) x) = Suc (blocks_out i x)"
    "concerns i (n, meta) \<Longrightarrow> 0 < requests_out i (ask p r meta x)"
  by (simp_all add: blocks_out_def requests_out_def ask_counts(1) [OF assms] is_block_of_def concerns_def)

lemma ask_others:
  assumes "others_ok i x"
  shows "others_ok i (ask p r meta x)"
proof -
  have t: "table_ok x" using assms by (simp add: others_ok_def)
  show ?thesis
    using assms ask_counts(2,3) [OF t, of p r meta] ask_more(1,2) [OF t, of _ p r meta]
    unfolding others_ok_def download_ok_def counts_ok_def by (metis (no_types, lifting) add_0_right le_trans less_le_trans)
qed

section \<open>Asking for blocks and manifests\<close>

lemma active_same: "providers d' = providers d \<Longrightarrow> failed_providers d' = failed_providers d \<Longrightarrow> active_provider_count d' = active_provider_count d"
  by (simp add: active_provider_count_def)

lemma next_active_some:
  assumes "next_active_loop k d = (Some p, d')" "providers d \<noteq> []"
  shows "p \<in> set (providers d) \<and> p \<notin> failed_providers d"
  using assms
proof (induction k d rule: next_active_loop.induct)
  case (2 k d)
  have "next_provider d mod length (providers d) < length (providers d)" using 2(3) by simp
  then have "providers d ! (next_provider d mod length (providers d)) \<in> set (providers d)" by simp
  with 2 show ?case by (auto simp: Let_def split: if_splits)
qed simp

lemma next_active_provider_some:
  assumes "next_active_provider d = (Some p, d')"
  shows "p \<in> set (providers d)" "p \<notin> failed_providers d" "0 < active_provider_count d"
proof -
  have "providers d \<noteq> []" using assms by (cases "providers d") (auto simp: next_active_provider_def)
  from next_active_some [OF assms [unfolded next_active_provider_def] this]
  show "p \<in> set (providers d)" "p \<notin> failed_providers d" by auto
  then show "0 < active_provider_count d" by (auto simp: active_provider_count_def filter_empty_conv)
qed

text \<open>Asking for blocks leaves a download that waits for something, provided it had a request out or a block to ask for.\<close>

lemma request_blocks_ok:
  assumes "others_ok i x"
    and "\<And>d. bt_get (downloads x) i = Some d \<Longrightarrow> counts_ok 0 i x d \<and> 0 < active_provider_count d \<and>
           (dl_pending d \<noteq> [] \<or> 0 < requests_out i x)"
  shows "exchange_ok (request_artifact_blocks e i x)"
  using assms
proof (induction e i x rule: request_artifact_blocks.induct)
  case (1 e i x)
  show ?case
  proof (cases "bt_get (downloads x) i")
    case None
    with 1(2) show ?thesis by (simp add: request_artifact_blocks.simps [of e i x] exchange_ok_others [of x i])
  next
    case (Some d)
    note pre = 1(3) [OF Some]
    show ?thesis
    proof (cases "dl_in_flight d \<ge> MAX_PARALLEL_ARTIFACT_BLOCKS \<or> dl_pending d = []")
      case True
      then have "0 < requests_out i x"
        using pre blocks_out_le [of i x] by (auto simp: counts_ok_def MAX_PARALLEL_ARTIFACT_BLOCKS_def)
      with pre Some 1(2) have "exchange_ok x" by (simp add: exchange_ok_others [of x i] download_ok_def)
      with True Some show ?thesis by (auto simp: request_artifact_blocks.simps [of e i x] split: list.splits)
    next
      case False
      then obtain b rest where b: "dl_pending d = b # rest" by (cases "dl_pending d") auto
      obtain r d' where n: "next_active_provider (d\<lparr>dl_pending := rest\<rparr>) = (r, d')" by fastforce
      note fr = next_active_frame [OF n]
      show ?thesis
      proof (cases r)
        case None
        with False Some b n 1(2) show ?thesis
          by (simp add: request_artifact_blocks.simps [of e i x] ok_drop others_put)
      next
        case p: (Some p)
        let ?x' = "put_download i (d'\<lparr>dl_in_flight := dl_in_flight d' + 1\<rparr>) x"
        let ?y = "ask p (ABlock b) (OBlock p i b) ?x'"
        have eq: "request_artifact_blocks e i x = request_artifact_blocks e i ?y"
          using False Some b n p by (simp add: request_artifact_blocks.simps [of e i x])
        have o: "others_ok i ?x'" by (rule others_put(1) [OF 1(2)])
        then have t: "table_ok ?x'" by (simp add: others_ok_def)
        have "exchange_ok (request_artifact_blocks e i ?y)"
        proof (rule 1(1) [OF Some _ b n [symmetric] p])
          show "\<not> MAX_PARALLEL_ARTIFACT_BLOCKS \<le> dl_in_flight d" using False by simp
          show "others_ok i ?y" by (rule ask_others [OF o])
          fix dd assume "bt_get (downloads ?y) i = Some dd"
          then have dd: "dd = d'\<lparr>dl_in_flight := dl_in_flight d' + 1\<rparr>"
            by (simp add: get_put_download)
          have "0 < active_provider_count dd" using pre fr by (simp add: dd active_provider_count_def)
          moreover have "counts_ok 0 i ?y dd"
            using pre False fr ask_more(3) [OF t, where p = p and r = "ABlock b" and i = i and q = p and b = b]
            by (simp add: counts_ok_def dd MAX_PARALLEL_ARTIFACT_BLOCKS_def)
          moreover have "0 < requests_out i ?y"
            by (rule ask_more(4) [OF t, of _ undefined]) (simp add: concerns_def artifact_request_context_def)
          ultimately show "counts_ok 0 i ?y dd \<and> 0 < active_provider_count dd \<and> (dl_pending dd \<noteq> [] \<or> 0 < requests_out i ?y)"
            by simp
        qed
        with eq show ?thesis by simp
      qed
    qed
  qed
qed

lemma request_manifest_ok:
  assumes "others_ok i x" "\<And>d. bt_get (downloads x) i = Some d \<Longrightarrow> counts_ok 0 i x d"
  shows "exchange_ok (request_artifact_manifest e i x)"
proof (cases "bt_get (downloads x) i")
  case None
  with assms show ?thesis by (simp add: request_artifact_manifest_def ok_drop)
next
  case (Some d)
  obtain r d' where n: "next_active_provider d = (r, d')" by fastforce
  note fr = next_active_frame [OF n]
  show ?thesis
  proof (cases r)
    case None
    with assms Some n show ?thesis by (simp add: request_artifact_manifest_def ok_drop others_put)
  next
    case p: (Some p)
    let ?x' = "put_download i d' x"
    have o: "others_ok i ?x'" by (rule others_put(1) [OF assms(1)])
    then have t: "table_ok ?x'" by (simp add: others_ok_def)
    let ?y = "ask p (AManifest i) (OManifest p i) ?x'"
    have "0 < active_provider_count d'"
      using next_active_provider_some(3) [OF n [unfolded p]] fr by (simp add: active_provider_count_def)
    moreover have "counts_ok 0 i ?y d'"
      using assms(2) [OF Some] fr ask_more(1) [OF t, where k = i and p = p and r = "AManifest i" and meta = "OManifest p i"] by (simp add: counts_ok_def)
    moreover have "0 < requests_out i ?y"
      by (rule ask_more(4) [OF t, of _ undefined]) (simp add: concerns_def artifact_request_context_def)
    ultimately have "exchange_ok ?y"
      using ask_others [OF o] by (simp add: exchange_ok_others [of ?y i] get_put_download download_ok_def)
    then show ?thesis using Some n p by (simp add: request_artifact_manifest_def)
  qed
qed

section \<open>A request leaves the table\<close>

definition answering :: "artifact_outbound \<Rightarrow> exchange \<Rightarrow> bool" where
  "answering r x = (case r of
     OInventory p \<Rightarrow> exchange_ok x
   | OManifest p i \<Rightarrow> others_ok i x \<and> (\<forall>d. bt_get (downloads x) i = Some d \<longrightarrow> counts_ok 0 i x d \<and> 0 < active_provider_count d)
   | OBlock p i b \<Rightarrow> others_ok i x \<and> (\<forall>d. bt_get (downloads x) i = Some d \<longrightarrow> counts_ok 1 i x d \<and> 0 < active_provider_count d))"

lemma filter_remove:
  assumes "hm_ok m" "(k, v) \<in> set m"
  shows "length (filter P m) = length (filter P (map_remove k m)) + (if P (k, v) then 1 else 0)"
  using assms
proof (induction m)
  case (Cons r m)
  show ?case
  proof (cases "fst r = k")
    case True
    then have "k \<notin> fst ` set m" using Cons.prems(1) by (auto simp: hm_ok_def)
    then have "map_remove k m = m" "r = (k, v)" using Cons.prems(2) map_remove_absent True by (force simp: image_iff)+
    then show ?thesis by (simp add: map_remove_def)
  next
    case False
    with Cons show ?thesis by (auto simp: map_remove_def hm_ok_def)
  qed
qed simp

lemma remove_request_ok:
  assumes ok: "exchange_ok x" and r: "(rid, r) \<in> set (requests x)"
  shows "answering r (x\<lparr>requests := map_remove rid (requests x)\<rparr>)"
proof -
  let ?y = "x\<lparr>requests := map_remove rid (requests x)\<rparr>"
  have t: "table_ok x" using ok by (simp add: exchange_ok_def)
  then have hm: "hm_ok (requests x)" by (simp add: table_ok_def)
  have b: "blocks_out i x = blocks_out i ?y + (if is_block_of i (rid, r) then 1 else 0)"
    "requests_out i x = requests_out i ?y + (if concerns i (rid, r) then 1 else 0)" for i
    unfolding blocks_out_def requests_out_def using filter_remove [OF hm r] by simp_all
  have t': "table_ok ?y" using t unfolding table_ok_def by (auto simp: hm_ok_remove set_map_remove)
  have d: "download_ok k x d" if "bt_get (downloads x) k = Some d" for k d using ok that by (simp add: exchange_ok_def)
  have o: "download_ok k ?y d" if "bt_get (downloads x) k = Some d" "\<not> concerns k (rid, r)" for k d
  proof -
    have "\<not> is_block_of k (rid, r)" using that(2) block_concerns by blast
    with d [OF that(1)] that(2) b show ?thesis by (simp add: download_ok_def counts_ok_def)
  qed
  show ?thesis
  proof (cases r)
    case (OInventory p)
    then show ?thesis using o t' by (simp add: answering_def exchange_ok_def concerns_def artifact_request_context_def)
  next
    case (OManifest p i)
    have "counts_ok 0 i ?y dd \<and> 0 < active_provider_count dd" if "bt_get (downloads x) i = Some dd" for dd
      using d [OF that] b(1) [of i] OManifest by (simp add: download_ok_def counts_ok_def is_block_of_def)
    with OManifest o t' show ?thesis
      unfolding answering_def others_ok_def by (auto simp: concerns_def artifact_request_context_def)
  next
    case (OBlock p i c)
    have "counts_ok 1 i ?y dd \<and> 0 < active_provider_count dd" if "bt_get (downloads x) i = Some dd" for dd
      using d [OF that] b(1) [of i] OBlock by (simp add: download_ok_def counts_ok_def is_block_of_def)
    with OBlock o t' show ?thesis
      unfolding answering_def others_ok_def by (auto simp: concerns_def artifact_request_context_def)
  qed
qed

lemma answering_same: "same_links x y \<Longrightarrow> answering r y = answering r x"
  by (cases r) (simp_all add: answering_def ok_same [of x y] same_links_def)

section \<open>Failures\<close>

lemma request_failure_ok:
  assumes "answering r x"
  shows "exchange_ok (handle_artifact_request_failure e r reason x)"
proof (cases r)
  case (OInventory p)
  with assms show ?thesis by (simp add: handle_artifact_request_failure_def answering_def)
next
  case (OManifest p i)
  show ?thesis
  proof (cases "bt_get (downloads x) i")
    case None
    with assms OManifest show ?thesis
      by (simp add: handle_artifact_request_failure_def answering_def exchange_ok_others [of x i])
  next
    case (Some d)
    let ?d = "d\<lparr>failed_providers := insert p (failed_providers d)\<rparr>"
    have o: "others_ok i (put_download i ?d x)" using assms OManifest by (simp add: answering_def others_put)
    have c: "counts_ok 0 i x ?d" using assms OManifest Some by (simp add: answering_def counts_ok_def)
    have "exchange_ok (request_artifact_manifest e i y)" if "same_links (put_download i ?d x) y" for y
    proof (rule request_manifest_ok)
      show "others_ok i y" using o ok_same(1) [OF that] by simp
      show "counts_ok 0 i y dd" if "bt_get (downloads y) i = Some dd" for dd
        using that c ok_same(3) [OF \<open>same_links _ y\<close>] \<open>same_links _ y\<close> by (simp add: same_links_def get_put_download)
    qed
    with OManifest Some show ?thesis
      by (simp add: handle_artifact_request_failure_def Let_def same_links_def)
  qed
next
  case (OBlock p i b)
  show ?thesis
  proof (cases "bt_get (downloads x) i")
    case None
    with assms OBlock show ?thesis
      by (simp add: handle_artifact_request_failure_def answering_def exchange_ok_others [of x i])
  next
    case (Some d)
    let ?d = "d\<lparr>dl_in_flight := dl_in_flight d - 1, failed_providers := insert p (failed_providers d), dl_pending := dl_pending d @ [b]\<rparr>"
    have o: "others_ok i (put_download i ?d x)" using assms OBlock by (simp add: answering_def others_put)
    have c: "counts_ok 0 i x ?d" using assms OBlock Some by (auto simp: answering_def counts_ok_def)
    have "exchange_ok (if active_provider_count ?d = 0 then say ev fs (drop_download i y) else request_artifact_blocks e i y)"
      if y: "same_links (put_download i ?d x) y" for y ev fs
    proof (cases "active_provider_count ?d = 0")
      case True
      have "others_ok i y" using o ok_same(1) [OF y] by simp
      with True show ?thesis by (simp add: ok_drop)
    next
      case False
      have "exchange_ok (request_artifact_blocks e i y)"
      proof (rule request_blocks_ok)
        show "others_ok i y" using o ok_same(1) [OF y] by simp
        fix dd assume "bt_get (downloads y) i = Some dd"
        then have "dd = ?d" using y by (simp add: same_links_def get_put_download)
        with c False ok_same(3) [OF y] show "counts_ok 0 i y dd \<and> 0 < active_provider_count dd \<and>
            (dl_pending dd \<noteq> [] \<or> 0 < requests_out i y)" by simp
      qed
      with False show ?thesis by simp
    qed
    with OBlock Some show ?thesis
      by (simp add: handle_artifact_request_failure_def Let_def same_links_def)
  qed
qed

end
