(* ===== verification/Artifact_Run.thy ===== *)
theory Artifact_Run
  imports Artifact_Inv
begin

text \<open>Every event of the exchange keeps the invariant of the client; the events in any order are a step relation.\<close>

section \<open>Requests that stay in the table\<close>

definition keeps :: "exchange \<Rightarrow> exchange \<Rightarrow> bool" where
  "keeps x y = ((\<forall>r\<in>set (requests x). fst r < next_ask x \<longrightarrow> r \<in> set (requests y)) \<and> next_ask x \<le> next_ask y)"

lemma keeps_refl: "keeps x x" and keeps_trans: "keeps x y \<Longrightarrow> keeps y z \<Longrightarrow> keeps x z"
  unfolding keeps_def by (auto dest: order_less_le_trans)

lemma keeps_links: "requests y = requests x \<Longrightarrow> next_ask y = next_ask x \<Longrightarrow> keeps x y"
  by (simp add: keeps_def)

lemma keeps_ask: "keeps x (ask p r meta x)"
  by (auto simp: keeps_def ask_def hm_insert_def set_map_remove)

lemma keeps_put_ask: "keeps x (ask p r meta (put_download i d x))"
  using keeps_ask [of "put_download i d x"] by (simp add: keeps_def)

lemma keeps_blocks: "keeps x (request_artifact_blocks e i x)"
proof (induction e i x rule: request_artifact_blocks.induct)
  case (1 e i x)
  show ?case
  proof (cases "bt_get (downloads x) i")
    case None
    then show ?thesis by (simp add: request_artifact_blocks.simps [of e i x] keeps_refl)
  next
    case (Some d)
    show ?thesis
    proof (cases "dl_in_flight d \<ge> MAX_PARALLEL_ARTIFACT_BLOCKS \<or> dl_pending d = []")
      case True
      with Some show ?thesis by (auto simp: request_artifact_blocks.simps [of e i x] keeps_refl split: list.splits)
    next
      case False
      then obtain b rest where b: "dl_pending d = b # rest" by (cases "dl_pending d") auto
      obtain r d' where n: "next_active_provider (d\<lparr>dl_pending := rest\<rparr>) = (r, d')" by fastforce
      show ?thesis
      proof (cases r)
        case None
        with False Some b n show ?thesis by (simp add: request_artifact_blocks.simps [of e i x] keeps_links)
      next
        case p: (Some p)
        have "keeps (ask p (ABlock b) (OBlock p i b) (put_download i (d'\<lparr>dl_in_flight := dl_in_flight d' + 1\<rparr>) x))
          (request_artifact_blocks e i (ask p (ABlock b) (OBlock p i b) (put_download i (d'\<lparr>dl_in_flight := dl_in_flight d' + 1\<rparr>) x)))"
          by (rule 1 [OF Some _ b n [symmetric] p]) (use False in simp)
        then show ?thesis
          using False Some b n p keeps_trans [OF keeps_put_ask] by (simp add: request_artifact_blocks.simps [of e i x])
      qed
    qed
  qed
qed

lemma keeps_manifest: "keeps x (request_artifact_manifest e i x)"
  by (auto simp: request_artifact_manifest_def Let_def split: option.splits prod.splits intro: keeps_put_ask keeps_ask keeps_links)

lemma keeps_failure: "keeps x (handle_artifact_request_failure e r reason x)"
proof -
  have m: "requests y = requests x \<Longrightarrow> next_ask y = next_ask x \<Longrightarrow> keeps x (request_artifact_manifest e i y)" for y i
    using keeps_trans [OF keeps_links keeps_manifest] by blast
  have b: "requests y = requests x \<Longrightarrow> next_ask y = next_ask x \<Longrightarrow> keeps x (request_artifact_blocks e i y)" for y i
    using keeps_trans [OF keeps_links keeps_blocks] by blast
  show ?thesis
    unfolding handle_artifact_request_failure_def Let_def
    by (auto split: artifact_outbound.splits option.splits intro!: m b keeps_refl intro: keeps_links)
qed

section \<open>A provider fails\<close>

lemma fail_requests_ok:
  assumes "exchange_ok x" "set rs \<subseteq> set (requests x)" "distinct (map fst rs)"
  shows "exchange_ok (fold (fail_request e reason) rs x)"
  using assms
proof (induction rs arbitrary: x)
  case (Cons r rs)
  let ?y = "x\<lparr>requests := map_remove (fst r) (requests x)\<rparr>"
  have "answering (snd r) ?y" by (rule remove_request_ok) (use Cons.prems in auto)
  then have ok: "exchange_ok (fail_request e reason r x)" unfolding fail_request_def by (rule request_failure_ok)
  have "set rs \<subseteq> set (requests (fail_request e reason r x))"
  proof
    fix q assume q: "q \<in> set rs"
    then have "q \<in> set (requests x)" "fst q \<in> fst ` set rs" using Cons.prems by auto
    then have "q \<in> set (requests x)" "fst q \<noteq> fst r" using Cons.prems(3) by (metis distinct.simps(2) list.simps(9) set_map)+
    then have "q \<in> set (requests ?y)" "fst q < next_ask ?y"
      using Cons.prems(1) by (auto simp: set_map_remove exchange_ok_def table_ok_def)
    with keeps_failure [of ?y e "snd r" reason] show "q \<in> set (requests (fail_request e reason r x))"
      by (simp add: keeps_def fail_request_def)
  qed
  with Cons ok show ?case by simp
qed simp

lemma fail_affected_ok:
  assumes "exchange_ok x"
  shows "exchange_ok (fail_affected e p i x)"
proof (cases "bt_get (downloads x) i")
  case None
  with assms show ?thesis by (simp add: fail_affected_def)
next
  case (Some d)
  let ?d = "d\<lparr>failed_providers := insert p (failed_providers d)\<rparr>"
  have ok: "download_ok i x d" "others_ok i x" using assms Some by (auto simp: exchange_ok_def others_ok_def)
  show ?thesis
  proof (cases "active_provider_count ?d = 0")
    case True
    with Some ok show ?thesis by (simp add: fail_affected_def Let_def ok_drop others_put)
  next
    case False
    with ok(1) have d: "download_ok i x ?d" by (simp add: download_ok_def counts_ok_def)
    have "exchange_ok (request_artifact_blocks e i (put_download i ?d x))"
      by (rule request_blocks_ok) (use d ok(2) in \<open>auto simp: others_put get_put_download download_ok_def\<close>)
    with Some False ok_put [OF ok(2) d] show ?thesis by (simp add: fail_affected_def Let_def)
  qed
qed

definition walk_ok :: "walk \<Rightarrow> bool" where
  "walk_ok w = (\<forall>m. mset (w m) = mset m)"

lemma fail_provider_ok:
  assumes "exchange_ok x" "walk_ok w"
  shows "exchange_ok (fail_artifact_provider e w p reason x)"
proof -
  define rs where "rs = filter (\<lambda>r. fst (artifact_request_context (snd r)) = p) (w (requests x))"
  have m: "mset (w (requests x)) = mset (requests x)" using assms(2) by (simp add: walk_ok_def)
  have "set rs \<subseteq> set (requests x)" using mset_eq_setD [OF m] by (auto simp: rs_def)
  moreover have "distinct (map fst rs)"
  proof -
    have "mset (map fst (w (requests x))) = mset (map fst (requests x))" using m by simp
    moreover have "distinct (map fst (requests x))" using assms(1) by (simp add: exchange_ok_def table_ok_def hm_ok_def)
    ultimately have "distinct (map fst (w (requests x)))" using mset_eq_imp_distinct_iff by metis
    then show ?thesis by (simp add: rs_def distinct_map_filter)
  qed
  ultimately have f: "exchange_ok (fold (fail_request e reason) rs x)" using fail_requests_ok assms(1) by blast
  have "exchange_ok (fold (fail_affected e p) is y)" if "exchange_ok y" for "is" y
    using that by (induction "is" arbitrary: y) (simp_all add: fail_affected_ok)
  with f show ?thesis by (simp add: fail_artifact_provider_def Let_def rs_def)
qed

section \<open>Responses\<close>

lemma on_disk_links: "on_disk m x = (r, y) \<Longrightarrow> same_links x y"
  by (auto simp: same_links_def dest: links_on_disk)

lemma received_manifest_ok:
  assumes "answering (OManifest p i) x0"
  shows "exchange_ok (received_manifest e p i m x0)"
proof -
  obtain r x where x: "on_disk (missing_blocks (store e) m) x0 = (r, x)" by fastforce
  have a: "answering (OManifest p i) x" using assms answering_same [OF on_disk_links [OF x]] by simp
  show ?thesis
  proof (cases r)
    case (Inl err)
    with x a show ?thesis by (simp add: received_manifest_def request_failure_ok)
  next
    case (Inr missing)
    show ?thesis
    proof (cases "bt_get (downloads x) i")
      case None
      with x a Inr show ?thesis by (simp add: received_manifest_def Let_def answering_def exchange_ok_others [of x i])
    next
      case (Some d)
      have o: "others_ok i x" and c: "counts_ok 0 i x d" "0 < active_provider_count d"
        using a Some by (auto simp: answering_def)
      show ?thesis
      proof (cases "missing = []")
        case True
        with x Inr Some o show ?thesis by (simp add: received_manifest_def Let_def ok_drop)
      next
        case False
        define d' where "d' = d\<lparr>dl_manifest := Some m, dl_total_missing := length missing, dl_pending := missing,
          dl_reused := card (set (map block_id (blocks m))) - length missing\<rparr>"
        have "exchange_ok (request_artifact_blocks e i y)" if y: "same_links (put_download i d' x) y" for y
        proof (rule request_blocks_ok)
          show "others_ok i y" using others_put(1) [OF o] ok_same(1) [OF y] by simp
          fix dd assume "bt_get (downloads y) i = Some dd"
          then have "dd = d'" using y by (simp add: same_links_def get_put_download)
          moreover have "counts_ok 0 i x d'" using c(1) by (simp add: d'_def counts_ok_def)
          moreover have "counts_ok 0 i y d' = counts_ok 0 i x d'" using ok_same(3) [OF y] by simp
          ultimately show "counts_ok 0 i y dd \<and> 0 < active_provider_count dd \<and> (dl_pending dd \<noteq> [] \<or> 0 < requests_out i y)"
            using c(2) False by (simp add: d'_def active_provider_count_def)
        qed
        then have "exchange_ok (request_artifact_blocks e i (if c then say ev fs (put_download i d' x) else put_download i d' x))" for c ev fs
          by (simp add: same_links_def)
        moreover have "\<exists>c ev fs. received_manifest e p i m x0 =
            request_artifact_blocks e i (if c then say ev fs (put_download i d' x) else put_download i d' x)"
          using x Inr Some False unfolding d'_def by (simp add: received_manifest_def Let_def) blast
        ultimately show ?thesis by metis
      qed
    qed
  qed
qed

lemma received_block_ok:
  assumes "answering (OBlock p i b) x0"
  shows "exchange_ok (received_block e p i b v x0)"
proof -
  obtain r x where x: "on_disk (store_block (store e) b v) x0 = (r, x)" by fastforce
  have a: "answering (OBlock p i b) x" using assms answering_same [OF on_disk_links [OF x]] by simp
  show ?thesis
  proof (cases "bt_get (downloads x) i")
    case None
    with x a show ?thesis by (simp add: received_block_def Let_def answering_def exchange_ok_others [of x i])
  next
    case (Some d)
    have o: "others_ok i x" and c: "counts_ok 1 i x d" "0 < active_provider_count d"
      using a Some by (auto simp: answering_def)
    show ?thesis
    proof (cases r)
      case (Inl err)
      with x Some o show ?thesis by (simp add: received_block_def Let_def ok_drop)
    next
      case (Inr u)
      define d' where "d' = d\<lparr>dl_in_flight := dl_in_flight d - 1, dl_completed := dl_completed d + 1\<rparr>"
      define y where "y = emit_artifact_download_progress e i p d' (put_download i d' x)"
      have y: "same_links (put_download i d' x) y" by (simp add: y_def same_links_def)
      have oy: "others_ok i y" using others_put(1) [OF o] ok_same(1) [OF y] by simp
      have "counts_ok 0 i x d'" using c(1) by (auto simp: d'_def counts_ok_def)
      then have cd: "counts_ok 0 i y d'" using ok_same(3) [OF y] by simp
      have "exchange_ok (request_artifact_blocks e i y)" if nd: "\<not> (dl_pending d' = [] \<and> dl_in_flight d' = 0)"
      proof (rule request_blocks_ok [OF oy])
        fix dd assume "bt_get (downloads y) i = Some dd"
        then have dd: "dd = d'" using y by (simp add: same_links_def get_put_download)
        have "dl_in_flight d' \<le> requests_out i y" using cd blocks_out_le [of i y] by (simp add: counts_ok_def)
        with nd have "dl_pending d' \<noteq> [] \<or> 0 < requests_out i y" by auto
        with dd cd c(2) show "counts_ok 0 i y dd \<and> 0 < active_provider_count dd \<and> (dl_pending dd \<noteq> [] \<or> 0 < requests_out i y)"
          by (simp add: d'_def active_provider_count_def)
      qed
      moreover have "received_block e p i b v x0 = (if dl_pending d' = [] \<and> dl_in_flight d' = 0
          then finish_artifact_download e d' (drop_download i y) else request_artifact_blocks e i y)"
        using x Some Inr unfolding y_def d'_def by (simp add: received_block_def Let_def)
      ultimately show ?thesis using oy by (simp add: ok_drop)
    qed
  qed
qed

lemma refuse_ok:
  assumes "answering r x" "walk_ok w"
  shows "exchange_ok (refuse_response e w r message x)"
  unfolding refuse_response_def by (rule fail_provider_ok [OF request_failure_ok [OF assms(1)] assms(2)])

lemma handle_artifact_response_ok:
  assumes "answering r x" "walk_ok w"
  shows "exchange_ok (handle_artifact_response e w response r x)"
proof -
  have "exchange_ok (fold (\<lambda>a. say ''ARTIFACT_PEER_ITEM'' (f a)) items y) = exchange_ok y"
    for f :: "artifact_summary \<Rightarrow> string list" and items y
    by (induction items arbitrary: y) simp_all
  then have "exchange_ok (received_inventory e p items x) = exchange_ok x" for p items
    by (simp add: received_inventory_def)
  with assms refuse_ok [OF assms] received_manifest_ok received_block_ok show ?thesis
    unfolding handle_artifact_response_def
    by (auto simp: answering_def split: artifact_outbound.splits artifact_response.splits)
qed

section \<open>Runs\<close>

inductive exchange_step :: "exchange_env \<Rightarrow> exchange \<Rightarrow> exchange \<Rightarrow> bool" for e where
  start: "exchange_step e x (begin_artifact_download e i ps x)"
| inventory: "exchange_step e x (ask p AInventory (OInventory p) x)"
| answered: "walk_ok w \<Longrightarrow> exchange_step e x (artifact_answered e w rid response x)"
| failed: "walk_ok w \<Longrightarrow> exchange_step e x (artifact_failed e w rid p failure x)"
| serve: "exchange_step e x (snd (answer_artifact_request e trusted p r x))"
| completion: "exchange_step e x (report_artifact_completion e c x)"
| disconnected: "walk_ok w \<Longrightarrow> exchange_step e x (fail_artifact_provider e w p reason x)"
| other: "exchange_step e x (x\<lparr>disk := s, log_of := l\<rparr>)"

definition fresh_exchange :: "exchange \<Rightarrow> bool" where
  "fresh_exchange x = (downloads x = [] \<and> requests x = [])"

abbreviation exchange_run :: "exchange_env \<Rightarrow> exchange \<Rightarrow> bool" where
  "exchange_run e \<equiv> reachable fresh_exchange (exchange_step e)"

lemmas exchange_run_step = reachable.step [where start = fresh_exchange and step = "exchange_step e" for e]

lemma exchange_step_ok:
  assumes "exchange_step e x y" "exchange_ok x"
  shows "exchange_ok y"
  using assms
proof (induction rule: exchange_step.induct)
  case (start x i ps)
  have "others_ok i (put_download i (download_new ps) x)"
    using start by (intro others_put(1)) (simp add: exchange_ok_others [of x i])
  then show ?case unfolding begin_artifact_download_def
    by (rule request_manifest_ok) (simp add: get_put_download counts_ok_def download_new_def)
next
  case (inventory x p)
  have t: "table_ok x" using inventory by (simp add: exchange_ok_def)
  have "download_ok k (ask p AInventory (OInventory p) x) d" if "bt_get (downloads x) k = Some d" for k d
  proof -
    have "download_ok k x d" using inventory that by (simp add: exchange_ok_def)
    with ask_more(1,2) [OF t, of k p AInventory "OInventory p"] show ?thesis
      by (auto simp: download_ok_def counts_ok_def)
  qed
  with ask_counts(3) [OF t] show ?case by (simp add: exchange_ok_def)
next
  case (answered w x rid response)
  show ?case
  proof (cases "map_of (requests x) rid")
    case (Some r)
    from remove_request_ok [OF answered(2) map_of_SomeD [OF this]] Some answered(1) show ?thesis
      by (simp add: artifact_answered_def handle_artifact_response_ok)
  qed (use answered in \<open>simp add: artifact_answered_def\<close>)
next
  case (failed w x rid p failure)
  show ?case
  proof (cases "map_of (requests x) rid")
    case (Some r)
    from remove_request_ok [OF failed(2) map_of_SomeD [OF this]] Some failed(1) show ?thesis
      by (simp add: artifact_failed_def Let_def fail_provider_ok request_failure_ok)
  qed (use failed in \<open>simp add: artifact_failed_def Let_def\<close>)
next
  case (serve x trusted p r)
  have "same_links x (snd (answer_artifact_request e trusted p r x))"
    by (auto simp: answer_artifact_request_def serve_artifact_request_def split: artifact_request.splits prod.splits sum.splits
        dest: on_disk_links)
  with serve show ?case by (simp add: ok_same(2))
next
  case (completion x c)
  then show ?case
    by (auto simp: report_artifact_completion_def split: artifact_completion.splits sum.splits)
next
  case (disconnected w x p reason)
  then show ?case by (simp add: fail_provider_ok)
next
  case (other x s l)
  then show ?case by (subst ok_same(2) [where x = x]) (simp_all add: same_links_def)
qed

interpretation exchange_machine: machine_invariant fresh_exchange "exchange_step e" exchange_ok for e
proof unfold_locales
  fix x assume "fresh_exchange x"
  then show "exchange_ok x" by (simp add: fresh_exchange_def exchange_ok_def table_ok_def bt_ok_def hm_ok_def)
qed (rule exchange_step_ok)

lemmas exchange_run_ok = exchange_machine.run_inv

end
