(* ===== verification/Update_Run.thy ===== *)
theory Update_Run
  imports Updates
begin

text \<open>The update manager over every order of requests, answers and failures: the invariant of a download in progress.\<close>

section \<open>What a step leaves alone\<close>

lemma tell_frame [simp]:
  "up_disk (tell ev fs u) = up_disk u" "manager (tell ev fs u) = manager u" "launched (tell ev fs u) = launched u"
  "up_sent (tell ev fs u) = up_sent u" "printed (up_log (tell ev fs u)) = printed (up_log u) @ [event_line ev fs]"
  by (simp_all add: tell_def emit_event_def Let_def)

lemma fail_update_frame [simp]:
  "up_disk (fail_update e c p m u) = up_disk u" "manager (fail_update e c p m u) = manager u"
  "launched (fail_update e c p m u) = launched u"
  by (simp_all add: fail_update_def)

lemma send_frame [simp]:
  "up_disk (send_update p r u) = up_disk u" "manager (send_update p r u) = manager u" "launched (send_update p r u) = launched u"
  "up_log (send_update p r u) = up_log u"
  by (simp_all add: send_update_def)

lemma next_chunk_frame [simp]:
  "up_disk (request_next_update_chunk u) = up_disk u" "manager (request_next_update_chunk u) = manager u"
  "launched (request_next_update_chunk u) = launched u" "up_log (request_next_update_chunk u) = up_log u"
  by (simp_all add: request_next_update_chunk_def split: option.splits)

lemma set_frame [simp]:
  "up_disk (set_download d u) = up_disk u" "manager (set_download d u) = (manager u)\<lparr>download := d\<rparr>"
  "launched (set_download d u) = launched u" "up_disk (set_requested r u) = up_disk u"
  "manager (set_requested r u) = (manager u)\<lparr>requested := r\<rparr>" "launched (set_requested r u) = launched u"
  "up_log (set_download d u) = up_log u" "up_log (set_requested r u) = up_log u"
  "up_sent (set_download d u) = up_sent u" "up_sent (set_requested r u) = up_sent u"
  by (simp_all add: set_download_def set_requested_def)

lemma run_files_frame:
  assumes "run_files m u = (r, u')"
  shows "manager u' = manager u" "launched u' = launched u" "up_log u' = up_log u" "m (up_disk u) = (r, up_disk u')"
  using assms by (auto simp: run_files_def split: prod.splits)

lemma remove_quietly_frame [simp]:
  "manager (remove_quietly p u) = manager u" "launched (remove_quietly p u) = launched u" "up_log (remove_quietly p u) = up_log u"
  by (auto simp: remove_quietly_def run_files_def split: prod.splits)

lemma abandon_frame [simp]:
  "manager (snd (abandon e d p m u)) = manager u" "launched (snd (abandon e d p m u)) = launched u" "fst (abandon e d p m u) = False"
  by (simp_all add: abandon_def)

section \<open>The invariant\<close>

definition download_good :: "update_env \<Rightarrow> peer_id set \<Rightarrow> updates \<Rightarrow> pending_download \<Rightarrow> bool" where
  "download_good e T u d =
     (verify_update_manifest e (pd_peer d) (pd_signed d) (pd_component d) = Inr () \<and> pd_peer d \<in> T \<and>
      pd_path d = download_path e (manager u) (pd_component d) (um_version (su_manifest (pd_signed d))) (pd_peer d) \<and>
      (\<exists>b. file_at (up_disk u) (pd_path d) = Some b \<and> length b = unat (pd_received d)) \<and>
      pd_received d < um_size (su_manifest (pd_signed d)))"

definition update_inv :: "update_env \<Rightarrow> peer_id set \<Rightarrow> updates \<Rightarrow> bool" where
  "update_inv e T u =
     (trusted (manager u) \<subseteq> T \<and>
      (\<forall>d. download (manager u) = Some d \<longrightarrow> download_good e T u d \<and> requested (manager u) = None) \<and>
      (\<forall>p c a. requested (manager u) = Some (p, c, a) \<longrightarrow> p \<in> T))"

lemma download_good_frame:
  "file_at (up_disk u') (pd_path d) = file_at (up_disk u) (pd_path d) \<Longrightarrow> staging (manager u') = staging (manager u) \<Longrightarrow>
   download_good e T u' d = download_good e T u d"
  by (simp only: download_good_def download_path_def)

lemma update_inv_idle:
  "trusted (manager u) \<subseteq> T \<Longrightarrow> download (manager u) = None \<Longrightarrow> requested (manager u) = None \<Longrightarrow> update_inv e T u"
  by (simp add: update_inv_def)

lemma inv_verified_size:
  assumes "verify_update_manifest e p sg c = Inr ()"
  shows "0 < um_size (su_manifest sg)" "um_size (su_manifest sg) \<le> MAX_UPDATE_BYTES"
  using assms by (auto simp: verify_update_manifest_def Let_def word_gt_0 not_less split: if_splits prod.splits)

lemma manifest_received_inv:
  assumes "update_inv e T u"
  shows "update_inv e T (manifest_received e p sg u)" "launched (manifest_received e p sg u) = launched u"
proof -
  have "update_inv e T (manifest_received e p sg u) \<and> launched (manifest_received e p sg u) = launched u"
  proof (cases "requested (manager u)")
    case None
    with assms show ?thesis by (simp add: manifest_received_def)
  next
    case (Some r)
    obtain q c a where r: "r = (q, c, a)" by (cases r)
    have idle: "download (manager u) = None" "trusted (manager u) \<subseteq> T" "q \<in> T"
      using assms Some r by (auto simp: update_inv_def)
    let ?u = "set_requested None u"
    let ?path = "download_path e (manager ?u) c (um_version (su_manifest sg)) p"
    show ?thesis
    proof (cases "q \<noteq> p \<or> verify_update_manifest e p sg c \<noteq> Inr ()")
      case True
      with Some r idle show ?thesis
        by (auto simp: manifest_received_def Let_def intro!: update_inv_idle split: sum.splits)
    next
      case False
      obtain z u' where z: "run_files (update_call e (fs_create ?path)) ?u = (z, u')" by fastforce
      note fr = run_files_frame [OF z]
      show ?thesis
      proof (cases z)
        case (Inl err)
        with Some r False z fr idle show ?thesis
          by (auto simp: manifest_received_def Let_def intro!: update_inv_idle)
      next
        case (Inr x)
        have f: "file_at (up_disk u') ?path = Some []"
          using fs_create_at [of ?path "up_disk u" "Inr ()" "up_disk u'"] fr(4) Inr by (auto simp: io_runs)
        define d where "d = \<lparr>pd_peer = p, pd_component = c, pd_signed = sg, pd_path = ?path, pd_received = 0, pd_apply = a\<rparr>"
        have eq: "manifest_received e p sg u = request_next_update_chunk (set_download (Some d) u')"
          using Some r False z Inr by (simp add: manifest_received_def Let_def d_def)
        have "download_good e T (set_download (Some d) u') d"
          using False idle f fr(1) inv_verified_size(1) [of e p sg c]
          by (simp add: download_good_def d_def download_path_def)
        then have "download_good e T (request_next_update_chunk (set_download (Some d) u')) d"
          unfolding download_good_def set_frame next_chunk_frame .
        then show ?thesis
          using idle fr unfolding eq by (simp add: update_inv_def)
      qed
    qed
  qed
  then show "update_inv e T (manifest_received e p sg u)" "launched (manifest_received e p sg u) = launched u" by auto
qed

lemma abandon_inv:
  assumes "update_inv e T u" "download (manager u) = Some d" "manager u1 = (manager u)\<lparr>download := None\<rparr>" "launched u1 = launched u"
  shows "update_inv e T (snd (abandon e d p m u1))" "launched (snd (abandon e d p m u1)) = launched u"
  using assms by (auto intro!: update_inv_idle simp: update_inv_def)

text \<open>The end of a download: it is reported ready, and launched, only after its bytes were checked.\<close>

lemma finish_download_cases:
  assumes "finish_download e args d p u = (b, u')"
  obtains (failed) m u1 where "manager u1 = manager u" "launched u1 = launched u" "up_log u1 = up_log u" "(b, u') = abandon e d p m u1"
  | (ready) u2 x where "manager u2 = manager u" "launched u2 = launched u" "up_log u2 = up_log u"
      "file_at (up_disk u2) = file_at (up_disk u)"
      "file_at (up_disk u) (pd_path d) = Some x" "length x = unat (um_size (su_manifest (pd_signed d)))"
      "sha_hex e x = um_sha256_hex (su_manifest (pd_signed d))"
      "(b, u') = (let u3 = tell (component_event (pd_component d) ''READY'')
                     [peer_name e p, um_version (su_manifest (pd_signed d)), pd_path d] u2
               in if pd_component d = Agent \<and> pd_apply d then schedule_self_update e (pd_path d) args p u3
                  else (False, u3))"
proof -
  obtain r1 u1 where r1: "run_files (update_call e fs_check) u = (r1, u1)" by fastforce
  note f1 = run_files_frame [OF r1]
  show thesis
  proof (cases r1)
    case (Inl err)
    with assms r1 f1 show thesis by (intro failed [of u1 err]) (simp_all add: finish_download_def)
  next
    case ok1: (Inr x1)
    have c1: "file_at (up_disk u1) = file_at (up_disk u)"
      using f1(4) ok1 fs_check_at by (auto simp: io_runs)
    obtain r2 u2 where r2: "run_files (verify_download e (pd_path d) (su_manifest (pd_signed d))) u1 = (r2, u2)" by fastforce
    note f2 = run_files_frame [OF r2]
    show thesis
    proof (cases r2)
      case (Inl err)
      with assms r1 ok1 r2 f1 f2 show thesis by (intro failed [of u2 err]) (simp_all add: finish_download_def)
    next
      case ok2: (Inr x2)
      from f2(4) ok2 obtain x s1 s2 where v: "fs_read (pd_path d) (up_disk u1) = (Inr x, s1)" "fs_check s1 = (Inr s2, up_disk u2)"
        "length x = unat (um_size (su_manifest (pd_signed d)))" "sha_hex e x = um_sha256_hex (su_manifest (pd_signed d))"
        by (auto simp: verify_download_def io_runs Let_def split: if_splits)
      have "file_at (up_disk u2) = file_at (up_disk u)" "file_at (up_disk u) (pd_path d) = Some x"
        using fs_check_at [OF v(2)] fs_read_at [OF v(1)] c1 by simp_all
      with assms r1 ok1 r2 ok2 f1 f2 v(3,4) show thesis by (intro ready [of u2 x]) (simp_all add: finish_download_def)
    qed
  qed
qed

lemma schedule_cases:
  assumes "schedule_self_update e path args p u = (b, u')"
  shows "manager u' = manager u"
    "launched u' = launched u \<or> (\<exists>src. agent_source (manager u) = Some src \<and> b \<and>
       launched u' = launched u @ [updater_arguments e (updater_path (manager u)) (src_path src) path
         (path_join e (staging (manager u)) (''restart-'' @ process_id e @ ''.json''))])"
    "\<And>q. q \<noteq> path_join e (staging (manager u)) (''restart-'' @ process_id e @ ''.json'') \<Longrightarrow> file_at (up_disk u') q = file_at (up_disk u) q"
proof -
  define a where "a = path_join e (staging (manager u)) (''restart-'' @ process_id e @ ''.json'')"
  define m where "m = io_bind (update_call e (fs_write a (args_json e args))) (\<lambda>_. io_map_err (\<lambda>_. ''could not start updater helper'') fs_check)"
  obtain r u1 where r: "run_files m u = (r, u1)" by fastforce
  note fr = run_files_frame [OF r]
  have disk: "file_at (up_disk u1) q = file_at (up_disk u) q" if "q \<noteq> a" for q
    using fr(4) fs_write_at fs_check_at that unfolding m_def by (cases r) (fastforce simp: io_runs)+
  note run = assms [unfolded schedule_self_update_def Let_def, folded a_def, folded m_def, unfolded r]
  have "manager u' = manager u \<and> (launched u' = launched u \<or> (\<exists>src. agent_source (manager u) = Some src \<and> b \<and>
       launched u' = launched u @ [updater_arguments e (updater_path (manager u)) (src_path src) path a])) \<and>
     (\<forall>q. q \<noteq> a \<longrightarrow> file_at (up_disk u') q = file_at (up_disk u) q)"
    using run fr(1,2) disk by (auto split: option.splits if_splits sum.splits)
  then show "manager u' = manager u"
    "launched u' = launched u \<or> (\<exists>src. agent_source (manager u) = Some src \<and> b \<and>
       launched u' = launched u @ [updater_arguments e (updater_path (manager u)) (src_path src) path
         (path_join e (staging (manager u)) (''restart-'' @ process_id e @ ''.json''))])"
    "\<And>q. q \<noteq> path_join e (staging (manager u)) (''restart-'' @ process_id e @ ''.json'') \<Longrightarrow> file_at (up_disk u') q = file_at (up_disk u) q"
    unfolding a_def by blast+
qed

text \<open>Handling of a chunk: what it leaves, and that it keeps the invariant.\<close>

lemma chunk_cases:
  assumes "chunk_received e args p off v u = (b, u')" "download (manager u) = Some d"
  obtains (abandoned) m u1 where "manager u1 = (manager u)\<lparr>download := None\<rparr>" "launched u1 = launched u" "(b, u') = abandon e d p m u1"
  | (accepted) u2 where "pd_peer d = p" "off = pd_received d" "v \<noteq> []"
      "\<not> sat_add (pd_received d) (of_nat (length v)) > um_size (su_manifest (pd_signed d))"
      "\<exists>a. file_at (up_disk u) (pd_path d) = Some a \<and> file_at (up_disk u2) (pd_path d) = Some (a @ v)"
      "manager u2 = (manager u)\<lparr>download := None\<rparr>" "launched u2 = launched u"
      "(b, u') = (let d' = d\<lparr>pd_received := pd_received d + of_nat (length v)\<rparr> in
         if pd_received d' = um_size (su_manifest (pd_signed d)) then finish_download e args d' p u2
         else (False, request_next_update_chunk (set_download (Some d') u2)))"
proof (cases "pd_peer d \<noteq> p \<or> off \<noteq> pd_received d \<or> v = [] \<or> sat_add (pd_received d) (of_nat (length v)) > um_size (su_manifest (pd_signed d))")
  case True
  show thesis
  proof (cases "pd_peer d \<noteq> p \<or> off \<noteq> pd_received d")
    case True
    with assms show thesis
      by (intro abandoned [of "set_download None u" "''invalid update chunk order''"]) (auto simp: chunk_received_def Let_def)
  next
    case False
    with True assms show thesis
      by (intro abandoned [of "set_download None u" "''invalid update chunk size''"]) (auto simp: chunk_received_def Let_def)
  qed
next
  case False
  let ?u = "set_download None u"
  obtain r u1 where r: "run_files (update_call e (fs_append (pd_path d) v)) ?u = (r, u1)" by fastforce
  note fr = run_files_frame [OF r]
  show thesis
  proof (cases r)
    case (Inl err)
    with False assms r fr show thesis by (intro abandoned [of u1 err]) (auto simp: chunk_received_def Let_def)
  next
    case (Inr x)
    then have "fs_append (pd_path d) v (up_disk u) = (Inr (), up_disk u1)" using fr(4) by (simp add: io_runs)
    from fs_append_at [OF this] have files: "\<exists>a. file_at (up_disk u) (pd_path d) = Some a \<and> file_at (up_disk u1) (pd_path d) = Some (a @ v)" by simp
    define u2 where "u2 = tell (component_event (pd_component d) ''PROGRESS'')
          [peer_name e p, show_word (pd_received d + of_nat (length v)), show_word (um_size (su_manifest (pd_signed d)))] u1"
    have c: "(pd_peer d \<noteq> p \<or> off \<noteq> pd_received d) = False"
      "(v = [] \<or> sat_add (pd_received d) (of_nat (length v)) > um_size (su_manifest (pd_signed d))) = False" using False by auto
    have eq: "(b, u') = (let d' = d\<lparr>pd_received := pd_received d + of_nat (length v)\<rparr> in
         if pd_received d' = um_size (su_manifest (pd_signed d)) then finish_download e args d' p u2
         else (False, request_next_update_chunk (set_download (Some d') u2)))"
      unfolding assms(1) [symmetric] chunk_received_def assms(2) Let_def option.case c if_False r Inr u2_def by simp
    show thesis
      by (rule accepted [of u2]) (use False files eq fr in \<open>simp_all add: u2_def\<close>)
  qed
qed

lemma received_sum:
  fixes r t :: u64
  assumes "\<not> sat_add r (of_nat n) > t" "n < 2 ^ 64" "r + of_nat n \<noteq> t" "t \<le> MAX_UPDATE_BYTES"
  shows "unat (r + of_nat n) = unat r + n" "r + of_nat n < t"
proof -
  have n: "unat (of_nat n :: u64) = n" using assms(2) by (simp add: unat_of_nat_small)
  have "unat (sat_add r (of_nat n)) \<le> unat t" using assms(1) by (simp add: not_less word_le_nat_alt)
  moreover have "unat t \<le> 134217728" using assms(4) by (simp add: MAX_UPDATE_BYTES_def word_le_nat_alt)
  ultimately have s: "unat r + n \<le> unat t" "unat r + n < 2 ^ 64" by (auto simp: unat_sat_add n min_def split: if_splits)
  then show u: "unat (r + of_nat n) = unat r + n" using n by (subst unat_word_ariths) simp
  show "r + of_nat n < t" using s u assms(3) by (metis le_neq_implies_less word_less_nat_alt word_unat_eq_iff)
qed

lemma finish_download_idle:
  assumes "finish_download e args d p u = (b, u')" "download (manager u) = None"
  shows "manager u' = manager u"
  using assms
proof (cases rule: finish_download_cases)
  case (failed m u1)
  from failed(4) have "u' = snd (abandon e d p m u1)" by (metis snd_conv)
  with failed(1) show ?thesis by simp
next
  case (ready u2 x)
  show ?thesis
  proof (cases "pd_component d = Agent \<and> pd_apply d")
    case True
    with ready(8) have "schedule_self_update e (pd_path d) args p (tell (component_event (pd_component d) ''READY'')
       [peer_name e p, um_version (su_manifest (pd_signed d)), pd_path d] u2) = (b, u')" by simp
    from schedule_cases(1) [OF this] ready(1) show ?thesis by simp
  next
    case False
    with ready(8) ready(1) show ?thesis by (auto simp: Let_def)
  qed
qed

lemma chunk_received_inv:
  assumes inv: "update_inv e T u" and len: "length v < 2 ^ 64" and run: "chunk_received e args p off v u = (b, u')"
  shows "update_inv e T u'"
proof (cases "download (manager u)")
  case None
  with inv run show ?thesis by (simp add: chunk_received_def)
next
  case (Some d)
  have good: "download_good e T u d" "requested (manager u) = None" "trusted (manager u) \<subseteq> T"
    using inv Some by (auto simp: update_inv_def)
  from run Some show ?thesis
  proof (cases rule: chunk_cases)
    case (abandoned m u1)
    then have "u' = snd (abandon e d p m u1)" by (metis snd_conv)
    with abandon_inv(1) [OF inv Some abandoned(1,2)] show ?thesis by simp
  next
    case (accepted u2)
    let ?d' = "d\<lparr>pd_received := pd_received d + of_nat (length v)\<rparr>" and ?size = "um_size (su_manifest (pd_signed d))"
    show ?thesis
    proof (cases "pd_received d + of_nat (length v) = ?size")
      case True
      with accepted(8) have "finish_download e args ?d' p u2 = (b, u')" by simp
      from finish_download_idle [OF this] accepted(6) good show ?thesis by (auto intro!: update_inv_idle)
    next
      case False
      with accepted(8) have u': "u' = request_next_update_chunk (set_download (Some ?d') u2)" by simp
      have "verify_update_manifest e (pd_peer d) (pd_signed d) (pd_component d) = Inr ()" using good(1) by (simp add: download_good_def)
      note sum = received_sum [OF accepted(4) len False inv_verified_size(2) [OF this]]
      have p: "pd_path d = download_path e (manager u) (pd_component d) (um_version (su_manifest (pd_signed d))) (pd_peer d)"
        using good(1) by (simp add: download_good_def)
      have "\<exists>x. file_at (up_disk u2) (pd_path d) = Some x \<and> length x = unat (pd_received d + of_nat (length v))"
        using accepted(5) good(1) sum(1) by (auto simp: download_good_def)
      then have "download_good e T (set_download (Some ?d') u2) ?d'"
        using good(1) sum(2) accepted(6) p unfolding download_good_def by (simp add: download_path_def)
      then have "download_good e T (request_next_update_chunk (set_download (Some ?d') u2)) ?d'"
        unfolding download_good_def set_frame next_chunk_frame .
      with good(2,3) accepted(6) show ?thesis unfolding u' by (simp add: update_inv_def)
    qed
  qed
qed

section \<open>Runs\<close>

inductive update_step :: "update_env \<Rightarrow> peer_id set \<Rightarrow> updates \<Rightarrow> updates \<Rightarrow> bool" for e T where
  request: "update_step e T u (begin_component_update_request e p c a u)"
| answered: "(\<And>off v. r = UpChunk off v \<Longrightarrow> length v < 2 ^ 64) \<Longrightarrow> update_step e T u (snd (update_answered e args p r u))"
| failed: "update_step e T u (update_outbound_failed e p err u)"
| other: "ps \<subseteq> T \<Longrightarrow> (\<And>d. download (manager u) = Some d \<Longrightarrow> file_at s (pd_path d) = file_at (up_disk u) (pd_path d)) \<Longrightarrow>
    update_step e T u (u\<lparr>up_disk := s, manager := (manager u)\<lparr>trusted := ps\<rparr>, up_log := l\<rparr>)"

definition fresh_updates :: "peer_id set \<Rightarrow> updates \<Rightarrow> bool" where
  "fresh_updates T u = (trusted (manager u) \<subseteq> T \<and> download (manager u) = None \<and> requested (manager u) = None)"

abbreviation update_run :: "update_env \<Rightarrow> peer_id set \<Rightarrow> updates \<Rightarrow> bool" where
  "update_run e T \<equiv> reachable (fresh_updates T) (update_step e T)"

lemmas update_run_step = reachable.step [where start = "fresh_updates T" and step = "update_step e T" for e T]

lemma update_step_inv:
  assumes "update_step e T u u'" "update_inv e T u"
  shows "update_inv e T u'"
  using assms
proof (induction rule: update_step.induct)
  case (request u p c a)
  have same: "update_inv e T (fail_update e c p m u)" for m
    using request unfolding update_inv_def download_good_def fail_update_frame .
  show ?case
  proof (cases "policy (manager u) = Disabled \<or> p \<notin> trusted (manager u) \<or> download (manager u) \<noteq> None \<or> requested (manager u) \<noteq> None")
    case True
    with same show ?thesis by (auto simp: begin_component_update_request_def Let_def)
  next
    case False
    with request show ?thesis by (auto simp: begin_component_update_request_def Let_def update_inv_def)
  qed
next
  case (answered r u args p)
  show ?case
  proof (cases r)
    case (UpManifest sg)
    with manifest_received_inv(1) [OF answered(2)] show ?thesis by (simp add: update_answered_def)
  next
    case (UpChunk off v)
    obtain b u' where "chunk_received e args p off v u = (b, u')" by fastforce
    with chunk_received_inv [OF answered(2) answered(1) [OF UpChunk]] UpChunk show ?thesis by (simp add: update_answered_def)
  next
    case (UpError m)
    have "trusted (manager u) \<subseteq> T" using answered(2) by (simp add: update_inv_def)
    with UpError show ?thesis by (auto simp: update_answered_def error_received_def intro!: update_inv_idle)
  qed
next
  case (failed u p err)
  have "trusted (manager u) \<subseteq> T" using failed by (simp add: update_inv_def)
  then show ?case
    by (auto simp: update_outbound_failed_def Let_def intro!: update_inv_idle split: option.splits)
next
  case (other ps u s l)
  show ?case
  proof (cases "download (manager u)")
    case None
    with other show ?thesis by (auto simp: update_inv_def)
  next
    case (Some d)
    with other(3) have g: "download_good e T u d" by (simp add: update_inv_def)
    have "download_good e T (u\<lparr>up_disk := s, manager := (manager u)\<lparr>trusted := ps\<rparr>, up_log := l\<rparr>) d"
      using download_good_frame [of "u\<lparr>up_disk := s, manager := (manager u)\<lparr>trusted := ps\<rparr>, up_log := l\<rparr>" d u e T] g other(2) [OF Some] by simp
    with Some other(1,3) show ?thesis by (auto simp: update_inv_def)
  qed
qed

interpretation update_machine: machine_invariant "fresh_updates T" "update_step e T" "update_inv e T" for e T
proof unfold_locales
  fix u assume "fresh_updates T u"
  then show "update_inv e T u" by (simp add: fresh_updates_def update_inv_idle)
qed (rule update_step_inv)

lemmas update_run_inv = update_machine.run_inv

text \<open>A run with fewer trusted peers is one with more.\<close>

lemma update_step_mono: "update_step e T u u' \<Longrightarrow> T \<subseteq> T' \<Longrightarrow> update_step e T' u u'"
  by (induction rule: update_step.induct) (auto intro: update_step.intros)

lemma update_run_mono: "update_run e T u \<Longrightarrow> T \<subseteq> T' \<Longrightarrow> update_run e T' u"
  by (erule reachable_mono) (auto simp: fresh_updates_def intro: update_step_mono)

text \<open>The paths of the manager never change.\<close>

definition same_places :: "update_manager \<Rightarrow> update_manager \<Rightarrow> bool" where
  "same_places m m' = (staging m' = staging m \<and> trust_path m' = trust_path m)"

lemma same_places_simps [simp]:
  "same_places m m" "same_places m (m'\<lparr>download := d\<rparr>) = same_places m m'" "same_places m (m'\<lparr>requested := r\<rparr>) = same_places m m'"
  "same_places m (m'\<lparr>trusted := t\<rparr>) = same_places m m'"
  by (simp_all add: same_places_def)

lemma chunk_received_places:
  assumes "chunk_received e args p off v u = (b, u')"
  shows "same_places (manager u) (manager u')"
proof (cases "download (manager u)")
  case None
  with assms show ?thesis by (simp add: chunk_received_def)
next
  case (Some d)
  from assms this show ?thesis
  proof (cases rule: chunk_cases)
    case (abandoned m u1)
    then have "u' = snd (abandon e d p m u1)" by (metis snd_conv)
    with abandoned(1) show ?thesis by simp
  next
    case (accepted u2)
    let ?d' = "d\<lparr>pd_received := pd_received d + of_nat (length v)\<rparr>"
    show ?thesis
    proof (cases "pd_received d + of_nat (length v) = um_size (su_manifest (pd_signed d))")
      case True
      with accepted(8) have "finish_download e args ?d' p u2 = (b, u')" by simp
      from finish_download_idle [OF this] accepted(6) show ?thesis by simp
    next
      case False
      with accepted(8) have "u' = request_next_update_chunk (set_download (Some ?d') u2)" by simp
      with accepted(6) show ?thesis by simp
    qed
  qed
qed

lemma manifest_received_places: "same_places (manager u) (manager (manifest_received e p sg u))"
  by (auto simp: manifest_received_def Let_def split: option.splits prod.splits sum.splits dest!: run_files_frame(1))

lemma update_step_places: "update_step e T u u' \<Longrightarrow> same_places (manager u) (manager u')"
proof (induction rule: update_step.induct)
  case (answered r u args p)
  show ?case
  proof (cases r)
    case (UpChunk off v)
    obtain b u' where "chunk_received e args p off v u = (b, u')" by fastforce
    with chunk_received_places [OF this] UpChunk show ?thesis by (simp add: update_answered_def)
  next
    case (UpManifest sg)
    then show ?thesis by (simp add: update_answered_def manifest_received_places)
  next
    case (UpError m)
    then show ?thesis by (simp add: update_answered_def error_received_def)
  qed
qed (auto simp: begin_component_update_request_def update_outbound_failed_def Let_def split: option.splits)

end
