(* ===== verification/Inbound_Props.thy ===== *)
theory Inbound_Props
  imports Inbound
begin

text \<open>Every request of a peer is answered once, with an answer that fits it.\<close>

lemma fit_execute:
  assumes "work_ok rs w"
  shows "\<exists>r snap. (wk_channel w, r, snap) \<in> set rs \<and> fit_answer e r snap (work_response e ms whole w)"
proof -
  obtain snap where s: "(wk_channel w, wk_request w, snap) \<in> set rs" "req_task (wk_request w) \<noteq> TNodeInfo"
    "\<not> (contribution_paused snap \<and> \<not> task_allowed_while_contribution_paused (req_task (wk_request w)))"
    "wk_fail w \<longrightarrow> (\<exists>n i j. req_task (wk_request w) = TMatrixChunk n i j)" using assms(1) by (auto simp: work_ok_def)
  have "resp_id (execute sha ms (wk_request w)) = req_id (wk_request w)" for sha
    by (simp add: execute_def response_success_def response_failure_def split: option.splits)
  with s(2-4) have "fit_answer e (wk_request w) snap (work_response e ms whole w)"
    by (auto simp: fit_answer_def work_response_def response_failure_def Let_def)
  with s(1) show ?thesis by blast
qed

lemma work_ok_more: "work_ok rs w \<Longrightarrow> work_ok (rs @ qs) w"
  by (auto simp: work_ok_def)

lemma receive_ok:
  assumes "inbound_ok e rs x"
  shows "inbound_ok e (rs @ [(ch, r, snap)]) (receive_task e snap p ch r x)"
proof -
  have old: "\<forall>w\<in>set (work_list x). work_ok (rs @ [(ch, r, snap)]) w" "in_active x = of_nat (length (work_list x))"
    "channels x = mset (map fst rs)"
    using assms work_ok_more by (auto simp: inbound_ok_def)
  have ans: "\<exists>r' snap'. (ch', r', snap') \<in> set (rs @ [(ch, r, snap)]) \<and> fit_answer e r' snap' a"
    if "(ch', a) \<in> (\<lambda>c. (cr_channel c, cr_response c)) ` set (completed_list x) \<union> set (answered x) \<union> set (undelivered x)" for ch' a
    using assms that unfolding inbound_ok_def by fastforce
  show ?thesis
  proof (cases "req_task r = TNodeInfo")
    case True
    have "fit_answer e r snap (node_info_response e snap (req_id r))"
      by (simp add: fit_answer_def True node_info_response_def response_success_def)
    with True old ans show ?thesis
      by (auto simp: inbound_ok_def receive_task_def push_completed_def channels_def)
  next
    case other: False
    show ?thesis
    proof (cases "contribution_paused snap \<and> \<not> task_allowed_while_contribution_paused (req_task r)")
      case True
      have "fit_answer e r snap (paused_response (req_id r))"
        using other True by (simp add: fit_answer_def paused_response_def response_failure_def)
      with True other old ans show ?thesis
        by (auto simp: inbound_ok_def receive_task_def push_completed_def channels_def)
    next
      case False
      obtain fail delay f where t: "take_debug_matrix_fault (req_task r) (in_faults x) = ((fail, delay), f)" by (metis prod.exhaust)
      have "fail \<longrightarrow> (\<exists>n i j. req_task r = TMatrixChunk n i j)"
        using t by (auto simp: take_debug_matrix_fault_def split: task.splits)
      with False other have "work_ok (rs @ [(ch, r, snap)]) \<lparr>wk_channel = ch, wk_request = r, wk_fail = fail, wk_delay = delay\<rparr>"
        by (auto simp: work_ok_def)
      with False other old ans t show ?thesis
        by (auto simp: inbound_ok_def receive_task_def channels_def Let_def)
    qed
  qed
qed

lemma finish_ok:
  assumes "inbound_ok e rs x" "k < length (work_list x)"
  shows "inbound_ok e rs (finish_work e k ms whole x)"
proof -
  let ?w = "work_list x ! k" and ?rest = "take k (work_list x) @ drop (Suc k) (work_list x)"
  have split: "work_list x = take k (work_list x) @ ?w # drop (Suc k) (work_list x)" using assms(2) by (rule id_take_nth_drop)
  have ms: "mset (map wk_channel (work_list x)) = add_mset (wk_channel ?w) (mset (map wk_channel ?rest))"
    by (subst split) simp
  have sub: "set ?rest \<subseteq> set (work_list x)" by (auto dest: in_set_takeD in_set_dropD)
  have len: "in_active x - 1 = of_nat (length ?rest)"
  proof -
    have "length (work_list x) = Suc (length ?rest)" using assms(2) by simp
    then show ?thesis using assms(1) by (simp add: inbound_ok_def)
  qed
  have "work_ok rs ?w" using assms by (simp add: inbound_ok_def)
  from fit_execute [OF this, of e ms whole]
  show ?thesis using assms(1) sub ms len
    by (auto simp: inbound_ok_def finish_work_def push_completed_def channels_def Let_def)
qed

lemma send_ok: "inbound_ok e rs x \<Longrightarrow> inbound_ok e rs (send_completed e alive x)"
  by (cases "completed_list x") (auto simp: inbound_ok_def send_completed_def channels_def Let_def)

lemma inbound_run_ok: "inbound_run e rs x \<Longrightarrow> inbound_ok e rs x"
proof (induction rule: inbound_run.induct)
  case (init x)
  then show ?case by (simp add: inbound_ok_def channels_def)
next
  case (arm rs x f)
  then show ?case by (simp add: inbound_ok_def channels_def)
qed (simp_all add: receive_ok finish_ok send_ok)

text \<open>
  C30. Every request of a peer is answered exactly once: in every run, whatever the order in which the work ends, each request
  received is in exactly one place (running, answered and waiting to be sent, sent, or undeliverable), the counter of
  active tasks is the number of running ones, and every answer fits its request: it has its identifier; it is the node information, the
  refusal of a paused agent for anything but an echo, an injected failure of a matrix chunk, or the outcome of executing the task.
\<close>

theorem inbound_answered_once:
  assumes "inbound_run e rs x"
  shows "mset (map wk_channel (work_list x)) + mset (map cr_channel (completed_list x)) + mset (map fst (answered x)) +
      mset (map fst (undelivered x)) = mset (map fst rs) \<and>
    in_active x = of_nat (length (work_list x)) \<and>
    (\<forall>(ch, a)\<in>set (answered x) \<union> set (undelivered x). \<exists>r snap. (ch, r, snap) \<in> set rs \<and> resp_id a = req_id r \<and>
       (if req_task r = TNodeInfo then a = node_info_response e snap (req_id r)
        else if contribution_paused snap \<and> \<not> task_allowed_while_contribution_paused (req_task r) then a = paused_response (req_id r)
        else (\<exists>m. outcome a = Failure ''debug_injected_failure'' m \<and> (\<exists>n i j. req_task r = TMatrixChunk n i j)) \<or>
           (\<exists>ms. outcome a = outcome (execute (sha256_hex (node_env_of e)) ms r))))"
proof -
  have ok: "inbound_ok e rs x" by (rule inbound_run_ok [OF assms])
  then have "\<forall>(ch, a)\<in>set (answered x) \<union> set (undelivered x). \<exists>r snap. (ch, r, snap) \<in> set rs \<and> fit_answer e r snap a"
    unfolding inbound_ok_def by blast
  with ok show ?thesis unfolding inbound_ok_def channels_def fit_answer_def by simp
qed

definition demo_inbound :: inbound where
  "demo_inbound = \<lparr>in_log = \<lparr>printed = [], mobile_events = []\<rparr>, in_faults = \<lparr>fail_next_matrix_chunk = False, delay_next_matrix_chunk_ms = 0\<rparr>,
     in_active = 0, work_list = [], completed_list = [], answered = [], undelivered = []\<rparr>"

definition demo_inbound_env :: inbound_env where
  "demo_inbound_env = \<lparr>node_env_of = \<lparr>local_peer = PeerId 0, peer_text = (\<lambda>_. ''p''), sha256_hex = id\<rparr>, agent_version = ''1'', node_name = ''n''\<rparr>"

definition demo_offer :: resource_snapshot where
  "demo_offer = \<lparr>observed_at_unix_ms = 0, os = [], arch = [], cpu_brand = [], physical_cores = 1, logical_cores = 1,
     total_memory_bytes = 0, available_memory_bytes = 0, host_cpu_percent = Fin 0, agent_cpu_percent = Fin 0,
     agent_memory_bytes = 0, active_tasks = 0, cpu_limit_percent = Fin 100, memory_limit_percent = Fin 100,
     allocatable_memory_bytes = 0, calibrated_cpu_score = Fin 10, snapshot_cpu_score = Fin 10,
     contribution_paused = False, battery_percent = None, charging = None, thermal_status = None, unmetered_network = None\<rparr>"

text \<open>One echo request on channel 7, run and answered.\<close>

theorem inbound_answered_once_witness:
  "\<exists>x a. inbound_run demo_inbound_env [(7, \<lparr>req_id = ''t'', req_task = TEcho ''hello''\<rparr>, demo_offer)] x \<and> answered x = [(7, a)] \<and>
     resp_id a = ''t'' \<and> outcome a = Success (REcho ''hello'')"
proof -
  let ?r = "\<lparr>req_id = ''t'', req_task = TEcho ''hello''\<rparr>"
  let ?x = "send_completed demo_inbound_env True (finish_work demo_inbound_env 0 3 4 (receive_task demo_inbound_env demo_offer (PeerId 1) 7 ?r demo_inbound))"
  have one: "work_list (receive_task demo_inbound_env demo_offer (PeerId 1) 7 ?r demo_inbound) =
      [\<lparr>wk_channel = 7, wk_request = ?r, wk_fail = False, wk_delay = 0\<rparr>]"
    by (simp add: receive_task_def take_debug_matrix_fault_def Let_def demo_offer_def demo_inbound_def)
  have "inbound_run demo_inbound_env ([] @ [(7, ?r, demo_offer)]) (receive_task demo_inbound_env demo_offer (PeerId 1) 7 ?r demo_inbound)"
    by (intro inbound_run.receive inbound_run.init) (simp_all add: demo_inbound_def)
  then have run: "inbound_run demo_inbound_env [(7, ?r, demo_offer)] ?x"
    using one by (intro inbound_run.send inbound_run.finish) simp_all
  obtain a where a: "answered ?x = [(7, a)]"
    using one by (simp add: send_completed_def finish_work_def push_completed_def Let_def receive_task_def take_debug_matrix_fault_def
        demo_inbound_def demo_offer_def)
  from inbound_answered_once [OF run] a have "resp_id a = ''t''" "\<exists>ms. outcome a = outcome (execute (sha256_hex (node_env_of demo_inbound_env)) ms ?r)"
    by (auto simp: demo_offer_def)
  then have "resp_id a = ''t''" "outcome a = Success (REcho ''hello'')"
    by (auto simp: execute_def response_success_def run_task_def MAX_TEXT_BYTES_def)
  with run a show ?thesis by blast
qed

end
