(* ===== verification/Resource_Props.thy ===== *)
theory Resource_Props
  imports Resources
begin

text \<open>
  The invariant of the resource monitor over any sequence of refreshes and pauses, and the facts it rests on:
  smoothing stays in range with all rounding, and an update of the mobile environment is read back as it was.
\<close>

section \<open>Smoothing\<close>

definition percent :: "flt \<Rightarrow> bool" where
  "percent x = (\<exists>q. x = Fin q \<and> 0 \<le> q \<and> q \<le> 100)"

lemma percent_clamp: "x \<noteq> NaN \<Longrightarrow> percent (fl_clamp x (Fin 0) (Fin 100))"
  using clamp_range [of x] by (simp add: percent_def)

lemma rnd32_range:
  assumes "0 \<le> x" "x \<le> of_int n" "n < 2 ^ 24"
  shows "\<exists>q. rnd32 x = Fin q \<and> 0 \<le> q \<and> q \<le> of_int n"
proof -
  have "(0::rat) \<le> of_int n" using assms by linarith
  then have "\<bar>n\<bar> < 2 ^ 24" using assms(3) by simp
  then have "fl_le (rnd32 x) (Fin (of_int n))" using rnd32_mono [OF assms(1,2)] rnd32_int [of n] by simp
  with rnd32_nonneg [OF assms(1)] show ?thesis by (cases "rnd32 x") auto
qed

lemma ewma_percent:
  assumes "\<forall>old. previous = Some old \<longrightarrow> percent old" "percent sample"
  shows "percent (ewma previous sample)"
proof (cases previous)
  case None
  with assms show ?thesis by (simp add: ewma_def)
next
  case (Some old)
  with assms obtain a b where ab: "old = Fin a" "0 \<le> a" "a \<le> 100" "sample = Fin b" "0 \<le> b" "b \<le> 100"
    by (auto simp: percent_def)
  obtain x where x: "rnd32 (a * (3 / 4)) = Fin x" "0 \<le> x" "x \<le> 75" using rnd32_range [of "a * (3 / 4)" 75] ab by auto
  obtain y where y: "rnd32 (b * (1 / 4)) = Fin y" "0 \<le> y" "y \<le> 25" using rnd32_range [of "b * (1 / 4)" 25] ab by auto
  have "\<exists>q. rnd32 (x + y) = Fin q \<and> 0 \<le> q \<and> q \<le> 100" using rnd32_range [of "x + y" 100] x y by auto
  with x(1) y(1) show ?thesis by (simp add: ewma_def Some ab percent_def)
qed

lemma rnd32_number: "rnd32 x \<noteq> NaN"
  by (simp add: rnd32_def round_to_def Let_def)

lemma f32_of_small: "k < 65536 \<Longrightarrow> f32_of_nat k = Fin (of_nat k)"
  using rnd32_int [of "int k"] by (simp add: f32_of_nat_def)

lemma per_core_number:
  assumes "c \<noteq> NaN"
  shows "fl_div rnd32 c (f32_of_nat (unat (max (n::u16) 1))) \<noteq> NaN"
proof -
  have "unat n < 2 ^ LENGTH(16)" by (rule unsigned_less)
  then have "unat (max n 1) < 65536" "0 < unat (max n 1)" by (auto simp: max_def word_le_nat_alt)
  then obtain k where "unat (max n 1) = k" "k < 65536" "0 < k" by blast
  then show ?thesis using assms rnd32_number by (cases c) (auto simp: f32_of_small)
qed

section \<open>The monitor\<close>

definition sound_readings :: "readings \<Rightarrow> bool" where
  "sound_readings r = (global_cpu r \<noteq> NaN \<and> (\<forall>c k. own_process r = Some (c, k) \<longrightarrow> c \<noteq> NaN))"

datatype monitor_event = Refresh readings | Pause bool readings

fun monitor_handle :: "monitor_event \<Rightarrow> resource_monitor \<Rightarrow> resource_monitor" where
  "monitor_handle (Refresh r) m = monitor_refresh r m"
| "monitor_handle (Pause p r) m = set_contribution_paused p r m"

fun event_readings :: "monitor_event \<Rightarrow> readings" where
  "event_readings (Refresh r) = r"
| "event_readings (Pause p r) = r"

text \<open>What a snapshot may offer.\<close>

definition offer_ok :: "resource_snapshot \<Rightarrow> bool" where
  "offer_ok s = (percent (host_cpu_percent s) \<and> percent (agent_cpu_percent s) \<and>
     (if contribution_paused s then allocatable_memory_bytes s = 0 \<and> snapshot_cpu_score s = Fin 0
      else allocatable_memory_bytes s \<le> available_memory_bytes s \<and>
        (allocatable_memory_bytes s = 0 \<or>
         unat (allocatable_memory_bytes s) + unat (agent_memory_bytes s) \<le> unat (memory_policy (total_memory_bytes s) (memory_limit_percent s))) \<and>
        fl_nonneg (snapshot_cpu_score s) \<and>
        fl_le (snapshot_cpu_score s) (effective_cpu_score (calibrated_cpu_score s) (Fin 0) (Fin 0) (cpu_limit_percent s))))"

definition monitor_ok :: "flt \<Rightarrow> flt \<Rightarrow> resource_monitor \<Rightarrow> bool" where
  "monitor_ok calibrated limit m = ((\<forall>x. ewma_host m = Some x \<longrightarrow> percent x) \<and> (\<forall>x. ewma_agent m = Some x \<longrightarrow> percent x) \<and>
     calibrated_cpu_score (monitored m) = calibrated \<and> cpu_limit_percent (monitored m) = limit)"

lemma policy_room:
  "sat_sub p a = (0::u64) \<or> unat (min v (sat_sub p a)) + unat a \<le> unat p"
proof -
  have "unat (min v (sat_sub p a)) \<le> unat p - unat a" using unat_sat_sub [of p a] by (simp add: min_def word_le_nat_alt)
  moreover have "sat_sub p a = 0 \<or> unat a < unat p" using unat_sat_sub [of p a] by (auto simp: unat_eq_zero)
  ultimately show ?thesis by auto
qed

lemma refresh_ok:
  assumes "monitor_ok c l m" "sound_readings r" "is_finite c" "l \<noteq> NaN"
  shows "monitor_ok c l (monitor_refresh r m)" "offer_ok (monitored (monitor_refresh r m))"
    "contribution_paused (monitored (monitor_refresh r m)) = contribution_paused (monitored m)"
proof -
  define host where "host = ewma (ewma_host m) (fl_clamp (global_cpu r) (Fin 0) (Fin 100))"
  define agent where "agent = ewma (ewma_agent m)
    (fl_clamp (fl_div rnd32 (case own_process r of None \<Rightarrow> Fin 0 | Some (c, _) \<Rightarrow> c)
       (f32_of_nat (unat (max (logical_cores (monitored m)) 1)))) (Fin 0) (Fin 100))"
  have host: "percent host"
    unfolding host_def by (rule ewma_percent) (use assms(1,2) in \<open>auto simp: monitor_ok_def sound_readings_def percent_clamp\<close>)
  have agent: "percent agent"
    unfolding agent_def by (rule ewma_percent)
      (use assms(1,2) in \<open>auto simp: monitor_ok_def sound_readings_def intro!: percent_clamp per_core_number split: option.splits\<close>)
  have le: "fl_le (Fin 0) host" "fl_le (Fin 0) agent" using host agent by (auto simp: percent_def)
  have c: "fl_le c c" "fl_le l l" using assms(3,4) by (auto intro: fl_le_refl)
  note score = effective_mono [OF assms(3) c(1) le c(2)]
  let ?s = "monitored (monitor_refresh r m)"
  show "monitor_ok c l (monitor_refresh r m)"
    using host agent assms(1) by (simp add: monitor_ok_def monitor_refresh_def Let_def host_def [symmetric] agent_def [symmetric])
  show "contribution_paused ?s = contribution_paused (monitored m)" by (simp add: monitor_refresh_def Let_def)
  have "percent (host_cpu_percent ?s)" "percent (agent_cpu_percent ?s)"
    using host agent by (simp_all add: monitor_refresh_def Let_def host_def [symmetric] agent_def [symmetric])
  moreover have "contribution_paused ?s \<Longrightarrow> allocatable_memory_bytes ?s = 0 \<and> snapshot_cpu_score ?s = Fin 0"
    by (simp add: monitor_refresh_def Let_def split: if_splits)
  moreover have "snapshot_cpu_score ?s = effective_cpu_score c host agent l" "calibrated_cpu_score ?s = c" "cpu_limit_percent ?s = l"
      "allocatable_memory_bytes ?s = min (available_memory_bytes ?s)
        (sat_sub (memory_policy (total_memory_bytes ?s) (memory_limit_percent ?s)) (agent_memory_bytes ?s))"
    if "\<not> contribution_paused ?s"
    using that assms(1) by (simp_all add: monitor_refresh_def Let_def monitor_ok_def host_def [symmetric] agent_def [symmetric] split: if_splits)
  ultimately show "offer_ok ?s"
    using score policy_room [of "memory_policy (total_memory_bytes ?s) (memory_limit_percent ?s)" "agent_memory_bytes ?s" "available_memory_bytes ?s"]
    unfolding offer_ok_def by (auto simp: min_def)
qed

lemma monitor_handle_ok:
  assumes "monitor_ok c l m" "sound_readings (event_readings ev)" "is_finite c" "l \<noteq> NaN"
  shows "monitor_ok c l (monitor_handle ev m) \<and> offer_ok (monitored (monitor_handle ev m))"
proof (cases ev)
  case (Refresh r)
  with refresh_ok(1,2) [OF assms(1) _ assms(3,4), of r] assms(2) show ?thesis by simp
next
  case (Pause p r)
  have "monitor_ok c l (m\<lparr>monitored := (monitored m)\<lparr>contribution_paused := p\<rparr>\<rparr>)" using assms(1) by (simp add: monitor_ok_def)
  from refresh_ok(1,2) [OF this _ assms(3,4), of r] Pause assms(2) show ?thesis by (simp add: set_contribution_paused_def)
qed

lemma monitor_events_ok:
  assumes "is_finite c" "l \<noteq> NaN" "\<forall>ev\<in>set evs. sound_readings (event_readings ev)" "monitor_ok c l m" "offer_ok (monitored m)"
  shows "monitor_ok c l (fold monitor_handle evs m) \<and> offer_ok (monitored (fold monitor_handle evs m))"
  using assms(3-5) monitor_handle_ok [OF _ _ assms(1,2)] by (induction evs arbitrary: m) auto

lemma monitor_start_ok:
  assumes "is_finite c" "l \<noteq> NaN" "sound_readings r"
  shows "monitor_ok c l (monitor_start k c l ml r) \<and> offer_ok (monitored (monitor_start k c l ml r))"
  unfolding monitor_start_def using assms
  by (intro conjI refresh_ok(1,2) [of c l _ r]) (simp_all add: monitor_ok_def)

text \<open>What stays tied to the inputs: the machine's memory, the user's limit, the last pause or resumption and the last readings.\<close>

definition monitor_tied :: "machine \<Rightarrow> flt \<Rightarrow> bool \<Rightarrow> readings \<Rightarrow> resource_monitor \<Rightarrow> bool" where
  "monitor_tied k limit paused r m = (let s = monitored m in
     total_memory_bytes s = memory_size k \<and> memory_limit_percent s = limit \<and> contribution_paused s = paused \<and>
     available_memory_bytes s = memory_available r \<and>
     agent_memory_bytes s = (case own_process r of None \<Rightarrow> 0 | Some (_, n) \<Rightarrow> n))"

fun pause_after :: "monitor_event \<Rightarrow> bool \<Rightarrow> bool" where
  "pause_after (Refresh r) p = p"
| "pause_after (Pause b r) p = b"

lemma refresh_tied: "monitor_tied k limit paused r' m \<Longrightarrow> monitor_tied k limit paused r (monitor_refresh r m)"
  by (simp add: monitor_tied_def monitor_refresh_def Let_def)

lemma handle_tied:
  assumes "monitor_tied k limit paused r m"
  shows "monitor_tied k limit (pause_after ev paused) (event_readings ev) (monitor_handle ev m)"
proof (cases ev)
  case (Refresh r')
  with refresh_tied [OF assms] show ?thesis by simp
next
  case (Pause b r')
  have "monitor_tied k limit b r (m\<lparr>monitored := (monitored m)\<lparr>contribution_paused := b\<rparr>\<rparr>)"
    using assms by (simp add: monitor_tied_def Let_def)
  with refresh_tied Pause show ?thesis by (simp add: set_contribution_paused_def)
qed

lemma events_tied:
  "monitor_tied k limit paused r m \<Longrightarrow>
   monitor_tied k limit (fold pause_after evs paused) (last (r # map event_readings evs)) (fold monitor_handle evs m)"
proof (induction evs arbitrary: paused r m)
  case (Cons ev evs)
  from Cons.IH [OF handle_tied [OF Cons.prems, of ev]] show ?case by simp
qed simp

lemma start_tied: "monitor_tied k limit False r (monitor_start k calibrated cpu_limit limit r)"
  by (simp add: monitor_start_def monitor_tied_def monitor_refresh_def Let_def)

lemma idle_score:
  "effective_cpu_score c (Fin 0) (Fin 0) l =
     fl_div rnd64 (fl_mul rnd64 (fl_max c (Fin 0)) (fl_min (Fin 100) (fl_max (fl_sub rnd32 (fl_clamp l (Fin 0) (Fin 100)) (Fin 0)) (Fin 0)))) (Fin 100)"
proof -
  have "fl_clamp (Fin 0) (Fin 0) (Fin 100) = Fin 0" "fl_max (fl_sub rnd32 (Fin 100) (Fin 0)) (Fin 0) = Fin 100"
    using rnd32_int [of 100] by (simp_all add: fl_clamp_def fl_max_def fl_sub_def)
  then show ?thesis by (simp add: effective_cpu_score_def)
qed

text \<open>
  C29. An agent never offers more than it may: after any sequence of refreshes, pauses and resumptions, with any readings
  that are numbers and with the rounding of the arithmetic, the smoothed loads are percentages and the agent is paused exactly when the
  last pause or resumption said so. A paused agent offers no memory and a score of zero. Otherwise the memory offered is available in the
  last reading and, with the agent's own memory in that reading, within the user's percentage of the machine's memory (rounded down to
  whole bytes), and the score is non-negative and at most the calibrated score times the user's CPU limit, as an idle machine would have.
\<close>

theorem offer_within_limits:
  assumes "is_finite calibrated" "cpu_limit \<noteq> NaN" "\<forall>ev\<in>set evs. sound_readings (event_readings ev)" "sound_readings r"
    and "s = monitored (fold monitor_handle evs (monitor_start k calibrated cpu_limit memory_limit r))"
    and "now = last (r # map event_readings evs)"
    and "paused = fold (\<lambda>ev p. case ev of Refresh _ \<Rightarrow> p | Pause b _ \<Rightarrow> b) evs False"
    and "own = (case own_process now of None \<Rightarrow> 0 | Some (_, n) \<Rightarrow> n)"
  shows "percent (host_cpu_percent s) \<and> percent (agent_cpu_percent s) \<and> contribution_paused s = paused \<and>
     (if paused then allocatable_memory_bytes s = 0 \<and> snapshot_cpu_score s = Fin 0
      else allocatable_memory_bytes s \<le> memory_available now \<and>
        (allocatable_memory_bytes s = 0 \<or>
         unat (allocatable_memory_bytes s) + unat own
           \<le> unat (f64_to_u64 (fl_div rnd64 (fl_mul rnd64 (f64_of_nat (unat (memory_size k))) memory_limit) (Fin 100)))) \<and>
        fl_nonneg (snapshot_cpu_score s) \<and>
        fl_le (snapshot_cpu_score s)
          (fl_div rnd64 (fl_mul rnd64 (fl_max calibrated (Fin 0))
             (fl_min (Fin 100) (fl_max (fl_sub rnd32 (fl_clamp cpu_limit (Fin 0) (Fin 100)) (Fin 0)) (Fin 0)))) (Fin 100)))"
proof -
  note start = monitor_start_ok [OF assms(1,2,4), of k memory_limit]
  from monitor_events_ok [OF assms(1-3) start [THEN conjunct1] start [THEN conjunct2]]
  have ok: "offer_ok s" and eq: "calibrated_cpu_score s = calibrated" "cpu_limit_percent s = cpu_limit"
    unfolding assms(5) monitor_ok_def by simp_all
  have "pause_after = (\<lambda>ev p. case ev of Refresh _ \<Rightarrow> p | Pause b _ \<Rightarrow> b)"
    by (intro ext) (simp split: monitor_event.split)
  then have "paused = fold pause_after evs False" by (simp only: assms(7))
  then have "total_memory_bytes s = memory_size k" "memory_limit_percent s = memory_limit" "contribution_paused s = paused"
      "available_memory_bytes s = memory_available now" "agent_memory_bytes s = own"
    using events_tied [OF start_tied, of k memory_limit evs r calibrated cpu_limit]
    by (simp_all add: monitor_tied_def Let_def assms(5,6,8) [symmetric] del: last.simps)
  with ok show ?thesis unfolding offer_ok_def eq idle_score memory_policy_def by (cases paused) simp_all
qed

definition demo_readings :: readings where
  "demo_readings = \<lparr>global_cpu = Fin 20, own_process = Some (Fin 5, 100), memory_available = 1000, unix_ms = 0, tasks_active = 0,
     phone = mobile_start\<rparr>"

definition demo_machine_kind :: machine where
  "demo_machine_kind = \<lparr>cpu_count = 4, physical_count = None, first_brand = None, memory_size = 4000, machine_os = [], machine_arch = []\<rparr>"

theorem offer_within_limits_witness:
  "\<exists>s. s = monitored (fold monitor_handle [Refresh demo_readings, Pause True demo_readings, Pause False demo_readings]
       (monitor_start demo_machine_kind (Fin 10) (Fin 75) (Fin 50) demo_readings)) \<and>
     \<not> contribution_paused s \<and> allocatable_memory_bytes s \<le> 1000 \<and> percent (host_cpu_percent s)"
proof -
  define s where "s = monitored (fold monitor_handle [Refresh demo_readings, Pause True demo_readings, Pause False demo_readings]
       (monitor_start demo_machine_kind (Fin 10) (Fin 75) (Fin 50) demo_readings))"
  have "sound_readings demo_readings" by (simp add: sound_readings_def demo_readings_def)
  with offer_within_limits [OF _ _ _ _ s_def refl refl refl]
  have "\<not> contribution_paused s \<and> allocatable_memory_bytes s \<le> memory_available demo_readings \<and> percent (host_cpu_percent s)" by simp
  then show ?thesis using s_def by (auto simp: demo_readings_def)
qed

section \<open>The mobile environment\<close>

lemma mobile_codes:
  "mobile_u8 (code_u8 b) = b" "mobile_bool (code_bool c) = c"
proof -
  have "mobile_u8 (ucast x) = Some x" for x :: u8
  proof -
    have "unat x < 2 ^ LENGTH(8)" by (rule unsigned_less)
    then have "unat (ucast x :: u32) = unat x" by (simp add: unsigned_ucast_eq take_bit_nat_eq_self)
    with \<open>unat x < 2 ^ LENGTH(8)\<close> have "(ucast x :: u32) \<le> 255" "(ucast x :: u32) \<noteq> - 1"
      by (auto simp: word_le_nat_alt word_unat_eq_iff unat_max_word)
    then show ?thesis by (simp add: mobile_u8_def MOBILE_UNKNOWN_def min_def) (transfer, simp add: take_bit_take_bit)
  qed
  then show "mobile_u8 (code_u8 b) = b" by (cases b) (simp_all add: code_u8_def mobile_u8_def)
  show "mobile_bool (code_bool c) = c" by (cases c) (auto simp: code_bool_def mobile_bool_def MOBILE_UNKNOWN_def)
qed

end
