(* ===== verification/Agent_Frame.thy ===== *)
theory Agent_Frame
  imports Run_Loop Matrix_Props Artifact_Run Update_Run Inbound_Props Resource_Props
begin

text \<open>
  What the operations of the whole agent leave alone: the scheduler's operations keep the snapshot and
  dispatching keeps the request counter; a lifted operation changes only its component; and the effect of each group of commands.
\<close>

section \<open>The scheduler\<close>


lemma own_emit [simp]:
  "own_resources (emit ev fs s) = own_resources s" "own_resources (report e p r s) = own_resources s"
  "own_resources (task_started e i d p dir s) = own_resources s" "own_resources (put_job i j s) = own_resources s"
  "own_resources (drop_job i s) = own_resources s" "own_resources (add_outbound k m s) = own_resources s"
  "own_resources (spawn_task t s) = own_resources s" "own_resources (queue_local c s) = own_resources s"
  "own_resources (snd (send_request p q s)) = own_resources s" "own_resources (snd (next_sequence s)) = own_resources s"
  by (simp_all add: emit_def report_def task_started_def put_job_def drop_job_def add_outbound_def spawn_task_def queue_local_def
      send_request_def next_sequence_def)

lemma own_submit [simp]:
  "own_resources (submit_task e p t s) = own_resources s" "own_resources (submit_local_task e t s) = own_resources s"
  "own_resources (run_spawned e k ms s) = own_resources s"
  by (simp_all add: submit_task_def submit_local_task_def run_spawned_def next_sequence_def send_request_def Let_def)

lemma own_place [simp]: "own_resources (place_cpu_task e t v s) = own_resources s"
  by (auto simp: place_cpu_task_def next_sequence_def Let_def split: option.splits)

lemma own_fail [simp]: "own_resources (fail_matrix_job e i m s) = own_resources s"
  by (auto simp: fail_matrix_job_def Let_def split: option.splits)

lemma own_retry [simp]: "own_resources (retry_matrix_chunk e i w c m s) = own_resources s"
  by (auto simp: retry_matrix_chunk_def Let_def split: option.splits)

lemma own_fail_or_retry [simp]: "own_resources (fail_or_retry_matrix_chunk e i w c m s) = own_resources s"
  by (auto simp: fail_or_retry_matrix_chunk_def split: matrix_worker.split option.split)

lemma own_accept [simp]: "own_resources (accept_chunk e i w x j s) = own_resources s"
  by (simp add: accept_chunk_def Let_def)

lemma own_complete [simp]: "own_resources (complete_matrix_chunk e i w c r s) = own_resources s"
proof (cases "outcome r")
  case (Success x)
  then show ?thesis by (cases x) (auto simp: complete_matrix_chunk_def split: option.split)
qed (simp add: complete_matrix_chunk_def)

lemma own_start [simp]: "own_resources (start_distributed_matrix e n rows s) = own_resources s"
  by (auto simp: start_distributed_matrix_def next_sequence_def Let_def)

lemma own_start_dispatch [simp]: "own_resources (start_dispatch e d s) = own_resources s"
  by (auto simp: start_dispatch_def send_request_def Let_def split: matrix_worker.splits)

lemma own_fold: "(\<And>x s. own_resources (f x s) = own_resources s) \<Longrightarrow> own_resources (fold f xs s) = own_resources s"
  by (induction xs arbitrary: s) auto

lemma own_dispatch [simp]: "own_resources (dispatch_matrix_jobs e s) = own_resources s"
  unfolding dispatch_matrix_jobs_def Let_def by (subst own_fold, simp, subst own_fold) simp_all

lemma own_response [simp]: "own_resources (handle_response e rid p r s) = own_resources s"
proof -
  have "own_resources (handle_response e rid p r s) = own_resources s"
    if "\<forall>v n m q. outcome r \<noteq> Success (RNodeInfo v n m q)"
  proof -
    have eq: "handle_response e rid p r s = (let s2 = report e p r (s\<lparr>outbound_tasks := map_remove rid (outbound_tasks s)\<rparr>)
       in case map_of (outbound_tasks s) rid of None \<Rightarrow> s2
       | Some m \<Rightarrow> (case (meta_job m, meta_worker m, meta_chunk m) of
            (Some i, Some w, Some c) \<Rightarrow> complete_matrix_chunk e i w (Some c) r s2 | _ \<Rightarrow> s2))"
      using that unfolding handle_response_def Let_def by (cases "outcome r") (simp_all split: task_result.split)
    show ?thesis unfolding eq Let_def by (simp split: option.split)
  qed
  then show ?thesis
    by (cases "\<exists>v n m q. outcome r = Success (RNodeInfo v n m q)") (auto simp: handle_response_def Let_def split: option.split)
qed

lemma own_failure [simp]: "own_resources (handle_outbound_failure e rid p m s) = own_resources s"
  by (simp add: handle_outbound_failure_def Let_def split: option.split)

lemma own_deliver [simp]: "own_resources (deliver_local e s) = own_resources s"
  by (simp add: deliver_local_def Let_def split: list.split option.split)

lemma counter_fail [simp]: "request_counter (fail_matrix_job e i m s) = request_counter s"
  by (auto simp: fail_matrix_job_def Let_def emit_def report_def drop_job_def split: option.splits)

lemma counter_start_dispatch [simp]: "request_counter (start_dispatch e d s) = request_counter s"
  by (auto simp: start_dispatch_def send_request_def Let_def task_started_def spawn_task_def add_outbound_def split: matrix_worker.splits)

lemma counter_fold: "(\<And>x s. request_counter (f x s) = request_counter s) \<Longrightarrow> request_counter (fold f xs s) = request_counter s"
  by (induction xs arbitrary: s) auto

lemma counter_dispatch [simp]: "request_counter (dispatch_matrix_jobs e s) = request_counter s"
  unfolding dispatch_matrix_jobs_def Let_def by (subst counter_fold, simp, subst counter_fold) simp_all

lemma counter_submit [simp]: "request_counter (submit_task e p t s) = request_counter s + 1"
  by (simp add: submit_task_def next_sequence_def send_request_def Let_def task_started_def add_outbound_def)

section \<open>Lifted operations\<close>

lemma on_node_frame [simp]:
  "ag_node (on_node f a) = f (ag_node a)" "ag_exchange (on_node f a) = ag_exchange a" "ag_updates (on_node f a) = ag_updates a"
  "ag_inbound (on_node f a) = ag_inbound a" "ag_monitor (on_node f a) = ag_monitor a" "connected_peers (on_node f a) = connected_peers a"
  by (simp_all add: on_node_def Let_def)

lemma on_exchange_frame [simp]:
  "ag_node (on_exchange f a) = ag_node a" "ag_exchange (on_exchange f a) = f (ag_exchange a)" "ag_updates (on_exchange f a) = ag_updates a"
  "ag_inbound (on_exchange f a) = ag_inbound a" "ag_monitor (on_exchange f a) = ag_monitor a"
  by (simp_all add: on_exchange_def Let_def)

lemma on_updates_frame [simp]:
  "ag_node (on_updates f a) = ag_node a" "ag_exchange (on_updates f a) = ag_exchange a" "ag_updates (on_updates f a) = f (ag_updates a)"
  "ag_inbound (on_updates f a) = ag_inbound a" "ag_monitor (on_updates f a) = ag_monitor a"
  by (simp_all add: on_updates_def Let_def)

lemma on_inbound_frame [simp]:
  "ag_node (on_inbound f a) = ag_node a" "ag_exchange (on_inbound f a) = ag_exchange a" "ag_updates (on_inbound f a) = ag_updates a"
  "ag_inbound (on_inbound f a) = f (ag_inbound a)" "ag_monitor (on_inbound f a) = ag_monitor a"
  by (simp_all add: on_inbound_def Let_def)

lemma announce_frame [simp]:
  "ag_node (announce ev fs a) = ag_node a" "ag_exchange (announce ev fs a) = ag_exchange a" "ag_updates (announce ev fs a) = ag_updates a"
  "ag_inbound (announce ev fs a) = ag_inbound a" "ag_monitor (announce ev fs a) = ag_monitor a"
  "ag_node (announce_resources e a) = ag_node a" "ag_exchange (announce_resources e a) = ag_exchange a"
  "ag_updates (announce_resources e a) = ag_updates a" "ag_inbound (announce_resources e a) = ag_inbound a"
  "ag_monitor (announce_resources e a) = ag_monitor a" "connected_peers (announce_resources e a) = connected_peers a"
  "connected_peers (announce ev fs a) = connected_peers a"
  by (simp_all add: announce_def announce_resources_def)

lemma spawn_job_frame [simp]:
  "ag_node (spawn_store_job j a) = ag_node a" "ag_exchange (spawn_store_job j a) = ag_exchange a" "ag_updates (spawn_store_job j a) = ag_updates a"
  "ag_inbound (spawn_store_job j a) = ag_inbound a" "ag_monitor (spawn_store_job j a) = ag_monitor a"
  by (simp_all add: spawn_store_job_def)

lemma set_monitor_frame [simp]:
  "ag_node (set_monitor m a) = (ag_node a)\<lparr>own_resources := monitored m\<rparr>" "ag_exchange (set_monitor m a) = ag_exchange a"
  "ag_updates (set_monitor m a) = ag_updates a" "ag_inbound (set_monitor m a) = ag_inbound a" "ag_monitor (set_monitor m a) = m"
  "connected_peers (set_monitor m a) = connected_peers a"
  by (simp_all add: set_monitor_def)

lemma know_peer_frame [simp]:
  "ag_node (know_peer p s a) = ag_node a" "ag_exchange (know_peer p s a) = ag_exchange a" "ag_updates (know_peer p s a) = ag_updates a"
  "ag_inbound (know_peer p s a) = ag_inbound a" "ag_monitor (know_peer p s a) = ag_monitor a"
  by (simp_all add: know_peer_def)

section \<open>Component steps\<close>

lemma say_asked [simp]: "asked (say ev fs x) = asked x"
  by (simp add: say_def)

lemma on_disk_asked: "on_disk m x = (r, y) \<Longrightarrow> asked y = asked x"
  by (auto simp: on_disk_def split: prod.splits)

lemma status_asked [simp]: "asked (emit_artifact_status e x) = asked x"
  by (auto simp: emit_artifact_status_def split: prod.splits sum.splits dest: on_disk_asked)

text \<open>What changes only the disk and the output of the exchange is one of its steps.\<close>

lemma exchange_only:
  assumes "downloads y = downloads x" "requests y = requests x" "next_ask y = next_ask x" "asked y = asked x"
  shows "exchange_step e x y"
proof -
  have "y = x\<lparr>disk := disk y, log_of := log_of y\<rparr>" using assms by (cases x; cases y) simp
  then show ?thesis using exchange_step.other by metis
qed

lemma exchange_on_disk: "on_disk m x = (r, y) \<Longrightarrow> exchange_step e x y"
  using exchange_only [of y x e] links_on_disk [of m x r y] on_disk_asked [of m x r y] by simp

lemma fold_say_links:
  "downloads (fold (\<lambda>m. say (ev m) (fs m)) ms x) = downloads x" "requests (fold (\<lambda>m. say (ev m) (fs m)) ms x) = requests x"
  "next_ask (fold (\<lambda>m. say (ev m) (fs m)) ms x) = next_ask x" "asked (fold (\<lambda>m. say (ev m) (fs m)) ms x) = asked x"
  by (induction ms arbitrary: x) auto

lemma list_command_step: "exchange_step e x (list_command e' x)"
proof -
  obtain r y where r: "on_disk (list_artifacts (store e')) x = (r, y)" by fastforce
  have "downloads (list_command e' x) = downloads y \<and> requests (list_command e' x) = requests y \<and>
      next_ask (list_command e' x) = next_ask y \<and> asked (list_command e' x) = asked y"
    by (cases r) (simp_all add: list_command_def r fold_say_links)
  with links_on_disk [OF r] on_disk_asked [OF r] show ?thesis by (intro exchange_only) simp_all
qed

lemma status_step: "exchange_step e x (emit_artifact_status e' x)"
  by (rule exchange_only) simp_all

lemma update_other:
  assumes "manager u' = (manager u)\<lparr>trusted := ps\<rparr>" "ps \<subseteq> T" "launched u' = launched u" "up_sent u' = up_sent u"
    and "\<And>d. download (manager u) = Some d \<Longrightarrow> file_at (up_disk u') (pd_path d) = file_at (up_disk u) (pd_path d)"
  shows "update_step e T u u'"
proof -
  have "u' = u\<lparr>up_disk := up_disk u', manager := (manager u)\<lparr>trusted := ps\<rparr>, up_log := up_log u'\<rparr>"
    using assms(1,3,4) by (cases u; cases u') simp
  moreover have "update_step e T u (u\<lparr>up_disk := up_disk u', manager := (manager u)\<lparr>trusted := ps\<rparr>, up_log := up_log u'\<rparr>)"
    by (rule update_step.other [OF assms(2,5)])
  ultimately show ?thesis by metis
qed

end
