(* ===== verification/Agent_Run.thy ===== *)
theory Agent_Run
  imports Agent_Frame
begin

text \<open>
  Runs of the whole agent, and that each of its components takes only steps of its own runs in them: the scheduler, the
  artifact exchange, the updates, the inbound tasks and the resource monitor.
\<close>

section \<open>The effect of the commands\<close>

text \<open>What an artifact command may change.\<close>

definition artifact_effect :: "agent_env \<Rightarrow> agent \<Rightarrow> agent \<Rightarrow> bool" where
  "artifact_effect e a b = (ag_node b = ag_node a \<and> ag_updates b = ag_updates a \<and> ag_inbound b = ag_inbound a \<and>
     ag_monitor b = ag_monitor a \<and>
     (ag_exchange b = ag_exchange a \<or> exchange_step (ae_exchange e) (ag_exchange a) (ag_exchange b)))"

lemma artifact_effect_same [simp]:
  "artifact_effect e a a" "artifact_effect e a (announce ev fs b) = artifact_effect e a b"
  "artifact_effect e a (spawn_store_job j b) = artifact_effect e a b"
  by (simp_all add: artifact_effect_def)

lemma artifact_effect_step: "exchange_step (ae_exchange e) (ag_exchange a) (f (ag_exchange a)) \<Longrightarrow> artifact_effect e a (on_exchange f a)"
  by (simp add: artifact_effect_def)

lemma artifact_command_effect:
  assumes "artifact_command e line command parts a = Some b"
  shows "artifact_effect e a b"
proof -
  have "artifact_effect e a (import_command line command a)" by (simp add: import_command_def split: option.split)
  moreover have "artifact_effect e a (verify_command e parts a)" by (simp add: verify_command_def split: list.split sum.split)
  moreover have "artifact_effect e a (export_command e line command a)"
    by (simp add: export_command_def Let_def split: option.split sum.split)
  moreover have "artifact_effect e a (peer_list_command e parts a)"
    by (simp add: peer_list_command_def artifact_effect_step exchange_step.inventory split: sum.split)
  moreover have "artifact_effect e a (fetch_command e parts a)"
    by (simp add: fetch_command_def artifact_effect_step exchange_step.start split: sum.split)
  moreover have "artifact_effect e a (fetch_many_command e parts a)"
    by (simp add: fetch_many_command_def artifact_effect_step exchange_step.start split: sum.split option.split)
  moreover have "artifact_effect e a (on_exchange (emit_artifact_status (ae_exchange e)) a)"
    "artifact_effect e a (on_exchange (list_command (ae_exchange e)) a)"
    by (intro artifact_effect_step status_step list_command_step)+
  ultimately show ?thesis using assms by (auto simp: artifact_command_def split: if_splits)
qed

text \<open>What an update command may change: a request, or trust with the trust file.\<close>

definition places_apart :: "update_env \<Rightarrow> update_manager \<Rightarrow> bool" where
  "places_apart e m = ((\<forall>a b c. path_join e a b = path_join e a c \<longrightarrow> b = c) \<and> (\<forall>c v p. download_path e m c v p \<noteq> trust_path m))"

lemma persist_trust_at:
  assumes "run_files (persist_trust e m) u = (r, u')" "q \<noteq> trust_path m"
  shows "file_at (up_disk u') q = file_at (up_disk u) q"
proof -
  have "persist_trust e m (up_disk u) = (r, up_disk u')" using run_files_frame(4) [OF assms(1)] .
  then show ?thesis unfolding persist_trust_def Let_def
  proof (cases rule: io_bind_cases)
    case (err x)
    then show ?thesis using fs_check_at [of "up_disk u"] by (auto simp: io_runs)
  next
    case (ok x t)
    then have "fs_check (up_disk u) = (Inr x, t)" by (simp add: io_runs)
    moreover obtain z where "fs_write (trust_path m) (encode_text e (join_with [LF] (map (peer_name e) (sorted_list_of_set (trusted m))) @ [LF])) t = (z, up_disk u')"
      using ok(2) by (auto simp: io_map_err_def split: prod.splits sum.splits)
    ultimately show ?thesis using fs_check_at [of "up_disk u" "Inr x" t] fs_write_at assms(2) by metis
  qed
qed

lemma run_files_sent: "run_files m u = (r, u') \<Longrightarrow> up_sent u' = up_sent u"
  by (auto simp: run_files_def split: prod.splits)

lemma trust_step:
  assumes "update_inv e T u" "places_apart e (manager u)" "ps \<subseteq> T"
    and "run_files (persist_trust e (manager (set_trusted ps u))) (set_trusted ps u) = (r, u1)" "u' = u1 \<or> u' = tell ev fs u1"
  shows "update_step e T u u'"
proof -
  note fr = run_files_frame [OF assms(4)] and sent = run_files_sent [OF assms(4)]
  have "file_at (up_disk u1) (pd_path d) = file_at (up_disk u) (pd_path d)" if "download (manager u) = Some d" for d
  proof -
    have "pd_path d = download_path e (manager u) (pd_component d) (um_version (su_manifest (pd_signed d))) (pd_peer d)"
      using assms(1) that by (simp add: update_inv_def download_good_def)
    with assms(2) have "pd_path d \<noteq> trust_path (manager (set_trusted ps u))" by (simp add: places_apart_def set_trusted_def)
    from persist_trust_at [OF assms(4) this] show ?thesis by (simp add: set_trusted_def)
  qed
  moreover have "up_sent (tell ev fs u1) = up_sent u1" by (simp add: tell_def)
  ultimately show ?thesis
    using assms(5) fr(1,2) sent by (intro update_other [OF _ assms(3)]) (auto simp: set_trusted_def)
qed

lemma list_trusted_step:
  assumes "trusted (manager u) \<subseteq> T"
  shows "update_step e T u (list_trusted e' u)"
proof -
  have "manager (fold (\<lambda>p. tell ''UPDATE_TRUSTED'' [peer_name e' p]) ps u) = manager u \<and>
      launched (fold (\<lambda>p. tell ''UPDATE_TRUSTED'' [peer_name e' p]) ps u) = launched u \<and>
      up_sent (fold (\<lambda>p. tell ''UPDATE_TRUSTED'' [peer_name e' p]) ps u) = up_sent u \<and>
      up_disk (fold (\<lambda>p. tell ''UPDATE_TRUSTED'' [peer_name e' p]) ps u) = up_disk u" for ps
    by (induction ps arbitrary: u) (simp_all add: tell_def)
  then show ?thesis unfolding list_trusted_def by (intro update_other [OF _ assms]) simp_all
qed

definition update_effect :: "agent_env \<Rightarrow> peer_id set \<Rightarrow> agent \<Rightarrow> agent \<Rightarrow> bool" where
  "update_effect e T a b = (ag_node b = ag_node a \<and> ag_exchange b = ag_exchange a \<and> ag_inbound b = ag_inbound a \<and>
     ag_monitor b = ag_monitor a \<and>
     (ag_updates b = ag_updates a \<or> update_step (ae_update e) T (ag_updates a) (ag_updates b)))"

lemma update_effect_step: "update_step (ae_update e) T (ag_updates a) (f (ag_updates a)) \<Longrightarrow> update_effect e T a (on_updates f a)"
  by (simp add: update_effect_def)

lemma trusted_after:
  "trusted (manager (trust_peer e p u)) = insert p (trusted (manager u))"
  "trusted (manager (untrust_peer e p u)) = trusted (manager u) - {p}"
  by (auto simp: trust_peer_def untrust_peer_def Let_def set_trusted_def split: prod.splits sum.splits dest!: run_files_frame(1))

lemma trust_peer_step:
  assumes "update_inv e T u" "places_apart e (manager u)"
  shows "p \<in> T \<Longrightarrow> update_step e T u (trust_peer e p u)" "update_step e T u (untrust_peer e p u)"
proof -
  have T: "trusted (manager u) \<subseteq> T" using assms(1) by (simp add: update_inv_def)
  show "update_step e T u (trust_peer e p u)" if "p \<in> T"
  proof -
    let ?ps = "insert p (trusted (manager u))"
    obtain r u1 where r: "run_files (persist_trust e (manager (set_trusted ?ps u))) (set_trusted ?ps u) = (r, u1)" by fastforce
    show ?thesis
      by (rule trust_step [OF assms _ r, of _ "''UPDATE_TRUSTED''" "[peer_name e p]"]) (use T that in \<open>auto simp: trust_peer_def Let_def r split: sum.split\<close>)
  qed
  show "update_step e T u (untrust_peer e p u)"
  proof -
    let ?ps = "trusted (manager u) - {p}"
    obtain r u1 where r: "run_files (persist_trust e (manager (set_trusted ?ps u))) (set_trusted ?ps u) = (r, u1)" by fastforce
    show ?thesis
      by (rule trust_step [OF assms _ r, of _ "''UPDATE_UNTRUSTED''" "[peer_name e p]"]) (use T in \<open>auto simp: untrust_peer_def Let_def r split: sum.split\<close>)
  qed
qed

lemma update_command_effect:
  assumes "update_command e command parts a = Some b" "update_inv (ae_update e) T (ag_updates a)"
    and "places_apart (ae_update e) (manager (ag_updates a))" "trusted (manager (ag_updates b)) \<subseteq> T"
  shows "update_effect e T a b"
proof -
  have T: "trusted (manager (ag_updates a)) \<subseteq> T" using assms(2) by (simp add: update_inv_def)
  have for_peer: "update_effect e T a (for_peer e parts f a)" if "\<And>p. parse_peer e parts = Inr p \<Longrightarrow> update_effect e T a (f p a)" for f
    using that by (auto simp: for_peer_def update_effect_def split: sum.split)
  have req: "update_effect e T a (on_updates (begin_update_request (ae_update e) p ap) a)"
    "update_effect e T a (on_updates (begin_debugger_update_request (ae_update e) p) a)"
    "update_effect e T a (on_updates (begin_android_update_request (ae_update e) p) a)" for p ap
    by (auto intro!: update_effect_step update_step.request
        simp: begin_update_request_def begin_debugger_update_request_def begin_android_update_request_def)
  show ?thesis
  proof (cases "command = ''trust''")
    case True
    with assms(1) have b: "b = for_peer e parts (\<lambda>p. on_updates (trust_peer (ae_update e) p)) a" by (simp add: update_command_def)
    show ?thesis unfolding b
    proof (rule for_peer)
      fix p assume "parse_peer e parts = Inr p"
      with assms(4) b have "p \<in> T" by (simp add: for_peer_def trusted_after)
      from trust_peer_step(1) [OF assms(2,3) this] show "update_effect e T a (on_updates (trust_peer (ae_update e) p) a)"
        by (rule update_effect_step)
    qed
  next
    case False
    with assms(1) show ?thesis
      by (auto simp: update_command_def split: if_splits
          intro!: for_peer req update_effect_step list_trusted_step [OF T] trust_peer_step(2) [OF assms(2,3)])
  qed
qed

text \<open>What a task command does to the scheduler.\<close>

definition task_effect :: "agent_env \<Rightarrow> agent \<Rightarrow> agent \<Rightarrow> bool" where
  "task_effect e a b = (ag_exchange b = ag_exchange a \<and> ag_updates b = ag_updates a \<and> ag_inbound b = ag_inbound a \<and>
     ag_monitor b = ag_monitor a \<and>
     (ag_node b = ag_node a \<or> (\<exists>p t. ag_node b = submit_task (ae_node e) p t (ag_node a)) \<or>
      (\<exists>t v. ag_node b = place_cpu_task (ae_node e) t v (ag_node a)) \<or>
      (\<exists>n rows. ag_node b = start_distributed_matrix (ae_node e) n rows (ag_node a))))"

lemma task_command_effect:
  assumes "task_command e command parts a = Some b"
  shows "task_effect e a b"
proof -
  have same: "task_effect e a a" by (simp add: task_effect_def)
  have "task_effect e a (submit_parsed e x a)" for x
    using same by (auto simp: submit_parsed_def task_effect_def split: option.split)
  moreover have "task_effect e a (on_node (place_cpu_task (ae_node e) t v) a)"
    "task_effect e a (on_node (start_distributed_matrix (ae_node e) n rows) a)" for t v n rows
    by (auto simp: task_effect_def)
  ultimately show ?thesis using assms same by (auto simp: task_command_def split: if_splits option.splits)
qed

lemma dial_command_effect:
  "dial_command e accepted command parts a = Some b \<Longrightarrow> task_effect e a b"
  by (auto simp: dial_command_def for_peer_def task_effect_def split: if_splits sum.splits list.splits option.splits)

section \<open>Runs\<close>

definition counter_room :: "agent \<Rightarrow> bool" where
  "counter_room a = (unat (request_counter (ag_node a)) + length (connected_peers a) + 1 < 2 ^ 64)"

text \<open>
  The moves of the environment a run allows: request identifiers do not wrap around, responses and failures answer
  requests that were sent, chunk results are those of honest workers, tables are walked in some order, data has a length, readings
  are numbers, and the user trusts only peers in \<open>T\<close>.
\<close>

definition network_fair :: "swarm_event \<Rightarrow> agent \<Rightarrow> bool" where
  "network_fair nev a = (case nev of
     TaskAnswered rid p r \<Rightarrow> \<exists>req. (rid, p, req) \<in> set (sent (ag_node a)) \<and> answers_ok req r
   | TaskFailed rid p err \<Rightarrow> \<exists>req. (rid, p, req) \<in> set (sent (ag_node a))
   | UpdateAnswered p r \<Rightarrow> \<forall>off v. r = UpChunk off v \<longrightarrow> length v < 2 ^ 64
   | ConnectionClosed p n w \<Rightarrow> walk_ok w
   | ArtifactAnswered rid r w \<Rightarrow> walk_ok w
   | ArtifactFailed rid p err w \<Rightarrow> walk_ok w
   | _ \<Rightarrow> True)"

definition event_fair :: "agent_env \<Rightarrow> version_env \<Rightarrow> peer_id set \<Rightarrow> agent_event \<Rightarrow> agent \<Rightarrow> bool" where
  "event_fair e v T ev a = (counter_room a \<and> trusted (manager (ag_updates (snd (agent_step e v ev a)))) \<subseteq> T \<and>
     (case ev of
        Network nev \<Rightarrow> network_fair nev a
      | CommandLine line r accepted \<Rightarrow> sound_readings r
      | ResourceTick r \<Rightarrow> sound_readings r
      | _ \<Rightarrow> True))"

definition fresh_agent :: "agent_env \<Rightarrow> peer_id set \<Rightarrow> agent \<Rightarrow> bool" where
  "fresh_agent e T a = (fresh_node (ag_node a) \<and> own_resources (ag_node a) = monitored (ag_monitor a) \<and>
     fresh_exchange (ag_exchange a) \<and> fresh_updates T (ag_updates a) \<and>
     places_apart (ae_update e) (manager (ag_updates a)) \<and>
     work_list (ag_inbound a) = [] \<and> completed_list (ag_inbound a) = [] \<and> answered (ag_inbound a) = [] \<and>
     undelivered (ag_inbound a) = [] \<and> in_active (ag_inbound a) = 0 \<and>
     (\<exists>k c l ml r. ag_monitor a = monitor_start k c l ml r \<and> is_finite c \<and> l \<noteq> NaN \<and> sound_readings r))"

inductive agent_moves :: "agent_env \<Rightarrow> version_env \<Rightarrow> peer_id set \<Rightarrow> agent \<Rightarrow> agent \<Rightarrow> bool" for e v T where
  fair: "event_fair e v T ev a \<Longrightarrow> agent_step e v ev a = (True, b) \<Longrightarrow> agent_moves e v T a b"

abbreviation agent_run :: "agent_env \<Rightarrow> version_env \<Rightarrow> peer_id set \<Rightarrow> agent \<Rightarrow> bool" where
  "agent_run e v T \<equiv> reachable (fresh_agent e T) (agent_moves e v T)"

lemmas agent_run_step = reachable.step [where start = "fresh_agent e T" and step = "agent_moves e v T" for e v T]

text \<open>The components but the scheduler, each in a run of its own.\<close>

definition monitor_good :: "resource_monitor \<Rightarrow> bool" where
  "monitor_good m = (offer_ok (monitored m) \<and> (\<exists>c l. is_finite c \<and> l \<noteq> NaN \<and> monitor_ok c l m))"

definition side_ok :: "agent_env \<Rightarrow> peer_id set \<Rightarrow> agent \<Rightarrow> bool" where
  "side_ok e T a = (exchange_run (ae_exchange e) (ag_exchange a) \<and> update_run (ae_update e) T (ag_updates a) \<and>
     places_apart (ae_update e) (manager (ag_updates a)) \<and> (\<exists>rs. inbound_run (ae_inbound e) rs (ag_inbound a)) \<and>
     monitor_good (ag_monitor a) \<and> own_resources (ag_node a) = monitored (ag_monitor a))"

lemma places_apart_same: "same_places m m' \<Longrightarrow> places_apart e m \<Longrightarrow> places_apart e m'"
  by (simp add: places_apart_def same_places_def download_path_def)

text \<open>A change of one component keeps the others.\<close>

lemma side_updates:
  assumes "side_ok e T a" "update_effect e T a b"
  shows "side_ok e T b"
proof (cases "ag_updates b = ag_updates a")
  case True
  with assms show ?thesis by (simp add: side_ok_def update_effect_def)
next
  case False
  with assms(2) have s: "update_step (ae_update e) T (ag_updates a) (ag_updates b)" by (simp add: update_effect_def)
  from update_step_places [OF s] assms update_run_step [OF _ s] show ?thesis
    by (auto simp: side_ok_def update_effect_def dest: places_apart_same)
qed

lemma side_exchange: "side_ok e T a \<Longrightarrow> artifact_effect e a b \<Longrightarrow> side_ok e T b"
  by (auto simp: side_ok_def artifact_effect_def dest: exchange_run_step)

lemma side_task: "side_ok e T a \<Longrightarrow> task_effect e a b \<Longrightarrow> side_ok e T b"
  by (auto simp: side_ok_def task_effect_def)

lemma side_node:
  "side_ok e T a \<Longrightarrow> own_resources (f (ag_node a)) = own_resources (ag_node a) \<Longrightarrow> side_ok e T (on_node f a)"
  by (simp add: side_ok_def)

lemma sound_readings_of [simp]: "sound_readings (readings_of a r) = sound_readings r"
  by (simp add: sound_readings_def readings_of_def)

lemma monitor_good_step:
  assumes "monitor_good m" "sound_readings r"
  shows "monitor_good (monitor_refresh r m)" "monitor_good (set_contribution_paused p r m)"
proof -
  obtain c l where cl: "is_finite c" "l \<noteq> NaN" "monitor_ok c l m" using assms(1) by (auto simp: monitor_good_def)
  from monitor_handle_ok [OF cl(3) _ cl(1,2), of "Refresh r"] assms(2) cl show "monitor_good (monitor_refresh r m)"
    by (auto simp: monitor_good_def)
  from monitor_handle_ok [OF cl(3) _ cl(1,2), of "Pause p r"] assms(2) cl show "monitor_good (set_contribution_paused p r m)"
    by (auto simp: monitor_good_def)
qed

lemma side_monitor:
  assumes "side_ok e T a" "sound_readings r"
  shows "side_ok e T (pause_resources p r a)" "side_ok e T (refresh_resources r a)"
  using assms monitor_good_step(1) [of "ag_monitor a" "readings_of a r"] monitor_good_step(2) [of "ag_monitor a" "readings_of a r" p]
  by (simp_all add: side_ok_def pause_resources_def refresh_resources_def)

lemma side_frame [simp]:
  "side_ok e T (announce ev fs a) = side_ok e T a" "side_ok e T (announce_resources e' a) = side_ok e T a"
  by (simp_all add: side_ok_def)

section \<open>Commands\<close>

lemma reach_peers_ok: "matrix_reach e n \<Longrightarrow> bt_ok (peer_resources n)"
  using reach_inv [of e n] by (simp add: sched_inv_def tables_ok_def)

lemma node_observe:
  assumes "matrix_reach e n"
  shows "matrix_reach e (n\<lparr>own_resources := r\<rparr>)" "clock n \<le> c \<Longrightarrow> matrix_reach e (n\<lparr>clock := c\<rparr>)"
proof -
  have "matrix_reach e (n\<lparr>clock := c, own_resources := s, peer_resources := peer_resources n\<rparr>)" if "clock n \<le> c" for c s
    using matrix_reach_step [OF assms matrix_step.observe [OF reach_peers_ok [OF assms] that]] .
  from this [of "clock n" r] this [of c "own_resources n"]
  show "matrix_reach e (n\<lparr>own_resources := r\<rparr>)" "clock n \<le> c \<Longrightarrow> matrix_reach e (n\<lparr>clock := c\<rparr>)" by simp_all
qed

lemma node_dispatch: "matrix_reach e n \<Longrightarrow> matrix_reach e (dispatch_matrix_jobs e n)"
  by (rule matrix_reach_step [OF _ matrix_step.dispatch])

lemma room_not_max: "counter_room a \<Longrightarrow> request_counter (ag_node a) \<noteq> - 1"
  by (auto simp: counter_room_def unat_max_word)

lemma task_ready:
  assumes "matrix_reach (ae_node e) (ag_node a)" "counter_room a" "task_effect e a b"
  shows "matrix_reach (ae_node e) (dispatch_matrix_jobs (ae_node e) (ag_node b))"
proof -
  note step = matrix_reach_step [OF assms(1)] and room = room_not_max [OF assms(2)]
  from assms(3) show ?thesis unfolding task_effect_def
    by (auto intro: node_dispatch [OF assms(1)] step [OF matrix_step.place [OF room]] step [OF matrix_step.start [OF room]]
        node_dispatch [OF step [OF matrix_step.submit [OF room]]])
qed

lemma schedule_failed_step:
  assumes "update_inv e T u" "places_apart e (manager u)" "schedule_self_update e path args p u = (False, u')"
  shows "update_step e T u u'"
proof (rule update_other)
  show "manager u' = (manager u)\<lparr>trusted := trusted (manager u)\<rparr>" using schedule_cases(1) [OF assms(3)] by simp
  show "trusted (manager u) \<subseteq> T" using assms(1) by (simp add: update_inv_def)
  show "launched u' = launched u" using schedule_cases(2) [OF assms(3)] by auto
  show "up_sent u' = up_sent u"
    using assms(3) by (auto simp: schedule_self_update_def Let_def tell_def split: option.splits if_splits prod.splits sum.splits dest: run_files_sent)
  fix d assume "download (manager u) = Some d"
  then have "pd_path d = path_join e (staging (manager u)) (''swagri-'' @ component_filename (pd_component d) @ ''-'' @
      um_version (su_manifest (pd_signed d)) @ ''-'' @ peer_name e (pd_peer d) @ ''.download'')"
    using assms(1) by (simp add: update_inv_def download_good_def download_path_def)
  with assms(2) have "pd_path d \<noteq> path_join e (staging (manager u)) (''restart-'' @ process_id e @ ''.json'')"
    by (auto simp: places_apart_def)
  from schedule_cases(3) [OF assms(3) this] show "file_at (up_disk u') (pd_path d) = file_at (up_disk u) (pd_path d)" .
qed

text \<open>A state from which dispatching is a step of the scheduler, with the other components in their runs.\<close>

definition ready :: "agent_env \<Rightarrow> peer_id set \<Rightarrow> agent \<Rightarrow> bool" where
  "ready e T b = (side_ok e T b \<and> matrix_reach (ae_node e) (dispatch_matrix_jobs (ae_node e) (ag_node b)))"

lemma readyI: "side_ok e T b \<Longrightarrow> matrix_reach (ae_node e) (ag_node b) \<Longrightarrow> ready e T b"
  by (simp add: ready_def node_dispatch)

lemma side_inv: "side_ok e T a \<Longrightarrow> update_inv (ae_update e) T (ag_updates a)"
  by (simp add: side_ok_def update_run_inv)

lemma contribution_ready:
  assumes "side_ok e T a" "matrix_reach (ae_node e) (ag_node a)" "sound_readings r"
  shows "ready e T (contribution_command e p r a)"
  using side_monitor(1) [OF assms(1,3)] node_observe(1) [OF assms(2)]
  by (intro readyI) (simp_all add: contribution_command_def pause_resources_def)

lemma set_faults_ready:
  "side_ok e T a \<Longrightarrow> matrix_reach (ae_node e) (ag_node a) \<Longrightarrow> ready e T (set_faults f a)"
  by (rule readyI) (auto simp: side_ok_def set_faults_def dest: inbound_run.arm)

lemma resource_command_ready:
  assumes "side_ok e T a" "matrix_reach (ae_node e) (ag_node a)" "sound_readings r" "resource_command e r command parts a = Some b"
  shows "ready e T b"
proof -
  have "ready e T (announce ev fs c) = ready e T c" "ready e T (announce_resources e c) = ready e T c" for ev fs c
    by (simp_all add: ready_def)
  moreover have "ready e T a" using assms(1,2) by (rule readyI)
  ultimately show ?thesis
    using assms(4) contribution_ready [OF assms(1-3)] set_faults_ready [OF assms(1,2)]
    by (auto simp: resource_command_def split: if_splits option.splits)
qed

text \<open>The first of the groups that knows the command.\<close>

lemma first_some:
  assumes "b = (case f1 of Some x \<Rightarrow> x | None \<Rightarrow> case f2 of Some x \<Rightarrow> x | None \<Rightarrow> case f3 of Some x \<Rightarrow> x
      | None \<Rightarrow> case f4 of Some x \<Rightarrow> x | None \<Rightarrow> case f5 of Some x \<Rightarrow> x | None \<Rightarrow> a)"
  obtains "b = a" | "f1 = Some b" | "f2 = Some b" | "f3 = Some b" | "f4 = Some b" | "f5 = Some b"
  using assms by (auto split: option.splits)

lemma apply_update_cases:
  assumes "apply_update_command e parts a = (running, b)"
  obtains "running" "b = a" | p path u where "schedule_self_update (ae_update e) path (ae_restart e) p (ag_updates a) = (\<not> running, u)"
    "b = on_updates (\<lambda>_. u) a"
proof -
  note result = that
  have idle: thesis if "apply_update_command e parts a = (True, a)"
    by (rule result(1)) (use assms that in simp_all)
  show ?thesis
  proof (cases "parse_peer e parts")
    case (Inl w)
    show ?thesis by (rule idle) (simp add: apply_update_command_def Inl)
  next
    case (Inr p)
    show ?thesis
    proof (cases "tl parts")
      case Nil
      show ?thesis by (rule idle) (simp add: apply_update_command_def Inr Nil)
    next
      case (Cons path rest)
      obtain applied u where u: "schedule_self_update (ae_update e) path (ae_restart e) p (ag_updates a) = (applied, u)" by fastforce
      show ?thesis
      proof (cases "is_file path (up_disk (ag_updates a))")
        case True
        then have "apply_update_command e parts a = (\<not> applied, on_updates (\<lambda>_. u) a)" by (simp add: apply_update_command_def Inr Cons u)
        with assms have r: "running = (\<not> applied)" "b = on_updates (\<lambda>_. u) a" by simp_all
        show ?thesis by (rule result(2) [OF _ r(2)]) (use u r(1) in simp)
      next
        case False
        show ?thesis by (rule idle) (simp add: apply_update_command_def Inr Cons False)
      qed
    qed
  qed
qed

lemma handle_command_unfold:
  assumes "split_whitespace (trim text) = command # parts"
  shows "handle_command e r accepted text a = (if command = ''quit'' \<or> command = ''exit'' then (False, a)
          else if command = ''apply-update'' then apply_update_command e parts a
          else (True,
            case artifact_command e (trim text) command parts a of Some a' \<Rightarrow> a'
          | None \<Rightarrow> case update_command e command parts a of Some a' \<Rightarrow> a'
          | None \<Rightarrow> case dial_command e accepted command parts a of Some a' \<Rightarrow> a'
          | None \<Rightarrow> case resource_command e r command parts a of Some a' \<Rightarrow> a'
          | None \<Rightarrow> case task_command e command parts a of Some a' \<Rightarrow> a'
          | None \<Rightarrow> a))"
  unfolding handle_command_def Let_def assms list.case by (rule refl)

lemma handle_command_ready:
  assumes "side_ok e T a" "matrix_reach (ae_node e) (ag_node a)" "counter_room a" "sound_readings r"
    and "handle_command e r accepted text a = (True, b)" "trusted (manager (ag_updates b)) \<subseteq> T"
  shows "ready e T b"
proof (cases "split_whitespace (trim text)")
  case Nil
  with assms show ?thesis by (simp add: handle_command_def readyI)
next
  case (Cons command parts)
  let ?line = "trim text"
  have same: "ready e T a" using assms(1,2) by (rule readyI)
  show ?thesis
  proof (cases "command = ''apply-update''")
    case True
    have "\<not> (command = ''quit'' \<or> command = ''exit'')" using True by simp
    from assms(5) [unfolded handle_command_unfold [OF Cons] if_not_P [OF this] if_P [OF True]]
    have run: "apply_update_command e parts a = (True, b)" .
    from run show ?thesis
    proof (cases rule: apply_update_cases)
      case (2 p path u)
      then have failed: "schedule_self_update (ae_update e) path (ae_restart e) p (ag_updates a) = (False, u)" by simp
      have "places_apart (ae_update e) (manager (ag_updates a))" using assms(1) by (simp add: side_ok_def)
      from schedule_failed_step [OF side_inv [OF assms(1)] this failed] have "update_effect e T a b" unfolding 2(2)
        by (simp add: update_effect_def)
      from side_updates [OF assms(1) this] show ?thesis using assms(2) 2(2) by (intro readyI) simp_all
    qed (use same in simp)
  next
    case False
    have task: "ready e T c" if "task_effect e a c" for c
      using side_task [OF assms(1) that] task_ready [OF assms(2,3) that] by (simp add: ready_def)
    have artifact: "ready e T c" if "artifact_effect e a c" for c
      using side_exchange [OF assms(1) that] that assms(2) by (intro readyI) (simp_all add: artifact_effect_def)
    have update: "ready e T c" if "update_effect e T a c" for c
      using side_updates [OF assms(1) that] that assms(2) by (intro readyI) (simp_all add: update_effect_def)
    have apart: "places_apart (ae_update e) (manager (ag_updates a))" using assms(1) by (simp add: side_ok_def)
    have quit: "\<not> (command = ''quit'' \<or> command = ''exit'')" 
    proof
      assume "command = ''quit'' \<or> command = ''exit''"
      with assms(5) show False unfolding handle_command_unfold [OF Cons] by (simp only: if_True prod.inject)
    qed
    have b: "b = (case artifact_command e ?line command parts a of Some a' \<Rightarrow> a'
          | None \<Rightarrow> case update_command e command parts a of Some a' \<Rightarrow> a'
          | None \<Rightarrow> case dial_command e accepted command parts a of Some a' \<Rightarrow> a'
          | None \<Rightarrow> case resource_command e r command parts a of Some a' \<Rightarrow> a'
          | None \<Rightarrow> case task_command e command parts a of Some a' \<Rightarrow> a' | None \<Rightarrow> a)"
      using assms(5) unfolding handle_command_unfold [OF Cons] if_not_P [OF quit] if_not_P [OF False] prod.inject by (elim conjE) (rule sym)
    consider (same) "b = a" | (artifact) "artifact_command e ?line command parts a = Some b"
      | (update) "update_command e command parts a = Some b" | (dial) "dial_command e accepted command parts a = Some b"
      | (resource) "resource_command e r command parts a = Some b" | (task) "task_command e command parts a = Some b"
      by (rule first_some [OF b])
    then show ?thesis
    proof cases
      case update
      with update_command_effect [OF update side_inv [OF assms(1)] apart assms(6)] \<open>\<And>c. update_effect e T a c \<Longrightarrow> ready e T c\<close> show ?thesis by blast
    next
      case resource
      then show ?thesis by (rule resource_command_ready [OF assms(1,2,4)])
    qed (use same task artifact artifact_command_effect dial_command_effect task_command_effect in blast)+
  qed
qed

end
