(* ===== verification/Artifact_Props.thy ===== *)
theory Artifact_Props
  imports Artifact_Run Store_Contents
begin

text \<open>What holds of the artifact exchange: what is served, who is asked, what a finished download has on disk.\<close>

section \<open>Serving\<close>

text \<open>
  C21. Peers are served verified content only: one that is not trusted gets an error and nothing is
  read; a served block has the identifier and length of the request, a served manifest is valid and has
  the identifier asked for, an inventory has at most 128 entries; serving changes no file and no download.
\<close>

theorem served_content_verified:
  "case answer_artifact_request e trusted p r x of (answer, y) \<Rightarrow>
     file_at (disk y) = file_at (disk x) \<and> downloads y = downloads x \<and> requests y = requests x \<and>
     (p \<notin> trusted \<longrightarrow> y = x \<and> (\<exists>m. answer = RError m)) \<and>
     (case answer of
        RBlock b v \<Rightarrow> r = ABlock b \<and> length v = unat (block_len b) \<and> digest (env (store e)) v = block_id b
      | RManifest m \<Rightarrow> r = AManifest (artifact_id m) \<and> validate_manifest m = Inr ()
      | RInventory items \<Rightarrow> r = AInventory \<and> length items \<le> 128
      | RError m \<Rightarrow> True)"
proof (cases "p \<in> trusted")
  case False
  then show ?thesis by (simp add: answer_artifact_request_def)
next
  case True
  have frame: "file_at (disk y) = file_at (disk x) \<and> downloads y = downloads x \<and> requests y = requests x"
    if "on_disk m x = (z, y)" "reads_only m" for m :: "'z store_io" and z y
    using that reads_only_view [OF that(2)] links_on_disk [OF that(1)] by (auto simp: on_disk_def split: prod.splits)
  show ?thesis
  proof (cases r)
    case AInventory
    obtain z y where y: "on_disk (list_artifacts (store e)) x = (z, y)" by fastforce
    with frame [OF y reads_list_artifacts] True AInventory show ?thesis
      by (cases z) (simp_all add: answer_artifact_request_def serve_artifact_request_def)
  next
    case (AManifest i)
    obtain z y where y: "on_disk (manifest_of (store e) i) x = (z, y)" by fastforce
    show ?thesis
    proof (cases z)
      case (Inr m)
      from y Inr have "\<exists>s. manifest_of (store e) i (disk x) = (Inr m, s)" by (auto simp: on_disk_def split: prod.splits)
      then have "artifact_id m = i \<and> validate_manifest m = Inr ()" using manifest_of_some by blast
      with frame [OF y reads_manifest_of] True AManifest Inr y show ?thesis
        by (simp add: answer_artifact_request_def serve_artifact_request_def)
    qed (use frame [OF y reads_manifest_of] True AManifest y in \<open>simp add: answer_artifact_request_def serve_artifact_request_def\<close>)
  next
    case (ABlock b)
    obtain z y where y: "on_disk (store_read_block (store e) b) x = (z, y)" by fastforce
    show ?thesis
    proof (cases z)
      case (Inr v)
      from y Inr have "\<exists>s. store_read_block (store e) b (disk x) = (Inr v, s)" by (auto simp: on_disk_def split: prod.splits)
      then have "block_matches (env (store e)) b v" using read_block_some(2) by blast
      with frame [OF y reads_read_block] True ABlock Inr y show ?thesis
        by (simp add: answer_artifact_request_def serve_artifact_request_def block_matches_def)
    qed (use frame [OF y reads_read_block] True ABlock y in \<open>simp add: answer_artifact_request_def serve_artifact_request_def\<close>)
  qed
qed

definition demo_exchange_env :: exchange_env where
  "demo_exchange_env = \<lparr>store = one_store, id_text = (\<lambda>_. ''p''), path_text = (\<lambda>_. ''f''), io_text = (\<lambda>_. ''io''),
     json_text = (\<lambda>_. ''json''), root_text = ''root''\<rparr>"

definition demo_exchange :: exchange where
  "demo_exchange = \<lparr>log_of = \<lparr>printed = [], mobile_events = []\<rparr>, disk = one_fs, downloads = [], requests = [], next_ask = 0, asked = []\<rparr>"

theorem served_content_verified_witness:
  "snd (answer_artifact_request demo_exchange_env {} (PeerId 1) AInventory demo_exchange) = demo_exchange"
  using served_content_verified [where e = demo_exchange_env and trusted = "{}" and p = "PeerId 1" and r = AInventory and x = demo_exchange] by (auto split: prod.splits)

section \<open>Choosing a provider\<close>

lemma next_active_spec:
  "case next_active_provider d of
     (Some p, d') \<Rightarrow> \<exists>k<length (providers d).
        p = providers d ! ((next_provider d + k) mod length (providers d)) \<and> p \<notin> failed_providers d \<and>
        (\<forall>j<k. providers d ! ((next_provider d + j) mod length (providers d)) \<in> failed_providers d) \<and>
        d' = d\<lparr>next_provider := (next_provider d + k + 1) mod length (providers d)\<rparr>
   | (None, d') \<Rightarrow> active_provider_count d = 0"
proof -
  let ?n = "length (providers d)"
  have loop: "case next_active_loop m d0 of
      (Some p, d') \<Rightarrow> \<exists>k<m. p = providers d ! ((next_provider d0 + k) mod ?n) \<and> p \<notin> failed_providers d \<and>
        (\<forall>j<k. providers d ! ((next_provider d0 + j) mod ?n) \<in> failed_providers d) \<and>
        d' = d\<lparr>next_provider := (next_provider d0 + k + 1) mod ?n\<rparr>
    | (None, d') \<Rightarrow> (\<forall>j<m. providers d ! ((next_provider d0 + j) mod ?n) \<in> failed_providers d)"
    if "d0 = d\<lparr>next_provider := c\<rparr>" for m d0 c
    using that
  proof (induction m arbitrary: d0 c)
    case (Suc m)
    let ?p = "providers d ! (c mod ?n)"
    show ?case
    proof (cases "?p \<in> failed_providers d")
      case False
      with Suc.prems show ?thesis by (simp add: Let_def) (rule exI [of _ 0], simp)
    next
      case True
      let ?d1 = "d\<lparr>next_provider := (c + 1) mod ?n\<rparr>"
      have eq: "next_active_loop (Suc m) d0 = next_active_loop m ?d1"
        using Suc.prems True by (simp add: Let_def)
      have mod: "Suc (Suc c mod ?n + k) mod ?n = Suc (Suc (c + k)) mod ?n" for k
        using mod_add_left_eq [of "Suc c" ?n "Suc k"] by simp
      have all: "\<forall>j<Suc k. providers d ! ((c + j) mod ?n) \<in> failed_providers d"
        if "\<forall>j<k. providers d ! ((c + Suc j) mod ?n) \<in> failed_providers d" for k
        using that True by (auto simp: less_Suc_eq_0_disj)
      obtain r d' where r: "next_active_loop m ?d1 = (r, d')" by fastforce
      note ih = Suc.IH [OF refl, of "(c + 1) mod ?n", unfolded r, simplified]
      show ?thesis
      proof (cases r)
        case None
        with ih all [of m] Suc.prems show ?thesis unfolding eq r by (simp add: mod_add_left_eq)
      next
        case (Some p)
        with ih obtain k where k: "k < m" "p = providers d ! ((c + Suc k) mod ?n)" "p \<notin> failed_providers d"
          "\<forall>j<k. providers d ! ((c + Suc j) mod ?n) \<in> failed_providers d"
          "d' = d\<lparr>next_provider := Suc ((c + Suc k)) mod ?n\<rparr>"
          by (auto simp: mod_add_left_eq mod)
        with Some all [of k] Suc.prems show ?thesis
          unfolding eq r by (simp, intro exI [of _ "Suc k"]) simp
      qed
    qed
  qed simp
  have "d = d\<lparr>next_provider := next_provider d\<rparr>" by simp
  show ?thesis
  proof (cases "next_active_loop ?n d")
    case (Pair r d')
    show ?thesis
    proof (cases r)
      case None
      with Pair loop [OF \<open>d = _\<close>, of ?n] have all: "\<forall>j<?n. providers d ! ((next_provider d + j) mod ?n) \<in> failed_providers d" by simp
      have "p \<in> failed_providers d" if "p \<in> set (providers d)" for p
      proof -
        from that obtain i where i: "i < ?n" "p = providers d ! i" by (auto simp: in_set_conv_nth)
        define c where "c = next_provider d mod ?n"
        have "0 < ?n" using i(1) by (cases "?n") simp_all
        then have c: "c < ?n" "(next_provider d + j) mod ?n = (c + j) mod ?n" for j
          unfolding c_def by (simp_all only: mod_less_divisor mod_add_left_eq)
        define j where "j = (if c \<le> i then i - c else ?n - c + i)"
        have "j < ?n" "(c + j) mod ?n = i" using i(1) c(1) by (auto simp: j_def mod_if)
        with all i(2) c(2) show ?thesis by metis
      qed
      then have "active_provider_count d = 0" by (simp add: active_provider_count_def filter_empty_conv)
      with Pair None show ?thesis by (simp add: next_active_provider_def)
    qed (use Pair loop [OF \<open>d = _\<close>, of ?n] in \<open>simp add: next_active_provider_def\<close>)
  qed
qed

text \<open>
  Providers are taken in turn, failed ones skipped: the choice is the first usable provider at
  or after the cursor, cyclically, and the cursor moves just past it; there is none exactly when
  every provider has failed. Nothing else of the download changes.
\<close>

theorem next_provider_round_robin:
  "case next_active_provider d of
     (Some p, d') \<Rightarrow> \<exists>k<length (providers d).
        p = providers d ! ((next_provider d + k) mod length (providers d)) \<and> p \<notin> failed_providers d \<and>
        (\<forall>j<k. providers d ! ((next_provider d + j) mod length (providers d)) \<in> failed_providers d) \<and>
        d' = d\<lparr>next_provider := (next_provider d + k + 1) mod length (providers d)\<rparr>
   | (None, d') \<Rightarrow> active_provider_count d = 0"
  by (rule next_active_spec)

theorem next_provider_round_robin_witness:
  "next_active_provider ((download_new [PeerId 2, PeerId 3, PeerId 4])\<lparr>failed_providers := {PeerId 2}\<rparr>) =
     (Some (PeerId 3), (download_new [PeerId 2, PeerId 3, PeerId 4])\<lparr>failed_providers := {PeerId 2}, next_provider := 2\<rparr>) \<and>
   (\<exists>k<3. PeerId 3 = [PeerId 2, PeerId 3, PeerId 4] ! (k mod 3) \<and>
      (\<forall>j<k. [PeerId 2, PeerId 3, PeerId 4] ! (j mod 3) = PeerId 2))"
proof -
  let ?d = "(download_new [PeerId 2, PeerId 3, PeerId 4])\<lparr>failed_providers := {PeerId 2}\<rparr>"
  have n: "next_active_provider ?d = (Some (PeerId 3), ?d\<lparr>next_provider := 2\<rparr>)"
    by (simp add: next_active_provider_def download_new_def Let_def)
  have p: "providers ?d = [PeerId 2, PeerId 3, PeerId 4]" "next_provider ?d = 0" "failed_providers ?d = {PeerId 2}"
    by (simp_all add: download_new_def)
  have l: "length [PeerId 2, PeerId 3, PeerId 4] = 3" by simp
  have "\<exists>k<length (providers ?d). PeerId 3 = providers ?d ! ((next_provider ?d + k) mod length (providers ?d)) \<and>
      (\<forall>j<k. providers ?d ! ((next_provider ?d + j) mod length (providers ?d)) \<in> failed_providers ?d)"
    using next_provider_round_robin [of ?d] unfolding n by (simp only: case_prod_conv option.case) blast
  then have "\<exists>k<3. PeerId 3 = [PeerId 2, PeerId 3, PeerId 4] ! (k mod 3) \<and>
      (\<forall>j<k. [PeerId 2, PeerId 3, PeerId 4] ! (j mod 3) = PeerId 2)"
    unfolding p l add_0 singleton_iff .
  with n show ?thesis by simp
qed

section \<open>Downloads\<close>

text \<open>
  C18. No download waits for nothing: in every run, with peers that answer anything in any order and a file
  system that fails at will, a download has a provider that has not failed and a request for its artifact
  that is out; it counts at most four blocks in flight, each of them a block request really out.
\<close>

theorem download_never_stranded:
  assumes "exchange_run e x" "bt_get (downloads x) i = Some d"
  shows "dl_in_flight d \<le> MAX_PARALLEL_ARTIFACT_BLOCKS \<and>
    dl_in_flight d \<le> length (filter (\<lambda>(rid, r). \<exists>p b. r = OBlock p i b) (requests x)) \<and>
    (\<exists>p\<in>set (providers d). p \<notin> failed_providers d) \<and>
    (\<exists>(rid, r)\<in>set (requests x). snd (artifact_request_context r) = Some i)"
proof -
  have ok: "download_ok i x d" using exchange_run_ok [OF assms(1)] assms(2) by (simp add: exchange_ok_def)
  have "is_block_of i = (\<lambda>(rid, r). \<exists>p b. r = OBlock p i b)"
    by (auto simp: fun_eq_iff is_block_of_def split: artifact_outbound.splits)
  with ok show ?thesis
    unfolding download_ok_def counts_ok_def blocks_out_def requests_out_def active_provider_count_def
    by (auto simp: MAX_PARALLEL_ARTIFACT_BLOCKS_def concerns_def filter_empty_conv)
qed

theorem download_never_stranded_witness:
  "\<exists>d. bt_get (downloads (begin_artifact_download demo_exchange_env (ContentId [7]) [PeerId 1] demo_exchange)) (ContentId [7]) = Some d \<and>
     (\<exists>p\<in>set (providers d). p \<notin> failed_providers d)"
proof -
  let ?x = "begin_artifact_download demo_exchange_env (ContentId [7]) [PeerId 1] demo_exchange"
  have "exchange_run demo_exchange_env demo_exchange" by (rule reachable.init) (simp add: fresh_exchange_def demo_exchange_def)
  then have run: "exchange_run demo_exchange_env ?x" by (rule exchange_run_step [OF _ exchange_step.start])
  have "\<exists>d. bt_get (downloads ?x) (ContentId [7]) = Some d"
    by (simp add: begin_artifact_download_def request_artifact_manifest_def put_download_def next_active_provider_def Let_def
        download_new_def demo_exchange_def ask_def)
  with download_never_stranded [OF run] show ?thesis by blast
qed

lemma event_line_kind:
  assumes "TAB \<notin> set k" "TAB \<notin> set k'" "event_line k fs = event_line k' fs'"
  shows "k = k'"
proof -
  have t: "takeWhile (\<lambda>c. c \<noteq> TAB) (join_with [TAB] (k # rest)) = k" if "TAB \<notin> set k" for k rest
    using that by (cases rest) (auto simp: takeWhile_tail takeWhile_eq_all_conv intro: takeWhile_tail)
  have "event_line k fs = ''SWAGRI_EVENT'' @ TAB # join_with [TAB] (k # map sanitise fs)" for k fs
    by (simp add: event_line_join)
  with assms(3) have "join_with [TAB] (k # map sanitise fs) = join_with [TAB] (k' # map sanitise fs')" by simp
  with t [of k "map sanitise fs"] t [of k' "map sanitise fs'"] assms(1,2) show ?thesis by simp
qed

definition complete_event :: "string \<Rightarrow> bool" where
  "complete_event l = (\<exists>fs. l = event_line ''ARTIFACT_PEER_COMPLETE'' fs \<or> l = event_line ''ARTIFACT_MULTI_COMPLETE'' fs)"

lemma complete_event_kind:
  assumes "TAB \<notin> set k" "k \<noteq> ''ARTIFACT_PEER_COMPLETE''" "k \<noteq> ''ARTIFACT_MULTI_COMPLETE''"
  shows "\<not> complete_event (event_line k fs)"
  using assms event_line_kind [of k "''ARTIFACT_PEER_COMPLETE''" fs] event_line_kind [of k "''ARTIFACT_MULTI_COMPLETE''" fs]
  unfolding complete_event_def by (auto simp: TAB_def)

lemma printed_say: "printed (log_of (say ev fs x)) = printed (log_of x) @ [event_line ev fs]"
  by (simp add: say_def emit_event_def Let_def)

lemma status_view:
  "\<exists>ev fs. ev \<in> {''ARTIFACT_STATUS'', ''ARTIFACT_FAILED''} \<and> printed (log_of (emit_artifact_status e x)) = printed (log_of x) @ [event_line ev fs]"
  "file_at (disk (emit_artifact_status e x)) = file_at (disk x)"
proof -
  obtain r y where y: "on_disk (stats (store e)) x = (r, y)" by fastforce
  then have v: "file_at (disk y) = file_at (disk x)" "log_of y = log_of x"
    using reads_only_view [OF reads_stats] by (auto simp: on_disk_def split: prod.splits)
  show "\<exists>ev fs. ev \<in> {''ARTIFACT_STATUS'', ''ARTIFACT_FAILED''} \<and> printed (log_of (emit_artifact_status e x)) = printed (log_of x) @ [event_line ev fs]"
    unfolding emit_artifact_status_def y by (cases r; simp add: printed_say v; blast)
  show "file_at (disk (emit_artifact_status e x)) = file_at (disk x)"
    unfolding emit_artifact_status_def y by (cases r; simp add: say_def v)
qed

text \<open>
  C20. A download reports completion only over a complete verified artifact: when finishing a download prints
  a completion event, every block of its manifest is a file of the right length and digest and the
  blocks in order have the artifact's identifier as digest and its size, whichever providers sent them.
\<close>

theorem completion_reported_only_when_verified:
  assumes "complete_event l" "l \<in> set (drop (length (printed (log_of x))) (printed (log_of (finish_artifact_download e d x))))"
  shows "\<exists>m cs. dl_manifest d = Some m \<and>
    list_all2 (\<lambda>r c. file_at (disk (finish_artifact_download e d x)) (BlockPath (block_id r)) = Some c \<and>
      digest (env (store e)) c = block_id r \<and> length c = unat (block_len r)) (blocks m) cs \<and>
    digest (env (store e)) (concat cs) = artifact_id m \<and> of_nat (length (concat cs)) = artifact_size m"
proof (cases "dl_manifest d")
  case None
  then have "l = event_line ''ARTIFACT_PEER_FAILED'' [''swarm'', ''artifact manifest was not received'']"
    using assms(2) by (simp add: finish_artifact_download_def printed_say)
  with assms(1) complete_event_kind show ?thesis by (auto simp: TAB_def)
next
  case (Some m)
  obtain r s where c: "commit_manifest (store e) m (disk x) = (r, s)" by fastforce
  show ?thesis
  proof (cases r)
    case (Inl err)
    then have "l = event_line ''ARTIFACT_PEER_FAILED'' [''swarm'', storage_message e err]"
      using assms(2) Some c by (simp add: finish_artifact_download_def printed_say on_disk_def)
    with assms(1) complete_event_kind show ?thesis by (auto simp: TAB_def)
  next
    case (Inr u)
    have "file_at (disk (finish_artifact_download e d x)) = file_at s"
      using Some c Inr by (simp add: finish_artifact_download_def on_disk_def status_view(2)) (simp add: say_def)
    with commit_complete [of "store e" m "disk x" s] c Inr Some show ?thesis by auto
  qed
qed

theorem completion_reported_only_when_verified_witness:
  "\<exists>m cs. dl_manifest ((download_new [PeerId 1])\<lparr>dl_manifest := Some (manifest_for one_env [[7]])\<rparr>) = Some m \<and>
    digest one_env (concat cs) = artifact_id m"
proof -
  let ?d = "(download_new [PeerId 1])\<lparr>dl_manifest := Some (manifest_for one_env [[7]])\<rparr>"
  let ?x = "demo_exchange"
  let ?fs = "[''p'', cid_text demo_exchange_env (artifact_id (manifest_for one_env [[7]])), show_word (artifact_size (manifest_for one_env [[7]])),
    show_nat (length (blocks (manifest_for one_env [[7]]))), show_nat 0, show_nat 0]"
  have "commit_manifest (store demo_exchange_env) (manifest_for one_env [[7]]) (disk ?x) = (Inr (), one_fs)"
    using one_commit by (simp add: demo_exchange_env_def demo_exchange_def)
  then have f: "finish_artifact_download demo_exchange_env ?d ?x = emit_artifact_status demo_exchange_env (say ''ARTIFACT_PEER_COMPLETE'' ?fs ?x)"
    by (simp add: finish_artifact_download_def on_disk_def download_new_def demo_exchange_def demo_exchange_env_def)
  have "event_line ''ARTIFACT_PEER_COMPLETE'' ?fs \<in> set (drop (length (printed (log_of ?x)))
      (printed (log_of (finish_artifact_download demo_exchange_env ?d ?x))))"
    unfolding f using status_view(1) [of demo_exchange_env "say ''ARTIFACT_PEER_COMPLETE'' ?fs ?x"]
    by (auto simp: printed_say)
  from completion_reported_only_when_verified [OF _ this] show ?thesis
    by (auto simp: complete_event_def demo_exchange_env_def one_store_def)
qed

section \<open>Progress of a download\<close>

definition remaining :: "artifact_download \<Rightarrow> nat" where
  "remaining d = length (dl_pending d) + dl_in_flight d"

lemma request_blocks_progress:
  assumes "table_ok x" "bt_get (downloads x) i = Some d" "0 < active_provider_count d"
  shows "\<exists>d'. bt_get (downloads (request_artifact_blocks e i x)) i = Some d' \<and> remaining d' = remaining d \<and>
    blocks_out i (request_artifact_blocks e i x) + dl_in_flight d = blocks_out i x + dl_in_flight d' \<and>
    active_provider_count d' = active_provider_count d \<and> table_ok (request_artifact_blocks e i x) \<and>
    dl_completed d' = dl_completed d"
  using assms
proof (induction e i x arbitrary: d rule: request_artifact_blocks.induct)
  case (1 e i x)
  show ?case
  proof (cases "dl_in_flight d \<ge> MAX_PARALLEL_ARTIFACT_BLOCKS \<or> dl_pending d = []")
    case True
    with 1(2-4) show ?thesis by (auto simp: request_artifact_blocks.simps [of e i x] split: list.splits)
  next
    case False
    then obtain b rest where b: "dl_pending d = b # rest" by (cases "dl_pending d") auto
    obtain r d1 where n: "next_active_provider (d\<lparr>dl_pending := rest\<rparr>) = (r, d1)" by fastforce
    note fr = next_active_frame [OF n]
    have "r \<noteq> None"
      using next_active_spec [of "d\<lparr>dl_pending := rest\<rparr>"] 1(4) unfolding n
      by (cases r) (simp_all add: active_provider_count_def)
    then obtain p where p: "r = Some p" by blast
    define d2 where "d2 = d1\<lparr>dl_in_flight := dl_in_flight d1 + 1\<rparr>"
    let ?x = "put_download i d2 x"
    let ?y = "ask p (ABlock b) (OBlock p i b) ?x"
    have t: "table_ok ?x" by (rule table_put(1) [OF 1(2)])
    have get: "bt_get (downloads ?y) i = Some d2" by (simp add: get_put_download)
    have act: "active_provider_count d2 = active_provider_count d" using fr by (simp add: d2_def active_provider_count_def)
    have "0 < active_provider_count d2" using act 1(4) by simp
    from 1(1) [OF 1(3) _ b n [symmetric] p, folded d2_def, OF _ ask_counts(3) [OF t] get this]
    obtain d' where d': "bt_get (downloads (request_artifact_blocks e i ?y)) i = Some d'" "remaining d' = remaining d2"
      "blocks_out i (request_artifact_blocks e i ?y) + dl_in_flight d2 = blocks_out i ?y + dl_in_flight d'"
      "active_provider_count d' = active_provider_count d2" "table_ok (request_artifact_blocks e i ?y)"
      "dl_completed d' = dl_completed d2"
      using False by auto
    have "request_artifact_blocks e i x = request_artifact_blocks e i ?y"
      using False 1(3) b n p by (simp add: request_artifact_blocks.simps [of e i x] d2_def)
    moreover have "blocks_out i ?y = Suc (blocks_out i x)" using ask_more(3) [OF t] by simp
    moreover have "remaining d2 = remaining d" "dl_in_flight d2 = Suc (dl_in_flight d)" "dl_completed d2 = dl_completed d"
      using fr b by (simp_all add: remaining_def d2_def)
    ultimately show ?thesis using d' act by auto
  qed
qed

text \<open>An outstanding block of the artifact is answered with bytes the store accepts.\<close>

definition accepts :: "exchange_env \<Rightarrow> content_id \<Rightarrow> exchange \<Rightarrow> exchange \<Rightarrow> bool" where
  "accepts e i x y = (\<exists>w rid p b v s. map_of (requests x) rid = Some (OBlock p i b) \<and>
     store_block (store e) b v (disk x) = (Inr (), s) \<and> y = artifact_answered e w rid (RBlock b v) x)"

definition fetching :: "content_id \<Rightarrow> nat \<Rightarrow> exchange \<Rightarrow> bool" where
  "fetching i n x = (table_ok x \<and> (\<exists>d. bt_get (downloads x) i = Some d \<and> remaining d = n \<and> 0 < n \<and> dl_in_flight d = blocks_out i x \<and>
     0 < active_provider_count d))"

lemma accepts_fetching:
  assumes "fetching i n x" "accepts e i x y"
  shows "0 < n" "n = 1 \<Longrightarrow> bt_get (downloads y) i = None \<and> blocks_out i y = 0 \<and> table_ok y" "1 < n \<Longrightarrow> fetching i (n - 1) y"
proof -
  from assms obtain d w rid p b v s where t: "table_ok x" and d: "bt_get (downloads x) i = Some d" "remaining d = n"
    "dl_in_flight d = blocks_out i x" "0 < active_provider_count d"
    and r: "map_of (requests x) rid = Some (OBlock p i b)" and s: "store_block (store e) b v (disk x) = (Inr (), s)"
    and y: "y = artifact_answered e w rid (RBlock b v) x"
    unfolding fetching_def accepts_def by blast
  have hm: "hm_ok (requests x)" using t by (simp add: table_ok_def)
  define x1 where "x1 = x\<lparr>requests := map_remove rid (requests x), disk := s\<rparr>"
  have out: "blocks_out i x = Suc (blocks_out i x1)"
    using filter_remove [OF hm map_of_SomeD [OF r], of "is_block_of i"]
    by (simp add: blocks_out_def x1_def is_block_of_def)
  have t1: "table_ok x1" using t unfolding table_ok_def by (auto simp: x1_def hm_ok_remove set_map_remove)
  define d1 where "d1 = d\<lparr>dl_in_flight := dl_in_flight d - 1, dl_completed := dl_completed d + 1\<rparr>"
  define y1 where "y1 = emit_artifact_download_progress e i p d1 (put_download i d1 x1)"
  have links: "same_links (put_download i d1 x1) y1" by (simp add: y1_def same_links_def)
  have eq: "y = (if dl_pending d1 = [] \<and> dl_in_flight d1 = 0 then finish_artifact_download e d1 (drop_download i y1)
      else request_artifact_blocks e i y1)"
    using r s d(1) unfolding y
    by (simp add: artifact_answered_def handle_artifact_response_def received_block_def on_disk_def Let_def y1_def d1_def x1_def)
  have rem: "remaining d = Suc (remaining d1)" using d(3) out by (simp add: remaining_def d1_def)
  then show "0 < n" using d(2) by simp
  show "bt_get (downloads y) i = None \<and> blocks_out i y = 0 \<and> table_ok y" if "n = 1"
  proof -
    have fin: "remaining d1 = 0" "y = finish_artifact_download e d1 (drop_download i y1)"
      using rem d(2) that eq by (simp_all add: remaining_def)
    have "requests y = requests x1" using links by (simp add: fin(2) same_links_def)
    then have "blocks_out i y = 0" using out d(3) fin(1) by (simp add: blocks_out_def remaining_def d1_def)
    moreover have "table_ok y"
      using table_put(2) [OF table_put(1) [OF t1, of i d1, folded ok_same(5) [OF links]], of i]
      by (subst ok_same(5) [of "drop_download i y1"]) (simp_all add: fin(2) same_links_def)
    ultimately show ?thesis by (simp add: fin(2) get_drop_download)
  qed
  show "fetching i (n - 1) y" if "1 < n"
  proof -
    have "0 < active_provider_count d1" using d(4) by (simp add: d1_def active_provider_count_def)
    moreover have "table_ok y1" using table_put(1) [OF t1] ok_same(5) [OF links] by simp
    moreover have "bt_get (downloads y1) i = Some d1" using links by (simp add: same_links_def get_put_download)
    ultimately obtain d' where d': "bt_get (downloads (request_artifact_blocks e i y1)) i = Some d'" "remaining d' = remaining d1"
      "blocks_out i (request_artifact_blocks e i y1) + dl_in_flight d1 = blocks_out i y1 + dl_in_flight d'"
      "active_provider_count d' = active_provider_count d1" "table_ok (request_artifact_blocks e i y1)"
      using request_blocks_progress by metis
    have "blocks_out i y1 = blocks_out i x1" using links by (simp add: same_links_def blocks_out_def)
    then have "dl_in_flight d1 = blocks_out i y1" using d(3) out by (simp add: d1_def)
    moreover have "y = request_artifact_blocks e i y1" using eq rem d(2) that by (auto simp: remaining_def)
    ultimately show ?thesis
      using d' rem d(2) that \<open>0 < active_provider_count d1\<close> unfolding fetching_def by auto
  qed
qed

lemma accepts_block_out:
  assumes "accepts e i x y"
  shows "0 < blocks_out i x"
proof -
  from assms obtain rid p b where "(rid, OBlock p i b) \<in> set (requests x)" unfolding accepts_def by (blast dest: map_of_SomeD)
  then have "(rid, OBlock p i b) \<in> set (filter (is_block_of i) (requests x))" by (simp add: is_block_of_def)
  then show ?thesis unfolding blocks_out_def by (meson length_pos_if_in_set)
qed

text \<open>
  C19. A download ends: once its missing blocks are queued and the block requests in the table are its own, every
  accepted answer leaves one block less, in whatever order answers come and whichever provider
  sends them; after as many accepted answers as there were blocks the download is finished and leaves
  the table, no sooner and no later.
\<close>

theorem accepted_blocks_end_download:
  assumes "fetching i n x" "(accepts e i ^^ k) x y"
  shows "k \<le> n \<and> (k = n \<longrightarrow> bt_get (downloads y) i = None) \<and>
    (k < n \<longrightarrow> (\<exists>d. bt_get (downloads y) i = Some d \<and> length (dl_pending d) + dl_in_flight d = n - k))"
proof -
  have "k \<le> n \<and> (k = n \<longrightarrow> bt_get (downloads y) i = None \<and> blocks_out i y = 0) \<and> (k < n \<longrightarrow> fetching i (n - k) y)"
    using assms(2)
  proof (induction k arbitrary: y)
    case 0
    with assms(1) show ?case by (auto simp: fetching_def)
  next
    case (Suc k)
    from Suc.prems obtain z where z: "(accepts e i ^^ k) x z" "accepts e i z y" by auto
    note ih = Suc.IH [OF z(1)]
    have "k \<noteq> n" using ih accepts_block_out [OF z(2)] by auto
    with ih have f: "k < n" "fetching i (n - k) z" by auto
    show ?case
    proof (cases "n - k = 1")
      case True
      with accepts_fetching(2) [OF f(2) z(2)] f(1) show ?thesis by auto
    next
      case False
      with f(1) have "1 < n - k" by simp
      with accepts_fetching(3) [OF f(2) z(2)] f(1) show ?thesis by auto
    qed
  qed
  then show ?thesis by (auto simp: fetching_def remaining_def)
qed

definition demo_block :: block_ref where
  "demo_block = \<lparr>block_id = ContentId [7], block_len = 1\<rparr>"

definition demo_fetching :: exchange where
  "demo_fetching = demo_exchange\<lparr>downloads := [(ContentId [7], (download_new [PeerId 1, PeerId 2])\<lparr>dl_manifest := Some (manifest_for one_env [[7]]),
     dl_in_flight := 1, dl_total_missing := 1\<rparr>)], requests := [(0, OBlock (PeerId 1) (ContentId [7]) demo_block)], next_ask := 1\<rparr>"

theorem accepted_blocks_end_download_witness:
  "bt_get (downloads (artifact_answered demo_exchange_env (\<lambda>m. m) 0 (RBlock demo_block [7]) demo_fetching)) (ContentId [7]) = None"
proof -
  have "fetching (ContentId [7]) 1 demo_fetching"
    by (simp add: fetching_def table_ok_def demo_fetching_def demo_exchange_def bt_ok_def hm_ok_def remaining_def blocks_out_def
        is_block_of_def download_new_def active_provider_count_def)
  moreover have "store_block one_store demo_block [7] one_fs = (Inr (), one_fs)"
    by (simp add: store_block_def demo_block_def block_matches_def BLOCK_BYTES_def io_apply Let_def one_fs_def file_at_def one_defs)
  then have "accepts demo_exchange_env (ContentId [7]) demo_fetching
      (artifact_answered demo_exchange_env (\<lambda>m. m) 0 (RBlock demo_block [7]) demo_fetching)"
    unfolding accepts_def
    by (intro exI [of _ "\<lambda>m. m"] exI [of _ 0] exI [of _ "PeerId 1"] exI [of _ demo_block] exI [of _ "[7]"] exI [of _ one_fs])
      (simp add: demo_fetching_def demo_exchange_env_def demo_exchange_def)
  then have "(accepts demo_exchange_env (ContentId [7]) ^^ 1) demo_fetching
      (artifact_answered demo_exchange_env (\<lambda>m. m) 0 (RBlock demo_block [7]) demo_fetching)" by (auto simp: relcompp_apply)
  ultimately have "1 \<le> (1 :: nat) \<and> (1 = (1 :: nat) \<longrightarrow> bt_get (downloads
      (artifact_answered demo_exchange_env (\<lambda>m. m) 0 (RBlock demo_block [7]) demo_fetching)) (ContentId [7]) = None)"
    using accepted_blocks_end_download by blast
  then show ?thesis by simp
qed

section \<open>A corrupt block\<close>

text \<open>
  C22. A block that does not match its identifier ends the whole download, however many other providers are
  usable: the download leaves the table, no provider is recorded as failed and nothing is asked again;
  the store is unchanged.
\<close>

theorem corrupt_block_ends_download:
  assumes "bt_get (downloads x) i = Some d" "\<not> block_matches (env (store e)) b v"
  shows "let y = handle_artifact_response e w (RBlock b v) (OBlock p i b) x in
    bt_get (downloads y) i = None \<and> asked y = asked x \<and> requests y = requests x \<and> disk y = disk x \<and>
    (\<exists>reason. last (printed (log_of y)) = event_line ''ARTIFACT_PEER_FAILED'' [id_text e p, reason])"
proof -
  have "store_block (store e) b v (disk x) = (Inl (Integrity (block_id b) ''received block does not match its content address''), disk x)"
    using assms(2) by (simp add: store_block_def io_throw_def)
  then have eq: "handle_artifact_response e w (RBlock b v) (OBlock p i b) x =
      say ''ARTIFACT_PEER_FAILED'' [id_text e p, storage_message e (Integrity (block_id b) ''received block does not match its content address'')]
        (drop_download i x)"
    using assms(1) by (simp add: handle_artifact_response_def received_block_def on_disk_def Let_def)
  have a: "asked (say ev fs (drop_download i x)) = asked x" "disk (say ev fs (drop_download i x)) = disk x" for ev fs
    by (simp_all add: say_def drop_download_def)
  show ?thesis
    unfolding Let_def eq by (intro conjI exI) (simp_all only: a links_say get_drop_download requests_put printed_say last_snoc simp_thms if_True)
qed

theorem corrupt_block_ends_download_witness:
  "active_provider_count (snd (hd (downloads demo_fetching))) = 2 \<and>
   bt_get (downloads (handle_artifact_response demo_exchange_env (\<lambda>m. m) (RBlock demo_block [8])
     (OBlock (PeerId 1) (ContentId [7]) demo_block) demo_fetching)) (ContentId [7]) = None"
proof -
  have g: "bt_get (downloads demo_fetching) (ContentId [7]) = Some (snd (hd (downloads demo_fetching)))"
    by (simp add: demo_fetching_def)
  have "\<not> block_matches (env (store demo_exchange_env)) demo_block [8]"
    by (simp add: block_matches_def demo_exchange_env_def one_defs demo_block_def)
  from corrupt_block_ends_download [OF g this] show ?thesis
    by (simp add: Let_def) (simp add: demo_fetching_def active_provider_count_def download_new_def)
qed

end
