(* ===== verification/Update_Props.thy ===== *)
theory Update_Props
  imports Update_Run
begin

text \<open>What holds of updates: what is launched, what a signature means, how a download arrives.\<close>

section \<open>Launching the updater\<close>

text \<open>What starts the updater.\<close>

lemma verified_launch:
  assumes "update_run e T u" "\<forall>a b c. path_join e a b = path_join e a c \<longrightarrow> b = c"
    and "update_answered e args p r u = (applied, u')" "launched u' \<noteq> launched u"
  shows "\<exists>d x src args_path. download (manager u) = Some d \<and> pd_peer d = p \<and> p \<in> T \<and> pd_component d = Agent \<and> pd_apply d \<and>
    verify_update_manifest e p (pd_signed d) Agent = Inr () \<and>
    file_at (up_disk u') (pd_path d) = Some x \<and> length x = unat (um_size (su_manifest (pd_signed d))) \<and>
    sha_hex e x = um_sha256_hex (su_manifest (pd_signed d)) \<and> agent_source (manager u) = Some src \<and>
    launched u' = launched u @ [updater_arguments e (updater_path (manager u)) (src_path src) (pd_path d) args_path]"
proof -
  have inv: "update_inv e T u" by (rule update_run_inv [OF assms(1)])
  have "\<exists>off v. r = UpChunk off v"
    using assms(3,4) manifest_received_inv(2) [OF inv] by (cases r) (auto simp: update_answered_def error_received_def)
  then obtain off v where run: "chunk_received e args p off v u = (applied, u')" using assms(3) by (auto simp: update_answered_def)
  obtain d where d: "download (manager u) = Some d"
    using run assms(4) by (cases "download (manager u)") (auto simp: chunk_received_def)
  have good: "download_good e T u d" using inv d by (simp add: update_inv_def)
  from run d show ?thesis
  proof (cases rule: chunk_cases)
    case (abandoned m u1)
    then have "u' = snd (abandon e d p m u1)" by (metis snd_conv)
    with abandoned(2) assms(4) show ?thesis by simp
  next
    case (accepted u2)
    let ?d' = "d\<lparr>pd_received := pd_received d + of_nat (length v)\<rparr>" and ?m = "su_manifest (pd_signed d)"
    have "finish_download e args ?d' p u2 = (applied, u')"
      using accepted(7,8) assms(4) by (auto simp: Let_def split: if_splits)
    then show ?thesis
    proof (cases rule: finish_download_cases)
      case (failed m u3)
      then have "u' = snd (abandon e ?d' p m u3)" by (metis snd_conv)
      with failed(2) accepted(7) assms(4) show ?thesis by simp
    next
      case (ready u3 x)
      let ?u4 = "tell (component_event (pd_component d) ''READY'') [peer_name e p, um_version ?m, pd_path d] u3"
      have s: "schedule_self_update e (pd_path d) args p ?u4 = (applied, u')" "pd_component d = Agent" "pd_apply d"
        using ready(2,8) accepted(7) assms(4) by (auto simp: Let_def split: if_splits)
      have stage: "manager ?u4 = (manager u)\<lparr>download := None\<rparr>" using ready(1) accepted(6) by simp
      have path: "pd_path d = path_join e (staging (manager u)) (''swagri-'' @ component_filename (pd_component d) @ ''-'' @
          um_version ?m @ ''-'' @ peer_name e (pd_peer d) @ ''.download'')"
        using good by (simp add: download_good_def download_path_def)
      have "pd_path d \<noteq> path_join e (staging (manager ?u4)) (''restart-'' @ process_id e @ ''.json'')"
        unfolding path using assms(2) ready(1) accepted(6) by auto
      from schedule_cases(3) [OF s(1) this]
      have "file_at (up_disk u') (pd_path d) = Some x" using ready(4,5) by simp
      moreover from schedule_cases(2) [OF s(1)] obtain src where "agent_source (manager u) = Some src"
        "launched u' = launched u @ [updater_arguments e (updater_path (manager u)) (src_path src) (pd_path d)
           (path_join e (staging (manager u)) (''restart-'' @ process_id e @ ''.json''))]"
        using assms(4) ready(2) accepted(7) stage by auto
      ultimately show ?thesis
        using d s(2,3) accepted(1) good ready(6,7) unfolding download_good_def by auto
    qed
  qed
qed


section \<open>Signatures\<close>

text \<open>
  A manifest that passes the checks for a component was signed by its peer for that very component, as it is:
  if a peer's key verifies only what its owner signed, and owners sign manifests without line breaks,
  then no manifest of another component, version, target, size or digest is accepted.
\<close>

theorem accepted_manifest_was_signed:
  assumes "verify_update_manifest e p sg c = Inr ()"
    and unforged: "\<And>key t s. verify_signature e key t s \<Longrightarrow> t \<in> {component_payload c' m | c' m. (peer_of_key e key, c', m) \<in> signed_by}"
    and clean: "\<And>q c' m. (q, c', m) \<in> signed_by \<Longrightarrow> clean_fields m"
    and os: "newline \<notin> set (const_os e)" "newline \<notin> set (const_arch e)"
    and vers: "\<And>v. version_valid e v \<Longrightarrow> newline \<notin> set v"
  shows "(p, c, su_manifest sg) \<in> signed_by \<and> 0 < um_size (su_manifest sg) \<and> um_size (su_manifest sg) \<le> MAX_UPDATE_BYTES \<and>
    (um_target_os (su_manifest sg), um_target_arch (su_manifest sg)) = expected_target e c \<and>
    (c \<noteq> Debugger \<longrightarrow> version_newer e (um_version (su_manifest sg)) (package_version e))"
proof -
  let ?m = "su_manifest sg"
  from assms(1) obtain key where k: "decode_key e (su_signer_public_key sg) = Some key" "peer_of_key e key = p"
    "verify_signature e key (component_payload c ?m) (su_signature sg)"
    and t: "(um_target_os ?m, um_target_arch ?m) = expected_target e c" and v: "version_valid e (um_version ?m)"
    and n: "c \<noteq> Debugger \<Longrightarrow> is_newer_version e (um_version ?m)"
    by (cases c) (auto simp: verify_update_manifest_def Let_def split: if_splits option.splits prod.splits)
  from unforged [OF k(3)] k(2) obtain c' m where s: "component_payload c ?m = component_payload c' m" "(p, c', m) \<in> signed_by" by auto
  have cl: "clean_fields ?m"
    using t os vers [OF v] by (cases c) (auto simp: clean_fields_def expected_target_def newline_def)
  have dom: "\<exists>d. newline \<notin> set d \<and> (\<forall>m. component_payload c m = payload_with d m) \<and>
      d = (case c of Agent \<Rightarrow> ''swagri-update-v1'' | Debugger \<Rightarrow> ''swagri-debugger-update-v1'' | Android \<Rightarrow> ''swagri-android-update-v1'')" for c
    by (cases c) (simp_all add: component_payload_def signing_payload_def debugger_signing_payload_def android_signing_payload_def newline_def)
  from dom [of c] dom [of c'] obtain d d' where d: "newline \<notin> set d" "\<And>m. component_payload c m = payload_with d m"
    "newline \<notin> set d'" "\<And>m. component_payload c' m = payload_with d' m"
    "d = (case c of Agent \<Rightarrow> ''swagri-update-v1'' | Debugger \<Rightarrow> ''swagri-debugger-update-v1'' | Android \<Rightarrow> ''swagri-android-update-v1'')"
    "d' = (case c' of Agent \<Rightarrow> ''swagri-update-v1'' | Debugger \<Rightarrow> ''swagri-debugger-update-v1'' | Android \<Rightarrow> ''swagri-android-update-v1'')"
    by metis
  have "d = d'" using payload_domain [OF d(1,3)] s(1) d(2,4) by metis
  then have cc: "c' = c" using d(5,6) by (cases c; cases c') simp_all
  have "payload_with d ?m = payload_with d m" using s(1) d(2,4) \<open>d = d'\<close> by metis
  from payload_fields [OF cl clean [OF s(2)] this] have "m = ?m" by simp
  with s(2) cc t inv_verified_size [OF assms(1)] n show ?thesis by (auto simp: is_newer_version_def)
qed

section \<open>A download in pieces\<close>

text \<open>The download as a reader of the protocol sees it: nothing, or the bytes received so far.\<close>

datatype transfer = NoTransfer | Transfer peer_id update_component signed_update_manifest bytes

definition transfer_of :: "updates \<Rightarrow> transfer" where
  "transfer_of u = (case download (manager u) of None \<Rightarrow> NoTransfer
     | Some d \<Rightarrow> Transfer (pd_peer d) (pd_component d) (pd_signed d) (the (file_at (up_disk u) (pd_path d))))"

fun transfer_chunk :: "peer_id \<Rightarrow> u64 \<Rightarrow> bytes \<Rightarrow> transfer \<Rightarrow> transfer" where
  "transfer_chunk p off v NoTransfer = NoTransfer"
| "transfer_chunk p off v (Transfer q c sg x) =
     (if q = p \<and> unat off = length x \<and> v \<noteq> [] \<and> length x + length v < unat (um_size (su_manifest sg))
      then Transfer q c sg (x @ v) else NoTransfer)"

lemma chunk_in_range:
  fixes r t :: u64
  assumes "n < 2 ^ 64" "t \<le> MAX_UPDATE_BYTES"
  shows "sat_add r (of_nat n) > t \<longleftrightarrow> unat r + n > unat t"
    and "unat r + n \<le> unat t \<Longrightarrow> unat (r + of_nat n) = unat r + n"
proof -
  have n: "unat (of_nat n :: u64) = n" using assms(1) by (simp add: unat_of_nat_small)
  have t: "unat t \<le> 134217728" using assms(2) by (simp add: MAX_UPDATE_BYTES_def word_le_nat_alt)
  show "sat_add r (of_nat n) > t \<longleftrightarrow> unat r + n > unat t"
    using t by (auto simp: word_less_nat_alt unat_sat_add n min_def)
  show "unat (r + of_nat n) = unat r + n" if "unat r + n \<le> unat t"
    using t that n by (subst unat_word_ariths) simp
qed

text \<open>A good chunk, with no system call failing.\<close>

definition chunk_stored :: "update_env \<Rightarrow> pending_download \<Rightarrow> peer_id \<Rightarrow> bytes \<Rightarrow> bytes \<Rightarrow> updates \<Rightarrow> updates" where
  "chunk_stored e d p x v u = tell (component_event (pd_component d) ''PROGRESS'')
     [peer_name e p, show_word (pd_received d + of_nat (length v)), show_word (um_size (su_manifest (pd_signed d)))]
     ((set_download None u)\<lparr>up_disk := put_file (pd_path d) (x @ v) (up_disk u)\<rparr>)"

lemma run_files_append:
  assumes "faults (up_disk u) = []" "file_at (up_disk u) q = Some x"
  shows "run_files (update_call e (fs_append q v)) u = (Inr (), u\<lparr>up_disk := put_file q (x @ v) (up_disk u)\<rparr>)"
  using assms by (simp add: run_files_def io_apply calls_without_faults)

lemma good_chunk:
  assumes "download (manager u) = Some d" "pd_peer d = p" "v \<noteq> []" "length v < 2 ^ 64"
    and "unat (pd_received d) + length v \<le> unat (um_size (su_manifest (pd_signed d)))" "um_size (su_manifest (pd_signed d)) \<le> MAX_UPDATE_BYTES"
    and "faults (up_disk u) = []" "file_at (up_disk u) (pd_path d) = Some x"
  shows "chunk_received e args p (pd_received d) v u =
    (let d' = d\<lparr>pd_received := pd_received d + of_nat (length v)\<rparr>; u2 = chunk_stored e d p x v u in
     if pd_received d' = um_size (su_manifest (pd_signed d)) then finish_download e args d' p u2
     else (False, request_next_update_chunk (set_download (Some d') u2)))"
proof -
  have "\<not> sat_add (pd_received d) (of_nat (length v)) > um_size (su_manifest (pd_signed d))"
    using chunk_in_range(1) [OF assms(4,6)] assms(5) by simp
  then have c: "(pd_peer d \<noteq> p \<or> pd_received d \<noteq> pd_received d) = False"
    "(v = [] \<or> sat_add (pd_received d) (of_nat (length v)) > um_size (su_manifest (pd_signed d))) = False" using assms(2,3) by auto
  have r: "run_files (update_call e (fs_append (pd_path d) v)) (set_download None u) =
      (Inr (), (set_download None u)\<lparr>up_disk := put_file (pd_path d) (x @ v) (up_disk u)\<rparr>)"
    using run_files_append [of "set_download None u"] assms(7,8) by simp
  show ?thesis
    unfolding chunk_received_def assms(1) Let_def option.case c if_False r chunk_stored_def by simp
qed

lemma chunk_stored_frame [simp]:
  "up_disk (chunk_stored e d p x v u) = put_file (pd_path d) (x @ v) (up_disk u)"
  "manager (chunk_stored e d p x v u) = (manager u)\<lparr>download := None\<rparr>"
  "up_sent (chunk_stored e d p x v u) = up_sent u" "launched (chunk_stored e d p x v u) = launched u"
  by (simp_all add: chunk_stored_def)

text \<open>
  C25. The download in the staging file refines the transfer of bytes: while no system call fails, a chunk from
  the right peer at the next offset that leaves something to come appends its bytes, and any other chunk, or
  the last one, ends the transfer.
\<close>

theorem chunk_refines_transfer:
  assumes "update_run e T u" "faults (up_disk u) = []" "length v < 2 ^ 64"
  shows "transfer_of (snd (chunk_received e args p off v u)) = transfer_chunk p off v (transfer_of u)"
proof (cases "download (manager u)")
  case None
  then show ?thesis by (simp add: chunk_received_def transfer_of_def)
next
  case (Some d)
  let ?size = "um_size (su_manifest (pd_signed d))"
  from update_run_inv [OF assms(1)] Some obtain x where good: "download_good e T u d"
    and x: "file_at (up_disk u) (pd_path d) = Some x" "length x = unat (pd_received d)"
    by (auto simp: update_inv_def download_good_def)
  have max: "?size \<le> MAX_UPDATE_BYTES" using good inv_verified_size(2) by (auto simp: download_good_def)
  have off: "unat off = length x \<longleftrightarrow> off = pd_received d" using x(2) by (metis word_unat_eq_iff)
  obtain b u' where run: "chunk_received e args p off v u = (b, u')" by fastforce
  show ?thesis
  proof (cases "pd_peer d = p \<and> off = pd_received d \<and> v \<noteq> [] \<and> unat (pd_received d) + length v \<le> unat ?size")
    case True
    have eq: "chunk_received e args p off v u =
      (let d' = d\<lparr>pd_received := pd_received d + of_nat (length v)\<rparr>; u2 = chunk_stored e d p x v u in
       if pd_received d' = ?size then finish_download e args d' p u2
       else (False, request_next_update_chunk (set_download (Some d') u2)))"
      using good_chunk [OF Some _ _ assms(3) _ max assms(2) x(1), of p e args] True by simp
    have sum: "unat (pd_received d + of_nat (length v)) = unat (pd_received d) + length v"
      using chunk_in_range(2) [OF assms(3) max] True by blast
    show ?thesis
    proof (cases "pd_received d + of_nat (length v) = ?size")
      case last: True
      then have "\<not> length x + length v < unat ?size" using sum x(2) by simp
      moreover have "download (manager u') = None"
        using finish_download_idle [of e args "d\<lparr>pd_received := ?size\<rparr>" p "chunk_stored e d p x v u" b u'] eq run last by simp
      ultimately show ?thesis using Some run by (simp add: transfer_of_def x(1))
    next
      case more: False
      have "length x + length v < unat ?size"
      proof -
        have "unat (pd_received d + of_nat (length v)) \<noteq> unat ?size" using more by (metis word_unat_eq_iff)
        with True sum x(2) show ?thesis by simp
      qed
      with eq more Some x True show ?thesis by (simp add: transfer_of_def)
    qed
  next
    case False
    from run Some have "download (manager u') = None"
    proof (cases rule: chunk_cases)
      case (abandoned m u1)
      then have "u' = snd (abandon e d p m u1)" by (metis snd_conv)
      with abandoned(1) show ?thesis by simp
    next
      case (accepted u2)
      with False chunk_in_range(1) [OF assms(3) max] show ?thesis by auto
    qed
    with False off x(2) Some run show ?thesis by (auto simp: transfer_of_def x(1))
  qed
qed

section \<open>A transfer from an honest peer\<close>

text \<open>One round: the last request sent is served by the peer it went to, and its answer handled.\<close>

definition transfer_round :: "update_env \<Rightarrow> string list \<Rightarrow> update_env \<Rightarrow> update_manager \<Rightarrow> string fs \<Rightarrow> updates \<Rightarrow> updates" where
  "transfer_round e args peer_env peer_manager peer_disk u =
     (case last (up_sent u) of (p, r) \<Rightarrow>
        snd (update_answered e args p (fst (serve_update_request peer_env r peer_manager peer_disk)) u))"

definition source_of :: "update_component \<Rightarrow> update_manager \<Rightarrow> update_source option" where
  "source_of c m = (case c of Agent \<Rightarrow> agent_source m | Debugger \<Rightarrow> debugger_source m | Android \<Rightarrow> android_source m)"

lemma serve_good_chunk:
  assumes "file_at s (src_path src) = Some b" "faults s = []" "length b = unat (um_size (su_manifest (src_signed src)))"
    and "off < um_size (su_manifest (src_signed src))" "vers = um_version (su_manifest (src_signed src))"
  shows "serve_update_chunk e src vers off UPDATE_CHUNK_BYTES s = (UpChunk off (take 262144 (drop (unat off) b)), s)"
proof -
  let ?size = "um_size (su_manifest (src_signed src))"
  have u: "unat (ucast UPDATE_CHUNK_BYTES :: u64) = 262144" by (simp add: UPDATE_CHUNK_BYTES_def)
  have lt: "unat off < unat ?size" using assms(4) by (simp add: word_less_nat_alt)
  have r: "unat (?size - off) = unat ?size - unat off" using assms(4) by (simp add: unat_sub word_le_nat_alt word_less_nat_alt)
  define n where "n = unat (min (ucast UPDATE_CHUNK_BYTES) (?size - off))"
  have n: "n = min 262144 (length b - unat off)" using u r assms(3) unfolding n_def by (simp add: min_def word_le_nat_alt)
  have "unat off + n \<le> length b" using n lt assms(3) by simp
  moreover have "take n (drop (unat off) b) = take 262144 (drop (unat off) b)" unfolding n by (simp add: min_def)
  moreover have "(vers \<noteq> um_version (su_manifest (src_signed src))) = False" "(?size \<le> off) = False" using assms(4,5) by auto
  ultimately show ?thesis
    using assms(1,2) by (simp add: serve_update_chunk_def Let_def calls_without_faults n_def [symmetric])
qed

lemma finish_good:
  assumes "faults (up_disk u) = []" "file_at (up_disk u) (pd_path d) = Some x" "length x = unat (um_size (su_manifest (pd_signed d)))"
    and "sha_hex e x = um_sha256_hex (su_manifest (pd_signed d))"
  shows "finish_download e args d p u =
     (let u' = tell (component_event (pd_component d) ''READY'') [peer_name e p, um_version (su_manifest (pd_signed d)), pd_path d] u
      in if pd_component d = Agent \<and> pd_apply d then schedule_self_update e (pd_path d) args p u' else (False, u'))"
proof -
  have "run_files (update_call e fs_check) u = (Inr (), u)"
    using assms(1) by (simp add: run_files_def io_apply calls_without_faults)
  moreover have "run_files (verify_download e (pd_path d) (su_manifest (pd_signed d))) u = (Inr (), u)"
    using assms(1-4) by (simp add: run_files_def verify_download_def io_apply calls_without_faults)
  ultimately show ?thesis by (simp add: finish_download_def Let_def)
qed

text \<open>How a downloaded update of the agent is applied: what is launched and what is printed.\<close>

definition restart_path :: "update_env \<Rightarrow> update_manager \<Rightarrow> string" where
  "restart_path e m = path_join e (staging m) (''restart-'' @ process_id e @ ''.json'')"

definition applied_from :: "update_env \<Rightarrow> pending_download \<Rightarrow> updates \<Rightarrow> updates \<Rightarrow> bool" where
  "applied_from e d u u' = (case agent_source (manager u) of
     Some src \<Rightarrow>
       if is_file (updater_path (manager u)) (up_disk u)
       then launched u' = launched u @ [updater_arguments e (updater_path (manager u)) (src_path src) (pd_path d) (restart_path e (manager u))] \<and>
         event_line ''UPDATE_APPLYING'' [peer_name e (pd_peer d), src_path src] \<in> set (printed (up_log u'))
       else launched u' = launched u \<and>
         event_line ''UPDATE_FAILED'' [peer_name e (pd_peer d), ''updater helper not found: '' @ updater_path (manager u)] \<in> set (printed (up_log u'))
   | None \<Rightarrow> launched u' = launched u \<and>
       event_line ''UPDATE_FAILED'' [peer_name e (pd_peer d), ''self-update is not supported on this platform''] \<in> set (printed (up_log u')))"

lemma schedule_good:
  assumes "faults (up_disk u) = []" "schedule_self_update e (pd_path d) args (pd_peer d) u = (b, u')"
  shows "applied_from e d u u'" "manager u' = manager u" "set (printed (up_log u)) \<subseteq> set (printed (up_log u'))"
    "q \<noteq> restart_path e (manager u) \<Longrightarrow> file_at (up_disk u') q = file_at (up_disk u) q"
proof -
  have run: "run_files (io_bind (update_call e (fs_write a c)) (\<lambda>_. io_map_err m fs_check)) u =
      (Inr (), u\<lparr>up_disk := put_file a c (put_file a [] (up_disk u))\<rparr>)" for a c and m :: "io_error \<Rightarrow> string"
    using assms(1) by (simp add: run_files_def io_apply calls_without_faults)
  show "applied_from e d u u'" "manager u' = manager u" "set (printed (up_log u)) \<subseteq> set (printed (up_log u'))"
    "q \<noteq> restart_path e (manager u) \<Longrightarrow> file_at (up_disk u') q = file_at (up_disk u) q"
    using assms(2) by (auto simp: applied_from_def schedule_self_update_def restart_path_def Let_def run split: option.splits if_splits)
qed

text \<open>What a transfer leaves alone until its end.\<close>

definition same_setup :: "updates \<Rightarrow> updates \<Rightarrow> bool" where
  "same_setup u u' = (launched u' = launched u \<and> agent_source (manager u') = agent_source (manager u) \<and>
     updater_path (manager u') = updater_path (manager u) \<and> staging (manager u') = staging (manager u) \<and>
     (\<forall>q. is_file q (up_disk u') = is_file q (up_disk u)))"

lemma same_setup_trans: "same_setup u v \<Longrightarrow> same_setup v w \<Longrightarrow> same_setup u w"
  by (simp add: same_setup_def)

lemma same_setup_applied: "same_setup u v \<Longrightarrow> applied_from e d v u' = applied_from e d u u'"
  by (simp add: same_setup_def applied_from_def restart_path_def split: option.split)

lemma same_setup_chunk:
  "file_at (up_disk u) (pd_path d) \<noteq> None \<Longrightarrow> same_setup u (chunk_stored e d p x v u)"
  by (auto simp: same_setup_def is_file_def)

lemma same_setup_tell: "same_setup u (tell ev fs v) = same_setup u v"
  by (simp add: same_setup_def)

definition receiving :: "pending_download \<Rightarrow> bytes \<Rightarrow> nat \<Rightarrow> updates \<Rightarrow> bool" where
  "receiving d b k u = (let d' = d\<lparr>pd_received := of_nat (k * 262144)\<rparr> in
     download (manager u) = Some d' \<and> file_at (up_disk u) (pd_path d) = Some (take (k * 262144) b) \<and>
     faults (up_disk u) = [] \<and> last (up_sent u) = (pd_peer d, chunk_request d'))"

lemma serve_component_chunk:
  assumes "source_of (pd_component d) m = Some src"
  shows "serve_update_request e (chunk_request d) m s = serve_update_chunk e src (um_version (su_manifest (pd_signed d))) (pd_received d) UPDATE_CHUNK_BYTES s"
  using assms by (cases "pd_component d") (simp_all add: chunk_request_def serve_update_request_def source_of_def Let_def)

lemma transfer_step:
  assumes rec: "receiving d b k u" and k: "k * 262144 < length b"
    and src: "source_of (pd_component d) pm = Some src" "src_signed src = pd_signed d"
    and pfile: "file_at pdisk (src_path src) = Some b" "faults pdisk = []"
    and m: "length b = unat (um_size (su_manifest (pd_signed d)))" "um_size (su_manifest (pd_signed d)) \<le> MAX_UPDATE_BYTES"
      "sha_hex e b = um_sha256_hex (su_manifest (pd_signed d))" "pd_path d \<noteq> restart_path e (manager u)"
    and u'_def: "u' = transfer_round e args pe pm pdisk u"
  shows "Suc k * 262144 < length b \<Longrightarrow> receiving d b (Suc k) u' \<and> same_setup u u'"
    and "\<not> Suc k * 262144 < length b \<Longrightarrow> download (manager u') = None \<and> file_at (up_disk u') (pd_path d) = Some b \<and>
      event_line (component_event (pd_component d) ''READY'') [peer_name e (pd_peer d), um_version (su_manifest (pd_signed d)), pd_path d]
        \<in> set (printed (up_log u')) \<and>
      (if pd_component d = Agent \<and> pd_apply d then applied_from e d u u' else launched u' = launched u)"
proof -
  let ?C = "262144 :: nat" and ?size = "um_size (su_manifest (pd_signed d))"
  define dk where "dk = d\<lparr>pd_received := of_nat (k * ?C)\<rparr>"
  define v where "v = take ?C (drop (k * ?C) b)"
  have big: "length b \<le> 134217728" using m(1,2) by (simp add: MAX_UPDATE_BYTES_def word_le_nat_alt)
  have uk: "unat (of_nat (k * ?C) :: u64) = k * ?C" using k big by (intro unat_of_nat_small) simp
  have dl: "download (manager u) = Some dk" and held: "file_at (up_disk u) (pd_path dk) = Some (take (k * ?C) b)"
    and nf: "faults (up_disk u) = []" and ls: "last (up_sent u) = (pd_peer d, chunk_request dk)"
    using rec unfolding receiving_def Let_def dk_def by simp_all
  have sizes: "pd_signed dk = pd_signed d" "pd_component dk = pd_component d" "pd_peer dk = pd_peer d" "pd_path dk = pd_path d"
    "pd_received dk = of_nat (k * ?C)" "pd_apply dk = pd_apply d" by (simp_all add: dk_def)
  have lv: "length v = min ?C (length b - k * ?C)" "v \<noteq> []" using k by (auto simp: v_def)
  have "(of_nat (k * ?C) :: u64) < ?size" using uk k m(1) by (simp add: word_less_nat_alt del: of_nat_mult)
  then have "serve_update_request pe (chunk_request dk) pm pdisk = (UpChunk (of_nat (k * ?C)) v, pdisk)"
    using serve_component_chunk [of dk pm src pe pdisk] serve_good_chunk [OF pfile, of "of_nat (k * ?C)"] src m(1) sizes
    by (simp add: v_def uk del: of_nat_mult)
  then have ans: "u' = snd (chunk_received e args (pd_peer d) (pd_received dk) v u)"
    by (simp add: u'_def transfer_round_def ls update_answered_def sizes)
  have sum: "k * ?C + length v = min (Suc k * ?C) (length b)" using k unfolding lv(1) by (simp add: min_def) linarith
  define d2 where "d2 = dk\<lparr>pd_received := pd_received dk + of_nat (length v)\<rparr>"
  define u2 where "u2 = chunk_stored e dk (pd_peer d) (take (k * ?C) b) v u"
  have fit: "length v < 2 ^ 64" "unat (pd_received dk) + length v \<le> unat (um_size (su_manifest (pd_signed dk)))"
    using lv(1) big k sum m(1) by (simp_all only: sizes uk) auto
  have eq: "chunk_received e args (pd_peer d) (pd_received dk) v u = (if pd_received d2 = ?size then finish_download e args d2 (pd_peer d) u2
     else (False, request_next_update_chunk (set_download (Some d2) u2)))"
    using good_chunk [OF dl sizes(3) lv(2) fit _ nf held, of e args] m(2)
    by (simp add: sizes Let_def d2_def u2_def)
  have "unat (pd_received d2) = min (Suc k * ?C) (length b)"
    using chunk_in_range(2) [OF fit(1), of "um_size (su_manifest (pd_signed dk))" "pd_received dk"] fit(2) m(2) sum
    by (simp add: d2_def sizes uk del: of_nat_mult)
  then have fin: "pd_received d2 = ?size \<longleftrightarrow> \<not> Suc k * ?C < length b"
    using m(1) by (auto simp: word_unat_eq_iff min_def)
  have cont: "take (k * ?C) b @ v = take (Suc k * ?C) b"
    by (simp add: v_def take_add [symmetric] add.commute)
  have unchanged: "same_setup u u2"
    using held unfolding u2_def by (intro same_setup_chunk) simp
  show "receiving d b (Suc k) u' \<and> same_setup u u'" if more: "Suc k * 262144 < length b"
  proof -
    have "unat (of_nat (Suc k * ?C) :: u64) = Suc k * ?C" using more big by (intro unat_of_nat_small) simp
    then have "pd_received d2 = of_nat (Suc k * ?C)"
      using \<open>unat (pd_received d2) = _\<close> more by (simp only: word_unat_eq_iff)
    then have d2: "d2 = d\<lparr>pd_received := of_nat (Suc k * ?C)\<rparr>" by (simp add: d2_def dk_def del: of_nat_mult mult_Suc)
    have u': "u' = request_next_update_chunk (set_download (Some d2) u2)" using ans eq fin more by simp
    have "same_setup u u'" using unchanged
      by (simp add: u' same_setup_def request_next_update_chunk_def send_update_def set_download_def)
    moreover have "receiving d b (Suc k) u'" using u'
      using nf cont by (simp add: receiving_def Let_def d2 [symmetric] u2_def sizes request_next_update_chunk_def send_update_def del: of_nat_mult mult_Suc)
        (simp add: d2 del: of_nat_mult mult_Suc)
    ultimately show ?thesis by blast
  qed
  show "download (manager u') = None \<and> file_at (up_disk u') (pd_path d) = Some b \<and>
      event_line (component_event (pd_component d) ''READY'') [peer_name e (pd_peer d), um_version (su_manifest (pd_signed d)), pd_path d]
        \<in> set (printed (up_log u')) \<and>
      (if pd_component d = Agent \<and> pd_apply d then applied_from e d u u' else launched u' = launched u)" if last: "\<not> Suc k * 262144 < length b"
  proof -
    let ?ready = "event_line (component_event (pd_component d) ''READY'') [peer_name e (pd_peer d), um_version (su_manifest (pd_signed d)), pd_path d]"
    define u3 where "u3 = tell (component_event (pd_component d) ''READY'')
       [peer_name e (pd_peer d), um_version (su_manifest (pd_signed d)), pd_path d] u2"
    have b: "take (k * ?C) b @ v = b" using cont last by simp
    have d2: "pd_path d2 = pd_path d" "pd_peer d2 = pd_peer d" "pd_component d2 = pd_component d" "pd_apply d2 = pd_apply d"
      "pd_signed d2 = pd_signed d" by (simp_all add: d2_def sizes)
    have "finish_download e args d2 (pd_peer d) u2 =
        (if pd_component d = Agent \<and> pd_apply d then schedule_self_update e (pd_path d) args (pd_peer d) u3 else (False, u3))"
      using finish_good [of u2 d2 b e args "pd_peer d"] nf b m by (simp add: u2_def d2 sizes Let_def u3_def)
    then have u': "u' = snd (if pd_component d = Agent \<and> pd_apply d then schedule_self_update e (pd_path d) args (pd_peer d) u3 else (False, u3))"
      using ans eq fin last by simp
    have u3: "faults (up_disk u3) = []" "download (manager u3) = None" "file_at (up_disk u3) (pd_path d) = Some b"
        "?ready \<in> set (printed (up_log u3))" "same_setup u u3"
      using nf b unchanged by (simp_all add: u3_def same_setup_tell, simp_all add: u2_def sizes)
    show ?thesis
    proof (cases "pd_component d = Agent \<and> pd_apply d")
      case True
      obtain ok where run: "schedule_self_update e (pd_path d) args (pd_peer d) u3 = (ok, u')" using u' True by (metis prod.collapse)
      note good = schedule_good [OF u3(1) run]
      have "pd_path d \<noteq> restart_path e (manager u3)" using u3(5) m(4) by (simp add: restart_path_def same_setup_def)
      then show ?thesis using good u3 True by (auto simp: same_setup_applied [OF u3(5)])
    next
      case False
      with u' u3 show ?thesis by (auto simp: same_setup_def)
    qed
  qed
qed

text \<open>
  C24. An honest transfer ends with the file and, when that was asked for, with the updater: when the peer serves the package its manifest
  describes and no system call fails, the chunk requests and answers end after \<open>size\<close> divided by the chunk size, rounded up, rounds,
  with the package's exact bytes in the staging file, reported ready, and no download pending. An update of the agent to be applied
  is then handed to the updater, with the staging file as the replacement and the agent's own file as the target, and reported as being applied;
  it is reported as failed when this platform cannot update itself or the updater is missing. Any other download launches nothing.
  (The staging file must not be the file the updater's restart arguments are written to; the names the code gives them differ.)
\<close>

theorem honest_transfer_delivers:
  assumes "receiving d b 0 u" "0 < length b"
    and src: "source_of (pd_component d) pm = Some src" "src_signed src = pd_signed d"
    and pfile: "file_at pdisk (src_path src) = Some b" "faults pdisk = []"
    and m: "length b = unat (um_size (su_manifest (pd_signed d)))" "um_size (su_manifest (pd_signed d)) \<le> MAX_UPDATE_BYTES"
      "sha_hex e b = um_sha256_hex (su_manifest (pd_signed d))"
      "pd_path d \<noteq> path_join e (staging (manager u)) (''restart-'' @ process_id e @ ''.json'')"
  shows "let u' = (transfer_round e args pe pm pdisk ^^ ((length b + 262143) div 262144)) u in
    download (manager u') = None \<and> file_at (up_disk u') (pd_path d) = Some b \<and>
    event_line (component_event (pd_component d) ''READY'') [peer_name e (pd_peer d), um_version (su_manifest (pd_signed d)), pd_path d]
      \<in> set (printed (up_log u')) \<and>
    (if pd_component d = Agent \<and> pd_apply d
     then (case agent_source (manager u) of
         Some own \<Rightarrow>
           if is_file (updater_path (manager u)) (up_disk u)
           then launched u' = launched u @ [updater_arguments e (updater_path (manager u)) (src_path own) (pd_path d)
               (path_join e (staging (manager u)) (''restart-'' @ process_id e @ ''.json''))] \<and>
             event_line ''UPDATE_APPLYING'' [peer_name e (pd_peer d), src_path own] \<in> set (printed (up_log u'))
           else launched u' = launched u \<and>
             event_line ''UPDATE_FAILED'' [peer_name e (pd_peer d), ''updater helper not found: '' @ updater_path (manager u)] \<in> set (printed (up_log u'))
       | None \<Rightarrow> launched u' = launched u \<and>
           event_line ''UPDATE_FAILED'' [peer_name e (pd_peer d), ''self-update is not supported on this platform''] \<in> set (printed (up_log u')))
     else launched u' = launched u)"
proof -
  let ?round = "transfer_round e args pe pm pdisk"
  have path: "pd_path d \<noteq> restart_path e (manager v)" if "same_setup u v" for v
    using that m(4) by (simp add: restart_path_def same_setup_def)
  have rounds: "receiving d b k ((?round ^^ k) u) \<and> same_setup u ((?round ^^ k) u)" if "k * 262144 < length b" for k
    using that
  proof (induction k)
    case 0
    show ?case using assms(1) by (simp add: same_setup_def)
  next
    case (Suc k)
    then have "k * 262144 < length b" by simp
    note ih = Suc.IH [OF this]
    from transfer_step(1) [OF ih [THEN conjunct1] \<open>k * 262144 < length b\<close> src pfile m(1-3) path [OF ih [THEN conjunct2]] refl Suc.prems]
      ih same_setup_trans show ?case by simp blast
  qed
  define n where "n = (length b - 1) div 262144"
  have n: "n * 262144 < length b" "\<not> Suc n * 262144 < length b" proof -
    have "n * 262144 + (length b - 1) mod 262144 = length b - 1" "(length b - 1) mod 262144 < 262144" by (simp_all add: n_def)
    moreover have "Suc n * 262144 = n * 262144 + 262144" by simp
    ultimately show "n * 262144 < length b" "\<not> Suc n * 262144 < length b" using assms(2) by linarith+
  qed
  have rounds_n: "(length b + 262143) div 262144 = Suc n" using assms(2) unfolding n_def by linarith
  note last = rounds [OF n(1)]
  define u' where "u' = ?round ((?round ^^ n) u)"
  have eq: "(?round ^^ ((length b + 262143) div 262144)) u = u'" by (simp add: rounds_n u'_def)
  have frame: "launched ((?round ^^ n) u) = launched u" using last by (simp add: same_setup_def)
  note finished = transfer_step(2) [OF last [THEN conjunct1] n(1) src pfile m(1-3) path [OF last [THEN conjunct2]] refl n(2), of args pe,
      folded u'_def, unfolded same_setup_applied [OF last [THEN conjunct2]] frame]
  show ?thesis unfolding eq Let_def using finished unfolding applied_from_def restart_path_def .
qed

section \<open>Concrete updates\<close>

definition demo_manifest :: update_manifest where
  "demo_manifest = \<lparr>um_version = ''2'', um_target_os = ''linux'', um_target_arch = ''x'', um_size = 1, um_sha256_hex = ''h''\<rparr>"

definition demo_signed :: signed_update_manifest where
  "demo_signed = \<lparr>su_manifest = demo_manifest, su_signer_public_key = [1], su_signature = [2]\<rparr>"

definition demo_update_env :: update_env where
  "demo_update_env = \<lparr>peer_name = (\<lambda>_. ''p''), parse_peer_id = (\<lambda>_. None), const_os = ''linux'', const_arch = ''x'',
     package_version = ''1'', version_valid = (\<lambda>v. v \<in> {''1'', ''2''}), version_newer = (\<lambda>v w. v = ''2'' \<and> w = ''1''),
     decode_key = Some, peer_of_key = (\<lambda>_. PeerId 1),
     verify_signature = (\<lambda>k t s. t = component_payload Agent demo_manifest), sign_payload = Some \<circ> (\<lambda>_. [2]),
     own_public_key = [1], sha_hex = (\<lambda>_. ''h''), path_join = (\<lambda>a b. a @ ''/'' @ b), with_extension = (\<lambda>a x. a @ ''.'' @ x),
     parent_dir = (\<lambda>_. ''d''), update_io_text = (\<lambda>_. ''io''), eof_text = ''eof'', args_json = (\<lambda>_. []), process_id = ''7'',
     decode_text = (\<lambda>_. None), encode_text = (\<lambda>_. [])\<rparr>"

definition demo_source :: update_source where
  "demo_source = \<lparr>src_path = ''agent'', src_signed = demo_signed\<rparr>"

definition demo_disk :: "string fs" where
  "demo_disk = \<lparr>files = [(''agent'', [7]), (''updater'', [8])], faults = [], temp_counter = 0\<rparr>"

definition demo_updates :: updates where
  "demo_updates = \<lparr>up_log = \<lparr>printed = [], mobile_events = []\<rparr>, up_disk = demo_disk,
     manager = \<lparr>policy = Automatic, trust_path = ''trust'', staging = ''stage'', updater_path = ''updater'', trusted = {PeerId 1},
       agent_source = Some demo_source, debugger_source = None, android_source = None, requested = None, download = None\<rparr>,
     up_sent = [], launched = []\<rparr>"

definition demo_requested :: updates where
  "demo_requested = begin_component_update_request demo_update_env (PeerId 1) Agent True demo_updates"

definition demo_pending :: updates where
  "demo_pending = manifest_received demo_update_env (PeerId 1) demo_signed demo_requested"

definition demo_download :: pending_download where
  "demo_download = \<lparr>pd_peer = PeerId 1, pd_component = Agent, pd_signed = demo_signed, pd_path = ''stage/swagri-agent-2-p.download'',
     pd_received = 0, pd_apply = True\<rparr>"

lemma demo_verified: "verify_update_manifest demo_update_env (PeerId 1) demo_signed Agent = Inr ()"
  by (simp add: verify_update_manifest_def demo_update_env_def demo_signed_def expected_target_def is_newer_version_def
      demo_manifest_def MAX_UPDATE_BYTES_def)

lemma demo_requested_state:
  "manager demo_requested = (manager demo_updates)\<lparr>requested := Some (PeerId 1, Agent, True)\<rparr>" "up_disk demo_requested = demo_disk"
  "launched demo_requested = []" "up_sent demo_requested = [(PeerId 1, UManifest)]"
  by (simp_all add: demo_requested_def begin_component_update_request_def demo_updates_def Let_def manifest_request_def send_update_def)

lemma demo_pending_state:
  "manager demo_pending = (manager demo_updates)\<lparr>download := Some demo_download\<rparr>"
  "up_disk demo_pending = put_file (pd_path demo_download) [] demo_disk" "launched demo_pending = []"
  "up_sent demo_pending = [(PeerId 1, UManifest), (PeerId 1, UChunk ''2'' 0 UPDATE_CHUNK_BYTES)]"
proof -
  have p: "download_path demo_update_env (manager (set_requested None demo_requested)) Agent (um_version (su_manifest demo_signed)) (PeerId 1)
     = pd_path demo_download"
    by (simp add: download_path_def demo_update_env_def demo_requested_state demo_updates_def demo_signed_def demo_manifest_def
        demo_download_def component_filename_def)
  have d: "\<lparr>pd_peer = PeerId 1, pd_component = Agent, pd_signed = demo_signed, pd_path = pd_path demo_download, pd_received = 0, pd_apply = True\<rparr> = demo_download"
    by (simp add: demo_download_def)
  have r: "run_files (update_call demo_update_env (fs_create (pd_path demo_download))) (set_requested None demo_requested) =
      (Inr (), (set_requested None demo_requested)\<lparr>up_disk := put_file (pd_path demo_download) [] demo_disk\<rparr>)"
    by (simp add: run_files_def io_apply calls_without_faults demo_requested_state) (simp add: demo_disk_def calls_without_faults)
  have q: "requested (manager demo_requested) = Some (PeerId 1, Agent, True)" by (simp add: demo_requested_state)
  have eq: "demo_pending = request_next_update_chunk (set_download (Some demo_download)
     ((set_requested None demo_requested)\<lparr>up_disk := put_file (pd_path demo_download) [] demo_disk\<rparr>))"
    by (simp only: demo_pending_def manifest_received_def q option.case prod.case Let_def demo_verified sum.case p r d simp_thms if_False)
  show "manager demo_pending = (manager demo_updates)\<lparr>download := Some demo_download\<rparr>"
    by (simp add: eq demo_requested_state) (simp add: demo_updates_def)
  show "up_disk demo_pending = put_file (pd_path demo_download) [] demo_disk" "launched demo_pending = []"
    by (simp_all add: eq demo_requested_state)
  show "up_sent demo_pending = [(PeerId 1, UManifest), (PeerId 1, UChunk ''2'' 0 UPDATE_CHUNK_BYTES)]"
    by (simp add: eq request_next_update_chunk_def send_update_def)
      (simp add: demo_download_def chunk_request_def demo_signed_def demo_manifest_def set_download_def set_requested_def demo_requested_state)
qed

lemma demo_run: "update_run demo_update_env {PeerId 1} demo_pending"
proof -
  have "update_run demo_update_env {PeerId 1} demo_updates" by (rule reachable.init) (simp add: fresh_updates_def demo_updates_def)
  then have "update_run demo_update_env {PeerId 1} demo_requested"
    unfolding demo_requested_def by (rule update_run_step [OF _ update_step.request])
  moreover have "demo_pending = snd (update_answered demo_update_env [] (PeerId 1) (UpManifest demo_signed) demo_requested)"
    by (simp add: update_answered_def demo_pending_def)
  moreover have "update_step demo_update_env {PeerId 1} demo_requested
      (snd (update_answered demo_update_env [] (PeerId 1) (UpManifest demo_signed) demo_requested))"
    by (rule update_step.answered) simp
  ultimately show ?thesis by (simp only: update_run_step)
qed

lemma demo_pending_receiving: "download (manager demo_pending) = Some demo_download" "faults (up_disk demo_pending) = []"
  "file_at (up_disk demo_pending) (pd_path demo_download) = Some []"
  by (simp_all add: demo_pending_state demo_disk_def)

lemma demo_joins: "\<forall>a b c. path_join demo_update_env a b = path_join demo_update_env a c \<longrightarrow> b = c"
  by (simp add: demo_update_env_def)

text \<open>The answer with the only chunk of the update, which starts the updater.\<close>

definition demo_launched :: updates where
  "demo_launched = snd (update_answered demo_update_env [''--daemon''] (PeerId 1) (UpChunk 0 [7]) demo_pending)"

lemma demo_launch:
  "launched demo_launched = [updater_arguments demo_update_env ''updater'' ''agent'' (pd_path demo_download) ''stage/restart-7.json'']"
  "faults (up_disk demo_launched) = []" "file_at (up_disk demo_launched) ''agent'' = Some [7]"
  "file_at (up_disk demo_launched) (pd_path demo_download) = Some [7]" "file_at (up_disk demo_launched) ''stage/restart-7.json'' = Some []"
proof -
  have sz: "um_size (su_manifest (pd_signed demo_download)) = 1" "pd_received demo_download = 0" "pd_peer demo_download = PeerId 1"
    by (simp_all add: demo_download_def demo_signed_def demo_manifest_def)
  let ?d = "demo_download\<lparr>pd_received := 1\<rparr>"
  let ?u2 = "chunk_stored demo_update_env demo_download (PeerId 1) [] [7] demo_pending"
  let ?u3 = "tell (component_event (pd_component ?d) ''READY'') [peer_name demo_update_env (PeerId 1), um_version (su_manifest (pd_signed ?d)), pd_path ?d] ?u2"
  have c: "chunk_received demo_update_env [''--daemon''] (PeerId 1) 0 [7] demo_pending =
      finish_download demo_update_env [''--daemon''] ?d (PeerId 1) ?u2"
    using good_chunk [OF demo_pending_receiving(1) sz(3), of "[7]" "[]" demo_update_env "[''--daemon'']"] demo_pending_receiving(2,3)
    by (simp add: sz MAX_UPDATE_BYTES_def Let_def)
  have held: "file_at demo_disk ''updater'' = Some [8]" "file_at demo_disk ''agent'' = Some [7]" "faults demo_disk = []"
    by (simp_all add: demo_disk_def file_at_def)
  have f: "faults (up_disk ?u2) = []" "is_file ''updater'' (up_disk ?u2)" "agent_source (manager ?u2) = Some demo_source"
    "file_at (up_disk ?u2) (pd_path demo_download) = Some [7]" "updater_path (manager ?u2) = ''updater''" "staging (manager ?u2) = ''stage''"
    "launched ?u2 = []" "file_at (up_disk ?u2) ''agent'' = Some [7]"
    by (simp_all add: demo_pending_state is_file_def chunk_stored_def, simp_all add: demo_updates_def demo_download_def held)
  have "run_files (update_call demo_update_env fs_check) ?u2 = (Inr (), ?u2)"
    using f(1) by (simp add: run_files_def io_apply calls_without_faults)
  moreover have "run_files (verify_download demo_update_env (pd_path ?d) (su_manifest (pd_signed ?d))) ?u2 = (Inr (), ?u2)"
    using f(1,4) by (simp add: run_files_def verify_download_def io_apply calls_without_faults sz)
      (simp add: demo_download_def demo_signed_def demo_manifest_def demo_update_env_def)
  moreover have "pd_component ?d = Agent" "pd_apply ?d" by (simp_all add: demo_download_def)
  ultimately have fin: "finish_download demo_update_env [''--daemon''] ?d (PeerId 1) ?u2 =
     schedule_self_update demo_update_env (pd_path ?d) [''--daemon''] (PeerId 1) ?u3"
    by (simp add: finish_download_def Let_def)
  have p: "path_join demo_update_env a b = a @ ''/'' @ b" "process_id demo_update_env = ''7''"
    "args_json demo_update_env l = []" "src_path demo_source = ''agent''" for a b l
    by (simp_all add: demo_update_env_def demo_source_def)
  have "snd (schedule_self_update demo_update_env (pd_path ?d) [''--daemon''] (PeerId 1) ?u3) =
      tell ''UPDATE_APPLYING'' [peer_name demo_update_env (PeerId 1), ''agent'']
        (?u3\<lparr>up_disk := put_file ''stage/restart-7.json'' [] (put_file ''stage/restart-7.json'' [] (up_disk ?u3)),
          launched := [updater_arguments demo_update_env ''updater'' ''agent'' (pd_path demo_download) ''stage/restart-7.json'']\<rparr>)"
    using f by (simp add: schedule_self_update_def Let_def run_files_def io_apply calls_without_faults is_file_def p)
  then have eq: "demo_launched = tell ''UPDATE_APPLYING'' [peer_name demo_update_env (PeerId 1), ''agent'']
        (?u3\<lparr>up_disk := put_file ''stage/restart-7.json'' [] (put_file ''stage/restart-7.json'' [] (up_disk ?u3)),
          launched := [updater_arguments demo_update_env ''updater'' ''agent'' (pd_path demo_download) ''stage/restart-7.json'']\<rparr>)"
    unfolding demo_launched_def update_answered_def update_response.case c fin by simp
  show "launched demo_launched = [updater_arguments demo_update_env ''updater'' ''agent'' (pd_path demo_download) ''stage/restart-7.json'']"
    "faults (up_disk demo_launched) = []" "file_at (up_disk demo_launched) ''agent'' = Some [7]"
    "file_at (up_disk demo_launched) (pd_path demo_download) = Some [7]" "file_at (up_disk demo_launched) ''stage/restart-7.json'' = Some []"
    using f unfolding eq by (simp_all del: chunk_stored_frame) (simp add: demo_download_def)
qed


theorem accepted_manifest_was_signed_witness:
  "(PeerId 1, Agent, demo_manifest) \<in> {(PeerId 1, Agent, demo_manifest)} \<and> 0 < um_size demo_manifest"
proof -
  have "(PeerId 1, Agent, su_manifest demo_signed) \<in> {(PeerId 1, Agent, demo_manifest)} \<and> 0 < um_size (su_manifest demo_signed) \<and>
    um_size (su_manifest demo_signed) \<le> MAX_UPDATE_BYTES \<and>
    (um_target_os (su_manifest demo_signed), um_target_arch (su_manifest demo_signed)) = expected_target demo_update_env Agent \<and>
    (Agent \<noteq> Debugger \<longrightarrow> version_newer demo_update_env (um_version (su_manifest demo_signed)) (package_version demo_update_env))"
    by (rule accepted_manifest_was_signed [OF demo_verified])
      (auto simp: demo_update_env_def clean_fields_def demo_manifest_def newline_def)
  then show ?thesis by (simp add: demo_signed_def)
qed

theorem chunk_refines_transfer_witness:
  "transfer_of (snd (chunk_received demo_update_env [] (PeerId 2) 0 [7] demo_pending)) = NoTransfer"
  using chunk_refines_transfer [OF demo_run demo_pending_receiving(2), of "[7]" "[]" "PeerId 2" 0]
  by (simp add: transfer_of_def demo_pending_receiving) (simp add: demo_download_def)

theorem honest_transfer_delivers_witness:
  "file_at (up_disk ((transfer_round demo_update_env [] demo_update_env (manager demo_updates) demo_disk ^^ 1) demo_pending)) (pd_path demo_download) = Some [7] \<and>
   launched ((transfer_round demo_update_env [] demo_update_env (manager demo_updates) demo_disk ^^ 1) demo_pending) =
     [updater_arguments demo_update_env ''updater'' ''agent'' (pd_path demo_download) ''stage/restart-7.json''] \<and>
   pd_component demo_download = Agent \<and> pd_apply demo_download"
proof -
  let ?d = demo_download
  have r: "receiving ?d [7] 0 demo_pending"
    by (simp add: receiving_def demo_pending_receiving) (simp add: demo_pending_state demo_download_def chunk_request_def demo_signed_def demo_manifest_def demo_disk_def)
  have s: "source_of (pd_component ?d) (manager demo_updates) = Some demo_source" "src_signed demo_source = pd_signed ?d"
    by (simp_all add: source_of_def demo_download_def demo_updates_def demo_source_def)
  have b: "file_at demo_disk (src_path demo_source) = Some [7]" "faults demo_disk = []"
    by (simp_all add: demo_disk_def demo_source_def file_at_def)
  have set: "agent_source (manager demo_pending) = Some demo_source" "updater_path (manager demo_pending) = ''updater''"
    "is_file ''updater'' (up_disk demo_pending)" "launched demo_pending = []" "src_path demo_source = ''agent''"
    "staging (manager demo_pending) = ''stage''" "process_id demo_update_env = ''7''" "path_join demo_update_env a c = a @ ''/'' @ c"
    "pd_component ?d = Agent" "pd_apply ?d" "pd_path ?d \<noteq> ''stage/restart-7.json''" for a c
    by (simp_all add: demo_pending_state is_file_def) (simp_all add: demo_updates_def demo_source_def demo_update_env_def demo_download_def demo_disk_def file_at_def)
  have m: "length [7 :: 8 word] = unat (um_size (su_manifest (pd_signed ?d)))" "um_size (su_manifest (pd_signed ?d)) \<le> MAX_UPDATE_BYTES"
    "sha_hex demo_update_env [7] = um_sha256_hex (su_manifest (pd_signed ?d))"
    by (simp_all add: demo_download_def demo_signed_def demo_manifest_def demo_update_env_def MAX_UPDATE_BYTES_def)
  from honest_transfer_delivers [OF r _ s b m, of "[]" demo_update_env] show ?thesis by (simp add: Let_def set)
qed

end
