(* ===== verification/Agent_Refine.thy ===== *)
theory Agent_Refine
  imports Agent_Run Artifact_Props Update_Props
begin

text \<open>
  Network events, background work, ticks and the whole loop: every step of the agent is a step of its components, so that what is
  proved of the runs of a component holds in every run of the agent.
\<close>

section \<open>The parts of an agent\<close>

definition parts_of :: "agent \<Rightarrow> node \<times> exchange \<times> updates \<times> inbound \<times> resource_monitor" where
  "parts_of a = (ag_node a, ag_exchange a, ag_updates a, ag_inbound a, ag_monitor a)"

definition good :: "agent_env \<Rightarrow> peer_id set \<Rightarrow> agent \<Rightarrow> bool" where
  "good e T a = (side_ok e T a \<and> matrix_reach (ae_node e) (ag_node a))"

lemma ready_parts: "parts_of b = parts_of a \<Longrightarrow> good e T a \<Longrightarrow> ready e T b"
  by (rule readyI) (simp_all add: good_def parts_of_def side_ok_def)

lemma good_ready: "good e T a \<Longrightarrow> ready e T a"
  by (rule ready_parts) simp_all

lemma ready_dispatch: "ready e T a \<Longrightarrow> good e T (dispatch_jobs e a)"
  by (simp add: ready_def good_def side_node)

lemma ready_exchange:
  "good e T a \<Longrightarrow> exchange_step (ae_exchange e) (ag_exchange a) (ag_exchange b) \<Longrightarrow>
    parts_of b = (ag_node a, ag_exchange b, ag_updates a, ag_inbound a, ag_monitor a) \<Longrightarrow> good e T b"
  using side_exchange [of e T a b] by (simp add: good_def parts_of_def artifact_effect_def)

lemma ready_updates:
  "good e T a \<Longrightarrow> update_step (ae_update e) T (ag_updates a) (ag_updates b) \<Longrightarrow>
    parts_of b = (ag_node a, ag_exchange a, ag_updates b, ag_inbound a, ag_monitor a) \<Longrightarrow> good e T b"
  using side_updates [of e T a b] by (simp add: good_def parts_of_def update_effect_def)

lemma good_inbound:
  assumes "good e T a" "\<And>rs. inbound_run (ae_inbound e) rs (ag_inbound a) \<Longrightarrow> \<exists>rs'. inbound_run (ae_inbound e) rs' (ag_inbound b)"
    and "parts_of b = (ag_node a, ag_exchange a, ag_updates a, ag_inbound b, ag_monitor a)"
  shows "good e T b"
proof -
  from assms(3) have same: "ag_node b = ag_node a" "ag_exchange b = ag_exchange a" "ag_updates b = ag_updates a" "ag_monitor b = ag_monitor a"
    by (simp_all add: parts_of_def)
  from assms(1) have a: "side_ok e T a" "matrix_reach (ae_node e) (ag_node a)" by (simp_all add: good_def)
  from a(1) have "\<exists>rs. inbound_run (ae_inbound e) rs (ag_inbound b)" unfolding side_ok_def using assms(2) by blast
  with a show ?thesis unfolding good_def side_ok_def same by blast
qed

section \<open>Network events\<close>

lemma parts_quiet [simp]:
  "parts_of (announce ev fs a) = parts_of a" "parts_of (know_peer p addrs a) = parts_of a"
  "parts_of (expire_address d a) = parts_of a" "parts_of (discover_peer e' d2 a) = parts_of a"
  by (auto simp: parts_of_def announce_def know_peer_def expire_address_def discover_peer_def Let_def split: option.split prod.split)

lemma parts_fold: "(\<And>x a. parts_of (f x a) = parts_of a) \<Longrightarrow> parts_of (fold f xs a) = parts_of a"
  by (induction xs arbitrary: a) auto

lemma serve_update_at:
  assumes "serve_update_request e r m s = (x, t)"
  shows "file_at t = file_at s"
proof -
  have chunk: "file_at t = file_at s" if "serve_update_chunk e src vers off len s = (x, t)" for src vers off len
    using that fs_read_at [of "src_path src" s]
    by (auto simp: serve_update_chunk_def Let_def split: if_splits prod.splits sum.splits)
  show ?thesis using assms chunk
    by (cases r) (auto simp: serve_update_request_def split: option.splits)
qed

lemma serve_update_step:
  assumes "update_inv e T u" "serve_update_request e r (manager u) (up_disk u) = (x, s)"
  shows "update_step e T u (u\<lparr>up_disk := s\<rparr>)"
proof (rule update_other)
  show "manager (u\<lparr>up_disk := s\<rparr>) = (manager u)\<lparr>trusted := trusted (manager u)\<rparr>" by simp
  show "trusted (manager u) \<subseteq> T" using assms(1) by (simp add: update_inv_def)
qed (use serve_update_at [OF assms(2)] in simp_all)

lemma answer_update_good:
  assumes "good e T a"
  shows "good e T (answer_update e p r a)"
proof -
  obtain x s where x: "serve_update_request (ae_update e) r (manager (ag_updates a)) (up_disk (ag_updates a)) = (x, s)" by fastforce
  have "update_inv (ae_update e) T (ag_updates a)" using assms by (simp add: good_def side_inv)
  from serve_update_step [OF this x] show ?thesis
    by (intro ready_updates [OF assms]) (simp_all add: answer_update_def x parts_of_def)
qed

lemma answer_artifact_good:
  assumes "good e T a"
  shows "good e T (answer_artifact e p r a)"
proof (rule ready_exchange [OF assms])
  let ?t = "trusted (manager (ag_updates a))"
  have "ag_exchange (answer_artifact e p r a) = snd (answer_artifact_request (ae_exchange e) ?t p r (ag_exchange a))"
    by (simp add: answer_artifact_def split: prod.split)
  then show "exchange_step (ae_exchange e) (ag_exchange a) (ag_exchange (answer_artifact e p r a))"
    by (simp add: exchange_step.serve)
qed (simp add: answer_artifact_def parts_of_def split: prod.split)

lemma identified_good:
  assumes "good e T a"
  shows "good e T (peer_identified e v p t a)"
proof -
  let ?a1 = "announce ''PEER_VERSION'' [peer_string e p, identified_version t, show_word (protocol_hint_for_version v (identified_version t))] a"
  have 1: "good e T ?a1" using assms by (simp add: good_def)
  have "good e T (on_updates (begin_update_request (ae_update e) p True) ?a1)"
    by (rule ready_updates [OF 1]) (simp_all add: begin_update_request_def update_step.request parts_of_def)
  with 1 show ?thesis by (simp add: peer_identified_def Let_def)
qed

lemma on_exchange_good:
  "good e T a \<Longrightarrow> exchange_step (ae_exchange e) (ag_exchange a) (f (ag_exchange a)) \<Longrightarrow> good e T (on_exchange f a)"
  by (rule ready_exchange) (simp_all add: parts_of_def)

lemma on_updates_good:
  "good e T a \<Longrightarrow> update_step (ae_update e) T (ag_updates a) (f (ag_updates a)) \<Longrightarrow> good e T (on_updates f a)"
  by (rule ready_updates) (simp_all add: parts_of_def)

lemma good_parts: "parts_of b = parts_of a \<Longrightarrow> good e T a \<Longrightarrow> good e T b"
  by (simp add: good_def parts_of_def side_ok_def)

lemma closed_good:
  assumes "good e T a" "walk_ok w"
  shows "good e T (on_exchange (fail_artifact_provider (ae_exchange e) w p reason) (announce ev fs (if P then a\<lparr>connected_peers := ps\<rparr> else a)))"
proof (rule on_exchange_good)
  show "good e T (announce ev fs (if P then a\<lparr>connected_peers := ps\<rparr> else a))"
    by (rule good_parts [OF _ assms(1)]) (simp add: parts_of_def)
qed (simp add: exchange_step.disconnected [OF assms(2)])

lemma answered_good:
  assumes "good e T a" "update_answered (ae_update e) args p r (ag_updates a) = (q, u)" "\<And>off v. r = UpChunk off v \<Longrightarrow> length v < 2 ^ 64"
  shows "good e T (on_updates (\<lambda>_. u) a)"
  using update_step.answered [of r "ae_update e" T "ag_updates a" args p] assms by (intro on_updates_good) auto

lemma task_event_ready:
  assumes "good e T a" "(rid, p, req) \<in> set (sent (ag_node a))"
  shows "answers_ok req r \<Longrightarrow> ready e T (on_node (handle_response (ae_node e) rid p r) a)"
    "ready e T (on_node (handle_outbound_failure (ae_node e) rid p err) a)"
  using assms matrix_reach_step [OF _ matrix_step.response [OF assms(2)]] matrix_reach_step [OF _ matrix_step.failure [OF assms(2)]]
  by (simp_all add: ready_def good_def side_node)

lemma network_ready:
  assumes "good e T a" "network_fair nev a" "handle_swarm_event e v nev a = (stop, b)"
  shows "ready e T b"
proof (cases nev)
  case (TaskRequested p ch r)
  have "good e T (on_inbound (receive_task (ae_inbound e) (monitored (ag_monitor a)) p ch r) a)"
    by (rule good_inbound [OF assms(1)]) (auto simp: parts_of_def dest: inbound_run.receive)
  then show ?thesis using assms(3) good_ready by (simp add: handle_swarm_event_def TaskRequested)
next
  case (TaskAnswered rid p r)
  then obtain req where "(rid, p, req) \<in> set (sent (ag_node a))" "answers_ok req r" using assms(2) by (auto simp: network_fair_def)
  from task_event_ready(1) [OF assms(1) this] show ?thesis using assms(3) by (simp add: handle_swarm_event_def TaskAnswered)
next
  case (TaskFailed rid p err)
  then obtain req where "(rid, p, req) \<in> set (sent (ag_node a))" using assms(2) by (auto simp: network_fair_def)
  from task_event_ready(2) [OF assms(1) this] show ?thesis using assms(3) by (auto simp: handle_swarm_event_def TaskFailed)
next
  case (UpdateAnswered p r)
  obtain q u where u: "update_answered (ae_update e) (ae_restart e) p r (ag_updates a) = (q, u)" by fastforce
  have "\<And>off v. r = UpChunk off v \<Longrightarrow> length v < 2 ^ 64" using assms(2) UpdateAnswered by (simp add: network_fair_def)
  from answered_good [OF assms(1) u this] show ?thesis using assms(3) u good_ready by (simp add: handle_swarm_event_def UpdateAnswered)
next
  case (UpdateFailed p err)
  have "good e T (on_updates (update_outbound_failed (ae_update e) p err) a)"
    by (rule on_updates_good [OF assms(1)]) (rule update_step.failed)
  then show ?thesis using assms(3) good_ready by (simp add: handle_swarm_event_def UpdateFailed)
next
  case (ArtifactAnswered rid r w)
  then have "good e T (on_exchange (artifact_answered (ae_exchange e) w rid r) a)"
    using assms(2) by (intro on_exchange_good [OF assms(1)] exchange_step.answered) (simp add: network_fair_def)
  then show ?thesis using assms(3) good_ready by (simp add: handle_swarm_event_def ArtifactAnswered)
next
  case (ArtifactFailed rid p err w)
  then have "good e T (on_exchange (artifact_failed (ae_exchange e) w rid p err) a)"
    using assms(2) by (intro on_exchange_good [OF assms(1)] exchange_step.failed) (simp add: network_fair_def)
  then show ?thesis using assms(3) good_ready by (simp add: handle_swarm_event_def ArtifactFailed)
next
  case (ConnectionClosed p n w)
  with closed_good [OF assms(1), of w] assms(2,3) show ?thesis
    by (auto simp: handle_swarm_event_def network_fair_def intro: good_ready)
next
  case (ConnectionEstablished p)
  have "parts_of b = parts_of a" using assms(3) by (auto simp: handle_swarm_event_def ConnectionEstablished parts_of_def)
  then show ?thesis using assms(1) by (rule ready_parts)
next
  case (Discovered ps)
  then have "parts_of b = parts_of a" using assms(3) parts_fold [of "discover_peer e"] by (auto simp: handle_swarm_event_def)
  then show ?thesis using assms(1) by (rule ready_parts)
next
  case (Expired ps)
  then have "parts_of b = parts_of a" using assms(3) parts_fold [of expire_address] by (auto simp: handle_swarm_event_def)
  then show ?thesis using assms(1) by (rule ready_parts)
qed (use assms(1,3) good_ready answer_update_good answer_artifact_good identified_good ready_parts in
    \<open>auto simp: handle_swarm_event_def\<close>)

section \<open>Background work and ticks\<close>

lemma store_job_step:
  assumes "run_store_job e s1 s2 j x = (c, y)"
  shows "exchange_step e' x y"
  using assms
  by (cases j) (auto simp: run_store_job_def Let_def split: prod.splits dest: exchange_on_disk)

lemma finish_store_job_good:
  assumes "good e T a"
  shows "good e T (finish_store_job e k s1 s2 a)"
proof -
  obtain c x where x: "run_store_job (ae_exchange e) s1 s2 (store_jobs a ! k) (ag_exchange a) = (c, x)" by fastforce
  show ?thesis
    by (rule ready_exchange [OF assms]) (simp_all add: finish_store_job_def x store_job_step [OF x] parts_of_def)
qed

lemma report_store_result_good:
  assumes "good e T a"
  shows "good e T (report_store_result e a)"
proof (cases "store_results a")
  case (Cons c rest)
  show ?thesis
    by (rule ready_exchange [OF assms]) (simp_all add: report_store_result_def Cons exchange_step.completion parts_of_def)
qed (use assms in \<open>simp add: report_store_result_def\<close>)

lemma poll_good:
  assumes "good e T a" "unat (request_counter (ag_node a)) + length ps < 2 ^ 64"
  shows "good e T (fold (\<lambda>p. on_node (submit_task (ae_node e) p TNodeInfo)) ps a)"
  using assms
proof (induction ps arbitrary: a)
  case (Cons p ps)
  let ?b = "on_node (submit_task (ae_node e) p TNodeInfo) a"
  have room: "request_counter (ag_node a) \<noteq> - 1" using Cons.prems(2) by (auto simp: unat_max_word)
  have "matrix_reach (ae_node e) (ag_node ?b)"
    using Cons.prems(1) matrix_reach_step [OF _ matrix_step.submit [OF room]] by (simp add: good_def)
  with Cons.prems(1) have "good e T ?b" by (simp add: good_def side_node)
  moreover have "unat (request_counter (ag_node ?b)) = Suc (unat (request_counter (ag_node a)))"
    using unatSuc [of "request_counter (ag_node a)"] room by (simp add: add.commute eq_neg_iff_add_eq_0)
  with Cons.prems(2) have "unat (request_counter (ag_node ?b)) + length ps < 2 ^ 64" by simp
  ultimately show ?case using Cons.IH [of ?b] by simp
qed simp

lemma refresh_ready:
  assumes "good e T a" "sound_readings r"
  shows "good e T (refresh_resources r a)"
  using assms side_monitor(2) [of e T a r] node_observe(1) [of "ae_node e" "ag_node a"]
  by (simp add: good_def refresh_resources_def)

lemma resource_tick_good:
  assumes "good e T a" "sound_readings r" "counter_room a"
  shows "good e T (resource_tick e r a)"
proof -
  let ?b = "dispatch_jobs e (announce_resources e (refresh_resources r a))"
  have "good e T (announce_resources e (refresh_resources r a))"
    by (rule good_parts [OF _ refresh_ready [OF assms(1,2)]]) (simp add: parts_of_def)
  then have "good e T ?b" by (rule ready_dispatch [OF good_ready])
  moreover have "unat (request_counter (ag_node ?b)) + length (connected_peers ?b) < 2 ^ 64"
    using assms(3) by (simp add: counter_room_def refresh_resources_def)
  ultimately show ?thesis unfolding resource_tick_def poll_peers_def by (rule poll_good)
qed

section \<open>Every run\<close>

lemma good_fresh:
  assumes "fresh_agent e T a"
  shows "good e T a"
proof -
  obtain k c l ml r where m: "ag_monitor a = monitor_start k c l ml r" "is_finite c" "l \<noteq> NaN" "sound_readings r"
    using assms by (auto simp: fresh_agent_def)
  have "monitor_good (ag_monitor a)"
    using monitor_start_ok [OF m(2-4), of k ml] m by (auto simp: monitor_good_def)
  moreover have "inbound_run (ae_inbound e) [] (ag_inbound a)"
    using assms by (intro inbound_run.init) (simp_all add: fresh_agent_def)
  moreover have "exchange_run (ae_exchange e) (ag_exchange a)" "update_run (ae_update e) T (ag_updates a)" "matrix_reach (ae_node e) (ag_node a)"
    using assms by (auto simp: fresh_agent_def fresh_exchange_def fresh_updates_def intro!: reachable.init)
  ultimately show ?thesis using assms by (auto simp: good_def side_ok_def fresh_agent_def)
qed

lemma clock_good: "good e T a \<Longrightarrow> good e T (a\<lparr>ag_node := (ag_node a)\<lparr>clock := clock (ag_node a) + t\<rparr>\<rparr>)"
  using node_observe(2) [of "ae_node e" "ag_node a" "clock (ag_node a) + t"] by (simp add: good_def side_ok_def)

lemma node_good:
  "good e T a \<Longrightarrow> matrix_step (ae_node e) (ag_node a) (f (ag_node a)) \<Longrightarrow> own_resources (f (ag_node a)) = own_resources (ag_node a) \<Longrightarrow>
    good e T (on_node f a)"
  by (auto simp: good_def side_node dest: matrix_reach_step)

lemma command_good:
  assumes "good e T a" "event_fair e v T (CommandLine line r acc) a" "agent_step e v (CommandLine line r acc) a = (True, b)"
  shows "good e T b"
proof -
  obtain running a' where a': "handle_command e r acc line a = (running, a')" by fastforce
  with assms(3) have b: "running" "b = dispatch_jobs e a'" by (auto simp: agent_step_def split: if_splits)
  from assms(2) have fair: "counter_room a" "sound_readings r" "trusted (manager (ag_updates b)) \<subseteq> T"
    by (simp_all add: event_fair_def assms(3))
  have "ready e T a'"
    by (rule handle_command_ready [of e T a r acc line]) (use assms(1) a' b fair in \<open>simp_all add: good_def\<close>)
  then show ?thesis unfolding b(2) by (rule ready_dispatch)
qed

lemma network_good:
  assumes "good e T a" "network_fair nev a" "agent_step e v (Network nev) a = (True, b)"
  shows "good e T b"
proof -
  obtain stop a' where a': "handle_swarm_event e v nev a = (stop, a')" by fastforce
  with assms(3) have "b = dispatch_jobs e a'" by (auto simp: agent_step_def split: if_splits)
  with ready_dispatch [OF network_ready [OF assms(1,2) a']] show ?thesis by simp
qed

lemma step_good:
  assumes "good e T a" "event_fair e v T ev a" "agent_step e v ev a = (True, b)"
  shows "good e T b"
proof (cases ev)
  case (CommandLine line r acc)
  with command_good assms show ?thesis by blast
next
  case (Network nev)
  with network_good assms show ?thesis by (auto simp: event_fair_def)
next
  case (ResponseCompleted alive)
  have "good e T (on_inbound (send_completed (ae_inbound e) alive) a)"
    by (rule good_inbound [OF assms(1)]) (auto simp: parts_of_def dest: inbound_run.send)
  then show ?thesis using assms(3) by (simp add: agent_step_def ResponseCompleted)
next
  case LocalCompleted
  have "good e T (on_node (deliver_local (ae_node e)) a)" by (rule node_good [OF assms(1)]) (simp_all add: matrix_step.deliver)
  then show ?thesis using assms(3) by (simp add: agent_step_def LocalCompleted)
next
  case StoreCompleted
  then show ?thesis using report_store_result_good [OF assms(1)] assms(3) by (simp add: agent_step_def)
next
  case (ResourceTick r)
  with assms(2) have "sound_readings r" "counter_room a" by (simp_all add: event_fair_def)
  from resource_tick_good [OF assms(1) this] show ?thesis using assms(3) by (simp add: agent_step_def ResourceTick)
next
  case (TaskEnds k ms)
  have "good e T (on_node (run_spawned (ae_node e) k ms) a)" if "k < length (spawned (ag_node a))"
    by (rule node_good [OF assms(1)]) (simp_all add: matrix_step.run that)
  then show ?thesis using assms(1,3) by (auto simp: agent_step_def TaskEnds split: if_splits)
next
  case (InboundEnds k ms whole)
  have "good e T (on_inbound (finish_work (ae_inbound e) k ms whole) a)" if "k < length (work_list (ag_inbound a))"
    by (rule good_inbound [OF assms(1)]) (auto simp: parts_of_def intro: inbound_run.finish [OF _ that])
  then show ?thesis using assms(1,3) by (auto simp: agent_step_def InboundEnds split: if_splits)
next
  case (StoreJobEnds k s1 s2)
  with finish_store_job_good [OF assms(1)] assms(1,3) show ?thesis by (auto simp: agent_step_def split: if_splits)
next
  case (TimePasses t)
  with clock_good [OF assms(1)] assms(3) show ?thesis by (auto simp: agent_step_def)
next
  case (PhoneReports battery charge thermal network)
  have "good e T (a\<lparr>ag_phone := q\<rparr>)" for q by (rule good_parts [OF _ assms(1)]) (simp add: parts_of_def)
  with assms(3) show ?thesis by (auto simp: agent_step_def PhoneReports)
qed

interpretation agent_machine: machine_invariant "fresh_agent e T" "agent_moves e v T" "good e T" for e v T
  by unfold_locales (auto elim!: agent_moves.cases intro: good_fresh step_good)

lemmas run_good = agent_machine.run_inv

text \<open>
  C31. The agent is the composition of its parts. In every run of the event loop whose events are fair (\<open>event_fair\<close>), whatever the order
  of commands, messages of other peers, failures, ticks and ends of background work, every step of the loop is a step of the components'
  own runs: the scheduler's, the artifact exchange's, the updates' and the inbound tasks'. So no fair command or event of one part can break
  what is proved of another. The scheduler always places work by the snapshot of the monitor, and that snapshot stays within the limits.
  Fair means: task answers and failures belong to requests that were sent, a chunk result that names the rows of its request has their
  checksum and node information answers only a request for it (which the code does not check), request numbers do not wrap
  around, the system's readings are numbers, a chunk of an update has a length, the tables are walked in some order, and the
  user trusts only peers in \<open>T\<close>.
\<close>

theorem agent_run_refines_components:
  assumes "agent_run e v T a"
  shows "matrix_reach (ae_node e) (ag_node a) \<and> exchange_run (ae_exchange e) (ag_exchange a) \<and>
    update_run (ae_update e) T (ag_updates a) \<and> (\<exists>received. inbound_run (ae_inbound e) received (ag_inbound a)) \<and>
    own_resources (ag_node a) = monitored (ag_monitor a) \<and> offer_ok (monitored (ag_monitor a))"
  using run_good [OF assms] by (simp add: good_def side_ok_def monitor_good_def)

text \<open>A peer connects to a fresh agent, and the next tick asks it for its resources.\<close>

definition demo_agent_env :: agent_env where
  "demo_agent_env = \<lparr>ae_inbound = demo_inbound_env, ae_exchange = demo_exchange_env, ae_update = demo_update_env, ae_restart = [],
     ae_peer = (\<lambda>_. Inl ''no peer''), ae_address = (\<lambda>_. None), ae_float = (\<lambda>_. None)\<rparr>"

definition demo_monitor :: resource_monitor where
  "demo_monitor = monitor_start demo_machine_kind (Fin 10) (Fin 75) (Fin 50) demo_readings"

definition demo_agent :: agent where
  "demo_agent = \<lparr>ag_node = empty_node\<lparr>own_resources := monitored demo_monitor\<rparr>, ag_exchange = demo_exchange, ag_updates = demo_updates,
     ag_inbound = demo_inbound, ag_monitor = demo_monitor, ag_phone = mobile_start, known_peers = [], connected_peers = [],
     store_jobs = [], store_results = [], dials = [], update_replies = [], artifact_replies = [],
     said = \<lparr>printed = [], mobile_events = []\<rparr>\<rparr>"

definition any_version :: version_env where
  "any_version = \<lparr>at_least = (\<lambda>_ _. False)\<rparr>"

lemma demo_agent_fresh: "fresh_agent demo_agent_env {PeerId 1} demo_agent"
proof -
  have "sound_readings demo_readings" by (simp add: sound_readings_def demo_readings_def)
  then have "\<exists>k c l ml r. demo_monitor = monitor_start k c l ml r \<and> is_finite c \<and> l \<noteq> NaN \<and> sound_readings r"
    unfolding demo_monitor_def by (intro exI [of _ demo_machine_kind] exI [of _ "Fin 10"] exI [of _ "Fin 75"] exI [of _ "Fin 50"]
        exI [of _ demo_readings]) simp
  moreover have "places_apart demo_update_env (manager demo_updates)"
    by (simp add: places_apart_def demo_joins download_path_def) (simp add: demo_update_env_def demo_updates_def)
  ultimately show ?thesis
    by (simp add: fresh_agent_def fresh_exchange_def fresh_updates_def demo_agent_def demo_agent_env_def fresh_node_def empty_node_def demo_exchange_def demo_updates_def demo_inbound_def)
qed

theorem agent_run_refines_components_witness:
  "\<exists>a. agent_run demo_agent_env any_version {PeerId 1} a \<and> connected_peers a = [PeerId 2] \<and>
     matrix_reach (ae_node demo_agent_env) (ag_node a) \<and> sent (ag_node a) \<noteq> []"
proof -
  let ?b = "dispatch_jobs demo_agent_env (announce ''PEER_CONNECTED'' [peer_string demo_agent_env (PeerId 2)]
       ((know_peer (PeerId 2) {} demo_agent)\<lparr>connected_peers := [PeerId 2]\<rparr>))"
  have start: "agent_run demo_agent_env any_version {PeerId 1} demo_agent" by (rule reachable.init) (rule demo_agent_fresh)
  have one: "request_counter (ag_node demo_agent) = 1" by (simp add: demo_agent_def empty_node_def)
  have step: "agent_step demo_agent_env any_version (Network (ConnectionEstablished (PeerId 2))) demo_agent = (True, ?b)"
    by (simp add: agent_step_def handle_swarm_event_def peers_insert_def demo_agent_def)
  have b: "connected_peers ?b = [PeerId 2]" "request_counter (ag_node ?b) = 1" "trusted (manager (ag_updates ?b)) = {PeerId 1}"
    by (simp_all add: demo_agent_def empty_node_def demo_updates_def)
  have "event_fair demo_agent_env any_version {PeerId 1} (Network (ConnectionEstablished (PeerId 2))) demo_agent"
    unfolding event_fair_def step snd_conv b(3) by (simp add: counter_room_def network_fair_def demo_agent_def empty_node_def)
  from agent_run_step [OF start agent_moves.fair [OF this step]] have run: "agent_run demo_agent_env any_version {PeerId 1} ?b" .
  let ?c = "resource_tick demo_agent_env demo_readings ?b"
  have tick: "agent_step demo_agent_env any_version (ResourceTick demo_readings) ?b = (True, ?c)" by (simp add: agent_step_def)
  have c: "connected_peers ?c = [PeerId 2]" "trusted (manager (ag_updates ?c)) = {PeerId 1}" "sent (ag_node ?c) \<noteq> []"
    using b by (simp_all add: resource_tick_def poll_peers_def refresh_resources_def submit_task_def Let_def next_sequence_def send_request_def
        add_outbound_def task_started_def)
  have "event_fair demo_agent_env any_version {PeerId 1} (ResourceTick demo_readings) ?b"
    unfolding event_fair_def tick snd_conv c(2) by (simp add: counter_room_def one sound_readings_def demo_readings_def)
  from agent_run_step [OF run agent_moves.fair [OF this tick]] have run: "agent_run demo_agent_env any_version {PeerId 1} ?c" .
  from agent_run_refines_components [OF run] run c show ?thesis by blast
qed

end
