(* ===== verification/Matrix_Claims.thy ===== *)
theory Matrix_Claims
  imports Matrix_Props
begin

text \<open>What holds of distributed jobs in every run of the scheduler, and of the placement of single tasks.\<close>

section \<open>The demonstration run, computed\<close>

definition demo_meta :: outbound_task_meta where
  "demo_meta = \<lparr>meta_id = ''p0-distributed-1-chunk-1'', tracked = True, meta_job = Some ''p0-distributed-1'',
     meta_worker = Some (Remote (PeerId 1)), meta_chunk = Some (demo_chunk\<lparr>attempts := 1\<rparr>)\<rparr>"

definition demo_request :: task_request where
  "demo_request = \<lparr>req_id = ''p0-distributed-1-chunk-1'', req_task = TMatrixChunk 16 0 16\<rparr>"

definition demo_new :: matrix_job where
  "demo_new = demo_job\<lparr>pending := [demo_chunk], available_workers := [Remote (PeerId 1)], in_flight := 0\<rparr>"

lemma demo_workers: "eligible_matrix_workers demo_node = [Remote (PeerId 1)]"
  by (simp add: eligible_matrix_workers_def demo_node_def empty_node_def idle_resources_def peer_ready_def offers_cpu_def fresh_observation_def elapsed_def NODE_PROTOCOL_VERSION_def)

lemma demo_plan: "matrix_plan 16 16 = [demo_chunk]"
  by (simp add: matrix_plan_def div_ceil_def plan_chunk_def demo_chunk_def)

lemma show_nat_small: "show_nat 0 = ''0''" "show_nat (Suc 0) = ''1''" by code_simp+

lemma demo_start: "\<exists>t. start_distributed_matrix demo_env 16 16 demo_node = demo_node\<lparr>trace := t, request_counter := 2, matrix_jobs := [(''p0-distributed-1'', demo_job\<lparr>pending := [demo_chunk], available_workers := [Remote (PeerId 1)], in_flight := 0\<rparr>)]\<rparr>"
  apply (simp add: start_distributed_matrix_def demo_workers demo_plan MIN_MATRIX_SIZE_def MAX_DISTRIBUTED_MATRIX_SIZE_def MAX_MATRIX_CHUNK_ROWS_def next_sequence_def Let_def put_job_def emit_def demo_job_def)
  apply (simp add: demo_node_def empty_node_def demo_env_def div_ceil_def show_nat_small show_nat.simps [of 1] del: show_nat.simps)
  done

lemma demo_score: "\<exists>x. matrix_worker_score (Remote (PeerId 1)) (demo_node\<lparr>trace := t, request_counter := 2, matrix_jobs := js\<rparr>) = Some x"
  by (simp add: matrix_worker_score_def demo_node_def empty_node_def idle_resources_def peer_ready_def offers_cpu_def fresh_observation_def elapsed_def NODE_PROTOCOL_VERSION_def)

lemma demo_dispatch: "dispatch_loop [Remote (PeerId 1)] demo_new [] = ([\<lparr>dp_job = ''p0-distributed-1'', dp_task_id = ''p0-distributed-1-chunk-1'',
   dp_task = TMatrixChunk 16 0 16, dp_worker = Remote (PeerId 1), dp_chunk = demo_chunk\<lparr>attempts := 1\<rparr>\<rparr>], demo_job)"
  by (simp add: demo_new_def demo_job_def demo_chunk_def chunk_task_id_def show_nat_small show_nat.simps [of 1] Let_def)

lemma demo_started_state: "\<exists>t. demo_started = demo_node\<lparr>trace := t, request_counter := 2, matrix_jobs := [(''p0-distributed-1'', demo_job)],
    outbound_tasks := [(0, demo_meta)], next_request := 1, sent := [(0, PeerId 1, demo_request)]\<rparr>"
proof -
  obtain t where t: "start_distributed_matrix demo_env 16 16 demo_node = demo_node\<lparr>trace := t, request_counter := 2, matrix_jobs := [(''p0-distributed-1'', demo_new)]\<rparr>" (is "_ = ?s")
    using demo_start unfolding demo_new_def by blast
  obtain x where x: "matrix_worker_score (Remote (PeerId 1)) ?s = Some x" using demo_score by blast
  have "ranked_workers ?s demo_new = [Remote (PeerId 1)]"
    using x by (simp add: ranked_workers_def sort_by_def List.map_filter_def demo_new_def)
  then have tk: "take_matrix_dispatches ?s demo_new = ([\<lparr>dp_job = ''p0-distributed-1'', dp_task_id = ''p0-distributed-1-chunk-1'',
   dp_task = TMatrixChunk 16 0 16, dp_worker = Remote (PeerId 1), dp_chunk = demo_chunk\<lparr>attempts := 1\<rparr>\<rparr>], demo_job)"
    by (simp only: take_matrix_dispatches_def demo_dispatch)
  have u: "job_unavailable s' demo_job = False" for s' by (simp add: job_unavailable_def demo_job_def)
  show ?thesis
    unfolding demo_started_def t dispatch_matrix_jobs_def
    apply (simp add: tk u Let_def start_dispatch_def emit_def task_started_def send_request_def add_outbound_def hm_insert_def map_remove_def del: One_nat_def)
    apply (simp add: demo_meta_def demo_request_def demo_node_def empty_node_def)
    done
qed

lemma demo_started_job: "bt_get (matrix_jobs demo_started) ''p0-distributed-1'' = Some demo_job"
proof -
  obtain t where t: "demo_started = demo_node\<lparr>trace := t, request_counter := 2, matrix_jobs := [(''p0-distributed-1'', demo_job)],
    outbound_tasks := [(0, demo_meta)], next_request := 1, sent := [(0, PeerId 1, demo_request)]\<rparr>"
    using demo_started_state by blast
  show ?thesis by (simp add: t)
qed

section \<open>Properties\<close>

text \<open>
  C12. Conservation of work, as long as the workers are honest (\<open>answers_ok\<close>): in every run in which a chunk result that names the rows of its
  request carries their true checksum and node information answers only a request for it, each distributed job has a plan whose rows are
  exactly its waiting chunks, the work that is really out (unanswered requests, spawned tasks, queued
  completions) and its finished rows; the counters of completed and in-flight chunks are the true
  ones, the checksum is that of the finished rows, and no job is left with nothing in flight. Workers may fail, be late, answer twice or
  send any other response, and commands, resources and local tasks come in any order; request numbers must not wrap around. The code does
  not check the two conditions on answers: agents that run this code meet them, and a peer
  that answers a chunk request with node information breaks the accounts, as shown below.
\<close>

theorem distributed_job_accounts:
  assumes "matrix_reach e s" "bt_get (matrix_jobs s) i = Some j"
  shows "job_name j = i \<and> 0 < unat (in_flight j) \<and> unat (in_flight j) = size (outstanding i s) \<and>
    (\<exists>finished rows. params_ok (job_size j) rows \<and>
      image_mset snd (outstanding i s) + mset (map plan_rows (pending j)) + mset finished =
        mset (map plan_rows (matrix_plan (job_size j) rows)) \<and>
      unat (completed_chunks j) = length finished \<and> length finished < length (matrix_plan (job_size j) rows) \<and>
      job_checksum j = xor_list (map (\<lambda>(a, b). matrix_chunk (job_size j) a b) finished))"
proof -
  from reach_inv [OF assms(1)] have inv: "sched_inv e (\<lambda>_. {#}) s" and idle: "no_idle s" by auto
  have ok: "job_ok i (outstanding i s) j" using sched_invD [OF inv assms(2)] by simp
  then obtain fin r where acc: "job_accounts fin r (outstanding i s) j" and ne: "completed_chunks j \<noteq> total_chunks j"
    by (auto simp: job_ok_def)
  have "0 < unat (in_flight j)"
    using idle assms(2) by (auto simp: no_idle_def unat_gt_0)
  moreover have "length fin < length (matrix_plan (job_size j) r)"
  proof -
    have "size (outstanding i s) + length (pending j) + length fin = length (matrix_plan (job_size j) r)"
      using arg_cong [of _ _ size] acc unfolding job_accounts_def by (metis size_image_mset size_mset size_union length_map)
    moreover have "0 < size (outstanding i s)" using acc \<open>0 < unat (in_flight j)\<close> by (simp add: job_accounts_def)
    ultimately show ?thesis by linarith
  qed
  ultimately show ?thesis using acc ok unfolding job_accounts_def job_ok_def by blast
qed

theorem distributed_job_accounts_witness:
  "unat (in_flight demo_job) = size (outstanding ''p0-distributed-1'' demo_started)"
proof -
  have "bt_get (matrix_jobs demo_started) ''p0-distributed-1'' = Some demo_job" by (rule demo_started_job)
  from distributed_job_accounts [OF demo_reach this] show ?thesis by blast
qed

text \<open>
  C13. A worker holds at most one chunk of a job and is never both available and busy; a waiting chunk has
  been tried fewer than three times and one that is out to a peer at most three times.
\<close>

theorem one_chunk_per_worker_three_attempts:
  assumes "matrix_reach e s" "bt_get (matrix_jobs s) i = Some j"
  shows "distinct (available_workers j) \<and>
    count (image_mset fst (outstanding i s)) w + (if w \<in> set (available_workers j) then 1 else 0) \<le> 1 \<and>
    (\<forall>c\<in>set (pending j). unat (attempts c) < 3) \<and>
    (\<forall>(rid, m)\<in>set (outbound_tasks s). meta_job m = Some i \<longrightarrow>
       (\<exists>p c. meta_worker m = Some (Remote p) \<and> meta_chunk m = Some c \<and> 1 \<le> unat (attempts c) \<and> unat (attempts c) \<le> 3))"
proof (intro conjI ballI)
  from reach_inv [OF assms(1)] have inv: "sched_inv e (\<lambda>_. {#}) s" by auto
  have ok: "job_ok i (outstanding i s) j" using sched_invD [OF inv assms(2)] by simp
  show d: "distinct (available_workers j)" by (rule job_ok_distinct [OF ok])
  have "count (mset (available_workers j)) w = (if w \<in> set (available_workers j) then 1 else 0)"
    using d by (simp add: distinct_count_atmost_1)
  with job_ok_once [OF ok, of w]
  show "count (image_mset fst (outstanding i s)) w + (if w \<in> set (available_workers j) then 1 else 0) \<le> 1" by simp
  show "unat (attempts c) < 3" if "c \<in> set (pending j)" for c using ok that by (simp add: job_ok_def)
  show "case x of (rid, m) \<Rightarrow> meta_job m = Some i \<longrightarrow>
       (\<exists>p c. meta_worker m = Some (Remote p) \<and> meta_chunk m = Some c \<and> 1 \<le> unat (attempts c) \<and> unat (attempts c) \<le> 3)"
    if "x \<in> set (outbound_tasks s)" for x
    using inv that unfolding sched_inv_def tables_ok_def meta_ok_def by (cases x) fastforce
qed

theorem one_chunk_per_worker_three_attempts_witness:
  "count (image_mset fst (outstanding ''p0-distributed-1'' demo_started)) (Remote (PeerId 1)) \<le> 1"
proof -
  have "bt_get (matrix_jobs demo_started) ''p0-distributed-1'' = Some demo_job" by (rule demo_started_job)
  from one_chunk_per_worker_three_attempts [OF demo_reach this, of "Remote (PeerId 1)"] show ?thesis by simp
qed

text \<open>The answer that completes the last chunk of a job.\<close>

lemma last_chunk_result:
  assumes "matrix_reach e s" "(rid, p, req) \<in> set (sent s)" "answers_ok req r"
    and "map_of (outbound_tasks s) rid = Some m" "meta_job m = Some i" "meta_chunk m = Some c"
    and "bt_get (matrix_jobs s) i = Some j" "completed_chunks j + 1 = total_chunks j"
    and "outcome r = Success (RMatrixChunk x (job_size j) (row_start c) (row_end c))"
  shows "bt_get (matrix_jobs (handle_response e rid p r s)) i = None \<and>
    last (printed (trace (handle_response e rid p r s))) =
      event_line ''TASK_RESULT'' [peer_text e (local_peer e), i, show_word (elapsed_ms (started_at j) s),
        task_result_summary (RDistributedMatrix (matrix_chunk (job_size j) 0 (job_size j)) (job_size j) (total_chunks j))]"
proof -
  from reach_inv [OF assms(1)] have inv: "sched_inv e (\<lambda>_. {#}) s" by auto
  from outbound_meta [OF inv assms(4,5,2)] assms(6) obtain n where m: "meta_worker m = Some (Remote p)"
    "size_allows s i n" "req_task req = TMatrixChunk n (row_start c) (row_end c)" by (metis option.inject)
  have n: "n = job_size j" using m(2) assms(7) by (simp add: size_allows_def)
  have x: "x = matrix_chunk (job_size j) (row_start c) (row_end c)" using assms(3,9) m(3) n by (simp add: answers_ok_def)
  define s2 where "s2 = report e p r (s\<lparr>outbound_tasks := map_remove rid (outbound_tasks s)\<rparr>)"
  have eq: "handle_response e rid p r s = accept_chunk e i (Remote p) x j s2"
    using assms m(1) by (simp add: handle_response_def complete_matrix_chunk_def s2_def)
  have "sched_inv e (answered_work rid s) s2" using remove_outbound_inv [OF inv] by (simp add: s2_def)
  moreover have "bt_get (matrix_jobs s2) i = Some j" using assms(7) by (simp add: s2_def)
  ultimately have "job_ok i (outstanding i s2 + answered_work rid s i) j" by (rule sched_invD)
  moreover have "answered_work rid s i = {#(Remote p, plan_rows c)#}"
    using assms(4-6) m(1) by (simp add: answered_work_def meta_work_def)
  ultimately have ok: "job_ok i (add_mset (Remote p, plan_rows c) (outstanding i s2)) j" by simp
  have name: "job_name j = i" using ok by (simp add: job_ok_def)
  from accept_ok(2) [OF ok refl] assms(8)
  have "job_checksum j XOR x = matrix_chunk (job_size j) 0 (job_size j)" by (simp add: x plan_rows_def)
  moreover have "elapsed_ms (started_at j) (emit ev fs (put_job i j' s2)) = elapsed_ms (started_at j) s" for ev fs j'
    by (simp add: elapsed_ms_def elapsed_def emit_def put_job_def s2_def report_def)
  ultimately show ?thesis
    unfolding eq accept_chunk_def Let_def
    using assms(8) name by (simp add: bt_get_drop report_def response_success_def report_task_response_def emit_event_def Let_def)
qed

text \<open>
  C16. A peer that answers a chunk request with node information strands the job: the request is forgotten
  but the chunk is neither completed nor retried, so the job counts one chunk in flight that nothing will ever answer.
\<close>

theorem node_info_strands_chunk:
  assumes "matrix_reach e s" "(rid, p, req) \<in> set (sent s)"
    and "map_of (outbound_tasks s) rid = Some m" "meta_job m = Some i"
    and "bt_get (matrix_jobs s) i = Some j"
    and "outcome r = Success (RNodeInfo v pv nm res)"
  shows "bt_get (matrix_jobs (handle_response e rid p r s)) i = Some j \<and>
    unat (in_flight j) = size (outstanding i (handle_response e rid p r s)) + 1"
proof -
  from reach_inv [OF assms(1)] have inv: "sched_inv e (\<lambda>_. {#}) s" by auto
  let ?s1 = "s\<lparr>outbound_tasks := map_remove rid (outbound_tasks s)\<rparr>"
  have jobs: "matrix_jobs (handle_response e rid p r s) = matrix_jobs s"
    using assms(6) by (auto simp: handle_response_def Let_def emit_def split: option.splits)
  have out: "outstanding i (handle_response e rid p r s) = outstanding i ?s1"
    using assms(6) by (auto simp: handle_response_def Let_def emit_def outstanding_def split: option.splits)
  from outbound_meta [OF inv assms(3,4,2)] obtain c where "meta_worker m = Some (Remote p)" "meta_chunk m = Some c" by metis
  then have w: "answered_work rid s i = {#(Remote p, plan_rows c)#}"
    using assms(3,4) by (simp add: answered_work_def meta_work_def)
  have "job_ok i (outstanding i ?s1 + answered_work rid s i) j"
    by (rule sched_invD [OF remove_outbound_inv [OF inv]]) (use assms(5) in simp)
  then show ?thesis using assms(5) jobs out w by (auto simp: job_ok_def job_accounts_def)
qed

theorem node_info_strands_chunk_witness:
  "size (outstanding ''p0-distributed-1'' (handle_response demo_env 0 (PeerId 1)
     (response_success [] 0 (RNodeInfo [] 0 [] None)) demo_started)) = 0 \<and>
   bt_get (matrix_jobs (handle_response demo_env 0 (PeerId 1) (response_success [] 0 (RNodeInfo [] 0 [] None)) demo_started))
     ''p0-distributed-1'' = Some demo_job"
proof -
  obtain t where t: "demo_started = demo_node\<lparr>trace := t, request_counter := 2, matrix_jobs := [(''p0-distributed-1'', demo_job)],
    outbound_tasks := [(0, demo_meta)], next_request := 1, sent := [(0, PeerId 1, demo_request)]\<rparr>"
    using demo_started_state by blast
  have a: "(0, PeerId 1, demo_request) \<in> set (sent demo_started)" "map_of (outbound_tasks demo_started) 0 = Some demo_meta"
    "meta_job demo_meta = Some ''p0-distributed-1''" "bt_get (matrix_jobs demo_started) ''p0-distributed-1'' = Some demo_job"
    by (simp_all add: t demo_meta_def)
  have "outcome (response_success [] 0 (RNodeInfo [] 0 [] None)) = Success (RNodeInfo [] 0 [] None)"
    by (simp add: response_success_def)
  from node_info_strands_chunk [OF demo_reach a this] show ?thesis by (simp add: demo_job_def)
qed

text \<open>
  C15. Placement of a valid task does exactly one of three things: it sends it, once, to a peer whose report is
  fresh, compatible, unpaused, strictly faster than this machine's score and at least as fast as every other
  candidate with a finite score; or, when this machine contributes, it runs it locally; or it queues a failure.
\<close>

theorem place_cpu_task_correct:
  assumes "validate t = None"
  shows "let s' = place_cpu_task e t v s in
    (\<exists>p ob r. sent s' = sent s @ [(next_request s, p, r)] \<and> req_task r = t \<and> spawned s' = spawned s \<and> local_queue s' = local_queue s \<and>
       (p, ob) \<in> set (peer_resources s) \<and> elapsed (received_at ob) s \<le> REMOTE_RESOURCE_MAX_AGE \<and> v \<le> obs_protocol ob \<and>
       \<not> contribution_paused (snapshot ob) \<and>
       fl_less (finite_non_negative (snapshot_cpu_score (own_resources s))) (snapshot_cpu_score (snapshot ob)) \<and>
       (\<forall>(q, x)\<in>set (placement_candidates v s). is_finite x \<longrightarrow> fl_le x (snapshot_cpu_score (snapshot ob)))) \<or>
    (\<exists>l. sent s' = sent s \<and> spawned s' = spawned s @ [l] \<and> req_task (sp_request l) = t \<and> sp_job l = None \<and>
       local_queue s' = local_queue s \<and> \<not> contribution_paused (own_resources s)) \<or>
    (\<exists>c m. sent s' = sent s \<and> spawned s' = spawned s \<and> local_queue s' = local_queue s @ [c] \<and>
       outcome (cl_response c) = Failure ''no_eligible_resources'' m \<and> contribution_paused (own_resources s))"
proof -
  define cs where "cs = placement_candidates v s"
  define d where "d = choose_cpu_placement (snapshot_cpu_score (own_resources s)) (map snd cs) REMOTE_CPU_MINIMUM_GAIN"
  have loc: "local_score d = finite_non_negative (snapshot_cpu_score (own_resources s))"
    by (simp add: d_def choose_cpu_placement_def Let_def split: option.splits prod.splits)
  show ?thesis
  proof (cases "remote_candidate_index d")
    case None
    with assms show ?thesis
      by (cases "contribution_paused (own_resources s)")
        (auto simp: place_cpu_task_def Let_def next_sequence_def submit_local_task_def spawn_task_def queue_local_def
          emit_def task_started_def response_failure_def cs_def [symmetric] d_def [symmetric] simp del: validate.simps)
  next
    case (Some k)
    from choose_placement_remote [OF Some [unfolded d_def], folded d_def] have k: "k < length cs" "fl_less (local_score d) (snd (cs ! k))"
      "\<And>j. j < length cs \<Longrightarrow> is_finite (snd (cs ! j)) \<Longrightarrow> fl_le (snd (cs ! j)) (snd (cs ! k))" by (simp_all add: loc)
    then have "cs ! k \<in> set (placement_candidates v s)" by (simp add: cs_def)
    then obtain p ob where p: "cs ! k = (p, snapshot_cpu_score (snapshot ob))" "(p, ob) \<in> set (peer_resources s)"
      "elapsed (received_at ob) s \<le> REMOTE_RESOURCE_MAX_AGE" "v \<le> obs_protocol ob" "\<not> contribution_paused (snapshot ob)"
      by (auto simp: placement_candidates_def)
    have top: "\<forall>(q, x)\<in>set cs. is_finite x \<longrightarrow> fl_le x (snapshot_cpu_score (snapshot ob))"
      using k(3) p(1) by (fastforce simp: in_set_conv_nth)
    have eq: "place_cpu_task e t v s = submit_task e p t (s\<lparr>trace := emit_placement_decision ''remote'' (peer_text e p) d
                       (length cs) (kind_name t) (trace s)\<rparr>)"
      using assms Some p(1) by (simp add: place_cpu_task_def Let_def cs_def [symmetric] d_def [symmetric] del: validate.simps)
    then have "\<exists>r. sent (place_cpu_task e t v s) = sent s @ [(next_request s, p, r)] \<and> req_task r = t \<and>
      spawned (place_cpu_task e t v s) = spawned s \<and> local_queue (place_cpu_task e t v s) = local_queue s"
      by (simp add: submit_task_def Let_def next_sequence_def send_request_def add_outbound_def task_started_def)
    then obtain r where "sent (place_cpu_task e t v s) = sent s @ [(next_request s, p, r)]" "req_task r = t"
      "spawned (place_cpu_task e t v s) = spawned s" "local_queue (place_cpu_task e t v s) = local_queue s" by blast
    then show ?thesis unfolding Let_def
      using p(2-5) k(2) top p(1) loc unfolding cs_def by (intro disjI1 exI [of _ p] exI [of _ ob] exI [of _ r]) simp
  qed
qed

theorem place_cpu_task_correct_witness:
  "let s' = place_cpu_task demo_env (TCpuBenchmark 1000) 4 demo_node in
     (\<exists>p r. sent s' = [(0, p, r)] \<and> p \<in> fst ` set (peer_resources demo_node)) \<or> (\<exists>c. local_queue s' = [c])"
proof -
  have f: "validate (TCpuBenchmark 1000) = None" by (simp add: MAX_BENCHMARK_ITERATIONS_def)
  have g: "sent demo_node = []" "next_request demo_node = 0" "local_queue demo_node = []" "contribution_paused (own_resources demo_node)"
    by (simp_all add: demo_node_def empty_node_def idle_resources_def)
  from place_cpu_task_correct [OF f, of demo_env 4 demo_node] show ?thesis
    unfolding Let_def g by (elim disjE exE conjE) (force, simp_all add: g)
qed

end
