(* ===== verification/Swarm.thy ===== *)
theory Swarm
  imports Agent_Refine Matrix_Claims
begin

text \<open>
  A swarm: any number of agents that run this program and exchange tasks over the network. A request one agent sent reaches
  the inbound side of another, whose answer comes back to the scheduler of the first. Each agent takes every
  other step on its own, in any order. What the model of one agent assumes of its peers' answers is
  proved here of agents that run this code.
\<close>

section \<open>What was sent stays sent\<close>

abbreviation posted :: "node \<Rightarrow> (nat \<times> peer_id \<times> task_request) set" where
  "posted s \<equiv> set (sent s)"

lemma sent_same [simp]:
  "sent (emit ev fs s) = sent s" "sent (report e p r s) = sent s" "sent (task_started e i d p dir s) = sent s"
  "sent (put_job i j s) = sent s" "sent (drop_job i s) = sent s" "sent (add_outbound k m s) = sent s"
  "sent (spawn_task t s) = sent s" "sent (queue_local c s) = sent s" "sent (snd (next_sequence s)) = sent s"
  by (simp_all add: emit_def report_def task_started_def put_job_def drop_job_def add_outbound_def spawn_task_def queue_local_def next_sequence_def)

lemma sent_request [simp]: "sent (snd (send_request p q s)) = sent s @ [(next_request s, p, q)]"
  by (simp add: send_request_def)

lemma sent_submit [simp]: "posted s \<subseteq> posted (submit_task e p t s)" "sent (submit_local_task e t s) = sent s"
    "sent (run_spawned e k ms s) = sent s"
  by (auto simp: submit_task_def submit_local_task_def run_spawned_def next_sequence_def send_request_def Let_def)

lemma sent_place [simp]: "posted s \<subseteq> posted (place_cpu_task e t v s)"
  using sent_submit(1) [of "s\<lparr>trace := x\<rparr>" for x]
  by (auto simp: place_cpu_task_def next_sequence_def Let_def split: option.split)

lemma sent_start [simp]: "sent (start_distributed_matrix e n rows s) = sent s"
  by (auto simp: start_distributed_matrix_def next_sequence_def Let_def)

lemma sent_fail [simp]: "sent (fail_matrix_job e i m s) = sent s"
  by (auto simp: fail_matrix_job_def Let_def split: option.splits)

lemma sent_retry [simp]: "sent (retry_matrix_chunk e i w c m s) = sent s"
  by (auto simp: retry_matrix_chunk_def Let_def split: option.splits)

lemma sent_fail_or_retry [simp]: "sent (fail_or_retry_matrix_chunk e i w c m s) = sent s"
  by (auto simp: fail_or_retry_matrix_chunk_def split: matrix_worker.split option.split)

lemma sent_accept [simp]: "sent (accept_chunk e i w x j s) = sent s"
  by (simp add: accept_chunk_def Let_def)

lemma sent_complete [simp]: "sent (complete_matrix_chunk e i w c r s) = sent s"
proof (cases "outcome r")
  case (Success x)
  then show ?thesis by (cases x) (auto simp: complete_matrix_chunk_def split: option.split)
qed (simp add: complete_matrix_chunk_def)

lemma sent_fold: "(\<And>x s. posted s \<subseteq> posted (f x s)) \<Longrightarrow> posted s \<subseteq> posted (fold f xs s)"
proof (induction xs arbitrary: s)
  case (Cons x xs)
  from subset_trans [OF Cons.prems Cons.IH [OF Cons.prems]] show ?case by simp
qed simp

lemma sent_start_dispatch [simp]: "posted s \<subseteq> posted (start_dispatch e d s)"
  by (auto simp: start_dispatch_def send_request_def Let_def split: matrix_worker.splits)

lemma sent_dispatch [simp]: "posted s \<subseteq> posted (dispatch_matrix_jobs e s)"
  unfolding dispatch_matrix_jobs_def Let_def
  by (rule subset_trans [OF _ sent_fold], rule subset_trans [OF _ sent_fold]) (simp_all add: sent_fail)

lemma sent_response [simp]: "sent (handle_response e rid p r s) = sent s"
proof (cases "\<exists>v n m q. outcome r = Success (RNodeInfo v n m q)")
  case False
  then have eq: "handle_response e rid p r s = (let s2 = report e p r (s\<lparr>outbound_tasks := map_remove rid (outbound_tasks s)\<rparr>)
       in case map_of (outbound_tasks s) rid of None \<Rightarrow> s2
       | Some m \<Rightarrow> (case (meta_job m, meta_worker m, meta_chunk m) of
            (Some i, Some w, Some c) \<Rightarrow> complete_matrix_chunk e i w (Some c) r s2 | _ \<Rightarrow> s2))"
    unfolding handle_response_def Let_def by (cases "outcome r") (simp_all split: task_result.split)
  show ?thesis unfolding eq Let_def by (simp split: option.split)
qed (auto simp: handle_response_def Let_def split: option.split)

lemma sent_failure [simp]: "sent (handle_outbound_failure e rid p m s) = sent s"
  by (simp add: handle_outbound_failure_def Let_def split: option.split)

lemma sent_deliver [simp]: "posted s \<subseteq> posted (deliver_local e s)"
proof -
  have "posted s = posted (complete_matrix_chunk e i w c r (report e p q (s\<lparr>local_queue := l\<rparr>)))" for i w c r p q l by simp
  also have "\<dots> i w c r p q l \<subseteq> posted (dispatch_matrix_jobs e (complete_matrix_chunk e i w c r (report e p q (s\<lparr>local_queue := l\<rparr>))))" for i w c r p q l
    by (rule sent_dispatch)
  finally show ?thesis by (auto simp: deliver_local_def Let_def split: list.split option.split)
qed

section \<open>What an event does to the scheduler's requests and to the inbound tasks\<close>

text \<open>The request an event hands to the inbound side, with the snapshot it is judged by.\<close>

definition taken :: "agent_event \<Rightarrow> agent \<Rightarrow> (nat \<times> task_request \<times> resource_snapshot) list" where
  "taken ev a = (case ev of Network (TaskRequested p ch r) \<Rightarrow> [(ch, r, monitored (ag_monitor a))] | _ \<Rightarrow> [])"

text \<open>Nothing sent is forgotten, and the inbound side has answered to the same requests.\<close>

definition carries :: "agent_env \<Rightarrow> agent \<Rightarrow> agent \<Rightarrow> bool" where
  "carries e a b = (posted (ag_node a) \<subseteq> posted (ag_node b) \<and>
     (\<forall>rs. inbound_ok (ae_inbound e) rs (ag_inbound a) \<longrightarrow> inbound_ok (ae_inbound e) rs (ag_inbound b)))"

lemma carries_trans: "carries e a b \<Longrightarrow> carries e b c \<Longrightarrow> carries e a c"
  unfolding carries_def by blast

lemma carries_same: "ag_node b = ag_node a \<Longrightarrow> ag_inbound b = ag_inbound a \<Longrightarrow> carries e a b"
  by (simp add: carries_def)

lemma carries_parts: "parts_of b = parts_of a \<Longrightarrow> carries e a b"
  by (rule carries_same) (simp_all add: parts_of_def)

lemma carries_node: "posted (ag_node a) \<subseteq> posted (f (ag_node a)) \<Longrightarrow> carries e a (on_node f a)"
  by (simp add: carries_def)

lemma carries_inbound:
  "(\<And>rs. inbound_ok (ae_inbound e) rs (ag_inbound a) \<Longrightarrow> inbound_ok (ae_inbound e) rs (f (ag_inbound a))) \<Longrightarrow> carries e a (on_inbound f a)"
  by (simp add: carries_def)

lemma carries_dispatch: "carries e a b \<Longrightarrow> carries e a (dispatch_jobs e' b)"
  by (rule carries_trans [OF _ carries_node]) simp_all

lemma carries_announce [simp]:
  "carries e a (announce ev fs b) = carries e a b" "carries e a (announce_resources e' b) = carries e a b"
  by (simp_all add: carries_def)

lemma carries_monitor: "carries e a (set_monitor m a)"
  by (simp add: carries_def)

lemma carries_effects:
  "artifact_effect e a b \<Longrightarrow> carries e a b" "update_effect e T a b \<Longrightarrow> carries e a b" "task_effect e a b \<Longrightarrow> carries e a b"
  by (auto simp: carries_def artifact_effect_def update_effect_def task_effect_def dest: subsetD [OF sent_submit(1)] subsetD [OF sent_place])

lemma carries_resource_command:
  assumes "resource_command e r command parts a = Some b"
  shows "carries e' a b"
proof -
  have "carries e' a (contribution_command e p r a)" for p
    by (simp add: contribution_command_def pause_resources_def carries_monitor)
  moreover have "carries e' a (set_faults f a)" for f
    by (simp add: carries_def set_faults_def inbound_ok_def channels_def)
  moreover have "carries e' a a" by (simp add: carries_def)
  ultimately show ?thesis using assms by (auto simp: resource_command_def split: if_splits option.splits)
qed

lemma carries_command:
  assumes "good e T a" "handle_command e r accepted text a = (True, b)" "trusted (manager (ag_updates b)) \<subseteq> T"
  shows "carries e a b"
proof (cases "split_whitespace (trim text)")
  case Nil
  with assms(2) show ?thesis by (simp add: handle_command_def carries_same)
next
  case (Cons command parts)
  note run = assms(2) [unfolded handle_command_unfold [OF Cons]]
  from assms(1) have inv: "update_inv (ae_update e) T (ag_updates a)" "places_apart (ae_update e) (manager (ag_updates a))"
    by (simp_all add: good_def side_inv side_ok_def)
  show ?thesis
  proof (cases "command = ''quit'' \<or> command = ''exit'' \<or> command = ''apply-update''")
    case True
    with run have "apply_update_command e parts a = (True, b)" by (auto split: if_splits)
    then show ?thesis by (cases rule: apply_update_cases) (simp_all add: carries_same)
  next
    case False
    then have b: "b = (case artifact_command e (trim text) command parts a of Some a' \<Rightarrow> a'
          | None \<Rightarrow> case update_command e command parts a of Some a' \<Rightarrow> a'
          | None \<Rightarrow> case dial_command e accepted command parts a of Some a' \<Rightarrow> a'
          | None \<Rightarrow> case resource_command e r command parts a of Some a' \<Rightarrow> a'
          | None \<Rightarrow> case task_command e command parts a of Some a' \<Rightarrow> a' | None \<Rightarrow> a)"
      using run by (simp only: de_Morgan_disj if_False simp_thms prod.inject)
    consider (same) "b = a" | (artifact) "artifact_command e (trim text) command parts a = Some b"
      | (update) "update_command e command parts a = Some b" | (dial) "dial_command e accepted command parts a = Some b"
      | (resource) "resource_command e r command parts a = Some b" | (task) "task_command e command parts a = Some b"
      by (rule first_some [OF b])
    then show ?thesis
    proof cases
      case update
      from update_command_effect [OF this inv assms(3)] show ?thesis by (rule carries_effects)
    next
      case resource
      then show ?thesis by (rule carries_resource_command)
    qed (simp add: carries_same, (drule artifact_command_effect dial_command_effect task_command_effect, erule carries_effects)+)
  qed
qed

lemma carries_network:
  assumes "handle_swarm_event e v nev a = (stop, b)" "inbound_ok (ae_inbound e) rs (ag_inbound a)"
  shows "posted (ag_node a) \<subseteq> posted (ag_node b) \<and> inbound_ok (ae_inbound e) (rs @ taken (Network nev) a) (ag_inbound b)"
proof (cases "\<exists>p ch r. nev = TaskRequested p ch r")
  case True
  with assms receive_ok show ?thesis by (auto simp: handle_swarm_event_def taken_def)
next
  case False
  have fold: "carries e a (fold f ps a)" if "\<And>x a. parts_of (f x a) = parts_of a" for f and ps :: "'x list"
    using parts_fold [OF that] by (rule carries_parts)
  have "carries e a b"
  proof (cases nev)
    case (ConnectionEstablished p)
    then show ?thesis using assms(1) by (auto simp: handle_swarm_event_def carries_def)
  next
    case (ConnectionClosed p n w)
    then show ?thesis using assms(1) by (auto simp: handle_swarm_event_def carries_def)
  next
    case (Discovered ps)
    then show ?thesis using assms(1) fold [of "discover_peer e"] by (auto simp: handle_swarm_event_def)
  next
    case (Expired ps)
    then show ?thesis using assms(1) fold [of expire_address] by (auto simp: handle_swarm_event_def)
  qed (use assms(1) False in \<open>auto simp: handle_swarm_event_def carries_def answer_update_def answer_artifact_def peer_identified_def Let_def
      split: prod.splits if_splits\<close>)
  moreover have "taken (Network nev) a = []" using False by (auto simp: taken_def split: swarm_event.split)
  ultimately show ?thesis using assms(2) by (simp add: carries_def)
qed

lemma poll_posted: "carries e a (fold (\<lambda>p. on_node (submit_task e' p TNodeInfo)) ps a)"
proof (induction ps arbitrary: a)
  case (Cons p ps)
  have "carries e a (on_node (submit_task e' p TNodeInfo) a)" by (rule carries_node) simp
  from carries_trans [OF this Cons.IH] show ?case by simp
qed (simp add: carries_def)

lemma step_carries:
  assumes "good e T a" "event_fair e v T ev a" "agent_step e v ev a = (True, b)" "inbound_ok (ae_inbound e) rs (ag_inbound a)"
  shows "posted (ag_node a) \<subseteq> posted (ag_node b) \<and> inbound_ok (ae_inbound e) (rs @ taken ev a) (ag_inbound b)"
proof (cases "\<exists>nev. ev = Network nev")
  case True
  then obtain nev stop a' where n: "ev = Network nev" "handle_swarm_event e v nev a = (stop, a')" by (metis prod.exhaust)
  with assms(3) have "b = dispatch_jobs e a'" by (auto simp: agent_step_def split: if_splits)
  with carries_network [OF n(2) assms(4)] carries_node [of a' "dispatch_matrix_jobs (ae_node e)" e] n(1) show ?thesis
    by (auto simp: carries_def dest: subsetD [OF sent_dispatch])
next
  case False
  have "carries e a b"
  proof (cases ev)
    case (CommandLine line r accepted)
    then obtain a' where a': "handle_command e r accepted line a = (True, a')" "b = dispatch_jobs e a'"
      using assms(3) by (auto simp: agent_step_def split: if_splits prod.splits)
    have "trusted (manager (ag_updates a')) \<subseteq> T" using assms(2,3) a'(2) by (simp add: event_fair_def)
    from carries_command [OF assms(1) a'(1) this] show ?thesis unfolding a'(2) by (rule carries_dispatch)
  next
    case (ResponseCompleted alive)
    then show ?thesis using assms(3) carries_inbound send_ok by (auto simp: agent_step_def)
  next
    case LocalCompleted
    then show ?thesis using assms(3) carries_node [of a "deliver_local (ae_node e)" e] by (auto simp: agent_step_def)
  next
    case StoreCompleted
    then show ?thesis using assms(3) by (auto simp: agent_step_def report_store_result_def carries_def split: list.split)
  next
    case (ResourceTick r)
    have "carries e a (dispatch_jobs e (announce_resources e (refresh_resources r a)))"
      by (rule carries_dispatch) (simp add: refresh_resources_def carries_monitor)
    then show ?thesis using assms(3) carries_trans [OF _ poll_posted]
      by (auto simp: agent_step_def ResourceTick resource_tick_def poll_peers_def)
  next
    case (TaskEnds k ms)
    then show ?thesis using assms(3) by (auto simp: agent_step_def carries_same intro!: carries_node)
  next
    case (InboundEnds k ms whole)
    then show ?thesis using assms(3) finish_ok by (auto simp: agent_step_def carries_def)
  next
    case (StoreJobEnds k s1 s2)
    then show ?thesis using assms(3) by (auto simp: agent_step_def finish_store_job_def carries_def split: prod.split)
  next
    case (TimePasses t)
    then show ?thesis using assms(3) by (auto simp: agent_step_def carries_def)
  next
    case (PhoneReports battery charge thermal network)
    then show ?thesis using assms(3) by (auto simp: agent_step_def carries_def)
  qed (use False in simp)
  moreover have "taken ev a = []" using False by (cases ev) (simp_all add: taken_def)
  ultimately show ?thesis using assms(4) by (simp add: carries_def)
qed

section \<open>The swarm\<close>

text \<open>
  A call is a request on its way through the network: who executes it, on which response channel, who sent it
  and under which number, what it asks and the snapshot it was judged by.
\<close>

record call =
  call_worker :: peer_id
  call_channel :: nat
  call_caller :: peer_id
  call_number :: nat
  call_request :: task_request
  call_snapshot :: resource_snapshot

record swarm =
  members :: "peer_id \<Rightarrow> agent"
  calls :: "call list"

definition calls_of :: "peer_id \<Rightarrow> swarm \<Rightarrow> (nat \<times> task_request \<times> resource_snapshot) list" where
  "calls_of q s = map (\<lambda>c. (call_channel c, call_request c, call_snapshot c)) (filter (\<lambda>c. call_worker c = q) (calls s))"

definition exchanges_task :: "agent_event \<Rightarrow> bool" where
  "exchanges_task ev = (case ev of Network (TaskRequested _ _ _) \<Rightarrow> True | Network (TaskAnswered _ _ _) \<Rightarrow> True | _ \<Rightarrow> False)"

text \<open>
  A member moves alone; a request that was sent reaches the peer it names, on a channel of its own; an answer that was sent
  reaches the caller. What a member may do alone is any fair event: its user's commands, its timers, its background work, other traffic, and
  the failure of any request.
\<close>

inductive swarm_step :: "(peer_id \<Rightarrow> agent_env) \<Rightarrow> version_env \<Rightarrow> (peer_id \<Rightarrow> peer_id set) \<Rightarrow> swarm \<Rightarrow> swarm \<Rightarrow> bool" for e v T where
  alone: "\<not> exchanges_task ev \<Longrightarrow> event_fair (e p) v (T p) ev (members s p) \<Longrightarrow> agent_step (e p) v ev (members s p) = (True, b) \<Longrightarrow>
    swarm_step e v T s (s\<lparr>members := (members s)(p := b)\<rparr>)"
| ask: "(i, q, r) \<in> posted (ag_node (members s p)) \<Longrightarrow> ch \<notin> fst ` set (calls_of q s) \<Longrightarrow> counter_room (members s q) \<Longrightarrow>
    agent_step (e q) v (Network (TaskRequested p ch r)) (members s q) = (True, b) \<Longrightarrow>
    swarm_step e v T s (s\<lparr>members := (members s)(q := b), calls := calls s @
      [\<lparr>call_worker = q, call_channel = ch, call_caller = p, call_number = i, call_request = r,
        call_snapshot = monitored (ag_monitor (members s q))\<rparr>]\<rparr>)"
| reply: "c \<in> set (calls s) \<Longrightarrow> (call_channel c, a) \<in> set (answered (ag_inbound (members s (call_worker c)))) \<Longrightarrow>
    counter_room (members s (call_caller c)) \<Longrightarrow>
    agent_step (e (call_caller c)) v (Network (TaskAnswered (call_number c) (call_worker c) a)) (members s (call_caller c)) = (True, b) \<Longrightarrow>
    swarm_step e v T s (s\<lparr>members := (members s)(call_caller c := b)\<rparr>)"

definition fresh_swarm :: "(peer_id \<Rightarrow> agent_env) \<Rightarrow> (peer_id \<Rightarrow> peer_id set) \<Rightarrow> swarm \<Rightarrow> bool" where
  "fresh_swarm e T s = ((\<forall>p. fresh_agent (e p) (T p) (members s p)) \<and> calls s = [])"

abbreviation swarm_run :: "(peer_id \<Rightarrow> agent_env) \<Rightarrow> version_env \<Rightarrow> (peer_id \<Rightarrow> peer_id set) \<Rightarrow> swarm \<Rightarrow> bool" where
  "swarm_run e v T \<equiv> reachable (fresh_swarm e T) (swarm_step e v T)"

lemmas swarm_run_step = reachable.step [where start = "fresh_swarm e T" and step = "swarm_step e v T" for e v T]

section \<open>Every run\<close>

text \<open>A success that fits its request is the result of its task, so it is one the scheduler relies on.\<close>

lemma fit_answer_result:
  assumes "fit_answer e r snap a" "outcome a = Success x" "req_task r \<noteq> TNodeInfo"
  shows "x = run_task (sha256_hex (node_env_of e)) (req_task r)"
proof -
  have "\<exists>ms. outcome a = outcome (execute (sha256_hex (node_env_of e)) ms r)"
    using assms by (auto simp: fit_answer_def paused_response_def response_failure_def split: if_splits)
  then show ?thesis
    using assms(2) by (auto simp: execute_def response_success_def response_failure_def split: option.splits)
qed

lemma fit_answer_ok:
  assumes "fit_answer e r snap a"
  shows "answers_ok r a"
proof (cases "req_task r = TNodeInfo")
  case True
  then show ?thesis by (simp add: answers_ok_def)
next
  case False
  have "outcome a \<noteq> Success (RNodeInfo v pv nm res)" for v pv nm res
    using fit_answer_result [OF assms _ False] False by (cases "req_task r") (auto simp: run_task_def)
  moreover have "x = matrix_chunk n i j" if "outcome a = Success (RMatrixChunk x n i j)" "req_task r = TMatrixChunk n i j" for x n i j
    using fit_answer_result [OF assms that(1) False] that(2) by (simp add: run_task_def)
  ultimately show ?thesis by (auto simp: answers_ok_def)
qed

definition swarm_ok :: "(peer_id \<Rightarrow> agent_env) \<Rightarrow> version_env \<Rightarrow> (peer_id \<Rightarrow> peer_id set) \<Rightarrow> swarm \<Rightarrow> bool" where
  "swarm_ok e v T s = ((\<forall>p. agent_run (e p) v (T p) (members s p)) \<and>
     (\<forall>q. distinct (map fst (calls_of q s)) \<and> inbound_ok (ae_inbound (e q)) (calls_of q s) (ag_inbound (members s q))) \<and>
     (\<forall>c\<in>set (calls s). (call_number c, call_worker c, call_request c) \<in> posted (ag_node (members s (call_caller c)))))"

lemma calls_of_more [simp]:
  "calls_of q (s\<lparr>members := ms\<rparr>) = calls_of q s"
  "calls_of q (s\<lparr>members := ms, calls := calls s @ [c]\<rparr>) =
     calls_of q s @ (if call_worker c = q then [(call_channel c, call_request c, call_snapshot c)] else [])"
  by (simp_all add: calls_of_def)

text \<open>One member takes a fair step, with the call it takes up if it does.\<close>

lemma member_step_ok:
  assumes ok: "swarm_ok e v T s" and fair: "event_fair (e p) v (T p) ev (members s p)"
    and step: "agent_step (e p) v ev (members s p) = (True, b)"
    and new: "calls t = calls s @ new" "members t = (members s)(p := b)" "calls_of p t = calls_of p s @ taken ev (members s p)"
    and apart: "distinct (map fst (calls_of p t))"
    and mine: "\<forall>c\<in>set new. call_worker c = p \<and> (call_number c, p, call_request c) \<in> posted (ag_node (members s (call_caller c)))"
  shows "swarm_ok e v T t"
proof -
  have run: "agent_run (e p) v (T p) (members s p)" using ok by (simp add: swarm_ok_def)
  have "inbound_ok (ae_inbound (e p)) (calls_of p s) (ag_inbound (members s p))" using ok by (simp add: swarm_ok_def)
  from step_carries [OF run_good [OF run] fair step this]
  have b: "posted (ag_node (members s p)) \<subseteq> posted (ag_node b)" "inbound_ok (ae_inbound (e p)) (calls_of p t) (ag_inbound b)"
    unfolding new(3) by simp_all
  have "agent_run (e p) v (T p) b" by (rule agent_run_step [OF run agent_moves.fair [OF fair step]])
  moreover have "calls_of q t = calls_of q s" if "q \<noteq> p" for q
    using mine that by (auto simp: calls_of_def new(1) filter_empty_conv)
  moreover have grow: "posted (ag_node (members s q)) \<subseteq> posted (ag_node (members t q))" for q using b(1) by (simp add: new(2))
  moreover have "(call_number c, call_worker c, call_request c) \<in> posted (ag_node (members t (call_caller c)))"
    if "c \<in> set (calls t)" for c
    using that mine ok subsetD [OF grow] by (auto simp: swarm_ok_def new(1))
  ultimately show ?thesis using ok b(2) apart unfolding swarm_ok_def by (auto simp: new(2))
qed

text \<open>The answers of the members are honest, so the network may deliver them.\<close>

lemma answer_honest:
  assumes ok: "swarm_ok e v T s" and c: "c \<in> set (calls s)"
    and a: "(call_channel c, a) \<in> set (answered (ag_inbound (members s (call_worker c))))"
  shows "(call_number c, call_worker c, call_request c) \<in> posted (ag_node (members s (call_caller c)))"
    "fit_answer (ae_inbound (e (call_worker c))) (call_request c) (call_snapshot c) a"
proof -
  let ?q = "call_worker c"
  from ok have q: "distinct (map fst (calls_of ?q s))" "inbound_ok (ae_inbound (e ?q)) (calls_of ?q s) (ag_inbound (members s ?q))"
    by (simp_all add: swarm_ok_def)
  from q(2) a obtain r snap where r: "(call_channel c, r, snap) \<in> set (calls_of ?q s)" "fit_answer (ae_inbound (e ?q)) r snap a"
    unfolding inbound_ok_def by blast
  have "(call_channel c, call_request c, call_snapshot c) \<in> set (calls_of ?q s)" using c by (auto simp: calls_of_def)
  with q(1) r(1) have "(r, snap) = (call_request c, call_snapshot c)" by (meson eq_key_imp_eq_value)
  with r(2) show "fit_answer (ae_inbound (e ?q)) (call_request c) (call_snapshot c) a" by simp
  show "(call_number c, ?q, call_request c) \<in> posted (ag_node (members s (call_caller c)))" using ok c by (simp add: swarm_ok_def)
qed

lemma trusted_within: "agent_run e v T a \<Longrightarrow> trusted (manager (ag_updates a)) \<subseteq> T"
  using side_inv run_good by (fastforce simp: good_def update_inv_def)

lemma task_traffic_fair:
  assumes "agent_run e v T a" "counter_room a" "nev = TaskRequested p ch r \<or> nev = TaskAnswered i q x" "network_fair nev a"
  shows "event_fair e v T (Network nev) a"
proof -
  have "ag_updates (snd (agent_step e v (Network nev) a)) = ag_updates a"
    using assms(3) by (auto simp: agent_step_def handle_swarm_event_def)
  with assms trusted_within [OF assms(1)] show ?thesis by (auto simp: event_fair_def)
qed

lemma swarm_step_ok:
  assumes "swarm_step e v T s t" "swarm_ok e v T s"
  shows "swarm_ok e v T t"
  using assms
proof (cases rule: swarm_step.cases)
  case (alone ev p b)
  have "taken ev (members s p) = []" using alone(2) by (auto simp: taken_def exchanges_task_def split: agent_event.splits swarm_event.splits)
  with assms(2) alone show ?thesis
    by (intro member_step_ok [OF assms(2) alone(3,4), of t "[]"]) (simp_all add: swarm_ok_def)
next
  case (ask i q r p ch b)
  have run: "agent_run (e q) v (T q) (members s q)" using assms(2) by (simp add: swarm_ok_def)
  have fair: "event_fair (e q) v (T q) (Network (TaskRequested p ch r)) (members s q)"
    by (rule task_traffic_fair [OF run ask(4)]) (simp_all add: network_fair_def)
  show ?thesis
    by (rule member_step_ok [OF assms(2) fair ask(5)])
      (use ask assms(2) in \<open>auto simp: taken_def swarm_ok_def\<close>)
next
  case (reply c a b)
  let ?p = "call_caller c"
  have run: "agent_run (e ?p) v (T ?p) (members s ?p)" using assms(2) by (simp add: swarm_ok_def)
  from answer_honest [OF assms(2) reply(2,3)] fit_answer_ok
  have "network_fair (TaskAnswered (call_number c) (call_worker c) a) (members s ?p)" by (auto simp: network_fair_def)
  then have fair: "event_fair (e ?p) v (T ?p) (Network (TaskAnswered (call_number c) (call_worker c) a)) (members s ?p)"
    by (intro task_traffic_fair [OF run reply(4)]) simp_all
  show ?thesis
    by (rule member_step_ok [OF assms(2) fair reply(5), of t "[]"])
      (use reply assms(2) in \<open>auto simp: taken_def swarm_ok_def\<close>)
qed

interpretation swarm_machine: machine_invariant "fresh_swarm e T" "swarm_step e v T" "swarm_ok e v T" for e v T
proof unfold_locales
  fix s assume "fresh_swarm e T s"
  then show "swarm_ok e v T s"
    by (auto simp: fresh_swarm_def swarm_ok_def calls_of_def inbound_ok_def channels_def fresh_agent_def intro!: reachable.init)
qed (use swarm_step_ok in blast)

lemmas swarm_inv = swarm_machine.run_inv

lemma alone_step:
  assumes "swarm_run e v T s" "\<not> exchanges_task ev" "agent_step (e p) v ev (members s p) = (True, b)"
    and "event_fair (e p) v (T p) ev (members s p)"
  shows "swarm_run e v T (s\<lparr>members := (members s)(p := b)\<rparr>)"
  using assms(2-4) by (intro swarm_run_step [OF assms(1)] swarm_step.alone [where p = p and s = s and b = b and ev = ev])

end
