(* ===== verification/Swarm_Demo.thy ===== *)
theory Swarm_Demo
  imports Swarm
begin

text \<open>
  A run of a swarm for the witnesses, event by event: a busy agent asks an idle one for its resources, then starts a
  distributed matrix job of one chunk, which the idle one works on and answers.
\<close>

section \<open>Two machines\<close>

definition idle_readings where "idle_readings = demo_readings\<lparr>global_cpu := Fin 0, own_process := None\<rparr>"
definition busy_readings where "busy_readings = demo_readings\<lparr>global_cpu := Fin 100, own_process := None\<rparr>"

lemma exact_rounding:
  "rnd32 4 = Fin 4" "rnd32 25 = Fin 25" "rnd32 75 = Fin 75" "rnd32 100 = Fin 100" "rnd64 10 = Fin 10" "rnd64 1000 = Fin 1000"
  using rnd32_int [of 4] rnd32_int [of 25] rnd32_int [of 75] rnd32_int [of 100] rnd64_int [of 10] rnd64_int [of 1000] by simp_all

lemmas score_rules = monitor_start_def monitor_refresh_def Let_def busy_readings_def idle_readings_def demo_readings_def effective_cpu_score_def ewma_def
  fl_clamp_def fl_max_def fl_min_def fl_sub_def logical_cores_of_def demo_machine_kind_def f32_of_nat_def exact_rounding

definition helper_monitor where "helper_monitor = monitor_start demo_machine_kind (Fin 10) (Fin 100) (Fin 50) idle_readings"
definition asker_monitor where "asker_monitor = monitor_start demo_machine_kind (Fin 10) (Fin 100) (Fin 50) busy_readings"

definition offered :: resource_snapshot where "offered = monitored helper_monitor"

lemma helper_score: "snapshot_cpu_score offered = Fin 10" "\<not> contribution_paused offered"
  by (simp_all add: score_rules offered_def helper_monitor_def)

lemma asker_score: "snapshot_cpu_score (monitored asker_monitor) = Fin 0"
   "snapshot_cpu_score (monitored (monitor_refresh (readings_of a busy_readings) asker_monitor)) = Fin 0"
  by (simp_all add: score_rules readings_of_def asker_monitor_def)

lemma show_nats: "show_nat 0 = ''0''" "show_nat (Suc 0) = ''1''" "show_nat 2 = ''2''" "show_nat 16 = ''16''"
  by code_simp+

lemma sixteen: "parse_distributed [''16'', ''16''] = Some (16,16)"
  using decimal_u16.decode_encode [of 16] unfolding parse_distributed_def by (simp add: show_nats del: show_nat.simps)

definition ping :: task_request where "ping = \<lparr>req_id = ''p-1'', req_task = TNodeInfo\<rparr>"

definition node_at :: "resource_snapshot \<Rightarrow> event_log \<Rightarrow> node" where
  "node_at R t = empty_node\<lparr>trace := t, own_resources := R, request_counter := 2, next_request := 1, sent := [(0, PeerId 2, ping)]\<rparr>"

definition asked_node :: "resource_snapshot \<Rightarrow> event_log \<Rightarrow> node" where
  "asked_node R t = (node_at R t)\<lparr>outbound_tasks := [(0, \<lparr>meta_id = ''p-1'', tracked = False, meta_job = None, meta_worker = None, meta_chunk = None\<rparr>)]\<rparr>"

definition known_node :: "resource_snapshot \<Rightarrow> event_log \<Rightarrow> node" where
  "known_node R t = (node_at R t)\<lparr>peer_resources := [(PeerId 2, \<lparr>snapshot = offered, received_at = 0, obs_protocol = 4\<rparr>)]\<rparr>"

lemma dispatch_idle: "matrix_jobs s = [] \<Longrightarrow> dispatch_matrix_jobs e s = s"
  by (cases s) (simp add: dispatch_matrix_jobs_def)

abbreviation demo_e :: node_env where "demo_e \<equiv> ae_node demo_agent_env"

lemma demo_e: "demo_e = \<lparr>local_peer = PeerId 0, peer_text = (\<lambda>_. ''p''), sha256_hex = id\<rparr>"
  by (simp add: demo_agent_env_def demo_inbound_env_def)

lemma ask_ping: "\<exists>t'. submit_task demo_e (PeerId 2) TNodeInfo (empty_node\<lparr>trace := t, own_resources := R\<rparr>) = asked_node R t'"
  by (simp add: submit_task_def next_sequence_def send_request_def add_outbound_def hm_insert_def map_remove_def asked_node_def node_at_def ping_def Let_def empty_node_def demo_e show_nats del: show_nat.simps)

lemma ping_answered: "\<exists>t'. handle_response demo_e 0 (PeerId 2) (node_info_response demo_inbound_env offered ''p-1'') (asked_node R t) = known_node R t'"
  apply (simp add: handle_response_def node_info_response_def response_success_def asked_node_def known_node_def node_at_def map_remove_def Let_def emit_def empty_node_def NODE_PROTOCOL_VERSION_def)
  done

definition known_meta :: outbound_task_meta where
  "known_meta = \<lparr>meta_id = ''p-distributed-2-chunk-1'', tracked = True, meta_job = Some ''p-distributed-2'',
     meta_worker = Some (Remote (PeerId 2)), meta_chunk = Some (demo_chunk\<lparr>attempts := 1\<rparr>)\<rparr>"

definition known_request :: task_request where
  "known_request = \<lparr>req_id = ''p-distributed-2-chunk-1'', req_task = TMatrixChunk 16 0 16\<rparr>"

definition known_job :: matrix_job where
  "known_job = demo_job\<lparr>job_name := ''p-distributed-2''\<rparr>"

definition working_node :: "resource_snapshot \<Rightarrow> event_log \<Rightarrow> node" where
  "working_node R t = (known_node R t)\<lparr>request_counter := 3, next_request := 2, matrix_jobs := [(''p-distributed-2'', known_job)],
     outbound_tasks := [(1, known_meta)], sent := [(0, PeerId 2, ping), (1, PeerId 2, known_request)]\<rparr>"

lemma known_workers:
  assumes "snapshot_cpu_score R = Fin 0"
  shows "eligible_matrix_workers (known_node R t) = [Remote (PeerId 2)]"
    "\<exists>x. matrix_worker_score (Remote (PeerId 2)) ((known_node R t)\<lparr>trace := u, request_counter := 3, matrix_jobs := js\<rparr>) = Some x"
  using assms helper_score
  by (simp_all add: eligible_matrix_workers_def matrix_worker_score_def known_node_def node_at_def empty_node_def offers_cpu_def fresh_observation_def elapsed_def
      NODE_PROTOCOL_VERSION_def)

lemma known_start:
  assumes "snapshot_cpu_score R = Fin 0"
  shows "\<exists>u. start_distributed_matrix demo_e 16 16 (known_node R t) = (known_node R t)\<lparr>trace := u, request_counter := 3,
     matrix_jobs := [(''p-distributed-2'', known_job\<lparr>pending := [demo_chunk], available_workers := [Remote (PeerId 2)], in_flight := 0\<rparr>)]\<rparr>"
  apply (simp add: start_distributed_matrix_def known_workers [OF assms] demo_plan MIN_MATRIX_SIZE_def MAX_DISTRIBUTED_MATRIX_SIZE_def MAX_MATRIX_CHUNK_ROWS_def next_sequence_def Let_def put_job_def emit_def known_job_def demo_job_def)
  apply (simp add: known_node_def node_at_def empty_node_def demo_e div_ceil_def show_nats  del: show_nat.simps)
  done


lemma known_dispatch:
  assumes "snapshot_cpu_score R = Fin 0"
  shows "\<exists>u. dispatch_matrix_jobs demo_e (start_distributed_matrix demo_e 16 16 (known_node R t)) = working_node R u"
proof -
  let ?new = "known_job\<lparr>pending := [demo_chunk], available_workers := [Remote (PeerId 2)], in_flight := 0\<rparr>"
  let ?d = "\<lparr>dp_job = ''p-distributed-2'', dp_task_id = ''p-distributed-2-chunk-1'',
   dp_task = TMatrixChunk 16 0 16, dp_worker = Remote (PeerId 2), dp_chunk = demo_chunk\<lparr>attempts := 1\<rparr>\<rparr>"
  obtain u where u: "start_distributed_matrix demo_e 16 16 (known_node R t) = (known_node R t)\<lparr>trace := u, request_counter := 3,
     matrix_jobs := [(''p-distributed-2'', ?new)]\<rparr>" (is "_ = ?s")
    using known_start [OF assms] by blast
  obtain x where x: "matrix_worker_score (Remote (PeerId 2)) ?s = Some x" using known_workers(2) [OF assms] by blast
  have "ranked_workers ?s ?new = [Remote (PeerId 2)]"
    using x by (simp add: ranked_workers_def sort_by_def List.map_filter_def)
  moreover have "dispatch_loop [Remote (PeerId 2)] ?new [] = ([?d], known_job)"
    by (simp add: known_job_def demo_job_def demo_chunk_def chunk_task_id_def show_nats Let_def del: show_nat.simps)
  ultimately have tk: "take_matrix_dispatches ?s ?new = ([?d], known_job)" by (simp only: take_matrix_dispatches_def)
  have un: "job_unavailable s' known_job = False" for s' by (simp add: job_unavailable_def known_job_def demo_job_def)
  show ?thesis
    unfolding u dispatch_matrix_jobs_def
    apply (simp add: tk un Let_def start_dispatch_def emit_def task_started_def send_request_def add_outbound_def hm_insert_def map_remove_def del: One_nat_def)
    apply (simp add: working_node_def known_meta_def known_request_def known_node_def node_at_def empty_node_def)
    done
qed

section \<open>The run\<close>


definition asker :: agent where
  "asker = demo_agent\<lparr>ag_node := empty_node\<lparr>own_resources := monitored asker_monitor\<rparr>, ag_monitor := asker_monitor\<rparr>"

definition helper :: agent where
  "helper = demo_agent\<lparr>ag_node := empty_node\<lparr>own_resources := offered\<rparr>, ag_monitor := helper_monitor\<rparr>"

definition duo :: "agent \<Rightarrow> agent \<Rightarrow> call list \<Rightarrow> swarm" where
  "duo a b cs = \<lparr>members = (\<lambda>_. helper)(PeerId 0 := a, PeerId 2 := b), calls = cs\<rparr>"

abbreviation duo_run :: "agent \<Rightarrow> agent \<Rightarrow> call list \<Rightarrow> bool" where
  "duo_run a b cs \<equiv> swarm_run (\<lambda>_. demo_agent_env) any_version (\<lambda>_. {PeerId 1}) (duo a b cs)"

lemma fresh_members: "fresh_agent demo_agent_env {PeerId 1} asker" "fresh_agent demo_agent_env {PeerId 1} helper"
proof -
  have "sound_readings busy_readings" "sound_readings idle_readings"
    by (simp_all add: sound_readings_def demo_readings_def busy_readings_def idle_readings_def)
  then have "\<exists>k c l ml r. m = monitor_start k c l ml r \<and> is_finite c \<and> l \<noteq> NaN \<and> sound_readings r"
    if "m = asker_monitor \<or> m = helper_monitor" for m
    using that unfolding asker_monitor_def helper_monitor_def by (metis flt.distinct(3) is_finite.simps(1))
  then show "fresh_agent demo_agent_env {PeerId 1} asker" "fresh_agent demo_agent_env {PeerId 1} helper"
    using demo_agent_fresh by (simp_all add: fresh_agent_def asker_def helper_def offered_def fresh_node_def empty_node_def)
qed

lemma duo_start: "duo_run asker helper []"
  using fresh_members by (intro reachable.init) (simp add: fresh_swarm_def duo_def)

lemma duo_alone:
  assumes "duo_run a b cs" "\<not> exchanges_task ev"
  shows "agent_step demo_agent_env any_version ev a = (True, a') \<Longrightarrow> event_fair demo_agent_env any_version {PeerId 1} ev a \<Longrightarrow> duo_run a' b cs"
    "agent_step demo_agent_env any_version ev b = (True, b') \<Longrightarrow> event_fair demo_agent_env any_version {PeerId 1} ev b \<Longrightarrow> duo_run a b' cs"
  using alone_step [OF assms, of "PeerId 0"] alone_step [OF assms, of "PeerId 2"]
  by (simp_all add: duo_def fun_upd_twist)

lemma duo_ask:
  assumes "duo_run a b cs" "(i, PeerId 2, r) \<in> posted (ag_node a)" "ch \<notin> call_channel ` set cs" "counter_room b"
    and "agent_step demo_agent_env any_version (Network (TaskRequested (PeerId 0) ch r)) b = (True, b')"
  shows "duo_run a b' (cs @ [\<lparr>call_worker = PeerId 2, call_channel = ch, call_caller = PeerId 0, call_number = i, call_request = r,
        call_snapshot = monitored (ag_monitor b)\<rparr>])"
proof -
  have "ch \<notin> fst ` set (calls_of (PeerId 2) (duo a b cs))" using assms(3) by (auto simp: calls_of_def duo_def)
  from swarm_step.ask [where p = "PeerId 0" and q = "PeerId 2" and s = "duo a b cs" and b = b' and i = i and r = r, OF _ this]
  have "swarm_step (\<lambda>_. demo_agent_env) any_version (\<lambda>_. {PeerId 1}) (duo a b cs)
     (duo a b' (cs @ [\<lparr>call_worker = PeerId 2, call_channel = ch, call_caller = PeerId 0, call_number = i, call_request = r,
        call_snapshot = monitored (ag_monitor b)\<rparr>]))"
    using assms(2,4,5) by (simp add: duo_def)
  with assms(1) show ?thesis by (rule swarm_run_step)
qed

lemma duo_reply:
  assumes "duo_run a b cs" "c \<in> set cs" "call_worker c = PeerId 2" "call_caller c = PeerId 0"
    and "(call_channel c, x) \<in> set (answered (ag_inbound b))" "counter_room a"
    and "agent_step demo_agent_env any_version (Network (TaskAnswered (call_number c) (PeerId 2) x)) a = (True, a')"
  shows "duo_run a' b cs"
proof -
  have "swarm_step (\<lambda>_. demo_agent_env) any_version (\<lambda>_. {PeerId 1}) (duo a b cs) (duo a' b cs)"
    using swarm_step.reply [where c = c and s = "duo a b cs" and b = a' and a = x] assms(2-7) by (simp add: duo_def fun_upd_twist)
  with assms(1) show ?thesis by (rule swarm_run_step)
qed


definition asker_at :: "node \<Rightarrow> agent \<Rightarrow> bool" where
  "asker_at n a = (ag_node a = n \<and> connected_peers a = [PeerId 2] \<and> trusted (manager (ag_updates a)) = {PeerId 1})"

lemma asker_room: "asker_at n a \<Longrightarrow> request_counter n \<in> {1, 2, 3} \<Longrightarrow> counter_room a"
  by (auto simp: asker_at_def counter_room_def)

lemma asker_node: "asker_at n a \<Longrightarrow> asker_at (f n) (on_node f a)"
  by (auto simp: asker_at_def)

lemma asker_connects: "\<exists>a. duo_run a helper [] \<and> asker_at (empty_node\<lparr>own_resources := monitored asker_monitor\<rparr>) a \<and>
    ag_monitor a = asker_monitor"
proof -
  let ?ev = "Network (ConnectionEstablished (PeerId 2))"
  obtain a where a: "agent_step demo_agent_env any_version ?ev asker = (True, a)"
    by (simp add: agent_step_def handle_swarm_event_def)
  then have at: "asker_at (empty_node\<lparr>own_resources := monitored asker_monitor\<rparr>) a" "ag_monitor a = asker_monitor"
    by (auto simp: agent_step_def handle_swarm_event_def peers_insert_def asker_at_def asker_def demo_agent_def demo_updates_def dispatch_idle empty_node_def)
  then have "event_fair demo_agent_env any_version {PeerId 1} ?ev asker"
    unfolding event_fair_def a snd_conv by (simp add: asker_at_def counter_room_def network_fair_def asker_def demo_agent_def empty_node_def)
  from duo_alone(1) [OF duo_start _ a this] at show ?thesis by (auto simp: exchanges_task_def)
qed

lemma asker_pings: "\<exists>a R t. duo_run a helper [] \<and> asker_at (asked_node R t) a \<and> snapshot_cpu_score R = Fin 0"
proof -
  obtain a where a: "duo_run a helper []" "asker_at (empty_node\<lparr>own_resources := monitored asker_monitor\<rparr>) a"
    "ag_monitor a = asker_monitor" using asker_connects by blast
  let ?ev = "ResourceTick busy_readings" and ?b = "resource_tick demo_agent_env busy_readings a"
  let ?R = "monitored (monitor_refresh (readings_of a busy_readings) asker_monitor)"
  have b: "agent_step demo_agent_env any_version ?ev a = (True, ?b)" by (simp add: agent_step_def)
  have "ag_node ?b = submit_task demo_e (PeerId 2) TNodeInfo (empty_node\<lparr>trace := trace empty_node, own_resources := ?R\<rparr>)"
    using a(2,3) by (simp add: asker_at_def resource_tick_def poll_peers_def refresh_resources_def dispatch_idle empty_node_def)
  then obtain t where n: "ag_node ?b = asked_node ?R t" using ask_ping by metis
  have other: "connected_peers ?b = [PeerId 2]" "trusted (manager (ag_updates ?b)) = {PeerId 1}"
    using a(2) by (simp_all add: asker_at_def resource_tick_def poll_peers_def refresh_resources_def)
  then have "event_fair demo_agent_env any_version {PeerId 1} ?ev a"
    unfolding event_fair_def b snd_conv using asker_room [OF a(2)]
    by (simp add: sound_readings_def busy_readings_def demo_readings_def empty_node_def)
  from duo_alone(1) [OF a(1) _ b this] n other asker_score show ?thesis
    by (intro exI [of _ ?b] exI [of _ ?R] exI [of _ t]) (simp add: asker_at_def exchanges_task_def)
qed


definition helper_at :: "inbound_work list \<Rightarrow> completed_response list \<Rightarrow> (nat \<times> task_response) list \<Rightarrow> agent \<Rightarrow> bool" where
  "helper_at ws cs xs b = (work_list (ag_inbound b) = ws \<and> completed_list (ag_inbound b) = cs \<and> answered (ag_inbound b) = xs \<and>
     in_faults (ag_inbound b) = \<lparr>fail_next_matrix_chunk = False, delay_next_matrix_chunk_ms = 0\<rparr> \<and>
     monitored (ag_monitor b) = offered \<and> matrix_jobs (ag_node b) = [] \<and> counter_room b \<and> trusted (manager (ag_updates b)) = {PeerId 1})"

lemma helper_fresh: "helper_at [] [] [] helper"
  by (simp add: helper_at_def helper_def demo_agent_def demo_inbound_def empty_node_def counter_room_def demo_updates_def offered_def)

lemma room_dispatch [simp]: "counter_room (on_node (dispatch_matrix_jobs e) b) = counter_room b" "counter_room (on_inbound f b) = counter_room b"
  by (simp_all add: counter_room_def on_inbound_def Let_def)

text \<open>The worker side, one event at a time.\<close>

lemma helper_asked:
  assumes "helper_at ws cs xs b" "req_task r \<noteq> TNodeInfo"
  shows "\<exists>b'. agent_step demo_agent_env any_version (Network (TaskRequested p ch r)) b = (True, b') \<and>
    helper_at (ws @ [\<lparr>wk_channel = ch, wk_request = r, wk_fail = False, wk_delay = 0\<rparr>]) cs xs b'"
  using assms helper_score(2)
  by (auto simp: agent_step_def handle_swarm_event_def helper_at_def receive_task_def take_debug_matrix_fault_def Let_def dispatch_idle
      split: task.split)

lemma helper_pinged:
  assumes "helper_at ws cs xs b" "req_task r = TNodeInfo"
  shows "\<exists>b'. agent_step demo_agent_env any_version (Network (TaskRequested p ch r)) b = (True, b') \<and>
    helper_at ws (cs @ [\<lparr>cr_channel = ch, cr_response = node_info_response demo_inbound_env offered (req_id r), cr_track = False\<rparr>]) xs b'"
  using assms
  by (auto simp: agent_step_def handle_swarm_event_def helper_at_def receive_task_def push_completed_def dispatch_idle demo_agent_env_def)

lemma helper_answers:
  assumes "helper_at ws (c # cs) xs b"
  shows "\<exists>b'. agent_step demo_agent_env any_version (ResponseCompleted True) b = (True, b') \<and>
    helper_at ws cs (xs @ [(cr_channel c, cr_response c)]) b'"
  using assms by (auto simp: agent_step_def helper_at_def send_completed_def Let_def)

lemma helper_works:
  assumes "helper_at [w] cs xs b"
  shows "\<exists>b'. agent_step demo_agent_env any_version (InboundEnds 0 5 5) b = (True, b') \<and>
    helper_at [] (cs @ [\<lparr>cr_channel = wk_channel w, cr_response = work_response demo_inbound_env 5 5 w, cr_track = True\<rparr>]) xs b'"
  using assms by (auto simp: agent_step_def helper_at_def finish_work_def push_completed_def Let_def demo_agent_env_def)

lemma helper_fair:
  assumes "helper_at ws cs xs b" "agent_step demo_agent_env any_version ev b = (True, b')" "helper_at ws' cs' xs' b'"
    and "ev = ResponseCompleted True \<or> ev = InboundEnds 0 5 5"
  shows "event_fair demo_agent_env any_version {PeerId 1} ev b" "\<not> exchanges_task ev"
  using assms by (auto simp: event_fair_def helper_at_def exchanges_task_def)

lemma duo_helper:
  assumes "duo_run a b cs" "helper_at ws qs xs b" "agent_step demo_agent_env any_version ev b = (True, b')" "helper_at ws' qs' xs' b'"
    and "ev = ResponseCompleted True \<or> ev = InboundEnds 0 5 5"
  shows "duo_run a b' cs"
  using duo_alone(2) [OF assms(1) helper_fair(2) [OF assms(2-5)] assms(3) helper_fair(1) [OF assms(2-5)]] .

text \<open>The ping and its answer: the caller now knows what the worker offers.\<close>

definition call_ping :: call where
  "call_ping = \<lparr>call_worker = PeerId 2, call_channel = 0, call_caller = PeerId 0, call_number = 0, call_request = ping, call_snapshot = offered\<rparr>"

definition ping_answer :: task_response where
  "ping_answer = node_info_response demo_inbound_env offered ''p-1''"

lemma ping_delivered: "\<exists>a b R t. duo_run a b [call_ping] \<and> asker_at (asked_node R t) a \<and> snapshot_cpu_score R = Fin 0 \<and>
    helper_at [] [] [(0, ping_answer)] b"
proof -
  obtain a R t where a: "duo_run a helper []" "asker_at (asked_node R t) a" "snapshot_cpu_score R = Fin 0" using asker_pings by blast
  have "req_task ping = TNodeInfo" by (simp add: ping_def)
  from helper_pinged [OF helper_fresh this, of "PeerId 0" 0] obtain b1 where
    b1: "agent_step demo_agent_env any_version (Network (TaskRequested (PeerId 0) 0 ping)) helper = (True, b1)"
      "helper_at [] [\<lparr>cr_channel = 0, cr_response = ping_answer, cr_track = False\<rparr>] [] b1"
    by (auto simp: ping_answer_def ping_def)
  have "(0, PeerId 2, ping) \<in> posted (ag_node a)" using a(2) by (simp add: asker_at_def asked_node_def node_at_def)
  from duo_ask [OF a(1) this _ _ b1(1)] helper_fresh have r1: "duo_run a b1 [call_ping]"
    by (simp add: helper_at_def call_ping_def)
  from helper_answers [OF b1(2)] obtain b2 where b2: "agent_step demo_agent_env any_version (ResponseCompleted True) b1 = (True, b2)"
    "helper_at [] [] [(0, ping_answer)] b2" by auto
  from duo_helper [OF r1 b1(2) b2] a b2(2) show ?thesis by blast
qed


lemma offer_known: "\<exists>a b R t. duo_run a b [call_ping] \<and> asker_at (known_node R t) a \<and> snapshot_cpu_score R = Fin 0 \<and>
    helper_at [] [] [(0, ping_answer)] b"
proof -
  obtain a b R t where a: "duo_run a b [call_ping]" "asker_at (asked_node R t) a" "snapshot_cpu_score R = Fin 0"
    "helper_at [] [] [(0, ping_answer)] b" using ping_delivered by blast
  let ?a' = "dispatch_jobs demo_agent_env (on_node (handle_response demo_e 0 (PeerId 2) ping_answer) a)"
  have a': "agent_step demo_agent_env any_version (Network (TaskAnswered 0 (PeerId 2) ping_answer)) a = (True, ?a')"
    by (simp add: agent_step_def handle_swarm_event_def)
  obtain u where u: "handle_response demo_e 0 (PeerId 2) ping_answer (asked_node R t) = known_node R u"
    using ping_answered unfolding ping_answer_def by blast
  have "matrix_jobs (known_node R u) = []" by (simp add: known_node_def node_at_def empty_node_def)
  with asker_node [OF asker_node [OF a(2)], of "dispatch_matrix_jobs demo_e" "handle_response demo_e 0 (PeerId 2) ping_answer"]
  have "asker_at (known_node R u) ?a'" by (simp only: u dispatch_idle)
  moreover have "duo_run ?a' b [call_ping]"
    by (rule duo_reply [OF a(1), of call_ping ping_answer])
      (use a(4) a' asker_room [OF a(2)] in \<open>simp_all add: call_ping_def helper_at_def asked_node_def node_at_def\<close>)
  ultimately show ?thesis using a(3,4) by blast
qed

lemma matrix_command:
  "handle_command demo_agent_env r acc ''distributed-matrix 16 16'' a = (True, on_node (start_distributed_matrix demo_e 16 16) a)"
proof -
  have "split_whitespace (trim ''distributed-matrix 16 16'') = ''distributed-matrix'' # [''16'', ''16'']" by code_simp
  from handle_command_unfold [OF this] show ?thesis
    by (simp add: artifact_command_def update_command_def dial_command_def resource_command_def task_command_def sixteen)
qed

lemma job_started: "\<exists>a b R t. duo_run a b [call_ping] \<and> asker_at (working_node R t) a \<and> helper_at [] [] [(0, ping_answer)] b"
proof -
  obtain a b R t where a: "duo_run a b [call_ping]" "asker_at (known_node R t) a" "snapshot_cpu_score R = Fin 0"
    "helper_at [] [] [(0, ping_answer)] b" using offer_known by blast
  let ?ev = "CommandLine ''distributed-matrix 16 16'' busy_readings True"
  let ?a' = "dispatch_jobs demo_agent_env (on_node (start_distributed_matrix demo_e 16 16) a)"
  have a': "agent_step demo_agent_env any_version ?ev a = (True, ?a')" by (simp add: agent_step_def matrix_command)
  obtain u where u: "dispatch_matrix_jobs demo_e (start_distributed_matrix demo_e 16 16 (known_node R t)) = working_node R u"
    using known_dispatch [OF a(3)] by blast
  from asker_node [OF asker_node [OF a(2)], of "dispatch_matrix_jobs demo_e" "start_distributed_matrix demo_e 16 16"]
  have at: "asker_at (working_node R u) ?a'" by (simp only: u)
  have "event_fair demo_agent_env any_version {PeerId 1} ?ev a"
    unfolding event_fair_def a' snd_conv using at asker_room [OF a(2)]
    by (simp add: asker_at_def sound_readings_def busy_readings_def demo_readings_def known_node_def node_at_def)
  from duo_alone(1) [OF a(1) _ a' this] at a(4) show ?thesis by (auto simp: exchanges_task_def)
qed

text \<open>The chunk, worked on and answered.\<close>

definition call_chunk :: call where
  "call_chunk = \<lparr>call_worker = PeerId 2, call_channel = 1, call_caller = PeerId 0, call_number = 1, call_request = known_request, call_snapshot = offered\<rparr>"

definition chunk_answer :: task_response where
  "chunk_answer = work_response demo_inbound_env 5 5 \<lparr>wk_channel = 1, wk_request = known_request, wk_fail = False, wk_delay = 0\<rparr>"

lemma chunk_answer: "outcome chunk_answer = Success (RMatrixChunk (matrix_chunk 16 0 16) 16 0 16)"
proof -
  have "validate (TMatrixChunk 16 0 16) = None"
    by (simp add: MIN_MATRIX_SIZE_def MAX_DISTRIBUTED_MATRIX_SIZE_def MAX_MATRIX_CHUNK_ROWS_def)
  then show ?thesis
    by (simp add: chunk_answer_def work_response_def known_request_def execute_def response_success_def run_task_def del: validate.simps)
qed

lemma chunk_answered: "\<exists>a b R t. duo_run a b [call_ping, call_chunk] \<and> asker_at (working_node R t) a \<and>
    helper_at [] [] [(0, ping_answer), (1, chunk_answer)] b"
proof -
  obtain a b R t where a: "duo_run a b [call_ping]" "asker_at (working_node R t) a" "helper_at [] [] [(0, ping_answer)] b"
    using job_started by blast
  have "req_task known_request \<noteq> TNodeInfo" by (simp add: known_request_def)
  from helper_asked [OF a(3) this, of "PeerId 0" 1] obtain b1 where
    b1: "agent_step demo_agent_env any_version (Network (TaskRequested (PeerId 0) 1 known_request)) b = (True, b1)"
      "helper_at [\<lparr>wk_channel = 1, wk_request = known_request, wk_fail = False, wk_delay = 0\<rparr>] [] [(0, ping_answer)] b1"
    by auto
  have "(1, PeerId 2, known_request) \<in> posted (ag_node a)" using a(2) by (simp add: asker_at_def working_node_def)
  from duo_ask [OF a(1) this _ _ b1(1)] a(3) have r1: "duo_run a b1 [call_ping, call_chunk]"
    by (simp add: helper_at_def call_chunk_def call_ping_def)
  from helper_works [OF b1(2)] obtain b2 where b2: "agent_step demo_agent_env any_version (InboundEnds 0 5 5) b1 = (True, b2)"
    "helper_at [] [\<lparr>cr_channel = 1, cr_response = chunk_answer, cr_track = True\<rparr>] [(0, ping_answer)] b2"
    by (auto simp: chunk_answer_def)
  from duo_helper [OF r1 b1(2) b2] have r2: "duo_run a b2 [call_ping, call_chunk]" by simp
  from helper_answers [OF b2(2)] obtain b3 where b3: "agent_step demo_agent_env any_version (ResponseCompleted True) b2 = (True, b3)"
    "helper_at [] [] [(0, ping_answer), (1, chunk_answer)] b3" by auto
  from duo_helper [OF r2 b2(2) b3] a(2) b3(2) show ?thesis by blast
qed

end
