(* ===== verification/Swarm_Props.thy ===== *)
theory Swarm_Props
  imports Swarm_Demo
begin

text \<open>What a swarm of agents that run this program promises, with no assumption on the answers of the peers.\<close>

text \<open>
  C32. Agents that run this program can rely on one another's answers. In every run of a swarm, whatever the order of the members' steps
  and of the messages, every member is in a run of the agent of its own, so that all that is proved of one agent holds of every
  member with no assumption on its peers; and every answer that is sent belongs to the one request that came on its channel, which its
  caller did send: it has the identifier of the request, it is one of those the scheduler relies on, and a success is the result of
  executing the task.
\<close>

theorem swarm_answers_honest:
  assumes "swarm_run e v T s"
  shows "(\<forall>p. agent_run (e p) v (T p) (members s p)) \<and>
    (\<forall>c\<in>set (calls s). \<forall>a. (call_channel c, a) \<in> set (answered (ag_inbound (members s (call_worker c)))) \<longrightarrow>
       (call_number c, call_worker c, call_request c) \<in> set (sent (ag_node (members s (call_caller c)))) \<and>
       resp_id a = req_id (call_request c) \<and> answers_ok (call_request c) a \<and>
       (\<forall>x. outcome a = Success x \<and> req_task (call_request c) \<noteq> TNodeInfo \<longrightarrow>
          x = run_task (sha256_hex (ae_node (e (call_worker c)))) (req_task (call_request c))))"
proof -
  have ok: "swarm_ok e v T s" by (rule swarm_inv [OF assms])
  show ?thesis
  proof (intro conjI ballI allI impI)
    fix p show "agent_run (e p) v (T p) (members s p)" using ok by (simp add: swarm_ok_def)
  next
    fix c a assume c: "c \<in> set (calls s)" "(call_channel c, a) \<in> set (answered (ag_inbound (members s (call_worker c))))"
    note h = answer_honest [OF ok c]
    show "(call_number c, call_worker c, call_request c) \<in> set (sent (ag_node (members s (call_caller c))))" by (rule h)
    show "resp_id a = req_id (call_request c)" using h(2) by (simp add: fit_answer_def)
    show "answers_ok (call_request c) a" using h(2) by (rule fit_answer_ok)
    show "x = run_task (sha256_hex (ae_node (e (call_worker c)))) (req_task (call_request c))"
      if "outcome a = Success x \<and> req_task (call_request c) \<noteq> TNodeInfo" for x
      using fit_answer_result [OF h(2)] that by simp
  qed
qed

theorem swarm_answers_honest_witness:
  "\<exists>s c a. swarm_run (\<lambda>_. demo_agent_env) any_version (\<lambda>_. {PeerId 1}) s \<and> c \<in> set (calls s) \<and>
     req_task (call_request c) = TMatrixChunk 16 0 16 \<and>
     (call_channel c, a) \<in> set (answered (ag_inbound (members s (call_worker c)))) \<and> answers_ok (call_request c) a"
proof -
  obtain a b R t where r: "duo_run a b [call_ping, call_chunk]" "helper_at [] [] [(0, ping_answer), (1, chunk_answer)] b"
    using chunk_answered by blast
  have c: "call_chunk \<in> set (calls (duo a b [call_ping, call_chunk]))" by (simp add: duo_def)
  have x: "(call_channel call_chunk, chunk_answer) \<in> set (answered (ag_inbound (members (duo a b [call_ping, call_chunk]) (call_worker call_chunk))))"
    using r(2) by (simp add: duo_def call_chunk_def helper_at_def)
  from swarm_answers_honest [OF r(1)] c x have "answers_ok (call_request call_chunk) chunk_answer" by blast
  with r(1) c x show ?thesis by (fastforce simp: call_chunk_def known_request_def)
qed

text \<open>
  C1. A swarm computes the product. In every run, when a member is answered the last chunk of one of its distributed jobs, with a
  success, the job ends and what it reports is the checksum of the whole mathematical product of the two matrices: whoever
  worked on the chunks, in whatever order they came back, and whatever failed and was retried on the way.
\<close>

theorem swarm_computes_product:
  assumes "swarm_run e v T s" "c \<in> set (calls s)" "(call_channel c, a) \<in> set (answered (ag_inbound (members s (call_worker c))))"
    and "map_of (outbound_tasks (ag_node (members s (call_caller c)))) (call_number c) = Some m" "meta_job m = Some i"
    and "bt_get (matrix_jobs (ag_node (members s (call_caller c)))) i = Some j" "completed_chunks j + 1 = total_chunks j"
    and "outcome a = Success x"
  shows "let ne = ae_node (e (call_caller c)); n = ag_node (members s (call_caller c));
           n' = handle_response ne (call_number c) (call_worker c) a n in
    bt_get (matrix_jobs n') i = None \<and>
    last (printed (trace n')) = event_line ''TASK_RESULT'' [peer_text ne (local_peer ne), i, show_word (elapsed_ms (started_at j) n),
      task_result_summary (RDistributedMatrix (xor_list (map (row_checksum (unat (job_size j))) [0..<unat (job_size j)]))
        (job_size j) (total_chunks j))]"
proof -
  let ?n = "ag_node (members s (call_caller c))" and ?ne = "ae_node (e (call_caller c))"
  have ok: "swarm_ok e v T s" by (rule swarm_inv [OF assms(1)])
  note h = answer_honest [OF ok assms(2,3)]
  have reach: "matrix_reach ?ne ?n"
    using ok run_good by (fastforce simp: swarm_ok_def good_def)
  from reach_inv [OF reach] have inv: "sched_inv ?ne (\<lambda>_. {#}) ?n" by simp
  from outbound_meta [OF inv assms(4,5) h(1)] obtain ck k where ck: "meta_worker m = Some (Remote (call_worker c))" "meta_chunk m = Some ck"
    "size_allows ?n i k" "req_task (call_request c) = TMatrixChunk k (row_start ck) (row_end ck)" by metis
  have k: "k = job_size j" using ck(3) assms(6) by (simp add: size_allows_def)
  have "x = RMatrixChunk (matrix_chunk (job_size j) (row_start ck) (row_end ck)) (job_size j) (row_start ck) (row_end ck)"
    using fit_answer_result [OF h(2) assms(8)] ck(4) k by (simp add: run_task_def)
  with assms(8) have o: "outcome a = Success (RMatrixChunk (matrix_chunk (job_size j) (row_start ck) (row_end ck)) (job_size j) (row_start ck) (row_end ck))"
    by simp
  have whole: "matrix_chunk (job_size j) 0 (job_size j) = xor_list (map (row_checksum (unat (job_size j))) [0..<unat (job_size j)])"
    by (simp add: matrix_chunk_rows rows_checksum_def)
  from last_chunk_result [OF reach h(1) fit_answer_ok [OF h(2)] assms(4,5) ck(2) assms(6,7) o]
  show ?thesis unfolding Let_def whole by blast
qed

theorem swarm_computes_product_witness:
  "\<exists>s c a i. swarm_run (\<lambda>_. demo_agent_env) any_version (\<lambda>_. {PeerId 1}) s \<and> c \<in> set (calls s) \<and>
     i \<in> fst ` set (matrix_jobs (ag_node (members s (call_caller c)))) \<and>
     bt_get (matrix_jobs (handle_response (ae_node demo_agent_env) (call_number c) (call_worker c) a (ag_node (members s (call_caller c))))) i = None"
proof -
  obtain a b R t where r: "duo_run a b [call_ping, call_chunk]" "helper_at [] [] [(0, ping_answer), (1, chunk_answer)] b"
    "asker_at (working_node R t) a" using chunk_answered by blast
  let ?s = "duo a b [call_ping, call_chunk]"
  have c: "call_chunk \<in> set (calls ?s)" by (simp add: duo_def)
  have x: "(call_channel call_chunk, chunk_answer) \<in> set (answered (ag_inbound (members ?s (call_worker call_chunk))))"
    using r(2) by (simp add: duo_def call_chunk_def helper_at_def)
  have n: "ag_node (members ?s (call_caller call_chunk)) = working_node R t" using r(3) by (simp add: duo_def call_chunk_def asker_at_def)
  have m: "map_of (outbound_tasks (ag_node (members ?s (call_caller call_chunk)))) (call_number call_chunk) = Some known_meta"
    by (simp add: n) (simp add: call_chunk_def working_node_def)
  have i: "meta_job known_meta = Some ''p-distributed-2''" by (simp add: known_meta_def)
  have j: "bt_get (matrix_jobs (ag_node (members ?s (call_caller call_chunk)))) ''p-distributed-2'' = Some known_job"
    by (simp add: n) (simp add: working_node_def)
  have l: "completed_chunks known_job + 1 = total_chunks known_job" by (simp add: known_job_def demo_job_def)
  from swarm_computes_product [OF r(1) c x m i j l chunk_answer] have "bt_get (matrix_jobs (handle_response (ae_node demo_agent_env)
     (call_number call_chunk) (call_worker call_chunk) chunk_answer (ag_node (members ?s (call_caller call_chunk))))) ''p-distributed-2'' = None"
    by (simp only: Let_def)
  moreover have "''p-distributed-2'' \<in> fst ` set (matrix_jobs (ag_node (members ?s (call_caller call_chunk))))"
    unfolding n by (simp add: working_node_def)
  ultimately show ?thesis using r(1) c by blast
qed

end
