(* ===== verification/Updater.thy ===== *)
theory Updater
  imports FileSystem
begin

text \<open>
  The updater process (\<open>swagri-updater\<close>): \<open>apply_update\<close> puts a verified replacement in the place of a
  program that is about to stop, checks that the new program lives, and rolls back otherwise. The stages
  of the function are definitions of their own. Parameters: the path of a file with another extension,
  the reader of the JSON argument list, and what a program does when it is started, which is a function
  of its bytes: its \<open>--version\<close> run gives a success flag, a start gives what \<open>try_wait\<close> says after two
  seconds. Waiting does not show in the state.
\<close>

record updater_env =
  sibling_extension :: "string \<Rightarrow> string \<Rightarrow> string"
  read_arguments :: "bytes \<Rightarrow> string list option"
  version_run :: "bytes \<Rightarrow> io_error + bool"
  agent_run :: "bytes \<Rightarrow> string list \<Rightarrow> io_error + (io_error + string option)"
  line_bytes :: "string \<Rightarrow> bytes"

datatype update_error =
    TargetMissing string
  | ReplacementMissing string
  | RestartUnreadable io_error
  | RestartInvalid
  | StaleNotRemoved io_error
  | StageFailed io_error
  | AgentStillRunning
  | ActivateFailed io_error
  | MarkerFailed io_error
  | VersionCheckFailed
  | StartFailed io_error
  | StatusUnknown io_error
  | ExitedDuringCheck string

type_synonym 'a updater_io = "(update_error, 'a, string fs) io"

text \<open>\<open>let _ = ...\<close>\<close>

definition ignored :: "(io_error, 'a, string fs) io \<Rightarrow> unit updater_io" where
  "ignored m = io_bind (io_ok m) (\<lambda>_. io_return ())"

definition rollback :: "string \<Rightarrow> string \<Rightarrow> unit updater_io" where
  "rollback target backup = io_bind (ignored (fs_remove target)) (\<lambda>_. ignored (fs_rename backup target))"

definition restore_marker :: "string \<Rightarrow> bytes option \<Rightarrow> unit updater_io" where
  "restore_marker marker previous = (case previous of
     Some b \<Rightarrow> ignored (fs_write marker b)
   | None \<Rightarrow> ignored (fs_remove marker))"

text \<open>The restart arguments, and the replacement staged beside the target.\<close>

definition restart_list :: "updater_env \<Rightarrow> string \<Rightarrow> bool \<Rightarrow> string list updater_io" where
  "restart_list e restart_args no_restart =
     (if no_restart then io_return []
      else io_bind (io_map_err RestartUnreadable (fs_read restart_args)) (\<lambda>b.
        case read_arguments e b of None \<Rightarrow> io_throw RestartInvalid | Some l \<Rightarrow> io_return l))"

definition stage_replacement :: "string \<Rightarrow> string \<Rightarrow> unit updater_io" where
  "stage_replacement replacement prepared =
     io_bind (io_get (is_file prepared)) (\<lambda>stale.
     io_bind (if stale then io_map_err StaleNotRemoved (fs_remove prepared) else io_return ()) (\<lambda>_.
     io_map_err StageFailed (fs_copy replacement prepared)))"

text \<open>Up to 120 attempts to move the old program away, then the check that it is gone.\<close>

fun move_away :: "nat \<Rightarrow> string \<Rightarrow> string \<Rightarrow> unit updater_io" where
  "move_away 0 target backup = io_return ()"
| "move_away (Suc k) target backup =
     io_bind (io_get (is_file backup)) (\<lambda>old.
     io_bind (if old then ignored (fs_remove backup) else io_return ()) (\<lambda>_.
     io_bind (io_try (fs_rename target backup)) (\<lambda>r.
     case r of Inr _ \<Rightarrow> io_return () | Inl _ \<Rightarrow> move_away k target backup)))"

definition stop_agent :: "string \<Rightarrow> string \<Rightarrow> string \<Rightarrow> unit updater_io" where
  "stop_agent target backup prepared =
     io_bind (move_away 120 target backup) (\<lambda>_.
     io_bind (io_get (is_file target)) (\<lambda>there.
     if there then io_bind (ignored (fs_remove prepared)) (\<lambda>_. io_throw AgentStillRunning)
     else io_return ()))"

definition activate :: "string \<Rightarrow> string \<Rightarrow> string \<Rightarrow> unit updater_io" where
  "activate target backup prepared =
     io_bind (io_try (fs_rename prepared target)) (\<lambda>r.
     case r of Inr _ \<Rightarrow> io_return ()
     | Inl err \<Rightarrow> io_bind (ignored (fs_rename backup target)) (\<lambda>_. io_throw (ActivateFailed err)))"

text \<open>The bytes of the version marker before the update: outer \<open>None\<close> without a marker, inner one when it could not be read.\<close>

definition read_marker :: "string option \<Rightarrow> bytes option option updater_io" where
  "read_marker version_marker = (case version_marker of
     None \<Rightarrow> io_return None
   | Some m \<Rightarrow> io_bind (io_ok (fs_read m)) (\<lambda>b. io_return (Some b)))"

definition write_marker :: "updater_env \<Rightarrow> string \<Rightarrow> string \<Rightarrow> string option \<Rightarrow> string option \<Rightarrow> bytes option option \<Rightarrow> unit updater_io" where
  "write_marker e target backup version_marker version previous = (case (version_marker, version) of
     (Some m, Some v) \<Rightarrow>
       io_bind (io_try (fs_write m (line_bytes e (v @ [CHR 0x0A])))) (\<lambda>r.
       case r of Inr _ \<Rightarrow> io_return ()
       | Inl err \<Rightarrow> io_bind (rollback target backup) (\<lambda>_.
           io_bind (restore_marker m (Option.bind previous id)) (\<lambda>_. io_throw (MarkerFailed err))))
   | _ \<Rightarrow> io_return ())"

definition undo :: "string \<Rightarrow> string \<Rightarrow> string option \<Rightarrow> bytes option option \<Rightarrow> unit updater_io" where
  "undo target backup version_marker previous =
     io_bind (rollback target backup) (\<lambda>_.
     case version_marker of None \<Rightarrow> io_return () | Some m \<Rightarrow> restore_marker m (Option.bind previous id))"

text \<open>Starting the program at a path.\<close>

definition run_program :: "(bytes \<Rightarrow> io_error + 'a) \<Rightarrow> string \<Rightarrow> (io_error, 'a, string fs) io" where
  "run_program f path = io_bind fs_check (\<lambda>_ s. case file_at s path of
     None \<Rightarrow> (Inl NotFound, s) | Some b \<Rightarrow> (f b, s))"

definition clean_up :: "string \<Rightarrow> string \<Rightarrow> unit updater_io" where
  "clean_up replacement restart_args = io_bind (ignored (fs_remove replacement)) (\<lambda>_. ignored (fs_remove restart_args))"

text \<open>The health check: a \<open>--version\<close> run, or a start that is still alive after two seconds.\<close>

definition check_version :: "updater_env \<Rightarrow> string \<Rightarrow> string \<Rightarrow> string \<Rightarrow> string \<Rightarrow> string option \<Rightarrow> bytes option option \<Rightarrow> unit updater_io" where
  "check_version e target replacement backup restart_args version_marker previous =
     io_bind (io_try (run_program (version_run e) target)) (\<lambda>health.
     if health = Inr True then clean_up replacement restart_args
     else io_bind (undo target backup version_marker previous) (\<lambda>_. io_throw VersionCheckFailed))"

definition start_and_check :: "updater_env \<Rightarrow> string list \<Rightarrow> string \<Rightarrow> string \<Rightarrow> string \<Rightarrow> string \<Rightarrow> string option \<Rightarrow> bytes option option \<Rightarrow> unit updater_io" where
  "start_and_check e arguments target replacement backup restart_args version_marker previous =
     io_bind (io_try (run_program (\<lambda>b. agent_run e b arguments) target)) (\<lambda>child.
     case child of
       Inl err \<Rightarrow> io_bind (undo target backup version_marker previous) (\<lambda>_. io_throw (StartFailed err))
     | Inr (Inl err) \<Rightarrow> io_throw (StatusUnknown err)
     | Inr (Inr (Some status)) \<Rightarrow>
         io_bind (undo target backup version_marker previous) (\<lambda>_. io_throw (ExitedDuringCheck status))
     | Inr (Inr None) \<Rightarrow> clean_up replacement restart_args)"

definition apply_update :: "updater_env \<Rightarrow> string \<Rightarrow> string \<Rightarrow> string \<Rightarrow> string \<Rightarrow> bool \<Rightarrow> string option \<Rightarrow> string option \<Rightarrow> unit updater_io" where
  "apply_update e target replacement backup restart_args no_restart version_marker version =
     io_bind (io_get (is_file target)) (\<lambda>t. if \<not> t then io_throw (TargetMissing target) else
     io_bind (io_get (is_file replacement)) (\<lambda>r. if \<not> r then io_throw (ReplacementMissing replacement) else
     io_bind (restart_list e restart_args no_restart) (\<lambda>arguments.
     let prepared = sibling_extension e target ''swagri-new'' in
     io_bind (stage_replacement replacement prepared) (\<lambda>_.
     io_bind (stop_agent target backup prepared) (\<lambda>_.
     io_bind (activate target backup prepared) (\<lambda>_.
     io_bind (read_marker version_marker) (\<lambda>previous.
     io_bind (write_marker e target backup version_marker version previous) (\<lambda>_.
     if no_restart then check_version e target replacement backup restart_args version_marker previous
     else start_and_check e arguments target replacement backup restart_args version_marker previous))))))))"

record updater_args =
  arg_target :: string
  arg_replacement :: string
  arg_backup :: string
  arg_restart_args :: string
  arg_no_restart :: bool
  arg_version_marker :: "string option"
  arg_replacement_version :: "string option"

definition updater_main :: "updater_env \<Rightarrow> updater_args \<Rightarrow> unit updater_io" where
  "updater_main e a = apply_update e (arg_target a) (arg_replacement a) (arg_backup a) (arg_restart_args a) (arg_no_restart a)
     (arg_version_marker a) (arg_replacement_version a)"

end
