(* ===== verification/Updater_Props.thy ===== *)
theory Updater_Props
  imports Updater
begin

text \<open>
  What \<open>apply_update\<close> does to the files: the effect of each stage under every schedule of failing calls,
  then without failing calls, and the two properties of the whole.
\<close>

section \<open>The effect of the stages, whatever fails\<close>

lemma ignored_result: "ignored m s = (r, t) \<Longrightarrow> r = Inr () \<and> (\<exists>q. m s = (q, t))"
  by (auto simp: ignored_def io_apply split: prod.splits sum.splits)

lemma ignored_remove_at:
  "ignored (fs_remove p) s = (r, t) \<Longrightarrow> r = Inr () \<and> (file_at t = file_at s \<or> file_at t = (file_at s)(p := None))"
  by (drule ignored_result) (auto dest: fs_remove_at)

lemma ignored_rename_at:
  "ignored (fs_rename p q) s = (r, t) \<Longrightarrow> r = Inr () \<and> (file_at t = file_at s \<or>
     (\<exists>b. file_at s p = Some b \<and> file_at t = (file_at s)(p := None, q \<mapsto> b)))"
  by (drule ignored_result) (auto dest: fs_rename_at)

lemma ignored_write_at: "ignored (fs_write p b) s = (r, t) \<Longrightarrow> r = Inr () \<and> (\<forall>q. q \<noteq> p \<longrightarrow> file_at t q = file_at s q)"
  by (drule ignored_result) (auto dest: fs_write_at)

text \<open>The bytes of the old program are in at least one of its two places.\<close>

definition kept :: "string \<Rightarrow> string \<Rightarrow> bytes \<Rightarrow> string fs \<Rightarrow> bool" where
  "kept target backup old s = (file_at s target = Some old \<or> file_at s backup = Some old)"

lemma rollback_at:
  assumes "rollback target backup s = (r, t)" "target \<noteq> backup"
  shows "r = Inr ()" "\<forall>q. q \<noteq> target \<and> q \<noteq> backup \<longrightarrow> file_at t q = file_at s q"
    "file_at s backup = Some old \<Longrightarrow> kept target backup old t"
  using assms(1) unfolding rollback_def kept_def
  by (elim io_bind_cases; use assms(2) in \<open>fastforce dest!: ignored_remove_at ignored_rename_at\<close>)+

lemma restore_marker_at:
  "restore_marker m prev s = (r, t) \<Longrightarrow> r = Inr () \<and> (\<forall>q. q \<noteq> m \<longrightarrow> file_at t q = file_at s q)"
  by (auto simp: restore_marker_def split: option.splits dest!: ignored_remove_at ignored_write_at)

lemma restart_list_at:
  "restart_list e ra nr s = (r, t) \<Longrightarrow> file_at t = file_at s \<and> (\<forall>l. r = Inr l \<longrightarrow>
     (if nr then l = [] else \<exists>b. file_at s ra = Some b \<and> read_arguments e b = Some l))"
  unfolding restart_list_def
  by (auto simp: io_apply split: prod.splits sum.splits if_splits option.splits dest!: fs_read_at)

lemma stage_replacement_at:
  assumes "stage_replacement replacement prepared s = (r, t)" "replacement \<noteq> prepared"
  shows "(\<forall>q. q \<noteq> prepared \<longrightarrow> file_at t q = file_at s q) \<and>
    (r = Inr () \<longrightarrow> (\<exists>b. file_at s replacement = Some b \<and> file_at t prepared = Some b))"
  using assms unfolding stage_replacement_def
  by (auto simp: io_apply split: prod.splits sum.splits if_splits dest!: fs_remove_at fs_copy_at)

lemma move_away_at:
  assumes "move_away n target backup s = (r, t)" "target \<noteq> backup" "file_at s target = Some old"
  shows "r = Inr () \<and> (\<forall>q. q \<noteq> target \<and> q \<noteq> backup \<longrightarrow> file_at t q = file_at s q) \<and>
    (file_at t target = Some old \<or> (file_at t target = None \<and> file_at t backup = Some old))"
  using assms(1,3)
proof (induction n arbitrary: s)
  case 0
  then show ?case by (simp add: io_apply)
next
  case (Suc n)
  let ?rest = "io_bind (io_try (fs_rename target backup)) (\<lambda>r. case r of Inr _ \<Rightarrow> io_return () | Inl _ \<Rightarrow> move_away n target backup)"
  obtain r1 s1 where m: "(if is_file backup s then ignored (fs_remove backup) else io_return ()) s = (r1, s1)" by fastforce
  then have s1: "r1 = Inr ()" "file_at s1 = file_at s \<or> file_at s1 = (file_at s)(backup := None)"
    by (auto simp: io_runs split: if_splits dest!: ignored_remove_at)
  with Suc.prems(1) m have run: "?rest s1 = (r, t)"
    by (simp only: move_away.simps io_bind_def io_get_def prod.case sum.case)
  obtain q s2 where q: "fs_rename target backup s1 = (q, s2)" by fastforce
  have old: "file_at s1 target = Some old" using s1(2) Suc.prems(2) assms(2) by auto
  have same: "\<forall>q. q \<noteq> target \<and> q \<noteq> backup \<longrightarrow> file_at s1 q = file_at s q" using s1(2) by auto
  from fs_rename_at [OF q] show ?case
  proof (elim disjE conjE)
    assume "isl q" "file_at s2 = file_at s1"
    with run have "move_away n target backup s2 = (r, t)" "file_at s2 target = Some old" using q old
      by (auto simp: io_apply split: sum.splits)
    from Suc.IH [OF this] same \<open>file_at s2 = file_at s1\<close> show ?case by simp
  next
    assume "q = Inr ()" "\<exists>b. file_at s1 target = Some b \<and> file_at s2 = (file_at s1)(target := None, backup \<mapsto> b)"
    with run q old same assms(2) show ?case by (auto simp: io_apply)
  qed
qed

lemma stop_agent_at:
  assumes "stop_agent target backup prepared s = (r, t)" "distinct [target, backup, prepared]" "file_at s target = Some old"
  shows "(\<forall>q. q \<noteq> target \<and> q \<noteq> backup \<and> q \<noteq> prepared \<longrightarrow> file_at t q = file_at s q) \<and>
    (if r = Inr () then file_at t target = None \<and> file_at t backup = Some old \<and> file_at t prepared = file_at s prepared
     else r = Inl AgentStillRunning \<and> file_at t target = Some old)"
proof -
  obtain r1 s1 where m: "move_away 120 target backup s = (r1, s1)" by fastforce
  with move_away_at [OF m] assms show ?thesis unfolding stop_agent_def
    by (auto simp: io_apply is_file_def split: if_splits prod.splits sum.splits dest!: ignored_remove_at)
qed

lemma activate_at:
  assumes "activate target backup prepared s = (r, t)" "distinct [target, backup, prepared]" "file_at s backup = Some old"
  shows "(\<forall>q. q \<noteq> target \<and> q \<noteq> backup \<and> q \<noteq> prepared \<longrightarrow> file_at t q = file_at s q) \<and> kept target backup old t \<and>
    (r = Inr () \<longrightarrow> file_at t target = file_at s prepared \<and> file_at t backup = Some old)"
  using assms unfolding activate_def kept_def
  by (auto simp: io_apply split: prod.splits sum.splits dest!: fs_rename_at ignored_rename_at)

lemma read_marker_at: "read_marker m s = (r, t) \<Longrightarrow> file_at t = file_at s"
  unfolding read_marker_def by (auto simp: io_apply split: option.splits prod.splits sum.splits dest!: fs_read_at)

lemma write_marker_at:
  assumes "write_marker e target backup vm v prev s = (r, t)" "target \<noteq> backup" "\<forall>m. vm = Some m \<longrightarrow> m \<noteq> target \<and> m \<noteq> backup"
    and "file_at s backup = Some old"
  shows "kept target backup old t \<and> (r = Inr () \<longrightarrow> file_at t target = file_at s target \<and> file_at t backup = Some old \<and>
    (\<forall>q. vm \<noteq> Some q \<longrightarrow> file_at t q = file_at s q))"
proof (cases "vm = None \<or> v = None")
  case True
  with assms show ?thesis by (auto simp: write_marker_def io_apply kept_def split: option.splits)
next
  case False
  then obtain m w where mw: "vm = Some m" "v = Some w" by auto
  obtain q s1 where q: "fs_write m (line_bytes e (w @ [CHR 0x0A])) s = (q, s1)" by fastforce
  have s1: "file_at s1 backup = Some old" "file_at s1 target = file_at s target" "\<forall>q. vm \<noteq> Some q \<longrightarrow> file_at s1 q = file_at s q"
    using fs_write_at [OF q] assms(3,4) mw by auto
  show ?thesis
  proof (cases q)
    case (Inl err)
    obtain r2 s2 where r2: "rollback target backup s1 = (r2, s2)" by fastforce
    obtain r3 s3 where r3: "restore_marker m (Option.bind prev id) s2 = (r3, s3)" by fastforce
    have "r = Inl (MarkerFailed err)" "t = s3" using assms(1) q Inl r2 r3 rollback_at(1) [OF r2 assms(2)] restore_marker_at [OF r3]
      by (auto simp: write_marker_def mw io_apply)
    moreover have "kept target backup old s3"
      using rollback_at(3) [OF r2 assms(2) s1(1)] restore_marker_at [OF r3] assms(3) mw by (auto simp: kept_def)
    ultimately show ?thesis by simp
  next
    case (Inr u)
    with assms(1) q have "r = Inr ()" "t = s1" by (auto simp: write_marker_def mw io_apply)
    with s1 show ?thesis by (simp add: kept_def)
  qed
qed

lemma undo_at:
  assumes "undo target backup vm prev s = (r, t)" "target \<noteq> backup" "\<forall>m. vm = Some m \<longrightarrow> m \<noteq> target \<and> m \<noteq> backup"
    and "file_at s backup = Some old"
  shows "r = Inr () \<and> kept target backup old t"
proof -
  obtain r1 s1 where r1: "rollback target backup s = (r1, s1)" by fastforce
  with rollback_at [OF r1 assms(2)] assms show ?thesis unfolding undo_def kept_def
    by (auto simp: io_apply split: option.splits dest!: restore_marker_at)
qed

lemma run_program_at:
  "run_program f p s = (r, t) \<Longrightarrow> file_at t = file_at s \<and> (\<forall>x. r = Inr x \<longrightarrow> (\<exists>b. file_at s p = Some b \<and> f b = Inr x))"
  unfolding run_program_def by (elim io_bind_cases) (auto split: option.splits dest!: fs_check_at)

lemma clean_up_at:
  assumes "clean_up replacement ra s = (r, t)"
  shows "r = Inr () \<and> (\<forall>q. q \<noteq> replacement \<and> q \<noteq> ra \<longrightarrow> file_at t q = file_at s q)"
  using assms unfolding clean_up_def by (elim io_bind_cases) (auto dest!: ignored_remove_at)

section \<open>The stages when no call fails\<close>

definition quiet :: "string fs \<Rightarrow> (string \<Rightarrow> bytes option) \<Rightarrow> bool" where
  "quiet s F = (faults s = [] \<and> file_at s = F)"

lemma quiet_update:
  "quiet s F \<Longrightarrow> quiet (del_file p s) (F(p := None))" "quiet s F \<Longrightarrow> quiet (put_file p b s) (F(p \<mapsto> b))"
  by (auto simp: quiet_def fun_eq_iff)

lemma quiet_remove: "quiet s F \<Longrightarrow> \<exists>t. ignored (fs_remove p) s = (Inr (), t) \<and> quiet t (F(p := None))"
  using quiet_update(1) [of s F p]
  by (cases "F p") (auto simp: ignored_def io_apply calls_without_faults quiet_def fun_upd_idem)

lemma quiet_rename:
  assumes "quiet s F" "F p = Some b"
  shows "\<exists>t. fs_rename p q s = (Inr (), t) \<and> quiet t (F(p := None, q \<mapsto> b))"
  using assms quiet_update(2) [OF quiet_update(1) [OF assms(1)]] by (auto simp: calls_without_faults quiet_def)

lemma quiet_write: "quiet s F \<Longrightarrow> \<exists>t. fs_write p b s = (Inr (), t) \<and> quiet t (F(p \<mapsto> b))"
  by (auto simp: calls_without_faults quiet_def fun_eq_iff)

lemma quiet_rollback:
  assumes "quiet s F" "F backup = Some old" "target \<noteq> backup"
  shows "\<exists>t. rollback target backup s = (Inr (), t) \<and> quiet t (F(backup := None, target \<mapsto> old))"
proof -
  obtain s1 where s1: "ignored (fs_remove target) s = (Inr (), s1)" "quiet s1 (F(target := None))"
    using quiet_remove [OF assms(1)] by blast
  obtain s2 where s2: "fs_rename backup target s1 = (Inr (), s2)" "quiet s2 (F(target := None, backup := None, target \<mapsto> old))"
    using quiet_rename [OF s1(2), of backup old target] assms(2,3) by auto
  moreover have "F(target := None, backup := None, target \<mapsto> old) = F(backup := None, target \<mapsto> old)" by auto
  ultimately show ?thesis using s1(1) by (auto simp: rollback_def ignored_def io_apply split: prod.splits sum.splits)
qed

lemma quiet_restore: "quiet s F \<Longrightarrow> \<exists>t. restore_marker m prev s = (Inr (), t) \<and> quiet t (F(m := prev))"
proof (cases prev)
  case None
  then show "quiet s F \<Longrightarrow> ?thesis" using quiet_remove by (auto simp: restore_marker_def)
next
  case (Some b)
  assume "quiet s F"
  from quiet_write [OF this, of m b] Some show ?thesis by (auto simp: restore_marker_def ignored_def io_apply)
qed

text \<open>The marker as the rollback leaves it.\<close>

definition unmarked :: "string option \<Rightarrow> bytes option option \<Rightarrow> (string \<Rightarrow> bytes option) \<Rightarrow> string \<Rightarrow> bytes option" where
  "unmarked vm prev F = (case vm of None \<Rightarrow> F | Some m \<Rightarrow> F(m := Option.bind prev id))"

lemma quiet_undo:
  assumes "quiet s F" "F backup = Some old" "target \<noteq> backup"
  shows "\<exists>t. undo target backup vm prev s = (Inr (), t) \<and> quiet t (unmarked vm prev (F(backup := None, target \<mapsto> old)))"
proof -
  obtain s1 where s1: "rollback target backup s = (Inr (), s1)" "quiet s1 (F(backup := None, target \<mapsto> old))"
    using quiet_rollback [OF assms] by blast
  from quiet_restore [OF s1(2)] s1 show ?thesis by (cases vm) (auto simp: undo_def io_apply unmarked_def)
qed

lemma quiet_stage:
  assumes "quiet s F" "F replacement = Some new" "replacement \<noteq> prepared"
  shows "\<exists>t. stage_replacement replacement prepared s = (Inr (), t) \<and> quiet t (F(prepared \<mapsto> new))"
  using assms unfolding stage_replacement_def
  by (auto simp: io_apply is_file_def calls_without_faults quiet_def fs_copy_def fun_eq_iff split: option.splits)

lemma quiet_move:
  assumes "quiet s F" "F target = Some old" "target \<noteq> backup"
  shows "\<exists>t. move_away (Suc n) target backup s = (Inr (), t) \<and> quiet t (F(target := None, backup \<mapsto> old))"
proof -
  obtain s1 where s1: "(if is_file backup s then ignored (fs_remove backup) else io_return ()) s = (Inr (), s1)"
    "quiet s1 (F(backup := None))"
  proof (cases "is_file backup s")
    case True
    with quiet_remove [OF assms(1), of backup] that show ?thesis by auto
  next
    case False
    with assms(1) that show ?thesis by (auto simp: io_apply is_file_def quiet_def fun_upd_idem)
  qed
  obtain s2 where "fs_rename target backup s1 = (Inr (), s2)" "quiet s2 (F(backup := None, target := None, backup \<mapsto> old))"
    using quiet_rename [OF s1(2), of target old backup] assms(2,3) by auto
  moreover have "F(backup := None, target := None, backup \<mapsto> old) = F(target := None, backup \<mapsto> old)" by auto
  ultimately show ?thesis using s1(1)
    by (auto simp: io_bind_def io_get_def io_try_def io_return_def)
qed

lemma quiet_stop:
  assumes "quiet s F" "F target = Some old" "target \<noteq> backup"
  shows "\<exists>t. stop_agent target backup prepared s = (Inr (), t) \<and> quiet t (F(target := None, backup \<mapsto> old))"
  using quiet_move [OF assms, of 119] assms(3) unfolding stop_agent_def
  by (auto simp: io_apply is_file_def quiet_def simp del: move_away.simps)

lemma quiet_activate:
  assumes "quiet s F" "F prepared = Some new"
  shows "\<exists>t. activate target backup prepared s = (Inr (), t) \<and> quiet t (F(prepared := None, target \<mapsto> new))"
  using quiet_rename [OF assms, of target] unfolding activate_def by (auto simp: io_apply)

lemma quiet_read_marker:
  assumes "quiet s F"
  shows "read_marker vm s = (Inr (map_option F vm), s)"
  using assms by (auto simp: read_marker_def io_apply calls_without_faults quiet_def split: option.splits)

text \<open>Without failing calls the marker is written, and the rollback puts back what it held.\<close>

lemma quiet_write_marker:
  assumes "quiet s F"
  shows "\<exists>t G. write_marker e target backup vm v prev s = (Inr (), t) \<and> quiet t G \<and> (\<forall>q. vm \<noteq> Some q \<longrightarrow> G q = F q)"
proof (cases "vm = None \<or> v = None")
  case True
  with assms show ?thesis by (auto simp: write_marker_def io_apply split: option.splits)
next
  case False
  then obtain m w where mw: "vm = Some m" "v = Some w" by auto
  from quiet_write [OF assms, of m "line_bytes e (w @ [CHR 0x0A])"] obtain t where
    t: "fs_write m (line_bytes e (w @ [CHR 0x0A])) s = (Inr (), t)" "quiet t (F(m \<mapsto> line_bytes e (w @ [CHR 0x0A])))" by blast
  then have "write_marker e target backup vm v prev s = (Inr (), t)" by (simp add: write_marker_def mw io_apply)
  with t(2) mw(1) show ?thesis by (metis fun_upd_other option.inject)
qed

lemma unmarked_restores:
  assumes "\<forall>q. vm \<noteq> Some q \<longrightarrow> G q = F q"
  shows "unmarked vm (map_option F vm) G = F"
  using assms by (auto simp: unmarked_def fun_eq_iff split: option.splits)

section \<open>The whole update\<close>

lemma io_bind_assoc: "io_bind (io_bind m f) g = io_bind m (\<lambda>x. io_bind (f x) g)"
  by (auto simp: io_bind_def fun_eq_iff split: prod.splits sum.splits)

text \<open>The new program passed the check that applies.\<close>

definition healthy :: "updater_env \<Rightarrow> bool \<Rightarrow> string list \<Rightarrow> bytes \<Rightarrow> bool" where
  "healthy e nr l new = (if nr then version_run e new = Inr True else agent_run e new l = Inr (Inr None))"

abbreviation swapped :: "string \<Rightarrow> string \<Rightarrow> bytes \<Rightarrow> bytes \<Rightarrow> string fs \<Rightarrow> bool" where
  "swapped target backup old new s \<equiv> file_at s target = Some new \<and> file_at s backup = Some old"

lemma run_triple:
  "triple (swapped target backup old new) (io_try (run_program f target))
    (\<lambda>q s. swapped target backup old new s \<and> (\<forall>x. q = Inr x \<longrightarrow> f new = Inr x)) E"
  by (rule tripleI) (auto simp: io_runs dest!: run_program_at)

lemma clean_triple:
  "{replacement, ra} \<inter> {target, backup} = {} \<Longrightarrow>
   triple (swapped target backup old new) (clean_up replacement ra) (\<lambda>_. swapped target backup old new) E"
  by (rule tripleI) (auto dest!: clean_up_at)

lemma undo_triple:
  assumes "target \<noteq> backup" "\<forall>m. vm = Some m \<longrightarrow> m \<noteq> target \<and> m \<noteq> backup"
  shows "triple (swapped target backup old new) (io_bind (undo target backup vm prev) (\<lambda>_. io_throw err)) Q (\<lambda>_. kept target backup old)"
  by (rule triple_bind [where R = "\<lambda>_. kept target backup old"], rule tripleI)
    (use undo_at [OF _ assms, where old = old] in \<open>auto intro: triple_throw\<close>)

lemma check_triple:
  assumes "target \<noteq> backup" "\<forall>m. vm = Some m \<longrightarrow> m \<noteq> target \<and> m \<noteq> backup" "{replacement, ra} \<inter> {target, backup} = {}"
  shows "triple (swapped target backup old new)
    (if nr then check_version e target replacement backup ra vm prev else start_and_check e l target replacement backup ra vm prev)
    (\<lambda>_ s. swapped target backup old new s \<and> healthy e nr l new) (\<lambda>_. kept target backup old)"
proof -
  have clean: "triple (\<lambda>s. swapped target backup old new s \<and> healthy e nr l new) (clean_up replacement ra)
      (\<lambda>_ s. swapped target backup old new s \<and> healthy e nr l new) (\<lambda>_. kept target backup old)"
    by (rule triple_fact) (auto intro: triple_conseq [OF clean_triple [OF assms(3)]])
  have undone: "(\<And>s. P s \<Longrightarrow> swapped target backup old new s) \<Longrightarrow> triple P (io_bind (undo target backup vm prev) (\<lambda>_. io_throw err)) Q
      (\<lambda>_. kept target backup old)" for P err and Q :: "unit \<Rightarrow> string fs \<Rightarrow> bool"
    by (rule triple_conseq [OF undo_triple [OF assms(1,2)]]) auto
  show ?thesis
  proof (cases nr)
    case True
    have "triple (swapped target backup old new) (check_version e target replacement backup ra vm prev)
      (\<lambda>_ s. swapped target backup old new s \<and> healthy e nr l new) (\<lambda>_. kept target backup old)"
      unfolding check_version_def
    proof (rule triple_bind [OF run_triple], rule triple_if)
      fix q :: "io_error + bool"
      assume "q = Inr True"
      then show "triple (\<lambda>s. swapped target backup old new s \<and> (\<forall>x. q = Inr x \<longrightarrow> version_run e new = Inr x)) (clean_up replacement ra)
        (\<lambda>_ s. swapped target backup old new s \<and> healthy e nr l new) (\<lambda>_. kept target backup old)"
        by (intro triple_conseq [OF clean]) (auto simp: healthy_def True)
    qed (rule undone, simp)
    with True show ?thesis by simp
  next
    case False
    have "triple (swapped target backup old new) (start_and_check e l target replacement backup ra vm prev)
      (\<lambda>_ s. swapped target backup old new s \<and> healthy e nr l new) (\<lambda>_. kept target backup old)"
      unfolding start_and_check_def
    proof (rule triple_bind [OF run_triple])
      fix q :: "io_error + (io_error + string option)"
      have "triple (\<lambda>s. swapped target backup old new s \<and> (\<forall>x. q = Inr x \<longrightarrow> agent_run e new l = Inr x)) (clean_up replacement ra)
        (\<lambda>_ s. swapped target backup old new s \<and> healthy e nr l new) (\<lambda>_. kept target backup old)" if "q = Inr (Inr None)"
        using that by (intro triple_conseq [OF clean]) (auto simp: healthy_def False)
      then show "triple (\<lambda>s. swapped target backup old new s \<and> (\<forall>x. q = Inr x \<longrightarrow> agent_run e new l = Inr x))
        (case q of Inl err \<Rightarrow> io_bind (undo target backup vm prev) (\<lambda>_. io_throw (StartFailed err))
         | Inr (Inl err) \<Rightarrow> io_throw (StatusUnknown err)
         | Inr (Inr (Some status)) \<Rightarrow> io_bind (undo target backup vm prev) (\<lambda>_. io_throw (ExitedDuringCheck status))
         | Inr (Inr None) \<Rightarrow> clean_up replacement ra)
        (\<lambda>_ s. swapped target backup old new s \<and> healthy e nr l new) (\<lambda>_. kept target backup old)"
        by (auto split: sum.split option.split intro!: undone triple_throw simp: kept_def)
    qed
    with False show ?thesis by simp
  qed
qed

lemma update_triple:
  assumes "distinct [target, backup, sibling_extension e target ''swagri-new'']" "replacement \<noteq> sibling_extension e target ''swagri-new''"
    "\<forall>m. vm = Some m \<longrightarrow> m \<noteq> target \<and> m \<noteq> backup" "{replacement, ra} \<inter> {target, backup} = {}" "F target = Some old"
  shows "triple (\<lambda>s. file_at s = F) (apply_update e target replacement backup ra nr vm v)
    (\<lambda>_ s. \<exists>new l. F replacement = Some new \<and> swapped target backup old new s \<and> healthy e nr l new \<and>
       (nr \<or> (\<exists>b. F ra = Some b \<and> read_arguments e b = Some l)))
    (\<lambda>_. kept target backup old)"
proof -
  let ?prep = "sibling_extension e target ''swagri-new''"
  have tail: "triple (swapped target backup old new)
      (io_bind (read_marker vm) (\<lambda>prev. io_bind (write_marker e target backup vm v prev) (\<lambda>_.
         if nr then check_version e target replacement backup ra vm prev else start_and_check e l target replacement backup ra vm prev)))
      (\<lambda>_ s. swapped target backup old new s \<and> healthy e nr l new) (\<lambda>_. kept target backup old)" for new l
  proof (rule triple_bind [where R = "\<lambda>_. swapped target backup old new"])
    show "triple (swapped target backup old new) (read_marker vm) (\<lambda>_. swapped target backup old new) (\<lambda>_. kept target backup old)"
      by (rule tripleI) (auto simp: kept_def dest!: read_marker_at)
    show "triple (swapped target backup old new) (io_bind (write_marker e target backup vm v prev) (\<lambda>_.
         if nr then check_version e target replacement backup ra vm prev else start_and_check e l target replacement backup ra vm prev))
      (\<lambda>_ s. swapped target backup old new s \<and> healthy e nr l new) (\<lambda>_. kept target backup old)" for prev
      by (rule triple_bind [OF _ check_triple])
        (use assms in \<open>auto intro!: tripleI dest!: write_marker_at [where old = old]\<close>)
  qed
  have swap: "triple (\<lambda>s. file_at s target = Some old \<and> file_at s ?prep = Some new)
      (io_bind (stop_agent target backup ?prep) (\<lambda>_. activate target backup ?prep)) (\<lambda>_. swapped target backup old new) (\<lambda>_. kept target backup old)" for new
  proof (rule triple_bind [where R = "\<lambda>_ s. swapped ?prep backup old new s"])
    show "triple (\<lambda>s. file_at s target = Some old \<and> file_at s ?prep = Some new) (stop_agent target backup ?prep)
        (\<lambda>_. swapped ?prep backup old new) (\<lambda>_. kept target backup old)"
      by (rule tripleI) (auto simp: kept_def dest: stop_agent_at [OF _ assms(1)])
    show "triple (swapped ?prep backup old new) (activate target backup ?prep) (\<lambda>_. swapped target backup old new) (\<lambda>_. kept target backup old)"
      by (rule tripleI) (auto dest: activate_at [OF _ assms(1)])
  qed
  let ?Q = "\<lambda>_ s. \<exists>new l. F replacement = Some new \<and> swapped target backup old new s \<and> healthy e nr l new \<and>
       (nr \<or> (\<exists>b. F ra = Some b \<and> read_arguments e b = Some l))" and ?E = "\<lambda>_. kept target backup old"
  let ?rest = "\<lambda>l. io_bind (stop_agent target backup ?prep) (\<lambda>_. io_bind (activate target backup ?prep) (\<lambda>_.
     io_bind (read_marker vm) (\<lambda>prev. io_bind (write_marker e target backup vm v prev) (\<lambda>_.
     if nr then check_version e target replacement backup ra vm prev else start_and_check e l target replacement backup ra vm prev))))"
  have rest: "triple (\<lambda>s. file_at s target = Some old \<and> file_at s ?prep = Some new) (?rest l) ?Q ?E"
    if "F replacement = Some new" "nr \<or> (\<exists>b. F ra = Some b \<and> read_arguments e b = Some l)" for new l
  proof -
    have "triple (\<lambda>s. file_at s target = Some old \<and> file_at s ?prep = Some new) (?rest l)
       (\<lambda>_ s. swapped target backup old new s \<and> healthy e nr l new) ?E"
      using triple_bind [OF swap tail] by (simp add: io_bind_assoc)
    then show ?thesis by (rule triple_conseq) (use that in blast)+
  qed
  have stage: "triple (\<lambda>s. file_at s = F) (io_bind (stage_replacement replacement ?prep) (\<lambda>_. ?rest l)) ?Q ?E"
    if l: "nr \<or> (\<exists>b. F ra = Some b \<and> read_arguments e b = Some l)" for l
  proof (rule triple_bind [where R = "\<lambda>_ s. \<exists>new. F replacement = Some new \<and> file_at s target = Some old \<and> file_at s ?prep = Some new"])
    show "triple (\<lambda>s. file_at s = F) (stage_replacement replacement ?prep)
      (\<lambda>_ s. \<exists>new. F replacement = Some new \<and> file_at s target = Some old \<and> file_at s ?prep = Some new) ?E"
      using assms(1,5) by (intro tripleI) (auto simp: kept_def dest!: stage_replacement_at [OF _ assms(2)])
    show "triple (\<lambda>s. \<exists>new. F replacement = Some new \<and> file_at s target = Some old \<and> file_at s ?prep = Some new) (?rest l) ?Q ?E"
      by (rule triple_state_pre, elim exE conjE, rule triple_conseq [OF rest [OF _ l]]) auto
  qed
  have list: "triple (\<lambda>s. file_at s = F) (restart_list e ra nr)
     (\<lambda>l s. file_at s = F \<and> (nr \<or> (\<exists>b. F ra = Some b \<and> read_arguments e b = Some l))) ?E"
    using assms(5) by (intro tripleI) (auto simp: kept_def dest!: restart_list_at split: if_splits)
  show ?thesis
    unfolding apply_update_def Let_def
    apply (rule triple_bind [where R = "\<lambda>_ s. file_at s = F"], rule triple_get, assumption, rule triple_if)
     apply (rule triple_throw, simp add: kept_def assms(5))
    apply (rule triple_bind [where R = "\<lambda>_ s. file_at s = F"], rule triple_get, assumption, rule triple_if)
     apply (rule triple_throw, simp add: kept_def assms(5))
    apply (rule triple_bind [OF list], rule triple_fact, erule conjunct2)
    apply (rule triple_conseq [OF stage], assumption, auto)
    done
qed

text \<open>
  C27. A running program is never lost: whatever system calls fail, and however the update ends, the bytes of the
  old program are in its own place or in the backup; and an update that succeeds leaves exactly the bytes of the
  replacement in the place of the program, the old ones in the backup, and has seen the new program pass its check.
\<close>

theorem updater_never_loses_program:
  assumes "apply_update e target replacement backup ra nr vm v s = (res, s')" "file_at s target = Some old"
    and "distinct [target, backup, sibling_extension e target ''swagri-new'']" "replacement \<noteq> sibling_extension e target ''swagri-new''"
    and "\<forall>m. vm = Some m \<longrightarrow> m \<noteq> target \<and> m \<noteq> backup" "{replacement, ra} \<inter> {target, backup} = {}"
  shows "(file_at s' target = Some old \<or> file_at s' backup = Some old) \<and>
    (res = Inr () \<longrightarrow> (\<exists>new. file_at s replacement = Some new \<and> file_at s' target = Some new \<and> file_at s' backup = Some old \<and>
      (if nr then version_run e new = Inr True
       else \<exists>b l. file_at s ra = Some b \<and> read_arguments e b = Some l \<and> agent_run e new l = Inr (Inr None))))"
proof (cases res)
  case (Inl err)
  with tripleD(2) [OF update_triple [where F = "file_at s", OF assms(3-6,2)] refl] assms(1) show ?thesis by (simp add: kept_def)
next
  case (Inr u)
  with tripleD(1) [OF update_triple [where F = "file_at s", OF assms(3-6,2)] refl] assms(1) show ?thesis by (fastforce simp: healthy_def)
qed

lemma quiet_list: "faults s = [] \<Longrightarrow> (\<exists>l. restart_list e ra nr s = (Inr l, s)) \<or>
    (\<exists>err. restart_list e ra nr s = (Inl err, s) \<and> (\<forall>k. err \<noteq> StatusUnknown k))"
  by (auto simp: restart_list_def io_apply calls_without_faults split: option.splits)

lemma quiet_run: "quiet s F \<Longrightarrow> F target = Some new \<Longrightarrow> run_program f target s = (f new, s)"
  by (simp add: run_program_def io_apply calls_without_faults quiet_def)

text \<open>Without failing calls, all is as before after a failure, except for the one that is not undone.\<close>

definition undone_except :: "string \<Rightarrow> string \<Rightarrow> bytes \<Rightarrow> bytes \<Rightarrow> string \<Rightarrow> update_error \<Rightarrow> (string \<Rightarrow> bytes option) \<Rightarrow> string fs \<Rightarrow> bool" where
  "undone_except target backup old new prep err F s' = (case err of
     StatusUnknown k \<Rightarrow> swapped target backup old new s'
   | _ \<Rightarrow> \<forall>p. p \<noteq> backup \<and> p \<noteq> prep \<longrightarrow> file_at s' p = F p)"

lemma quiet_check:
  assumes "quiet s G" "G target = Some new" "G backup = Some old" "target \<noteq> backup"
    and undone: "\<And>p. p \<noteq> backup \<Longrightarrow> p \<noteq> prep \<Longrightarrow> unmarked vm prev (G(backup := None, target \<mapsto> old)) p = F p"
    and run: "(if nr then check_version e target replacement backup ra vm prev else start_and_check e l target replacement backup ra vm prev) s = (Inl err, s')"
  shows "undone_except target backup old new prep err F s'"
proof -
  obtain t where t: "undo target backup vm prev s = (Inr (), t)" "\<And>p. p \<noteq> backup \<Longrightarrow> p \<noteq> prep \<Longrightarrow> file_at t p = F p"
    using quiet_undo [OF assms(1,3,4), of vm prev] undone by (auto simp: quiet_def)
  have clean: "clean_up replacement ra s \<noteq> (Inl k, u)" for k u using clean_up_at [of replacement ra s "Inl k" u] by auto
  have here: "swapped target backup old new s" using assms(1-3) by (simp add: quiet_def)
  show ?thesis
  proof (cases nr)
    case True
    with run t clean show ?thesis
      by (auto simp: check_version_def quiet_run [OF assms(1,2)] io_apply undone_except_def split: if_splits)
  next
    case False
    with run t clean here show ?thesis
      by (auto simp: start_and_check_def quiet_run [OF assms(1,2)] io_apply undone_except_def split: sum.splits option.splits)
  qed
qed

lemma failed_update:
  assumes "apply_update e target replacement backup ra nr vm v s = (Inl err, s')" "file_at s target = Some old" "faults s = []"
    and paths: "distinct [target, backup, sibling_extension e target ''swagri-new'']" "replacement \<notin> {target, backup, sibling_extension e target ''swagri-new''}"
    and marker: "\<forall>m. vm = Some m \<longrightarrow> m \<notin> {target, backup, sibling_extension e target ''swagri-new''}"
  shows "\<exists>new. (\<forall>k. err = StatusUnknown k \<longrightarrow> file_at s replacement = Some new) \<and>
    undone_except target backup old new (sibling_extension e target ''swagri-new'') err (file_at s) s'"
proof -
  let ?prep = "sibling_extension e target ''swagri-new''" and ?F = "file_at s"
  have q: "quiet s ?F" using assms(3) by (simp add: quiet_def)
  show ?thesis
  proof (cases "?F replacement")
    case None
    with assms(1,2) have "err = ReplacementMissing replacement" "s' = s" by (simp_all add: apply_update_def io_apply is_file_def)
    then show ?thesis by (simp add: undone_except_def)
  next
    case (Some new)
    show ?thesis
    proof (cases "\<exists>l. restart_list e ra nr s = (Inr l, s)")
      case False
      then obtain k where k: "restart_list e ra nr s = (Inl k, s)" "\<forall>j. k \<noteq> StatusUnknown j" using quiet_list [OF assms(3)] by blast
      with assms(1,2) Some have "err = k" "s' = s" by (simp_all add: apply_update_def io_apply is_file_def)
      with k(2) show ?thesis by (auto simp: undone_except_def split: update_error.split)
    next
      case True
      then obtain l where l: "restart_list e ra nr s = (Inr l, s)" by blast
      define F3 where "F3 = ?F(?prep \<mapsto> new, target := None, backup \<mapsto> old, ?prep := None, target \<mapsto> new)"
      obtain s1 where s1: "stage_replacement replacement ?prep s = (Inr (), s1)" "quiet s1 (?F(?prep \<mapsto> new))"
        using quiet_stage [OF q Some] paths(2) by blast
      obtain s2 where s2: "stop_agent target backup ?prep s1 = (Inr (), s2)" "quiet s2 (?F(?prep \<mapsto> new, target := None, backup \<mapsto> old))"
        using quiet_stop [OF s1(2), of target old backup ?prep] assms(2) paths(1) by auto
      obtain s3 where s3: "activate target backup ?prep s2 = (Inr (), s3)" "quiet s3 F3"
        using quiet_activate [OF s2(2), of ?prep new target backup] paths(1) unfolding F3_def by auto
      obtain s4 G where s4: "write_marker e target backup vm v (map_option F3 vm) s3 = (Inr (), s4)" "quiet s4 G"
        "\<forall>q. vm \<noteq> Some q \<longrightarrow> G q = F3 q" using quiet_write_marker [OF s3(2)] by blast
      have tail: "(if nr then check_version e target replacement backup ra vm (map_option F3 vm)
          else start_and_check e l target replacement backup ra vm (map_option F3 vm)) s4 = (Inl err, s')"
        using assms(1) s1(1) s2(1) s3(1) s4(1) quiet_read_marker [OF s3(2), of vm] l Some assms(2)
        by (simp add: apply_update_def io_apply is_file_def Let_def)
      have G: "G target = Some new" "G backup = Some old" using s4(3) marker paths(1) by (auto simp: F3_def)
      have "unmarked vm (map_option F3 vm) (G(backup := None, target \<mapsto> old)) p = ?F p" if "p \<noteq> backup" "p \<noteq> ?prep" for p
        using that s4(3) marker assms(2) unfolding unmarked_def F3_def by (cases vm) auto
      from quiet_check [OF s4(2) G _ this tail] paths(1) Some show ?thesis by auto
    qed
  qed
qed

text \<open>Without failing calls an update to a program that lives succeeds.\<close>

lemma update_succeeds:
  assumes "quiet s F" "F target = Some old" "F replacement = Some new" "F ra = Some b" "read_arguments e b = Some l"
    "agent_run e new l = Inr (Inr None)" "distinct [target, backup, sibling_extension e target ''swagri-new'']"
    "replacement \<noteq> sibling_extension e target ''swagri-new''"
  shows "\<exists>s'. apply_update e target replacement backup ra False None None s = (Inr (), s')"
proof -
  let ?prep = "sibling_extension e target ''swagri-new''"
  obtain s1 where s1: "stage_replacement replacement ?prep s = (Inr (), s1)" "quiet s1 (F(?prep \<mapsto> new))"
    using quiet_stage [OF assms(1,3,8)] by blast
  obtain s2 where s2: "stop_agent target backup ?prep s1 = (Inr (), s2)" "quiet s2 (F(?prep \<mapsto> new, target := None, backup \<mapsto> old))"
    using quiet_stop [OF s1(2), of target old backup ?prep] assms(2,7) by auto
  obtain s3 G where s3: "activate target backup ?prep s2 = (Inr (), s3)" "quiet s3 G" "G target = Some new"
    using quiet_activate [OF s2(2), of ?prep new target backup] assms(7) by fastforce
  have l: "restart_list e ra False s = (Inr l, s)" "is_file target s" "is_file replacement s"
    using assms(1-5) by (auto simp: restart_list_def io_apply calls_without_faults quiet_def is_file_def)
  obtain r t where c: "clean_up replacement ra s3 = (r, t)" by fastforce
  with clean_up_at [OF c] have "apply_update e target replacement backup ra False None None s = (Inr (), t)"
    using l s1(1) s2(1) s3(1) assms(6)
    by (simp add: apply_update_def io_apply Let_def read_marker_def write_marker_def start_and_check_def quiet_run [OF s3(2,3)])
  then show ?thesis ..
qed

text \<open>
  C28. A failed update is undone: when no system call fails, every error leaves every file but the backup and the staged
  copy as it was, the program and the version marker included; the only exception is an unknown status of the started
  program, after which the new program stays in place.
\<close>

theorem failed_update_is_undone:
  assumes "apply_update e target replacement backup ra nr vm v s = (Inl err, s')" "file_at s target = Some old" "faults s = []"
    and "distinct [target, backup, sibling_extension e target ''swagri-new'']"
    and "replacement \<notin> {target, backup, sibling_extension e target ''swagri-new''}"
    and "\<forall>m. vm = Some m \<longrightarrow> m \<notin> {target, backup, sibling_extension e target ''swagri-new''}"
  shows "case err of
      StatusUnknown k \<Rightarrow> file_at s' target = file_at s replacement \<and> file_at s' backup = Some old
    | _ \<Rightarrow> \<forall>p. p \<noteq> backup \<and> p \<noteq> sibling_extension e target ''swagri-new'' \<longrightarrow> file_at s' p = file_at s p"
proof -
  obtain new where "\<forall>k. err = StatusUnknown k \<longrightarrow> file_at s replacement = Some new"
    "undone_except target backup old new (sibling_extension e target ''swagri-new'') err (file_at s) s'"
    using failed_update [OF assms] by blast
  then show ?thesis by (cases err) (simp_all add: undone_except_def)
qed

section \<open>A run\<close>

text \<open>A program \<open>a\<close> holding 1, a replacement \<open>r\<close> holding 2, and checks that the given program passes.\<close>

definition demo_updater :: "bytes \<Rightarrow> updater_env" where
  "demo_updater good = \<lparr>sibling_extension = (\<lambda>t x. t @ x), read_arguments = (\<lambda>_. Some []),
     version_run = (\<lambda>b. Inr (b = good)), agent_run = (\<lambda>b l. Inr (Inr None)), line_bytes = (\<lambda>_. [])\<rparr>"

definition demo_machine :: "string fs" where
  "demo_machine = \<lparr>files = [(''a'', [1]), (''r'', [2])], faults = [], temp_counter = 0\<rparr>"

lemma move_120: "move_away 120 target backup =
     io_bind (io_get (is_file backup)) (\<lambda>old.
     io_bind (if old then ignored (fs_remove backup) else io_return ()) (\<lambda>_.
     io_bind (io_try (fs_rename target backup)) (\<lambda>r.
     case r of Inr _ \<Rightarrow> io_return () | Inl _ \<Rightarrow> move_away 119 target backup)))"
proof -
  have "(120::nat) = Suc 119" by simp
  then show ?thesis by (simp only: move_away.simps(2))
qed

lemma demo_update:
  "fst (apply_update (demo_updater good) ''a'' ''r'' ''b'' ''x'' True None None demo_machine) =
     (if good = [2] then Inr () else Inl VersionCheckFailed)"
  by (auto simp: apply_update_def Let_def io_apply is_file_def demo_machine_def demo_updater_def file_at_def restart_list_def
      stage_replacement_def fs_copy_def stop_agent_def move_120 activate_def read_marker_def write_marker_def check_version_def run_program_def
      undo_def rollback_def clean_up_def ignored_def calls_without_faults put_file_def del_file_def hm_insert_def map_remove_def)

theorem updater_never_loses_program_witness:
  "\<exists>s'. apply_update (demo_updater [2]) ''a'' ''r'' ''b'' ''x'' True None None demo_machine = (Inr (), s') \<and>
     file_at s' ''a'' = Some [2] \<and> file_at s' ''b'' = Some [1]"
proof -
  obtain s' where "apply_update (demo_updater [2]) ''a'' ''r'' ''b'' ''x'' True None None demo_machine = (Inr (), s')"
    using demo_update [of "[2]"] by (simp add: prod_eq_iff)
  from updater_never_loses_program [OF this, of "[1]"] this show ?thesis
    by (auto simp: demo_machine_def demo_updater_def file_at_def)
qed

theorem failed_update_is_undone_witness:
  "\<exists>s'. apply_update (demo_updater [3]) ''a'' ''r'' ''b'' ''x'' True None None demo_machine = (Inl VersionCheckFailed, s') \<and>
     file_at s' ''a'' = Some [1] \<and> file_at s' ''r'' = Some [2]"
proof -
  obtain s' where "apply_update (demo_updater [3]) ''a'' ''r'' ''b'' ''x'' True None None demo_machine = (Inl VersionCheckFailed, s')"
    using demo_update [of "[3]"] by (simp add: prod_eq_iff)
  from failed_update_is_undone [OF this, of "[1]"] this show ?thesis
    by (auto simp: demo_machine_def demo_updater_def file_at_def)
qed

end
