(* ===== verification/Installation.thy ===== *)
theory Installation
  imports Update_Props Updater_Props
begin

text \<open>
  An update from the peer's offer to the running program: the agent's launch of the updater (\<open>Updates\<close>)
  composed with the updater (\<open>Updater\<close>) on the files the agent left.
\<close>



end
