(* ===== verification/Settings.thy ===== *)
theory Settings
  imports Updates
begin

text \<open>
  The agent's settings: the command line (\<open>Args\<close>), the settings of an embedded mobile agent
  (\<open>MobileAgentConfig::into_args\<close>), the check of the resource limits, and the arguments with which the updater starts the next
  agent (\<open>restart_arguments\<close>). Parsing the command line is left to its library. Multiaddresses are their texts, paths are
  strings, and the text of an \<open>f32\<close> is a parameter.
\<close>

record args =
  opt_name :: string
  opt_identity :: "string option"
  opt_listen :: string
  opt_dial :: "string list"
  opt_timeout :: u64
  opt_policy :: update_policy
  opt_trust :: "string option"
  opt_staging :: "string option"
  opt_updater :: "string option"
  opt_android :: "string option"
  opt_daemon :: bool
  opt_max_cpu :: flt
  opt_max_memory :: flt
  opt_poll_seconds :: u64
  opt_calibration :: "string option"
  opt_store :: "string option"
  opt_storage_percent :: flt
  opt_quota :: "u64 option"

record mobile_config =
  mc_name :: string
  mc_data_dir :: string
  mc_max_cpu :: flt
  mc_max_memory :: flt
  mc_quota :: u64
  mc_android :: string

definition into_args :: "update_env \<Rightarrow> mobile_config \<Rightarrow> args" where
  "into_args e c = \<lparr>opt_name = mc_name c, opt_identity = Some (path_join e (mc_data_dir c) ''identity.key''),
     opt_listen = ''/ip4/0.0.0.0/udp/0/quic-v1'', opt_dial = [], opt_timeout = 30, opt_policy = Manual,
     opt_trust = Some (path_join e (mc_data_dir c) ''trusted-update-peers.txt''),
     opt_staging = Some (path_join e (mc_data_dir c) ''updates''),
     opt_updater = Some (path_join e (mc_data_dir c) ''unsupported-updater''), opt_android = Some (mc_android c),
     opt_daemon = True, opt_max_cpu = mc_max_cpu c, opt_max_memory = mc_max_memory c, opt_poll_seconds = 5,
     opt_calibration = Some (path_join e (mc_data_dir c) ''cpu-calibration.json''),
     opt_store = Some (path_join e (mc_data_dir c) ''artifacts''), opt_storage_percent = Fin 5, opt_quota = Some (mc_quota c)\<rparr>"

text \<open>\<open>(a..=b).contains(x)\<close>\<close>

definition between :: "flt \<Rightarrow> flt \<Rightarrow> flt \<Rightarrow> bool" where
  "between a b x = (fl_le a x \<and> fl_le x b)"

definition validate_resource_limits :: "args \<Rightarrow> string + unit" where
  "validate_resource_limits a =
     (if \<not> between (Fin 1) (Fin 100) (opt_max_cpu a) then Inl ''--max-cpu-percent must be between 1 and 100''
      else if \<not> between (Fin 1) (Fin 100) (opt_max_memory a) then Inl ''--max-memory-percent must be between 1 and 100''
      else if opt_poll_seconds a < 2 then Inl ''--resource-poll-seconds must be at least 2''
      else if \<not> between (rnd32 (1 / 10)) (Fin 25) (opt_storage_percent a)
      then Inl ''--artifact-storage-percent must be between 0.1 and 25''
      else Inr ())"

definition policy_name :: "update_policy \<Rightarrow> string" where
  "policy_name p = (case p of Disabled \<Rightarrow> ''disabled'' | Manual \<Rightarrow> ''manual'' | Automatic \<Rightarrow> ''automatic'')"

definition restart_arguments :: "(flt \<Rightarrow> string) \<Rightarrow> args \<Rightarrow> string \<Rightarrow> string \<Rightarrow> string \<Rightarrow> string \<Rightarrow> string \<Rightarrow> string \<Rightarrow> string list" where
  "restart_arguments float_text a identity trust staging_dir updater calibration store_dir =
     [''--name'', opt_name a, ''--identity'', identity, ''--listen'', opt_listen a,
      ''--request-timeout-seconds'', show_word (opt_timeout a), ''--update-policy'', policy_name (opt_policy a),
      ''--update-trust'', trust, ''--update-staging'', staging_dir, ''--updater'', updater,
      ''--max-cpu-percent'', float_text (opt_max_cpu a), ''--max-memory-percent'', float_text (opt_max_memory a),
      ''--resource-poll-seconds'', show_word (opt_poll_seconds a), ''--calibration'', calibration,
      ''--artifact-store'', store_dir, ''--artifact-storage-percent'', float_text (opt_storage_percent a), ''--daemon''] @
     (case opt_android a of None \<Rightarrow> [] | Some p \<Rightarrow> [''--android-update-source'', p]) @
     concat (map (\<lambda>d. [''--dial'', d]) (opt_dial a))"

text \<open>The explicit quota is not among the arguments of the next agent.\<close>

lemma restart_forgets_quota: "restart_arguments float_text (a\<lparr>opt_quota := q\<rparr>) = restart_arguments float_text a"
  by (simp add: restart_arguments_def fun_eq_iff)

end
