(* ===== verification/Agent_Findings.thy ===== *)
theory Agent_Findings
  imports Agent_Refine
begin

text \<open>Where the loop does more than its parts need: closing one of several connections to a peer.\<close>

definition waiting_exchange :: exchange where
  "waiting_exchange = begin_artifact_download demo_exchange_env (ContentId [1]) [PeerId 2] demo_exchange"

definition waiting_agent :: agent where
  "waiting_agent = demo_agent\<lparr>ag_exchange := waiting_exchange, connected_peers := [PeerId 2]\<rparr>"

text \<open>
  The only provider has two connections, and one of them closes. The peer stays among the connected ones, and its request may still
  be answered on the other connection, but the download is given up.
\<close>

lemma spare_connection_ends_download:
  "\<exists>b. handle_swarm_event demo_agent_env any_version (ConnectionClosed (PeerId 2) 1 (\<lambda>m. m)) waiting_agent = (False, b) \<and>
     connected_peers b = [PeerId 2] \<and> downloads (ag_exchange waiting_agent) \<noteq> [] \<and> downloads (ag_exchange b) = []"
proof -
  define x where "x = waiting_exchange"
  have x: "downloads x = [(ContentId [1], (download_new [PeerId 2])\<lparr>next_provider := 0\<rparr>)]" "requests x = [(0, OManifest (PeerId 2) (ContentId [1]))]"
    by (simp_all add: x_def waiting_exchange_def begin_artifact_download_def request_artifact_manifest_def put_download_def ask_def
        demo_exchange_def download_new_def next_active_provider_def hm_insert_def map_remove_def Let_def)
  have "downloads (fail_artifact_provider demo_exchange_env (\<lambda>m. m) (PeerId 2) r x) = []" for r
    by (simp add: fail_artifact_provider_def x artifact_request_context_def fail_request_def handle_artifact_request_failure_def
        download_new_def put_download_def request_artifact_manifest_def next_active_provider_def drop_download_def map_remove_def say_def Let_def)
  then show ?thesis by (simp add: handle_swarm_event_def waiting_agent_def x_def [symmetric] x on_exchange_def announce_def Let_def demo_agent_env_def)
qed

end
