(* ===== verification/Startup.thy ===== *)
theory Startup
  imports Settings Resources "HOL-Library.Sublist"
begin

text \<open>
  What the agent does before its event loop: the paths it uses (\<open>run_agent\<close>, \<open>default_identity_path\<close> and its kin), the quota of its store
  (\<open>disk_quota_bytes\<close>) and its identity (\<open>load_or_create_identity\<close>). A path is a string; its operations, the environment of the process
  and the key pairs of libp2p are arguments. Building the swarm is left to its library.
\<close>

section \<open>Paths\<close>

record process_env =
  local_app_data :: "string option"
  home_dir :: "string option"
  executable :: "string option"
  on_windows :: bool
  joined :: "string \<Rightarrow> string \<Rightarrow> string"
  parent_of :: "string \<Rightarrow> string option"
  file_name_replaced :: "string \<Rightarrow> string \<Rightarrow> string"

definition default_identity_path :: "process_env \<Rightarrow> string" where
  "default_identity_path e = (case local_app_data e of
     Some d \<Rightarrow> joined e (joined e d ''Swagri'') ''identity.key''
   | None \<Rightarrow> (case home_dir e of
       Some h \<Rightarrow> joined e (joined e (joined e (joined e h ''.local'') ''share'') ''swagri'') ''identity.key''
     | None \<Rightarrow> joined e ''.swagri'' ''identity.key''))"

definition default_update_staging :: "process_env \<Rightarrow> string" where
  "default_update_staging e = joined e (case parent_of e (default_identity_path e) of None \<Rightarrow> ''.'' | Some d \<Rightarrow> d) ''updates''"

definition updater_filename :: "process_env \<Rightarrow> string" where
  "updater_filename e = (if on_windows e then ''swagri-updater.exe'' else ''swagri-updater'')"

definition beside_executable :: "process_env \<Rightarrow> string \<Rightarrow> string option" where
  "beside_executable e name = Option.bind (executable e) (\<lambda>x. map_option (\<lambda>d. joined e d name) (parent_of e x))"

definition default_updater_path :: "process_env \<Rightarrow> string" where
  "default_updater_path e = (case beside_executable e (updater_filename e) of None \<Rightarrow> updater_filename e | Some p \<Rightarrow> p)"

definition sibling_android_update_source :: "process_env \<Rightarrow> string fs \<Rightarrow> string option" where
  "sibling_android_update_source e s = (case beside_executable e ''Swagri-Android-Agent.apk'' of
     None \<Rightarrow> None | Some p \<Rightarrow> if is_file p s then Some p else None)"

text \<open>The paths an agent with given settings uses.\<close>

record agent_paths =
  ap_identity :: string
  ap_trust :: string
  ap_staging :: string
  ap_updater :: string
  ap_android :: "string option"
  ap_calibration :: string
  ap_store :: string

definition or_else :: "'a option \<Rightarrow> 'a \<Rightarrow> 'a" where
  "or_else x y = (case x of None \<Rightarrow> y | Some v \<Rightarrow> v)"

definition agent_paths_of :: "process_env \<Rightarrow> string fs \<Rightarrow> args \<Rightarrow> agent_paths" where
  "agent_paths_of e s a = (let identity = or_else (opt_identity a) (default_identity_path e)
     in \<lparr>ap_identity = identity,
         ap_trust = or_else (opt_trust a) (file_name_replaced e identity ''trusted-update-peers.txt''),
         ap_staging = or_else (opt_staging a) (default_update_staging e),
         ap_updater = or_else (opt_updater a) (default_updater_path e),
         ap_android = (case opt_android a of None \<Rightarrow> sibling_android_update_source e s | Some p \<Rightarrow> Some p),
         ap_calibration = or_else (opt_calibration a) (file_name_replaced e identity ''cpu-calibration.json''),
         ap_store = or_else (opt_store a) (file_name_replaced e identity ''artifacts'')\<rparr>)"

text \<open>The arguments of the next agent, as the running one passes them.\<close>

definition next_agent_arguments :: "process_env \<Rightarrow> string fs \<Rightarrow> (flt \<Rightarrow> string) \<Rightarrow> args \<Rightarrow> string list" where
  "next_agent_arguments e s float_text a = (let p = agent_paths_of e s a
     in restart_arguments float_text (a\<lparr>opt_android := ap_android p\<rparr>) (ap_identity p) (ap_trust p) (ap_staging p) (ap_updater p)
          (ap_calibration p) (ap_store p))"

section \<open>The quota of the store\<close>

text \<open>Paths as their components; of several mount points with the same number of components \<open>max_by_key\<close> takes the last.\<close>

record disk =
  mount_point :: "string list"
  total_space :: u64

definition deepest :: "disk list \<Rightarrow> disk option" where
  "deepest ds = fold (\<lambda>d best. case best of
     None \<Rightarrow> Some d | Some b \<Rightarrow> if length (mount_point b) \<le> length (mount_point d) then Some d else Some b) ds None"

definition disk_quota_bytes :: "disk list \<Rightarrow> string list \<Rightarrow> string list option \<Rightarrow> flt \<Rightarrow> string + u64" where
  "disk_quota_bytes disks absolute canonical percent = (case canonical of
     None \<Rightarrow> Inl ''could not resolve artifact store''
   | Some c \<Rightarrow> (case deepest (filter (\<lambda>d. prefix (mount_point d) absolute \<or> prefix (mount_point d) c) disks) of
       None \<Rightarrow> Inl ''could not determine disk capacity''
     | Some d \<Rightarrow> Inr (max (f64_to_u64 (fl_div rnd64 (fl_mul rnd64 (f64_of_nat (unat (total_space d))) percent) (Fin 100))) (1024 * 1024))))"

definition store_quota :: "disk list \<Rightarrow> string list \<Rightarrow> string list option \<Rightarrow> args \<Rightarrow> string + u64" where
  "store_quota disks absolute canonical a = (case opt_quota a of
     Some q \<Rightarrow> Inr q | None \<Rightarrow> disk_quota_bytes disks absolute canonical (opt_storage_percent a))"

section \<open>The identity\<close>

datatype identity_error = IdentityUnreadable io_error | IdentityInvalid | NoDirectory io_error | IdentityUnencodable | IdentityUnsaved io_error

record 'k key_codec =
  decode_keypair :: "bytes \<Rightarrow> 'k option"
  encode_keypair :: "'k \<Rightarrow> bytes option"

text \<open>\<open>generated\<close> is the key pair a new identity would get. Creating the directory may fail.\<close>

definition load_or_create_identity :: "'k key_codec \<Rightarrow> string option \<Rightarrow> string \<Rightarrow> 'k \<Rightarrow> (identity_error, 'k, string fs) io" where
  "load_or_create_identity e parent path generated =
     io_bind (io_get (is_file path)) (\<lambda>there.
       if there then io_bind (io_map_err IdentityUnreadable (fs_read path)) (\<lambda>b.
         case decode_keypair e b of None \<Rightarrow> io_throw IdentityInvalid | Some k \<Rightarrow> io_return k)
       else io_bind (if parent = None \<or> parent = Some [] then io_return () else io_map_err NoDirectory fs_check) (\<lambda>_.
         case encode_keypair e generated of
           None \<Rightarrow> io_throw IdentityUnencodable
         | Some b \<Rightarrow> io_bind (io_map_err IdentityUnsaved (fs_write path b)) (\<lambda>_. io_return generated)))"

text \<open>A success either read the file as it is or wrote the new identity completely.\<close>

lemma identity_success:
  assumes "load_or_create_identity e parent path g s = (Inr k, s')"
  shows "(\<exists>b. file_at s path = Some b \<and> decode_keypair e b = Some k \<and> file_at s' = file_at s) \<or>
    (\<exists>b. file_at s path = None \<and> k = g \<and> encode_keypair e g = Some b \<and> file_at s' path = Some b)"
proof (cases "file_at s path")
  case None
  obtain r s1 where d: "(if parent = None \<or> parent = Some [] then io_return () else io_map_err NoDirectory fs_check) s = (r, s1)" by fastforce
  have s1: "file_at s1 = file_at s"
    using d by (auto simp: io_return_def io_map_err_def fs_check_at split: if_splits prod.splits sum.splits dest: fs_check_at)
  obtain b where b: "encode_keypair e g = Some b"
    using assms None d by (cases r; cases "encode_keypair e g") (auto simp: load_or_create_identity_def io_defs is_file_def split: if_splits)
  obtain w s2 where w: "fs_write path b s1 = (w, s2)" by fastforce
  have "w = Inr () \<and> k = g \<and> s' = s2"
    using assms None d b w by (cases r; cases w) (auto simp: load_or_create_identity_def io_defs is_file_def split: if_splits)
  moreover from this have "file_at s2 path = Some b" using fs_write_at [OF w] by auto
  ultimately show ?thesis using None b by blast
next
  case (Some b)
  obtain r s1 where r: "fs_read path s = (r, s1)" by fastforce
  from fs_read_at [OF r] have "file_at s1 = file_at s" "\<And>x. r = Inr x \<Longrightarrow> x = b" using Some by auto
  then show ?thesis using assms Some r
    by (cases r) (auto simp: load_or_create_identity_def io_defs is_file_def split: option.splits)
qed

text \<open>
  An agent keeps its identity: once a start has succeeded, a later start that finds the file as it was left ends with the same key pair or
  with an error, whatever calls fail, and never with a new identity.
\<close>

lemma identity_is_kept:
  assumes "\<And>k b. encode_keypair e k = Some b \<Longrightarrow> decode_keypair e b = Some k"
    and "load_or_create_identity e parent path g s = (Inr k, s')" "file_at t path = file_at s' path"
    and "load_or_create_identity e parent path g' t = (Inr k', t')"
  shows "k' = k \<and> file_at t' path = file_at s' path"
  using identity_success [OF assms(2)] identity_success [OF assms(4)] assms(1) assms(3) by auto

text \<open>A write of the new identity that fails half way leaves a file that every later start refuses.\<close>

lemma truncated_identity_stops_the_agent:
  assumes "encode_keypair e g = Some b" "decode_keypair e (take n b) = None" "file_at s path = None" "faults s = [None, Some n]"
  shows "\<exists>s'. load_or_create_identity e None path g s = (Inl (IdentityUnsaved SystemFault), s') \<and>
    (\<forall>g'. fst (load_or_create_identity e None path g' s') = Inl IdentityInvalid)"
  using assms by (simp add: load_or_create_identity_def io_defs is_file_def fs_write_def fs_create_def fs_append_def fs_read_def fs_check_def
      take_fault_def)

end
