(* ===== verification/Agent_Start.thy ===== *)
theory Agent_Start
  imports Startup Agent_Refine
begin

text \<open>
  The start of an agent (\<open>run_agent\<close> before its loop), in the order of the code: the limits, the identity, the store and its quota, the
  sources it offers, the update manager, the network and the resource monitor, then the first lines. A start that succeeds is the beginning of a
  run, so what is proved of runs holds of every agent that starts.
\<close>

section \<open>What a start needs\<close>

text \<open>
  Outside the program: the process, the key pairs, what the agent with a key pair uses of its libraries, the disks, the answers of the network
  library to building a swarm, listening and dialing (an error or none), and the computer with its first readings.
\<close>

record 'k start_env =
  st_process :: process_env
  st_codec :: "'k key_codec"
  st_generated :: 'k
  st_libraries :: "'k \<Rightarrow> agent_env"
  st_store :: store_env
  st_disks :: "disk list"
  st_absolute :: "string \<Rightarrow> string list"
  st_canonical :: "string \<Rightarrow> string list option"
  st_on_android :: bool
  st_debugger_name :: string
  st_float_text :: "flt \<Rightarrow> string"
  st_swarm :: "string option"
  st_listen :: "string \<Rightarrow> string option"
  st_dial :: "string \<Rightarrow> string option"
  st_cache :: calibration_env
  st_iterations :: u64
  st_seconds :: flt
  st_machine :: machine
  st_readings :: readings
  st_phone :: mobile_environment

datatype start_error = StartRefused string | StartIdentity identity_error | StartStorage storage_error | StartCalibration io_error

type_synonym 'a start_io = "(start_error, 'a, string fs) io"

abbreviation refusing :: "'a update_io \<Rightarrow> 'a start_io" where
  "refusing \<equiv> io_map_err StartRefused"

section \<open>The store\<close>

definition open_artifacts :: "'k start_env \<Rightarrow> args \<Rightarrow> string \<Rightarrow> spath fs \<Rightarrow> (artifact_store \<times> spath fs) start_io" where
  "open_artifacts e opts path blobs =
     io_bind (refusing (io_map_err (\<lambda>_. ''could not create artifact store at '' @ path) fs_check)) (\<lambda>_.
     io_bind (refusing (io_lift (store_quota (st_disks e) (st_absolute e path) (st_canonical e path) opts))) (\<lambda>quota.
     case store_open (st_store e) quota blobs of
       (Inl err, _) \<Rightarrow> io_throw (StartStorage err)
     | (Inr st, blobs') \<Rightarrow> io_return (st, blobs')))"

section \<open>What the agent offers\<close>

definition own_sources :: "'k start_env \<Rightarrow> update_env \<Rightarrow> string option \<Rightarrow> (update_source option \<times> update_source option \<times> update_source option) update_io" where
  "own_sources e ue android =
     io_bind (if st_on_android e then io_return None else io_bind (build_update_source ue (executable (st_process e))) (\<lambda>x. io_return (Some x))) (\<lambda>agent.
     io_bind (if st_on_android e then io_return None else build_debugger_update_source ue (executable (st_process e)) (st_debugger_name e)) (\<lambda>debugger.
     io_bind (io_get (\<lambda>s. case android of None \<Rightarrow> None | Some p \<Rightarrow> if is_file p s then Some p else None)) (\<lambda>there.
     io_bind (case there of None \<Rightarrow> io_return None
       | Some p \<Rightarrow> io_bind (build_signed_update_source ue p (package_version ue) Android) (\<lambda>x. io_return (Some x))) (\<lambda>package.
     io_return (agent, debugger, package)))))"

section \<open>The network\<close>

definition open_network :: "'k start_env \<Rightarrow> args \<Rightarrow> string + unit" where
  "open_network e opts = (case st_swarm e of
     Some err \<Rightarrow> Inl err
   | None \<Rightarrow> (case st_listen e (opt_listen opts) of
       Some err \<Rightarrow> Inl (''could not listen on '' @ opt_listen opts)
     | None \<Rightarrow> (case find (\<lambda>addr. st_dial e addr \<noteq> None) (opt_dial opts) of
         Some addr \<Rightarrow> Inl (''could not dial '' @ addr)
       | None \<Rightarrow> Inr ())))"

section \<open>The start\<close>

definition no_lines :: event_log where
  "no_lines = \<lparr>printed = [], mobile_events = []\<rparr>"

text \<open>The tables of \<open>run_agent\<close> before its loop. The queue of lines for a phone's host is taken to be drained.\<close>

definition new_agent :: "mobile_environment \<Rightarrow> string list \<Rightarrow> string fs \<Rightarrow> spath fs \<Rightarrow> update_manager \<Rightarrow> resource_monitor \<Rightarrow> agent" where
  "new_agent ph addresses s blobs m mon = \<lparr>
     ag_node = \<lparr>trace = no_lines, clock = 0, request_counter = 1, own_resources = monitored mon, peer_resources = [], outbound_tasks = [],
       matrix_jobs = [], next_request = 0, sent = [], spawned = [], local_queue = [], running_tasks = 0\<rparr>,
     ag_exchange = \<lparr>log_of = no_lines, disk = blobs, downloads = [], requests = [], next_ask = 0, asked = []\<rparr>,
     ag_updates = \<lparr>up_log = no_lines, up_disk = s, manager = m, up_sent = [], launched = []\<rparr>,
     ag_inbound = \<lparr>in_log = no_lines, in_faults = \<lparr>fail_next_matrix_chunk = False, delay_next_matrix_chunk_ms = 0\<rparr>, in_active = 0,
       work_list = [], completed_list = [], answered = [], undelivered = []\<rparr>,
     ag_monitor = mon, ag_phone = ph, known_peers = [], connected_peers = [], store_jobs = [], store_results = [],
     dials = map Inr addresses, update_replies = [], artifact_replies = [], said = no_lines\<rparr>"

definition first_lines :: "agent_env \<Rightarrow> args \<Rightarrow> agent \<Rightarrow> agent" where
  "first_lines x opts a = on_updates (list_trusted (ae_update x)) (on_exchange (emit_artifact_status (ae_exchange x))
     (announce ''STARTED'' [peer_string x (local_peer (ae_node x)), agent_version (ae_inbound x), opt_name opts] a))"

definition started_env :: "'k start_env \<Rightarrow> args \<Rightarrow> 'k \<Rightarrow> agent_paths \<Rightarrow> artifact_store \<Rightarrow> agent_env" where
  "started_env e opts k p st = (let lib = st_libraries e k in lib\<lparr>ae_exchange := (ae_exchange lib)\<lparr>store := st\<rparr>,
     ae_restart := restart_arguments (st_float_text e) (opts\<lparr>opt_android := ap_android p\<rparr>) (ap_identity p) (ap_trust p) (ap_staging p)
       (ap_updater p) (ap_calibration p) (ap_store p)\<rparr>)"

definition start_identity :: "'k start_env \<Rightarrow> args \<Rightarrow> (identity_error, 'k, string fs) io" where
  "start_identity e opts = (let path = or_else (opt_identity opts) (default_identity_path (st_process e))
     in load_or_create_identity (st_codec e) (parent_of (st_process e) path) path (st_generated e))"

definition start_manager :: "'k start_env \<Rightarrow> args \<Rightarrow> update_env \<Rightarrow> agent_paths \<Rightarrow> update_manager update_io" where
  "start_manager e opts ue p = io_bind (own_sources e ue (ap_android p)) (\<lambda>(agent, debugger, package).
     update_manager_new ue (opt_policy opts) (ap_trust p) (ap_staging p) (ap_updater p) agent debugger package)"

definition start_monitor :: "'k start_env \<Rightarrow> args \<Rightarrow> agent_paths \<Rightarrow> (io_error, resource_monitor, string fs) io" where
  "start_monitor e opts p = resource_monitor_new (st_cache e) (st_iterations e) (st_seconds e) (ap_calibration p) (st_machine e)
     (opt_max_cpu opts) (opt_max_memory opts) (st_readings e)"

definition boot_agent :: "'k start_env \<Rightarrow> args \<Rightarrow> spath fs \<Rightarrow> (agent_env \<times> agent) start_io" where
  "boot_agent e opts blobs =
     io_bind (refusing (io_lift (validate_resource_limits opts))) (\<lambda>_.
     io_bind (io_map_err StartIdentity (start_identity e opts)) (\<lambda>k.
     io_bind (io_get (\<lambda>s. agent_paths_of (st_process e) s opts)) (\<lambda>p.
     io_bind (open_artifacts e opts (ap_store p) blobs) (\<lambda>opened.
     let x = started_env e opts k p (fst opened) in
     io_bind (refusing (start_manager e opts (ae_update x) p)) (\<lambda>m.
     io_bind (refusing (io_lift (open_network e opts))) (\<lambda>_.
     io_bind (io_map_err StartCalibration (start_monitor e opts p)) (\<lambda>mon.
     io_bind (io_get (\<lambda>s. new_agent (st_phone e) (opt_dial opts) s (snd opened) m mon)) (\<lambda>a.
     io_return (x, first_lines x opts a)))))))))"

section \<open>A start that succeeds\<close>

lemma io_bind_Inr:
  assumes "io_bind m f s = (Inr r, s')"
  obtains x t where "m s = (Inr x, t)" "f x t = (Inr r, s')"
  using assms by (cases rule: io_bind_cases) auto

lemma io_map_err_Inr: "io_map_err g m s = (Inr x, t) \<longleftrightarrow> m s = (Inr x, t)"
  by (auto simp: io_map_err_def split: prod.splits sum.splits)

lemmas io_simple = io_map_err_Inr io_lift_def io_get_def io_return_def io_throw_def

lemma open_artifacts_success:
  assumes "open_artifacts e opts path blobs s = (Inr (st, blobs'), t)"
  shows "\<exists>q. store_quota (st_disks e) (st_absolute e path) (st_canonical e path) opts = Inr q \<and> store_open (st_store e) q blobs = (Inr st, blobs')"
  using assms unfolding open_artifacts_def
  by (auto elim!: io_bind_Inr simp: io_simple split: prod.splits sum.splits)

lemma calibrated_finite:
  assumes "load_or_calibrate_cpu e n sec path key cores s = (Inr c, s')" "is_finite (measured_score n sec cores)"
  shows "is_finite c"
proof -
  have saved: "c = measured_score n sec cores" if "calibrate_and_save e n sec path key cores t = (Inr c, s')" for t
    using that unfolding calibrate_and_save_def Let_def by (auto elim!: io_bind_Inr simp: io_return_def)
  from assms(1) show ?thesis unfolding load_or_calibrate_cpu_def
    by (auto elim!: io_bind_Inr simp: io_return_def assms(2) dest!: saved split: option.splits if_splits)
qed

lemma boot_success:
  assumes "boot_agent e opts blobs s = (Inr (x, a), s')"
  shows "\<exists>k p opened m c s0 s1 s2 s3 s4. validate_resource_limits opts = Inr () \<and> start_identity e opts s = (Inr k, s0) \<and>
    p = agent_paths_of (st_process e) s0 opts \<and> open_artifacts e opts (ap_store p) blobs s0 = (Inr opened, s1) \<and>
    x = started_env e opts k p (fst opened) \<and> start_manager e opts (ae_update x) p s2 = (Inr m, s3) \<and> open_network e opts = Inr () \<and>
    start_monitor e opts p s4 = (Inr c, s') \<and> a = first_lines x opts (new_agent (st_phone e) (opt_dial opts) s' (snd opened) m c)"
  using assms unfolding boot_agent_def Let_def
  apply (elim io_bind_Inr)
  apply (simp only: io_simple prod.inject sum.inject)
  apply (elim conjE)
  apply hypsubst
  apply (intro exI conjI)
  apply (assumption | rule refl | simp)+
  done

lemma first_lines_parts:
  "ag_node (first_lines x opts a) = ag_node a" "ag_inbound (first_lines x opts a) = ag_inbound a" "ag_monitor (first_lines x opts a) = ag_monitor a"
  "downloads (ag_exchange (first_lines x opts a)) = downloads (ag_exchange a)" "requests (ag_exchange (first_lines x opts a)) = requests (ag_exchange a)"
  "manager (ag_updates (first_lines x opts a)) = manager (ag_updates a)" "dials (first_lines x opts a) = dials a"
proof -
  have "manager (fold (\<lambda>p. tell ''UPDATE_TRUSTED'' [peer_name y p]) ps u) = manager u" for y ps u
    by (induction ps arbitrary: u) (simp_all add: tell_def)
  then show "ag_node (first_lines x opts a) = ag_node a" "ag_inbound (first_lines x opts a) = ag_inbound a" "ag_monitor (first_lines x opts a) = ag_monitor a"
    "downloads (ag_exchange (first_lines x opts a)) = downloads (ag_exchange a)" "requests (ag_exchange (first_lines x opts a)) = requests (ag_exchange a)"
    "manager (ag_updates (first_lines x opts a)) = manager (ag_updates a)" "dials (first_lines x opts a) = dials a"
    by (simp_all add: first_lines_def on_updates_def on_exchange_def announce_def list_trusted_def Let_def)
qed

lemma fold_push_line: "printed (fold push_line ls l) = printed l @ ls"
  by (induction ls arbitrary: l) (simp_all add: push_line_def)

lemma first_line:
  "said a = no_lines \<Longrightarrow> \<exists>ls. printed (said (first_lines x opts a)) =
     event_line ''STARTED'' [peer_string x (local_peer (ae_node x)), agent_version (ae_inbound x), opt_name opts] # ls"
  by (simp add: first_lines_def on_updates_def on_exchange_def announce_def record_lines_def Let_def emit_event_def no_lines_def fold_push_line)

lemma manager_fresh:
  assumes "start_manager e opts ue p s = (Inr m, s')"
  shows "requested m = None \<and> download m = None \<and> policy m = opt_policy opts \<and> trust_path m = ap_trust p \<and> staging m = ap_staging p"
  using assms unfolding start_manager_def update_manager_new_def
  by (auto elim!: io_bind_Inr simp: io_simple split: prod.splits)

lemma store_open_quota: "store_open e q s = (Inr st, t) \<Longrightarrow> quota_bytes st = q"
  unfolding store_open_def by (auto elim!: io_bind_Inr simp: io_return_def)

text \<open>A started agent is a fresh one; the names of the staged downloads have to be apart from the list of trusted peers.\<close>

lemma started_fresh:
  assumes "boot_agent e opts blobs s = (Inr (x, a), s')" "sound_readings (st_readings e)"
    and "is_finite (measured_score (st_iterations e) (st_seconds e) (logical_cores_of (st_machine e)))"
    and "places_apart (ae_update x) (manager (ag_updates a))"
  shows "fresh_agent x (trusted (manager (ag_updates a))) a"
proof -
  from boot_success [OF assms(1)] obtain k p opened m c s0 s1 s2 s3 s4 where
    limits: "validate_resource_limits opts = Inr ()" and p: "p = agent_paths_of (st_process e) s0 opts" "x = started_env e opts k p (fst opened)"
    and m: "start_manager e opts (ae_update x) p s2 = (Inr m, s3)" and c: "start_monitor e opts p s4 = (Inr c, s')" and a: "a = first_lines x opts (new_agent (st_phone e) (opt_dial opts) s' (snd opened) m c)" by blast
  from c obtain score t where score: "load_or_calibrate_cpu (st_cache e) (st_iterations e) (st_seconds e) (ap_calibration p) (hardware_key (st_machine e))
      (logical_cores_of (st_machine e)) s4 = (Inr score, t)" "c = monitor_start (st_machine e) score (opt_max_cpu opts) (opt_max_memory opts) (st_readings e)"
    unfolding start_monitor_def resource_monitor_new_def by (auto elim!: io_bind_Inr simp: io_return_def)
  have "opt_max_cpu opts \<noteq> NaN" using limits by (auto simp: validate_resource_limits_def between_def split: if_splits)
  then have "\<exists>k c' l ml r. c = monitor_start k c' l ml r \<and> is_finite c' \<and> l \<noteq> NaN \<and> sound_readings r"
    using calibrated_finite [OF score(1) assms(3)] score(2) assms(2) by blast
  then show ?thesis
    using manager_fresh [OF m] assms(4)
    by (simp add: fresh_agent_def fresh_node_def fresh_exchange_def fresh_updates_def a first_lines_parts new_agent_def)
qed

text \<open>
  C40. An agent that starts is at the beginning of a run: its limits were checked, its tables are empty, its scheduler has the first snapshot
  of its monitor, it trusts the peers of its list, it has dialed every address it was given, its store has the quota it was started with or
  that of its disk, and the first thing it prints is its own identity, version and name. So everything proved of runs of the agent holds from
  its start.
\<close>

theorem started_agent_runs:
  assumes "boot_agent e opts blobs s = (Inr (x, a), s')" "sound_readings (st_readings e)"
    and "is_finite (measured_score (st_iterations e) (st_seconds e) (logical_cores_of (st_machine e)))"
    and "places_apart (ae_update x) (manager (ag_updates a))"
  shows "agent_run x v (trusted (manager (ag_updates a))) a \<and> validate_resource_limits opts = Inr () \<and>
    open_network e opts = Inr () \<and> dials a = map Inr (opt_dial opts) \<and> policy (manager (ag_updates a)) = opt_policy opts \<and>
    (\<exists>path. store_quota (st_disks e) (st_absolute e path) (st_canonical e path) opts = Inr (quota_bytes (store (ae_exchange x)))) \<and>
    (\<exists>ls. printed (said a) = event_line ''STARTED'' [peer_string x (local_peer (ae_node x)), agent_version (ae_inbound x), opt_name opts] # ls)"
proof -
  from boot_success [OF assms(1)] obtain k p opened m c s0 s1 s2 s3 s4 where
    limits: "validate_resource_limits opts = Inr ()" "open_network e opts = Inr ()" and m: "start_manager e opts (ae_update x) p s2 = (Inr m, s3)"
    and st: "open_artifacts e opts (ap_store p) blobs s0 = (Inr opened, s1)" "x = started_env e opts k p (fst opened)"
    and a: "a = first_lines x opts (new_agent (st_phone e) (opt_dial opts) s' (snd opened) m c)" by blast
  have "agent_run x v (trusted (manager (ag_updates a))) a" by (rule reachable.init) (rule started_fresh [OF assms])
  moreover have "dials a = map Inr (opt_dial opts)" "policy (manager (ag_updates a)) = opt_policy opts"
    using manager_fresh [OF m] by (simp_all add: a first_lines_parts new_agent_def)
  moreover obtain q where q: "store_quota (st_disks e) (st_absolute e (ap_store p)) (st_canonical e (ap_store p)) opts = Inr q"
    "store_open (st_store e) q blobs = (Inr (fst opened), snd opened)" using open_artifacts_success [of e opts "ap_store p" blobs s0 "fst opened" "snd opened" s1] st(1) by auto
  then have "quota_bytes (fst opened) = q" using store_open_quota by blast
  then have "quota_bytes (store (ae_exchange x)) = q" by (simp add: st(2) started_env_def Let_def)
  moreover have "said (new_agent (st_phone e) (opt_dial opts) s' (snd opened) m c) = no_lines" by (simp add: new_agent_def)
  ultimately show ?thesis using limits q(1) first_line [of "new_agent (st_phone e) (opt_dial opts) s' (snd opened) m c" x opts] unfolding a by blast
qed

definition demo_process :: process_env where
  "demo_process = \<lparr>local_app_data = None, home_dir = None, executable = None, on_windows = False, joined = (\<lambda>a b. a @ ''/'' @ b),
     parent_of = (\<lambda>_. None), file_name_replaced = (\<lambda>_ n. n)\<rparr>"

definition demo_start :: "unit start_env" where
  "demo_start = \<lparr>st_process = demo_process, st_codec = \<lparr>decode_keypair = (\<lambda>_. Some ()), encode_keypair = (\<lambda>_. Some [1])\<rparr>, st_generated = (),
     st_libraries = (\<lambda>_. demo_agent_env), st_store = toy_env, st_disks = [], st_absolute = (\<lambda>_. []), st_canonical = (\<lambda>_. None),
     st_on_android = True, st_debugger_name = ''debugger'', st_float_text = (\<lambda>_. ''75''), st_swarm = None, st_listen = (\<lambda>_. None),
     st_dial = (\<lambda>_. None), st_cache = \<lparr>parse_cache = (\<lambda>_. None), cache_json = (\<lambda>_. []), has_parent = (\<lambda>_. False)\<rparr>, st_iterations = 1000000,
     st_seconds = Fin 1, st_machine = demo_machine_kind, st_readings = demo_readings, st_phone = mobile_start\<rparr>"

definition demo_args :: args where
  "demo_args = \<lparr>opt_name = ''n'', opt_identity = Some ''id'', opt_listen = ''l'', opt_dial = [''m''], opt_timeout = 30, opt_policy = Manual,
     opt_trust = Some ''trust'', opt_staging = Some ''stage'', opt_updater = Some ''updater'', opt_android = None, opt_daemon = True,
     opt_max_cpu = Fin 75, opt_max_memory = Fin 50, opt_poll_seconds = 5, opt_calibration = Some ''c'', opt_store = Some ''s'',
     opt_storage_percent = Fin 5, opt_quota = Some 1000\<rparr>"

definition demo_files :: "string fs" where
  "demo_files = \<lparr>files = [], faults = [], temp_counter = 0\<rparr>"

lemma demo_start_identity: "start_identity demo_start demo_args demo_files = (Inr (), put_file ''id'' [1] (put_file ''id'' [] demo_files))"
proof -
  have "faults demo_files = []" "file_at demo_files p = None" for p by (simp_all add: demo_files_def file_at_def)
  then show ?thesis
    by (simp add: start_identity_def demo_start_def demo_args_def load_or_create_identity_def or_else_def demo_process_def Let_def io_defs is_file_def calls_without_faults)
qed

definition demo_after :: "string fs" where
  "demo_after = put_file ''id'' [1] (put_file ''id'' [] demo_files)"

lemma demo_after: "faults demo_after = []" "file_at demo_after p = (if p = ''id'' then Some [1] else None)"
  by (simp_all add: demo_after_def demo_files_def) (simp add: file_at_def)

lemma demo_rest:
  "open_artifacts demo_start demo_args path (empty_fs []) demo_after = (Inr (\<lparr>env = toy_env, quota_bytes = 1000\<rparr>, empty_fs []), demo_after)"
  "start_manager demo_start demo_args ue (agent_paths_of demo_process demo_after demo_args) demo_after =
     (Inr \<lparr>policy = Manual, trust_path = ''trust'', staging = ''stage'', updater_path = ''updater'', trusted = {}, agent_source = None, debugger_source = None,
        android_source = None, requested = None, download = None\<rparr>, demo_after)"
  "open_network demo_start demo_args = Inr ()"
  "\<exists>mon s. start_monitor demo_start demo_args (agent_paths_of demo_process demo_after demo_args) demo_after = (Inr mon, s)"
proof -
  note defs = demo_start_def demo_args_def demo_process_def io_defs calls_without_faults demo_after
  note paths = agent_paths_of_def or_else_def sibling_android_update_source_def beside_executable_def
  show "open_artifacts demo_start demo_args path (empty_fs []) demo_after = (Inr (\<lparr>env = toy_env, quota_bytes = 1000\<rparr>, empty_fs []), demo_after)"
    by (simp add: open_artifacts_def store_quota_def store_open_def create_dir_def empty_fs_def defs)
  show "start_manager demo_start demo_args ue (agent_paths_of demo_process demo_after demo_args) demo_after =
     (Inr \<lparr>policy = Manual, trust_path = ''trust'', staging = ''stage'', updater_path = ''updater'', trusted = {}, agent_source = None, debugger_source = None,
        android_source = None, requested = None, download = None\<rparr>, demo_after)"
    by (simp add: start_manager_def own_sources_def update_manager_new_def load_trusted_peers_def is_file_def paths Let_def defs)
  show "open_network demo_start demo_args = Inr ()" by (simp add: open_network_def defs)
  show "\<exists>mon s. start_monitor demo_start demo_args (agent_paths_of demo_process demo_after demo_args) demo_after = (Inr mon, s)"
    by (simp add: start_monitor_def resource_monitor_new_def load_or_calibrate_cpu_def calibrate_and_save_def paths Let_def defs)
qed

lemma demo_limits: "validate_resource_limits demo_args = Inr ()"
proof -
  have "fl_le (rnd32 (1 / 10)) (rnd32 5)" by (rule rnd32_mono) simp_all
  then show ?thesis using rnd32_int [of 5] by (simp add: validate_resource_limits_def demo_args_def between_def)
qed

lemma demo_boots:
  "\<exists>x a s'. boot_agent demo_start demo_args (empty_fs []) demo_files = (Inr (x, a), s') \<and> ae_update x = demo_update_env \<and>
     staging (manager (ag_updates a)) = ''stage'' \<and> trust_path (manager (ag_updates a)) = ''trust''"
proof -
  obtain mon s where mon: "start_monitor demo_start demo_args (agent_paths_of demo_process demo_after demo_args) demo_after = (Inr mon, s)"
    using demo_rest(4) by blast
  have "st_process demo_start = demo_process" "ae_update (started_env demo_start demo_args () p st) = demo_update_env" for p st
    by (simp_all add: demo_start_def started_env_def Let_def demo_agent_env_def)
  then show ?thesis
    by (simp add: boot_agent_def io_bind_def io_map_err_def io_lift_def io_get_def io_return_def demo_limits demo_start_identity demo_after_def [symmetric]
        demo_rest(1-3) mon Let_def first_lines_parts new_agent_def)
qed

theorem started_agent_runs_witness:
  "\<exists>x a s'. boot_agent demo_start demo_args (empty_fs []) demo_files = (Inr (x, a), s') \<and>
     agent_run x any_version (trusted (manager (ag_updates a))) a \<and> dials a = [Inr ''m'']"
proof -
  obtain x a s' where boot: "boot_agent demo_start demo_args (empty_fs []) demo_files = (Inr (x, a), s')"
    and env: "ae_update x = demo_update_env" "staging (manager (ag_updates a)) = ''stage''" "trust_path (manager (ag_updates a)) = ''trust''"
    using demo_boots by blast
  have "sound_readings (st_readings demo_start)" by (simp add: sound_readings_def demo_readings_def demo_start_def)
  moreover have "rnd64 1000000 = Fin 1000000" "rnd64 4 = Fin 4" "rnd64 1 = Fin 1"
    using rnd64_int [of 1000000] rnd64_int [of 4] rnd64_int [of 1] by simp_all
  then have "is_finite (measured_score (st_iterations demo_start) (st_seconds demo_start) (logical_cores_of (st_machine demo_start)))"
    by (simp add: measured_score_def demo_start_def demo_machine_kind_def logical_cores_of_def f64_of_nat_def)
  moreover have "places_apart (ae_update x) (manager (ag_updates a))"
    unfolding env(1) by (simp add: places_apart_def demo_joins download_path_def env(2,3)) (simp add: demo_update_env_def)
  ultimately show ?thesis using started_agent_runs [OF boot, of any_version] boot by (auto simp: demo_args_def)
qed

text \<open>A start with limits out of range touches nothing.\<close>

lemma refused_limits:
  assumes "validate_resource_limits opts = Inl err"
  shows "boot_agent e opts blobs s = (Inl (StartRefused err), s)"
  by (simp add: boot_agent_def io_bind_def io_map_err_def io_lift_def assms)

end
