(* ===== verification/Terminal.thy ===== *)
theory Terminal
  imports Events "HOL-Library.Sublist"
begin

text \<open>
  What the debugger does to a line of the agent's output before it reads it: terminal escape sequences are removed
  (\<open>strip_ansi_codes\<close>) and the line is classified (\<open>classify_agent_log\<close>). A string is its UTF-8 bytes; indexing a \<open>str\<close>
  inside a character panics, which is \<open>None\<close>.
\<close>

section \<open>UTF-8\<close>

definition continues :: "char \<Rightarrow> bool" where
  "continues c = (0x80 \<le> (of_char c :: nat) \<and> of_char c < (0xC0 :: nat))"

text \<open>\<open>char::len_utf8\<close> of the character that starts with a byte.\<close>

definition utf8_length :: "char \<Rightarrow> nat" where
  "utf8_length c = (let b = of_char c :: nat in if b < 0x80 then 1 else if b < 0xE0 then 2 else if b < 0xF0 then 3 else 4)"

lemma utf8_length_pos [simp]: "0 < utf8_length c"
  by (simp add: utf8_length_def Let_def)

lemma after_character [simp]: "Suc n - utf8_length c \<le> n"
  using utf8_length_pos [of c] by linarith

text \<open>Bytes of whole characters, as every \<open>str\<close> has.\<close>

function utf8_ok :: "string \<Rightarrow> bool" where
  "utf8_ok [] = True"
| "utf8_ok (c # cs) = (\<not> continues c \<and> length (take (utf8_length c - 1) cs) = utf8_length c - 1 \<and>
     (\<forall>d\<in>set (take (utf8_length c - 1) cs). continues d) \<and> utf8_ok (drop (utf8_length c - 1) cs))"
  by pat_completeness auto

termination
  by (relation "measure length") auto

section \<open>Escape sequences\<close>

definition ESC :: char where "ESC = CHR 0x1B"
definition BEL :: char where "BEL = CHR 0x07"

text \<open>The rest after a control sequence, and after an operating system command.\<close>

fun skip_control :: "string \<Rightarrow> string" where
  "skip_control [] = []"
| "skip_control (c # cs) = (if 0x40 \<le> (of_char c :: nat) \<and> of_char c \<le> (0x7E :: nat) then cs else skip_control cs)"

fun skip_command :: "string \<Rightarrow> string" where
  "skip_command [] = []"
| "skip_command (c # cs) =
     (if c = BEL then cs else if c = ESC \<and> take 1 cs = [CHR 0x5C] then drop 1 cs else skip_command cs)"

lemma skip_shorter: "length (skip_control cs) \<le> length cs" "length (skip_command cs) \<le> length cs"
  by (induction cs) auto

function strip_ansi_codes :: "string \<Rightarrow> string option" where
  "strip_ansi_codes [] = Some []"
| "strip_ansi_codes (c # cs) =
     (if c \<noteq> ESC then
        if continues c then None
        else map_option ((@) (take (utf8_length c) (c # cs))) (strip_ansi_codes (drop (utf8_length c) (c # cs)))
      else case cs of
        [] \<Rightarrow> Some []
      | d # ds \<Rightarrow>
          if d = CHR ''['' then strip_ansi_codes (skip_control ds)
          else if d = CHR '']'' then strip_ansi_codes (skip_command ds)
          else strip_ansi_codes ds)"
  by pat_completeness auto

termination
  by (relation "measure length") (auto simp: skip_shorter le_imp_less_Suc less_Suc_eq_le intro: le_SucI)

section \<open>Levels\<close>

datatype log_level = Info | Event | Warning | Error

definition level_label :: "log_level \<Rightarrow> string" where
  "level_label l = (case l of Info \<Rightarrow> ''INFO'' | Event \<Rightarrow> ''EVENT'' | Warning \<Rightarrow> ''WARN'' | Error \<Rightarrow> ''ERROR'')"

definition ascii_upper :: "char \<Rightarrow> char" where
  "ascii_upper c = (let b = of_char c :: nat in if 97 \<le> b \<and> b \<le> 122 then char_of (b - 32) else c)"

definition says :: "string \<Rightarrow> string \<Rightarrow> bool" where
  "says line word = sublist word line"

definition classify_agent_log :: "string \<Rightarrow> log_level" where
  "classify_agent_log line =
     (let upper = map ascii_upper line
      in if says upper ''ERROR'' \<or> says upper ''FAILED'' \<or> says upper ''REJECTED'' \<or> says upper ''PANIC'' then Error
         else if says upper ''WARN'' \<or> says upper ''DISCONNECTED'' \<or> says upper ''INTERRUPTED'' \<or> says upper ''TIMEOUT'' then Warning
         else if prefix (''SWAGRI_EVENT'' @ [TAB]) line then Event
         else Info)"

end
