(* ===== verification/Terminal_Props.thy ===== *)
theory Terminal_Props
  imports Terminal
begin

text \<open>
  Stripping of escape sequences: what exactly is removed and on which lines the debugger panics; event lines are read back through it.
\<close>

section \<open>Bytes and characters\<close>

lemma ascii_alone [simp]:
  "utf8_length ESC = 1" "utf8_length BEL = 1" "\<not> continues ESC" "\<not> continues BEL"
  "utf8_length (CHR 0x5C) = 1" "\<not> continues (CHR 0x5C)"
  by (simp_all add: utf8_length_def continues_def ESC_def BEL_def)

lemma ascii_length: "(of_char c :: nat) < 0x80 \<Longrightarrow> utf8_length c = 1"
  by (simp add: utf8_length_def)

lemma long_length: "0x80 \<le> (of_char c :: nat) \<Longrightarrow> 1 < utf8_length c"
  by (simp add: utf8_length_def Let_def)

lemma skip_continued:
  assumes "\<forall>d\<in>set xs. continues d"
  shows "skip_control (xs @ ys) = skip_control ys" "skip_command (xs @ ys) = skip_command ys"
  using assms by (induction xs) (auto simp: continues_def ESC_def BEL_def)

lemma utf8_ok_split:
  assumes "utf8_ok (c # cs)"
  obtains xs ys where "cs = xs @ ys" "\<forall>d\<in>set xs. continues d" "length xs = utf8_length c - 1" "utf8_ok ys"
  using assms append_take_drop_id [of "utf8_length c - 1" cs] by (metis utf8_ok.simps(2))

lemma skip_ok_both: "utf8_ok cs \<Longrightarrow> utf8_ok (skip_control cs) \<and> utf8_ok (skip_command cs)"
proof (induction cs rule: utf8_ok.induct)
  case (2 c cs)
  obtain xs ys where s: "cs = xs @ ys" "\<forall>d\<in>set xs. continues d" "length xs = utf8_length c - 1" "utf8_ok ys"
    using 2(2) by (rule utf8_ok_split)
  have ih: "utf8_ok (skip_control ys)" "utf8_ok (skip_command ys)" using 2(1) s(3,4) by (simp_all add: s(1))
  have tail: "xs = []" "utf8_ok cs" if "(of_char c :: nat) < 0x80" using s ascii_length [OF that] by simp_all
  have "utf8_ok (skip_control (c # cs))"
    using ih(1) tail(2) by (auto simp: s(1) skip_continued [OF s(2)])
  moreover have "utf8_ok (skip_command (c # cs))"
  proof (cases "c = BEL \<or> c = ESC")
    case True
    then have "(of_char c :: nat) < 0x80" by (auto simp: BEL_def ESC_def)
    note tail = tail [OF this]
    have "utf8_ok (drop 1 cs)" if "take 1 cs = [CHR 0x5C]"
      using that tail(2) by (cases cs) auto
    with tail s(1) ih(2) show ?thesis by auto
  next
    case False
    with ih(2) show ?thesis by (simp add: s(1) skip_continued [OF s(2)])
  qed
  ultimately show ?case ..
qed simp

lemmas skip_ok = skip_ok_both [THEN conjunct1] skip_ok_both [THEN conjunct2]

lemma skip_suffix: "suffix (skip_control cs) cs" "suffix (skip_command cs) cs"
proof -
  show "suffix (skip_control cs) cs" by (induction cs) (auto intro: suffix_ConsI)
  show "suffix (skip_command cs) cs"
    by (induction cs) (auto intro: suffix_ConsI suffix_order.trans [OF suffix_drop])
qed

section \<open>Stripping\<close>

lemma strip_plain: "utf8_ok v \<Longrightarrow> ESC \<notin> set v \<Longrightarrow> strip_ansi_codes v = Some v"
proof (induction v rule: strip_ansi_codes.induct)
  case (2 c cs)
  obtain xs ys where s: "cs = xs @ ys" "\<forall>d\<in>set xs. continues d" "length xs = utf8_length c - 1" "utf8_ok ys"
    using 2(5) by (rule utf8_ok_split)
  have len: "utf8_length c = Suc (length xs)" using s(3) utf8_length_pos [of c] by linarith
  have c: "c \<noteq> ESC" "\<not> continues c" using 2(5,6) by auto
  have "strip_ansi_codes ys = Some ys" using 2(1) [OF c] 2(6) s(1,4) len by simp
  then show ?case using c len by (simp add: s(1))
qed simp

lemma strip_panics:
  assumes "utf8_ok (u @ ESC # c # rest)" "ESC \<notin> set u" "0x80 \<le> (of_char c :: nat)"
  shows "strip_ansi_codes (u @ ESC # c # rest) = None"
  using assms
proof (induction u rule: length_induct)
  case (1 u)
  show ?case
  proof (cases u)
    case Nil
    have c: "utf8_ok (c # rest)" using 1(2) Nil by simp
    obtain xs ys where s: "rest = xs @ ys" "\<forall>d\<in>set xs. continues d" "length xs = utf8_length c - 1"
      using c by (rule utf8_ok_split)
    with long_length [OF 1(4)] obtain d xs' where "xs = d # xs'" by (cases xs) auto
    with s have "\<exists>d r. rest = d # r \<and> continues d" by auto
    then obtain d r where d: "rest = d # r" "continues d" by blast
    have "d \<noteq> ESC" using d(2) by auto
    moreover have "c \<noteq> CHR ''['' \<and> c \<noteq> CHR '']''" using 1(4) by auto
    ultimately show ?thesis using d by (simp add: Nil)
  next
    case (Cons a u')
    obtain xs ys where s: "u' @ ESC # c # rest = xs @ ys" "\<forall>d\<in>set xs. continues d" "length xs = utf8_length a - 1" "utf8_ok ys"
      using 1(2) unfolding Cons append_Cons by (rule utf8_ok_split)
    have len: "utf8_length a = Suc (length xs)" using s(3) utf8_length_pos [of a] by linarith
    have "length xs \<le> length u'"
    proof (rule ccontr)
      assume "\<not> length xs \<le> length u'"
      then have "(u' @ ESC # c # rest) ! length u' \<in> set xs" unfolding s(1) by (simp add: nth_append)
      with s(2) show False by auto
    qed
    then obtain u2 where u2: "u' = xs @ u2" "ys = u2 @ ESC # c # rest"
      using s(1) by (metis append_eq_append_conv_if append_take_drop_id)
    have "strip_ansi_codes (u2 @ ESC # c # rest) = None"
      using 1(1) [rule_format, of u2] s(4) 1(3,4) unfolding u2 Cons by simp
    moreover have "a \<noteq> ESC" "\<not> continues a" using 1(2,3) Cons by auto
    ultimately show ?thesis by (simp add: Cons u2 len)
  qed
qed

section \<open>What exactly is removed\<close>

text \<open>
  The grammar of a line: words without an escape; a control sequence, whose parameters hold no byte from \<open>@\<close> to \<open>~\<close> and which one such
  byte ends; an operating system command, ended by the first \<open>BEL\<close> or \<open>ESC \\<close>; an escape with any other ASCII character. The end
  of the line may cut a sequence short.
\<close>

datatype piece = Words string | Control_Sequence string char | System_Command string string | Escape_Pair char

datatype line_end = Complete | Open_Control string | Open_Command string | Lone_Escape

definition ends_control :: "char \<Rightarrow> bool" where
  "ends_control c = (0x40 \<le> (of_char c :: nat) \<and> of_char c \<le> (0x7E :: nat))"

definition command_text :: "string \<Rightarrow> bool" where
  "command_text b = (BEL \<notin> set b \<and> \<not> sublist [ESC, CHR 0x5C] b)"

fun piece_ok :: "piece \<Rightarrow> bool" where
  "piece_ok (Words t) = (utf8_ok t \<and> ESC \<notin> set t)"
| "piece_ok (Control_Sequence b c) = ((\<forall>x\<in>set b. \<not> ends_control x) \<and> ends_control c)"
| "piece_ok (System_Command b e) = (command_text b \<and> (e = [BEL] \<or> e = [ESC, CHR 0x5C]))"
| "piece_ok (Escape_Pair c) = ((of_char c :: nat) < 0x80 \<and> c \<noteq> CHR ''['' \<and> c \<noteq> CHR '']'')"

fun line_end_ok :: "line_end \<Rightarrow> bool" where
  "line_end_ok (Open_Control b) = (\<forall>x\<in>set b. \<not> ends_control x)"
| "line_end_ok (Open_Command b) = command_text b"
| "line_end_ok _ = True"

fun written :: "piece \<Rightarrow> string" where
  "written (Words t) = t"
| "written (Control_Sequence b c) = ESC # CHR ''['' # b @ [c]"
| "written (System_Command b e) = ESC # CHR '']'' # b @ e"
| "written (Escape_Pair c) = [ESC, c]"

fun written_end :: "line_end \<Rightarrow> string" where
  "written_end Complete = []"
| "written_end (Open_Control b) = ESC # CHR ''['' # b"
| "written_end (Open_Command b) = ESC # CHR '']'' # b"
| "written_end Lone_Escape = [ESC]"

text \<open>What a piece leaves: words stay, everything else goes.\<close>

fun kept :: "piece \<Rightarrow> string" where
  "kept (Words t) = t"
| "kept _ = []"

lemma skip_control_body: "\<forall>x\<in>set b. \<not> ends_control x \<Longrightarrow> skip_control (b @ r) = skip_control r"
  by (induction b) (auto simp: ends_control_def)

lemma sublist_Cons_pair: "sublist [x, y] (a # b) \<longleftrightarrow> (a = x \<and> take 1 b = [y]) \<or> sublist [x, y] b"
  by (cases b) (auto simp: sublist_Cons_right)

lemma skip_command_body:
  assumes "command_text b" "take 1 r \<noteq> [CHR 0x5C]"
  shows "skip_command (b @ r) = skip_command r"
  using assms
proof (induction b)
  case (Cons a b)
  then have b: "command_text b" "a \<noteq> BEL" "\<not> (a = ESC \<and> take 1 b = [CHR 0x5C])"
    unfolding command_text_def sublist_Cons_pair by auto
  have "\<not> (a = ESC \<and> take 1 (b @ r) = [CHR 0x5C])" using b(3) Cons.prems(2) by (cases b) auto
  with b(2) Cons.IH [OF b(1) Cons.prems(2)] show ?case by (simp only: append_Cons skip_command.simps if_False)
qed simp

lemma skip_piece:
  "piece_ok (Control_Sequence b c) \<Longrightarrow> skip_control (b @ c # r) = r"
  "piece_ok (System_Command b e) \<Longrightarrow> skip_command (b @ e @ r) = r"
proof -
  show "piece_ok (Control_Sequence b c) \<Longrightarrow> skip_control (b @ c # r) = r"
    using skip_control_body [of b "c # r"] by (simp add: ends_control_def)
  show "piece_ok (System_Command b e) \<Longrightarrow> skip_command (b @ e @ r) = r"
    using skip_command_body [of b "e @ r"] by (auto simp: ESC_def BEL_def)
qed

lemma utf8_ok_append: "utf8_ok t \<Longrightarrow> utf8_ok (t @ r) = utf8_ok r"
proof (induction t rule: utf8_ok.induct)
  case (2 c cs)
  obtain xs ys where s: "cs = xs @ ys" "\<forall>d\<in>set xs. continues d" "length xs = utf8_length c - 1" "utf8_ok ys"
    using 2(2) by (rule utf8_ok_split)
  have "utf8_ok (ys @ r) = utf8_ok r" using 2(1) s by simp
  then show ?case using 2(2) s by simp
qed simp

lemma strip_words: "utf8_ok t \<Longrightarrow> ESC \<notin> set t \<Longrightarrow> strip_ansi_codes (t @ r) = map_option ((@) t) (strip_ansi_codes r)"
proof (induction t rule: utf8_ok.induct)
  case 1
  show ?case by (cases "strip_ansi_codes r") simp_all
next
  case (2 c cs)
  obtain xs ys where s: "cs = xs @ ys" "\<forall>d\<in>set xs. continues d" "length xs = utf8_length c - 1" "utf8_ok ys"
    using 2(2) by (rule utf8_ok_split)
  have len: "utf8_length c = Suc (length xs)" using s(3) utf8_length_pos [of c] by linarith
  have "strip_ansi_codes (ys @ r) = map_option ((@) ys) (strip_ansi_codes r)" using 2(1,3) s by simp
  moreover have "c \<noteq> ESC" "\<not> continues c" using 2(2,3) by auto
  ultimately show ?case using len by (cases "strip_ansi_codes r") (simp_all add: s(1))
qed

lemma strip_piece:
  assumes "piece_ok p"
  shows "strip_ansi_codes (written p @ r) = map_option ((@) (kept p)) (strip_ansi_codes r)"
proof (cases p)
  case (Words t)
  with strip_words assms show ?thesis by simp
next
  case (Control_Sequence b c)
  with skip_piece(1) [of b c r] assms show ?thesis by (cases "strip_ansi_codes r") simp_all
next
  case (System_Command b e)
  with skip_piece(2) [of b e r] assms show ?thesis by (cases "strip_ansi_codes r") simp_all
next
  case (Escape_Pair c)
  with assms show ?thesis by (cases "strip_ansi_codes r") simp_all
qed

lemma strip_pieces:
  "\<forall>p\<in>set ps. piece_ok p \<Longrightarrow>
   strip_ansi_codes (concat (map written ps) @ r) = map_option ((@) (concat (map kept ps))) (strip_ansi_codes r)"
proof (induction ps)
  case Nil
  show ?case by (cases "strip_ansi_codes r") simp_all
next
  case (Cons p ps)
  then show ?case by (cases "strip_ansi_codes r") (simp_all add: strip_piece)
qed

lemma strip_end: "line_end_ok e \<Longrightarrow> strip_ansi_codes (written_end e) = Some []"
  using skip_control_body [of _ "[]"] skip_command_body [of _ "[]"] by (cases e) simp_all

lemma utf8_ok_after:
  assumes "piece_ok p" "utf8_ok (written p @ r)"
  shows "utf8_ok r"
proof (cases p)
  case (Words t)
  with assms show ?thesis by (simp add: utf8_ok_append)
next
  case (Control_Sequence b c)
  then have "utf8_ok (b @ c # r)" using assms(2) by (simp add: utf8_length_def continues_def ESC_def)
  from skip_ok(1) [OF this] skip_piece(1) [of b c r] assms(1) Control_Sequence show ?thesis by simp
next
  case (System_Command b e)
  then have "utf8_ok (b @ e @ r)" using assms(2) by (simp add: utf8_length_def continues_def ESC_def)
  from skip_ok(2) [OF this] skip_piece(2) [of b e r] assms(1) System_Command show ?thesis by simp
next
  case (Escape_Pair c)
  with assms ascii_length [of c] show ?thesis by (simp add: utf8_length_def continues_def ESC_def)
qed

lemma utf8_ok_after_pieces:
  "\<forall>p\<in>set ps. piece_ok p \<Longrightarrow> utf8_ok (concat (map written ps) @ r) \<Longrightarrow> utf8_ok r"
proof (induction ps)
  case (Cons p ps)
  then have "utf8_ok (concat (map written ps) @ r)" using utf8_ok_after [of p "concat (map written ps) @ r"] by simp
  with Cons show ?case by simp
qed simp

lemma control_split: "\<exists>b. (\<forall>x\<in>set b. \<not> ends_control x) \<and> (cs = b \<or> (\<exists>c r. ends_control c \<and> cs = b @ c # r))"
proof (cases "\<exists>x\<in>set cs. ends_control x")
  case True
  from split_list_first_prop [OF this] show ?thesis by blast
qed blast

lemma command_split:
  "\<exists>b. command_text b \<and> (cs = b \<or> (\<exists>e r. (e = [BEL] \<or> e = [ESC, CHR 0x5C]) \<and> cs = b @ e @ r))"
proof (induction cs)
  case Nil
  show ?case by (rule exI [of _ "[]"]) (simp add: command_text_def)
next
  case (Cons c cs)
  then obtain b where b: "command_text b" "cs = b \<or> (\<exists>e r. (e = [BEL] \<or> e = [ESC, CHR 0x5C]) \<and> cs = b @ e @ r)" by blast
  have nil: "command_text []" by (simp add: command_text_def)
  consider "c = BEL" | "c = ESC" "take 1 cs = [CHR 0x5C]" | "c \<noteq> BEL" "\<not> (c = ESC \<and> take 1 cs = [CHR 0x5C])" by blast
  then show ?case
  proof cases
    case 1
    then have "c # cs = [] @ [BEL] @ cs" by simp
    with nil show ?thesis by blast
  next
    case 2
    then have "c # cs = [] @ [ESC, CHR 0x5C] @ drop 1 cs" by (cases cs) simp_all
    with nil show ?thesis by blast
  next
    case 3
    have "\<not> (c = ESC \<and> take 1 b = [CHR 0x5C])"
    proof
      assume "c = ESC \<and> take 1 b = [CHR 0x5C]"
      with b(2) have "c = ESC \<and> take 1 cs = [CHR 0x5C]" by (cases b) auto
      with 3(2) show False by simp
    qed
    with b(1) 3(1) have "command_text (c # b)" unfolding command_text_def sublist_Cons_pair by auto
    moreover have "c # cs = c # b \<or> (\<exists>e r. (e = [BEL] \<or> e = [ESC, CHR 0x5C]) \<and> c # cs = (c # b) @ e @ r)" using b(2) by auto
    ultimately show ?thesis by blast
  qed
qed

text \<open>How a line ends after its pieces: as a line may end, or with an escape before a character of several bytes.\<close>

definition tail_ok :: "string \<Rightarrow> bool" where
  "tail_ok t = ((\<exists>e. line_end_ok e \<and> t = written_end e) \<or> (\<exists>c r. t = ESC # c # r \<and> 0x80 \<le> (of_char c :: nat)))"

lemma pieces_cons:
  assumes "piece_ok p" "\<exists>ps t. (\<forall>p\<in>set ps. piece_ok p) \<and> tail_ok t \<and> r = concat (map written ps) @ t"
  shows "\<exists>ps t. (\<forall>p\<in>set ps. piece_ok p) \<and> tail_ok t \<and> written p @ r = concat (map written ps) @ t"
proof -
  from assms(2) obtain ps t where ps: "\<forall>p\<in>set ps. piece_ok p" "tail_ok t" "r = concat (map written ps) @ t" by blast
  with assms(1) have "(\<forall>q\<in>set (p # ps). piece_ok q) \<and> tail_ok t \<and> written p @ r = concat (map written (p # ps)) @ t" by simp
  then show ?thesis by blast
qed

lemma pieces_end: "tail_ok v \<Longrightarrow> \<exists>ps t. (\<forall>p\<in>set ps. piece_ok p) \<and> tail_ok t \<and> v = concat (map written ps) @ t"
  by (rule exI [of _ "[]"]) simp

lemma line_pieces:
  "utf8_ok v \<Longrightarrow> \<exists>ps t. (\<forall>p\<in>set ps. piece_ok p) \<and> tail_ok t \<and> v = concat (map written ps) @ t"
proof (induction v rule: length_induct)
  case (1 v)
  have rest: "\<exists>ps t. (\<forall>p\<in>set ps. piece_ok p) \<and> tail_ok t \<and> v = concat (map written ps) @ t"
    if "piece_ok p" "v = written p @ r" "written p \<noteq> []" for p r
  proof -
    have "utf8_ok r" using utf8_ok_after [OF that(1)] 1(2) that(2) by simp
    moreover have "length r < length v" using that(2,3) by simp
    ultimately show ?thesis using 1(1) pieces_cons [OF that(1), of r] that(2) by simp
  qed
  show ?case
  proof (cases v)
    case Nil
    have "tail_ok []" unfolding tail_ok_def by (metis line_end_ok.simps(3) written_end.simps(1))
    then show ?thesis unfolding Nil by (rule pieces_end)
  next
    case (Cons c cs)
    obtain xs ys where s: "cs = xs @ ys" "\<forall>d\<in>set xs. continues d" "length xs = utf8_length c - 1" "utf8_ok ys"
      using 1(2) unfolding Cons by (rule utf8_ok_split)
    show ?thesis
    proof (cases "c = ESC")
      case False
      have "ESC \<notin> set xs" using s(2) by auto
      then have "piece_ok (Words (c # xs))" using False s 1(2) by (simp add: Cons)
      from rest [OF this] show ?thesis by (simp add: Cons s(1))
    next
      case True
      show ?thesis
      proof (cases cs)
        case Nil
        have "tail_ok [ESC]" unfolding tail_ok_def by (metis line_end_ok.simps(4) written_end.simps(4))
        with pieces_end show ?thesis by (simp add: Cons True Nil)
      next
        case cs: (Cons d ds)
        have v: "v = ESC # d # ds" by (simp add: Cons True cs)
        consider (multi) "0x80 \<le> (of_char d :: nat)" | (control) "d = CHR ''[''" | (command) "d = CHR '']''"
          | (pair) "(of_char d :: nat) < 0x80" "d \<noteq> CHR ''[''" "d \<noteq> CHR '']''"
          by linarith
        then show ?thesis
        proof cases
          case multi
          then have "tail_ok v" unfolding tail_ok_def v by blast
          then show ?thesis by (rule pieces_end)
        next
          case control
          from control_split [of ds] obtain b where b: "\<forall>x\<in>set b. \<not> ends_control x"
            and ds: "ds = b \<or> (\<exists>c r. ends_control c \<and> ds = b @ c # r)" by blast
          from ds show ?thesis
          proof (elim disjE exE conjE)
            assume "ds = b"
            then have "line_end_ok (Open_Control b)" "v = written_end (Open_Control b)" using b by (simp_all add: v control)
            then show ?thesis using pieces_end unfolding tail_ok_def by blast
          next
            fix f r assume "ends_control f" "ds = b @ f # r"
            then show ?thesis using rest [of "Control_Sequence b f" r] b by (simp add: v control)
          qed
        next
          case command
          from command_split [of ds] obtain b where b: "command_text b"
            and ds: "ds = b \<or> (\<exists>e r. (e = [BEL] \<or> e = [ESC, CHR 0x5C]) \<and> ds = b @ e @ r)" by blast
          from ds show ?thesis
          proof (elim exE conjE disjE [of "ds = b"])
            assume "ds = b"
            then have "line_end_ok (Open_Command b)" "v = written_end (Open_Command b)" using b by (simp_all add: v command)
            then show ?thesis using pieces_end unfolding tail_ok_def by blast
          next
            fix e r assume "e = [BEL] \<or> e = [ESC, CHR 0x5C]" "ds = b @ e @ r"
            then show ?thesis using rest [of "System_Command b e" r] b by (simp add: v command)
          qed
        next
          case pair
          then show ?thesis using rest [of "Escape_Pair d" ds] by (simp add: v)
        qed
      qed
    qed
  qed
qed

lemma strip_some:
  assumes "utf8_ok v"
  shows "strip_ansi_codes v = Some w \<longleftrightarrow>
    (\<exists>ps e. (\<forall>p\<in>set ps. piece_ok p) \<and> line_end_ok e \<and> v = concat (map written ps) @ written_end e \<and> w = concat (map kept ps))"
    (is "_ \<longleftrightarrow> ?some w")
    and "strip_ansi_codes v = None \<longleftrightarrow>
    (\<exists>ps c r. (\<forall>p\<in>set ps. piece_ok p) \<and> v = concat (map written ps) @ ESC # c # r \<and> 0x80 \<le> (of_char c :: nat))"
    (is "_ \<longleftrightarrow> ?none")
proof -
  have some: "strip_ansi_codes v = Some w" if "?some w" for w
    using that strip_pieces strip_end by auto
  have none: "strip_ansi_codes v = None" if ?none
  proof -
    from that obtain ps c r where ps: "\<forall>p\<in>set ps. piece_ok p" "v = concat (map written ps) @ ESC # c # r" "0x80 \<le> (of_char c :: nat)" by blast
    with assms have "utf8_ok ([] @ ESC # c # r)" unfolding append_Nil using utf8_ok_after_pieces by blast
    from strip_panics [OF this _ ps(3)] ps(1,2) show ?thesis by (simp add: strip_pieces)
  qed
  have "(\<exists>w. ?some w) \<or> ?none" using line_pieces [OF assms] unfolding tail_ok_def by blast
  with some none show "strip_ansi_codes v = Some w \<longleftrightarrow> ?some w" "strip_ansi_codes v = None \<longleftrightarrow> ?none"
    by (metis option.inject option.distinct(1))+
qed

text \<open>
  C38. Escape sequences are removed from a line of the agent, and nothing else. Stripping returns exactly when the line is made of
  words without an escape, complete control sequences, operating system commands up to their first terminator, pairs of an escape and
  another ASCII character, and at most one sequence that the end of the line cuts short; it returns the words, in order, every byte
  of them. So a line without an escape stays as it is. It panics exactly when, after such pieces, an escape stands directly before a
  character of several bytes: the debugger cuts the text inside that character.
\<close>

theorem strip_ansi_codes_correct:
  assumes "utf8_ok v"
  shows "(ESC \<notin> set v \<longrightarrow> strip_ansi_codes v = Some v) \<and>
    (\<forall>w. strip_ansi_codes v = Some w \<longleftrightarrow>
      (\<exists>ps e. (\<forall>p\<in>set ps. piece_ok p) \<and> line_end_ok e \<and> v = concat (map written ps) @ written_end e \<and> w = concat (map kept ps))) \<and>
    (strip_ansi_codes v = None \<longleftrightarrow>
      (\<exists>ps c rest. (\<forall>p\<in>set ps. piece_ok p) \<and> v = concat (map written ps) @ ESC # c # rest \<and> 0x80 \<le> (of_char c :: nat)))"
  using strip_plain [OF assms] strip_some [OF assms] by blast

text \<open>A coloured line, a window title inside a line, and an escape before a Latin letter with an accent.\<close>

theorem strip_ansi_codes_correct_witness:
  "strip_ansi_codes (ESC # ''[2m2026-08-24'' @ ESC # ''[0m INFO ready'') = Some ''2026-08-24 INFO ready'' \<and>
   strip_ansi_codes (''before'' @ ESC # '']0;title'' @ BEL # ''after'') = Some ''beforeafter'' \<and>
   strip_ansi_codes (''a'' @ ESC # CHR 0xC3 # [CHR 0xA9]) = None"
proof -
  have ok: "utf8_ok (ESC # ''[2m2026-08-24'' @ ESC # ''[0m INFO ready'')" "utf8_ok (''before'' @ ESC # '']0;title'' @ BEL # ''after'')"
      "utf8_ok (''a'' @ ESC # CHR 0xC3 # [CHR 0xA9])"
    by (simp_all add: utf8_length_def continues_def ESC_def BEL_def)
  let ?coloured = "[Control_Sequence ''2'' CHR ''m'', Words ''2026-08-24'', Control_Sequence ''0'' CHR ''m'', Words '' INFO ready'']"
  let ?titled = "[Words ''before'', System_Command ''0;title'' [BEL], Words ''after'']"
  have pieces: "\<forall>p\<in>set ?coloured. piece_ok p" "\<forall>p\<in>set ?titled. piece_ok p" "\<forall>p\<in>set [Words ''a'']. piece_ok p" "line_end_ok Complete"
    by (simp_all add: ends_control_def command_text_def sublist_Cons_pair utf8_length_def continues_def ESC_def BEL_def)
  have "strip_ansi_codes (ESC # ''[2m2026-08-24'' @ ESC # ''[0m INFO ready'') = Some ''2026-08-24 INFO ready''"
    using strip_ansi_codes_correct [OF ok(1)] pieces(4)
    by (intro strip_ansi_codes_correct [OF ok(1), THEN conjunct2, THEN conjunct1, rule_format, THEN iffD2]
        exI [of _ ?coloured] exI [of _ Complete] conjI pieces) simp_all
  moreover have "strip_ansi_codes (''before'' @ ESC # '']0;title'' @ BEL # ''after'') = Some ''beforeafter''"
    by (intro strip_ansi_codes_correct [OF ok(2), THEN conjunct2, THEN conjunct1, rule_format, THEN iffD2]
        exI [of _ ?titled] exI [of _ Complete] conjI pieces) simp_all
  moreover have "strip_ansi_codes (''a'' @ ESC # CHR 0xC3 # [CHR 0xA9]) = None"
    by (intro strip_ansi_codes_correct [OF ok(3), THEN conjunct2, THEN conjunct2, THEN iffD2]
        exI [of _ "[Words ''a'']"] exI [of _ "CHR 0xC3"] exI [of _ "[CHR 0xA9]"] conjI pieces(3)) simp_all
  ultimately show ?thesis by blast
qed

section \<open>Event lines through the debugger\<close>

text \<open>Text of whole characters without an escape, and printable ASCII, which is such text.\<close>

definition readable :: "string \<Rightarrow> bool" where
  "readable t = (utf8_ok t \<and> ESC \<notin> set t)"

definition plain_ascii :: "string \<Rightarrow> bool" where
  "plain_ascii t = (\<forall>c\<in>set t. 0x20 \<le> (of_char c :: nat) \<and> of_char c < (0x7F :: nat))"

lemma readable_strip: "readable t \<Longrightarrow> strip_ansi_codes t = Some t"
  by (simp add: readable_def strip_plain)

lemma utf8_ok_ascii: "(of_char c :: nat) < 0x80 \<Longrightarrow> utf8_ok (c # cs) = utf8_ok cs"
  by (simp add: ascii_length continues_def)

lemma plain_readable: "plain_ascii t \<Longrightarrow> readable t"
proof (induction t)
  case (Cons c t)
  then have "(of_char c :: nat) < 0x80" "c \<noteq> ESC" "readable t" by (auto simp: plain_ascii_def ESC_def)
  then show ?case by (simp add: readable_def utf8_ok_ascii del: utf8_ok.simps)
qed (simp add: readable_def)

lemma readable_append: "readable s \<Longrightarrow> readable t \<Longrightarrow> readable (s @ t)"
  by (simp add: readable_def utf8_ok_append)

lemma readable_sanitise:
  assumes "readable f"
  shows "readable (sanitise f)"
proof -
  have "utf8_ok (sanitise f)" if "utf8_ok f" for f
    using that
  proof (induction f rule: utf8_ok.induct)
    case (2 c cs)
    obtain xs ys where s: "cs = xs @ ys" "\<forall>d\<in>set xs. continues d" "length xs = utf8_length c - 1" "utf8_ok ys"
      using 2(2) by (rule utf8_ok_split)
    have "sanitise xs = xs" unfolding sanitise_def using s(2) by (intro map_idI) (auto simp: TAB_def CR_def LF_def continues_def)
    then have rest: "utf8_ok (sanitise ys)" "sanitise cs = xs @ sanitise ys" using 2(1) s by (simp_all add: sanitise_def)
    show ?case
    proof (cases "c = TAB \<or> c = CR \<or> c = LF")
      case True
      then have "utf8_length c = 1" by (auto simp: utf8_length_def TAB_def CR_def LF_def)
      with s(3) have "xs = []" by simp
      then have "sanitise (c # cs) = CHR '' '' # sanitise ys" using True rest(2) by (simp add: sanitise_def)
      with rest(1) show ?thesis by (simp add: utf8_ok_ascii del: utf8_ok.simps)
    next
      case False
      then have "sanitise (c # cs) = c # xs @ sanitise ys" using rest(2) by (simp add: sanitise_def)
      with rest(1) 2(2) s(2,3) show ?thesis by simp
    qed
  qed (simp add: sanitise_def)
  moreover have "ESC \<notin> set (sanitise f)" using assms by (auto simp: readable_def sanitise_def ESC_def)
  ultimately show ?thesis using assms by (simp add: readable_def)
qed

lemma readable_event_line:
  assumes "readable ev" "\<forall>f\<in>set fs. readable f"
  shows "readable (event_line ev fs)"
proof -
  have tab: "readable [TAB]" by (simp add: readable_def utf8_length_def continues_def TAB_def ESC_def)
  have join: "readable (join_with [TAB] ws)" if "\<forall>w\<in>set ws. readable w" for ws
    using that by (induction "[TAB]" ws rule: join_with.induct) (auto intro: readable_append tab simp: readable_def [of "[]"]
        dest: readable_append [OF tab, simplified])
  have "readable ''SWAGRI_EVENT''" by (rule plain_readable) (simp add: plain_ascii_def)
  with tab join [of "ev # map sanitise fs"] assms readable_sanitise show ?thesis
    unfolding event_line_join by (intro readable_append) auto
qed

text \<open>
  C17. The debugger reads back what the agent wrote. It strips escape sequences from the line and splits what is left: when the kind and the
  fields are text of whole characters without an escape, that gives the kind and exactly the fields, each with tabs and line breaks turned
  into spaces. Whatever the fields hold, the line has no line break, so a peer's text cannot forge a second event. (A field with an
  escape is not read back so: the escape sequence is removed from it as shown above, or the debugger panics.)
\<close>

theorem event_roundtrip:
  assumes "TAB \<notin> set ev" "LF \<notin> set ev"
  shows "(readable ev \<and> (\<forall>f\<in>set fs. readable f) \<longrightarrow>
      Option.bind (strip_ansi_codes (event_line ev fs)) parse_event = Some (ev # map sanitise fs)) \<and>
    LF \<notin> set (event_line ev fs)"
  using parse_event_line [OF assms(1)] readable_strip [OF readable_event_line] event_line_one_line [OF assms(2)] by simp

text \<open>A name with a Latin letter of two bytes and a tab.\<close>

theorem event_roundtrip_witness:
  "Option.bind (strip_ansi_codes (event_line ''PEER_NAME'' [''p'', CHR 0xC3 # CHR 0xA9 # TAB # ''b''])) parse_event =
   Some [''PEER_NAME'', ''p'', CHR 0xC3 # CHR 0xA9 # '' b'']"
proof -
  have "readable ''PEER_NAME''" "readable ''p''" "readable (CHR 0xC3 # CHR 0xA9 # TAB # ''b'')"
    by (simp_all add: readable_def utf8_length_def continues_def TAB_def ESC_def)
  moreover have "TAB \<notin> set ''PEER_NAME''" "LF \<notin> set ''PEER_NAME''" by (simp_all add: TAB_def LF_def)
  ultimately show ?thesis
    using event_roundtrip [of "''PEER_NAME''" "[''p'', CHR 0xC3 # CHR 0xA9 # TAB # ''b'']"]
    by (simp add: sanitise_def TAB_def LF_def CR_def del: strip_ansi_codes.simps)
qed

text \<open>The texts the agent makes from numbers and flags are printable ASCII.\<close>

lemma plain_append: "plain_ascii (s @ t) = (plain_ascii s \<and> plain_ascii t)"
  by (auto simp: plain_ascii_def)

lemma plain_show_nat: "plain_ascii (show_nat n)"
proof -
  have "0x20 \<le> (of_char (digit_char d) :: nat) \<and> of_char (digit_char d) < (0x7F :: nat)" if "d < 10" for d
    using that by (simp add: digit_char_def)
  then show ?thesis unfolding plain_ascii_def using show_nat_digits by blast
qed

lemma plain_pad_zeros: "plain_ascii s \<Longrightarrow> plain_ascii (pad_zeros k s)"
  by (auto simp: plain_ascii_def pad_zeros_def)

lemma plain_fmt_fixed: "plain_ascii (fmt_fixed d x)"
proof (cases x)
  case (Fin q)
  have "plain_ascii ''''" "plain_ascii ''-''" "plain_ascii ''.''" by (simp_all add: plain_ascii_def)
  then show ?thesis by (simp add: Fin fmt_fixed_def Let_def plain_append plain_show_nat plain_pad_zeros
      del: append_Cons append_Nil append.simps)
qed (simp_all add: fmt_fixed_def plain_ascii_def)

lemma plain_optional: "(\<And>x. plain_ascii (f x)) \<Longrightarrow> plain_ascii (optional f o')"
  by (cases o') (simp_all add: optional_def plain_ascii_def [of "[_]"])

lemma plain_show_bool: "plain_ascii (show_bool b)"
  by (cases b) (simp_all add: plain_ascii_def)

lemma readable_resource_fields:
  assumes "readable p" "readable (os r)" "readable (arch r)" "readable (cpu_brand r)"
  shows "\<forall>f\<in>set (resource_fields p r). readable f"
  using assms by (simp add: resource_fields_def plain_readable plain_show_nat plain_fmt_fixed plain_optional plain_show_bool)

text \<open>Such a line can come from another peer: the agent prints the message of a failed task as it was received.\<close>

lemma peer_message_stops_debugger:
  "\<exists>r line. printed (report_task_response ''p'' r l) = printed l @ [line] \<and> strip_ansi_codes line = None"
proof (intro exI conjI)
  let ?r = "response_failure ''t'' 0 ''e'' (ESC # CHR 0xC3 # [CHR 0xA9])"
  show "printed (report_task_response ''p'' ?r l) = printed l @ [event_line ''TASK_FAILED'' [''p'', ''t'', ''0'', ESC # CHR 0xC3 # [CHR 0xA9]]]"
  proof -
    have "show_nat 0 = ''0''" by code_simp
    then show ?thesis by (simp add: report_task_response_def response_failure_def emit_event_def Let_def)
  qed
  have line: "event_line ''TASK_FAILED'' [''p'', ''t'', ''0'', ESC # CHR 0xC3 # [CHR 0xA9]] =
      (''SWAGRI_EVENT'' @ TAB # ''TASK_FAILED'' @ TAB # ''p'' @ TAB # ''t'' @ TAB # ''0'' @ [TAB]) @ ESC # CHR 0xC3 # [CHR 0xA9]"
    by (simp add: event_line_def sanitise_def TAB_def CR_def LF_def ESC_def)
  show "strip_ansi_codes (event_line ''TASK_FAILED'' [''p'', ''t'', ''0'', ESC # CHR 0xC3 # [CHR 0xA9]]) = None"
    unfolding line by (rule strip_panics) (simp_all add: utf8_length_def continues_def ESC_def TAB_def)
qed

end
