(* ===== verification/Task_History.thy ===== *)
theory Task_History
  imports Terminal
begin

text \<open>
  The task history of the debugger: the bounded list the window shows (\<open>record_task_started\<close>, \<open>record_task_finished\<close>,
  \<open>record_task_progress\<close>, \<open>interrupt_running_tasks\<close>) and its table in SQLite (\<open>TaskStore\<close>). A table is the list of its rows;
  any statement may fail; in which order the database gives rows of equal time is an argument. Instants are milliseconds since an arbitrary
  start, times of day are \<open>i64\<close> milliseconds.
\<close>

definition MAX_LOG_LINES :: nat where "MAX_LOG_LINES = 2000"
definition MAX_METRIC_SAMPLES :: nat where "MAX_METRIC_SAMPLES = 240"
definition MAX_TASK_HISTORY :: nat where "MAX_TASK_HISTORY = 100"
definition MAX_PERSISTED_TASKS :: nat where "MAX_PERSISTED_TASKS = 1000"

text \<open>Words that are not ASCII are given by their bytes.\<close>

definition text_of :: "nat list \<Rightarrow> string" where
  "text_of bs = map char_of bs"

definition task_word :: string where
  "task_word = text_of [0xD0, 0x97, 0xD0, 0xB0, 0xD0, 0xB4, 0xD0, 0xB0, 0xD1, 0x87, 0xD0, 0xB0]"

definition middle_dot :: string where
  "middle_dot = text_of [0xC2, 0xB7]"

section \<open>The list in memory\<close>

datatype task_state = Running | Completed | Failed

record task_view =
  tv_id :: string
  tv_description :: string
  tv_executor :: string
  tv_direction :: string
  tv_state :: task_state
  tv_started_at :: nat
  tv_started_unix :: int
  tv_duration :: "u64 option"
  tv_result :: "string option"

text \<open>The clocks at an operation.\<close>

record clocks =
  instant_now :: nat
  unix_now :: int

definition I64_MAX :: int where "I64_MAX = 2 ^ 63 - 1"

definition sat_i64 :: "int \<Rightarrow> int" where
  "sat_i64 x = max (- (2 ^ 63)) (min I64_MAX x)"

definition unix_time_ms :: "clocks \<Rightarrow> int" where
  "unix_time_ms c = min (max 0 (unix_now c)) I64_MAX"

text \<open>\<open>Instant::now().checked_sub(d).unwrap_or_else(Instant::now)\<close>\<close>

definition instant_before :: "clocks \<Rightarrow> nat \<Rightarrow> nat" where
  "instant_before c d = (if d \<le> instant_now c then instant_now c - d else instant_now c)"

definition push_bounded :: "'a \<Rightarrow> nat \<Rightarrow> 'a list \<Rightarrow> 'a list" where
  "push_bounded x limit xs = (if length xs = limit then tl xs else xs) @ [x]"

text \<open>\<open>rposition\<close>: the last place where a predicate holds.\<close>

definition rposition :: "('a \<Rightarrow> bool) \<Rightarrow> 'a list \<Rightarrow> nat option" where
  "rposition P xs = (case filter (\<lambda>i. P (xs ! i)) [0..<length xs] of [] \<Rightarrow> None | ks \<Rightarrow> Some (last ks))"

text \<open>The recorded task, and the list.\<close>

definition record_task_started :: "clocks \<Rightarrow> string \<Rightarrow> string \<Rightarrow> string \<Rightarrow> string \<Rightarrow> task_view list \<Rightarrow> task_view \<times> task_view list" where
  "record_task_started c i description executor direction ts =
     (case rposition (\<lambda>t. tv_id t = i \<and> tv_state t = Running) ts of
        Some k \<Rightarrow> let t = (ts ! k)\<lparr>tv_description := description, tv_executor := executor, tv_direction := direction\<rparr>
                  in (t, ts[k := t])
      | None \<Rightarrow> let t = \<lparr>tv_id = i, tv_description = description, tv_executor = executor, tv_direction = direction,
                        tv_state = Running, tv_started_at = instant_now c, tv_started_unix = unix_time_ms c,
                        tv_duration = None, tv_result = None\<rparr>
                in (t, push_bounded t MAX_TASK_HISTORY ts))"

definition record_task_finished :: "clocks \<Rightarrow> string \<Rightarrow> string \<Rightarrow> u64 \<Rightarrow> string \<Rightarrow> task_state \<Rightarrow> task_view list \<Rightarrow> task_view \<times> task_view list" where
  "record_task_finished c i executor ms result state ts =
     (case (if i = [] then rposition (\<lambda>t. tv_state t = Running \<and> tv_executor t = executor) ts
            else rposition (\<lambda>t. tv_id t = i) ts) of
        Some k \<Rightarrow>
          let t0 = (ts ! k)\<lparr>tv_state := state, tv_duration := Some ms, tv_result := Some result\<rparr>;
              t = (if executor \<noteq> [] \<and> tv_direction t0 \<noteq> ''orchestrator'' then t0\<lparr>tv_executor := executor\<rparr> else t0)
          in (t, ts[k := t])
      | None \<Rightarrow>
          let t = \<lparr>tv_id = (if i = [] then ''unmatched-'' @ show_nat (length ts + 1) else i), tv_description = task_word,
                   tv_executor = executor, tv_direction = ''unknown'', tv_state = state,
                   tv_started_at = instant_before c (unat ms),
                   tv_started_unix = sat_i64 (unix_time_ms c - min (int (unat ms)) I64_MAX),
                   tv_duration = Some ms, tv_result = Some result\<rparr>
          in (t, push_bounded t MAX_TASK_HISTORY ts))"

definition record_task_progress :: "string \<Rightarrow> u16 \<Rightarrow> u16 \<Rightarrow> string \<Rightarrow> task_view list \<Rightarrow> task_view option \<times> task_view list" where
  "record_task_progress i finished whole details ts =
     (case rposition (\<lambda>t. tv_id t = i \<and> tv_state t = Running) ts of
        None \<Rightarrow> (None, ts)
      | Some k \<Rightarrow> let t = (ts ! k)\<lparr>tv_result := Some (show_word finished @ ''/'' @ show_word whole @ '' '' @ middle_dot @ '' '' @ details)\<rparr>
                  in (Some t, ts[k := t]))"

definition interrupt_task :: "clocks \<Rightarrow> string \<Rightarrow> task_view \<Rightarrow> task_view" where
  "interrupt_task c reason t = t\<lparr>tv_state := Failed,
     tv_duration := Some (of_nat (min (instant_now c - tv_started_at t) (unat (- 1 :: u64)))), tv_result := Some reason\<rparr>"

definition interrupt_running_tasks :: "clocks \<Rightarrow> string \<Rightarrow> task_view list \<Rightarrow> task_view list \<times> task_view list" where
  "interrupt_running_tasks c reason ts =
     (map (interrupt_task c reason) (filter (\<lambda>t. tv_state t = Running) ts),
      map (\<lambda>t. if tv_state t = Running then interrupt_task c reason t else t) ts)"

section \<open>The table\<close>

definition task_state_for_db :: "task_state \<Rightarrow> string" where
  "task_state_for_db s = (case s of Running \<Rightarrow> ''running'' | Completed \<Rightarrow> ''completed'' | Failed \<Rightarrow> ''failed'')"

definition task_state_from_db :: "string \<Rightarrow> task_state" where
  "task_state_from_db s = (if s = ''running'' then Running else if s = ''completed'' then Completed else Failed)"

record task_row =
  row_id :: string
  row_description :: string
  row_executor :: string
  row_direction :: string
  row_state :: string
  row_started :: int
  row_duration :: "int option"
  row_result :: "string option"
  row_updated :: int

record task_table =
  rows :: "task_row list"
  sql_faults :: "string option list"

type_synonym row_order = "task_row list \<Rightarrow> task_row list"
type_synonym 'a sql = "task_table \<Rightarrow> (string + 'a) \<times> task_table"

text \<open>One statement: it fails as the schedule says, or changes the rows and answers how many it touched.\<close>

definition statement :: "(task_row list \<Rightarrow> 'a \<times> task_row list) \<Rightarrow> 'a sql" where
  "statement f s = (let s' = s\<lparr>sql_faults := tl (sql_faults s)\<rparr>
     in case sql_faults s of
          Some err # _ \<Rightarrow> (Inl err, s')
        | _ \<Rightarrow> let (r, rs) = f (rows s) in (Inr r, s'\<lparr>rows := rs\<rparr>))"

definition delete_rows :: "(task_row \<Rightarrow> bool) \<Rightarrow> task_row list \<Rightarrow> nat \<times> task_row list" where
  "delete_rows P rs = (length (filter P rs), filter (\<lambda>r. \<not> P r) rs)"

text \<open>\<open>'Debugger bulo zakryto do zavershennia zadachi'\<close> in its own letters.\<close>

definition closed_early :: string where
  "closed_early = ''Debugger '' @ text_of [0xD0, 0xB1, 0xD1, 0x83, 0xD0, 0xBB, 0xD0, 0xBE, 0x20, 0xD0, 0xB7, 0xD0, 0xB0, 0xD0, 0xBA, 0xD1, 0x80,
     0xD0, 0xB8, 0xD1, 0x82, 0xD0, 0xBE, 0x20, 0xD0, 0xB4, 0xD0, 0xBE, 0x20, 0xD0, 0xB7, 0xD0, 0xB0, 0xD0, 0xB2, 0xD0, 0xB5, 0xD1, 0x80, 0xD1,
     0x88, 0xD0, 0xB5, 0xD0, 0xBD, 0xD0, 0xBD, 0xD1, 0x8F, 0x20, 0xD0, 0xB7, 0xD0, 0xB0, 0xD0, 0xB4, 0xD0, 0xB0, 0xD1, 0x87, 0xD1, 0x96]"

definition interrupt_row :: "int \<Rightarrow> task_row \<Rightarrow> task_row" where
  "interrupt_row now r = r\<lparr>row_state := ''failed'',
     row_duration := Some (case row_duration r of Some d \<Rightarrow> d | None \<Rightarrow> max 0 (now - row_started r)),
     row_result := Some (case row_result r of Some x \<Rightarrow> x | None \<Rightarrow> closed_early), row_updated := now\<rparr>"

definition mark_interrupted :: "clocks \<Rightarrow> nat sql" where
  "mark_interrupted c = statement (\<lambda>rs.
     (length (filter (\<lambda>r. row_state r = ''running'') rs),
      map (\<lambda>r. if row_state r = ''running'' then interrupt_row (unix_time_ms c) r else r) rs))"

text \<open>\<open>LIKE\<close> without regard to the case of ASCII letters.\<close>

definition like_contains :: "string \<Rightarrow> string option \<Rightarrow> bool" where
  "like_contains word x = (case x of None \<Rightarrow> False | Some s \<Rightarrow> sublist (map ascii_upper word) (map ascii_upper s))"

definition like_starts :: "string \<Rightarrow> string option \<Rightarrow> bool" where
  "like_starts word x = (case x of None \<Rightarrow> False | Some s \<Rightarrow> prefix (map ascii_upper word) (map ascii_upper s))"

definition legacy_poll_failure :: "task_row \<Rightarrow> bool" where
  "legacy_poll_failure r = (row_direction r = ''unknown'' \<and> row_description r = task_word \<and>
     (like_contains ''outbound stream'' (row_result r) \<or> like_starts ''Timeout while waiting'' (row_result r)))"

definition remove_legacy_poll_failures :: "nat sql" where
  "remove_legacy_poll_failures = statement (delete_rows legacy_poll_failure)"

definition view_of_row :: "clocks \<Rightarrow> task_row \<Rightarrow> task_view" where
  "view_of_row c r = \<lparr>tv_id = row_id r, tv_description = row_description r, tv_executor = row_executor r, tv_direction = row_direction r,
     tv_state = task_state_from_db (row_state r),
     tv_started_at = instant_before c (nat (max 0 (sat_i64 (unix_time_ms c - row_started r)))),
     tv_started_unix = row_started r,
     tv_duration = map_option (\<lambda>d. of_int (max 0 d)) (row_duration r), tv_result = row_result r\<rparr>"

definition load_recent :: "row_order \<Rightarrow> clocks \<Rightarrow> nat \<Rightarrow> task_view list sql" where
  "load_recent by_updated c limit = statement (\<lambda>rs. (rev (map (view_of_row c) (take limit (by_updated rs))), rs))"

definition row_of_view :: "clocks \<Rightarrow> task_view \<Rightarrow> task_row" where
  "row_of_view c t = \<lparr>row_id = tv_id t, row_description = tv_description t, row_executor = tv_executor t, row_direction = tv_direction t,
     row_state = task_state_for_db (tv_state t), row_started = tv_started_unix t,
     row_duration = map_option (\<lambda>d. min (int (unat d)) I64_MAX) (tv_duration t), row_result = tv_result t, row_updated = unix_time_ms c\<rparr>"

text \<open>\<open>INSERT ... ON CONFLICT(id) DO UPDATE\<close>: a row keeps its place.\<close>

definition upsert_row :: "task_row \<Rightarrow> task_row list \<Rightarrow> task_row list" where
  "upsert_row r rs = (if row_id r \<in> row_id ` set rs then map (\<lambda>x. if row_id x = row_id r then r else x) rs else rs @ [r])"

text \<open>\<open>DELETE ... WHERE id IN (SELECT ... LIMIT -1 OFFSET n)\<close>: finished tasks beyond the newest \<open>n\<close>.\<close>

definition trim_table :: "row_order \<Rightarrow> nat sql" where
  "trim_table by_updated = statement (\<lambda>rs.
     let old = row_id ` set (drop MAX_PERSISTED_TASKS (by_updated (filter (\<lambda>r. row_state r \<noteq> ''running'') rs)))
     in delete_rows (\<lambda>r. row_id r \<in> old) rs)"

definition save_task :: "row_order \<Rightarrow> clocks \<Rightarrow> task_view \<Rightarrow> unit sql" where
  "save_task by_updated c t s = (case statement (\<lambda>rs. ((), upsert_row (row_of_view c t) rs)) s of
     (Inl err, s') \<Rightarrow> (Inl err, s')
   | (Inr _, s') \<Rightarrow> (case trim_table by_updated s' of
       (Inl err, s'') \<Rightarrow> (Inl err, s'') | (Inr _, s'') \<Rightarrow> (Inr (), s'')))"

definition clear_finished :: "nat sql" where
  "clear_finished = statement (delete_rows (\<lambda>r. row_state r \<noteq> ''running''))"

text \<open>Opening an existing table: the recent tasks and the number of interrupted ones. The first statement stands for all that prepares the database.\<close>

definition open_store :: "row_order \<Rightarrow> clocks \<Rightarrow> (task_view list \<times> nat) sql" where
  "open_store by_updated c s = (case statement (\<lambda>rs. ((), rs)) s of
     (Inl err, s1) \<Rightarrow> (Inl err, s1)
   | (Inr _, s1) \<Rightarrow> (case mark_interrupted c s1 of
       (Inl err, s2) \<Rightarrow> (Inl err, s2)
     | (Inr interrupted, s2) \<Rightarrow> (case remove_legacy_poll_failures s2 of
         (Inl err, s3) \<Rightarrow> (Inl err, s3)
       | (Inr _, s3) \<Rightarrow> (case load_recent by_updated c MAX_TASK_HISTORY s3 of
           (Inl err, s4) \<Rightarrow> (Inl err, s4) | (Inr ts, s4) \<Rightarrow> (Inr (ts, interrupted), s4)))))"

end
