(* ===== verification/Debug_View.thy ===== *)
theory Debug_View
  imports Task_History
begin

text \<open>
  What the debugger shows of peers, resources and artifacts, and how it reads them from the fields of an event: \<open>str::parse\<close> of
  numbers, \<open>parse_resource_view\<close>, and the bounded lists of artifacts.
\<close>

section \<open>Reading numbers\<close>

definition is_digit :: "char \<Rightarrow> bool" where
  "is_digit c = (digit_of_char c \<noteq> None)"

text \<open>The digits after an exponent's letter, with their sign.\<close>

definition parse_exponent :: "string \<Rightarrow> int option" where
  "parse_exponent s = (case s of
     [] \<Rightarrow> None
   | c # cs \<Rightarrow>
       let ds = (if c = CHR ''+'' \<or> c = CHR ''-'' then cs else s);
           sign = (if c = CHR ''-'' then - 1 else 1)
       in if ds = [] then None else map_option (\<lambda>n. sign * int n) (parse_digits 0 ds))"

text \<open>Digits with at most one point among them, and an exponent: the value, not rounded.\<close>

definition parse_decimal :: "string \<Rightarrow> rat option" where
  "parse_decimal s =
     (let whole = takeWhile is_digit s; r1 = dropWhile is_digit s;
          part = (case r1 of c # r \<Rightarrow> if c = CHR ''.'' then takeWhile is_digit r else [] | [] \<Rightarrow> []);
          r2 = (case r1 of c # r \<Rightarrow> if c = CHR ''.'' then dropWhile is_digit r else r1 | [] \<Rightarrow> [])
      in if whole = [] \<and> part = [] then None
         else case (parse_digits 0 (whole @ part), r2) of
           (Some n, []) \<Rightarrow> Some (of_nat n * 10 powi (- int (length part)))
         | (Some n, c # r) \<Rightarrow> if c = CHR ''e'' \<or> c = CHR ''E''
             then map_option (\<lambda>k. of_nat n * 10 powi (k - int (length part))) (parse_exponent r) else None
         | _ \<Rightarrow> None)"

definition parse_unsigned :: "(rat \<Rightarrow> flt) \<Rightarrow> string \<Rightarrow> flt option" where
  "parse_unsigned rnd s =
     (let upper = map ascii_upper s
      in if upper = ''INF'' \<or> upper = ''INFINITY'' then Some (Inf False)
         else if upper = ''NAN'' then Some NaN
         else map_option rnd (parse_decimal s))"

definition parse_float :: "(rat \<Rightarrow> flt) \<Rightarrow> string \<Rightarrow> flt option" where
  "parse_float rnd s = (case s of
     c # cs \<Rightarrow>
       if c = CHR ''-'' then map_option fl_neg (parse_unsigned rnd cs)
       else if c = CHR ''+'' then parse_unsigned rnd cs else parse_unsigned rnd s
   | [] \<Rightarrow> None)"

definition parse_f64 :: "string \<Rightarrow> flt option" where "parse_f64 = parse_float rnd64"
definition parse_f32 :: "string \<Rightarrow> flt option" where "parse_f32 = parse_float rnd32"

definition parse_bool :: "string \<Rightarrow> bool option" where
  "parse_bool s = (if s = ''true'' then Some True else if s = ''false'' then Some False else None)"

definition parse_u32 :: "string \<Rightarrow> u32 option" where
  "parse_u32 s = map_option of_nat (parse_uint (2 ^ 32 - 1) s)"

definition parse_u8 :: "string \<Rightarrow> u8 option" where
  "parse_u8 s = map_option of_nat (parse_uint (2 ^ 8 - 1) s)"

text \<open>\<open>usize\<close> of a 64-bit machine.\<close>

definition parse_usize :: "string \<Rightarrow> nat option" where
  "parse_usize s = parse_uint (2 ^ 64 - 1) s"

definition parse_optional :: "(string \<Rightarrow> 'a option) \<Rightarrow> string option \<Rightarrow> 'a option" where
  "parse_optional p x = (case x of None \<Rightarrow> None | Some s \<Rightarrow> if s = ''-'' then None else p s)"

section \<open>Peers and resources\<close>

datatype peer_state = Discovered | Connecting | Connected | Disconnected | PeerFailed

record resource_view =
  rv_observed :: u64
  rv_os :: string
  rv_arch :: string
  rv_cpu_brand :: string
  rv_physical :: u16
  rv_logical :: u16
  rv_total_memory :: u64
  rv_available_memory :: u64
  rv_host_cpu :: flt
  rv_agent_cpu :: flt
  rv_agent_memory :: u64
  rv_active_tasks :: u32
  rv_cpu_limit :: flt
  rv_memory_limit :: flt
  rv_allocatable :: u64
  rv_calibrated :: flt
  rv_effective :: flt
  rv_paused :: bool
  rv_battery :: "u8 option"
  rv_charging :: "bool option"
  rv_thermal :: "u8 option"
  rv_unmetered :: "bool option"

definition field :: "nat \<Rightarrow> string list \<Rightarrow> string option" where
  "field k vs = (if k < length vs then Some (vs ! k) else None)"

text \<open>The question marks of the source leave with \<open>None\<close> at the first field that is not a number.\<close>

definition parse_resource_view :: "string list \<Rightarrow> resource_view option" where
  "parse_resource_view vs =
     (if length vs < 17 then None
      else Option.bind (parse_u64 (vs ! 0)) (\<lambda>observed.
        Option.bind (parse_u16 (vs ! 4)) (\<lambda>physical.
        Option.bind (parse_u16 (vs ! 5)) (\<lambda>logical.
        Option.bind (parse_u64 (vs ! 6)) (\<lambda>memory.
        Option.bind (parse_u64 (vs ! 7)) (\<lambda>available.
        Option.bind (parse_f32 (vs ! 8)) (\<lambda>host.
        Option.bind (parse_f32 (vs ! 9)) (\<lambda>own.
        Option.bind (parse_u64 (vs ! 10)) (\<lambda>own_memory.
        Option.bind (parse_u32 (vs ! 11)) (\<lambda>active.
        Option.bind (parse_f32 (vs ! 12)) (\<lambda>cpu_limit.
        Option.bind (parse_f32 (vs ! 13)) (\<lambda>memory_limit.
        Option.bind (parse_u64 (vs ! 14)) (\<lambda>allocatable.
        Option.bind (parse_f64 (vs ! 15)) (\<lambda>calibrated.
        Option.bind (parse_f64 (vs ! 16)) (\<lambda>effective.
        Some \<lparr>rv_observed = observed, rv_os = vs ! 1, rv_arch = vs ! 2, rv_cpu_brand = vs ! 3, rv_physical = physical,
          rv_logical = logical, rv_total_memory = memory, rv_available_memory = available, rv_host_cpu = host, rv_agent_cpu = own,
          rv_agent_memory = own_memory, rv_active_tasks = active, rv_cpu_limit = cpu_limit, rv_memory_limit = memory_limit,
          rv_allocatable = allocatable, rv_calibrated = calibrated, rv_effective = effective,
          rv_paused = (case Option.bind (field 17 vs) parse_bool of None \<Rightarrow> False | Some b \<Rightarrow> b),
          rv_battery = parse_optional parse_u8 (field 18 vs), rv_charging = parse_optional parse_bool (field 19 vs),
          rv_thermal = parse_optional parse_u8 (field 20 vs), rv_unmetered = parse_optional parse_bool (field 21 vs)\<rparr>)))))))))))))))"

record peer_view =
  pv_name :: "string option"
  pv_addresses :: "string list"
  pv_state :: peer_state
  pv_version :: "string option"
  pv_last_message :: string
  pv_trusted :: bool
  pv_progress :: "(u64 \<times> u64) option"
  pv_debugger_progress :: "(u64 \<times> u64) option"
  pv_resources :: "resource_view option"

definition default_peer :: peer_view where
  "default_peer = \<lparr>pv_name = None, pv_addresses = [], pv_state = Discovered, pv_version = None, pv_last_message = [], pv_trusted = False,
     pv_progress = None, pv_debugger_progress = None, pv_resources = None\<rparr>"

section \<open>Artifacts\<close>

record artifact_view =
  av_id :: string
  av_size :: u64
  av_blocks :: nat
  av_source :: "string option"
  av_verified :: bool

record artifact_store_view =
  sv_artifacts :: u64
  sv_blocks :: u64
  sv_used :: u64
  sv_quota :: u64
  sv_path :: string

record remote_artifact_view =
  ra_peer :: string
  ra_id :: string
  ra_size :: u64
  ra_blocks :: nat
  ra_progress :: "(nat \<times> nat \<times> nat) option"

definition remove_at :: "nat \<Rightarrow> 'a list \<Rightarrow> 'a list" where
  "remove_at k xs = take k xs @ drop (Suc k) xs"

text \<open>\<open>position\<close>: the first place where a predicate holds.\<close>

definition position :: "('a \<Rightarrow> bool) \<Rightarrow> 'a list \<Rightarrow> nat option" where
  "position P xs = (case filter (\<lambda>i. P (xs ! i)) [0..<length xs] of [] \<Rightarrow> None | k # _ \<Rightarrow> Some k)"

definition upsert_artifact :: "artifact_view \<Rightarrow> artifact_view list \<Rightarrow> artifact_view list" where
  "upsert_artifact incoming xs = take MAX_TASK_HISTORY
     (case position (\<lambda>x. av_id x = av_id incoming) xs of
        None \<Rightarrow> incoming # xs
      | Some k \<Rightarrow> incoming\<lparr>av_source := (if av_source incoming = None then av_source (xs ! k) else av_source incoming),
                           av_verified := av_verified incoming \<or> av_verified (xs ! k)\<rparr> # remove_at k xs)"

definition upsert_remote_artifact :: "remote_artifact_view \<Rightarrow> remote_artifact_view list \<Rightarrow> remote_artifact_view list" where
  "upsert_remote_artifact incoming xs = take MAX_TASK_HISTORY
     (case position (\<lambda>x. ra_peer x = ra_peer incoming \<and> ra_id x = ra_id incoming) xs of
        None \<Rightarrow> incoming # xs
      | Some k \<Rightarrow> incoming\<lparr>ra_progress := (if ra_progress incoming = None then ra_progress (xs ! k) else ra_progress incoming)\<rparr> # remove_at k xs)"

end
