(* ===== verification/Debugger.thy ===== *)
theory Debugger
  imports Debug_View FileSystem
begin

text \<open>
  The state of the debugger window and the events of the agent's output (\<open>DebuggerApp\<close>, \<open>handle_output\<close>). A message for
  the user is the name of its wording with its arguments; the wording itself, which is Ukrainian, and the level
  it gets in the log are arguments. An operation that would panic, by cutting a text inside a character, is \<open>None\<close>.
\<close>

section \<open>State\<close>

datatype gui_message = Notice string "string list"

datatype log_source = FromAgent | FromDebugger | FromCommand

record log_entry =
  le_level :: log_level
  le_source :: log_source
  le_message :: string

record debug_env =
  wording :: "gui_message \<Rightarrow> string"
  message_level :: "string \<Rightarrow> log_level"
  by_updated :: row_order
  newer_version :: "string \<Rightarrow> string \<Rightarrow> bool"
  extension_replaced :: "string \<Rightarrow> string \<Rightarrow> string"
  agent_path :: string
  updater_path :: string
  own_executable :: "string + string"
  debugger_version :: string

text \<open>
  The agent process: whether its input still takes lines, and the lines it was given. Of the processes given up
  \<open>db_stopped\<close> keeps a record, and \<open>db_launched\<close> one of the updater's command lines.
\<close>

record managed_agent =
  input_open :: bool
  given :: "string list"

record debugger =
  db_agent :: "managed_agent option"
  db_node_name :: string
  db_logs :: "log_entry list"
  db_notices :: "gui_message list"
  db_local_peer :: "string option"
  db_agent_version :: string
  db_listening :: "string list"
  db_peers :: "(string, peer_view) btree_map"
  db_selected_peer :: "string option"
  db_auto_updates :: bool
  db_requested :: "string set"
  db_ready :: "(string \<times> string \<times> string) option"
  db_requested_debugger :: "string set"
  db_ready_debugger :: "(string \<times> string \<times> string) option"
  db_completed :: u64
  db_tasks :: "task_view list"
  db_store :: "task_table option"
  db_resources :: "resource_view option"
  db_placement :: "gui_message option"
  db_artifacts :: "artifact_view list"
  db_artifact_store :: "artifact_store_view option"
  db_selected_artifact :: "string option"
  db_remote :: "remote_artifact_view list"
  db_selected_remote :: "(string \<times> string) option"
  db_stopped :: "managed_agent list"
  db_updater_runs :: bool
  db_launched :: "string list list"
  db_close :: bool

section \<open>Texts\<close>

definition ellipsis :: string where
  "ellipsis = text_of [0xE2, 0x80, 0xA6]"

definition boundary :: "nat \<Rightarrow> string \<Rightarrow> bool" where
  "boundary k s = (k = length s \<or> k < length s \<and> \<not> continues (s ! k))"

text \<open>\<open>&s[..10]\<close> and \<open>&s[s.len() - 6..]\<close> around an ellipsis.\<close>

definition shorten :: "string \<Rightarrow> string option" where
  "shorten s = (if boundary 10 s \<and> boundary (length s - 6) s then Some (take 10 s @ ellipsis @ drop (length s - 6) s) else None)"

definition short_peer :: "string \<Rightarrow> string option" where
  "short_peer p = (if length p > 20 then shorten p else Some p)"

definition short_content_id :: "string \<Rightarrow> string option" where
  "short_content_id i = (let digest = (case strip_prefix ''sha256:'' i of None \<Rightarrow> i | Some d \<Rightarrow> d)
     in if length digest > 18 then map_option ((@) ''sha256:'') (shorten digest) else Some i)"

definition format_bytes :: "u64 \<Rightarrow> string" where
  "format_bytes n = (let b = f64_of_nat (unat n); kib = 1024; mib = 1024 * kib; gib = 1024 * mib
     in if fl_le (Fin gib) b then fmt_fixed 2 (fl_div rnd64 b (Fin gib)) @ '' GiB''
        else if fl_le (Fin mib) b then fmt_fixed 2 (fl_div rnd64 b (Fin mib)) @ '' MiB''
        else if fl_le (Fin kib) b then fmt_fixed 2 (fl_div rnd64 b (Fin kib)) @ '' KiB''
        else fmt_fixed 0 b @ '' B'')"

section \<open>Notices, commands and the history\<close>

definition push_log :: "log_level \<Rightarrow> log_source \<Rightarrow> string \<Rightarrow> debugger \<Rightarrow> debugger" where
  "push_log level source message d =
     d\<lparr>db_logs := push_bounded \<lparr>le_level = level, le_source = source, le_message = message\<rparr> MAX_LOG_LINES (db_logs d)\<rparr>"

definition notice :: "debug_env \<Rightarrow> string \<Rightarrow> string list \<Rightarrow> debugger \<Rightarrow> debugger" where
  "notice e name args d =
     (let n = Notice name args; message = wording e n; d1 = push_log (message_level e message) FromDebugger message d
      in d1\<lparr>db_notices := push_bounded n 100 (db_notices d1)\<rparr>)"

text \<open>A notice some of whose arguments are shortened first.\<close>

definition try_notice :: "debug_env \<Rightarrow> string \<Rightarrow> string option list \<Rightarrow> debugger \<Rightarrow> debugger option" where
  "try_notice e name args d = map_option (\<lambda>ts. notice e name ts d) (those args)"

definition send_command :: "debug_env \<Rightarrow> string \<Rightarrow> debugger \<Rightarrow> debugger" where
  "send_command e command d = (case db_agent d of
     None \<Rightarrow> notice e ''start the agent first'' [] d
   | Some a \<Rightarrow>
       let d1 = push_log Info FromCommand (''> '' @ command) d
       in if input_open a then d1\<lparr>db_agent := Some (a\<lparr>given := given a @ [command]\<rparr>)\<rparr>
          else notice e ''command error'' [] d1)"

definition on_peer :: "string \<Rightarrow> (peer_view \<Rightarrow> peer_view) \<Rightarrow> debugger \<Rightarrow> debugger" where
  "on_peer p f d = d\<lparr>db_peers := bt_insert p (f (case bt_get (db_peers d) p of None \<Rightarrow> default_peer | Some v \<Rightarrow> v)) (db_peers d)\<rparr>"

definition persist_task :: "debug_env \<Rightarrow> clocks \<Rightarrow> task_view \<Rightarrow> debugger \<Rightarrow> debugger" where
  "persist_task e c t d = (case db_store d of
     None \<Rightarrow> d
   | Some s \<Rightarrow> (case save_task (by_updated e) c t s of
       (Inr _, s') \<Rightarrow> d\<lparr>db_store := Some s'\<rparr>
     | (Inl err, s') \<Rightarrow> notice e ''history switched off after a write error'' [err] (d\<lparr>db_store := None\<rparr>)))"

definition request_peer_update :: "debug_env \<Rightarrow> string \<Rightarrow> debugger \<Rightarrow> debugger option" where
  "request_peer_update e p d =
     (let d1 = send_command e (''download-update '' @ p) (send_command e (''trust '' @ p) d)
      in try_notice e ''peer trusted, update requested'' [short_peer p] (d1\<lparr>db_requested := insert p (db_requested d1)\<rparr>))"

section \<open>Events of the network and of peers\<close>

definition agent_started :: "debug_env \<Rightarrow> string \<Rightarrow> string \<Rightarrow> string option \<Rightarrow> debugger \<Rightarrow> debugger" where
  "agent_started e p v name d = send_command e ''artifact-list''
     (d\<lparr>db_local_peer := Some p, db_agent_version := v,
        db_node_name := (case name of Some n \<Rightarrow> if n \<noteq> [] then n else db_node_name d | None \<Rightarrow> db_node_name d)\<rparr>)"

definition peer_discovered :: "debug_env \<Rightarrow> string \<Rightarrow> string \<Rightarrow> debugger \<Rightarrow> debugger option" where
  "peer_discovered e p addr d =
     (let d1 = on_peer p (\<lambda>v. v\<lparr>pv_state := Discovered,
            pv_addresses := (if addr \<in> set (pv_addresses v) then pv_addresses v else pv_addresses v @ [addr])\<rparr>) d
      in try_notice e ''agent found'' [short_peer p]
           (if db_selected_peer d1 = None then d1\<lparr>db_selected_peer := Some p\<rparr> else d1))"

definition peer_version :: "debug_env \<Rightarrow> string \<Rightarrow> string \<Rightarrow> debugger \<Rightarrow> debugger option" where
  "peer_version e p v d =
     (let d1 = on_peer p (\<lambda>x. x\<lparr>pv_version := Some v\<rparr>) d;
          should_update = (db_auto_updates d1 \<and> (case bt_get (db_peers d1) p of Some x \<Rightarrow> pv_trusted x | None \<Rightarrow> False) \<and>
            newer_version e v (db_agent_version d1) \<and> p \<notin> db_requested d1)
      in Option.bind (try_notice e ''agent has version'' [short_peer p, Some v] d1)
           (\<lambda>d2. if should_update then request_peer_update e p d2 else Some d2))"

definition network_event :: "debug_env \<Rightarrow> string \<Rightarrow> string list \<Rightarrow> debugger \<Rightarrow> debugger option" where
  "network_event e ev args d =
     (if ev = ''STARTED'' then Some (case args of
          p # v # name # _ \<Rightarrow> agent_started e p v (Some name) d
        | [p, v] \<Rightarrow> agent_started e p v None d
        | _ \<Rightarrow> d)
      else if ev = ''LISTENING'' then Some (case args of
          addr # _ \<Rightarrow> if addr \<in> set (db_listening d) then d else d\<lparr>db_listening := db_listening d @ [addr]\<rparr>
        | _ \<Rightarrow> d)
      else if ev = ''PEER_DISCOVERED'' then (case args of p # addr # _ \<Rightarrow> peer_discovered e p addr d | _ \<Rightarrow> Some d)
      else if ev = ''PEER_CONNECTING'' then Some (case args of p # _ \<Rightarrow> on_peer p (\<lambda>v. v\<lparr>pv_state := Connecting\<rparr>) d | _ \<Rightarrow> d)
      else if ev = ''PEER_CONNECTED'' then (case args of
          p # _ \<Rightarrow> map_option (send_command e (''resources '' @ p))
            (try_notice e ''connected'' [short_peer p] (on_peer p (\<lambda>v. v\<lparr>pv_state := Connected\<rparr>) d))
        | _ \<Rightarrow> Some d)
      else if ev = ''PEER_DISCONNECTED'' then Some (case args of p # _ \<Rightarrow> on_peer p (\<lambda>v. v\<lparr>pv_state := Disconnected\<rparr>) d | _ \<Rightarrow> d)
      else if ev = ''PEER_FAILED'' then (case args of
          p # err # _ \<Rightarrow> try_notice e ''connection failed, check the firewall'' [short_peer p]
            (on_peer p (\<lambda>v. v\<lparr>pv_state := PeerFailed, pv_last_message := err\<rparr>) d)
        | _ \<Rightarrow> Some d)
      else if ev = ''PEER_VERSION'' then (case args of p # v # _ \<Rightarrow> peer_version e p v d | _ \<Rightarrow> Some d)
      else if ev = ''PEER_NAME'' then Some (case args of
          p # name # _ \<Rightarrow> if name \<noteq> [] then on_peer p (\<lambda>v. v\<lparr>pv_name := Some name\<rparr>) d else d
        | _ \<Rightarrow> d)
      else if ev = ''PEER_POLL_FAILED'' then Some (case args of
          p # err # _ \<Rightarrow> on_peer p (\<lambda>v. v\<lparr>pv_last_message := wording e (Notice ''background poll'' [err])\<rparr>) d
        | _ \<Rightarrow> d)
      else if ev = ''LOCAL_RESOURCES'' then Some (case args of
          _ # vs \<Rightarrow> (case parse_resource_view vs of Some r \<Rightarrow> d\<lparr>db_resources := Some r\<rparr> | None \<Rightarrow> d)
        | _ \<Rightarrow> d)
      else if ev = ''PEER_RESOURCES'' then Some (case args of
          p # vs \<Rightarrow> (case parse_resource_view vs of
              Some r \<Rightarrow> on_peer p (\<lambda>v. v\<lparr>pv_state := Connected, pv_last_message := wording e (Notice ''resources updated'' []),
                pv_resources := Some r\<rparr>) d
            | None \<Rightarrow> d)
        | _ \<Rightarrow> d)
      else Some d)"

section \<open>Events of updates and of the scheduler\<close>

definition progress_pair :: "string \<Rightarrow> string \<Rightarrow> (u64 \<times> u64) option" where
  "progress_pair a b = (case (parse_u64 a, parse_u64 b) of (Some x, Some y) \<Rightarrow> Some (x, y) | _ \<Rightarrow> None)"

definition update_event :: "debug_env \<Rightarrow> string \<Rightarrow> string list \<Rightarrow> debugger \<Rightarrow> debugger option" where
  "update_event e ev args d =
     (if ev = ''UPDATE_TRUSTED'' then Some (case args of p # _ \<Rightarrow> on_peer p (\<lambda>v. v\<lparr>pv_trusted := True\<rparr>) d | _ \<Rightarrow> d)
      else if ev = ''UPDATE_UNTRUSTED'' then Some (case args of p # _ \<Rightarrow> on_peer p (\<lambda>v. v\<lparr>pv_trusted := False\<rparr>) d | _ \<Rightarrow> d)
      else if ev = ''UPDATE_PROGRESS'' then Some (case args of
          p # a # b # _ \<Rightarrow> (case progress_pair a b of Some q \<Rightarrow> on_peer p (\<lambda>v. v\<lparr>pv_progress := Some q\<rparr>) d | None \<Rightarrow> d)
        | _ \<Rightarrow> d)
      else if ev = ''UPDATE_READY'' then Some (case args of p # v # path # _ \<Rightarrow> d\<lparr>db_ready := Some (p, v, path)\<rparr> | _ \<Rightarrow> d)
      else if ev = ''UPDATE_FAILED'' then (case args of
          p # err # _ \<Rightarrow> try_notice e ''peer update failed'' [short_peer p, Some err] (d\<lparr>db_requested := db_requested d - {p}\<rparr>)
        | _ \<Rightarrow> Some d)
      else if ev = ''DEBUGGER_UPDATE_PROGRESS'' then Some (case args of
          p # a # b # _ \<Rightarrow> (case progress_pair a b of Some q \<Rightarrow> on_peer p (\<lambda>v. v\<lparr>pv_debugger_progress := Some q\<rparr>) d | None \<Rightarrow> d)
        | _ \<Rightarrow> d)
      else if ev = ''DEBUGGER_UPDATE_READY''
      then Some (case args of p # v # path # _ \<Rightarrow> d\<lparr>db_ready_debugger := Some (p, v, path)\<rparr> | _ \<Rightarrow> d)
      else if ev = ''DEBUGGER_UPDATE_FAILED'' then (case args of
          p # err # _ \<Rightarrow> try_notice e ''peer debugger update failed'' [short_peer p, Some err]
            (d\<lparr>db_requested_debugger := db_requested_debugger d - {p}\<rparr>)
        | _ \<Rightarrow> Some d)
      else Some d)"

definition place_notice :: "debug_env \<Rightarrow> string \<Rightarrow> string list \<Rightarrow> debugger \<Rightarrow> debugger" where
  "place_notice e name args d = notice e name args (d\<lparr>db_placement := Some (Notice name args)\<rparr>)"

definition placement_decision :: "debug_env \<Rightarrow> string \<Rightarrow> string \<Rightarrow> string list \<Rightarrow> debugger \<Rightarrow> debugger option" where
  "placement_decision e target_kind target rest d = (case rest of
     ls # ss # ms # cs # details \<Rightarrow> (case (parse_f64 ls, parse_f64 ss, parse_f64 ms, parse_usize cs) of
       (Some local, Some selected, Some required, Some candidates) \<Rightarrow>
         let task = (case details of [] \<Rightarrow> ''CPU task'' | t # _ \<Rightarrow> t)
         in if target_kind = ''remote''
            then map_option (\<lambda>p. place_notice e ''placed on an agent''
                   [task, p, fmt_fixed 1 selected, fmt_fixed 1 local, fmt_fixed 1 required, show_nat candidates] d) (short_peer target)
            else Some (place_notice e ''placed on this computer'' [task, fmt_fixed 1 local, show_nat candidates, fmt_fixed 1 required] d)
     | _ \<Rightarrow> Some d)
   | _ \<Rightarrow> Some d)"

definition scheduler_event :: "debug_env \<Rightarrow> string \<Rightarrow> string list \<Rightarrow> debugger \<Rightarrow> debugger option" where
  "scheduler_event e ev args d =
     (if ev = ''PLACEMENT_DECISION'' then (case args of tk # tp # rest \<Rightarrow> placement_decision e tk tp rest d | _ \<Rightarrow> Some d)
      else if ev = ''PLACEMENT_UNAVAILABLE'' then Some (case args of
          task # candidates # _ \<Rightarrow> place_notice e ''no place for the task'' [task, candidates] d
        | _ \<Rightarrow> d)
      else if ev = ''CONTRIBUTION_STATE'' then Some (case args of
          state # _ \<Rightarrow> notice e (if state = ''paused'' then ''contribution paused'' else ''contribution enabled'') [] d
        | _ \<Rightarrow> d)
      else if ev = ''DEBUG_FAULT_ARMED'' then Some (case args of
          what # value # _ \<Rightarrow> if what = ''fail-next-matrix-chunk'' then notice e ''next chunk will fail'' [] d
            else notice e ''next chunk will be late'' [value] d
        | _ \<Rightarrow> d)
      else if ev = ''DEBUG_FAULT_CONSUMED'' then Some (case args of
          task # fail # delay # _ \<Rightarrow> notice e ''fault applied'' [task, fail, delay] d
        | _ \<Rightarrow> d)
      else Some d)"

section \<open>Events of the artifact store\<close>

definition size_and_blocks :: "string \<Rightarrow> string \<Rightarrow> (u64 \<times> nat) option" where
  "size_and_blocks a b = (case (parse_u64 a, parse_usize b) of (Some x, Some y) \<Rightarrow> Some (x, y) | _ \<Rightarrow> None)"

definition list_artifact :: "string \<Rightarrow> string \<Rightarrow> string \<Rightarrow> string option \<Rightarrow> bool \<Rightarrow> debugger \<Rightarrow> (u64 \<times> nat \<times> debugger) option" where
  "list_artifact i a b source verified d = map_option (\<lambda>(n, k). (n, k, d\<lparr>db_artifacts := upsert_artifact
     \<lparr>av_id = i, av_size = n, av_blocks = k, av_source = source, av_verified = verified\<rparr> (db_artifacts d)\<rparr>)) (size_and_blocks a b)"

definition mark_verified :: "string \<Rightarrow> artifact_view list \<Rightarrow> artifact_view list" where
  "mark_verified i xs = (case position (\<lambda>x. av_id x = i) xs of None \<Rightarrow> xs | Some k \<Rightarrow> xs[k := (xs ! k)\<lparr>av_verified := True\<rparr>])"

definition artifact_status :: "string list \<Rightarrow> artifact_store_view option" where
  "artifact_status args = (case args of
     a # b # u # q # path # _ \<Rightarrow> (case (parse_u64 a, parse_u64 b, parse_u64 u, parse_u64 q) of
       (Some na, Some nb, Some nu, Some nq) \<Rightarrow>
         Some \<lparr>sv_artifacts = na, sv_blocks = nb, sv_used = nu, sv_quota = nq, sv_path = path\<rparr>
     | _ \<Rightarrow> None)
   | _ \<Rightarrow> None)"

definition artifact_event :: "debug_env \<Rightarrow> string \<Rightarrow> string list \<Rightarrow> debugger \<Rightarrow> debugger option" where
  "artifact_event e ev args d =
     (if ev = ''ARTIFACT_STATUS'' then Some (case artifact_status args of Some v \<Rightarrow> d\<lparr>db_artifact_store := Some v\<rparr> | None \<Rightarrow> d)
      else if ev = ''ARTIFACT_LIST'' then Some (case args of
          i # a # b # _ \<Rightarrow> (case list_artifact i a b None False d of
              Some (_, _, d1) \<Rightarrow> if db_selected_artifact d1 = None then d1\<lparr>db_selected_artifact := Some i\<rparr> else d1
            | None \<Rightarrow> d)
        | _ \<Rightarrow> d)
      else if ev = ''ARTIFACT_STARTED'' then Some (case args of op # target # _ \<Rightarrow> notice e ''artifact operation'' [op, target] d | _ \<Rightarrow> d)
      else if ev = ''ARTIFACT_STORED'' then (case args of
          i # a # b # src # _ \<Rightarrow> (case list_artifact i a b (Some src) True d of
              Some (n, k, d1) \<Rightarrow> try_notice e ''file stored'' [short_content_id i, Some (format_bytes n), Some (show_nat k)]
                (d1\<lparr>db_selected_artifact := Some i\<rparr>)
            | None \<Rightarrow> Some d)
        | _ \<Rightarrow> Some d)
      else if ev = ''ARTIFACT_VERIFIED'' then (case args of
          i # a # b # _ \<Rightarrow> try_notice e ''artifact intact'' [short_content_id i, Some a, Some b]
            (d\<lparr>db_artifacts := mark_verified i (db_artifacts d)\<rparr>)
        | _ \<Rightarrow> Some d)
      else if ev = ''ARTIFACT_EXPORTED'' then (case args of
          i # path # _ \<Rightarrow> try_notice e ''artifact restored'' [short_content_id i, Some path] d
        | _ \<Rightarrow> Some d)
      else if ev = ''ARTIFACT_FAILED'' then Some (case args of op # err # _ \<Rightarrow> notice e ''artifact error'' [op, err] d | _ \<Rightarrow> d)
      else Some d)"

section \<open>Events of artifact sharing\<close>

definition three_sizes :: "string \<Rightarrow> string \<Rightarrow> string \<Rightarrow> (nat \<times> nat \<times> nat) option" where
  "three_sizes a b c = (case (parse_usize a, parse_usize b, parse_usize c) of (Some x, Some y, Some z) \<Rightarrow> Some (x, y, z) | _ \<Rightarrow> None)"

definition peer_inventory :: "debug_env \<Rightarrow> string \<Rightarrow> string \<Rightarrow> debugger \<Rightarrow> debugger option" where
  "peer_inventory e p phase d =
     (if phase = ''begin'' then Some (d\<lparr>db_remote := filter (\<lambda>x. ra_peer x \<noteq> p) (db_remote d), db_selected_remote := None\<rparr>)
      else if phase = ''complete''
      then try_notice e ''peer shared its list'' [short_peer p, Some (show_nat (length (filter (\<lambda>x. ra_peer x = p) (db_remote d))))] d
      else Some d)"

definition peer_item :: "string \<Rightarrow> string \<Rightarrow> string \<Rightarrow> string \<Rightarrow> debugger \<Rightarrow> debugger" where
  "peer_item p i a b d = (case size_and_blocks a b of
     None \<Rightarrow> d
   | Some (n, k) \<Rightarrow>
       let d1 = d\<lparr>db_remote := upsert_remote_artifact \<lparr>ra_peer = p, ra_id = i, ra_size = n, ra_blocks = k, ra_progress = None\<rparr> (db_remote d)\<rparr>
       in if db_selected_remote d1 = None then d1\<lparr>db_selected_remote := Some (p, i)\<rparr> else d1)"

definition peer_progress :: "string \<Rightarrow> string \<Rightarrow> nat \<times> nat \<times> nat \<Rightarrow> remote_artifact_view list \<Rightarrow> remote_artifact_view list" where
  "peer_progress p i q xs = (case position (\<lambda>x. ra_peer x = p \<and> ra_id x = i) xs of
     None \<Rightarrow> xs | Some k \<Rightarrow> xs[k := (xs ! k)\<lparr>ra_progress := Some q\<rparr>])"

definition multi_progress :: "string \<Rightarrow> nat \<times> nat \<times> nat \<Rightarrow> remote_artifact_view list \<Rightarrow> remote_artifact_view list" where
  "multi_progress i q xs = map (\<lambda>x. if ra_id x = i then x\<lparr>ra_progress := Some q\<rparr> else x) xs"

definition download_complete :: "debug_env \<Rightarrow> string \<Rightarrow> string option list \<Rightarrow> string \<Rightarrow> string \<Rightarrow> string \<Rightarrow> string \<Rightarrow> debugger \<Rightarrow> debugger option" where
  "download_complete e name texts i a b source d =
     try_notice e name texts (case list_artifact i a b (Some source) True d of
       Some (_, _, d1) \<Rightarrow> d1\<lparr>db_selected_artifact := Some i\<rparr> | None \<Rightarrow> d)"

definition sharing_event :: "debug_env \<Rightarrow> string \<Rightarrow> string list \<Rightarrow> debugger \<Rightarrow> debugger option" where
  "sharing_event e ev args d =
     (if ev = ''ARTIFACT_PEER_STARTED'' then (case args of
          p # op # _ \<Rightarrow> try_notice e ''sharing with a peer'' [short_peer p, short_content_id op] d
        | _ \<Rightarrow> Some d)
      else if ev = ''ARTIFACT_PEER_INVENTORY'' then (case args of p # phase # _ \<Rightarrow> peer_inventory e p phase d | _ \<Rightarrow> Some d)
      else if ev = ''ARTIFACT_PEER_ITEM'' then Some (case args of p # i # a # b # _ \<Rightarrow> peer_item p i a b d | _ \<Rightarrow> d)
      else if ev = ''ARTIFACT_PEER_PROGRESS'' then Some (case args of
          p # i # a # b # c # _ \<Rightarrow> (case three_sizes a b c of
            Some q \<Rightarrow> d\<lparr>db_remote := peer_progress p i q (db_remote d)\<rparr> | None \<Rightarrow> d)
        | _ \<Rightarrow> d)
      else if ev = ''ARTIFACT_PEER_COMPLETE'' then (case args of
          p # i # a # b # got # reused # _ \<Rightarrow>
            download_complete e ''peer file ready'' [short_content_id i, Some got, Some reused] i a b (''P2P: '' @ p) d
        | _ \<Rightarrow> Some d)
      else if ev = ''ARTIFACT_MULTI_REQUESTED'' then (case args of
          i # n # _ \<Rightarrow> try_notice e ''swarm download started'' [short_content_id i, Some n] d
        | _ \<Rightarrow> Some d)
      else if ev = ''ARTIFACT_MULTI_STARTED'' then (case args of
          i # n # missing # reused # _ \<Rightarrow> try_notice e ''manifest agreed'' [short_content_id i, Some n, Some missing, Some reused] d
        | _ \<Rightarrow> Some d)
      else if ev = ''ARTIFACT_MULTI_PROGRESS'' then Some (case args of
          i # a # b # c # _ # _ # _ \<Rightarrow> (case three_sizes a b c of
            Some q \<Rightarrow> d\<lparr>db_remote := multi_progress i q (db_remote d)\<rparr> | None \<Rightarrow> d)
        | _ \<Rightarrow> d)
      else if ev = ''ARTIFACT_MULTI_COMPLETE'' then (case args of
          i # a # b # got # reused # n # active # _ \<Rightarrow>
            download_complete e ''swarm file ready'' [short_content_id i, Some active, Some n, Some got, Some reused] i a b
              (''P2P swarm: '' @ active @ ''/'' @ n @ '' providers completed'') d
        | _ \<Rightarrow> Some d)
      else if ev = ''ARTIFACT_PROVIDER_FAILED'' then (case args of
          i # p # err # active # _ \<Rightarrow> try_notice e ''provider failed'' [short_peer p, short_content_id i, Some err, Some active] d
        | _ \<Rightarrow> Some d)
      else if ev = ''ARTIFACT_PEER_FAILED'' then (case args of
          p # err # _ \<Rightarrow> try_notice e ''sharing failed'' [short_peer p, Some err] d
        | _ \<Rightarrow> Some d)
      else Some d)"

section \<open>Events of tasks\<close>

definition on_task_started :: "debug_env \<Rightarrow> clocks \<Rightarrow> string \<Rightarrow> string \<Rightarrow> string \<Rightarrow> string \<Rightarrow> debugger \<Rightarrow> debugger" where
  "on_task_started e c i description executor direction d =
     (let (t, ts) = record_task_started c i description executor direction (db_tasks d) in persist_task e c t (d\<lparr>db_tasks := ts\<rparr>))"

definition task_progress :: "debug_env \<Rightarrow> clocks \<Rightarrow> string \<Rightarrow> u16 \<Rightarrow> u16 \<Rightarrow> string \<Rightarrow> debugger \<Rightarrow> debugger" where
  "task_progress e c i finished whole details d =
     (case record_task_progress i finished whole details (db_tasks d) of
        (Some t, ts) \<Rightarrow> persist_task e c t (d\<lparr>db_tasks := ts\<rparr>) | (None, _) \<Rightarrow> d)"

definition task_finished :: "debug_env \<Rightarrow> clocks \<Rightarrow> string \<Rightarrow> string \<Rightarrow> u64 \<Rightarrow> string \<Rightarrow> task_state \<Rightarrow> debugger \<Rightarrow> debugger" where
  "task_finished e c i p ms result state d =
     (let (t, ts) = record_task_finished c i p ms result state (db_tasks d) in persist_task e c t (d\<lparr>db_tasks := ts\<rparr>))"

definition duration_of :: "string \<Rightarrow> u64" where
  "duration_of s = (case parse_u64 s of None \<Rightarrow> 0 | Some n \<Rightarrow> n)"

definition task_succeeded :: "debug_env \<Rightarrow> clocks \<Rightarrow> string \<Rightarrow> string \<Rightarrow> string \<Rightarrow> string list \<Rightarrow> debugger \<Rightarrow> debugger option" where
  "task_succeeded e c p i duration details d0 =
     (let d = task_finished e c i p (duration_of duration) (case details of [] \<Rightarrow> ''completed'' | x # _ \<Rightarrow> x) Completed
            (d0\<lparr>db_completed := db_completed d0 + 1\<rparr>)
      in if db_local_peer d = Some p then Some (notice e ''local task succeeded'' (duration # take 1 details) d)
         else try_notice e ''task on an agent succeeded'' ([short_peer p, Some duration] @ map Some (take 1 details))
           (on_peer p (\<lambda>v. v\<lparr>pv_state := Connected, pv_last_message := wording e (Notice ''task successful'' [duration])\<rparr>) d))"

definition task_failed :: "debug_env \<Rightarrow> clocks \<Rightarrow> string \<Rightarrow> string \<Rightarrow> string \<Rightarrow> string \<Rightarrow> debugger \<Rightarrow> debugger option" where
  "task_failed e c p i duration err d0 =
     (let d = task_finished e c i p (duration_of duration) err Failed d0
      in if db_local_peer d = Some p then Some (notice e ''local task failed'' [err] d)
         else try_notice e ''task on an agent failed'' [short_peer p, Some err]
           (on_peer p (\<lambda>v. v\<lparr>pv_last_message := wording e (Notice ''task error'' [err])\<rparr>) d))"

text \<open>A failure without a task: the last running task of the peer, if it has one.\<close>

definition peer_task_failed :: "debug_env \<Rightarrow> clocks \<Rightarrow> string \<Rightarrow> string \<Rightarrow> debugger \<Rightarrow> debugger" where
  "peer_task_failed e c p err d = (case rposition (\<lambda>t. tv_state t = Running \<and> tv_executor t = p) (db_tasks d) of
     Some k \<Rightarrow> task_finished e c (tv_id (db_tasks d ! k)) p 0 err Failed d
   | None \<Rightarrow> on_peer p (\<lambda>v. v\<lparr>pv_last_message := wording e (Notice ''background connection'' [err])\<rparr>) d)"

definition task_event :: "debug_env \<Rightarrow> clocks \<Rightarrow> string \<Rightarrow> string list \<Rightarrow> debugger \<Rightarrow> debugger option" where
  "task_event e c ev args d =
     (if ev = ''INBOUND_TASK_REJECTED'' then (case args of p # _ \<Rightarrow> try_notice e ''task refused'' [short_peer p] d | _ \<Rightarrow> Some d)
      else if ev = ''TASK_STARTED'' then Some (case args of
          i # description # executor # direction # _ \<Rightarrow> on_task_started e c i description executor direction d
        | _ \<Rightarrow> d)
      else if ev = ''MATRIX_PLAN'' then Some (case args of
          i # n # whole # workers # _ \<Rightarrow> (case parse_u16 whole of
              Some t \<Rightarrow> task_progress e c i 0 t (wording e (Notice ''matrix plan'' [n, workers])) d
            | None \<Rightarrow> d)
        | _ \<Rightarrow> d)
      else if ev = ''TASK_PROGRESS'' then Some (case args of
          i # a # b # details \<Rightarrow> (case (parse_u16 a, parse_u16 b) of
              (Some x, Some y) \<Rightarrow> task_progress e c i x y (case details of [] \<Rightarrow> ''chunks completed'' | t # _ \<Rightarrow> t) d
            | _ \<Rightarrow> d)
        | _ \<Rightarrow> d)
      else if ev = ''TASK_RESULT'' then (case args of
          p # i # duration # details \<Rightarrow> task_succeeded e c p i duration details d
        | _ \<Rightarrow> Some d)
      else if ev = ''TASK_FAILED'' then (case args of
          p # i # duration # err # _ \<Rightarrow> task_failed e c p i duration err d
        | p # err # _ \<Rightarrow> Some (peer_task_failed e c p err d)
        | _ \<Rightarrow> Some d)
      else Some d)"

section \<open>A line of output\<close>

definition handle_output :: "debug_env \<Rightarrow> clocks \<Rightarrow> string \<Rightarrow> debugger \<Rightarrow> debugger option" where
  "handle_output e c line d = (case parse_event line of
     Some (ev # args) \<Rightarrow>
       Option.bind (network_event e ev args d) (\<lambda>d.
       Option.bind (update_event e ev args d) (\<lambda>d.
       Option.bind (scheduler_event e ev args d) (\<lambda>d.
       Option.bind (artifact_event e ev args d) (\<lambda>d.
       Option.bind (sharing_event e ev args d) (task_event e c ev args)))))
   | _ \<Rightarrow> Some d)"

end
