(* ===== verification/Debug_Actions.thy ===== *)
theory Debug_Actions
  imports Debugger
begin

text \<open>
  What the user of the debugger window does, and its regular look at the agent (\<open>poll_agent\<close>): starting and stopping the
  agent, the commands of the buttons, updates of the agent and of the debugger itself through the updater, the metrics. The results of
  starting a process and of writing a file are arguments.
\<close>

section \<open>The window at its start\<close>

text \<open>The history as \<open>TaskStore::open\<close> answers: the table with its recent tasks and the number of interrupted ones, or an error.\<close>

definition new_debugger :: "debug_env \<Rightarrow> string \<Rightarrow> string + task_table \<times> task_view list \<times> nat \<Rightarrow> debugger" where
  "new_debugger e name history =
     \<lparr>db_agent = None, db_node_name = name, db_logs = [],
      db_notices = [Notice ''first steps'' [], (case history of
        Inl err \<Rightarrow> Notice ''history unavailable'' [err]
      | Inr (_, _, n) \<Rightarrow> if n = 0 then Notice ''history loaded'' [] else Notice ''history recovered'' [show_nat n])],
      db_local_peer = None, db_agent_version = wording e (Notice ''waiting for the start'' []), db_listening = [], db_peers = [],
      db_selected_peer = None, db_auto_updates = False, db_requested = {}, db_ready = None, db_requested_debugger = {},
      db_ready_debugger = None, db_completed = 0, db_tasks = (case history of Inl _ \<Rightarrow> [] | Inr (_, ts, _) \<Rightarrow> ts),
      db_store = (case history of Inl _ \<Rightarrow> None | Inr (s, _, _) \<Rightarrow> Some s), db_resources = None, db_placement = None,
      db_artifacts = [], db_artifact_store = None, db_selected_artifact = None, db_remote = [], db_selected_remote = None,
      db_stopped = [], db_updater_runs = False, db_launched = [], db_close = False\<rparr>"

section \<open>The agent process\<close>

text \<open>Dropping the agent tells it to quit, a second time after \<open>stop_managed_agent\<close>, and kills it.\<close>

definition say_to :: "string \<Rightarrow> managed_agent \<Rightarrow> managed_agent" where
  "say_to command a = (if input_open a then a\<lparr>given := given a @ [command]\<rparr> else a)"

definition drop_agent :: "managed_agent \<Rightarrow> debugger \<Rightarrow> debugger" where
  "drop_agent a d = d\<lparr>db_agent := None, db_stopped := db_stopped d @ [say_to ''quit'' a]\<rparr>"

definition start_agent :: "debug_env \<Rightarrow> string option \<Rightarrow> debugger \<Rightarrow> debugger" where
  "start_agent e spawn_error d =
     (if db_agent d \<noteq> None then d
      else let d1 = d\<lparr>db_local_peer := None, db_resources := None, db_placement := None, db_listening := [], db_peers := [],
             db_selected_peer := None, db_artifacts := [], db_artifact_store := None, db_selected_artifact := None, db_remote := [],
             db_selected_remote := None\<rparr>
        in case spawn_error of
             None \<Rightarrow> notice e ''agent started'' [] (d1\<lparr>db_agent := Some \<lparr>input_open = True, given = []\<rparr>\<rparr>)
           | Some err \<Rightarrow> notice e ''agent could not be started'' [err] d1)"

definition interrupt_active_tasks :: "debug_env \<Rightarrow> clocks \<Rightarrow> string \<Rightarrow> debugger \<Rightarrow> nat \<times> debugger" where
  "interrupt_active_tasks e c reason d =
     (let (stopped, ts) = interrupt_running_tasks c reason (db_tasks d)
      in (length stopped, fold (persist_task e c) stopped (d\<lparr>db_tasks := ts\<rparr>)))"

definition stop_managed_agent :: "debug_env \<Rightarrow> clocks \<Rightarrow> debugger \<Rightarrow> debugger" where
  "stop_managed_agent e c d = (case db_agent d of
     None \<Rightarrow> d
   | Some a \<Rightarrow> let (n, d1) = interrupt_active_tasks e c (wording e (Notice ''agent stopped before the task finished'' [])) (drop_agent (say_to ''quit'' a) d)
       in notice e ''agent stopped'' [show_nat n] d1)"

section \<open>Commands for peers\<close>

definition selected_peer_id :: "debugger \<Rightarrow> string option" where
  "selected_peer_id d = (case db_selected_peer d of
     Some p \<Rightarrow> Some p | None \<Rightarrow> (case db_peers d of [] \<Rightarrow> None | (p, _) # _ \<Rightarrow> Some p))"

definition send_each :: "debug_env \<Rightarrow> string \<Rightarrow> string list \<Rightarrow> debugger \<Rightarrow> debugger" where
  "send_each e command ps = fold (\<lambda>p. send_command e (command @ p)) ps"

definition find_agents :: "debug_env \<Rightarrow> debugger \<Rightarrow> debugger" where
  "find_agents e d =
     (let d1 = send_command e ''peers'' (notice e ''searching the local network'' [] d)
      in send_each e ''resources '' (map fst (db_peers d1)) d1)"

definition test_connection :: "debug_env \<Rightarrow> debugger \<Rightarrow> debugger option" where
  "test_connection e d = (case selected_peer_id d of
     None \<Rightarrow> Some (notice e ''find and choose an agent first'' [] d)
   | Some p \<Rightarrow> map_option (\<lambda>d. send_command e (''echo '' @ p @ '' swagri-connection-test'') (send_command e (''connect '' @ p) d))
       (try_notice e ''testing the connection'' [short_peer p] d))"

definition quick_test_command :: "string \<Rightarrow> string \<Rightarrow> string" where
  "quick_test_command which p =
     (if which = ''sum'' then ''sum '' @ p @ '' 1 2 3 4 5''
      else if which = ''sha256'' then ''sha256 '' @ p @ '' Swagri''
      else if which = ''benchmark'' then ''benchmark '' @ p @ '' 1000000''
      else if which = ''matrix'' then ''matrix '' @ p @ '' 192''
      else if which = ''info'' then ''info '' @ p
      else ''echo '' @ p @ '' hello-from-swagri-debugger'')"

definition run_quick_test :: "debug_env \<Rightarrow> string \<Rightarrow> debugger \<Rightarrow> debugger" where
  "run_quick_test e which d = (case selected_peer_id d of
     None \<Rightarrow> notice e ''find and choose an agent first'' [] d | Some p \<Rightarrow> send_command e (quick_test_command which p) d)"

definition run_smart_benchmark :: "debug_env \<Rightarrow> debugger \<Rightarrow> debugger" where
  "run_smart_benchmark e d = send_command e ''auto-benchmark 1000000'' (notice e ''comparing scores'' [] d)"

definition run_smart_matrix :: "debug_env \<Rightarrow> debugger \<Rightarrow> debugger" where
  "run_smart_matrix e d = send_command e ''auto-matrix 320'' (notice e ''preparing a matrix task'' [] d)"

definition run_distributed_matrix :: "debug_env \<Rightarrow> debugger \<Rightarrow> debugger" where
  "run_distributed_matrix e d = send_command e ''distributed-matrix 768 96'' (notice e ''splitting a matrix'' [] d)"

definition fail_next_inbound_matrix_chunk :: "debug_env \<Rightarrow> debugger \<Rightarrow> debugger" where
  "fail_next_inbound_matrix_chunk e d = notice e ''failure test armed'' [] (send_command e ''debug-fail-next-matrix-chunk'' d)"

definition delay_next_inbound_matrix_chunk :: "debug_env \<Rightarrow> debugger \<Rightarrow> debugger" where
  "delay_next_inbound_matrix_chunk e d = notice e ''delay test armed'' [] (send_command e ''debug-delay-next-matrix-chunk 5000'' d)"

definition toggle_local_contribution :: "debug_env \<Rightarrow> debugger \<Rightarrow> debugger" where
  "toggle_local_contribution e d =
     (if (case db_resources d of None \<Rightarrow> False | Some r \<Rightarrow> rv_paused r)
      then notice e ''allowing new work'' [] (send_command e ''resume-resources'' d)
      else notice e ''blocking new work'' [] (send_command e ''pause-resources'' d))"

definition check_versions :: "debug_env \<Rightarrow> debugger \<Rightarrow> debugger" where
  "check_versions e d = (let ps = map fst (db_peers d)
     in send_each e ''info '' ps (if ps = [] then notice e ''no agents to check'' [] d else d))"

definition manual_dial :: "debug_env \<Rightarrow> string \<Rightarrow> debugger \<Rightarrow> debugger" where
  "manual_dial e dial_address d = (let address = trim dial_address
     in if address = [] then notice e ''insert a full multiaddress'' [] d
        else notice e ''dialing by hand'' [] (send_command e (''dial '' @ address) d))"

definition request_debugger_update :: "debug_env \<Rightarrow> string \<Rightarrow> debugger \<Rightarrow> debugger option" where
  "request_debugger_update e p d =
     (let d1 = send_command e (''download-debugger-update '' @ p) (send_command e (''trust '' @ p) d)
      in try_notice e ''asking for the signed debugger'' [short_peer p] (d1\<lparr>db_requested_debugger := insert p (db_requested_debugger d1)\<rparr>))"

section \<open>Commands for artifacts\<close>

definition MAX_FETCH_PROVIDERS :: nat where "MAX_FETCH_PROVIDERS = 8"

definition import_file :: "debug_env \<Rightarrow> string \<Rightarrow> string \<Rightarrow> debugger \<Rightarrow> debugger" where
  "import_file e path name d = send_command e (''artifact-import '' @ path) (notice e ''importing a file'' [name] d)"

definition refresh_artifacts :: "debug_env \<Rightarrow> debugger \<Rightarrow> debugger" where
  "refresh_artifacts e d = send_command e ''artifact-list'' (d\<lparr>db_artifacts := []\<rparr>)"

definition verify_selected_artifact :: "debug_env \<Rightarrow> debugger \<Rightarrow> debugger option" where
  "verify_selected_artifact e d =
     (case (case db_selected_artifact d of Some i \<Rightarrow> Some i | None \<Rightarrow> (case db_artifacts d of [] \<Rightarrow> None | a # _ \<Rightarrow> Some (av_id a))) of
        None \<Rightarrow> Some (notice e ''choose a file first'' [] d)
      | Some i \<Rightarrow> map_option (send_command e (''artifact-verify '' @ i)) (try_notice e ''checking every block'' [short_content_id i] d))"

definition trust_selected_peer_for_artifacts :: "debug_env \<Rightarrow> debugger \<Rightarrow> debugger option" where
  "trust_selected_peer_for_artifacts e d = (case selected_peer_id d of
     None \<Rightarrow> Some (notice e ''find and choose an agent first'' [] d)
   | Some p \<Rightarrow> try_notice e ''peer allowed on this side'' [short_peer p] (send_command e (''trust '' @ p) d))"

definition refresh_peer_artifacts :: "debug_env \<Rightarrow> debugger \<Rightarrow> debugger option" where
  "refresh_peer_artifacts e d = (case selected_peer_id d of
     None \<Rightarrow> Some (notice e ''find and choose an agent first'' [] d)
   | Some p \<Rightarrow> try_notice e ''asking for the list of files'' [short_peer p] (send_command e (''artifact-peer-list '' @ p) d))"

text \<open>A peer that is trusted and connected.\<close>

definition ready_peer :: "peer_view \<Rightarrow> bool" where
  "ready_peer v = (pv_trusted v \<and> pv_state v = Connected)"

definition refresh_all_trusted_peer_artifacts :: "debug_env \<Rightarrow> debugger \<Rightarrow> debugger" where
  "refresh_all_trusted_peer_artifacts e d =
     (let ps = map fst (filter (\<lambda>(_, v). ready_peer v) (db_peers d))
      in if ps = [] then notice e ''no trusted agents are connected'' [] d
         else notice e ''asking trusted agents for their files'' [show_nat (length ps)] (send_each e ''artifact-peer-list '' ps d))"

definition fetch_providers :: "string \<Rightarrow> debugger \<Rightarrow> string list" where
  "fetch_providers i d = take MAX_FETCH_PROVIDERS (remdups_adj (sort
     (filter (\<lambda>p. case bt_get (db_peers d) p of None \<Rightarrow> False | Some v \<Rightarrow> ready_peer v)
       (map ra_peer (filter (\<lambda>a. ra_id a = i) (db_remote d))))))"

definition fetch_selected_remote_artifact :: "debug_env \<Rightarrow> debugger \<Rightarrow> debugger option" where
  "fetch_selected_remote_artifact e d =
     (case (case db_selected_remote d of Some s \<Rightarrow> Some s
              | None \<Rightarrow> (case db_remote d of [] \<Rightarrow> None | a # _ \<Rightarrow> Some (ra_peer a, ra_id a))) of
        None \<Rightarrow> Some (notice e ''refresh the files of the peer first'' [] d)
      | Some (p, i) \<Rightarrow>
          let providers = fetch_providers i d
          in if length providers > 1
             then try_notice e ''fetching from many'' [short_content_id i, Some (show_nat (length providers))]
               (send_command e (''artifact-fetch-many '' @ i @ '' '' @ join_with '' '' providers) d)
             else try_notice e ''fetching from one'' [short_content_id i, short_peer p]
               (send_command e (''artifact-fetch '' @ p @ '' '' @ i) d))"

section \<open>Updates\<close>

text \<open>What the system answers: is the updater there, the error of writing the restart arguments, of starting the updater, of starting the agent.\<close>

record launch =
  updater_present :: bool
  args_error :: "string option"
  updater_error :: "string option"
  agent_error :: "string option"

definition ascii_lower :: "char \<Rightarrow> char" where
  "ascii_lower x = (let b = of_char x :: nat in if 65 \<le> b \<and> b \<le> 90 then char_of (b + 32) else x)"

definition official_installer :: "string \<Rightarrow> bool" where
  "official_installer name = (let n = map ascii_lower name in prefix ''swagri-debugger-setup'' n \<and> suffix ''.exe'' n)"

definition install_update :: "debug_env \<Rightarrow> clocks \<Rightarrow> string option \<Rightarrow> string \<Rightarrow> debugger \<Rightarrow> debugger" where
  "install_update e c launch_error name d =
     (if \<not> official_installer name then notice e ''choose the official installer'' [] d
      else let d1 = stop_managed_agent e c d
        in case launch_error of
             None \<Rightarrow> (notice e ''the installer starts after the exit'' [] d1)\<lparr>db_close := True\<rparr>
           | Some err \<Rightarrow> notice e ''the installer could not be started'' [err] d1)"

definition apply_ready_update :: "debug_env \<Rightarrow> clocks \<Rightarrow> launch \<Rightarrow> string \<Rightarrow> string \<Rightarrow> string \<Rightarrow> debugger \<Rightarrow> debugger option" where
  "apply_ready_update e c l p v replacement d =
     (if \<not> updater_present l then Some (notice e ''updater not found'' [updater_path e] d)
      else case args_error l of
        Some err \<Rightarrow> Some (notice e ''the updater could not be prepared'' [err] d)
      | None \<Rightarrow>
          let args_path = extension_replaced e replacement ''debugger-restart.json'';
              d1 = stop_managed_agent e c d;
              command = [''--target'', agent_path e, ''--replacement'', replacement,
                ''--backup'', extension_replaced e (agent_path e) ''previous.exe'', ''--restart-args'', args_path, ''--no-restart'']
          in case updater_error l of
               None \<Rightarrow> try_notice e ''replacing the agent'' [Some v, short_peer p]
                 (d1\<lparr>db_updater_runs := True, db_launched := db_launched d1 @ [command]\<rparr>)
             | Some err \<Rightarrow> Some (notice e ''the updater could not be started'' [err] d1))"

definition apply_ready_debugger_update :: "debug_env \<Rightarrow> clocks \<Rightarrow> launch \<Rightarrow> string \<Rightarrow> string \<Rightarrow> string \<Rightarrow> debugger \<Rightarrow> debugger option" where
  "apply_ready_debugger_update e c l p v replacement d =
     (if \<not> newer_version e v (debugger_version e)
      then try_notice e ''the debugger is not newer'' [Some v, short_peer p, Some (debugger_version e)] d
      else if \<not> updater_present l then Some (notice e ''updater not found'' [updater_path e] d)
      else case own_executable e of
        Inl err \<Rightarrow> Some (notice e ''the debugger does not know its file'' [err] d)
      | Inr target \<Rightarrow> (case args_error l of
          Some err \<Rightarrow> Some (notice e ''the restart could not be prepared'' [err] d)
        | None \<Rightarrow>
            let args_path = extension_replaced e replacement ''debugger-restart.json'';
                d1 = stop_managed_agent e c d;
                command = [''--target'', target, ''--replacement'', replacement, ''--backup'', extension_replaced e target ''previous.exe'',
                  ''--restart-args'', args_path, ''--version-marker'', extension_replaced e target ''version'', ''--replacement-version'', v]
            in case updater_error l of
                 None \<Rightarrow> map_option (\<lambda>d. d\<lparr>db_close := True\<rparr>)
                   (try_notice e ''restarting the debugger'' [Some v, short_peer p] (d1\<lparr>db_launched := db_launched d1 @ [command]\<rparr>))
               | Some err \<Rightarrow> Some (start_agent e (agent_error l) (notice e ''the updater of the debugger could not be started'' [err] d1))))"

section \<open>The regular look at the agent\<close>

text \<open>One line of the agent: without its colours to \<open>handle_output\<close>, and into the log.\<close>

definition take_line :: "debug_env \<Rightarrow> clocks \<Rightarrow> string \<Rightarrow> debugger \<Rightarrow> debugger option" where
  "take_line e c line d = Option.bind (strip_ansi_codes line) (\<lambda>clean.
     map_option (push_log (classify_agent_log clean) FromAgent clean) (handle_output e c clean d))"

fun take_lines :: "debug_env \<Rightarrow> clocks \<Rightarrow> string list \<Rightarrow> debugger \<Rightarrow> debugger option" where
  "take_lines e c [] d = Some d"
| "take_lines e c (l # ls) d = Option.bind (take_line e c l d) (take_lines e c ls)"

definition agent_exited :: "debug_env \<Rightarrow> clocks \<Rightarrow> string option \<Rightarrow> debugger \<Rightarrow> debugger" where
  "agent_exited e c exit d = (case (exit, db_agent d) of
     (Some status, Some a) \<Rightarrow>
       let (n, d1) = interrupt_active_tasks e c (wording e (Notice ''agent ended before the task finished'' [])) (drop_agent a d)
       in notice e ''agent ended'' [status, show_nat n] d1
   | _ \<Rightarrow> d)"

definition take_ready :: "debug_env \<Rightarrow> clocks \<Rightarrow> launch \<Rightarrow> debugger \<Rightarrow> debugger option" where
  "take_ready e c l d = (case db_ready d of
     None \<Rightarrow> Some d | Some (p, v, path) \<Rightarrow> apply_ready_update e c l p v path (d\<lparr>db_ready := None\<rparr>))"

definition take_ready_debugger :: "debug_env \<Rightarrow> clocks \<Rightarrow> launch \<Rightarrow> debugger \<Rightarrow> debugger option" where
  "take_ready_debugger e c l d = (case db_ready_debugger d of
     None \<Rightarrow> Some d | Some (p, v, path) \<Rightarrow> apply_ready_debugger_update e c l p v path (d\<lparr>db_ready_debugger := None\<rparr>))"

text \<open>The end of the updater: whether it succeeded.\<close>

definition updater_exited :: "debug_env \<Rightarrow> launch \<Rightarrow> bool option \<Rightarrow> debugger \<Rightarrow> debugger" where
  "updater_exited e l exit d = (case exit of
     Some success \<Rightarrow> if \<not> db_updater_runs d then d
       else let d1 = d\<lparr>db_updater_runs := False\<rparr>
         in if success then start_agent e (agent_error l) (notice e ''the agent was updated'' [] d1)
            else notice e ''the updater failed'' [] d1
   | None \<Rightarrow> d)"

definition poll_agent :: "debug_env \<Rightarrow> clocks \<Rightarrow> launch \<Rightarrow> string list \<Rightarrow> string option \<Rightarrow> bool option \<Rightarrow> debugger \<Rightarrow> debugger option" where
  "poll_agent e c l lines exit updater_exit d =
     Option.bind (take_lines e c lines d) (\<lambda>d1.
     Option.bind (take_ready e c l (agent_exited e c exit d1)) (\<lambda>d2.
     map_option (updater_exited e l updater_exit) (take_ready_debugger e c l d2)))"

definition clear_finished_tasks :: "debug_env \<Rightarrow> debugger \<Rightarrow> debugger" where
  "clear_finished_tasks e d =
     (let d1 = d\<lparr>db_tasks := filter (\<lambda>t. tv_state t = Running) (db_tasks d)\<rparr>
      in case db_store d1 of
           None \<Rightarrow> d1
         | Some s \<Rightarrow> (case clear_finished s of
             (Inr _, s') \<Rightarrow> d1\<lparr>db_store := Some s'\<rparr>
           | (Inl err, s') \<Rightarrow> notice e ''history could not be cleared'' [err] (d1\<lparr>db_store := None\<rparr>)))"

section \<open>Metrics and the log filter\<close>

record metrics =
  mt_refreshed :: nat
  mt_index :: flt
  mt_cpu :: "(flt \<times> flt) list"
  mt_memory :: "(flt \<times> flt) list"

definition push_sample :: "flt \<times> flt \<Rightarrow> (flt \<times> flt) list \<Rightarrow> (flt \<times> flt) list" where
  "push_sample x h = push_bounded x MAX_METRIC_SAMPLES h"

text \<open>The readings: the processors' load in percent, the memory of the computer and the part in use. At most one sample in a second.\<close>

definition refresh_metrics :: "clocks \<Rightarrow> flt \<Rightarrow> u64 \<Rightarrow> u64 \<Rightarrow> metrics \<Rightarrow> metrics" where
  "refresh_metrics c cpu memory used m =
     (if instant_now c - mt_refreshed m < 1000 then m
      else let i = fl_add rnd64 (mt_index m) (Fin 1);
               whole = max 1 memory;
               percent = fl_mul rnd64 (fl_div rnd64 (f64_of_nat (unat used)) (f64_of_nat (unat whole))) (Fin 100)
        in \<lparr>mt_refreshed = instant_now c, mt_index = i, mt_cpu = push_sample (i, cpu) (mt_cpu m),
            mt_memory = push_sample (i, percent) (mt_memory m)\<rparr>)"

definition source_label :: "log_source \<Rightarrow> string" where
  "source_label s = (case s of FromAgent \<Rightarrow> ''AGENT'' | FromDebugger \<Rightarrow> ''GUI'' | FromCommand \<Rightarrow> ''CMD'')"

definition log_matches :: "(string \<Rightarrow> string) \<Rightarrow> log_level option \<Rightarrow> log_source option \<Rightarrow> string \<Rightarrow> log_entry \<Rightarrow> bool" where
  "log_matches lower level source query x =
     (let q = lower (trim query)
      in (case level of None \<Rightarrow> True | Some l \<Rightarrow> le_level x = l) \<and> (case source of None \<Rightarrow> True | Some s \<Rightarrow> le_source x = s) \<and>
         (q = [] \<or> sublist q (lower (le_message x)) \<or> sublist q (lower (level_label (le_level x))) \<or>
          sublist q (lower (source_label (le_source x)))))"

end
