(* ===== verification/Debug_Text.thy ===== *)
theory Debug_Text
  imports Debug_Actions Startup
begin

text \<open>
  The texts the debugger window makes of its state: labels of peers and directions, shortened texts, the level of its own messages, the
  filtered log, and the command lines and paths it starts the agent with. Words that are not ASCII are given by their bytes.
\<close>

section \<open>Characters\<close>

text \<open>\<open>str::chars\<close>: each character as its bytes.\<close>

function characters :: "string \<Rightarrow> string list" where
  "characters [] = []"
| "characters (c # cs) = take (utf8_length c) (c # cs) # characters (drop (utf8_length c) (c # cs))"
  by pat_completeness auto

termination
  by (relation "measure length") auto

definition short_text :: "nat \<Rightarrow> string \<Rightarrow> string" where
  "short_text limit s = (let short = take limit (characters s)
     in if length short < length (characters s) then concat short @ ellipsis else concat short)"

definition short_cpu :: "string \<Rightarrow> string" where
  "short_cpu = short_text 30"

lemma characters_concat: "concat (characters s) = s"
  by (induction s rule: characters.induct) (simp_all del: take_Cons drop_Cons)

lemma characters_ok: "utf8_ok s \<Longrightarrow> ch \<in> set (characters s) \<Longrightarrow> characters ch = [ch]"
proof (induction s rule: characters.induct)
  case (2 c cs)
  obtain n where n: "utf8_length c = Suc n" using utf8_length_pos [of c] by (cases "utf8_length c") auto
  have len: "length (take n cs) = n" and rest: "utf8_ok (drop n cs)" using "2.prems"(1) by (simp_all add: n)
  show ?case
  proof (cases "ch = take (utf8_length c) (c # cs)")
    case True
    then show ?thesis using len by (simp add: n)
  next
    case False
    then show ?thesis using "2.IH" "2.prems"(2) rest by (simp add: n)
  qed
qed simp

text \<open>A text is shortened to its first characters, never inside one, and left alone when it is short enough.\<close>

lemma short_text_is_prefix:
  "(length (characters s) \<le> n \<longrightarrow> short_text n s = s) \<and>
   (n < length (characters s) \<longrightarrow> (\<exists>u. prefix u s \<and> u = concat (take n (characters s)) \<and> short_text n s = u @ ellipsis))"
proof -
  have "s = concat (take n (characters s)) @ concat (drop n (characters s))"
    by (metis append_take_drop_id characters_concat concat_append)
  then show ?thesis by (auto simp: short_text_def Let_def characters_concat intro: prefixI)
qed

section \<open>Labels\<close>

definition peer_label :: "string \<Rightarrow> peer_view \<Rightarrow> string option" where
  "peer_label p v = (case pv_name v of
     Some name \<Rightarrow> if name \<noteq> [] then map_option (\<lambda>s. name @ '' ('' @ s @ '')'') (short_peer p) else short_peer p
   | None \<Rightarrow> short_peer p)"

definition task_direction_label :: "string \<Rightarrow> string" where
  "task_direction_label direction =
     (if direction = ''local'' then text_of [0xD0, 0xBB, 0xD0, 0xBE, 0xD0, 0xBA, 0xD0, 0xB0, 0xD0, 0xBB, 0xD1, 0x8C, 0xD0, 0xBD, 0xD0, 0xB0]
      else if direction = ''inbound'' then text_of [0xD0, 0xBE, 0xD1, 0x82, 0xD1, 0x80, 0xD0, 0xB8, 0xD0, 0xBC, 0xD0, 0xB0, 0xD0, 0xBD, 0xD0, 0xB0, 0x20, 0xD0, 0xB7, 0x20, 0xD1, 0x80, 0xD0, 0xBE, 0xD1, 0x8E]
      else if direction = ''outbound'' then text_of [0xD0, 0xB2, 0xD1, 0x96, 0xD0, 0xB4, 0xD0, 0xBF, 0xD1, 0x80, 0xD0, 0xB0, 0xD0, 0xB2, 0xD0, 0xBB, 0xD0, 0xB5, 0xD0, 0xBD, 0xD0, 0xB0, 0x20, 0xD0, 0xB2, 0x20, 0xD1, 0x80, 0xD1, 0x96, 0xD0, 0xB9]
      else if direction = ''orchestrator'' then text_of [0xD1, 0x80, 0xD0, 0xBE, 0xD0, 0xB7, 0xD0, 0xBF, 0xD0, 0xBE, 0xD0, 0xB4, 0xD1, 0x96, 0xD0, 0xBB, 0xD0, 0xB5, 0xD0, 0xBD, 0xD0, 0xB0, 0x20, 0xD1, 0x80, 0xD0, 0xBE, 0xD1, 0x94, 0xD0, 0xBC]
      else if direction = ''scheduler'' then ''scheduler''
      else text_of [0xD0, 0xBD, 0xD0, 0xB5, 0xD0, 0xB2, 0xD1, 0x96, 0xD0, 0xB4, 0xD0, 0xBE, 0xD0, 0xBC, 0xD0, 0xBE])"

definition peer_state_label :: "peer_state \<Rightarrow> string" where
  "peer_state_label s = (case s of
     Discovered \<Rightarrow> text_of [0xD0, 0xB7, 0xD0, 0xBD, 0xD0, 0xB0, 0xD0, 0xB9, 0xD0, 0xB4, 0xD0, 0xB5, 0xD0, 0xBD, 0xD0, 0xBE]
   | Connecting \<Rightarrow> text_of [0xD0, 0xBF, 0xD1, 0x96, 0xD0, 0xB4, 0xD0, 0xBA, 0xD0, 0xBB, 0xD1, 0x8E, 0xD1, 0x87, 0xD0, 0xB5, 0xD0, 0xBD, 0xD0, 0xBD, 0xD1, 0x8F]
   | Connected \<Rightarrow> text_of [0xD0, 0xBF, 0xD1, 0x96, 0xD0, 0xB4, 0xD0, 0xBA, 0xD0, 0xBB, 0xD1, 0x8E, 0xD1, 0x87, 0xD0, 0xB5, 0xD0, 0xBD, 0xD0, 0xBE]
   | Disconnected \<Rightarrow> text_of [0xD0, 0xB2, 0xD1, 0x96, 0xD0, 0xB4, 0xD0, 0xBA, 0xD0, 0xBB, 0xD1, 0x8E, 0xD1, 0x87, 0xD0, 0xB5, 0xD0, 0xBD, 0xD0, 0xBE]
   | PeerFailed \<Rightarrow> text_of [0xD0, 0xBF, 0xD0, 0xBE, 0xD0, 0xBC, 0xD0, 0xB8, 0xD0, 0xBB, 0xD0, 0xBA, 0xD0, 0xB0])"

section \<open>The log\<close>

definition error_word :: string where
  "error_word = text_of [0xD0, 0xBF, 0xD0, 0xBE, 0xD0, 0xBC, 0xD0, 0xB8, 0xD0, 0xBB]"

definition failed_word :: string where
  "failed_word = text_of [0xD0, 0xBD, 0xD0, 0xB5, 0x20, 0xD0, 0xB2, 0xD0, 0xB4, 0xD0, 0xB0, 0xD0, 0xBB, 0xD0, 0xBE, 0xD1, 0x81, 0xD1, 0x8F]"

definition cut_word :: string where
  "cut_word = text_of [0xD0, 0xBF, 0xD0, 0xB5, 0xD1, 0x80, 0xD0, 0xB5, 0xD1, 0x80, 0xD0, 0xB2, 0xD0, 0xB0, 0xD0, 0xBD]"

definition stopped_word :: string where
  "stopped_word = text_of [0xD0, 0xB7, 0xD1, 0x83, 0xD0, 0xBF, 0xD0, 0xB8, 0xD0, 0xBD, 0xD0, 0xB5, 0xD0, 0xBD, 0xD0, 0xBE]"

definition missing_word :: string where
  "missing_word = text_of [0xD0, 0xBD, 0xD0, 0xB5, 0xD0, 0xB4, 0xD0, 0xBE, 0xD1, 0x81, 0xD1, 0x82, 0xD1, 0x83, 0xD0, 0xBF]"

text \<open>The level of a message of the debugger itself; \<open>lower\<close> is \<open>to_lowercase\<close> of all of Unicode.\<close>

definition classify_debugger_log :: "(string \<Rightarrow> string) \<Rightarrow> string \<Rightarrow> log_level" where
  "classify_debugger_log lower message = (let s = lower message
     in if sublist error_word s \<or> sublist failed_word s then Error
        else if sublist cut_word s \<or> sublist stopped_word s \<or> sublist missing_word s then Warning
        else Info)"

definition padded :: "nat \<Rightarrow> string \<Rightarrow> string" where
  "padded n s = s @ replicate (n - length s) (CHR '' '')"

definition formatted :: "string \<Rightarrow> log_entry \<Rightarrow> string" where
  "formatted timestamp x =
     timestamp @ '' '' @ padded 5 (level_label (le_level x)) @ '' '' @ padded 5 (source_label (le_source x)) @ '' '' @ le_message x"

definition filtered_log_text :: "(string \<Rightarrow> string) \<Rightarrow> log_level option \<Rightarrow> log_source option \<Rightarrow> string \<Rightarrow> (string \<times> log_entry) list \<Rightarrow> string" where
  "filtered_log_text lower level source query xs =
     join_with [LF] (map (\<lambda>(timestamp, x). formatted timestamp x) (filter (\<lambda>(_, x). log_matches lower level source query x) xs))"

text \<open>With nothing chosen the filtered log is the whole log; every further choice only takes lines away.\<close>

lemma log_filter_monotone:
  "lower [] = [] \<Longrightarrow> log_matches lower None None [] x"
  "log_matches lower level source query x \<Longrightarrow> log_matches lower None None query x"
  "lower [] = [] \<Longrightarrow> log_matches lower level source query x \<Longrightarrow> log_matches lower level source [] x"
  by (auto simp: log_matches_def trim_def Let_def)

section \<open>Starting the agent\<close>

definition agent_command :: "(flt \<Rightarrow> string) \<Rightarrow> string \<Rightarrow> string \<Rightarrow> string \<Rightarrow> string \<Rightarrow> flt \<Rightarrow> flt \<Rightarrow> string list" where
  "agent_command float_text name identity listen updater cpu memory =
     [''--name'', name, ''--identity'', identity, ''--listen'', listen, ''--update-policy'', ''manual'', ''--updater'', updater,
      ''--max-cpu-percent'', float_text cpu, ''--max-memory-percent'', float_text memory]"

definition spawn_agent :: "(flt \<Rightarrow> string) \<Rightarrow> bool \<Rightarrow> string option \<Rightarrow> string \<Rightarrow> string \<Rightarrow> string \<Rightarrow> string \<Rightarrow> string \<Rightarrow> flt \<Rightarrow> flt \<Rightarrow> string + string list" where
  "spawn_agent float_text there spawn_error path name identity listen updater cpu memory =
     (if \<not> there then Inl (''agent binary was not found at '' @ path)
      else case spawn_error of Some err \<Rightarrow> Inl err
      | None \<Rightarrow> Inr (agent_command float_text name identity listen updater cpu memory))"

definition sibling_path :: "process_env \<Rightarrow> string \<Rightarrow> string" where
  "sibling_path e name = (case beside_executable e name of None \<Rightarrow> name | Some p \<Rightarrow> p)"

definition sibling_agent_path :: "process_env \<Rightarrow> string" where
  "sibling_agent_path e = sibling_path e (if on_windows e then ''swagri-agent.exe'' else ''swagri-agent'')"

definition sibling_updater_path :: "process_env \<Rightarrow> string" where
  "sibling_updater_path e = sibling_path e (if on_windows e then ''swagri-updater.exe'' else ''swagri-updater'')"

definition data_path :: "process_env \<Rightarrow> string \<Rightarrow> string \<Rightarrow> string" where
  "data_path e temp_dir name = joined e (joined e (case local_app_data e of None \<Rightarrow> temp_dir | Some d \<Rightarrow> d) ''Swagri'') name"

definition debugger_identity_path :: "process_env \<Rightarrow> string \<Rightarrow> string" where
  "debugger_identity_path e temp_dir = data_path e temp_dir ''debugger.key''"

definition default_task_store_path :: "process_env \<Rightarrow> string \<Rightarrow> string" where
  "default_task_store_path e temp_dir = data_path e temp_dir ''debugger-tasks.sqlite3''"

definition default_node_name :: "string option \<Rightarrow> string" where
  "default_node_name computer = (case computer of Some name \<Rightarrow> ''debugger-'' @ name | None \<Rightarrow> ''swagri-debugger'')"

definition firewall_command :: "string \<Rightarrow> string" where
  "firewall_command path = ''New-NetFirewallRule -DisplayName '' @ [CHR 0x22] @ ''Swagri Agent QUIC'' @ [CHR 0x22] @
     '' -Direction Inbound -Program '' @ [CHR 0x22] @ path @ [CHR 0x22] @ '' -Protocol UDP -Action Allow -Profile Private''"

text \<open>The agent and the debugger look for the same updater.\<close>

lemma same_updater: "sibling_updater_path e = default_updater_path e"
  by (simp add: sibling_updater_path_def default_updater_path_def sibling_path_def updater_filename_def split: option.split)

end
