(* ===== verification/Window.thy ===== *)
theory Window
  imports Debug_Text
begin

text \<open>
  What the window of the debugger shows (\<open>draw_header\<close> to \<open>draw_debug_tools\<close>): each group of widgets as a list, in the order in which
  they are drawn, with every text, number, choice and the condition that enables a button. Sizes, colours, grids, scrolling and the fixed
  hints of buttons are left out. Fixed Ukrainian texts are named as notices are; a text that does not exist because an identifier would be cut
  inside a character makes the drawing panic, which is \<open>None\<close>.
\<close>

section \<open>Widgets\<close>

datatype shown = Words gui_message | Plain string

datatype button =
    StartAgent | StopAgent | FindAgents | TestConnection | SmartBenchmark | SmartMatrix | DistributedMatrix | FailNextChunk | DelayNextChunk
  | PauseContribution | ResumeContribution | CheckVersions | QuickTest string | ClearFinished
  | AddFile | ListFiles | VerifyFile | TrustForFiles | ListPeerFiles | ListAllFiles | FetchFile
  | UpdateAgent | UpdateDebugger | RemoveTrust | OpenDownloads | InstallUpdate
  | DialPeer | CopyFirewall | CopyLog | SaveLog | ResetFilters | ClearLog | SendLine

datatype widget =
    Label shown "shown option"
  | Button button bool
  | Radio bool
  | Tick string bool
  | Edit string string
  | Choose string "string option"
  | Slider string flt bool
  | ProgressBar flt
  | Curves "(string \<times> (flt \<times> flt) list) list"

definition worded :: "string \<Rightarrow> string list \<Rightarrow> widget" where
  "worded name args = Label (Words (Notice name args)) None"

definition plain :: "string \<Rightarrow> widget" where
  "plain s = Label (Plain s) None"

definition hinted :: "string \<Rightarrow> string \<Rightarrow> widget" where
  "hinted s h = Label (Plain s) (Some (Plain h))"

definition dash :: string where
  "dash = text_of [0xE2, 0x80, 0x94]"

text \<open>Groups drawn one after the other; a panic in one ends the drawing.\<close>

definition draws :: "widget list option list \<Rightarrow> widget list option" where
  "draws gs = map_option concat (those gs)"

text \<open>The state of the window that is not the debugger's own: what is typed, chosen, unfolded, and the metrics.\<close>

record window =
  wd_debugger :: debugger
  wd_query :: string
  wd_level :: "log_level option"
  wd_source :: "log_source option"
  wd_follow :: bool
  wd_console :: bool
  wd_line :: string
  wd_dial :: string
  wd_identity :: string
  wd_listen :: string
  wd_max_cpu :: flt
  wd_max_memory :: flt
  wd_updates_open :: bool
  wd_tools_open :: bool
  wd_metrics :: metrics
  wd_store_path :: string

section \<open>The log\<close>

text \<open>The local times of the entries are given: the model of the log keeps none.\<close>

definition visible_log :: "(string \<Rightarrow> string) \<Rightarrow> window \<Rightarrow> log_entry list" where
  "visible_log lower w = filter (log_matches lower (wd_level w) (wd_source w) (wd_query w)) (db_logs (wd_debugger w))"

definition draw_log_panel :: "(string \<Rightarrow> string) \<Rightarrow> string list \<Rightarrow> window \<Rightarrow> widget list" where
  "draw_log_panel lower stamps w =
     (let logs = db_logs (wd_debugger w);
          whole = length logs;
          visible = length (visible_log lower w);
          errors = length (filter (\<lambda>x. le_level x = Error) logs);
          warnings = length (filter (\<lambda>x. le_level x = Warning) logs)
      in [worded ''log of the agent and the debugger'' [],
          worded ''lines shown'' [show_nat visible, show_nat whole, show_nat warnings, show_nat errors],
          worded ''search'' [], Edit ''log query'' (wd_query w),
          Choose ''log level'' (map_option level_label (wd_level w)),
          Choose ''log source'' (map_option source_label (wd_source w)),
          Tick ''follow new lines'' (wd_follow w),
          Button CopyLog True, Button SaveLog True, Button ResetFilters True, Button ClearLog (whole > 0),
          worded ''last lines are kept'' [show_nat MAX_LOG_LINES]] @
         map (\<lambda>(t, x). plain (formatted t x))
           (filter (\<lambda>(_, x). log_matches lower (wd_level w) (wd_source w) (wd_query w) x) (zip stamps logs)))"

section \<open>The header and the main actions\<close>

definition draw_header :: "debug_env \<Rightarrow> debugger \<Rightarrow> widget list" where
  "draw_header e d =
     [plain ''Swagri Debugger'', worded (if db_agent d \<noteq> None then ''agent is running'' else ''agent is stopped'') [],
      worded ''Agent'' [db_agent_version d], worded ''Debugger'' [debugger_version e], worded ''successful answers'' [show_word (db_completed d)]]"

definition contribution_is_paused :: "debugger \<Rightarrow> bool" where
  "contribution_is_paused d = (case db_resources d of None \<Rightarrow> False | Some r \<Rightarrow> rv_paused r)"

definition draw_main_actions :: "debugger \<Rightarrow> widget list" where
  "draw_main_actions d =
     (let running = (db_agent d \<noteq> None)
      in [worded ''quick start'' [],
          Button StartAgent (\<not> running), Button StopAgent running, Button FindAgents running,
          Button TestConnection (running \<and> db_peers d \<noteq> []),
          Button SmartBenchmark running, Button SmartMatrix running, Button DistributedMatrix running,
          Button FailNextChunk running, Button DelayNextChunk running,
          Button (if contribution_is_paused d then ResumeContribution else PauseContribution) running,
          Button CheckVersions (db_peers d \<noteq> []),
          (if db_notices d = [] then worded ''ready'' [] else Label (Words (last (db_notices d))) None)])"

section \<open>Peers and their resources\<close>

definition gib :: "u64 \<Rightarrow> flt" where
  "gib n = fl_div rnd64 (fl_div rnd64 (fl_div rnd64 (f64_of_nat (unat n)) (Fin 1024)) (Fin 1024)) (Fin 1024)"

definition format_gib :: "u64 \<Rightarrow> string" where
  "format_gib n = fmt_fixed 2 (gib n) @ '' GiB''"

definition peer_row :: "debugger \<Rightarrow> string \<times> peer_view \<Rightarrow> widget list option" where
  "peer_row d x = (case x of (p, v) \<Rightarrow> map_option (\<lambda>name.
     [Radio (db_selected_peer d = Some p), hinted name p, plain (peer_state_label (pv_state v)),
      (case pv_version v of None \<Rightarrow> worded ''unknown'' [] | Some ver \<Rightarrow> plain ver), plain (pv_last_message v)]) (peer_label p v))"

definition remote_candidates :: "debugger \<Rightarrow> (string \<times> flt) list" where
  "remote_candidates d = List.map_filter (\<lambda>(p, v). case pv_resources v of
       None \<Rightarrow> None
     | Some r \<Rightarrow> if \<not> rv_paused r \<and> is_finite (rv_effective r) \<and> fl_less (Fin 0) (rv_effective r) then Some (p, rv_effective r) else None)
     (filter (\<lambda>(p, v). pv_state v = Connected) (db_peers d))"

definition shown_placement :: "debugger \<Rightarrow> cpu_placement_decision option" where
  "shown_placement d = map_option (\<lambda>l. choose_cpu_placement (rv_effective l) (map snd (remote_candidates d)) REMOTE_CPU_MINIMUM_GAIN) (db_resources d)"

definition recommended_peer :: "debugger \<Rightarrow> string option" where
  "recommended_peer d = Option.bind (shown_placement d) (\<lambda>x. map_option (\<lambda>i. fst (remote_candidates d ! i)) (remote_candidate_index x))"

text \<open>\<open>max_by\<close> with \<open>total_cmp\<close>, which keeps the last maximum.\<close>

fun strongest :: "(string \<times> flt) list \<Rightarrow> (string \<times> flt) option" where
  "strongest [] = None"
| "strongest (x # xs) = (case strongest xs of None \<Rightarrow> Some x | Some y \<Rightarrow> Some (if total_le (snd x) (snd y) then y else x))"

definition strongest_remote :: "debugger \<Rightarrow> string option" where
  "strongest_remote d = map_option fst (strongest (remote_candidates d))"

definition lightning :: string where "lightning = text_of [0xE2, 0x9A, 0xA1]"
definition battery_sign :: string where "battery_sign = text_of [0xF0, 0x9F, 0x94, 0x8B]"

definition mobile_text :: "resource_view \<Rightarrow> string" where
  "mobile_text r = (case rv_battery r of
     None \<Rightarrow> dash
   | Some b \<Rightarrow> show_word b @ ''% '' @ (if rv_charging r = Some True then lightning else battery_sign) @ '' '' @ middle_dot @ '' T'' @
       show_word (case rv_thermal r of None \<Rightarrow> 0 | Some t \<Rightarrow> t) @ '' '' @ middle_dot @ '' '' @
       (if rv_unmetered r = Some True then ''Wi-Fi'' else ''metered''))"

definition resource_cells :: "bool \<Rightarrow> resource_view \<Rightarrow> widget list" where
  "resource_cells is_recommended r =
     [Label (Plain (short_cpu (rv_cpu_brand r)))
        (Some (Words (Notice ''system and calibrated score'' [rv_os r, rv_arch r, rv_cpu_brand r, fmt_fixed 1 (rv_calibrated r)]))),
      plain (show_word (rv_physical r) @ ''/'' @ show_word (rv_logical r)),
      plain (fmt_fixed 1 (rv_host_cpu r) @ ''%''),
      Label (Plain (format_gib (rv_available_memory r)))
        (Some (Words (Notice ''memory for Swagri'' [format_gib (rv_allocatable r), format_gib (rv_total_memory r)]))),
      (if rv_paused r
       then Label (Words (Notice ''contribution is paused'' [])) (Some (Words (Notice ''the agent refuses new tasks'' [])))
       else Label (Words (Notice ''load of Swagri'' [fmt_fixed 1 (rv_agent_cpu r), format_gib (rv_agent_memory r), show_word (rv_active_tasks r)]))
         (Some (Words (Notice ''limits'' [fmt_fixed 0 (rv_cpu_limit r), fmt_fixed 0 (rv_memory_limit r), show_word (rv_observed r)])))),
      Label (Plain (mobile_text r)) (Some (Words (Notice ''battery, power, heat and network'' []))),
      plain (fmt_fixed 1 (rv_effective r)),
      (if is_recommended then worded ''recommended'' [] else plain dash)]"

definition resource_row :: "debugger \<Rightarrow> string \<times> peer_view \<Rightarrow> widget list option" where
  "resource_row d x = (case x of (p, v) \<Rightarrow> map_option (\<lambda>name. hinted name p #
     (case pv_resources v of
        Some r \<Rightarrow> resource_cells (recommended_peer d = Some p) r
      | None \<Rightarrow> worded ''waiting for data'' [] # replicate 7 (plain dash))) (peer_label p v))"

definition peer_resources_of :: "debugger \<Rightarrow> string \<Rightarrow> (string \<times> resource_view) option" where
  "peer_resources_of d p = Option.bind (bt_get (db_peers d) p) (\<lambda>v. map_option (Pair p) (pv_resources v))"

definition placement_advice :: "debugger \<Rightarrow> widget list option" where
  "placement_advice d = (case Option.bind (recommended_peer d) (peer_resources_of d) of
     Some (p, r) \<Rightarrow> map_option (\<lambda>s. [worded ''best candidate'' [s, fmt_fixed 1 (rv_effective r), fmt_fixed 1 (rv_calibrated r),
         fmt_fixed 1 (rv_host_cpu r), format_gib (rv_allocatable r)]]) (short_peer p)
   | None \<Rightarrow> (case (Option.bind (strongest_remote d) (peer_resources_of d), db_resources d) of
         (Some (p, r), Some l) \<Rightarrow> map_option (\<lambda>s. [worded ''local first'' [fmt_fixed 1 (rv_effective l), s, fmt_fixed 1 (rv_effective r),
             fmt_fixed 1 (fl_mul rnd64 (rv_effective l) REMOTE_CPU_MINIMUM_GAIN)]]) (short_peer p)
       | _ \<Rightarrow> Some []))"

definition quick_tests :: "string list" where
  "quick_tests = [''echo'', ''sum'', ''sha256'', ''benchmark'', ''matrix'', ''info'']"

definition draw_peers :: "debugger \<Rightarrow> widget list option" where
  "draw_peers d =
     (if db_peers d = [] then Some [worded ''agents found'' [''0''], worded ''nobody found yet'' []]
      else draws
        ([Some [worded ''agents found'' [show_nat (length (db_peers d))],
            worded ''choice'' [], worded ''name or peer'' [], worded ''state'' [], worded ''version'' [], worded ''last check'' []]] @
         map (peer_row d) (db_peers d) @
         [Some (worded ''quick tests'' [] # map (\<lambda>k. Button (QuickTest k) True) quick_tests),
          Some [worded ''resources of the swarm'' [], worded ''agent'' [], worded ''processor'' [], worded ''cores'' [], worded ''CPU of the device'' [],
            worded ''free memory'' [], worded ''Swagri'' [], worded ''mobile state'' [], worded ''effective score'' [], worded ''choice'' []]] @
         map (resource_row d) (db_peers d) @ [placement_advice d]))"

section \<open>Tasks\<close>

definition tasks_in :: "task_state \<Rightarrow> debugger \<Rightarrow> nat" where
  "tasks_in st d = length (filter (\<lambda>t. tv_state t = st) (db_tasks d))"

text \<open>\<open>Duration::as_secs_f32\<close> of a number of milliseconds.\<close>

definition secs_f32 :: "nat \<Rightarrow> flt" where
  "secs_f32 ms = fl_add rnd32 (f32_of_nat (ms div 1000)) (fl_div rnd32 (f32_of_nat (ms mod 1000 * 10 ^ 6)) (f32_of_nat (10 ^ 9)))"

definition task_executor :: "debugger \<Rightarrow> task_view \<Rightarrow> shown option" where
  "task_executor d t =
     (if tv_direction t = ''orchestrator'' then Some (Words (Notice ''swarm, coordinator'' []))
      else if tv_direction t = ''scheduler'' then Some (Words (Notice ''not assigned'' []))
      else if db_local_peer d = Some (tv_executor t) then Some (Words (Notice ''this computer'' [db_node_name d]))
      else map_option Plain (case bt_get (db_peers d) (tv_executor t) of
          Some v \<Rightarrow> peer_label (tv_executor t) v | None \<Rightarrow> short_peer (tv_executor t)))"

definition task_cells :: "clocks \<Rightarrow> debugger \<Rightarrow> task_view \<Rightarrow> widget list option" where
  "task_cells c d t = map_option (\<lambda>executor.
     [Label (Words (Notice (case tv_state t of Running \<Rightarrow> ''running'' | Completed \<Rightarrow> ''completed'' | Failed \<Rightarrow> ''failed'') [])) (Some (Plain (tv_id t))),
      hinted (tv_description t) (tv_id t), Label executor (Some (Plain (tv_executor t))), plain (task_direction_label (tv_direction t)),
      (if tv_state t = Running then plain (fmt_fixed 1 (secs_f32 (instant_now c - tv_started_at t)) @ '' s'')
       else plain (show_word (case tv_duration t of None \<Rightarrow> 0 | Some ms \<Rightarrow> ms) @ '' ms'')),
      (case tv_result t of
         None \<Rightarrow> Label (Words (Notice ''waiting for the result'' [])) (Some (Words (Notice ''waiting for the result'' [])))
       | Some r \<Rightarrow> hinted (short_text 72 r) r)]) (task_executor d t)"

definition draw_tasks :: "clocks \<Rightarrow> string \<Rightarrow> debugger \<Rightarrow> widget list option" where
  "draw_tasks c store_path d =
     (let running = tasks_in Running d; completed = tasks_in Completed d; failed = tasks_in Failed d;
          top = [worded ''tasks of the swarm'' [], worded ''task counts'' [show_nat running, show_nat completed, show_nat failed],
            Button ClearFinished (completed + failed > 0),
            (if db_store d \<noteq> None then worded ''history is kept'' [store_path] else worded ''history is not kept'' [])]
      in if db_tasks d = [] then Some (top @ [worded ''tasks appear here'' []])
         else draws ([Some top, Some [worded ''state'' [], worded ''task'' [], worded ''executor'' [], worded ''direction'' [], worded ''time'' [], worded ''result'' []]] @
           map (task_cells c d) (rev (db_tasks d))))"

section \<open>Artifacts\<close>

definition store_percent :: "artifact_store_view \<Rightarrow> flt" where
  "store_percent s = (if sv_quota s = 0 then Fin 0
     else fl_div rnd64 (fl_mul rnd64 (f64_of_nat (unat (sv_used s))) (Fin 100)) (f64_of_nat (unat (sv_quota s))))"

definition artifact_actions :: "debugger \<Rightarrow> widget list" where
  "artifact_actions d =
     (let running = (db_agent d \<noteq> None)
      in [worded ''files of the swarm'' [], Button AddFile running, Button ListFiles running,
          Button VerifyFile (running \<and> db_artifacts d \<noteq> []),
          Button TrustForFiles (running \<and> selected_peer_id d \<noteq> None),
          Button ListPeerFiles (running \<and> selected_peer_id d \<noteq> None),
          Button ListAllFiles (running \<and> list_ex (\<lambda>(_, v). ready_peer v) (db_peers d)),
          Button FetchFile (running \<and> db_remote d \<noteq> [])])"

definition artifact_row :: "debugger \<Rightarrow> artifact_view \<Rightarrow> widget list option" where
  "artifact_row d a = map_option (\<lambda>i.
     [Radio (db_selected_artifact d = Some (av_id a)), hinted i (av_id a), plain (format_bytes (av_size a)), plain (show_nat (av_blocks a)),
      Label (Words (Notice (if av_verified a then ''verified'' else ''in the cache'') [])) (map_option Plain (av_source a))]) (short_content_id (av_id a))"

definition remote_row :: "debugger \<Rightarrow> remote_artifact_view \<Rightarrow> widget list option" where
  "remote_row d a =
     Option.bind (case bt_get (db_peers d) (ra_peer a) of Some v \<Rightarrow> peer_label (ra_peer a) v | None \<Rightarrow> short_peer (ra_peer a)) (\<lambda>p.
     map_option (\<lambda>i.
       [Radio (db_selected_remote d = Some (ra_peer a, ra_id a)), hinted p (ra_peer a), hinted i (ra_id a), plain (format_bytes (ra_size a)),
        plain (show_nat (ra_blocks a)),
        (case ra_progress a of
           Some (completed, whole, reused) \<Rightarrow> worded ''fetch progress'' [show_nat completed, show_nat whole, show_nat reused]
         | None \<Rightarrow> worded ''ready to fetch'' [])]) (short_content_id (ra_id a)))"

definition draw_artifacts :: "debugger \<Rightarrow> widget list option" where
  "draw_artifacts d = draws
     ([Some (artifact_actions d),
       Some [case db_artifact_store d of
           Some s \<Rightarrow> Label (Words (Notice ''store use'' [show_word (sv_artifacts s), show_word (sv_blocks s), format_bytes (sv_used s),
               format_bytes (sv_quota s), fmt_fixed 3 (store_percent s)])) (Some (Words (Notice ''local store'' [sv_path s])))
         | None \<Rightarrow> worded ''no store yet'' []],
       Some [worded ''how files are fetched'' []]] @
      (if db_artifacts d = [] then []
       else Some [worded ''choice'' [], worded ''content'' [], worded ''length'' [], worded ''blocks'' [], worded ''state'' []] # map (artifact_row d) (db_artifacts d)) @
      (if db_remote d = [] then []
       else Some [worded ''on trusted agents'' [], worded ''choice'' [], worded ''agent'' [], worded ''content'' [], worded ''length'' [], worded ''blocks'' [],
              worded ''transfer'' []] # map (remote_row d) (db_remote d)))"

section \<open>Metrics\<close>

definition draw_metrics :: "u64 \<Rightarrow> u64 \<Rightarrow> metrics \<Rightarrow> debugger \<Rightarrow> widget list" where
  "draw_metrics used memory m d =
     [worded ''processors and memory'' [fmt_fixed 1 (if mt_cpu m = [] then Fin 0 else snd (last (mt_cpu m))), fmt_fixed 2 (gib used), fmt_fixed 2 (gib memory)]] @
     (case db_resources d of
        None \<Rightarrow> []
      | Some r \<Rightarrow> if rv_paused r then [worded ''own resources are blocked'' []]
          else [worded ''own agent'' [fmt_fixed 1 (rv_agent_cpu r), format_gib (rv_agent_memory r), fmt_fixed 1 (rv_effective r)]]) @
     (case db_placement d of None \<Rightarrow> [] | Some n \<Rightarrow> [Label (Words n) None]) @
     [Curves [(''CPU %'', mt_cpu m), (''Memory %'', mt_memory m)]]"

section \<open>Updates\<close>

definition update_fraction :: "u64 \<times> u64 \<Rightarrow> flt" where
  "update_fraction q = fl_div rnd32 (f32_of_nat (unat (fst q))) (f32_of_nat (unat (max (snd q) 1)))"

definition selected_view :: "debugger \<Rightarrow> peer_view option" where
  "selected_view d = Option.bind (selected_peer_id d) (bt_get (db_peers d))"

definition selected_version :: "debugger \<Rightarrow> string option" where
  "selected_version d = Option.bind (selected_view d) pv_version"

definition progress_shown :: "string \<Rightarrow> (u64 \<times> u64) option \<Rightarrow> widget list" where
  "progress_shown name q = (case q of None \<Rightarrow> [] | Some x \<Rightarrow> [worded name [], ProgressBar (update_fraction x)])"

definition draw_updates :: "debug_env \<Rightarrow> debugger \<Rightarrow> widget list" where
  "draw_updates e d =
     (let chosen = (selected_peer_id d \<noteq> None \<and> db_agent d \<noteq> None)
      in [worded ''version of the agent'' [db_agent_version d], worded ''version of the debugger'' [debugger_version e]] @
         (case selected_view d of
            None \<Rightarrow> []
          | Some v \<Rightarrow> (case pv_version v of
              None \<Rightarrow> []
            | Some ver \<Rightarrow>
                [worded (if newer_version e ver (db_agent_version d) then ''the peer has a newer version'' else ''version of the peer'') [ver],
                 worded (if pv_trusted v then ''trusted for updates'' else ''not trusted yet'') []] @
                progress_shown ''agent arrives'' (pv_progress v) @ progress_shown ''debugger arrives'' (pv_debugger_progress v))) @
         [Tick ''update from trusted agents'' (db_auto_updates d), Button CheckVersions True, Button UpdateAgent chosen,
          Button UpdateDebugger (chosen \<and> (case selected_version d of None \<Rightarrow> False | Some ver \<Rightarrow> newer_version e ver (debugger_version e))),
          Button RemoveTrust chosen, Button OpenDownloads True, Button InstallUpdate True, worded ''about updates'' []])"

section \<open>Settings and the console\<close>

definition draw_debug_tools :: "(string \<Rightarrow> string) \<Rightarrow> string list \<Rightarrow> debug_env \<Rightarrow> window \<Rightarrow> widget list" where
  "draw_debug_tools lower stamps e w =
     (let d = wd_debugger w; idle = (db_agent d = None)
      in [Edit ''node name'' (db_node_name d), Edit ''agent binary'' (agent_path e), Edit ''updater binary'' (debug_env.updater_path e),
          Edit ''identity'' (wd_identity w), Edit ''listen address'' (wd_listen w),
          Slider ''CPU for Swagri'' (wd_max_cpu w) idle, Slider ''memory for Swagri'' (wd_max_memory w) idle, worded ''about limits'' [],
          (case db_local_peer d of None \<Rightarrow> worded ''no peer yet'' [] | Some p \<Rightarrow> worded ''local peer'' [p])] @
         (if db_listening d = [] then [] else [worded ''listening'' [join_with '', '' (db_listening d)]]) @
         [Edit ''multiaddress'' (wd_dial w), Button DialPeer True, Button CopyFirewall True, Tick ''show the console'' (wd_console w)] @
         (if wd_console w then draw_log_panel lower stamps w @ [Edit ''console'' (wd_line w), Button SendLine True] else []))"

section \<open>The window\<close>

text \<open>
  What is not in the state: the lower case of Unicode, the local times of the log's entries, the clocks, and the memory in use and in all.
\<close>

record sight =
  lower_case :: "string \<Rightarrow> string"
  log_stamps :: "string list"
  sight_clocks :: clocks
  memory_used :: u64
  memory_whole :: u64

definition draw_window :: "debug_env \<Rightarrow> sight \<Rightarrow> window \<Rightarrow> widget list option" where
  "draw_window e x w = (let d = wd_debugger w in draws
     [Some (draw_header e d), Some (draw_main_actions d), draw_tasks (sight_clocks x) (wd_store_path w) d, draw_artifacts d, draw_peers d,
      Some (draw_metrics (memory_used x) (memory_whole x) (wd_metrics w) d),
      Some (if wd_updates_open w then draw_updates e d else []),
      Some (if wd_tools_open w then draw_debug_tools (lower_case x) (log_stamps x) e w else [])])"

end
