(* ===== verification/Task_History_Props.thy ===== *)
theory Task_History_Props
  imports Task_History
begin

text \<open>
  The task history keeps its promises: the list in memory is bounded, and saving a task never loses a running one, keeps at most
  a thousand finished ones, the newest, and one row for an identifier.
\<close>

section \<open>The list in memory\<close>

lemma push_bounded_length: "length xs \<le> n \<Longrightarrow> 0 < n \<Longrightarrow> length (push_bounded x n xs) \<le> n"
  by (simp add: push_bounded_def)

lemma push_bounded_set: "set (push_bounded x n xs) \<subseteq> insert x (set xs)"
  by (cases xs) (auto simp: push_bounded_def)

lemma rposition_Some: "rposition P xs = Some k \<Longrightarrow> k < length xs \<and> P (xs ! k)"
  using last_in_set [of "filter (\<lambda>i. P (xs ! i)) [0..<length xs]"]
  by (auto simp: rposition_def split: list.splits)

lemma task_lists_bounded:
  assumes "length ts \<le> MAX_TASK_HISTORY"
  shows "length (snd (record_task_started c i description executor direction ts)) \<le> MAX_TASK_HISTORY"
    "length (snd (record_task_finished c i executor ms result state ts)) \<le> MAX_TASK_HISTORY"
    "length (snd (record_task_progress i a b details ts)) \<le> MAX_TASK_HISTORY"
    "length (snd (interrupt_running_tasks c reason ts)) \<le> MAX_TASK_HISTORY"
  using push_bounded_length [OF assms] assms
  by (auto simp: record_task_started_def record_task_finished_def record_task_progress_def interrupt_running_tasks_def Let_def
      MAX_TASK_HISTORY_def split: option.splits)

lemma interrupted_not_running: "t \<in> set (snd (interrupt_running_tasks c reason ts)) \<Longrightarrow> tv_state t \<noteq> Running"
  by (auto simp: interrupt_running_tasks_def interrupt_task_def)

section \<open>Statements\<close>

lemma statement_cases:
  assumes "statement f s = (r, s')"
  obtains (fault) err where "r = Inl err" "rows s' = rows s" | (ran) x rs where "f (rows s) = (x, rs)" "r = Inr x" "rows s' = rs"
  using assms by (auto simp: statement_def Let_def split: list.splits option.splits prod.splits)

text \<open>\<open>ORDER BY updated_unix_ms DESC\<close>.\<close>

definition newest_first :: "row_order \<Rightarrow> bool" where
  "newest_first f = (\<forall>rs. mset (f rs) = mset rs \<and> sorted_wrt (\<lambda>a b. row_updated b \<le> row_updated a) (f rs))"

lemma upsert_row_set: "set (upsert_row r rs) \<subseteq> insert r (set rs)" "r \<in> set (upsert_row r rs)"
  by (auto simp: upsert_row_def)

lemma upsert_row_other: "x \<in> set rs \<Longrightarrow> row_id x \<noteq> row_id r \<Longrightarrow> x \<in> set (upsert_row r rs)"
  by (auto simp: upsert_row_def)

lemma upsert_row_distinct: "distinct (map row_id rs) \<Longrightarrow> distinct (map row_id (upsert_row r rs))"
proof (cases "row_id r \<in> row_id ` set rs")
  case True
  have "map row_id (map (\<lambda>x. if row_id x = row_id r then r else x) rs) = map row_id rs" by simp
  moreover assume "distinct (map row_id rs)"
  ultimately show ?thesis using True by (simp only: upsert_row_def if_True)
qed (auto simp: upsert_row_def)

section \<open>Trimming\<close>

abbreviation finished :: "task_row \<Rightarrow> bool" where
  "finished r \<equiv> row_state r \<noteq> ''running''"

lemma trimmed:
  assumes "newest_first f" "distinct (map row_id rs)"
    and rs': "rs' = filter (\<lambda>r. row_id r \<notin> row_id ` set (drop n (f (filter finished rs)))) rs"
  shows "length (filter finished rs') \<le> n"
    "\<And>x. x \<in> set rs \<Longrightarrow> x \<notin> set rs' \<Longrightarrow> finished x \<and> (\<forall>y\<in>set rs'. finished y \<longrightarrow> row_updated x \<le> row_updated y)"
proof -
  let ?o = "f (filter finished rs)"
  have m: "mset ?o = mset (filter finished rs)" and srt: "sorted_wrt (\<lambda>a b. row_updated b \<le> row_updated a) ?o"
    using assms(1) by (auto simp: newest_first_def)
  have o: "set ?o = set (filter finished rs)" using m by (metis set_mset_mset)
  have inj: "inj_on row_id (set rs)" and d: "distinct rs" using assms(2) by (auto simp: distinct_map)
  have old: "row_id x \<in> row_id ` set (drop n ?o) \<longleftrightarrow> x \<in> set (drop n ?o)" if "x \<in> set rs" for x
    using inj_on_image_mem_iff [OF inj that, of "set (drop n ?o)"] o set_drop_subset [of n ?o] by auto
  have kept: "x \<in> set rs' \<longleftrightarrow> x \<in> set rs \<and> x \<notin> set (drop n ?o)" for x using old by (auto simp: rs')
  have split: "set ?o = set (take n ?o) \<union> set (drop n ?o)" by (metis append_take_drop_id set_append)
  have "set (filter finished rs') \<subseteq> set (take n ?o)" using kept o split by auto
  then have "card (set (filter finished rs')) \<le> card (set (take n ?o))" by (rule card_mono [OF finite_set])
  also have "\<dots> \<le> n" using card_length [of "take n ?o"] by simp
  finally have "card (set (filter finished rs')) \<le> n" .
  moreover have "distinct (filter finished rs')" using d by (simp add: rs')
  ultimately show "length (filter finished rs') \<le> n" by (simp only: distinct_card)
  fix x assume x: "x \<in> set rs" "x \<notin> set rs'"
  then have out: "x \<in> set (drop n ?o)" using kept by simp
  then have "x \<in> set ?o" by (rule in_set_dropD)
  moreover have "row_updated x \<le> row_updated y" if "y \<in> set rs'" "finished y" for y
  proof -
    have "y \<in> set (take n ?o)" using that kept o split by auto
    moreover have "sorted_wrt (\<lambda>a b. row_updated b \<le> row_updated a) (take n ?o @ drop n ?o)" using srt by simp
    ultimately show ?thesis using out unfolding sorted_wrt_append by blast
  qed
  ultimately show "finished x \<and> (\<forall>y\<in>set rs'. finished y \<longrightarrow> row_updated x \<le> row_updated y)" using o by simp
qed

section \<open>Saving a task\<close>

lemma save_cases:
  assumes "save_task f c t s = (r, s')"
  defines "saved \<equiv> upsert_row (row_of_view c t) (rows s)"
  obtains (nothing) err where "r = Inl err" "rows s' = rows s" | (untrimmed) err where "r = Inl err" "rows s' = saved"
  | (trimmed) "r = Inr ()"
      "rows s' = filter (\<lambda>x. row_id x \<notin> row_id ` set (drop MAX_PERSISTED_TASKS (f (filter finished saved)))) saved"
proof -
  obtain r1 s1 where 1: "statement (\<lambda>rs. ((), upsert_row (row_of_view c t) rs)) s = (r1, s1)" by fastforce
  obtain r2 s2 where 2: "trim_table f s1 = (r2, s2)" by fastforce
  from 1 show ?thesis
  proof (cases rule: statement_cases)
    case (fault err)
    have "r = Inl err" "rows s' = rows s" using fault assms(1) 1 by (auto simp: save_task_def)
    then show ?thesis by (rule nothing)
  next
    case (ran x rs)
    then have s1: "rows s1 = saved" "r1 = Inr ()" by (auto simp: saved_def)
    from 2 show ?thesis unfolding trim_table_def
    proof (cases rule: statement_cases)
      case (fault err)
      then show ?thesis using untrimmed [of err] assms(1) 1 2 s1 by (auto simp: save_task_def)
    next
      case (ran x' rs')
      then show ?thesis using trimmed assms(1) 1 2 s1 by (auto simp: save_task_def delete_rows_def Let_def)
    qed
  qed
qed

text \<open>
  Saving a task in the history loses nothing that matters: there is still one row for an identifier and no other running task
  has lost its row or had it changed. When the database does as told, the task's new row is there unless it is a finished one and there are
  a thousand newer, at most a thousand finished rows are left, and a row that went was finished and no newer than any finished row that
  stayed. When a statement fails, the rows are as before or have just the task's row set.
\<close>

theorem save_task_keeps_history:
  assumes "newest_first f" "distinct (map row_id (rows s))" "save_task f c t s = (r, s')"
  shows "distinct (map row_id (rows s')) \<and>
    (\<forall>x\<in>set (rows s). row_state x = ''running'' \<and> row_id x \<noteq> tv_id t \<longrightarrow> x \<in> set (rows s')) \<and>
    (let saved = upsert_row (row_of_view c t) (rows s) in case r of
       Inl _ \<Rightarrow> rows s' \<in> {rows s, saved}
     | Inr _ \<Rightarrow> set (rows s') \<subseteq> set saved \<and> (tv_state t = Running \<longrightarrow> row_of_view c t \<in> set (rows s')) \<and>
         length (filter finished (rows s')) \<le> MAX_PERSISTED_TASKS \<and>
         (\<forall>x\<in>set saved - set (rows s'). finished x \<and> (\<forall>y\<in>set (rows s'). finished y \<longrightarrow> row_updated x \<le> row_updated y)))"
proof -
  let ?saved = "upsert_row (row_of_view c t) (rows s)"
  have d: "distinct (map row_id ?saved)" by (rule upsert_row_distinct [OF assms(2)])
  have other: "x \<in> set ?saved" if "x \<in> set (rows s)" "row_id x \<noteq> tv_id t" for x
    using upsert_row_other that by (simp add: row_of_view_def)
  from assms(3) show ?thesis
  proof (cases rule: save_cases)
    case trimmed
    note trim = Task_History_Props.trimmed [OF assms(1) d trimmed(2)]
    have "distinct (map row_id (rows s'))" using d by (simp add: trimmed(2) distinct_map_filter)
    moreover have run: "x \<in> set (rows s')" if "x \<in> set ?saved" "row_state x = ''running''" for x using trim(2) that by blast
    moreover have "row_of_view c t \<in> set (rows s')" if "tv_state t = Running"
      using run [OF upsert_row_set(2)] that by (simp add: row_of_view_def task_state_for_db_def)
    moreover have "set (rows s') \<subseteq> set ?saved" by (auto simp: trimmed(2))
    ultimately show ?thesis using other trim trimmed(1) by (simp add: Let_def)
  qed (use assms(2) d other in \<open>simp_all add: Let_def\<close>)
qed

definition by_time :: row_order where
  "by_time = sort_key (\<lambda>r. - row_updated r)"

lemma by_time_newest_first: "newest_first by_time"
proof -
  have "sorted_wrt (\<lambda>a b. row_updated b \<le> row_updated a) (by_time rs)" for rs
    using sorted_sort_key [of "\<lambda>r. - row_updated r" rs] by (simp add: by_time_def sorted_map)
  then show ?thesis by (simp add: newest_first_def by_time_def)
qed

definition demo_task :: task_view where
  "demo_task = \<lparr>tv_id = ''t1'', tv_description = ''Sum'', tv_executor = ''p'', tv_direction = ''local'', tv_state = Running,
     tv_started_at = 0, tv_started_unix = 5, tv_duration = None, tv_result = None\<rparr>"

theorem save_task_keeps_history_witness:
  "let c = \<lparr>instant_now = 0, unix_now = 9\<rparr>; (r, s') = save_task by_time c demo_task \<lparr>rows = [], sql_faults = []\<rparr>
   in r = Inr () \<and> row_of_view c demo_task \<in> set (rows s') \<and> length (filter finished (rows s')) \<le> MAX_PERSISTED_TASKS"
proof -
  let ?c = "\<lparr>instant_now = 0, unix_now = 9\<rparr>" and ?s = "\<lparr>rows = [], sql_faults = []\<rparr>"
  obtain r s' where s': "save_task by_time ?c demo_task ?s = (r, s')" by fastforce
  then have r: "r = Inr ()" by (auto simp: save_task_def trim_table_def statement_def delete_rows_def Let_def)
  have "tv_state demo_task = Running" by (simp add: demo_task_def)
  with save_task_keeps_history [OF by_time_newest_first _ s'] show ?thesis
    by (simp only: s' r Let_def prod.case) (simp del: One_nat_def)
qed

section \<open>Opening the history\<close>

interpretation state_text: codec task_state_for_db "\<lambda>s. Some (task_state_from_db s)" "\<lambda>_. True"
  by unfold_locales (simp add: task_state_for_db_def task_state_from_db_def split: task_state.split)

text \<open>A task is read back as it was saved: all but the instant of its start, which is found again from the time of day.\<close>

lemma saved_task_read_back:
  assumes "\<And>d. tv_duration t = Some d \<Longrightarrow> unat d < 2 ^ 63"
  shows "view_of_row c' (row_of_view c t) = t\<lparr>tv_started_at := tv_started_at (view_of_row c' (row_of_view c t))\<rparr>"
proof -
  have "map_option (\<lambda>d. of_int (max 0 d)) (map_option (\<lambda>d. min (int (unat d)) I64_MAX) (tv_duration t)) = tv_duration t"
  proof (cases "tv_duration t")
    case (Some d)
    then have "int (unat d) < int (2 ^ 63)" using assms [of d] by (simp only: of_nat_less_iff)
    then have "int (unat d) \<le> I64_MAX" by (simp add: I64_MAX_def)
    then show ?thesis using Some by (simp add: min_absorb1)
  qed simp
  then show ?thesis using state_text.decode_encode [of "tv_state t"] by (simp add: view_of_row_def row_of_view_def)
qed

text \<open>
  After the debugger starts again, no task of the history is running any more: each one that was is marked failed with the time it
  was stopped at, and counted; the window gets at most a hundred tasks, none of them running, oldest first.
\<close>

theorem open_store_recovers:
  assumes "newest_first f" "open_store f c s = (Inr (ts, n), s')"
  shows "n = length (filter (\<lambda>r. row_state r = ''running'') (rows s)) \<and> (\<forall>r\<in>set (rows s'). finished r) \<and>
    length ts \<le> MAX_TASK_HISTORY \<and> (\<forall>t\<in>set ts. tv_state t \<noteq> Running) \<and>
    ts = rev (map (view_of_row c) (take MAX_TASK_HISTORY (f (rows s'))))"
proof -
  obtain r1 s1 where 1: "statement (\<lambda>rs. ((), rs)) s = (r1, s1)" by fastforce
  obtain r2 s2 where 2: "mark_interrupted c s1 = (r2, s2)" by fastforce
  obtain r3 s3 where 3: "remove_legacy_poll_failures s2 = (r3, s3)" by fastforce
  obtain r4 s4 where 4: "load_recent f c MAX_TASK_HISTORY s3 = (r4, s4)" by fastforce
  note eval = assms(2) [unfolded open_store_def 1 prod.case]
  obtain u where r1: "r1 = Inr u" using eval by (cases r1) auto
  note eval = eval [unfolded r1 sum.case 2 prod.case]
  obtain m where r2: "r2 = Inr m" using eval by (cases r2) auto
  note eval = eval [unfolded r2 sum.case 3 prod.case]
  obtain w where r3: "r3 = Inr w" using eval by (cases r3) auto
  note eval = eval [unfolded r3 sum.case 4 prod.case]
  obtain xs where r4: "r4 = Inr xs" using eval by (cases r4) auto
  have fin: "ts = xs" "n = m" "s' = s4" using eval by (auto simp: r4)
  have s1: "rows s1 = rows s" using 1 r1 by (auto elim: statement_cases)
  have m: "m = length (filter (\<lambda>r. row_state r = ''running'') (rows s1))"
    "rows s2 = map (\<lambda>r. if row_state r = ''running'' then interrupt_row (unix_time_ms c) r else r) (rows s1)"
    using 2 r2 by (auto simp: mark_interrupted_def elim!: statement_cases)
  have s3: "rows s3 = filter (\<lambda>r. \<not> legacy_poll_failure r) (rows s2)"
    using 3 r3 by (auto simp: remove_legacy_poll_failures_def delete_rows_def elim!: statement_cases)
  have s4: "rows s4 = rows s3" "xs = rev (map (view_of_row c) (take MAX_TASK_HISTORY (f (rows s3))))"
    using 4 r4 by (auto simp: load_recent_def elim!: statement_cases)
  have all: "finished r" if "r \<in> set (rows s3)" for r using that by (auto simp: s3 m(2) interrupt_row_def)
  have "set (f (rows s3)) = set (rows s3)" using assms(1) unfolding newest_first_def by (metis set_mset_mset)
  then have "finished r" if "r \<in> set (take MAX_TASK_HISTORY (f (rows s3)))" for r using in_set_takeD [OF that] all by simp
  then have "\<forall>t\<in>set xs. tv_state t \<noteq> Running" by (auto simp: s4(2) view_of_row_def task_state_from_db_def)
  then show ?thesis using all s1 m(1) s4 by (simp add: fin)
qed

theorem open_store_recovers_witness:
  "let c = \<lparr>instant_now = 0, unix_now = 9\<rparr>; s = \<lparr>rows = [row_of_view c demo_task], sql_faults = []\<rparr>
   in \<exists>ts s'. open_store by_time c s = (Inr (ts, 1), s') \<and> (\<forall>t\<in>set ts. tv_state t \<noteq> Running)"
proof -
  let ?c = "\<lparr>instant_now = 0, unix_now = 9\<rparr>"
  let ?s = "\<lparr>rows = [row_of_view ?c demo_task], sql_faults = []\<rparr>"
  obtain ts n s' where o: "open_store by_time ?c ?s = (Inr (ts, n), s')"
    by (simp add: open_store_def statement_def mark_interrupted_def remove_legacy_poll_failures_def load_recent_def delete_rows_def Let_def)
  have "n = 1 \<and> (\<forall>t\<in>set ts. tv_state t \<noteq> Running)" using open_store_recovers [OF by_time_newest_first o]
    by (simp add: row_of_view_def demo_task_def task_state_for_db_def)
  with o show ?thesis by (simp add: Let_def)
qed

end
