(* ===== verification/Debug_View_Props.thy ===== *)
theory Debug_View_Props
  imports Debug_View
begin

text \<open>The debugger shows the resources an agent printed: integers, texts and flags as they are, floats as their decimals read.\<close>

section \<open>Digits\<close>

lemma is_digit_digit [simp]: "d < 10 \<Longrightarrow> is_digit (digit_char d)"
  by (simp add: is_digit_def)

lemma show_nat_is_digit: "c \<in> set (show_nat n) \<Longrightarrow> is_digit c"
  using show_nat_digits by fastforce

lemma not_digits [simp]: "\<not> is_digit (CHR ''.'')" "\<not> is_digit (CHR ''-'')" "\<not> is_digit (CHR ''+'')" "is_digit (CHR ''0'')"
  by (simp_all add: is_digit_def digit_of_char_def)

lemma parse_digits_shift: "parse_digits acc s = map_option (\<lambda>m. acc * 10 ^ length s + m) (parse_digits 0 s)"
proof (induction s arbitrary: acc)
  case (Cons c s)
  show ?case
  proof (cases "digit_of_char c")
    case (Some d)
    show ?thesis unfolding parse_digits.simps Some option.case
      by (subst Cons.IH, subst (2) Cons.IH) (cases "parse_digits 0 s", simp_all add: algebra_simps)
  qed simp
qed simp

lemma parse_zeros: "parse_digits 0 (replicate k (CHR ''0'') @ s) = parse_digits 0 s"
  by (induction k) (simp_all add: digit_of_char_def)

lemma show_nat_length: "n < 10 ^ d \<Longrightarrow> 0 < d \<Longrightarrow> length (show_nat n) \<le> d"
proof (induction n arbitrary: d rule: show_nat.induct)
  case (1 n)
  show ?case
  proof (cases "n < 10")
    case True
    then show ?thesis using 1(3) by (simp add: show_nat.simps [of n])
  next
    case False
    obtain k where d: "d = Suc k" using 1(3) by (cases d) auto
    with False 1(2) have k: "d = Suc k" "0 < k" by (cases k; simp)+
    then have "n div 10 < 10 ^ k" using 1(2) by (simp add: less_mult_imp_div_less mult.commute)
    from 1(1) [OF False this k(2)] k(1) False show ?thesis by (simp add: show_nat.simps [of n])
  qed
qed

lemma pad_zeros_digits:
  assumes "b < 10 ^ d" "0 < d"
  shows "length (pad_zeros d (show_nat b)) = d" "parse_digits 0 (pad_zeros d (show_nat b)) = Some b"
    "\<And>c. c \<in> set (pad_zeros d (show_nat b)) \<Longrightarrow> is_digit c"
  using show_nat_length [OF assms] show_nat_is_digit
  by (auto simp: pad_zeros_def parse_zeros parse_digits_show)

lemma take_digits:
  assumes "\<And>c. c \<in> set w \<Longrightarrow> is_digit c" "\<not> is_digit x"
  shows "takeWhile is_digit (w @ x # r) = w" "dropWhile is_digit (w @ x # r) = x # r"
  using assms by (simp_all add: takeWhile_append2 dropWhile_append2)

lemma all_digits: "(\<And>c. c \<in> set w \<Longrightarrow> is_digit c) \<Longrightarrow> takeWhile is_digit w = w \<and> dropWhile is_digit w = []"
  by (simp add: takeWhile_eq_all_conv)

lemma parse_decimal_fixed:
  assumes "b < 10 ^ d" "0 < d"
  shows "parse_decimal (show_nat a @ ''.'' @ pad_zeros d (show_nat b)) = Some (of_nat (a * 10 ^ d + b) * 10 powi (- int d))"
proof -
  note pad = pad_zeros_digits [OF assms]
  have "parse_digits 0 (show_nat a @ pad_zeros d (show_nat b)) = Some (a * 10 ^ d + b)"
    using parse_digits_append [of 0 "show_nat a"] parse_digits_shift [of a] pad(1,2) by (simp add: parse_digits_show)
  moreover have "takeWhile is_digit (pad_zeros d (show_nat b)) = pad_zeros d (show_nat b)"
    "dropWhile is_digit (pad_zeros d (show_nat b)) = []"
    using all_digits [of "pad_zeros d (show_nat b)"] pad(3) by blast+
  moreover have "takeWhile is_digit (show_nat a @ ''.'' @ pad_zeros d (show_nat b)) = show_nat a"
    "dropWhile is_digit (show_nat a @ ''.'' @ pad_zeros d (show_nat b)) = CHR ''.'' # pad_zeros d (show_nat b)"
    using take_digits [where w = "show_nat a" and x = "CHR ''.''" and r = "pad_zeros d (show_nat b)"] show_nat_is_digit by auto
  ultimately show ?thesis unfolding parse_decimal_def Let_def by (simp only: list.case if_True pad(1) option.case prod.case) (simp add: pad(1))
qed

section \<open>Floats\<close>

text \<open>What is left of a float after it was written with \<open>d\<close> decimals and read again.\<close>

definition shown :: "(rat \<Rightarrow> flt) \<Rightarrow> nat \<Rightarrow> flt \<Rightarrow> flt" where
  "shown rnd d x = (case x of
     Fin q \<Rightarrow> let m = rnd (of_int (round_even (\<bar>q\<bar> * 10 ^ d)) / 10 ^ d) in if q < 0 then fl_neg m else m
   | _ \<Rightarrow> x)"

lemma digit_head:
  "\<exists>k cs. show_nat n @ r = digit_char k # cs \<and> k < 10"
  using show_nat_digits [of "hd (show_nat n)" n] by (cases "show_nat n") auto

lemma upper_words: "map ascii_upper ''NaN'' = ''NAN''" "map ascii_upper ''inf'' = ''INF''"
  by code_simp+

lemma digit_char_upper: "k < 10 \<Longrightarrow> ascii_upper (digit_char k) = digit_char k"
  using of_char_digit [of k] by (simp add: ascii_upper_def Let_def)

lemma parse_unsigned_number:
  assumes "s = show_nat n @ r"
  shows "parse_unsigned rnd s = map_option rnd (parse_decimal s)" "parse_float rnd s = parse_unsigned rnd s"
    "parse_float rnd (''-'' @ s) = map_option fl_neg (parse_unsigned rnd s)"
proof -
  obtain k cs where k: "s = digit_char k # cs" "k < 10" using digit_head assms by metis
  have "digit_char k \<noteq> c" if "(of_char c :: nat) < 48 \<or> 57 < (of_char c :: nat)" for c using digit_char_ne [OF k(2) that] .
  then have "digit_char k \<noteq> CHR ''I''" "digit_char k \<noteq> CHR ''N''" "digit_char k \<noteq> CHR ''-''" "digit_char k \<noteq> CHR ''+''" by auto
  then show "parse_unsigned rnd s = map_option rnd (parse_decimal s)" "parse_float rnd s = parse_unsigned rnd s"
    "parse_float rnd (''-'' @ s) = map_option fl_neg (parse_unsigned rnd s)"
    by (simp_all add: parse_unsigned_def parse_float_def k digit_char_upper)
qed

lemma parse_fixed:
  assumes "0 < d"
  shows "parse_float rnd (fmt_fixed d x) = Some (shown rnd d x)"
proof (cases x)
  case (Fin q)
  define n where "n = nat (round_even (\<bar>q\<bar> * 10 ^ d))"
  define s where "s = show_nat (n div 10 ^ d) @ ''.'' @ pad_zeros d (show_nat (n mod 10 ^ d))"
  have fixed: "fmt_fixed d x = (if q < 0 then ''-'' else '''') @ s"
    using assms by (simp add: Fin fmt_fixed_def s_def n_def Let_def)
  have "0 \<le> round_even (\<bar>q\<bar> * 10 ^ d)" by (rule round_even_ge) simp
  then have "(of_nat n :: rat) = of_int (round_even (\<bar>q\<bar> * 10 ^ d))" by (simp add: n_def)
  moreover have "parse_decimal s = Some (of_nat n * 10 powi (- int d))"
    using parse_decimal_fixed [of "n mod 10 ^ d" d "n div 10 ^ d"] assms unfolding s_def div_mult_mod_eq by simp
  ultimately have "parse_decimal s = Some (of_int (round_even (\<bar>q\<bar> * 10 ^ d)) / 10 ^ d)"
    by (simp add: power_int_minus divide_inverse)
  then show ?thesis
    using parse_unsigned_number [OF s_def] by (cases "q < 0") (simp_all add: fixed [unfolded Fin] shown_def Fin Let_def)
qed (simp_all add: fmt_fixed_def shown_def parse_float_def parse_unsigned_def upper_words [simplified])

section \<open>Resources\<close>

lemma sanitise_number [simp]: "sanitise (show_nat n) = show_nat n"
  by (rule sanitise_id) (simp_all add: show_nat_avoids TAB_def CR_def LF_def)

lemma sanitise_append [simp]: "sanitise (s @ t) = sanitise s @ sanitise t"
  by (simp add: sanitise_def)

lemma sanitise_words [simp]:
  "sanitise ''-'' = ''-''" "sanitise ''.'' = ''.''" "sanitise ''NaN'' = ''NaN''" "sanitise ''inf'' = ''inf''" "sanitise ''-inf'' = ''-inf''"
  "sanitise [] = []" "sanitise (replicate k (CHR ''0'')) = replicate k (CHR ''0'')"
  by (simp_all add: sanitise_def TAB_def CR_def LF_def)

lemma sanitise_fixed [simp]: "sanitise (fmt_fixed d x) = fmt_fixed d x"
proof (cases x)
  case (Fin q)
  then show ?thesis
    using sanitise_append [of "''.''"] sanitise_append [of "''-''"]
    by (cases "q < 0"; cases "d = 0") (simp_all add: fmt_fixed_def Let_def pad_zeros_def del: append_Cons)
qed (simp_all add: fmt_fixed_def)

lemma sanitise_flag [simp]: "sanitise (show_bool b) = show_bool b"
  by (cases b) (simp_all add: sanitise_def TAB_def CR_def LF_def)

lemma parse_word [simp]:
  "parse_u64 (show_word (a :: u64)) = Some a" "parse_u32 (show_word (b :: u32)) = Some b"
  "parse_u16 (show_word (c :: u16)) = Some c" "parse_u8 (show_word (d :: u8)) = Some d"
proof -
  have "unat a \<le> 2 ^ 64 - 1" "unat b \<le> 2 ^ 32 - 1" "unat c \<le> 2 ^ 16 - 1" "unat d \<le> 2 ^ 8 - 1"
    using unsigned_less [of a, where ?'a = nat] unsigned_less [of b, where ?'a = nat] unsigned_less [of c, where ?'a = nat]
      unsigned_less [of d, where ?'a = nat] by simp_all
  then show "parse_u64 (show_word a) = Some a" "parse_u32 (show_word b) = Some b" "parse_u16 (show_word c) = Some c"
    "parse_u8 (show_word d) = Some d"
    by (simp_all add: parse_u64_def parse_u32_def parse_u16_def parse_u8_def parse_uint_show)
qed

lemma parse_shown_flag [simp]: "parse_bool (show_bool b) = Some b"
  by (cases b) (simp_all add: parse_bool_def)

text \<open>What an agent writes and the debugger reads, as codecs.\<close>

interpretation decimal_u32: codec "show_word :: u32 \<Rightarrow> string" parse_u32 "\<lambda>_. True"
  by unfold_locales simp

interpretation decimal_u8: codec "show_word :: u8 \<Rightarrow> string" parse_u8 "\<lambda>_. True"
  by unfold_locales simp

interpretation flag: codec show_bool parse_bool "\<lambda>_. True"
  by unfold_locales simp

lemma parse_shown_option:
  "parse_optional parse_u8 (Some (sanitise (optional show_word o8))) = o8"
  "parse_optional parse_bool (Some (sanitise (optional show_bool ob))) = ob"
proof -
  have "show_nat n \<noteq> ''-''" for n using show_nat_avoids [of "CHR ''-''" n] by auto
  then show "parse_optional parse_u8 (Some (sanitise (optional show_word o8))) = o8"
    by (cases o8) (simp_all add: parse_optional_def optional_def)
  have "show_bool b \<noteq> ''-''" for b by (cases b) simp_all
  then show "parse_optional parse_bool (Some (sanitise (optional show_bool ob))) = ob"
    by (cases ob) (simp_all add: parse_optional_def optional_def)
qed

text \<open>A snapshot as the debugger shows it.\<close>

definition view_of_snapshot :: "resource_snapshot \<Rightarrow> resource_view" where
  "view_of_snapshot r = \<lparr>rv_observed = observed_at_unix_ms r, rv_os = sanitise (os r), rv_arch = sanitise (arch r),
     rv_cpu_brand = sanitise (cpu_brand r), rv_physical = physical_cores r, rv_logical = logical_cores r,
     rv_total_memory = total_memory_bytes r, rv_available_memory = available_memory_bytes r,
     rv_host_cpu = shown rnd32 2 (host_cpu_percent r), rv_agent_cpu = shown rnd32 2 (agent_cpu_percent r),
     rv_agent_memory = agent_memory_bytes r, rv_active_tasks = resource_snapshot.active_tasks r,
     rv_cpu_limit = shown rnd32 2 (cpu_limit_percent r), rv_memory_limit = shown rnd32 2 (memory_limit_percent r),
     rv_allocatable = allocatable_memory_bytes r, rv_calibrated = shown rnd64 3 (calibrated_cpu_score r),
     rv_effective = shown rnd64 3 (snapshot_cpu_score r), rv_paused = contribution_paused r, rv_battery = battery_percent r,
     rv_charging = charging r, rv_thermal = thermal_status r, rv_unmetered = unmetered_network r\<rparr>"

lemma read_resources: "parse_resource_view (map sanitise (tl (resource_fields peer r))) = Some (view_of_snapshot r)"
  by (simp add: parse_resource_view_def resource_fields_def view_of_snapshot_def field_def parse_f32_def parse_f64_def parse_fixed
      parse_shown_option)

end
