(* ===== verification/Debugger_Inv.thy ===== *)
theory Debugger_Inv
  imports Debug_Actions Task_History_Props Debug_View_Props
begin

text \<open>
  What is always true of the debugger's state, whatever lines the agent prints and whatever the user does: its lists are bounded, its keys
  are unique, its table has one row for a task.
\<close>

section \<open>The invariant\<close>

definition debugger_ok :: "debugger \<Rightarrow> bool" where
  "debugger_ok d =
     (length (db_logs d) \<le> MAX_LOG_LINES \<and> length (db_notices d) \<le> 100 \<and> length (db_tasks d) \<le> MAX_TASK_HISTORY \<and>
      length (db_artifacts d) \<le> MAX_TASK_HISTORY \<and> distinct (map av_id (db_artifacts d)) \<and>
      length (db_remote d) \<le> MAX_TASK_HISTORY \<and> distinct (map (\<lambda>a. (ra_peer a, ra_id a)) (db_remote d)) \<and>
      bt_ok (db_peers d) \<and> (\<forall>(p, v)\<in>set (db_peers d). distinct (pv_addresses v)) \<and> distinct (db_listening d) \<and>
      (case db_store d of None \<Rightarrow> True | Some s \<Rightarrow> distinct (map row_id (rows s))))"

definition ok_result :: "debugger option \<Rightarrow> bool" where
  "ok_result r = (case r of None \<Rightarrow> True | Some d \<Rightarrow> debugger_ok d)"

lemma ok_other_fields [simp]:
  "debugger_ok (d\<lparr>db_agent := a\<rparr>) = debugger_ok d" "debugger_ok (d\<lparr>db_node_name := s\<rparr>) = debugger_ok d"
  "debugger_ok (d\<lparr>db_local_peer := so\<rparr>) = debugger_ok d" "debugger_ok (d\<lparr>db_agent_version := s\<rparr>) = debugger_ok d"
  "debugger_ok (d\<lparr>db_selected_peer := so\<rparr>) = debugger_ok d" "debugger_ok (d\<lparr>db_auto_updates := b\<rparr>) = debugger_ok d"
  "debugger_ok (d\<lparr>db_requested := S\<rparr>) = debugger_ok d" "debugger_ok (d\<lparr>db_ready := t\<rparr>) = debugger_ok d"
  "debugger_ok (d\<lparr>db_requested_debugger := S\<rparr>) = debugger_ok d" "debugger_ok (d\<lparr>db_ready_debugger := t\<rparr>) = debugger_ok d"
  "debugger_ok (d\<lparr>db_completed := n\<rparr>) = debugger_ok d" "debugger_ok (d\<lparr>db_resources := ro\<rparr>) = debugger_ok d"
  "debugger_ok (d\<lparr>db_placement := no\<rparr>) = debugger_ok d" "debugger_ok (d\<lparr>db_artifact_store := v\<rparr>) = debugger_ok d"
  "debugger_ok (d\<lparr>db_selected_artifact := so\<rparr>) = debugger_ok d" "debugger_ok (d\<lparr>db_selected_remote := sp\<rparr>) = debugger_ok d"
  "debugger_ok (d\<lparr>db_stopped := xs\<rparr>) = debugger_ok d" "debugger_ok (d\<lparr>db_updater_runs := b\<rparr>) = debugger_ok d"
  "debugger_ok (d\<lparr>db_launched := ls\<rparr>) = debugger_ok d" "debugger_ok (d\<lparr>db_close := b\<rparr>) = debugger_ok d"
  by (simp_all add: debugger_ok_def)

named_theorems ok_intros

lemma ok_branches [ok_intros]:
  "(b \<Longrightarrow> debugger_ok x) \<Longrightarrow> (\<not> b \<Longrightarrow> debugger_ok y) \<Longrightarrow> debugger_ok (if b then x else y)"
  "(b \<Longrightarrow> ok_result u) \<Longrightarrow> (\<not> b \<Longrightarrow> ok_result w) \<Longrightarrow> ok_result (if b then u else w)"
  "(xs = [] \<Longrightarrow> debugger_ok x) \<Longrightarrow> (\<And>z zs. xs = z # zs \<Longrightarrow> debugger_ok (f z zs)) \<Longrightarrow> debugger_ok (case xs of [] \<Rightarrow> x | z # zs \<Rightarrow> f z zs)"
  "(xs = [] \<Longrightarrow> ok_result u) \<Longrightarrow> (\<And>z zs. xs = z # zs \<Longrightarrow> ok_result (g z zs)) \<Longrightarrow> ok_result (case xs of [] \<Rightarrow> u | z # zs \<Rightarrow> g z zs)"
  by (auto split: list.splits)

lemma ok_cases [ok_intros]:
  "(m = None \<Longrightarrow> debugger_ok x) \<Longrightarrow> (\<And>z. m = Some z \<Longrightarrow> debugger_ok (h z)) \<Longrightarrow> debugger_ok (case m of None \<Rightarrow> x | Some z \<Rightarrow> h z)"
  "(m = None \<Longrightarrow> ok_result u) \<Longrightarrow> (\<And>z. m = Some z \<Longrightarrow> ok_result (k z)) \<Longrightarrow> ok_result (case m of None \<Rightarrow> u | Some z \<Rightarrow> k z)"
  "(\<And>a b. p = (a, b) \<Longrightarrow> debugger_ok (l a b)) \<Longrightarrow> debugger_ok (case p of (a, b) \<Rightarrow> l a b)"
  "(\<And>a b. p = (a, b) \<Longrightarrow> ok_result (q a b)) \<Longrightarrow> ok_result (case p of (a, b) \<Rightarrow> q a b)"
  by (auto split: option.splits prod.splits)

lemma ok_sums [ok_intros]:
  "(\<And>z. s = Inl z \<Longrightarrow> debugger_ok (f z)) \<Longrightarrow> (\<And>z. s = Inr z \<Longrightarrow> debugger_ok (g z)) \<Longrightarrow> debugger_ok (case s of Inl z \<Rightarrow> f z | Inr z \<Rightarrow> g z)"
  "(\<And>z. s = Inl z \<Longrightarrow> ok_result (h z)) \<Longrightarrow> (\<And>z. s = Inr z \<Longrightarrow> ok_result (k z)) \<Longrightarrow> ok_result (case s of Inl z \<Rightarrow> h z | Inr z \<Rightarrow> k z)"
  by (auto split: sum.splits)

lemma ok_composed [ok_intros]:
  "debugger_ok d \<Longrightarrow> ok_result (Some d)"
  "ok_result m \<Longrightarrow> (\<And>d. debugger_ok d \<Longrightarrow> ok_result (f d)) \<Longrightarrow> ok_result (Option.bind m f)"
  "ok_result m \<Longrightarrow> (\<And>d. debugger_ok d \<Longrightarrow> debugger_ok (g d)) \<Longrightarrow> ok_result (map_option g m)"
  by (cases m; simp add: ok_result_def)+

section \<open>Small operations\<close>

lemma ok_push_log [ok_intros]: "debugger_ok d \<Longrightarrow> debugger_ok (push_log level source message d)"
  using push_bounded_length [of "db_logs d" MAX_LOG_LINES] by (simp add: debugger_ok_def push_log_def MAX_LOG_LINES_def)

lemma ok_notice [ok_intros]: "debugger_ok d \<Longrightarrow> debugger_ok (notice e name args d)"
  using ok_push_log [of d] push_bounded_length [of "db_notices d" 100]
  by (simp add: notice_def debugger_ok_def push_log_def Let_def)

lemma ok_try_notice [ok_intros]: "debugger_ok d \<Longrightarrow> ok_result (try_notice e name args d)"
  unfolding try_notice_def by (cases "those args") (simp_all add: ok_result_def ok_notice)

lemma ok_send_command [ok_intros]: "debugger_ok d \<Longrightarrow> debugger_ok (send_command e command d)"
  unfolding send_command_def Let_def by (cases "db_agent d") (simp_all add: ok_notice ok_push_log)

lemma bt_insert_entries: "set (bt_insert k v m) \<subseteq> insert (k, v) (set m)"
  by (induction k v m rule: bt_insert.induct) auto

lemma ok_on_peer [ok_intros]:
  assumes "debugger_ok d" "\<And>v. distinct (pv_addresses v) \<Longrightarrow> distinct (pv_addresses (f v))"
  shows "debugger_ok (on_peer p f d)"
proof -
  let ?old = "case bt_get (db_peers d) p of None \<Rightarrow> default_peer | Some v \<Rightarrow> v"
  have "distinct (pv_addresses ?old)"
  proof (cases "bt_get (db_peers d) p")
    case (Some v)
    then have "(p, v) \<in> set (db_peers d)" by (rule map_of_SomeD)
    then show ?thesis using assms(1) Some by (auto simp: debugger_ok_def)
  qed (simp add: default_peer_def)
  then have "distinct (pv_addresses (f ?old))" by (rule assms(2))
  moreover have "set (bt_insert p (f ?old) (db_peers d)) \<subseteq> insert (p, f ?old) (set (db_peers d))" by (rule bt_insert_entries)
  ultimately show ?thesis using assms(1) bt_ok_insert [of "db_peers d" p "f ?old"] by (auto simp: debugger_ok_def on_peer_def)
qed

lemma ok_persist_task [ok_intros]:
  assumes "debugger_ok d"
  shows "debugger_ok (persist_task e c t d)"
proof (cases "db_store d")
  case (Some s)
  obtain r s' where save: "save_task (by_updated e) c t s = (r, s')" by fastforce
  have "distinct (map row_id (rows s))" using assms Some by (simp add: debugger_ok_def)
  then have "distinct (map row_id (rows s'))"
    using save upsert_row_distinct by (cases rule: save_cases [OF save]) (simp_all add: distinct_map_filter)
  then show ?thesis using assms Some save ok_notice [of "d\<lparr>db_store := None\<rparr>"]
    by (cases r) (simp_all add: persist_task_def debugger_ok_def)
qed (use assms in \<open>simp add: persist_task_def\<close>)

lemma ok_persist_all [ok_intros]: "debugger_ok d \<Longrightarrow> debugger_ok (fold (persist_task e c) ts d)"
  by (induction ts arbitrary: d) (simp_all add: ok_persist_task)

lemma ok_send_each [ok_intros]: "debugger_ok d \<Longrightarrow> debugger_ok (send_each e command ps d)"
  unfolding send_each_def by (induction ps arbitrary: d) (simp_all add: ok_send_command)

lemma ok_tasks [ok_intros]: "debugger_ok d \<Longrightarrow> length ts \<le> MAX_TASK_HISTORY \<Longrightarrow> debugger_ok (d\<lparr>db_tasks := ts\<rparr>)"
  by (simp add: debugger_ok_def)

section \<open>Lists of artifacts\<close>

lemma position_Some: "position P xs = Some k \<Longrightarrow> k < length xs \<and> P (xs ! k) \<and> (\<forall>i<k. \<not> P (xs ! i))"
proof -
  assume "position P xs = Some k"
  then obtain ks where ks: "filter (\<lambda>i. P (xs ! i)) [0..<length xs] = k # ks" by (auto simp: position_def split: list.splits)
  then have "k \<in> set (filter (\<lambda>i. P (xs ! i)) [0..<length xs])" "sorted_wrt (<) (k # ks)"
    using sorted_wrt_filter [OF sorted_wrt_upt, of "\<lambda>i. P (xs ! i)" 0 "length xs"] by simp_all
  moreover have "i \<in> set (k # ks)" if "i < length xs" "P (xs ! i)" for i using that by (simp flip: ks)
  ultimately have "k < length xs" "P (xs ! k)" "i < length xs \<Longrightarrow> P (xs ! i) \<Longrightarrow> k \<le> i" for i by force+
  then show ?thesis by (meson leD order_less_trans)
qed

lemma position_None: "position P xs = None \<Longrightarrow> x \<in> set xs \<Longrightarrow> \<not> P x"
  by (auto simp: position_def in_set_conv_nth filter_empty_conv split: list.splits)

lemma remove_at_keys:
  assumes "distinct (map f xs)" "k < length xs"
  shows "distinct (map f (remove_at k xs)) \<and> f (xs ! k) \<notin> f ` set (remove_at k xs)"
proof -
  have "map f xs = map f (take k xs) @ f (xs ! k) # map f (drop (Suc k) xs)"
    using id_take_nth_drop [OF assms(2)] by (metis list.map(2) map_append)
  then show ?thesis using assms(1) by (auto simp: remove_at_def)
qed

lemma take_keys: "distinct (map f xs) \<Longrightarrow> distinct (map f (take n xs))"
  by (simp add: take_map [symmetric])

lemma upsert_artifact_ok:
  assumes "distinct (map av_id xs)"
  shows "distinct (map av_id (upsert_artifact a xs)) \<and> length (upsert_artifact a xs) \<le> MAX_TASK_HISTORY"
proof (cases "position (\<lambda>x. av_id x = av_id a) xs")
  case None
  have "av_id a \<notin> av_id ` set xs"
  proof
    assume "av_id a \<in> av_id ` set xs"
    then obtain x where "x \<in> set xs" "av_id x = av_id a" by (metis imageE)
    with position_None [OF None] show False by simp
  qed
  then have "distinct (map av_id (a # xs))" using assms by simp
  then show ?thesis unfolding upsert_artifact_def None option.case by (auto intro: take_keys simp del: list.map)
next
  case (Some k)
  then show ?thesis using position_Some [OF Some] remove_at_keys [OF assms, of k] by (auto simp: upsert_artifact_def intro!: take_keys)
qed

lemma upsert_remote_ok:
  assumes "distinct (map (\<lambda>a. (ra_peer a, ra_id a)) xs)"
  shows "distinct (map (\<lambda>a. (ra_peer a, ra_id a)) (upsert_remote_artifact a xs)) \<and> length (upsert_remote_artifact a xs) \<le> MAX_TASK_HISTORY"
proof (cases "position (\<lambda>x. ra_peer x = ra_peer a \<and> ra_id x = ra_id a) xs")
  case None
  have "(ra_peer a, ra_id a) \<notin> (\<lambda>a. (ra_peer a, ra_id a)) ` set xs"
  proof
    assume "(ra_peer a, ra_id a) \<in> (\<lambda>a. (ra_peer a, ra_id a)) ` set xs"
    then obtain x where "x \<in> set xs" "ra_peer x = ra_peer a \<and> ra_id x = ra_id a" by (metis (mono_tags, lifting) imageE prod.inject)
    with position_None [OF None this(1)] show False by simp
  qed
  then have "distinct (map (\<lambda>a. (ra_peer a, ra_id a)) (a # xs))" using assms by simp
  then show ?thesis unfolding upsert_remote_artifact_def None option.case by (auto intro: take_keys simp del: list.map)
next
  case (Some k)
  then show ?thesis using position_Some [OF Some] remove_at_keys [OF assms, of k]
    by (auto simp: upsert_remote_artifact_def intro!: take_keys)
qed

lemma update_keys: "f y = f (xs ! k) \<Longrightarrow> map f (xs[k := y]) = map f xs"
  by (metis list_update_id map_update)

lemma ok_artifacts [ok_intros]:
  "debugger_ok d \<Longrightarrow> map av_id xs = map av_id (db_artifacts d) \<Longrightarrow> debugger_ok (d\<lparr>db_artifacts := xs\<rparr>)"
  by (auto simp: debugger_ok_def dest: map_eq_imp_length_eq)

lemma mark_verified_keys [simp]: "map av_id (mark_verified i xs) = map av_id xs"
  by (auto simp: mark_verified_def update_keys split: option.splits)

lemma ok_remote [ok_intros]:
  "debugger_ok d \<Longrightarrow> map (\<lambda>a. (ra_peer a, ra_id a)) xs = map (\<lambda>a. (ra_peer a, ra_id a)) (db_remote d) \<Longrightarrow> debugger_ok (d\<lparr>db_remote := xs\<rparr>)"
  by (auto simp: debugger_ok_def dest: map_eq_imp_length_eq)

lemma progress_keys [simp]:
  "map (\<lambda>a. (ra_peer a, ra_id a)) (peer_progress p i q xs) = map (\<lambda>a. (ra_peer a, ra_id a)) xs"
  "map (\<lambda>a. (ra_peer a, ra_id a)) (multi_progress i q xs) = map (\<lambda>a. (ra_peer a, ra_id a)) xs"
  by (auto simp: peer_progress_def multi_progress_def intro!: update_keys split: option.splits)

lemma list_artifact_ok: "list_artifact i a b s v d = Some (n, k, d1) \<Longrightarrow> debugger_ok d \<Longrightarrow> debugger_ok d1"
  using upsert_artifact_ok by (auto simp: list_artifact_def debugger_ok_def)

section \<open>Lines of output\<close>

lemmas ok_rules = ok_intros

lemma ok_agent_started [ok_intros]: "debugger_ok d \<Longrightarrow> debugger_ok (agent_started e p v name d)"
  unfolding agent_started_def by (intro ok_rules) simp

lemma ok_peer_discovered [ok_intros]: "debugger_ok d \<Longrightarrow> ok_result (peer_discovered e p addr d)"
  unfolding peer_discovered_def Let_def by (intro ok_rules; simp; intro ok_rules; simp)

lemma ok_request_peer_update [ok_intros]: "debugger_ok d \<Longrightarrow> ok_result (request_peer_update e p d)"
  unfolding request_peer_update_def Let_def by (rule ok_try_notice) (simp add: ok_send_command)

lemma ok_peer_version [ok_intros]: "debugger_ok d \<Longrightarrow> ok_result (peer_version e p v d)"
  unfolding peer_version_def Let_def by (intro ok_intros; simp)

lemma ok_listening [ok_intros]: "debugger_ok d \<Longrightarrow> addr \<notin> set (db_listening d) \<Longrightarrow> debugger_ok (d\<lparr>db_listening := db_listening d @ [addr]\<rparr>)"
  by (simp add: debugger_ok_def)

lemma ok_network_event [ok_intros]: "debugger_ok d \<Longrightarrow> ok_result (network_event e ev args d)"
  unfolding network_event_def by (intro ok_intros; simp)

lemma ok_update_event [ok_intros]: "debugger_ok d \<Longrightarrow> ok_result (update_event e ev args d)"
  unfolding update_event_def by (intro ok_intros; simp)

lemma ok_place_notice [ok_intros]: "debugger_ok d \<Longrightarrow> debugger_ok (place_notice e name args d)"
  unfolding place_notice_def by (rule ok_notice) simp

lemma ok_placement_decision [ok_intros]: "debugger_ok d \<Longrightarrow> ok_result (placement_decision e tk target rest d)"
proof -
  assume "debugger_ok d"
  then have "ok_result (map_option (\<lambda>p. place_notice e name (f p) d) x)" for name f x
    by (cases x) (simp_all add: ok_result_def ok_place_notice)
  with \<open>debugger_ok d\<close> show ?thesis unfolding placement_decision_def Let_def
    by (auto simp: ok_result_def [of "Some _"] ok_place_notice split: list.splits option.splits)
qed

lemma ok_scheduler_event [ok_intros]: "debugger_ok d \<Longrightarrow> ok_result (scheduler_event e ev args d)"
  unfolding scheduler_event_def by (intro ok_intros; simp)

lemma ok_artifact_event [ok_intros]: "debugger_ok d \<Longrightarrow> ok_result (artifact_event e ev args d)"
  unfolding artifact_event_def by (intro ok_intros; simp add: list_artifact_ok)

lemma ok_peer_inventory [ok_intros]: "debugger_ok d \<Longrightarrow> ok_result (peer_inventory e p phase d)"
  unfolding peer_inventory_def
  by (intro ok_intros; simp)
    (auto simp: debugger_ok_def distinct_map_filter intro: le_trans [OF length_filter_le])

lemma ok_peer_item [ok_intros]: "debugger_ok d \<Longrightarrow> debugger_ok (peer_item p i a b d)"
proof -
  assume "debugger_ok d"
  then have "debugger_ok (d\<lparr>db_remote := upsert_remote_artifact x (db_remote d)\<rparr>)" for x
    using upsert_remote_ok [of "db_remote d" x] by (simp add: debugger_ok_def)
  then show ?thesis using \<open>debugger_ok d\<close> by (simp add: peer_item_def Let_def split: option.splits)
qed

lemma ok_download_complete [ok_intros]: "debugger_ok d \<Longrightarrow> ok_result (download_complete e name texts i a b source d)"
  unfolding download_complete_def by (intro ok_intros; simp add: list_artifact_ok)

lemma ok_sharing_event [ok_intros]: "debugger_ok d \<Longrightarrow> ok_result (sharing_event e ev args d)"
  unfolding sharing_event_def by (intro ok_intros; simp)

lemma task_lists:
  assumes "debugger_ok d"
  shows "record_task_started c i description executor direction (db_tasks d) = (t, ts) \<Longrightarrow> length ts \<le> MAX_TASK_HISTORY"
    "record_task_finished c i executor ms result state (db_tasks d) = (t, ts) \<Longrightarrow> length ts \<le> MAX_TASK_HISTORY"
    "record_task_progress i a b details (db_tasks d) = (x, ts) \<Longrightarrow> length ts \<le> MAX_TASK_HISTORY"
    "interrupt_running_tasks c reason (db_tasks d) = (xs, ts) \<Longrightarrow> length ts \<le> MAX_TASK_HISTORY"
proof -
  have "length (db_tasks d) \<le> MAX_TASK_HISTORY" using assms by (simp add: debugger_ok_def)
  note b = task_lists_bounded [OF this]
  show "record_task_started c i description executor direction (db_tasks d) = (t, ts) \<Longrightarrow> length ts \<le> MAX_TASK_HISTORY"
    using b(1) [of c i description executor direction] by simp
  show "record_task_finished c i executor ms result state (db_tasks d) = (t, ts) \<Longrightarrow> length ts \<le> MAX_TASK_HISTORY"
    using b(2) [of c i executor ms result state] by simp
  show "record_task_progress i a b details (db_tasks d) = (x, ts) \<Longrightarrow> length ts \<le> MAX_TASK_HISTORY"
    using b(3) [of i a b details] by simp
  show "interrupt_running_tasks c reason (db_tasks d) = (xs, ts) \<Longrightarrow> length ts \<le> MAX_TASK_HISTORY"
    using b(4) [of c reason] by simp
qed

lemma ok_on_task_started [ok_intros]: "debugger_ok d \<Longrightarrow> debugger_ok (on_task_started e c i description executor direction d)"
  unfolding on_task_started_def Let_def by (intro ok_intros) (auto dest: task_lists)

lemma ok_task_progress [ok_intros]: "debugger_ok d \<Longrightarrow> debugger_ok (task_progress e c i a b details d)"
  unfolding task_progress_def Let_def by (auto intro!: ok_persist_task ok_tasks dest: task_lists split: prod.splits option.splits)

lemma ok_task_finished [ok_intros]: "debugger_ok d \<Longrightarrow> debugger_ok (task_finished e c i p ms result state d)"
  unfolding task_finished_def Let_def by (intro ok_intros) (auto dest: task_lists)

lemma ok_task_succeeded [ok_intros]: "debugger_ok d \<Longrightarrow> ok_result (task_succeeded e c p i duration details d)"
  unfolding task_succeeded_def Let_def by (intro ok_intros; simp add: ok_task_finished)

lemma ok_task_failed [ok_intros]: "debugger_ok d \<Longrightarrow> ok_result (task_failed e c p i duration err d)"
  unfolding task_failed_def Let_def by (intro ok_intros; simp add: ok_task_finished)

lemma ok_peer_task_failed [ok_intros]: "debugger_ok d \<Longrightarrow> debugger_ok (peer_task_failed e c p err d)"
  unfolding peer_task_failed_def by (intro ok_intros; simp)

lemma ok_task_event [ok_intros]: "debugger_ok d \<Longrightarrow> ok_result (task_event e c ev args d)"
  unfolding task_event_def by (intro ok_intros; simp)

lemma ok_handle_output [ok_intros]: "debugger_ok d \<Longrightarrow> ok_result (handle_output e c line d)"
  unfolding handle_output_def by (intro ok_intros)

end
