(* ===== verification/Debugger_Props.thy ===== *)
theory Debugger_Props
  imports Debugger_Inv Terminal_Props
begin

text \<open>
  The debugger as a state machine: it looks at its agent or the user does something. Every state it gets to is well formed; what an agent
  prints about resources is shown as printed; and three things it does that it does not mean to.
\<close>

section \<open>The user's actions keep the invariant\<close>

lemma ok_start_agent [ok_intros]: "debugger_ok d \<Longrightarrow> debugger_ok (start_agent e err d)"
proof -
  assume "debugger_ok d"
  then have "debugger_ok (d\<lparr>db_local_peer := None, db_resources := None, db_placement := None, db_listening := [], db_peers := [],
             db_selected_peer := None, db_artifacts := [], db_artifact_store := None, db_selected_artifact := None, db_remote := [],
             db_selected_remote := None\<rparr>)" by (simp add: debugger_ok_def bt_ok_def)
  with \<open>debugger_ok d\<close> show ?thesis unfolding start_agent_def Let_def by (simp add: ok_notice split: option.split)
qed

lemma ok_drop_agent [ok_intros]: "debugger_ok d \<Longrightarrow> debugger_ok (drop_agent a d)"
  by (simp add: drop_agent_def)

lemma ok_interrupt_active_tasks: "interrupt_active_tasks e c reason d = (n, d') \<Longrightarrow> debugger_ok d \<Longrightarrow> debugger_ok d'"
  by (auto simp: interrupt_active_tasks_def intro!: ok_persist_all ok_tasks dest: task_lists(4) split: prod.splits)

lemma ok_stop_managed_agent [ok_intros]: "debugger_ok d \<Longrightarrow> debugger_ok (stop_managed_agent e c d)"
  unfolding stop_managed_agent_def Let_def
  by (auto intro!: ok_notice dest!: ok_interrupt_active_tasks intro: ok_drop_agent split: option.split prod.split)

lemma ok_agent_exited [ok_intros]: "debugger_ok d \<Longrightarrow> debugger_ok (agent_exited e c exit d)"
  unfolding agent_exited_def Let_def
  by (auto intro!: ok_notice dest!: ok_interrupt_active_tasks intro: ok_drop_agent split: option.split prod.split)

lemma ok_find_agents [ok_intros]: "debugger_ok d \<Longrightarrow> debugger_ok (find_agents e d)"
  unfolding find_agents_def Let_def by (intro ok_intros)

lemma ok_test_connection [ok_intros]: "debugger_ok d \<Longrightarrow> ok_result (test_connection e d)"
  unfolding test_connection_def by (intro ok_intros)

lemma ok_run_quick_test [ok_intros]: "debugger_ok d \<Longrightarrow> debugger_ok (run_quick_test e which d)"
  unfolding run_quick_test_def by (intro ok_intros)

lemma ok_buttons [ok_intros]:
  assumes "debugger_ok d"
  shows "debugger_ok (run_smart_benchmark e d)" "debugger_ok (run_smart_matrix e d)" "debugger_ok (run_distributed_matrix e d)"
    "debugger_ok (fail_next_inbound_matrix_chunk e d)" "debugger_ok (delay_next_inbound_matrix_chunk e d)"
    "debugger_ok (import_file e path name d)"
  using assms unfolding run_smart_benchmark_def run_smart_matrix_def run_distributed_matrix_def fail_next_inbound_matrix_chunk_def
    delay_next_inbound_matrix_chunk_def import_file_def by (intro ok_intros; assumption)+

lemma ok_toggle_local_contribution [ok_intros]: "debugger_ok d \<Longrightarrow> debugger_ok (toggle_local_contribution e d)"
  unfolding toggle_local_contribution_def by (intro ok_intros)

lemma ok_check_versions [ok_intros]: "debugger_ok d \<Longrightarrow> debugger_ok (check_versions e d)"
  unfolding check_versions_def Let_def by (intro ok_intros)

lemma ok_manual_dial [ok_intros]: "debugger_ok d \<Longrightarrow> debugger_ok (manual_dial e address d)"
  unfolding manual_dial_def Let_def by (intro ok_intros)

lemma ok_request_debugger_update [ok_intros]: "debugger_ok d \<Longrightarrow> ok_result (request_debugger_update e p d)"
  unfolding request_debugger_update_def Let_def by (rule ok_try_notice) (simp add: ok_send_command)

lemma ok_refresh_artifacts [ok_intros]: "debugger_ok d \<Longrightarrow> debugger_ok (refresh_artifacts e d)"
  unfolding refresh_artifacts_def by (rule ok_send_command) (simp add: debugger_ok_def)

lemma ok_verify_selected_artifact [ok_intros]: "debugger_ok d \<Longrightarrow> ok_result (verify_selected_artifact e d)"
  unfolding verify_selected_artifact_def by (intro ok_intros)

lemma ok_peer_artifacts [ok_intros]:
  assumes "debugger_ok d"
  shows "ok_result (trust_selected_peer_for_artifacts e d)" "ok_result (refresh_peer_artifacts e d)"
    "debugger_ok (refresh_all_trusted_peer_artifacts e d)"
  using assms unfolding trust_selected_peer_for_artifacts_def refresh_peer_artifacts_def refresh_all_trusted_peer_artifacts_def Let_def
  by (intro ok_intros; assumption)+

lemma ok_fetch_selected_remote_artifact [ok_intros]: "debugger_ok d \<Longrightarrow> ok_result (fetch_selected_remote_artifact e d)"
  unfolding fetch_selected_remote_artifact_def Let_def by (intro ok_intros)

lemma ok_install_update [ok_intros]: "debugger_ok d \<Longrightarrow> debugger_ok (install_update e c err name d)"
  unfolding install_update_def Let_def by (auto intro: ok_notice ok_stop_managed_agent split: option.split)

lemma ok_apply_ready_update [ok_intros]: "debugger_ok d \<Longrightarrow> ok_result (apply_ready_update e c l p v path d)"
  unfolding apply_ready_update_def Let_def by (intro ok_intros; simp add: ok_stop_managed_agent)

lemma ok_apply_ready_debugger_update [ok_intros]: "debugger_ok d \<Longrightarrow> ok_result (apply_ready_debugger_update e c l p v path d)"
  unfolding apply_ready_debugger_update_def Let_def by (intro ok_intros; simp add: ok_stop_managed_agent)

lemma ok_take_line [ok_intros]: "debugger_ok d \<Longrightarrow> ok_result (take_line e c line d)"
  unfolding take_line_def using ok_composed(3) [OF ok_handle_output] ok_push_log
  by (cases "strip_ansi_codes line") (auto simp: ok_result_def [of None])

lemma ok_take_lines [ok_intros]: "debugger_ok d \<Longrightarrow> ok_result (take_lines e c ls d)"
proof (induction ls arbitrary: d)
  case (Cons l ls)
  then show ?case unfolding take_lines.simps by (intro ok_composed(2) ok_take_line)
qed (simp add: ok_composed)

lemma ok_poll_agent [ok_intros]: "debugger_ok d \<Longrightarrow> ok_result (poll_agent e c l lines exit ue d)"
  unfolding poll_agent_def take_ready_def take_ready_debugger_def updater_exited_def Let_def by (intro ok_intros; simp add: ok_agent_exited)

lemma ok_clear_finished_tasks [ok_intros]: "debugger_ok d \<Longrightarrow> debugger_ok (clear_finished_tasks e d)"
proof -
  assume ok: "debugger_ok d"
  let ?d = "d\<lparr>db_tasks := filter (\<lambda>t. tv_state t = Running) (db_tasks d)\<rparr>"
  have 1: "debugger_ok ?d" using ok le_trans [OF length_filter_le] by (auto simp: debugger_ok_def)
  have "debugger_ok (?d\<lparr>db_store := None\<rparr>)" using 1 by (simp add: debugger_ok_def)
  moreover have "debugger_ok (?d\<lparr>db_store := Some s'\<rparr>)" if s: "db_store d = Some s" "clear_finished s = (Inr n, s')" for s s' n
  proof -
    have "rows s' = filter (\<lambda>r. row_state r = ''running'') (rows s)"
      using s(2) by (auto simp: clear_finished_def delete_rows_def elim!: statement_cases)
    then show ?thesis using 1 s(1) by (simp add: debugger_ok_def distinct_map_filter)
  qed
  ultimately show ?thesis using 1
    by (auto simp: clear_finished_tasks_def Let_def intro: ok_notice split: option.split prod.split sum.split)
qed

section \<open>Every reachable state is well formed\<close>

inductive debug_step :: "debug_env \<Rightarrow> debugger \<Rightarrow> debugger \<Rightarrow> bool" for e where
  poll: "poll_agent e c l lines exit ue d = Some d' \<Longrightarrow> debug_step e d d'"
| console: "debug_step e d (send_command e line d)"
| automatic: "debug_step e d (d\<lparr>db_auto_updates := b\<rparr>)"
| rename: "debug_step e d (d\<lparr>db_node_name := name\<rparr>)"
| choose_peer: "debug_step e d (d\<lparr>db_selected_peer := Some p\<rparr>)"
| choose_artifact: "debug_step e d (d\<lparr>db_selected_artifact := Some i\<rparr>)"
| choose_remote: "debug_step e d (d\<lparr>db_selected_remote := Some chosen\<rparr>)"
| start: "debug_step e d (start_agent e err d)"
| stop: "debug_step e d (stop_managed_agent e c d)"
| find: "debug_step e d (find_agents e d)"
| test: "test_connection e d = Some d' \<Longrightarrow> debug_step e d d'"
| quick: "debug_step e d (run_quick_test e which d)"
| smart_benchmark: "debug_step e d (run_smart_benchmark e d)"
| smart_matrix: "debug_step e d (run_smart_matrix e d)"
| distributed: "debug_step e d (run_distributed_matrix e d)"
| fail_next: "debug_step e d (fail_next_inbound_matrix_chunk e d)"
| delay_next: "debug_step e d (delay_next_inbound_matrix_chunk e d)"
| contribution: "debug_step e d (toggle_local_contribution e d)"
| versions: "debug_step e d (check_versions e d)"
| dial: "debug_step e d (manual_dial e address d)"
| update_peer: "request_peer_update e p d = Some d' \<Longrightarrow> debug_step e d d'"
| update_debugger: "request_debugger_update e p d = Some d' \<Longrightarrow> debug_step e d d'"
| import: "debug_step e d (import_file e path name d)"
| refresh: "debug_step e d (refresh_artifacts e d)"
| verify: "verify_selected_artifact e d = Some d' \<Longrightarrow> debug_step e d d'"
| trust: "trust_selected_peer_for_artifacts e d = Some d' \<Longrightarrow> debug_step e d d'"
| list_peer: "refresh_peer_artifacts e d = Some d' \<Longrightarrow> debug_step e d d'"
| list_all: "debug_step e d (refresh_all_trusted_peer_artifacts e d)"
| fetch: "fetch_selected_remote_artifact e d = Some d' \<Longrightarrow> debug_step e d d'"
| install: "debug_step e d (install_update e c err name d)"
| clear: "debug_step e d (clear_finished_tasks e d)"
| tell: "debug_step e d (notice e name args d)"
| clear_log: "debug_step e d (notice e name args (d\<lparr>db_logs := []\<rparr>))"

inductive fresh_debugger :: "debug_env \<Rightarrow> debugger \<Rightarrow> bool" for e where
  opened: "open_store (by_updated e) c s = (Inr (ts, n), s') \<Longrightarrow> distinct (map row_id (rows s)) \<Longrightarrow>
     fresh_debugger e (new_debugger e name (Inr (s', ts, n)))"
| unopened: "fresh_debugger e (new_debugger e name (Inl err))"

abbreviation debug_reach :: "debug_env \<Rightarrow> debugger \<Rightarrow> bool" where
  "debug_reach e \<equiv> reachable (fresh_debugger e) (debug_step e)"

lemma ok_step: "debug_step e d d' \<Longrightarrow> debugger_ok d \<Longrightarrow> debugger_ok d'"
proof (induction rule: debug_step.induct)
  case (poll c l lines exit ue d d')
  then show ?case using ok_poll_agent [of d e c l lines exit ue] by (simp add: ok_result_def)
next
  case (test d d')
  then show ?case using ok_test_connection [of d e] by (simp add: ok_result_def)
next
  case (update_peer p d d')
  then show ?case using ok_request_peer_update [of d e p] by (simp add: ok_result_def)
next
  case (update_debugger p d d')
  then show ?case using ok_request_debugger_update [of d e p] by (simp add: ok_result_def)
next
  case (verify d d')
  then show ?case using ok_verify_selected_artifact [of d e] by (simp add: ok_result_def)
next
  case (trust d d')
  then show ?case using ok_peer_artifacts(1) [of d e] by (simp add: ok_result_def)
next
  case (list_peer d d')
  then show ?case using ok_peer_artifacts(2) [of d e] by (simp add: ok_result_def)
next
  case (fetch d d')
  then show ?case using ok_fetch_selected_remote_artifact [of d e] by (simp add: ok_result_def)
next
  case (clear_log d name args)
  then have "debugger_ok (d\<lparr>db_logs := []\<rparr>)" by (simp add: debugger_ok_def)
  then show ?case by (rule ok_notice)
qed (simp_all add: ok_intros)

lemma opened_store:
  assumes "open_store f c s = (Inr (ts, n), s')" "distinct (map row_id (rows s))"
  shows "distinct (map row_id (rows s')) \<and> length ts \<le> MAX_TASK_HISTORY"
proof -
  let ?mark = "\<lambda>r. if row_state r = ''running'' then interrupt_row (unix_time_ms c) r else r"
  have "rows s' = filter (\<lambda>r. \<not> legacy_poll_failure r) (map ?mark (rows s)) \<and>
      ts = rev (map (view_of_row c) (take MAX_TASK_HISTORY (f (rows s'))))"
    using assms(1) by (auto simp: open_store_def mark_interrupted_def remove_legacy_poll_failures_def load_recent_def delete_rows_def
        elim!: statement_cases split: prod.splits sum.splits)
  moreover
  have "map row_id (map ?mark (rows s)) = map row_id (rows s)" by (simp add: interrupt_row_def)
  then have "distinct (map row_id (map ?mark (rows s)))" using assms(2) by (simp only:)
  then have "distinct (map row_id (filter (\<lambda>r. \<not> legacy_poll_failure r) (map ?mark (rows s))))" by (rule distinct_map_filter)
  ultimately show ?thesis by simp
qed

lemma ok_fresh: "fresh_debugger e d \<Longrightarrow> debugger_ok d"
proof (induction rule: fresh_debugger.induct)
  case (opened c s ts n s' name)
  then show ?case using opened_store [OF opened] by (simp add: debugger_ok_def new_debugger_def bt_ok_def)
next
  case (unopened name err)
  then show ?case by (simp add: debugger_ok_def new_debugger_def bt_ok_def)
qed

interpretation debugger_machine: machine_invariant "fresh_debugger e" "debug_step e" debugger_ok for e
  by unfold_locales (rule ok_fresh, assumption, rule ok_step)

text \<open>
  Whatever the agent prints, however its process ends and whatever the user does, the debugger's state stays well formed: at most 2000
  log lines, a hundred notices, tasks, artifacts and artifacts of peers, each artifact once, each peer once and in order with its addresses
  listed once, one row for a task.
\<close>

theorem debugger_well_formed:
  assumes "debug_reach e d"
  shows "debugger_ok d"
  by (rule debugger_machine.run_inv [OF assms])

definition demo_debugger_env :: debug_env where
  "demo_debugger_env = \<lparr>wording = (\<lambda>n. case n of Notice name args \<Rightarrow> name), message_level = (\<lambda>_. Info), by_updated = by_time,
     newer_version = (\<lambda>_ _. False), extension_replaced = (\<lambda>p x. p @ ''.'' @ x), agent_path = ''agent'', updater_path = ''updater'',
     own_executable = Inr ''debugger'', debugger_version = ''1.0.0''\<rparr>"

theorem debugger_well_formed_witness:
  "debugger_ok (start_agent demo_debugger_env None (find_agents demo_debugger_env (new_debugger demo_debugger_env ''n'' (Inl ''no disk''))))"
  by (rule debugger_well_formed [of demo_debugger_env], rule reachable.step, rule reachable.step, rule reachable.init,
      rule fresh_debugger.unopened,
      rule debug_step.find, rule debug_step.start)

section \<open>Resources are shown as printed\<close>

lemma handle_resources:
  "handle_output e c (event_line ''LOCAL_RESOURCES'' (resource_fields p r)) d = Some (d\<lparr>db_resources := Some (view_of_snapshot r)\<rparr>)"
  "handle_output e c (event_line ''PEER_RESOURCES'' (resource_fields p r)) d =
     Some (on_peer (sanitise p) (\<lambda>v. v\<lparr>pv_state := Connected, pv_last_message := wording e (Notice ''resources updated'' []),
       pv_resources := Some (view_of_snapshot r)\<rparr>) d)"
proof -
  have "resource_fields p r = p # tl (resource_fields p r)" by (simp add: resource_fields_def)
  then have fields: "map sanitise (resource_fields p r) = sanitise p # map sanitise (tl (resource_fields p r))" by (metis list.map(2))
  have "TAB \<notin> set ''LOCAL_RESOURCES''" "TAB \<notin> set ''PEER_RESOURCES''" by (simp_all add: TAB_def)
  note parse = parse_event_line [OF this(1)] parse_event_line [OF this(2)]
  have "update_event e ev args d = Some d" "scheduler_event e ev args d = Some d" "artifact_event e ev args d = Some d"
    "sharing_event e ev args d = Some d" "task_event e c ev args d = Some d"
    if "ev = ''LOCAL_RESOURCES'' \<or> ev = ''PEER_RESOURCES''" for ev args d
    using that by (elim disjE; simp add: update_event_def scheduler_event_def artifact_event_def sharing_event_def task_event_def)+
  moreover have "network_event e ''LOCAL_RESOURCES'' (sanitise p # map sanitise (tl (resource_fields p r))) d =
      Some (d\<lparr>db_resources := Some (view_of_snapshot r)\<rparr>)" "network_event e ''PEER_RESOURCES'' (sanitise p # map sanitise (tl (resource_fields p r))) d =
      Some (on_peer (sanitise p) (\<lambda>v. v\<lparr>pv_state := Connected, pv_last_message := wording e (Notice ''resources updated'' []),
       pv_resources := Some (view_of_snapshot r)\<rparr>) d)"
    by (simp_all add: network_event_def read_resources)
  ultimately show "handle_output e c (event_line ''LOCAL_RESOURCES'' (resource_fields p r)) d = Some (d\<lparr>db_resources := Some (view_of_snapshot r)\<rparr>)"
    "handle_output e c (event_line ''PEER_RESOURCES'' (resource_fields p r)) d =
     Some (on_peer (sanitise p) (\<lambda>v. v\<lparr>pv_state := Connected, pv_last_message := wording e (Notice ''resources updated'' []),
       pv_resources := Some (view_of_snapshot r)\<rparr>) d)"
    by (simp_all add: handle_output_def parse fields)
qed

lemma strip_resource_line:
  assumes "readable p" "readable (os r)" "readable (arch r)" "readable (cpu_brand r)" "readable ev"
  shows "strip_ansi_codes (last (printed (emit_resource_event ev p r l))) = Some (event_line ev (resource_fields p r))"
    "last (printed (emit_resource_event ev p r l)) = event_line ev (resource_fields p r)"
  using readable_strip [OF readable_event_line [OF assms(5) readable_resource_fields [OF assms(1-4)]]]
  by (simp_all add: emit_resource_event_def emit_event_def Let_def)

text \<open>
  C37. The debugger shows the resources the agent printed. When the peer's name and the texts of the snapshot (system, architecture,
  processor) are whole characters without an escape, the line the agent prints goes through the stripping of escape sequences unchanged and
  is written to the log with its level; after the line for this computer nothing else changes but its resources, after the line for a peer
  exactly that peer's entry, to the printed snapshot. Integers, texts and flags are the same (breaks in a text are spaces), the load and
  limits are rounded to two decimals and the scores to three; no such line is dropped for a number the debugger cannot read.
\<close>

theorem resources_shown_as_printed:
  assumes "readable p" "readable (os r)" "readable (arch r)" "readable (cpu_brand r)"
  shows "(let line = last (printed (emit_resource_event ''LOCAL_RESOURCES'' p r l)) in
     take_line e c line d = Some (push_log (classify_agent_log line) FromAgent line (d\<lparr>db_resources := Some (view_of_snapshot r)\<rparr>))) \<and>
   (let line = last (printed (emit_resource_event ''PEER_RESOURCES'' p r l)) in
     take_line e c line d = Some (push_log (classify_agent_log line) FromAgent line
       (on_peer (sanitise p) (\<lambda>v. v\<lparr>pv_state := Connected, pv_last_message := wording e (Notice ''resources updated'' []),
         pv_resources := Some (view_of_snapshot r)\<rparr>) d)))"
proof -
  have "readable ''LOCAL_RESOURCES''" "readable ''PEER_RESOURCES''" by (rule plain_readable; simp add: plain_ascii_def)+
  from strip_resource_line [OF assms this(1)] strip_resource_line [OF assms this(2)]
  show ?thesis unfolding Let_def take_line_def by (simp add: handle_resources)
qed

definition demo_snapshot :: resource_snapshot where
  "demo_snapshot = \<lparr>observed_at_unix_ms = 5, os = ''linux'', arch = ''x86_64'', cpu_brand = ''CPU'', physical_cores = 2, logical_cores = 4,
     total_memory_bytes = 4000, available_memory_bytes = 3000, host_cpu_percent = Fin 20, agent_cpu_percent = Fin 1, agent_memory_bytes = 100,
     active_tasks = 0, cpu_limit_percent = Fin 75, memory_limit_percent = Fin 50, allocatable_memory_bytes = 1900,
     calibrated_cpu_score = Fin 10, snapshot_cpu_score = Fin 7, contribution_paused = False, battery_percent = None, charging = None,
     thermal_status = None, unmetered_network = Some True\<rparr>"

theorem resources_shown_as_printed_witness:
  "\<forall>c. \<exists>line d v. take_line demo_debugger_env c line (new_debugger demo_debugger_env ''n'' (Inl ''no disk'')) = Some d \<and>
     db_resources d = Some v \<and> rv_os v = ''linux'' \<and> rv_total_memory v = 4000 \<and> rv_unmetered v = Some True"
proof
  fix c
  have plain: "readable ''p''" "readable (os demo_snapshot)" "readable (arch demo_snapshot)" "readable (cpu_brand demo_snapshot)"
    by (simp_all add: demo_snapshot_def plain_readable plain_ascii_def)
  have view: "rv_os (view_of_snapshot demo_snapshot) = ''linux''" "rv_total_memory (view_of_snapshot demo_snapshot) = 4000"
      "rv_unmetered (view_of_snapshot demo_snapshot) = Some True"
    by (simp_all add: view_of_snapshot_def demo_snapshot_def sanitise_def TAB_def CR_def LF_def)
  show "\<exists>line d v. take_line demo_debugger_env c line (new_debugger demo_debugger_env ''n'' (Inl ''no disk'')) = Some d \<and>
     db_resources d = Some v \<and> rv_os v = ''linux'' \<and> rv_total_memory v = 4000 \<and> rv_unmetered v = Some True"
    using resources_shown_as_printed [OF plain, of "\<lparr>printed = [], mobile_events = []\<rparr>" demo_debugger_env c
        "new_debugger demo_debugger_env ''n'' (Inl ''no disk'')"] view
    unfolding Let_def by (elim conjE) (intro exI conjI, assumption, auto simp: push_log_def)
qed

section \<open>What it does not mean to do\<close>

text \<open>A file that one ready peer offers is asked of the chosen peer, though that one is not connected.\<close>

lemma fetch_ignores_the_only_ready_provider:
  "let ready = default_peer\<lparr>pv_trusted := True, pv_state := Connected\<rparr>;
       item = (\<lambda>p. \<lparr>ra_peer = p, ra_id = ''f'', ra_size = 1, ra_blocks = 1, ra_progress = None\<rparr>);
       d = (new_debugger demo_debugger_env ''n'' (Inl []))\<lparr>db_agent := Some \<lparr>input_open = True, given = []\<rparr>,
             db_peers := [(''a'', default_peer\<lparr>pv_state := Disconnected\<rparr>), (''b'', ready)], db_remote := [item ''a'', item ''b'']\<rparr>
   in fetch_providers ''f'' d = [''b''] \<and>
      (\<exists>d'. fetch_selected_remote_artifact demo_debugger_env d = Some d' \<and> db_agent d' = Some \<lparr>input_open = True, given = [''artifact-fetch a f'']\<rparr>)"
proof -
  note defs = fetch_providers_def new_debugger_def default_peer_def ready_peer_def MAX_FETCH_PROVIDERS_def
  show ?thesis unfolding Let_def
    by (simp add: defs fetch_selected_remote_artifact_def try_notice_def notice_def push_log_def send_command_def
        short_peer_def short_content_id_def Let_def)
qed

text \<open>
  When a hundred later tasks have pushed a running one out of the list, its end is recorded as that of an unknown task, and the row in the
  table, which still had its description and direction, is overwritten with that.
\<close>

lemma evicted_task_loses_its_description:
  assumes "length ts = MAX_TASK_HISTORY" "distinct (map tv_id ts)" "tv_id (hd ts) \<noteq> []" "j \<notin> tv_id ` set ts"
  defines "i \<equiv> tv_id (hd ts)"
  shows "let ts' = snd (record_task_started c j description executor direction ts); t = fst (record_task_finished c' i ex ms result state ts')
    in tv_id t = i \<and> tv_description t = task_word \<and> tv_direction t = ''unknown'' \<and>
       (\<forall>rs. i \<in> row_id ` set rs \<longrightarrow> (\<forall>x\<in>set (upsert_row (row_of_view c' t) rs). row_id x = i \<longrightarrow> row_description x = task_word))"
proof -
  have none: "rposition P xs = None" if "\<forall>x\<in>set xs. \<not> P x" for P and xs :: "task_view list"
    using that by (auto simp: rposition_def filter_empty_conv split: list.splits)
  obtain t0 rest where ts: "ts = t0 # rest" using assms(1) by (cases ts) (simp_all add: MAX_TASK_HISTORY_def)
  define t1 where "t1 = \<lparr>tv_id = j, tv_description = description, tv_executor = executor, tv_direction = direction,
     tv_state = Running, tv_started_at = instant_now c, tv_started_unix = unix_time_ms c, tv_duration = None, tv_result = None\<rparr>"
  have "rposition (\<lambda>t. tv_id t = j \<and> tv_state t = Running) ts = None" using assms(4) by (intro none) auto
  then have 1: "snd (record_task_started c j description executor direction ts) = rest @ [t1]"
    using assms(1) by (simp add: record_task_started_def push_bounded_def Let_def ts t1_def)
  have "rposition (\<lambda>t. tv_id t = i) (rest @ [t1]) = None"
    using assms(2,4) by (intro none) (auto simp: ts i_def t1_def; metis imageI)
  then have 2: "tv_id t = i \<and> tv_description t = task_word \<and> tv_direction t = ''unknown''"
    if "t = fst (record_task_finished c' i ex ms result state (rest @ [t1]))" for t
    using assms(3) that by (simp add: record_task_finished_def Let_def i_def)
  show ?thesis unfolding 1 Let_def using 2 [OF refl] by (auto simp: upsert_row_def row_of_view_def)
qed

text \<open>A line the stopped agent had printed before: a task that no agent works on is shown as running.\<close>

lemma late_line_shows_a_running_task:
  assumes "db_agent d = None" "db_store d = None" "db_tasks d = []"
  shows "\<exists>d'. handle_output e c (event_line ''TASK_STARTED'' [''i'', ''Sum'', ''p'', ''inbound'']) d = Some d' \<and> db_agent d' = None \<and>
    map tv_state (db_tasks d') = [Running]"
proof -
  have "TAB \<notin> set ''TASK_STARTED''" by (simp add: TAB_def)
  moreover have "sanitise ''i'' = ''i''" "sanitise ''Sum'' = ''Sum''" "sanitise ''p'' = ''p''" "sanitise ''inbound'' = ''inbound''"
    by (simp_all add: sanitise_def TAB_def CR_def LF_def)
  ultimately show ?thesis using assms
    by (simp add: parse_event_line handle_output_def network_event_def update_event_def scheduler_event_def artifact_event_def
        sharing_event_def task_event_def on_task_started_def record_task_started_def rposition_def push_bounded_def MAX_TASK_HISTORY_def
        persist_task_def Let_def)
qed

end
