(* ===== verification/Window_Actions.thy ===== *)
theory Window_Actions
  imports Window Debugger_Props
begin

text \<open>
  What the buttons of the window do, and its frames: one look at the agent, one sample of the metrics and then the drawing, in which
  a pressed button acts. What the system and its dialogs answer is an argument.
\<close>

section \<open>Buttons\<close>

text \<open>
  The answers of the system: the clocks; the error of starting the agent; the chosen file with its name; the name of the chosen installer with the
  error of launching it; the place to save the log with the error of writing it; the error of opening the browser.
\<close>

record answers =
  an_clocks :: clocks
  an_spawn :: "string option"
  an_file :: "(string \<times> string) option"
  an_installer :: "(string \<times> string option) option"
  an_save :: "(string \<times> string option) option"
  an_browser :: "string option"

definition on_debugger :: "(debugger \<Rightarrow> debugger) \<Rightarrow> window \<Rightarrow> window option" where
  "on_debugger f w = Some (w\<lparr>wd_debugger := f (wd_debugger w)\<rparr>)"

definition try_debugger :: "(debugger \<Rightarrow> debugger option) \<Rightarrow> window \<Rightarrow> window option" where
  "try_debugger f w = map_option (\<lambda>d. w\<lparr>wd_debugger := d\<rparr>) (f (wd_debugger w))"

definition on_selected :: "(string \<Rightarrow> debugger \<Rightarrow> debugger option) \<Rightarrow> window \<Rightarrow> window option" where
  "on_selected f w = (case selected_peer_id (wd_debugger w) of None \<Rightarrow> Some w | Some p \<Rightarrow> try_debugger (f p) w)"

definition save_filtered_log :: "debug_env \<Rightarrow> (string \<times> string option) option \<Rightarrow> debugger \<Rightarrow> debugger" where
  "save_filtered_log e saved d = (case saved of
     None \<Rightarrow> d
   | Some (path, None) \<Rightarrow> notice e ''log saved'' [path] d
   | Some (path, Some err) \<Rightarrow> notice e ''log could not be saved'' [path, err] d)"

definition clear_log :: "debug_env \<Rightarrow> debugger \<Rightarrow> debugger" where
  "clear_log e d = notice e ''log cleared'' [] (d\<lparr>db_logs := []\<rparr>)"

definition send_line :: "debug_env \<Rightarrow> window \<Rightarrow> window" where
  "send_line e w = (let line = trim (wd_line w)
     in if line = [] then w else w\<lparr>wd_debugger := send_command e line (wd_debugger w), wd_line := []\<rparr>)"

definition press :: "debug_env \<Rightarrow> (string \<Rightarrow> string) \<Rightarrow> answers \<Rightarrow> button \<Rightarrow> window \<Rightarrow> window option" where
  "press e lower a b w = (case b of
     StartAgent \<Rightarrow> on_debugger (start_agent e (an_spawn a)) w
   | StopAgent \<Rightarrow> on_debugger (stop_managed_agent e (an_clocks a)) w
   | FindAgents \<Rightarrow> on_debugger (find_agents e) w
   | TestConnection \<Rightarrow> try_debugger (test_connection e) w
   | SmartBenchmark \<Rightarrow> on_debugger (run_smart_benchmark e) w
   | SmartMatrix \<Rightarrow> on_debugger (run_smart_matrix e) w
   | DistributedMatrix \<Rightarrow> on_debugger (run_distributed_matrix e) w
   | FailNextChunk \<Rightarrow> on_debugger (fail_next_inbound_matrix_chunk e) w
   | DelayNextChunk \<Rightarrow> on_debugger (delay_next_inbound_matrix_chunk e) w
   | PauseContribution \<Rightarrow> on_debugger (toggle_local_contribution e) w
   | ResumeContribution \<Rightarrow> on_debugger (toggle_local_contribution e) w
   | CheckVersions \<Rightarrow> on_debugger (check_versions e) w
   | QuickTest which \<Rightarrow> on_debugger (run_quick_test e which) w
   | ClearFinished \<Rightarrow> on_debugger (clear_finished_tasks e) w
   | AddFile \<Rightarrow> (case an_file a of None \<Rightarrow> Some w | Some (path, name) \<Rightarrow> on_debugger (import_file e path name) w)
   | ListFiles \<Rightarrow> on_debugger (refresh_artifacts e) w
   | VerifyFile \<Rightarrow> try_debugger (verify_selected_artifact e) w
   | TrustForFiles \<Rightarrow> try_debugger (trust_selected_peer_for_artifacts e) w
   | ListPeerFiles \<Rightarrow> try_debugger (refresh_peer_artifacts e) w
   | ListAllFiles \<Rightarrow> on_debugger (refresh_all_trusted_peer_artifacts e) w
   | FetchFile \<Rightarrow> try_debugger (fetch_selected_remote_artifact e) w
   | UpdateAgent \<Rightarrow> on_selected (request_peer_update e) w
   | UpdateDebugger \<Rightarrow> on_selected (request_debugger_update e) w
   | RemoveTrust \<Rightarrow> on_selected (\<lambda>p d. Some (send_command e (''untrust '' @ p) d)) w
   | OpenDownloads \<Rightarrow> (case an_browser a of None \<Rightarrow> Some w | Some err \<Rightarrow> on_debugger (notice e ''browser could not be opened'' [err]) w)
   | InstallUpdate \<Rightarrow> (case an_installer a of None \<Rightarrow> Some w | Some (name, err) \<Rightarrow> on_debugger (install_update e (an_clocks a) err name) w)
   | DialPeer \<Rightarrow> on_debugger (manual_dial e (wd_dial w)) w
   | CopyFirewall \<Rightarrow> on_debugger (notice e ''firewall command copied'' []) w
   | CopyLog \<Rightarrow> on_debugger (notice e ''log lines copied'' [show_nat (length (visible_log lower w))]) w
   | SaveLog \<Rightarrow> on_debugger (save_filtered_log e (an_save a)) w
   | ResetFilters \<Rightarrow> Some (w\<lparr>wd_query := [], wd_level := None, wd_source := None\<rparr>)
   | ClearLog \<Rightarrow> on_debugger (clear_log e) w
   | SendLine \<Rightarrow> Some (send_line e w))"

section \<open>Frames\<close>

definition new_metrics :: "clocks \<Rightarrow> metrics" where
  "new_metrics c = \<lparr>mt_refreshed = instant_now c - 2000, mt_index = Fin 0, mt_cpu = [], mt_memory = []\<rparr>"

definition new_window :: "clocks \<Rightarrow> string \<Rightarrow> string \<Rightarrow> debugger \<Rightarrow> window" where
  "new_window c identity store_path d = \<lparr>wd_debugger = d, wd_query = [], wd_level = None, wd_source = None, wd_follow = True, wd_console = False,
     wd_line = [], wd_dial = [], wd_identity = identity, wd_listen = ''/ip4/0.0.0.0/udp/0/quic-v1'', wd_max_cpu = Fin 75, wd_max_memory = Fin 50,
     wd_updates_open = False, wd_tools_open = False, wd_metrics = new_metrics c, wd_store_path = store_path\<rparr>"

text \<open>
  The thread that reads an output of the agent line by line: a line that cannot be read, for instance one that is not UTF-8, is its last. The
  lines of the standard output and of the standard error arrive in one channel, each in its order.
\<close>

fun pump_output :: "(string + string) list \<Rightarrow> string list" where
  "pump_output [] = []"
| "pump_output (Inr line # rest) = line # pump_output rest"
| "pump_output (Inl err # rest) = [''ERROR reading agent output: '' @ err]"

text \<open>The window closes after the frame in which the debugger asked for it.\<close>

definition closes :: "window \<Rightarrow> bool" where
  "closes w = db_close (wd_debugger w)"

text \<open>What is looked at before the drawing: the lines of the agent, the ends of the processes, and the system's readings.\<close>

record readings_now =
  rn_clocks :: clocks
  rn_launch :: launch
  rn_lines :: "string list"
  rn_exit :: "string option"
  rn_updater :: "bool option"
  rn_cpu :: flt
  rn_memory :: u64
  rn_used :: u64

definition look :: "debug_env \<Rightarrow> readings_now \<Rightarrow> window \<Rightarrow> window option" where
  "look e r w = map_option (\<lambda>d. w\<lparr>wd_debugger := d, wd_metrics := refresh_metrics (rn_clocks r) (rn_cpu r) (rn_memory r) (rn_used r) (wd_metrics w)\<rparr>)
     (poll_agent e (rn_clocks r) (rn_launch r) (rn_lines r) (rn_exit r) (rn_updater r) (wd_debugger w))"

text \<open>
  The steps of the window: a look; a press of a button that is drawn and enabled, whose drawing did not panic; typing and choosing. A radio
  button chooses what its row shows; the sliders move between 5 and 100 while no agent runs. The paths of the programs, which can be edited
  too, are part of the environment and stay.
\<close>

definition slider_value :: "flt \<Rightarrow> bool" where
  "slider_value v = (fl_le (Fin 5) v \<and> fl_le v (Fin 100))"

inductive window_step :: "debug_env \<Rightarrow> window \<Rightarrow> window \<Rightarrow> bool" for e where
  looked: "look e r w = Some w' \<Longrightarrow> window_step e w w'"
| pressed: "draw_window e x w = Some ws \<Longrightarrow> Button b True \<in> set ws \<Longrightarrow> press e (lower_case x) a b w = Some w' \<Longrightarrow> window_step e w w'"
| typed: "window_step e w (w\<lparr>wd_query := q, wd_line := l, wd_dial := s, wd_identity := i, wd_listen := addr\<rparr>)"
| filtered: "window_step e w (w\<lparr>wd_level := lv, wd_source := src, wd_follow := f, wd_console := cons\<rparr>)"
| unfolded: "window_step e w (w\<lparr>wd_updates_open := u, wd_tools_open := t\<rparr>)"
| limited: "db_agent (wd_debugger w) = None \<Longrightarrow> slider_value m \<Longrightarrow> slider_value k \<Longrightarrow> window_step e w (w\<lparr>wd_max_cpu := m, wd_max_memory := k\<rparr>)"
| renamed: "window_step e w (w\<lparr>wd_debugger := (wd_debugger w)\<lparr>db_node_name := n\<rparr>\<rparr>)"
| automatic: "window_step e w (w\<lparr>wd_debugger := (wd_debugger w)\<lparr>db_auto_updates := on\<rparr>\<rparr>)"
| peer: "p \<in> fst ` set (db_peers (wd_debugger w)) \<Longrightarrow> window_step e w (w\<lparr>wd_debugger := (wd_debugger w)\<lparr>db_selected_peer := Some p\<rparr>\<rparr>)"
| artifact: "f \<in> set (db_artifacts (wd_debugger w)) \<Longrightarrow>
    window_step e w (w\<lparr>wd_debugger := (wd_debugger w)\<lparr>db_selected_artifact := Some (av_id f)\<rparr>\<rparr>)"
| remote: "f \<in> set (db_remote (wd_debugger w)) \<Longrightarrow>
    window_step e w (w\<lparr>wd_debugger := (wd_debugger w)\<lparr>db_selected_remote := Some (ra_peer f, ra_id f)\<rparr>\<rparr>)"

definition fresh_window :: "debug_env \<Rightarrow> window \<Rightarrow> bool" where
  "fresh_window e w = (\<exists>c identity store_path d. w = new_window c identity store_path d \<and> fresh_debugger e d)"

abbreviation window_run :: "debug_env \<Rightarrow> window \<Rightarrow> bool" where
  "window_run e \<equiv> reachable (fresh_window e) (window_step e)"

lemmas window_run_step = reachable.step [where start = "fresh_window e" and step = "window_step e" for e]

end
