(* ===== verification/Window_Props.thy ===== *)
theory Window_Props
  imports Window_Actions
begin

text \<open>
  The window as a state machine over the debugger: what it does is what the debugger may do, what its buttons tell the agent, and what it shows
  of the peers.
\<close>

section \<open>The window is the debugger\<close>

lemma press_step:
  assumes "press e lower a b w = Some w'"
  shows "wd_debugger w' = wd_debugger w \<or> debug_step e (wd_debugger w) (wd_debugger w')"
proof -
  let ?d = "wd_debugger w"
  have on: "wd_debugger w' = f ?d" if "on_debugger f w = Some w'" for f using that by (auto simp: on_debugger_def)
  have save: "save_filtered_log e s d = d \<or> debug_step e d (save_filtered_log e s d)" for s d
    by (auto simp: save_filtered_log_def split: option.split intro: debug_step.tell)
  show ?thesis
    using assms save [of "an_save a" ?d]
    by (cases b) (auto simp: press_def on_selected_def try_debugger_def send_line_def clear_log_def Let_def
        dest!: on intro: debug_step.intros split: option.splits if_splits)
qed

definition metrics_ok :: "metrics \<Rightarrow> bool" where
  "metrics_ok m = (length (mt_cpu m) \<le> MAX_METRIC_SAMPLES \<and> length (mt_memory m) = length (mt_cpu m))"

definition window_ok :: "window \<Rightarrow> bool" where
  "window_ok w = (debugger_ok (wd_debugger w) \<and> metrics_ok (wd_metrics w) \<and> slider_value (wd_max_cpu w) \<and> slider_value (wd_max_memory w))"

lemma ok_refresh_metrics: "metrics_ok m \<Longrightarrow> metrics_ok (refresh_metrics c cpu memory used m)"
  by (auto simp: metrics_ok_def refresh_metrics_def push_sample_def push_bounded_def Let_def MAX_METRIC_SAMPLES_def)

lemma press_keeps:
  assumes "press e lower a b w = Some w'"
  shows "wd_metrics w' = wd_metrics w \<and> wd_max_cpu w' = wd_max_cpu w \<and> wd_max_memory w' = wd_max_memory w"
  using assms by (cases b) (auto simp: press_def on_debugger_def try_debugger_def on_selected_def send_line_def Let_def split: option.splits)

lemma window_step_effect:
  assumes "window_step e w w'"
  shows "(wd_debugger w' = wd_debugger w \<or> debug_step e (wd_debugger w) (wd_debugger w')) \<and>
    (metrics_ok (wd_metrics w) \<longrightarrow> metrics_ok (wd_metrics w')) \<and>
    (slider_value (wd_max_cpu w) \<and> slider_value (wd_max_memory w) \<longrightarrow> slider_value (wd_max_cpu w') \<and> slider_value (wd_max_memory w'))"
  using assms
proof (cases rule: window_step.cases)
  case (pressed x ws b a)
  then show ?thesis using press_step press_keeps by metis
qed (auto simp: look_def intro: debug_step.intros ok_refresh_metrics)

lemma fresh_window_debugger: "fresh_window e w \<Longrightarrow> fresh_debugger e (wd_debugger w)"
  by (auto simp: fresh_window_def new_window_def)

lemma ok_fresh_window: "fresh_window e w \<Longrightarrow> window_ok w"
  using fresh_window_debugger [of e w] ok_fresh
  by (auto simp: window_ok_def fresh_window_def new_window_def new_metrics_def metrics_ok_def slider_value_def)

interpretation window_machine: machine_invariant "fresh_window e" "window_step e" "\<lambda>w. debug_reach e (wd_debugger w) \<and> window_ok w" for e
proof unfold_locales
  fix w assume "fresh_window e w"
  then show "debug_reach e (wd_debugger w) \<and> window_ok w"
    using fresh_window_debugger ok_fresh_window by (blast intro: reachable.init)
next
  fix w w' assume inv: "debug_reach e (wd_debugger w) \<and> window_ok w" and step: "window_step e w w'"
  note effect = window_step_effect [OF step]
  then have "debugger_ok (wd_debugger w')" using inv ok_step by (auto simp: window_ok_def)
  moreover have "debug_reach e (wd_debugger w')"
    using effect inv reachable.step [where start = "fresh_debugger e" and step = "debug_step e"] by metis
  ultimately show "debug_reach e (wd_debugger w') \<and> window_ok w'" using effect inv by (simp add: window_ok_def)
qed

section \<open>When the drawing panics\<close>

text \<open>The identifiers that the window shortens.\<close>

definition shown_ids :: "debugger \<Rightarrow> string list" where
  "shown_ids d = map fst (db_peers d) @ map tv_executor (db_tasks d) @ map av_id (db_artifacts d) @
     concat (map (\<lambda>a. [ra_peer a, ra_id a]) (db_remote d))"

definition ascii_text :: "string \<Rightarrow> bool" where
  "ascii_text s = list_all (\<lambda>c. of_char c < (128 :: nat)) s"

lemma ascii_shorten:
  assumes "ascii_text s" "10 \<le> length s"
  shows "shorten s \<noteq> None"
proof -
  have "\<not> continues (s ! k)" if "k < length s" for k
    using assms(1) that by (simp add: ascii_text_def list_all_length continues_def not_le)
  then show ?thesis using assms(2) by (auto simp: shorten_def boundary_def)
qed

lemma ascii_short_peer: "ascii_text p \<Longrightarrow> short_peer p \<noteq> None"
  using ascii_shorten [of p] by (auto simp: short_peer_def)

lemma ascii_short_content: "ascii_text i \<Longrightarrow> short_content_id i \<noteq> None"
proof -
  assume a: "ascii_text i"
  have "ascii_text d" if "strip_prefix ''sha256:'' i = Some d" for d
    using that a by (auto simp: strip_prefix_Some ascii_text_def)
  then show ?thesis using a ascii_shorten by (auto simp: short_content_id_def Let_def split: option.split)
qed

lemma ascii_peer_label: "ascii_text p \<Longrightarrow> peer_label p v \<noteq> None"
  using ascii_short_peer [of p] by (auto simp: peer_label_def split: option.split)

lemma draws_None [simp]: "draws gs = None \<longleftrightarrow> None \<in> set gs" "None = draws gs \<longleftrightarrow> None \<in> set gs"
proof -
  show "draws gs = None \<longleftrightarrow> None \<in> set gs" unfolding draws_def by (induction gs) (auto split: option.split)
  then show "None = draws gs \<longleftrightarrow> None \<in> set gs" by metis
qed

lemma ascii_task: "ascii_text (tv_executor t) \<Longrightarrow> task_cells c d t \<noteq> None"
  using ascii_peer_label [of "tv_executor t"] ascii_short_peer [of "tv_executor t"]
  by (auto simp: task_cells_def task_executor_def split: option.split)

lemma ascii_remote: "ascii_text (ra_peer a) \<Longrightarrow> ascii_text (ra_id a) \<Longrightarrow> remote_row d a \<noteq> None"
proof -
  assume a: "ascii_text (ra_peer a)" "ascii_text (ra_id a)"
  have "(case bt_get (db_peers d) (ra_peer a) of Some v \<Rightarrow> peer_label (ra_peer a) v | None \<Rightarrow> short_peer (ra_peer a)) \<noteq> None"
    using ascii_peer_label [OF a(1)] ascii_short_peer [OF a(1)] by (simp split: option.split)
  then show ?thesis using ascii_short_content [OF a(2)] by (auto simp: remote_row_def)
qed

text \<open>A recommended or strongest peer is one of the peers.\<close>

lemma in_map_filter: "y \<in> set (List.map_filter f xs) \<longleftrightarrow> (\<exists>x\<in>set xs. f x = Some y)"
  by (induction xs) (auto simp: List.map_filter_simps split: option.split)

lemma in_remote_candidates:
  "(p, s) \<in> set (remote_candidates d) \<longleftrightarrow> (\<exists>v r. (p, v) \<in> set (db_peers d) \<and> pv_state v = Connected \<and> pv_resources v = Some r \<and>
     \<not> rv_paused r \<and> is_finite (rv_effective r) \<and> fl_less (Fin 0) (rv_effective r) \<and> s = rv_effective r)"
  unfolding remote_candidates_def in_map_filter by (force split: option.splits if_splits)

lemma advice_peer: "peer_resources_of d p = Some (q, r) \<Longrightarrow> q \<in> fst ` set (db_peers d)"
  by (force simp: peer_resources_of_def bind_eq_Some_conv dest: map_of_SomeD)

lemma ascii_advice:
  assumes "\<forall>p\<in>fst ` set (db_peers d). ascii_text p"
  shows "placement_advice d \<noteq> None"
proof -
  have "short_peer q \<noteq> None" if "peer_resources_of d p = Some (q, r)" for p q r
    using advice_peer [OF that] assms ascii_short_peer by blast
  then show ?thesis
    by (fastforce simp: placement_advice_def bind_eq_Some_conv split: option.split prod.split)
qed

lemma ascii_window:
  assumes "list_all ascii_text (shown_ids (wd_debugger w))"
  shows "draw_window e x w \<noteq> None"
proof -
  let ?d = "wd_debugger w"
  have peers: "\<forall>p\<in>fst ` set (db_peers ?d). ascii_text p" and tasks: "\<forall>t\<in>set (db_tasks ?d). ascii_text (tv_executor t)"
    and files: "\<forall>f\<in>set (db_artifacts ?d). ascii_text (av_id f)"
    and remote: "\<forall>f\<in>set (db_remote ?d). ascii_text (ra_peer f) \<and> ascii_text (ra_id f)"
    using assms by (auto simp: shown_ids_def list_all_iff)
  have "peer_row ?d y \<noteq> None" "resource_row ?d y \<noteq> None" if "y \<in> set (db_peers ?d)" for y
    using peers that ascii_peer_label by (auto simp: peer_row_def resource_row_def split: prod.split)
  then have "None \<notin> peer_row ?d ` set (db_peers ?d)" "None \<notin> resource_row ?d ` set (db_peers ?d)" by force+
  then have "draw_peers ?d \<noteq> None" using ascii_advice [OF peers] by (simp add: draw_peers_def image_iff del: not_None_eq)
  moreover have "None \<notin> task_cells (sight_clocks x) ?d ` set (db_tasks ?d)" using tasks ascii_task by (metis imageE)
  then have "draw_tasks (sight_clocks x) (wd_store_path w) ?d \<noteq> None" by (simp add: draw_tasks_def Let_def del: not_None_eq)
  moreover have "None \<notin> artifact_row ?d ` set (db_artifacts ?d)" using files ascii_short_content by (force simp: artifact_row_def)
  then have "draw_artifacts ?d \<noteq> None" if "None \<notin> remote_row ?d ` set (db_remote ?d)"
    using that by (simp add: draw_artifacts_def image_iff del: not_None_eq)
  moreover have "None \<notin> remote_row ?d ` set (db_remote ?d)" using remote ascii_remote by (metis imageE)
  ultimately show ?thesis by (simp add: draw_window_def Let_def del: not_None_eq)
qed

section \<open>Buttons that are drawn\<close>

lemma draws_Some: "draws gs = Some ws \<Longrightarrow> x \<in> set ws \<longleftrightarrow> (\<exists>g. Some g \<in> set gs \<and> x \<in> set g)"
  unfolding draws_def by (induction gs arbitrary: ws) (fastforce split: option.splits)+

definition no_button :: "widget list \<Rightarrow> bool" where
  "no_button ws = (\<forall>b on. Button b on \<notin> set ws)"

lemmas widgets = worded_def plain_def hinted_def

lemma rows_without_buttons:
  "peer_row d y = Some r \<Longrightarrow> no_button r" "resource_row d y = Some r \<Longrightarrow> no_button r" "placement_advice d = Some r \<Longrightarrow> no_button r"
  "task_cells c d t = Some r \<Longrightarrow> no_button r" "artifact_row d f = Some r \<Longrightarrow> no_button r" "remote_row d g = Some r \<Longrightarrow> no_button r"
  by (auto simp: no_button_def peer_row_def resource_row_def resource_cells_def placement_advice_def task_cells_def artifact_row_def remote_row_def
      widgets bind_eq_Some_conv Let_def split: prod.splits option.splits if_splits)

lemma peers_buttons:
  assumes "draw_peers d = Some ws" "Button b on \<in> set ws"
  shows "db_peers d \<noteq> [] \<and> b \<in> QuickTest ` set quick_tests \<and> on"
  using assms rows_without_buttons(1-3) [unfolded no_button_def]
  by (auto simp: draw_peers_def widgets draws_Some split: if_splits)

lemma tasks_buttons:
  assumes "draw_tasks c path d = Some ws" "Button b on \<in> set ws"
  shows "b = ClearFinished"
  using assms rows_without_buttons(4) [unfolded no_button_def]
  by (auto simp: draw_tasks_def widgets draws_Some Let_def split: if_splits)

lemma artifact_buttons:
  assumes "draw_artifacts d = Some ws" "Button b on \<in> set ws"
  shows "Button b on \<in> set (artifact_actions d)"
  using assms rows_without_buttons(5,6) [unfolded no_button_def]
  by (auto simp: draw_artifacts_def widgets draws_Some split: if_splits option.splits)

lemma quick_tests_drawn:
  assumes "draw_peers d = Some g" "db_peers d \<noteq> []" "k \<in> set quick_tests"
  shows "Button (QuickTest k) True \<in> set g"
  using draws_Some [OF assms(1) [unfolded draw_peers_def if_not_P [OF assms(2)]], of "Button (QuickTest k) True"] assms(3) by fastforce

lemma header_buttons: "Button b on \<notin> set (draw_header e d)"
  by (auto simp: draw_header_def widgets)

lemma metrics_buttons: "Button b on \<notin> set (draw_metrics used memory m d)"
  by (auto simp: draw_metrics_def widgets split: option.splits)

lemma progress_buttons: "Button b on \<notin> set (progress_shown name q)"
  by (auto simp: progress_shown_def widgets split: option.splits)

definition tool_buttons :: "button set" where
  "tool_buttons = {DialPeer, CopyFirewall, CopyLog, SaveLog, ResetFilters, ClearLog, SendLine}"

lemma tools_buttons: "Button b on \<in> set (draw_debug_tools lower stamps e w) \<Longrightarrow> b \<in> tool_buttons"
  by (auto simp: draw_debug_tools_def draw_log_panel_def tool_buttons_def widgets Let_def split: option.splits if_splits)

text \<open>Buttons that are only enabled while an agent runs, all the others, and those that name a peer.\<close>

definition needs_agent :: "button set" where
  "needs_agent = {StopAgent, FindAgents, TestConnection, SmartBenchmark, SmartMatrix, DistributedMatrix, FailNextChunk, DelayNextChunk,
     PauseContribution, ResumeContribution, AddFile, ListFiles, VerifyFile, TrustForFiles, ListPeerFiles, ListAllFiles, FetchFile,
     UpdateAgent, UpdateDebugger, RemoveTrust}"

lemma without_agent:
  "b \<notin> needs_agent \<longleftrightarrow> b \<in> range QuickTest \<union> {StartAgent, CheckVersions, ClearFinished, OpenDownloads, InstallUpdate, DialPeer, CopyFirewall, CopyLog,
     SaveLog, ResetFilters, ClearLog, SendLine}"
  by (cases b) (auto simp: needs_agent_def)

definition names_peer :: "button set" where
  "names_peer = {TestConnection, TrustForFiles, ListPeerFiles, UpdateAgent, UpdateDebugger, RemoveTrust} \<union> range QuickTest"

lemma peer_at_hand: "db_peers d \<noteq> [] \<Longrightarrow> selected_peer_id d \<noteq> None"
  by (auto simp: selected_peer_id_def split: option.split list.split)

lemma main_enabled:
  assumes "Button b True \<in> set (draw_main_actions d)"
  shows "(b \<in> needs_agent \<longrightarrow> db_agent d \<noteq> None) \<and> (b \<in> names_peer \<longrightarrow> db_peers d \<noteq> []) \<and>
    (b = PauseContribution \<longrightarrow> \<not> contribution_is_paused d) \<and> (b = ResumeContribution \<longrightarrow> contribution_is_paused d)"
  using assms by (auto simp: draw_main_actions_def needs_agent_def names_peer_def widgets Let_def split: if_splits)

lemma artifacts_enabled:
  assumes "Button b True \<in> set (artifact_actions d)"
  shows "db_agent d \<noteq> None \<and> (b \<in> names_peer \<longrightarrow> selected_peer_id d \<noteq> None) \<and> b \<noteq> PauseContribution \<and> b \<noteq> ResumeContribution"
  using assms by (auto simp: artifact_actions_def names_peer_def widgets Let_def)

lemma updates_enabled:
  assumes "Button b True \<in> set (draw_updates e d)"
  shows "b \<in> {CheckVersions, OpenDownloads, InstallUpdate} \<or> b \<in> {UpdateAgent, UpdateDebugger, RemoveTrust} \<and> selected_peer_id d \<noteq> None \<and> db_agent d \<noteq> None"
  using assms progress_buttons by (auto simp: draw_updates_def widgets Let_def split: option.splits)

lemma drawn_groups:
  assumes "draw_window e x w = Some ws" "Button b on \<in> set ws"
  shows "Button b on \<in> set (draw_main_actions (wd_debugger w)) \<or> b = ClearFinished \<or> Button b on \<in> set (artifact_actions (wd_debugger w)) \<or>
    db_peers (wd_debugger w) \<noteq> [] \<and> b \<in> QuickTest ` set quick_tests \<and> on \<or> Button b on \<in> set (draw_updates e (wd_debugger w)) \<or> b \<in> tool_buttons"
proof -
  let ?d = "wd_debugger w"
  from draws_Some [OF assms(1) [unfolded draw_window_def Let_def]] assms(2)
  obtain g where g: "Some g \<in> set [Some (draw_header e ?d), Some (draw_main_actions ?d), draw_tasks (sight_clocks x) (wd_store_path w) ?d,
      draw_artifacts ?d, draw_peers ?d, Some (draw_metrics (memory_used x) (memory_whole x) (wd_metrics w) ?d),
      Some (if wd_updates_open w then draw_updates e ?d else []),
      Some (if wd_tools_open w then draw_debug_tools (lower_case x) (log_stamps x) e w else [])]" and b: "Button b on \<in> set g" by blast
  from g consider "g = draw_header e ?d" | "g = draw_main_actions ?d" | "draw_tasks (sight_clocks x) (wd_store_path w) ?d = Some g"
    | "draw_artifacts ?d = Some g" | "draw_peers ?d = Some g" | "g = draw_metrics (memory_used x) (memory_whole x) (wd_metrics w) ?d"
    | "g = (if wd_updates_open w then draw_updates e ?d else [])"
    | "g = (if wd_tools_open w then draw_debug_tools (lower_case x) (log_stamps x) e w else [])"
    unfolding list.set insert_iff empty_iff option.inject by metis
  then show ?thesis
    by cases (use b header_buttons metrics_buttons in \<open>auto dest: tasks_buttons artifact_buttons peers_buttons tools_buttons split: if_splits\<close>)
qed

lemma enabled_button:
  assumes "draw_window e x w = Some ws" "Button b True \<in> set ws"
  shows "(b \<in> needs_agent \<longrightarrow> db_agent (wd_debugger w) \<noteq> None) \<and> (b \<in> names_peer \<longrightarrow> selected_peer_id (wd_debugger w) \<noteq> None) \<and>
    (b = PauseContribution \<longrightarrow> \<not> contribution_is_paused (wd_debugger w)) \<and> (b = ResumeContribution \<longrightarrow> contribution_is_paused (wd_debugger w)) \<and>
    (\<forall>k. b = QuickTest k \<longrightarrow> k \<in> set quick_tests)"
proof -
  let ?d = "wd_debugger w"
  from drawn_groups [OF assms]
  consider "Button b True \<in> set (draw_main_actions ?d)" | "b = ClearFinished" | "Button b True \<in> set (artifact_actions ?d)"
    | "db_peers ?d \<noteq> []" "b \<in> QuickTest ` set quick_tests" | "Button b True \<in> set (draw_updates e ?d)" | "b \<in> tool_buttons"
    by blast
  then show ?thesis
  proof cases
    case 1
    then show ?thesis using main_enabled [OF 1] peer_at_hand [of ?d] by (auto simp: draw_main_actions_def widgets Let_def split: if_splits)
  next
    case 3
    then show ?thesis using artifacts_enabled [OF 3] by (auto simp: artifact_actions_def widgets Let_def)
  next
    case 4
    then show ?thesis using peer_at_hand [of ?d] by (auto simp: needs_agent_def)
  next
    case 5
    then show ?thesis using updates_enabled [OF 5] by (auto simp: needs_agent_def names_peer_def)
  qed (auto simp: needs_agent_def names_peer_def tool_buttons_def)
qed

section \<open>The recommended peer\<close>

lemma score_nonneg: "fl_nonneg (finite_non_negative v)"
  by (cases v) (auto simp: finite_non_negative_def fl_max_def)

definition offers :: "debugger \<Rightarrow> string \<Rightarrow> flt \<Rightarrow> bool" where
  "offers d p s = (\<exists>v r. (p, v) \<in> set (db_peers d) \<and> pv_state v = Connected \<and> pv_resources v = Some r \<and> \<not> rv_paused r \<and>
     is_finite (rv_effective r) \<and> s = rv_effective r)"

definition outruns :: "flt \<Rightarrow> flt \<Rightarrow> bool" where
  "outruns own s = (fl_less (finite_non_negative own) s \<and> fl_le (fl_mul rnd64 (finite_non_negative own) REMOTE_CPU_MINIMUM_GAIN) s)"

lemma gain_value: "\<exists>x\<ge>1. REMOTE_CPU_MINIMUM_GAIN = Fin x"
proof -
  have "fl_le (rnd64 1) (rnd64 (6 / 5))" "fl_le (rnd64 (6 / 5)) (rnd64 2)" by (rule rnd64_mono; simp)+
  moreover have "rnd64 1 = Fin 1" "rnd64 2 = Fin 2" using rnd64_int [of 1] rnd64_int [of 2] by simp_all
  ultimately have "fl_le (Fin 1) REMOTE_CPU_MINIMUM_GAIN" "fl_le REMOTE_CPU_MINIMUM_GAIN (Fin 2)" by (simp_all only: REMOTE_CPU_MINIMUM_GAIN_def)
  moreover have "\<exists>x\<ge>1. g = Fin x" if "fl_le (Fin 1) g" "fl_le g (Fin 2)" for g using that by (cases g) auto
  ultimately show ?thesis by blast
qed

lemma gain_above_one: "fl_max REMOTE_CPU_MINIMUM_GAIN (Fin 1) = REMOTE_CPU_MINIMUM_GAIN"
proof -
  obtain x where "1 \<le> x" "REMOTE_CPU_MINIMUM_GAIN = Fin x" using gain_value by blast
  moreover have "g = Fin x \<Longrightarrow> 1 \<le> x \<Longrightarrow> fl_max g (Fin 1) = g" for g by (simp add: fl_max_def)
  ultimately show ?thesis by blast
qed

lemma margin: "minimum_remote_score (choose_cpu_placement own ss REMOTE_CPU_MINIMUM_GAIN) = fl_mul rnd64 (finite_non_negative own) REMOTE_CPU_MINIMUM_GAIN"
  by (simp add: choose_cpu_placement_def Let_def gain_above_one split: option.split prod.split)

lemma positive_offer: "offers d p s \<Longrightarrow> fl_less (Fin 0) s \<Longrightarrow> (p, s) \<in> set (remote_candidates d)"
  by (auto simp: offers_def in_remote_candidates)

lemma candidate_offer: "(p, s) \<in> set (remote_candidates d) \<Longrightarrow> offers d p s \<and> fl_less (Fin 0) s"
  by (auto simp: offers_def in_remote_candidates)

text \<open>
  C35. The window recommends a connected peer with an unpaused contribution whose effective score beats the score of this computer and
  reaches it times the margin, and no such peer has a higher score; it recommends none exactly when the resources of this computer are not
  known or no such peer beats them with the margin. So it never points the user at a paused or lost peer, nor at one with an invalid score.
\<close>

theorem recommended_peer_is_best:
  "case recommended_peer d of
     Some p \<Rightarrow> \<exists>l s. db_resources d = Some l \<and> offers d p s \<and> outruns (rv_effective l) s \<and> (\<forall>q u. offers d q u \<longrightarrow> fl_le u s)
   | None \<Rightarrow> \<forall>l q u. db_resources d = Some l \<longrightarrow> offers d q u \<longrightarrow> \<not> outruns (rv_effective l) u"
proof (cases "db_resources d")
  case None
  then show ?thesis by (simp add: recommended_peer_def shown_placement_def)
next
  case (Some l)
  let ?cs = "remote_candidates d" and ?own = "rv_effective l"
  let ?p = "choose_cpu_placement ?own (map snd ?cs) REMOTE_CPU_MINIMUM_GAIN"
  have rec: "recommended_peer d = map_option (\<lambda>i. fst (?cs ! i)) (remote_candidate_index ?p)"
    by (simp add: recommended_peer_def shown_placement_def Some)
  have positive: "fl_less (Fin 0) u" if "fl_less (finite_non_negative ?own) u" for u
    using that score_nonneg [of ?own] by (cases "finite_non_negative ?own"; cases u) auto
  have index: "\<exists>j<length ?cs. ?cs ! j = (q, u)" if "offers d q u" "fl_less (Fin 0) u" for q u
    using positive_offer [OF that] by (simp add: in_set_conv_nth)
  show ?thesis
  proof (cases "remote_candidate_index ?p")
    case None
    have "\<not> outruns ?own u" if o: "offers d q u" for q u
    proof
      assume out: "outruns ?own u"
      then have "fl_less (Fin 0) u" using positive by (simp add: outruns_def)
      from index [OF o this] obtain j where j: "j < length ?cs" "?cs ! j = (q, u)" by blast
      have "is_finite u" using o by (auto simp: offers_def)
      with choose_placement_local(3) [OF None, of j] j \<open>fl_less (Fin 0) u\<close> out show False
        by (simp add: outruns_def margin choose_placement_local(2) [OF None])
    qed
    with rec None Some show ?thesis by simp
  next
    case (Some i)
    let ?s = "snd (?cs ! i)"
    note best = choose_placement_remote [OF Some]
    have i: "i < length ?cs" using best(1) by simp
    then have "(fst (?cs ! i), ?s) \<in> set ?cs" by simp
    from candidate_offer [OF this] have offer: "offers d (fst (?cs ! i)) ?s" and pos: "fl_less (Fin 0) ?s" by simp_all
    have "fl_le u ?s" if o: "offers d q u" for q u
    proof (cases "fl_less (Fin 0) u")
      case True
      from index [OF o this] obtain j where "j < length ?cs" "?cs ! j = (q, u)" by blast
      with best(3) [of j] o i show ?thesis by (auto simp: offers_def)
    next
      case False
      with o pos show ?thesis by (cases u; cases ?s) (auto simp: offers_def)
    qed
    moreover have "outruns ?own ?s" using best(2,7) i by (simp add: outruns_def margin)
    ultimately show ?thesis using rec Some offer \<open>db_resources d = Some l\<close> by auto
  qed
qed

definition demo_resources :: "flt \<Rightarrow> bool \<Rightarrow> resource_view" where
  "demo_resources score paused = \<lparr>rv_observed = 0, rv_os = ''os'', rv_arch = ''arch'', rv_cpu_brand = ''cpu'', rv_physical = 4, rv_logical = 8,
     rv_total_memory = 0, rv_available_memory = 0, rv_host_cpu = Fin 0, rv_agent_cpu = Fin 0, rv_agent_memory = 0, rv_active_tasks = 0,
     rv_cpu_limit = Fin 75, rv_memory_limit = Fin 50, rv_allocatable = 0, rv_calibrated = score, rv_effective = score, rv_paused = paused,
     rv_battery = None, rv_charging = None, rv_thermal = None, rv_unmetered = None\<rparr>"

definition demo_peer :: "flt \<Rightarrow> bool \<Rightarrow> peer_view" where
  "demo_peer score paused = default_peer\<lparr>pv_state := Connected, pv_resources := Some (demo_resources score paused)\<rparr>"

text \<open>A busy computer with a paused strong peer and two that offer work.\<close>

definition demo_choice :: debugger where
  "demo_choice = (new_debugger demo_debugger_env ''n'' (Inl []))\<lparr>db_resources := Some (demo_resources (Fin 0) False),
     db_peers := [(''a'', demo_peer (Fin 90) True), (''b'', demo_peer (Fin 50) False), (''c'', demo_peer (Fin 20) False)]\<rparr>"

theorem recommended_peer_is_best_witness:
  "recommended_peer demo_choice = Some ''b'' \<and> (\<exists>s. offers demo_choice ''b'' s \<and> offers demo_choice ''c'' (Fin 20) \<and> fl_le (Fin 20) s)"
proof -
  have "remote_candidates demo_choice = [(''b'', Fin 50), (''c'', Fin 20)]"
    by (simp add: remote_candidates_def demo_choice_def demo_peer_def demo_resources_def default_peer_def List.map_filter_simps)
  moreover obtain g where gain: "REMOTE_CPU_MINIMUM_GAIN = Fin g" "1 \<le> g" using gain_value by blast
  ultimately have 1: "recommended_peer demo_choice = Some ''b''"
    by (simp add: recommended_peer_def shown_placement_def demo_choice_def demo_resources_def choose_cpu_placement_def finite_non_negative_def
        fl_max_def total_le_def Let_def gain)
  have 2: "offers demo_choice ''c'' (Fin 20)"
    by (auto simp: offers_def demo_choice_def demo_peer_def demo_resources_def)
  from recommended_peer_is_best [of demo_choice] 1 2 show ?thesis by auto
qed

section \<open>Every window is well formed\<close>

text \<open>
  C36. Whatever the agent prints, however its process ends, whatever the user presses, types, chooses or unfolds: the window stays well
  formed. Its debugger is in a state that the debugger's own operations reach, with at most 2000 log lines, a hundred notices, tasks,
  artifacts and artifacts of peers, each artifact once, each peer once and in order, one row for a task; it keeps at most 240 samples of each
  curve, as many of the memory as of the processors; the limits are between 5 and 100 percent; and the drawing panics at most for an
  identifier that is not ASCII.
\<close>

theorem window_well_formed:
  assumes "window_run e w"
  shows "debug_reach e (wd_debugger w) \<and> window_ok w \<and> (list_all ascii_text (shown_ids (wd_debugger w)) \<longrightarrow> draw_window e x w \<noteq> None)"
  using window_machine.run_inv [OF assms] ascii_window by blast

definition demo_clocks :: clocks where
  "demo_clocks = \<lparr>instant_now = 0, unix_now = 0\<rparr>"

definition demo_answers :: answers where
  "demo_answers = \<lparr>an_clocks = demo_clocks, an_spawn = None, an_file = None, an_installer = None, an_save = None, an_browser = None\<rparr>"

definition demo_sight :: sight where
  "demo_sight = \<lparr>lower_case = id, log_stamps = [], sight_clocks = demo_clocks, memory_used = 0, memory_whole = 0\<rparr>"

definition demo_fresh :: window where
  "demo_fresh = new_window demo_clocks ''id'' ''db'' (new_debugger demo_debugger_env ''n'' (Inl ''no disk''))"

lemma demo_fresh: "fresh_window demo_debugger_env demo_fresh"
  unfolding fresh_window_def demo_fresh_def by (blast intro: fresh_debugger.unopened)

text \<open>The user starts the agent and asks it for its peers.\<close>

definition demo_started :: window where
  "demo_started = the (press demo_debugger_env id demo_answers StartAgent demo_fresh)"

lemma demo_started: "window_run demo_debugger_env demo_started"
proof -
  obtain ws where ws: "draw_window demo_debugger_env demo_sight demo_fresh = Some ws"
    using ascii_window [of demo_fresh demo_debugger_env demo_sight] by (auto simp: demo_fresh_def new_window_def new_debugger_def shown_ids_def)
  have "Button StartAgent True \<in> set (draw_main_actions (wd_debugger demo_fresh))"
    by (simp add: draw_main_actions_def demo_fresh_def new_window_def new_debugger_def)
  then have "Button StartAgent True \<in> set ws"
    using draws_Some [OF ws [unfolded draw_window_def Let_def]] by auto
  moreover have "press demo_debugger_env (lower_case demo_sight) demo_answers StartAgent demo_fresh = Some demo_started"
    by (simp add: demo_started_def press_def on_debugger_def demo_sight_def)
  ultimately have "window_step demo_debugger_env demo_fresh demo_started" using ws by (blast intro: window_step.pressed)
  then show ?thesis using demo_fresh by (blast intro: reachable.init window_run_step)
qed

theorem window_well_formed_witness:
  "window_ok demo_started \<and> draw_window demo_debugger_env demo_sight demo_started \<noteq> None"
proof -
  have "shown_ids (wd_debugger demo_started) = []"
    by (simp add: shown_ids_def demo_started_def press_def on_debugger_def demo_fresh_def new_window_def new_debugger_def start_agent_def
        demo_answers_def Let_def notice_def push_log_def)
  then show ?thesis using window_well_formed [OF demo_started, of demo_sight] by simp
qed

end
