(* ===== verification/Window_Commands.thy ===== *)
theory Window_Commands
  imports Window_Props Commands Agent_Refine
begin

text \<open>
  The window and the agent together: which buttons the drawing enables, which lines an enabled button gives the agent, and what the agent's
  \<open>handle_command\<close> makes of those lines.
\<close>

section \<open>Lines that the agent understands\<close>

definition one_word :: "string \<Rightarrow> bool" where
  "one_word s = (s \<noteq> [] \<and> list_all (\<lambda>c. \<not> is_space c) s)"

lemma trim_closed: "s \<noteq> [] \<Longrightarrow> \<not> is_space (hd s) \<Longrightarrow> \<not> is_space (last s) \<Longrightarrow> trim s = s"
  by (simp add: trim_def dropWhile_eq_self_iff [THEN iffD2] hd_rev)

lemma join_ends:
  "ws \<noteq> [] \<Longrightarrow> list_all one_word ws \<Longrightarrow>
     join_with '' '' ws \<noteq> [] \<and> \<not> is_space (hd (join_with '' '' ws)) \<and> \<not> is_space (last (join_with '' '' ws))"
  by (induction "'' ''" ws rule: join_with.induct) (auto simp: one_word_def list_all_iff hd_append)

lemma words_of_line:
  assumes "list_all one_word ws"
  shows "split_whitespace (trim (join_with '' '' ws)) = ws"
proof (cases "ws = []")
  case False
  then have "trim (join_with '' '' ws) = join_with '' '' ws" using join_ends assms by (simp add: trim_closed)
  then show ?thesis using assms by (simp add: split_whitespace_join one_word_def list_all_iff)
qed (simp add: trim_def split_whitespace_def)

lemma literal_words:
  "one_word ''connect''" "one_word ''echo''" "one_word ''sum''" "one_word ''sha256''" "one_word ''benchmark''" "one_word ''matrix''" "one_word ''info''"
  "one_word ''resources''" "one_word ''swagri-connection-test''" "one_word ''hello-from-swagri-debugger''" "one_word ''Swagri''"
  "one_word ''1000000''" "one_word ''192''" "one_word ''1''" "one_word ''2''" "one_word ''3''" "one_word ''4''" "one_word ''5''"
  "one_word ''auto-benchmark''" "one_word ''auto-matrix''" "one_word ''320''" "one_word ''distributed-matrix''" "one_word ''768''" "one_word ''96''"
  "one_word ''debug-fail-next-matrix-chunk''" "one_word ''debug-delay-next-matrix-chunk''" "one_word ''5000''"
  "one_word ''pause-resources''" "one_word ''resume-resources''" "one_word ''trust''" "one_word ''untrust''" "one_word ''update''"
  "one_word ''download-update''" "one_word ''download-debugger-update''" "one_word ''artifact-list''" "one_word ''artifact-peer-list''" "one_word ''peers''"
  by code_simp+

text \<open>A line of words is handled by its first word.\<close>

lemma handled:
  assumes "list_all one_word (command # parts)" "command \<notin> {''quit'', ''exit'', ''apply-update''}"
  shows "handle_command e r acc (join_with '' '' (command # parts)) a = (True,
            case artifact_command e (trim (join_with '' '' (command # parts))) command parts a of Some a' \<Rightarrow> a'
          | None \<Rightarrow> case update_command e command parts a of Some a' \<Rightarrow> a'
          | None \<Rightarrow> case dial_command e acc command parts a of Some a' \<Rightarrow> a'
          | None \<Rightarrow> case resource_command e r command parts a of Some a' \<Rightarrow> a'
          | None \<Rightarrow> case task_command e command parts a of Some a' \<Rightarrow> a'
          | None \<Rightarrow> a)"
  using handle_command_unfold [OF words_of_line [OF assms(1)]] assms(2) by simp

lemmas groups = artifact_command_def update_command_def dial_command_def resource_command_def task_command_def

lemma digits:
  "digit_char 0 = CHR ''0''" "digit_char 1 = CHR ''1''" "digit_char 2 = CHR ''2''" "digit_char 3 = CHR ''3''" "digit_char 4 = CHR ''4''" "digit_char 5 = CHR ''5''"
  "digit_char 6 = CHR ''6''" "digit_char 7 = CHR ''7''" "digit_char 8 = CHR ''8''" "digit_char 9 = CHR ''9''" "digit_char (Suc 0) = CHR ''1''"
  by code_simp+

lemma numbers:
  "parse_u64 ''1000000'' = Some 1000000" "parse_u64 ''5000'' = Some 5000" "parse_u16 ''192'' = Some 192" "parse_u16 ''320'' = Some 320"
  "parse_u16 ''768'' = Some 768" "parse_u16 ''96'' = Some 96"
  using decimal_u64.decode_encode [of 1000000] decimal_u64.decode_encode [of 5000] decimal_u16.decode_encode [of 192]
    decimal_u16.decode_encode [of 320] decimal_u16.decode_encode [of 768] decimal_u16.decode_encode [of 96]
  by (simp_all add: show_nat.simps digits)

section \<open>What each line does\<close>

text \<open>The agent handles lines until it is told to quit.\<close>

fun obey :: "agent_env \<Rightarrow> readings \<Rightarrow> bool \<Rightarrow> string list \<Rightarrow> agent \<Rightarrow> bool \<times> agent" where
  "obey e r acc [] a = (True, a)"
| "obey e r acc (l # ls) a = (case handle_command e r acc l a of (goes_on, b) \<Rightarrow> if goes_on then obey e r acc ls b else (False, b))"

lemma obey_fold:
  assumes "\<And>x b. x \<in> set xs \<Longrightarrow> handle_command e r acc (line x) b = (True, f x b)"
  shows "obey e r acc (map line xs) a = (True, fold f xs a)"
  using assms by (induction xs arbitrary: a) simp_all

lemma obey_append: "obey e r acc ls a = (True, b) \<Longrightarrow> obey e r acc (ls @ ls') a = obey e r acc ls' b"
  by (induction ls arbitrary: a) (auto split: prod.splits if_splits)

fun quick_task :: "string \<Rightarrow> task" where
  "quick_task k =
     (if k = ''sum'' then TSum [Fin 1, Fin 2, Fin 3, Fin 4, Fin 5] else if k = ''sha256'' then TSha256 ''Swagri''
      else if k = ''benchmark'' then TCpuBenchmark 1000000 else if k = ''matrix'' then TMatrixMultiply 192
      else if k = ''info'' then TNodeInfo else TEcho ''hello-from-swagri-debugger'')"

definition reads_digits :: "agent_env \<Rightarrow> bool" where
  "reads_digits e = (ae_float e ''1'' = Some (Fin 1) \<and> ae_float e ''2'' = Some (Fin 2) \<and> ae_float e ''3'' = Some (Fin 3) \<and>
     ae_float e ''4'' = Some (Fin 4) \<and> ae_float e ''5'' = Some (Fin 5))"

definition task_commands :: "string set" where
  "task_commands = {''info'', ''resources'', ''echo'', ''sum'', ''sha256'', ''benchmark'', ''matrix''}"

lemma task_line:
  assumes "line = join_with '' '' (command # parts)" "list_all one_word (command # parts)" "command \<in> task_commands"
    and "parse_task e command parts = Some (p, t)" "validate t = None"
  shows "handle_command e r acc line a = (True, on_node (submit_task (ae_node e) p t) a)"
proof -
  have "artifact_command e l command parts b = None" "update_command e command parts b = None" "dial_command e acc command parts b = None"
    "resource_command e r command parts b = None" "task_command e command parts b = Some (submit_parsed e (parse_task e command parts) b)"
    "command \<notin> {''quit'', ''exit'', ''apply-update''}" for l b
    using assms(3) unfolding task_commands_def insert_iff empty_iff by (elim disjE; simp add: groups)+
  then show ?thesis unfolding assms(1) handled [OF assms(2) \<open>command \<notin> _\<close>] by (simp add: submit_parsed_def assms(4,5))
qed

lemma peer_task_lines:
  assumes "one_word t" "ae_peer e t = Inr p"
  shows "handle_command e r acc (''info '' @ t) a = (True, on_node (submit_task (ae_node e) p TNodeInfo) a)"
    "handle_command e r acc (''resources '' @ t) a = (True, on_node (submit_task (ae_node e) p TNodeInfo) a)"
    "handle_command e r acc (''echo '' @ t @ '' swagri-connection-test'') a = (True, on_node (submit_task (ae_node e) p (TEcho ''swagri-connection-test'')) a)"
proof -
  note read = parse_task_def parse_peer_def assms(2)
  show "handle_command e r acc (''info '' @ t) a = (True, on_node (submit_task (ae_node e) p TNodeInfo) a)"
    by (rule task_line [of _ "''info''" "[t]"]) (simp_all add: literal_words assms(1) task_commands_def read)
  show "handle_command e r acc (''resources '' @ t) a = (True, on_node (submit_task (ae_node e) p TNodeInfo) a)"
    by (rule task_line [of _ "''resources''" "[t]"]) (simp_all add: literal_words assms(1) task_commands_def read)
  show "handle_command e r acc (''echo '' @ t @ '' swagri-connection-test'') a = (True, on_node (submit_task (ae_node e) p (TEcho ''swagri-connection-test'')) a)"
    by (rule task_line [of _ "''echo''" "[t, ''swagri-connection-test'']"])
      (simp_all add: literal_words assms(1) task_commands_def read MAX_TEXT_BYTES_def)
qed

lemma quick_test_line:
  assumes "one_word t" "ae_peer e t = Inr p" "reads_digits e" "k \<in> set quick_tests"
  shows "handle_command e r acc (quick_test_command k t) a = (True, on_node (submit_task (ae_node e) p (quick_task k)) a)"
proof -
  note read = parse_task_def parse_peer_def assms(2) Let_def
  note facts = quick_test_command_def literal_words assms(1) task_commands_def read numbers
  have "k = ''echo'' \<or> k = ''sum'' \<or> k = ''sha256'' \<or> k = ''benchmark'' \<or> k = ''matrix'' \<or> k = ''info''"
    using assms(4) by (simp add: quick_tests_def)
  then show ?thesis
  proof (elim disjE)
    assume a: "k = ''echo''"
    show ?thesis by (rule task_line [of _ "''echo''" "[t, ''hello-from-swagri-debugger'']"]) (simp_all add: a facts MAX_TEXT_BYTES_def)
  next
    assume b: "k = ''sum''"
    show ?thesis by (rule task_line [of _ "''sum''" "[t, ''1'', ''2'', ''3'', ''4'', ''5'']"])
        (use assms(3) in \<open>simp_all add: b facts MAX_SUM_VALUES_def reads_digits_def\<close>)
  next
    assume c: "k = ''sha256''"
    show ?thesis by (rule task_line [of _ "''sha256''" "[t, ''Swagri'']"]) (simp_all add: c facts MAX_TEXT_BYTES_def)
  next
    assume d: "k = ''benchmark''"
    show ?thesis by (rule task_line [of _ "''benchmark''" "[t, ''1000000'']"]) (simp_all add: d facts MAX_BENCHMARK_ITERATIONS_def)
  next
    assume e: "k = ''matrix''"
    show ?thesis by (rule task_line [of _ "''matrix''" "[t, ''192'']"]) (simp_all add: e facts MIN_MATRIX_SIZE_def MAX_MATRIX_SIZE_def)
  next
    assume f: "k = ''info''"
    show ?thesis by (rule task_line [of _ "''info''" "[t]"]) (simp_all add: f facts)
  qed
qed

lemma own_lines:
  "handle_command e r acc ''auto-benchmark 1000000'' a = (True, on_node (place_cpu_task (ae_node e) (TCpuBenchmark 1000000) 2) a)"
  "handle_command e r acc ''auto-matrix 320'' a = (True, on_node (place_cpu_task (ae_node e) (TMatrixMultiply 320) NODE_PROTOCOL_VERSION) a)"
  "handle_command e r acc ''distributed-matrix 768 96'' a = (True, on_node (start_distributed_matrix (ae_node e) 768 96) a)"
  "handle_command e r acc ''debug-fail-next-matrix-chunk'' a = (True, announce ''DEBUG_FAULT_ARMED'' [''fail-next-matrix-chunk'', ''1'']
     (set_faults ((in_faults (ag_inbound a))\<lparr>fail_next_matrix_chunk := True\<rparr>) a))"
  "handle_command e r acc ''debug-delay-next-matrix-chunk 5000'' a = (True, announce ''DEBUG_FAULT_ARMED'' [''delay-next-matrix-chunk'', ''5000'']
     (set_faults ((in_faults (ag_inbound a))\<lparr>delay_next_matrix_chunk_ms := 5000\<rparr>) a))"
  "handle_command e r acc ''pause-resources'' a = (True, contribution_command e True r a)"
  "handle_command e r acc ''resume-resources'' a = (True, contribution_command e False r a)"
  "handle_command e r acc ''artifact-list'' a = (True, on_exchange (list_command (ae_exchange e)) a)"
  "handle_command e r acc ''peers'' a = (True, a)"
  using handled [of "''auto-benchmark''" "[''1000000'']" e r acc a] handled [of "''auto-matrix''" "[''320'']" e r acc a]
    handled [of "''distributed-matrix''" "[''768'', ''96'']" e r acc a] handled [of "''debug-fail-next-matrix-chunk''" "[]" e r acc a]
    handled [of "''debug-delay-next-matrix-chunk''" "[''5000'']" e r acc a] handled [of "''pause-resources''" "[]" e r acc a]
    handled [of "''resume-resources''" "[]" e r acc a] handled [of "''artifact-list''" "[]" e r acc a] handled [of "''peers''" "[]" e r acc a]
  by (simp_all add: literal_words groups numbers parse_distributed_def show_nat.simps digits)

lemma peer_lines:
  assumes "one_word t" "ae_peer e t = Inr p"
  shows "handle_command e r acc (''connect '' @ t) a =
      (True, if acc then announce ''PEER_CONNECTING'' [peer_string e p] (a\<lparr>dials := dials a @ [Inl p]\<rparr>) else a)"
    "handle_command e r acc (''trust '' @ t) a = (True, on_updates (trust_peer (ae_update e) p) a)"
    "handle_command e r acc (''untrust '' @ t) a = (True, on_updates (untrust_peer (ae_update e) p) a)"
    "handle_command e r acc (''download-update '' @ t) a = (True, on_updates (begin_update_request (ae_update e) p False) a)"
    "handle_command e r acc (''download-debugger-update '' @ t) a = (True, on_updates (begin_debugger_update_request (ae_update e) p) a)"
    "handle_command e r acc (''artifact-peer-list '' @ t) a = (True, peer_list_command e [t] a)"
proof -
  note h = handled [of "''connect''" "[t]" e r acc a] handled [of "''trust''" "[t]" e r acc a] handled [of "''untrust''" "[t]" e r acc a]
    handled [of "''download-update''" "[t]" e r acc a] handled [of "''download-debugger-update''" "[t]" e r acc a]
    handled [of "''artifact-peer-list''" "[t]" e r acc a]
  have "parse_peer e [t] = Inr p" using assms(2) by (simp add: parse_peer_def)
  then show "handle_command e r acc (''connect '' @ t) a =
      (True, if acc then announce ''PEER_CONNECTING'' [peer_string e p] (a\<lparr>dials := dials a @ [Inl p]\<rparr>) else a)"
    "handle_command e r acc (''trust '' @ t) a = (True, on_updates (trust_peer (ae_update e) p) a)"
    "handle_command e r acc (''untrust '' @ t) a = (True, on_updates (untrust_peer (ae_update e) p) a)"
    "handle_command e r acc (''download-update '' @ t) a = (True, on_updates (begin_update_request (ae_update e) p False) a)"
    "handle_command e r acc (''download-debugger-update '' @ t) a = (True, on_updates (begin_debugger_update_request (ae_update e) p) a)"
    "handle_command e r acc (''artifact-peer-list '' @ t) a = (True, peer_list_command e [t] a)"
    using h by (simp_all add: literal_words assms(1) groups for_peer_def)
qed

lemma own_lines_quit: "handle_command e r acc ''quit'' a = (False, a)"
proof -
  have "list_all one_word [''quit'']" by code_simp
  from handle_command_unfold [OF words_of_line [OF this, simplified]] show ?thesis by simp
qed

lemma verify_line:
  assumes "one_word i"
  shows "handle_command e r acc (''artifact-verify '' @ i) a = (True, verify_command e [i] a)"
proof -
  have "one_word ''artifact-verify''" by code_simp
  with handled [of "''artifact-verify''" "[i]" e r acc a] assms show ?thesis by (simp add: groups)
qed

lemma dial_line:
  assumes "one_word t"
  shows "handle_command e r acc (''dial '' @ t) a =
    (True, case ae_address e t of None \<Rightarrow> a | Some addr \<Rightarrow> if acc then a\<lparr>dials := dials a @ [Inr addr]\<rparr> else a)"
proof -
  have "one_word ''dial''" by code_simp
  with handled [of "''dial''" "[t]" e r acc a] assms show ?thesis by (simp add: groups)
qed

text \<open>A path that survives the line: no white space and no quotation mark at its ends, and no line break.\<close>

definition line_path :: "string \<Rightarrow> bool" where
  "line_path s = (s \<noteq> [] \<and> \<not> is_space (hd s) \<and> \<not> is_space (last s) \<and> hd s \<noteq> CHR 0x22 \<and> last s \<noteq> CHR 0x22 \<and> CHR 0x0A \<notin> set s)"

lemma trim_quotes: "s \<noteq> [] \<Longrightarrow> hd s \<noteq> c \<Longrightarrow> last s \<noteq> c \<Longrightarrow> trim_matches c s = s"
  by (simp add: trim_matches_def dropWhile_eq_self_iff [THEN iffD2] hd_rev)

lemma import_line:
  assumes "line_path path"
  shows "handle_command e r acc (''artifact-import '' @ path) a = (True,
     if is_file (UserPath path) (disk (ag_exchange a))
     then spawn_store_job (JImport (UserPath path)) (announce ''ARTIFACT_STARTED'' [''import'', path] a)
     else announce ''ARTIFACT_FAILED'' [''import'', ''file does not exist: '' @ path] a)"
proof -
  let ?line = "''artifact-import'' @ CHR 0x20 # path"
  have path: "path \<noteq> []" "\<not> is_space (hd path)" "\<not> is_space (last path)" "hd path \<noteq> CHR 0x22" "last path \<noteq> CHR 0x22"
    using assms by (simp_all add: line_path_def)
  have line: "trim ?line = ?line" by (rule trim_closed) (use path in \<open>simp_all add: is_space_def\<close>)
  have "\<forall>c\<in>set ''artifact-import''. \<not> is_space c" by code_simp
  from words_acc_word [OF this, of "[]" "CHR 0x20 # path"]
  have words: "split_whitespace (trim ?line) = ''artifact-import'' # split_whitespace path"
    unfolding line by (simp add: split_whitespace_def is_space_def)
  have "trim (CHR 0x20 # path) = path"
    using trim_closed [OF path(1-3)] by (simp add: trim_def is_space_def)
  then have "command_tail ?line ''artifact-import'' = Some path"
    using path by (simp add: command_tail_def trim_quotes trim_closed)
  then have "artifact_command e ?line ''artifact-import'' (split_whitespace path) a = Some (
     if is_file (UserPath path) (disk (ag_exchange a))
     then spawn_store_job (JImport (UserPath path)) (announce ''ARTIFACT_STARTED'' [''import'', path] a)
     else announce ''ARTIFACT_FAILED'' [''import'', ''file does not exist: '' @ path] a)"
    by (simp only: artifact_command_def import_command_def option.case) simp
  with handle_command_unfold [OF words, of e r acc a] show ?thesis unfolding line by simp
qed

section \<open>The lines of each button\<close>

definition told :: "string list \<Rightarrow> managed_agent \<Rightarrow> managed_agent" where
  "told ls m = m\<lparr>given := given m @ ls\<rparr>"

lemma told_told [simp]: "told ls' (told ls m) = told (ls @ ls') m" "input_open (told ls m) = input_open m" "told [] m = m"
  by (simp_all add: told_def)

lemma notice_agent [simp]: "db_agent (notice e n args d) = db_agent d" "db_peers (notice e n args d) = db_peers d"
   "db_resources (notice e n args d) = db_resources d" "selected_peer_id (notice e n args d) = selected_peer_id d"
  by (simp_all add: notice_def push_log_def Let_def selected_peer_id_def split: option.split)

lemma try_notice_agent: "try_notice e n args d = Some d' \<Longrightarrow> db_agent d' = db_agent d"
  by (auto simp: try_notice_def)

lemma send_agent: "db_agent d = Some m \<Longrightarrow> input_open m \<Longrightarrow> db_agent (send_command e c d) = Some (told [c] m)"
  "db_peers (send_command e c d) = db_peers d"
  by (auto simp: send_command_def push_log_def Let_def told_def split: option.split)

lemma send_each_agent:
  "db_agent d = Some m \<Longrightarrow> input_open m \<Longrightarrow> db_agent (send_each e command ps d) = Some (told (map ((@) command) ps) m)"
proof (induction ps arbitrary: d m)
  case (Cons p ps)
  have "send_each e command (p # ps) d = send_each e command ps (send_command e (command @ p) d)" by (simp add: send_each_def)
  with Cons.IH [OF send_agent(1) [OF Cons.prems]] Cons.prems(2) show ?case by simp
qed (simp add: send_each_def)

definition ready_peers :: "debugger \<Rightarrow> string list" where
  "ready_peers d = map fst (filter (\<lambda>(_, v). ready_peer v) (db_peers d))"

definition chosen_remote :: "debugger \<Rightarrow> (string \<times> string) option" where
  "chosen_remote d = (case db_selected_remote d of Some s \<Rightarrow> Some s | None \<Rightarrow> (case db_remote d of [] \<Rightarrow> None | a # _ \<Rightarrow> Some (ra_peer a, ra_id a)))"

definition chosen_artifact :: "debugger \<Rightarrow> string option" where
  "chosen_artifact d = (case db_selected_artifact d of Some i \<Rightarrow> Some i | None \<Rightarrow> (case db_artifacts d of [] \<Rightarrow> None | a # _ \<Rightarrow> Some (av_id a)))"

definition fetch_line :: "debugger \<Rightarrow> string \<Rightarrow> string \<Rightarrow> string" where
  "fetch_line d p i = join_with '' '' (if length (fetch_providers i d) > 1 then ''artifact-fetch-many'' # i # fetch_providers i d
     else [''artifact-fetch'', p, i])"

text \<open>The lines of every button but the two that end the agent.\<close>

definition button_lines :: "answers \<Rightarrow> window \<Rightarrow> button \<Rightarrow> string list" where
  "button_lines an w b = (let d = wd_debugger w; p = the (selected_peer_id d) in case b of
     FindAgents \<Rightarrow> ''peers'' # map ((@) ''resources '') (map fst (db_peers d))
   | TestConnection \<Rightarrow> [''connect '' @ p, ''echo '' @ p @ '' swagri-connection-test'']
   | SmartBenchmark \<Rightarrow> [''auto-benchmark 1000000'']
   | SmartMatrix \<Rightarrow> [''auto-matrix 320'']
   | DistributedMatrix \<Rightarrow> [''distributed-matrix 768 96'']
   | FailNextChunk \<Rightarrow> [''debug-fail-next-matrix-chunk'']
   | DelayNextChunk \<Rightarrow> [''debug-delay-next-matrix-chunk 5000'']
   | PauseContribution \<Rightarrow> [''pause-resources'']
   | ResumeContribution \<Rightarrow> [''resume-resources'']
   | CheckVersions \<Rightarrow> map ((@) ''info '') (map fst (db_peers d))
   | QuickTest k \<Rightarrow> [quick_test_command k p]
   | AddFile \<Rightarrow> (case an_file an of None \<Rightarrow> [] | Some (path, _) \<Rightarrow> [''artifact-import '' @ path])
   | ListFiles \<Rightarrow> [''artifact-list'']
   | VerifyFile \<Rightarrow> (case chosen_artifact d of None \<Rightarrow> [] | Some i \<Rightarrow> [''artifact-verify '' @ i])
   | TrustForFiles \<Rightarrow> [''trust '' @ p]
   | ListPeerFiles \<Rightarrow> [''artifact-peer-list '' @ p]
   | ListAllFiles \<Rightarrow> map ((@) ''artifact-peer-list '') (ready_peers d)
   | FetchFile \<Rightarrow> (case chosen_remote d of None \<Rightarrow> [] | Some (q, i) \<Rightarrow> [fetch_line d q i])
   | UpdateAgent \<Rightarrow> [''trust '' @ p, ''download-update '' @ p]
   | UpdateDebugger \<Rightarrow> [''trust '' @ p, ''download-debugger-update '' @ p]
   | RemoveTrust \<Rightarrow> [''untrust '' @ p]
   | DialPeer \<Rightarrow> (if trim (wd_dial w) = [] then [] else [''dial '' @ trim (wd_dial w)])
   | SendLine \<Rightarrow> (if trim (wd_line w) = [] then [] else [trim (wd_line w)])
   | _ \<Rightarrow> [])"

lemma fetch_told:
  assumes "fetch_selected_remote_artifact v d = Some d'" "chosen_remote d = Some (p, i)" "db_agent d = Some m" "input_open m"
  shows "db_agent d' = Some (told [fetch_line d p i] m)"
proof -
  have line: "join_with '' '' (w # x # ys) = w @ '' '' @ join_with '' '' (x # ys)" for w x ys by simp
  have "join_with '' '' (i # ys) = i @ '' '' @ join_with '' '' ys" if "ys \<noteq> []" for ys using that by (cases ys) simp_all
  moreover have "fetch_providers i d \<noteq> []" if "length (fetch_providers i d) > 1" using that by auto
  ultimately show ?thesis
    using assms(1,2) unfolding fetch_selected_remote_artifact_def chosen_remote_def [symmetric] fetch_line_def
    by (auto simp: Let_def send_agent(1) [OF assms(3,4)] split: if_splits dest!: try_notice_agent)
qed

lemma button_told:
  assumes "press v lower an b w = Some w'" "b \<notin> {StopAgent, InstallUpdate}" "db_agent (wd_debugger w) = Some m" "input_open m"
    and "b \<in> names_peer \<longrightarrow> selected_peer_id (wd_debugger w) \<noteq> None"
    and "b = PauseContribution \<longrightarrow> \<not> contribution_is_paused (wd_debugger w)" "b = ResumeContribution \<longrightarrow> contribution_is_paused (wd_debugger w)"
  shows "db_agent (wd_debugger w') = Some (told (button_lines an w b) m)"
proof -
  let ?d = "wd_debugger w"
  note sent = send_agent send_each_agent assms(3,4)
  note defs = press_def on_debugger_def try_debugger_def on_selected_def button_lines_def Let_def
  show ?thesis
  proof (cases b)
    case FindAgents
    then show ?thesis using assms(1) by (auto simp: defs find_agents_def sent)
  next
    case TestConnection
    then show ?thesis using assms(1,5) by (auto simp: defs names_peer_def test_connection_def sent dest!: try_notice_agent)
  next
    case (QuickTest k)
    then show ?thesis using assms(1,5) by (auto simp: defs names_peer_def run_quick_test_def sent)
  next
    case PauseContribution
    then show ?thesis using assms(1,6) by (auto simp: defs contribution_is_paused_def toggle_local_contribution_def sent)
  next
    case ResumeContribution
    then show ?thesis using assms(1,7) by (auto simp: defs contribution_is_paused_def toggle_local_contribution_def sent)
  next
    case CheckVersions
    then show ?thesis using assms(1) by (auto simp: defs check_versions_def sent)
  next
    case ListAllFiles
    then show ?thesis using assms(1) by (auto simp: defs refresh_all_trusted_peer_artifacts_def ready_peers_def sent)
  next
    case ClearFinished
    then show ?thesis using assms(1,3) by (auto simp: defs clear_finished_tasks_def split: option.splits prod.splits sum.splits)
  next
    case UpdateAgent
    then show ?thesis using assms(1,5) by (auto simp: defs names_peer_def request_peer_update_def sent dest!: try_notice_agent)
  next
    case UpdateDebugger
    then show ?thesis using assms(1,5) by (auto simp: defs names_peer_def request_debugger_update_def sent dest!: try_notice_agent)
  next
    case TrustForFiles
    then show ?thesis using assms(1,5) by (auto simp: defs names_peer_def trust_selected_peer_for_artifacts_def sent dest!: try_notice_agent)
  next
    case ListPeerFiles
    then show ?thesis using assms(1,5) by (auto simp: defs names_peer_def refresh_peer_artifacts_def sent dest!: try_notice_agent)
  next
    case OpenDownloads
    then show ?thesis using assms(1,3) by (auto simp: defs split: option.splits)
  next
    case StartAgent
    then show ?thesis using assms(1,3) by (simp add: defs start_agent_def)
  next
    case AddFile
    then show ?thesis using assms(1,3) by (cases "an_file an") (auto simp: defs import_file_def send_agent(1) [OF _ assms(4)])
  next
    case VerifyFile
    then show ?thesis using assms(1,3) unfolding defs verify_selected_artifact_def chosen_artifact_def [symmetric]
      by (auto simp: sent split: option.splits dest!: try_notice_agent)
  next
    case FetchFile
    show ?thesis
    proof (cases "chosen_remote (wd_debugger w)")
      case None
      then show ?thesis using assms(1,3) FetchFile
        unfolding defs fetch_selected_remote_artifact_def chosen_remote_def [symmetric] by auto
    next
      case (Some x)
      obtain q i where x: "x = (q, i)" by fastforce
      show ?thesis using assms(1) FetchFile fetch_told [OF _ _ assms(3,4)] Some by (auto simp: defs x)
    qed
  next
    case DialPeer
    then show ?thesis using assms(1,3) by (auto simp: defs manual_dial_def sent)
  next
    case SendLine
    then show ?thesis using assms(1,3) by (auto simp: defs send_line_def sent)
  next
    case SaveLog
    then show ?thesis using assms(1,3) by (auto simp: defs save_filtered_log_def split: option.splits)
  qed (use assms(1,2,5) in \<open>auto simp: defs names_peer_def run_smart_benchmark_def run_smart_matrix_def run_distributed_matrix_def
      fail_next_inbound_matrix_chunk_def delay_next_inbound_matrix_chunk_def refresh_artifacts_def clear_log_def sent split: option.splits\<close>)
qed

section \<open>Buttons that the agent obeys\<close>

text \<open>What a button orders: \<open>P\<close> reads the identifiers of peers.\<close>

definition listed_peer :: "agent_env \<Rightarrow> peer_id \<Rightarrow> agent \<Rightarrow> agent" where
  "listed_peer e p a =
     (if is_trusted p a then announce ''ARTIFACT_PEER_STARTED'' [peer_string e p, ''inventory''] (on_exchange (ask p AInventory (OInventory p)) a)
      else announce ''ARTIFACT_PEER_FAILED'' [peer_string e p, ''trust this Peer ID before reading its artifact inventory''] a)"

definition ordered :: "agent_env \<Rightarrow> readings \<Rightarrow> bool \<Rightarrow> (string \<Rightarrow> peer_id) \<Rightarrow> answers \<Rightarrow> window \<Rightarrow> button \<Rightarrow> agent \<Rightarrow> agent" where
  "ordered e r acc P an w b a =
     (let d = wd_debugger w;
          p = P (the (selected_peer_id d));
          ask_all = fold (\<lambda>t. on_node (submit_task (ae_node e) (P t) TNodeInfo)) (map fst (db_peers d));
          submit = (\<lambda>t. on_node (submit_task (ae_node e) p t));
          faults = in_faults (ag_inbound a)
      in case b of
           FindAgents \<Rightarrow> ask_all a
         | TestConnection \<Rightarrow> submit (TEcho ''swagri-connection-test'')
             (if acc then announce ''PEER_CONNECTING'' [peer_string e p] (a\<lparr>dials := dials a @ [Inl p]\<rparr>) else a)
         | SmartBenchmark \<Rightarrow> on_node (place_cpu_task (ae_node e) (TCpuBenchmark 1000000) 2) a
         | SmartMatrix \<Rightarrow> on_node (place_cpu_task (ae_node e) (TMatrixMultiply 320) NODE_PROTOCOL_VERSION) a
         | DistributedMatrix \<Rightarrow> on_node (start_distributed_matrix (ae_node e) 768 96) a
         | FailNextChunk \<Rightarrow> announce ''DEBUG_FAULT_ARMED'' [''fail-next-matrix-chunk'', ''1'']
             (set_faults (faults\<lparr>fail_next_matrix_chunk := True\<rparr>) a)
         | DelayNextChunk \<Rightarrow> announce ''DEBUG_FAULT_ARMED'' [''delay-next-matrix-chunk'', ''5000'']
             (set_faults (faults\<lparr>delay_next_matrix_chunk_ms := 5000\<rparr>) a)
         | PauseContribution \<Rightarrow> contribution_command e True r a
         | ResumeContribution \<Rightarrow> contribution_command e False r a
         | CheckVersions \<Rightarrow> ask_all a
         | QuickTest k \<Rightarrow> submit (quick_task k) a
         | ListFiles \<Rightarrow> on_exchange (list_command (ae_exchange e)) a
         | TrustForFiles \<Rightarrow> on_updates (trust_peer (ae_update e) p) a
         | ListPeerFiles \<Rightarrow> listed_peer e p a
         | ListAllFiles \<Rightarrow> fold (\<lambda>t. listed_peer e (P t)) (ready_peers d) a
         | UpdateAgent \<Rightarrow> on_updates (begin_update_request (ae_update e) p False) (on_updates (trust_peer (ae_update e) p) a)
         | UpdateDebugger \<Rightarrow> on_updates (begin_debugger_update_request (ae_update e) p) (on_updates (trust_peer (ae_update e) p) a)
         | RemoveTrust \<Rightarrow> on_updates (untrust_peer (ae_update e) p) a
         | AddFile \<Rightarrow> (case an_file an of None \<Rightarrow> a | Some (path, _) \<Rightarrow>
             if is_file (UserPath path) (disk (ag_exchange a))
             then spawn_store_job (JImport (UserPath path)) (announce ''ARTIFACT_STARTED'' [''import'', path] a)
             else announce ''ARTIFACT_FAILED'' [''import'', ''file does not exist: '' @ path] a)
         | VerifyFile \<Rightarrow> (case chosen_artifact d of None \<Rightarrow> a | Some i \<Rightarrow> (case cid_of_text e i of
             Inr c \<Rightarrow> spawn_store_job (JVerify c) (announce ''ARTIFACT_STARTED'' [''verify'', cid_text (ae_exchange e) c] a)
           | Inl err \<Rightarrow> announce ''ARTIFACT_FAILED'' [''verify'', storage_message (ae_exchange e) err] a))
         | DialPeer \<Rightarrow> (if trim (wd_dial w) = [] then a else case ae_address e (trim (wd_dial w)) of
             None \<Rightarrow> a | Some addr \<Rightarrow> if acc then a\<lparr>dials := dials a @ [Inr addr]\<rparr> else a)
         | _ \<Rightarrow> a)"

text \<open>The identifiers in the window are words that the agent reads as peers.\<close>

definition peers_read :: "agent_env \<Rightarrow> (string \<Rightarrow> peer_id) \<Rightarrow> debugger \<Rightarrow> bool" where
  "peers_read e P d = (\<forall>t\<in>fst ` set (db_peers d) \<union> set_option (selected_peer_id d). one_word t \<and> ae_peer e t = Inr (P t))"

text \<open>The other texts that go into lines: the chosen path, the identifiers of artifacts and the address.\<close>

definition texts_read :: "answers \<Rightarrow> window \<Rightarrow> bool" where
  "texts_read an w = ((\<forall>path name. an_file an = Some (path, name) \<longrightarrow> line_path path) \<and>
     (\<forall>i. chosen_artifact (wd_debugger w) = Some i \<longrightarrow> one_word i) \<and> (trim (wd_dial w) = [] \<or> one_word (trim (wd_dial w))))"

lemma lines_obeyed:
  assumes "peers_read e P (wd_debugger w)" "reads_digits e" "b \<notin> {StopAgent, InstallUpdate, FetchFile, SendLine}" "b \<in> names_peer \<longrightarrow> selected_peer_id (wd_debugger w) \<noteq> None"
    and "\<forall>k. b = QuickTest k \<longrightarrow> k \<in> set quick_tests" "texts_read an w"
  shows "obey e r acc (button_lines an w b) a = (True, ordered e r acc P an w b a)"
proof -
  let ?d = "wd_debugger w"
  have peer: "one_word t" "ae_peer e t = Inr (P t)" if "t \<in> fst ` set (db_peers ?d)" for t using assms(1) that by (auto simp: peers_read_def)
  have chosen: "one_word (the (selected_peer_id ?d))" "ae_peer e (the (selected_peer_id ?d)) = Inr (P (the (selected_peer_id ?d)))"
    if "b \<in> names_peer" using assms(1,4) that by (auto simp: peers_read_def)
  have list_line: "handle_command e r acc (''artifact-peer-list '' @ t) c = (True, listed_peer e p c)" if "one_word t" "ae_peer e t = Inr p" for t p c
    using peer_lines(6) [OF that] that(2) by (simp add: peer_list_command_def parse_peer_def listed_peer_def)
  have info: "obey e r acc (map ((@) ''info '') (map fst (db_peers ?d))) c =
      (True, fold (\<lambda>t. on_node (submit_task (ae_node e) (P t) TNodeInfo)) (map fst (db_peers ?d)) c)" for c
    by (rule obey_fold, rule peer_task_lines(1)) (use peer in auto)
  have resources: "obey e r acc (map ((@) ''resources '') (map fst (db_peers ?d))) c =
      (True, fold (\<lambda>t. on_node (submit_task (ae_node e) (P t) TNodeInfo)) (map fst (db_peers ?d)) c)" for c
    by (rule obey_fold, rule peer_task_lines(2)) (use peer in auto)
  have lists: "obey e r acc (map ((@) ''artifact-peer-list '') (ready_peers ?d)) c = (True, fold (\<lambda>t. listed_peer e (P t)) (ready_peers ?d) c)" for c
    by (rule obey_fold, rule list_line) (use peer in \<open>force simp: ready_peers_def\<close>)+
  note lines = button_lines_def ordered_def Let_def own_lines info resources lists
  show ?thesis
  proof (cases b)
    case FindAgents
    then show ?thesis using info resources by (simp add: button_lines_def ordered_def own_lines del: map_map fold_map fold_Cons)
  next
    case TestConnection
    then show ?thesis using chosen peer_lines(1) peer_task_lines(3) by (simp add: lines names_peer_def)
  next
    case (QuickTest k)
    then show ?thesis using chosen quick_test_line [OF _ _ assms(2)] assms(5) by (simp add: lines names_peer_def del: quick_task.simps)
  next
    case CheckVersions
    then show ?thesis using info by (simp add: button_lines_def ordered_def del: map_map fold_map)
  next
    case ListAllFiles
    then show ?thesis using lists by (simp add: button_lines_def ordered_def del: map_map fold_map)
  next
    case AddFile
    show ?thesis
    proof (cases "an_file an")
      case None
      with AddFile show ?thesis by (simp add: lines)
    next
      case (Some x)
      obtain path name where x: "x = (path, name)" by fastforce
      have "line_path path" using assms(6) Some x by (simp add: texts_read_def)
      from import_line [OF this, of e r acc a] AddFile Some x show ?thesis by (simp add: lines)
    qed
  next
    case VerifyFile
    show ?thesis
    proof (cases "chosen_artifact ?d")
      case None
      with VerifyFile show ?thesis by (simp add: lines)
    next
      case (Some i)
      then have "one_word i" using assms(6) by (simp add: texts_read_def)
      from verify_line [OF this, of e r acc a] VerifyFile Some show ?thesis by (simp add: lines verify_command_def split: sum.split)
    qed
  next
    case DialPeer
    show ?thesis
    proof (cases "trim (wd_dial w) = []")
      case True
      with DialPeer show ?thesis by (simp add: lines)
    next
      case False
      then have "one_word (trim (wd_dial w))" using assms(6) by (simp add: texts_read_def)
      from dial_line [OF this, of e r acc a] DialPeer False show ?thesis by (simp add: lines split: option.split)
    qed
  next
    case TrustForFiles
    then show ?thesis using chosen peer_lines(2) by (simp add: lines names_peer_def)
  next
    case ListPeerFiles
    then show ?thesis using chosen list_line by (simp add: lines names_peer_def)
  next
    case UpdateAgent
    then show ?thesis using chosen peer_lines(2,4) by (simp add: lines names_peer_def)
  next
    case UpdateDebugger
    then show ?thesis using chosen peer_lines(2,5) by (simp add: lines names_peer_def)
  next
    case RemoveTrust
    then show ?thesis using chosen peer_lines(3) by (simp add: lines names_peer_def)
  qed (use assms(3) in \<open>simp_all add: button_lines_def ordered_def own_lines\<close>)
qed

section \<open>A fetch from several peers\<close>

lemma distinct_sorted_adj: "sorted xs \<Longrightarrow> distinct (remdups_adj xs)"
  by (induction xs rule: remdups_adj.induct) (auto dest: order.antisym)

lemma providers_are_peers:
  "distinct (fetch_providers i d)" "length (fetch_providers i d) \<le> MAX_ARTIFACT_PROVIDERS" "set (fetch_providers i d) \<subseteq> fst ` set (db_peers d)"
proof -
  let ?ps = "filter (\<lambda>p. case bt_get (db_peers d) p of None \<Rightarrow> False | Some v \<Rightarrow> ready_peer v) (map ra_peer (filter (\<lambda>a. ra_id a = i) (db_remote d)))"
  have "distinct (remdups_adj (sort ?ps))" by (simp add: distinct_sorted_adj)
  then show "distinct (fetch_providers i d)" unfolding fetch_providers_def by (rule distinct_take)
  show "length (fetch_providers i d) \<le> MAX_ARTIFACT_PROVIDERS" by (simp add: fetch_providers_def MAX_FETCH_PROVIDERS_def MAX_ARTIFACT_PROVIDERS_def)
  have "x \<in> fst ` set (db_peers d)" if "x \<in> set ?ps" for x
    using that by (auto split: option.splits dest: map_of_SomeD intro: rev_image_eqI)
  then show "set (fetch_providers i d) \<subseteq> fst ` set (db_peers d)"
    unfolding fetch_providers_def by (auto dest!: in_set_takeD)
qed

lemma providers_parsed:
  assumes "\<forall>t\<in>set vs. ae_peer e t = Inr (P t)" "distinct (map P vs)" "set (map P vs) \<inter> set ps = {}"
  shows "parse_providers e vs ps = Inr (ps @ map P vs)"
  using assms by (induction vs arbitrary: ps) auto

lemma providers_set:
  "fetch_providers i d = take 8 (sorted_list_of_set {q. (\<exists>x\<in>set (db_remote d). ra_id x = i \<and> ra_peer x = q) \<and>
     (\<exists>v. bt_get (db_peers d) q = Some v \<and> pv_trusted v \<and> pv_state v = Connected)})"
    (is "_ = take 8 (sorted_list_of_set ?S)")
proof -
  let ?ps = "filter (\<lambda>p. case bt_get (db_peers d) p of None \<Rightarrow> False | Some v \<Rightarrow> ready_peer v) (map ra_peer (filter (\<lambda>a. ra_id a = i) (db_remote d)))"
  have "set ?ps = ?S" by (auto simp: ready_peer_def split: option.splits)
  moreover have "remdups_adj (sort ?ps) = sorted_list_of_set (set ?ps)"
    by (rule sorted_list_of_set.idem_if_sorted_distinct [symmetric, of "remdups_adj (sort ?ps)", unfolded remdups_adj_set set_sort])
      (simp_all add: distinct_sorted_adj)
  ultimately show ?thesis by (simp add: fetch_providers_def MAX_FETCH_PROVIDERS_def)
qed

lemma fetch_obeyed:
  assumes "peers_read e P d" "inj_on P (fst ` set (db_peers d))" "one_word p" "ae_peer e p = Inr (P p)" "one_word i" "cid_of_text e i = Inr c"
    and "\<forall>q\<in>insert p (set (fetch_providers i d)). is_trusted (P q) a" "bt_get (downloads (ag_exchange a)) c = None"
  shows "handle_command e r acc (fetch_line d p i) a = (True, let ps = fetch_providers i d in
     if length ps > 1
     then announce ''ARTIFACT_MULTI_REQUESTED'' [cid_text (ae_exchange e) c, show_nat (length ps)]
       (on_exchange (begin_artifact_download (ae_exchange e) c (map P ps)) a)
     else announce ''ARTIFACT_PEER_STARTED'' [peer_string e (P p), cid_text (ae_exchange e) c]
       (on_exchange (begin_artifact_download (ae_exchange e) c [P p]) a))"
proof -
  let ?ps = "fetch_providers i d"
  have words: "one_word ''artifact-fetch''" "one_word ''artifact-fetch-many''" by code_simp+
  show ?thesis
  proof (cases "length ?ps > 1")
    case True
    have read: "\<forall>t\<in>set ?ps. one_word t \<and> ae_peer e t = Inr (P t)" using assms(1) providers_are_peers(3) [of i d] unfolding peers_read_def by blast
    have "distinct (map P ?ps)" using providers_are_peers(1,3) [of i d] inj_on_subset [OF assms(2)] by (simp add: distinct_map)
    then have "parse_providers e ?ps [] = Inr (map P ?ps)" using providers_parsed [of ?ps e P "[]"] read by simp
    moreover have "\<not> length ?ps > MAX_ARTIFACT_PROVIDERS" using providers_are_peers(2) [of i d] by simp
    moreover have "map P ?ps \<noteq> []" using True by auto
    ultimately have parsed: "parse_fetch_many e (i # ?ps) = Inr (c, map P ?ps)"
      by (simp add: parse_fetch_many_def parse_content_def assms(6))
    have "find (\<lambda>p. \<not> is_trusted p a) (map P ?ps) = None" using assms(7) by (auto simp: find_None_iff)
    then have "fetch_many_command e (i # ?ps) a =
        announce ''ARTIFACT_MULTI_REQUESTED'' [cid_text (ae_exchange e) c, show_nat (length ?ps)]
          (on_exchange (begin_artifact_download (ae_exchange e) c (map P ?ps)) a)"
      by (simp add: fetch_many_command_def parsed assms(8))
    moreover have "list_all one_word (''artifact-fetch-many'' # i # ?ps)" using read assms(5) words by (simp add: list_all_iff)
    ultimately show ?thesis using handled [of "''artifact-fetch-many''" "i # ?ps" e r acc a] True
      by (simp add: fetch_line_def artifact_command_def Let_def del: join_with.simps)
  next
    case False
    have "fetch_command e [p, i] a = announce ''ARTIFACT_PEER_STARTED'' [peer_string e (P p), cid_text (ae_exchange e) c]
        (on_exchange (begin_artifact_download (ae_exchange e) c [P p]) a)"
      using assms(4,6-8) by (simp add: fetch_command_def parse_fetch_def parse_peer_def parse_content_def)
    moreover have "list_all one_word [''artifact-fetch'', p, i]" using assms(3,5) words by simp
    ultimately show ?thesis using handled [of "''artifact-fetch''" "[p, i]" e r acc a] False
      by (simp add: fetch_line_def artifact_command_def Let_def del: join_with.simps)
  qed
qed

text \<open>
  C34. The button that fetches a file gives the agent one line, and the agent reads from it just what the window shows. When more than one peer
  that is trusted and connected offers the file, the agent starts its download from the first eight of exactly those peers, in the order of
  their identifiers and each once, and never refuses the line for its number of providers; otherwise it starts it from the peer whose file
  was chosen. The agent must read the identifiers, each as a peer of its own, and trust those peers, and have no download of the file.
\<close>

theorem fetch_button_obeyed:
  assumes "fetch_selected_remote_artifact v d = Some d'" "chosen_remote d = Some (p, i)" "db_agent d = Some m" "input_open m"
    and "peers_read e P d" "inj_on P (fst ` set (db_peers d))" "one_word p" "ae_peer e p = Inr (P p)" "one_word i" "cid_of_text e i = Inr c"
    and "ps = take 8 (sorted_list_of_set {q. (\<exists>x\<in>set (db_remote d). ra_id x = i \<and> ra_peer x = q) \<and>
      (\<exists>v. bt_get (db_peers d) q = Some v \<and> pv_trusted v \<and> pv_state v = Connected)})"
    and "\<forall>q\<in>insert p (set ps). is_trusted (P q) a" "bt_get (downloads (ag_exchange a)) c = None"
  shows "\<exists>line. db_agent d' = Some (m\<lparr>given := given m @ [line]\<rparr>) \<and> handle_command e r acc line a = (True,
     if length ps > 1
     then announce ''ARTIFACT_MULTI_REQUESTED'' [cid_text (ae_exchange e) c, show_nat (length ps)]
       (on_exchange (begin_artifact_download (ae_exchange e) c (map P ps)) a)
     else announce ''ARTIFACT_PEER_STARTED'' [peer_string e (P p), cid_text (ae_exchange e) c]
       (on_exchange (begin_artifact_download (ae_exchange e) c [P p]) a))"
proof -
  have ps: "ps = fetch_providers i d" using assms(11) by (simp only: providers_set)
  from fetch_told [OF assms(1-4)] fetch_obeyed [OF assms(5-10) assms(12) [unfolded ps] assms(13), of r acc]
  show ?thesis unfolding told_def ps Let_def by blast
qed

definition fetch_env :: agent_env where
  "fetch_env = demo_agent_env\<lparr>ae_peer := (\<lambda>t. Inr (PeerId (if t = ''p'' then 2 else if t = ''q'' then 3 else 4))),
     ae_exchange := demo_exchange_env\<lparr>store := one_store\<lparr>env := (env one_store)\<lparr>hex_decode := (\<lambda>_. Some (replicate 32 7))\<rparr>\<rparr>\<rparr>\<rparr>"

text \<open>Three peers offer the file; the third is not trusted.\<close>

definition fetching :: debugger where
  "fetching = (let ready = default_peer\<lparr>pv_trusted := True, pv_state := Connected\<rparr>;
       item = (\<lambda>p. \<lparr>ra_peer = p, ra_id = ''f'', ra_size = 1, ra_blocks = 1, ra_progress = None\<rparr>)
     in (new_debugger demo_debugger_env ''n'' (Inl []))\<lparr>db_agent := Some \<lparr>input_open = True, given = []\<rparr>,
       db_peers := [(''p'', ready), (''q'', ready), (''u'', default_peer)], db_remote := [item ''p'', item ''q'', item ''u'', item ''p'']\<rparr>)"

lemma fetching:
  "fetch_providers ''f'' fetching = [''p'', ''q'']" "chosen_remote fetching = Some (''p'', ''f'')" "map fst (db_peers fetching) = [''p'', ''q'', ''u'']"
  "db_agent fetching = Some \<lparr>input_open = True, given = []\<rparr>" "selected_peer_id fetching = Some ''p''"
  by (simp_all add: fetching_def fetch_providers_def chosen_remote_def new_debugger_def ready_peer_def MAX_FETCH_PROVIDERS_def selected_peer_id_def
      default_peer_def Let_def)

theorem fetch_button_obeyed_witness:
  "\<exists>d' line. fetch_selected_remote_artifact demo_debugger_env fetching = Some d' \<and>
     db_agent d' = Some \<lparr>input_open = True, given = [line]\<rparr> \<and>
     handle_command fetch_env demo_readings True line (demo_agent\<lparr>ag_updates := set_trusted {PeerId 2, PeerId 3} (ag_updates demo_agent)\<rparr>) =
       (True, announce ''ARTIFACT_MULTI_REQUESTED'' [cid_text (ae_exchange fetch_env) (ContentId (replicate 32 7)), show_nat 2]
          (on_exchange (begin_artifact_download (ae_exchange fetch_env) (ContentId (replicate 32 7)) [PeerId 2, PeerId 3])
             (demo_agent\<lparr>ag_updates := set_trusted {PeerId 2, PeerId 3} (ag_updates demo_agent)\<rparr>)))"
proof -
  let ?P = "\<lambda>t. PeerId (if t = ''p'' then 2 else if t = ''q'' then 3 else 4)"
  let ?a = "demo_agent\<lparr>ag_updates := set_trusted {PeerId 2, PeerId 3} (ag_updates demo_agent)\<rparr>"
  have "fst ` set (db_peers fetching) = {''p'', ''q'', ''u''}" using fetching(3) by (metis list.set_map list.set(1,2))
  moreover have "one_word ''p''" "one_word ''q''" "one_word ''u''" "one_word ''f''" by code_simp+
  ultimately have read: "peers_read fetch_env ?P fetching" and inj: "inj_on ?P (fst ` set (db_peers fetching))"
    by (auto simp: peers_read_def fetch_env_def fetching(5) inj_on_def)
  have cid: "cid_of_text fetch_env ''f'' = Inr (ContentId (replicate 32 7))"
    by (simp add: cid_of_text_def content_from_str_def fetch_env_def Let_def split: option.split)
  have p: "ae_peer fetch_env ''p'' = Inr (?P ''p'')" by (simp add: fetch_env_def)
  have ps: "[''p'', ''q''] = take 8 (sorted_list_of_set {q. (\<exists>x\<in>set (db_remote fetching). ra_id x = ''f'' \<and> ra_peer x = q) \<and>
      (\<exists>v. bt_get (db_peers fetching) q = Some v \<and> pv_trusted v \<and> pv_state v = Connected)})"
    by (simp only: fetching(1) providers_set [symmetric])
  have trust: "\<forall>q\<in>insert ''p'' (set [''p'', ''q'']). is_trusted (?P q) ?a"
    by (simp add: is_trusted_def set_trusted_def demo_agent_def)
  have idle: "bt_get (downloads (ag_exchange ?a)) (ContentId (replicate 32 7)) = None" by (simp add: demo_agent_def demo_exchange_def)
  have "fetch_selected_remote_artifact demo_debugger_env fetching \<noteq> None"
    unfolding fetch_selected_remote_artifact_def chosen_remote_def [symmetric] fetching(2)
    by (simp add: fetching(1) try_notice_def short_content_id_def Let_def)
  then obtain d' where d': "fetch_selected_remote_artifact demo_debugger_env fetching = Some d'" by blast
  from fetch_button_obeyed [OF d' fetching(2,4) _ read inj \<open>one_word ''p''\<close> p \<open>one_word ''f''\<close> cid ps trust idle, of demo_readings True] d'
  show ?thesis by (simp add: numeral_2_eq_2)
qed

section \<open>Every button\<close>

text \<open>The buttons that end the agent.\<close>

lemma stopped_agent:
  assumes "db_agent d = Some m" "input_open m"
  shows "db_agent (stop_managed_agent e c d) = None" "\<exists>l. db_stopped (stop_managed_agent e c d) = l @ [m\<lparr>given := given m @ [''quit'', ''quit'']\<rparr>]"
proof -
  let ?m = "m\<lparr>given := given m @ [''quit'']\<rparr>"
  obtain n d1 where i: "interrupt_active_tasks e c (wording e (Notice ''agent stopped before the task finished'' [])) (drop_agent ?m d) = (n, d1)"
    by fastforce
  have persist: "db_agent (fold (persist_task e c) ts x) = db_agent x \<and> db_stopped (fold (persist_task e c) ts x) = db_stopped x" for ts x
    by (induction ts arbitrary: x) (auto simp: persist_task_def notice_def push_log_def Let_def split: option.split prod.split sum.split)
  have "db_agent d1 = None" "db_stopped d1 = db_stopped d @ [m\<lparr>given := given m @ [''quit'', ''quit'']\<rparr>]"
    using i persist assms(2) by (auto simp: interrupt_active_tasks_def drop_agent_def say_to_def split: prod.splits)
  then show "db_agent (stop_managed_agent e c d) = None" "\<exists>l. db_stopped (stop_managed_agent e c d) = l @ [m\<lparr>given := given m @ [''quit'', ''quit'']\<rparr>]"
    using assms by (simp_all add: stop_managed_agent_def say_to_def i notice_def push_log_def Let_def)
qed

lemma install_told:
  assumes "press v lower an InstallUpdate w = Some w'" "db_agent (wd_debugger w) = Some m" "input_open m"
  shows "if \<exists>name err. an_installer an = Some (name, err) \<and> official_installer name
    then db_agent (wd_debugger w') = None \<and> (\<exists>l. db_stopped (wd_debugger w') = l @ [m\<lparr>given := given m @ [''quit'', ''quit'']\<rparr>])
    else db_agent (wd_debugger w') = Some m"
  using assms stopped_agent [OF assms(2,3)]
  by (auto simp: press_def on_debugger_def install_update_def notice_def push_log_def Let_def split: option.splits if_splits)

text \<open>Without an agent nobody is told anything, but the user is.\<close>

lemma notice_told: "Notice n args \<in> set (db_notices (notice e n args d))"
  by (simp add: notice_def push_log_def Let_def push_bounded_def)

lemma notice_kept: "Notice n args \<in> set (db_notices (notice e k more' (notice e n args d)))"
proof -
  have "x \<in> set (push_bounded y 100 (push_bounded x 100 l))" for x y and l :: "'z list"
    by (cases "if length l = 100 then tl l else l") (auto simp: push_bounded_def)
  then show ?thesis by (simp add: notice_def push_log_def Let_def)
qed

lemma sent_to_nobody:
  assumes "db_agent d = None"
  shows "db_agent (send_command e c d) = None" "Notice ''start the agent first'' [] \<in> set (db_notices (send_command e c d))"
    "db_agent (send_each e c ps d) = None" "ps \<noteq> [] \<Longrightarrow> Notice ''start the agent first'' [] \<in> set (db_notices (send_each e c ps d))"
proof -
  have one: "db_agent (send_command e c d) = None" "Notice ''start the agent first'' [] \<in> set (db_notices (send_command e c d))"
    if "db_agent d = None" for c d using that by (simp_all add: send_command_def notice_told)
  then show "db_agent (send_command e c d) = None" "Notice ''start the agent first'' [] \<in> set (db_notices (send_command e c d))"
    using assms by blast+
  show "db_agent (send_each e c ps d) = None" using assms unfolding send_each_def
    by (induction ps arbitrary: d) (simp_all add: one(1))
  show "Notice ''start the agent first'' [] \<in> set (db_notices (send_each e c ps d))" if "ps \<noteq> []"
    using that assms unfolding send_each_def
  proof (induction ps arbitrary: d)
    case (Cons p ps)
    then show ?case using one [of d "c @ p"] by (cases "ps = []") simp_all
  qed simp
qed

lemma told_nobody:
  assumes "press v lower an b w = Some w'" "b \<notin> needs_agent" "db_agent (wd_debugger w) = None"
    and "b \<in> names_peer \<longrightarrow> selected_peer_id (wd_debugger w) \<noteq> None"
  shows "if b = StartAgent then db_agent (wd_debugger w') = (case an_spawn an of None \<Rightarrow> Some \<lparr>input_open = True, given = []\<rparr> | Some _ \<Rightarrow> None)
    else db_agent (wd_debugger w') = None \<and>
      (button_lines an w b \<noteq> [] \<longrightarrow> Notice ''start the agent first'' [] \<in> set (db_notices (wd_debugger w')))"
proof -
  note nobody = sent_to_nobody [OF assms(3)]
  note defs = press_def on_debugger_def button_lines_def Let_def
  from assms(2) consider k where "b = QuickTest k" | "b = StartAgent" | "b = CheckVersions" | "b = ClearFinished" | "b = OpenDownloads" | "b = InstallUpdate"
    | "b = DialPeer" | "b = CopyFirewall" | "b = CopyLog" | "b = SaveLog" | "b = ResetFilters" | "b = ClearLog" | "b = SendLine"
    unfolding without_agent by blast
  then show ?thesis
  proof cases
    case 1
    then show ?thesis using assms(1,4) by (auto simp: defs names_peer_def run_quick_test_def nobody)
  next
    case 2
    then show ?thesis using assms(1,3) by (auto simp: defs start_agent_def split: option.splits)
  next
    case 3
    have "db_agent (notice v n ts (wd_debugger w)) = None" for n ts using assms(3) by simp
    with 3 show ?thesis using assms(1) nobody(3,4) by (auto simp: defs check_versions_def sent_to_nobody)
  next
    case 4
    then show ?thesis using assms(1,3) by (auto simp: defs clear_finished_tasks_def split: option.splits prod.splits sum.splits)
  next
    case 5
    then show ?thesis using assms(1,3) by (auto simp: defs split: option.splits)
  next
    case 6
    then show ?thesis using assms(1,3)
      by (auto simp: defs install_update_def stop_managed_agent_def notice_def push_log_def split: option.splits if_splits)
  next
    case 7
    then show ?thesis using assms(1,3) nobody(1) by (auto simp: defs manual_dial_def send_command_def notice_kept)
  next
    case 10
    then show ?thesis using assms(1,3) by (auto simp: defs save_filtered_log_def split: option.splits)
  next
    case 11
    then show ?thesis using assms(1,3) by (auto simp: defs)
  next
    case 13
    then show ?thesis using assms(1,3) nobody(1,2) by (auto simp: defs send_line_def)
  qed (use assms(1,3) in \<open>auto simp: defs clear_log_def\<close>)
qed


definition reading_env :: agent_env where
  "reading_env = demo_agent_env\<lparr>ae_peer := (\<lambda>_. Inr (PeerId 2)), ae_float := (\<lambda>s. case parse_u64 s of None \<Rightarrow> None | Some k \<Rightarrow> Some (Fin (of_nat (unat k))))\<rparr>"

definition demo_running :: window where
  "demo_running = demo_fresh\<lparr>wd_debugger := (wd_debugger demo_fresh)\<lparr>db_agent := Some \<lparr>input_open = True, given = []\<rparr>,
     db_peers := [(''p'', demo_peer (Fin 50) False)]\<rparr>\<rparr>"

lemma reading_env: "reads_digits reading_env" "peers_read reading_env (\<lambda>_. PeerId 2) (wd_debugger demo_running)"
proof -
  have "parse_u64 ''1'' = Some 1" "parse_u64 ''2'' = Some 2" "parse_u64 ''3'' = Some 3" "parse_u64 ''4'' = Some 4" "parse_u64 ''5'' = Some 5"
    using decimal_u64.decode_encode [of 1] decimal_u64.decode_encode [of 2] decimal_u64.decode_encode [of 3] decimal_u64.decode_encode [of 4]
      decimal_u64.decode_encode [of 5] by (simp_all add: show_nat.simps digits)
  then show "reads_digits reading_env" by (simp add: reads_digits_def reading_env_def)
  have "one_word ''p''" by code_simp
  then show "peers_read reading_env (\<lambda>_. PeerId 2) (wd_debugger demo_running)"
    by (simp add: peers_read_def reading_env_def demo_running_def demo_fresh_def new_window_def new_debugger_def selected_peer_id_def)
qed


section \<open>A file name that is a command\<close>

text \<open>
  The path of an added file goes into the line as it is. A line break in it ends the line, and the rest is a command of its own: the name
  of this file makes the agent quit.
\<close>

lemma file_name_stops_agent:
  assumes "db_agent d = Some m" "input_open m"
  shows "\<exists>sent. db_agent (import_file v (''f'' @ [CHR 0x0A] @ ''quit'') name d) = Some (m\<lparr>given := given m @ [sent]\<rparr>) \<and>
    split_on (CHR 0x0A) sent = [''artifact-import f'', ''quit''] \<and> fst (obey e r acc (split_on (CHR 0x0A) sent) a) = False"
proof -
  let ?sent = "''artifact-import '' @ ''f'' @ [CHR 0x0A] @ ''quit''"
  have split: "split_on (CHR 0x0A) ?sent = [''artifact-import f'', ''quit'']" by code_simp
  have "list_all one_word [''artifact-import'', ''f'']" "list_all one_word [''quit'']" by code_simp+
  then have "fst (handle_command e r acc ''artifact-import f'' b)" "\<not> fst (handle_command e r acc ''quit'' b)" for b
    using handled [of "''artifact-import''" "[''f'']" e r acc b] handle_command_unfold [OF words_of_line [of "[''quit'']"], of e r acc b] by simp_all
  then have "fst (obey e r acc [''artifact-import f'', ''quit''] a) = False" by (simp split: prod.split) (metis fst_conv)
  moreover have "db_agent (import_file v (''f'' @ [CHR 0x0A] @ ''quit'') name d) = Some (told [?sent] m)"
    using send_agent(1) [of "notice v ''importing a file'' [name] d" m] assms by (simp add: import_file_def)
  ultimately show ?thesis using split by (intro exI [of _ ?sent] conjI) (simp_all only: told_def)
qed

end
