(* ===== verification/Mobile.thy ===== *)
theory Mobile
  imports Settings Resources
begin

text \<open>
  The life of the agent inside a mobile application (\<open>start_mobile_agent\<close> to \<open>mobile_agent_running\<close>) and the functions of the Java
  bridge. Several threads may start, command and stop it at once: what they share is an atomic flag and a slot with the sender of the
  running agent's commands. An attempt to start is a thread; between two of its accesses to what is shared any other may act.
\<close>

section \<open>State\<close>

text \<open>How far an attempt has come; after \<open>Alive\<close> and \<open>Unspawned\<close> it gives back what it took.\<close>

datatype stage = Claimed | Checked | Published | Alive | Ended | Withdrawn | Released | Unspawned | Unpublished | Over

record attempt =
  at_stage :: stage
  at_args :: args
  inbox :: "string list"

record mobile =
  mobile_running :: bool
  mobile_sender :: "nat option"
  starts :: "attempt list"
  mobile_log :: event_log

definition move :: "nat \<Rightarrow> stage \<Rightarrow> mobile \<Rightarrow> mobile" where
  "move k s m = m\<lparr>starts := (starts m)[k := (starts m ! k)\<lparr>at_stage := s\<rparr>]\<rparr>"

definition stage_of :: "mobile \<Rightarrow> nat \<Rightarrow> stage" where
  "stage_of m k = at_stage (starts m ! k)"

section \<open>Accesses of an attempt to start\<close>

text \<open>\<open>compare_exchange(false, true)\<close>\<close>

definition claim :: "args \<Rightarrow> mobile \<Rightarrow> (string + nat) \<times> mobile" where
  "claim a m = (if mobile_running m then (Inl ''mobile agent is already running'', m)
     else (Inr (length (starts m)),
           m\<lparr>mobile_running := True, starts := starts m @ [\<lparr>at_stage = Claimed, at_args = a, inbox = []\<rparr>]\<rparr>))"

definition release :: "stage \<Rightarrow> nat \<Rightarrow> mobile \<Rightarrow> mobile" where
  "release s k m = (move k s m)\<lparr>mobile_running := False\<rparr>"

definition check_limits :: "nat \<Rightarrow> mobile \<Rightarrow> (string + unit) \<times> mobile" where
  "check_limits k m = (case validate_resource_limits (at_args (starts m ! k)) of
     Inl err \<Rightarrow> (Inl err, release Over k m)
   | Inr _ \<Rightarrow> (Inr (), move k Checked m))"

definition publish :: "nat \<Rightarrow> mobile \<Rightarrow> mobile" where
  "publish k m = (move k Published m)\<lparr>mobile_sender := Some k\<rparr>"

definition withdraw :: "stage \<Rightarrow> nat \<Rightarrow> mobile \<Rightarrow> mobile" where
  "withdraw s k m = (move k s m)\<lparr>mobile_sender := None\<rparr>"

text \<open>The whole of \<open>start_mobile_agent\<close>, when no other thread comes between; the thread it starts is \<open>agent_thread\<close>.\<close>

definition start_mobile_agent :: "update_env \<Rightarrow> string option \<Rightarrow> mobile_config \<Rightarrow> mobile \<Rightarrow> (string + nat) \<times> mobile" where
  "start_mobile_agent e spawn_error c m = (case claim (into_args e c) m of
     (Inl err, m1) \<Rightarrow> (Inl err, m1)
   | (Inr k, m1) \<Rightarrow> (case check_limits k m1 of
       (Inl err, m2) \<Rightarrow> (Inl err, m2)
     | (Inr _, m2) \<Rightarrow> (case spawn_error of
         None \<Rightarrow> (Inr k, move k Alive (publish k m2))
       | Some err \<Rightarrow> (Inl err, release Over k (withdraw Unpublished k (move k Unspawned (publish k m2)))))))"

definition say_mobile :: "string \<Rightarrow> string list \<Rightarrow> mobile \<Rightarrow> mobile" where
  "say_mobile ev fs m = m\<lparr>mobile_log := emit_event ev fs (mobile_log m)\<rparr>"

text \<open>The agent returned, with an error or without; then the thread gives everything back, and says so last.\<close>

definition ended :: "string option \<Rightarrow> nat \<Rightarrow> mobile \<Rightarrow> mobile" where
  "ended err k m = (let m1 = move k Ended m in case err of None \<Rightarrow> m1 | Some x \<Rightarrow> say_mobile ''MOBILE_FAILED'' [x] m1)"

definition agent_thread_end :: "string option \<Rightarrow> nat \<Rightarrow> mobile \<Rightarrow> mobile" where
  "agent_thread_end err k m =
     say_mobile ''MOBILE_STOPPED'' [] (move k Over (release Released k (withdraw Withdrawn k (ended err k m))))"

section \<open>Commands\<close>

text \<open>The receiver lives from the first send on until the agent returns.\<close>

definition receives :: "stage \<Rightarrow> bool" where
  "receives s = (s = Published \<or> s = Alive)"

definition send_mobile_command :: "string \<Rightarrow> mobile \<Rightarrow> (string + unit) \<times> mobile" where
  "send_mobile_command line m = (case mobile_sender m of
     None \<Rightarrow> (Inl ''mobile agent is not running'', m)
   | Some k \<Rightarrow> if receives (stage_of m k)
       then (Inr (), m\<lparr>starts := (starts m)[k := (starts m ! k)\<lparr>inbox := inbox (starts m ! k) @ [line]\<rparr>]\<rparr>)
       else (Inl ''mobile agent command channel is closed'', m))"

definition stop_mobile_agent :: "mobile \<Rightarrow> (string + unit) \<times> mobile" where
  "stop_mobile_agent = send_mobile_command ''quit''"

definition mobile_agent_running :: "mobile \<Rightarrow> bool" where
  "mobile_agent_running m = mobile_running m"

text \<open>The agent takes its next command.\<close>

definition take_command :: "nat \<Rightarrow> mobile \<Rightarrow> mobile" where
  "take_command k m = m\<lparr>starts := (starts m)[k := (starts m ! k)\<lparr>inbox := tl (inbox (starts m ! k))\<rparr>]\<rparr>"

section \<open>The Java bridge\<close>

text \<open>\<open>artifact_quota_bytes.max(1024 * 1024) as u64\<close> of a \<open>jlong\<close>, and \<open>u8::try_from\<close> of a \<open>jint\<close>.\<close>

definition native_quota :: "int \<Rightarrow> u64" where
  "native_quota q = of_int (max q (1024 * 1024))"

definition native_byte :: "int \<Rightarrow> u8 option" where
  "native_byte n = (if 0 \<le> n \<and> n < 256 then Some (of_int n) else None)"

text \<open>A Java string that cannot be read is an error.\<close>

definition native_start :: "update_env \<Rightarrow> string option \<Rightarrow> string + mobile_config \<Rightarrow> mobile \<Rightarrow> bool \<times> mobile" where
  "native_start e spawn_error config m = (case config of
     Inl err \<Rightarrow> (False, say_mobile ''MOBILE_FAILED'' [err] m)
   | Inr c \<Rightarrow> (case start_mobile_agent e spawn_error (c\<lparr>mc_quota := native_quota (sint (mc_quota c))\<rparr>) m of
       (Inl err, m') \<Rightarrow> (False, say_mobile ''MOBILE_FAILED'' [err] m') | (Inr _, m') \<Rightarrow> (True, m')))"

definition native_send :: "string option \<Rightarrow> mobile \<Rightarrow> bool \<times> mobile" where
  "native_send line m = (case line of
     None \<Rightarrow> (False, m)
   | Some l \<Rightarrow> (case send_mobile_command l m of (Inl _, m') \<Rightarrow> (False, m') | (Inr _, m') \<Rightarrow> (True, m')))"

definition native_stop :: "mobile \<Rightarrow> bool \<times> mobile" where
  "native_stop m = (case stop_mobile_agent m of (Inl _, m') \<Rightarrow> (False, m') | (Inr _, m') \<Rightarrow> (True, m'))"

definition native_poll :: "mobile \<Rightarrow> string \<times> mobile" where
  "native_poll m = (let (ls, l) = drain_mobile_events (mobile_log m) in (join_with [LF] ls, m\<lparr>mobile_log := l\<rparr>))"

definition native_update_environment :: "int \<Rightarrow> bool \<Rightarrow> int \<Rightarrow> bool \<Rightarrow> mobile \<Rightarrow> mobile_environment \<times> mobile" where
  "native_update_environment battery charge thermal network m =
     (let (env, command) = update_mobile_environment (native_byte battery) (Some charge) (native_byte thermal) (Some network)
      in (env, snd (send_mobile_command command m)))"

section \<open>Any order of the accesses\<close>

inductive mobile_step :: "mobile \<Rightarrow> mobile \<Rightarrow> bool" where
  claim: "mobile_step m (snd (claim a m))"
| check: "k < length (starts m) \<Longrightarrow> stage_of m k = Claimed \<Longrightarrow> mobile_step m (snd (check_limits k m))"
| publish: "k < length (starts m) \<Longrightarrow> stage_of m k = Checked \<Longrightarrow> mobile_step m (publish k m)"
| spawn: "k < length (starts m) \<Longrightarrow> stage_of m k = Published \<Longrightarrow> mobile_step m (move k Alive m)"
| spawn_fails: "k < length (starts m) \<Longrightarrow> stage_of m k = Published \<Longrightarrow> mobile_step m (move k Unspawned m)"
| unpublish: "k < length (starts m) \<Longrightarrow> stage_of m k = Unspawned \<Longrightarrow> mobile_step m (withdraw Unpublished k m)"
| give_up: "k < length (starts m) \<Longrightarrow> stage_of m k = Unpublished \<Longrightarrow> mobile_step m (release Over k m)"
| ends: "k < length (starts m) \<Longrightarrow> stage_of m k = Alive \<Longrightarrow> mobile_step m (ended err k m)"
| withdraw: "k < length (starts m) \<Longrightarrow> stage_of m k = Ended \<Longrightarrow> mobile_step m (withdraw Withdrawn k m)"
| release: "k < length (starts m) \<Longrightarrow> stage_of m k = Withdrawn \<Longrightarrow> mobile_step m (release Released k m)"
| announce: "k < length (starts m) \<Longrightarrow> stage_of m k = Released \<Longrightarrow> mobile_step m (say_mobile ''MOBILE_STOPPED'' [] (move k Over m))"
| command: "mobile_step m (snd (send_mobile_command line m))"
| take: "k < length (starts m) \<Longrightarrow> stage_of m k = Alive \<Longrightarrow> mobile_step m (take_command k m)"
| events: "mobile_step m (m\<lparr>mobile_log := l\<rparr>)"

definition fresh_mobile :: "mobile \<Rightarrow> bool" where
  "fresh_mobile m = (\<not> mobile_running m \<and> mobile_sender m = None \<and> starts m = [])"

abbreviation mobile_run :: "mobile \<Rightarrow> bool" where
  "mobile_run \<equiv> reachable fresh_mobile mobile_step"

end
