(* ===== verification/Mobile_Props.thy ===== *)
theory Mobile_Props
  imports Mobile
begin

text \<open>Whatever threads start, stop and command the mobile agent, in whatever order: there is never a second one, and commands reach the one there is.\<close>

section \<open>The owner of the flag\<close>

text \<open>From its claim until its release an attempt owns the flag; in between, from publishing to withdrawing, also the slot of the sender.\<close>

definition owns :: "mobile \<Rightarrow> nat \<Rightarrow> bool" where
  "owns m k = (k < length (starts m) \<and> stage_of m k \<noteq> Released \<and> stage_of m k \<noteq> Over)"

definition owns_slot :: "mobile \<Rightarrow> nat \<Rightarrow> bool" where
  "owns_slot m k = (k < length (starts m) \<and> stage_of m k \<in> {Published, Alive, Ended, Unspawned})"

definition mobile_ok :: "mobile \<Rightarrow> bool" where
  "mobile_ok m = ((mobile_running m \<longleftrightarrow> (\<exists>k. owns m k)) \<and> (\<forall>i j. owns m i \<longrightarrow> owns m j \<longrightarrow> i = j) \<and>
     (\<forall>k. mobile_sender m = Some k \<longleftrightarrow> owns_slot m k))"

lemma slot_owned: "owns_slot m k \<Longrightarrow> owns m k"
  by (auto simp: owns_slot_def owns_def)

lemma move_simps [simp]:
  "mobile_running (move k s m) = mobile_running m" "mobile_sender (move k s m) = mobile_sender m"
  "length (starts (move k s m)) = length (starts m)" "mobile_log (move k s m) = mobile_log m"
  "k < length (starts m) \<Longrightarrow> stage_of (move k s m) i = (if i = k then s else stage_of m i)"
  by (auto simp: move_def stage_of_def nth_list_update)

lemma stage_of_updates [simp]:
  "stage_of (m\<lparr>mobile_running := b\<rparr>) = stage_of m" "stage_of (m\<lparr>mobile_sender := s\<rparr>) = stage_of m" "stage_of (m\<lparr>mobile_log := l\<rparr>) = stage_of m"
  by (simp_all add: stage_of_def fun_eq_iff)

lemma stage_of_inbox [simp]:
  "stage_of (m\<lparr>starts := (starts m)[k := (starts m ! k)\<lparr>inbox := xs\<rparr>]\<rparr>) i = stage_of m i"
  by (cases "k < length (starts m)"; cases "i = k") (simp_all add: stage_of_def list_update_beyond not_less)

lemma one_owner: "mobile_ok m \<Longrightarrow> owns m i \<Longrightarrow> owns m k \<Longrightarrow> i = k"
  unfolding mobile_ok_def by blast

lemma sender_owner: "mobile_ok m \<Longrightarrow> mobile_sender m = Some k \<longleftrightarrow> owns_slot m k"
  unfolding mobile_ok_def by blast

lemma no_sender: "mobile_ok m \<Longrightarrow> (\<And>i. \<not> owns_slot m i) \<Longrightarrow> mobile_sender m = None"
  using sender_owner by (cases "mobile_sender m") auto

text \<open>One lemma for each kind of access: to the stage alone, to the slot, to the flag.\<close>

lemma move_ok:
  assumes "mobile_ok m" "owns m k" "s \<notin> {Released, Over}" "s \<in> {Published, Alive, Ended, Unspawned} \<longleftrightarrow> owns_slot m k"
  shows "mobile_ok (move k s m)"
proof -
  have k: "k < length (starts m)" using assms(2) by (simp add: owns_def)
  have "owns (move k s m) = owns m" "owns_slot (move k s m) = owns_slot m"
    using assms k by (auto simp: owns_def owns_slot_def fun_eq_iff)
  then show ?thesis using assms(1) by (simp add: mobile_ok_def)
qed

lemma mobile_okI:
  assumes "mobile_running m \<longleftrightarrow> (\<exists>k. owns m k)" "\<And>i j. owns m i \<Longrightarrow> owns m j \<Longrightarrow> i = j"
    "\<And>k. mobile_sender m = Some k \<longleftrightarrow> owns_slot m k"
  shows "mobile_ok m"
  unfolding mobile_ok_def using assms by blast

lemma running_owner: "mobile_ok m \<Longrightarrow> mobile_running m \<longleftrightarrow> (\<exists>k. owns m k)"
  unfolding mobile_ok_def by blast

lemma publish_ok:
  assumes "mobile_ok m" "k < length (starts m)" "stage_of m k = Checked"
  shows "mobile_ok (publish k m)"
proof (rule mobile_okI)
  have "owns m k" using assms(2,3) by (simp add: owns_def)
  note only = one_owner [OF assms(1) _ this]
  have same: "owns (publish k m) = owns m" using assms(2,3) by (auto simp: publish_def owns_def fun_eq_iff)
  show "mobile_running (publish k m) \<longleftrightarrow> (\<exists>k'. owns (publish k m) k')"
    unfolding same using running_owner [OF assms(1)] by (simp add: publish_def)
  show "i = j" if "owns (publish k m) i" "owns (publish k m) j" for i j
    using that one_owner [OF assms(1)] unfolding same by blast
  have "owns_slot (publish k m) i \<longleftrightarrow> i = k" for i
  proof (cases "i = k")
    case False
    then have "\<not> owns_slot m i" using only slot_owned by blast
    with False show ?thesis using assms(2) by (simp add: publish_def owns_slot_def)
  qed (use assms(2) in \<open>simp add: publish_def owns_slot_def\<close>)
  then show "mobile_sender (publish k m) = Some i \<longleftrightarrow> owns_slot (publish k m) i" for i by (auto simp: publish_def)
qed

lemma withdraw_ok:
  assumes "mobile_ok m" "owns_slot m k" "s \<in> {Withdrawn, Unpublished}"
  shows "mobile_ok (withdraw s k m)"
proof (rule mobile_okI)
  have k: "k < length (starts m)" using assms(2) by (simp add: owns_slot_def)
  note only = one_owner [OF assms(1) _ slot_owned [OF assms(2)]]
  have same: "owns (withdraw s k m) = owns m" using assms(3) k slot_owned [OF assms(2)] by (auto simp: withdraw_def owns_def fun_eq_iff)
  show "mobile_running (withdraw s k m) \<longleftrightarrow> (\<exists>k'. owns (withdraw s k m) k')"
    unfolding same using running_owner [OF assms(1)] by (simp add: withdraw_def)
  show "i = j" if "owns (withdraw s k m) i" "owns (withdraw s k m) j" for i j
    using that one_owner [OF assms(1)] unfolding same by blast
  have "\<not> owns_slot (withdraw s k m) i" for i
  proof (cases "i = k")
    case False
    then have "\<not> owns_slot m i" using only slot_owned by blast
    with False show ?thesis using k by (simp add: withdraw_def owns_slot_def)
  qed (use assms(3) k in \<open>auto simp: withdraw_def owns_slot_def\<close>)
  then show "mobile_sender (withdraw s k m) = Some i \<longleftrightarrow> owns_slot (withdraw s k m) i" for i by (simp add: withdraw_def)
qed

lemma release_ok:
  assumes "mobile_ok m" "owns m k" "\<not> owns_slot m k" "s \<in> {Released, Over}"
  shows "mobile_ok (release s k m)"
proof (rule mobile_okI)
  have k: "k < length (starts m)" using assms(2) by (simp add: owns_def)
  note only = one_owner [OF assms(1) _ assms(2)]
  have none: "\<not> owns (release s k m) i" for i
  proof (cases "i = k")
    case False
    then have "\<not> owns m i" using only by blast
    with False show ?thesis using k by (simp add: release_def owns_def)
  qed (use assms(4) k in \<open>auto simp: release_def owns_def\<close>)
  then show "mobile_running (release s k m) \<longleftrightarrow> (\<exists>k'. owns (release s k m) k')" by (simp add: release_def)
  show "i = j" if "owns (release s k m) i" "owns (release s k m) j" for i j using that none by blast
  have "\<not> owns_slot m i" for i using only [OF slot_owned] assms(3) by blast
  then have "mobile_sender m = None" by (rule no_sender [OF assms(1)])
  then show "mobile_sender (release s k m) = Some i \<longleftrightarrow> owns_slot (release s k m) i" for i
    using none slot_owned by (auto simp: release_def)
qed

lemma same_stages_ok:
  assumes "mobile_ok m" "length (starts m') = length (starts m)" "\<And>i. i < length (starts m) \<Longrightarrow> owns m' i = owns m i \<and> owns_slot m' i = owns_slot m i"
    "mobile_running m' = mobile_running m" "mobile_sender m' = mobile_sender m"
  shows "mobile_ok m'"
proof -
  have "owns m' = owns m" "owns_slot m' = owns_slot m" using assms(2,3) by (auto simp: fun_eq_iff owns_def owns_slot_def)
  then show ?thesis using assms by (simp add: mobile_ok_def)
qed

lemma over_ok:
  assumes "mobile_ok m" "k < length (starts m)" "stage_of m k = Released"
  shows "mobile_ok (move k Over m)"
  by (rule same_stages_ok [OF assms(1)]) (use assms(2,3) in \<open>auto simp: owns_def owns_slot_def\<close>)

lemma log_ok: "mobile_ok (m\<lparr>mobile_log := l\<rparr>) = mobile_ok m"
  by (simp add: mobile_ok_def owns_def owns_slot_def)

lemma inbox_ok:
  assumes "mobile_ok m"
  shows "mobile_ok (m\<lparr>starts := (starts m)[k := (starts m ! k)\<lparr>inbox := xs\<rparr>]\<rparr>)"
  by (rule same_stages_ok [OF assms]) (simp_all add: owns_def owns_slot_def)

lemma claim_ok: "mobile_ok m \<Longrightarrow> mobile_ok (snd (claim a m))"
proof -
  assume ok: "mobile_ok m"
  let ?m = "m\<lparr>mobile_running := True, starts := starts m @ [\<lparr>at_stage = Claimed, at_args = a, inbox = []\<rparr>]\<rparr>"
  have "mobile_ok ?m" if "\<not> mobile_running m"
  proof -
    have none: "\<not> owns m i" for i using that ok by (simp add: mobile_ok_def)
    have o: "owns ?m i \<longleftrightarrow> i = length (starts m)" for i
      using none [of i] by (auto simp: owns_def stage_of_def nth_append)
    moreover have "\<not> owns_slot ?m i" for i
      using none [of i] by (auto simp: owns_slot_def owns_def stage_of_def nth_append split: if_splits)
    moreover have "mobile_sender m = None" using no_sender [OF ok] none slot_owned by blast
    ultimately show ?thesis by (simp add: mobile_ok_def)
  qed
  then show ?thesis using ok by (simp add: claim_def)
qed

lemma mobile_step_ok: "mobile_step m m' \<Longrightarrow> mobile_ok m \<Longrightarrow> mobile_ok m'"
proof (induction rule: mobile_step.induct)
  case (check k m)
  then have "owns m k" "\<not> owns_slot m k" by (simp_all add: owns_def owns_slot_def)
  then show ?case using check(3) move_ok [of m k Checked] release_ok [of m k Over] by (simp add: check_limits_def split: sum.split)
next
  case (ends k m err)
  then have "mobile_ok (move k Ended m)" by (intro move_ok) (simp_all add: owns_def owns_slot_def)
  then show ?case by (simp add: ended_def say_mobile_def Let_def log_ok split: option.split)
next
  case (announce k m)
  then show ?case using over_ok by (simp add: say_mobile_def log_ok)
next
  case (command m line)
  then show ?case using inbox_ok by (simp add: send_mobile_command_def split: option.split)
next
  case (take k m)
  then show ?case using inbox_ok by (simp add: take_command_def)
qed (simp_all add: claim_ok publish_ok log_ok move_ok withdraw_ok release_ok owns_def owns_slot_def)

interpretation mobile_machine: machine_invariant fresh_mobile mobile_step mobile_ok
proof unfold_locales
  fix m assume "fresh_mobile m"
  then show "mobile_ok m" by (simp add: fresh_mobile_def mobile_ok_def owns_def owns_slot_def)
qed (rule mobile_step_ok)

section \<open>One agent\<close>

text \<open>
  C39. There is never a second mobile agent. However the threads that start, end and command it interleave, at most one attempt is between
  claiming the flag and giving it back, the flag is set exactly then, and a start is refused exactly then. A command that is accepted
  is added to the commands of the one agent that runs or is being started, and to no other's; while an agent runs every command is accepted.
\<close>

theorem one_mobile_agent:
  assumes "mobile_run m"
  shows "(\<forall>i j. owns m i \<and> owns m j \<longrightarrow> i = j) \<and> (mobile_agent_running m \<longleftrightarrow> (\<exists>k. owns m k)) \<and>
    ((\<exists>err. fst (claim a m) = Inl err) \<longleftrightarrow> (\<exists>k. owns m k)) \<and>
    (\<forall>m'. send_mobile_command line m = (Inr (), m') \<longrightarrow>
       (\<exists>k. owns m k \<and> receives (stage_of m k) \<and> inbox (starts m' ! k) = inbox (starts m ! k) @ [line] \<and>
         (\<forall>i. i \<noteq> k \<longrightarrow> starts m' ! i = starts m ! i))) \<and>
    ((\<exists>k < length (starts m). stage_of m k = Alive) \<longrightarrow> (\<exists>m'. send_mobile_command line m = (Inr (), m')))"
proof -
  have ok: "mobile_ok m" by (rule mobile_machine.run_inv [OF assms])
  have "\<exists>k. owns m k \<and> receives (stage_of m k) \<and> inbox (starts m' ! k) = inbox (starts m ! k) @ [line] \<and>
         (\<forall>i. i \<noteq> k \<longrightarrow> starts m' ! i = starts m ! i)" if sent: "send_mobile_command line m = (Inr (), m')" for m'
  proof -
    obtain k where k: "mobile_sender m = Some k" "receives (stage_of m k)"
      "m' = m\<lparr>starts := (starts m)[k := (starts m ! k)\<lparr>inbox := inbox (starts m ! k) @ [line]\<rparr>]\<rparr>"
      using sent by (auto simp: send_mobile_command_def split: option.splits if_splits)
    then have "owns m k" using sender_owner [OF ok] slot_owned by simp
    with k show ?thesis by (intro exI [of _ k]) (simp add: owns_def)
  qed
  moreover have "\<exists>m'. send_mobile_command line m = (Inr (), m')" if "k < length (starts m)" "stage_of m k = Alive" for k
  proof -
    have "mobile_sender m = Some k" using sender_owner [OF ok] that by (simp add: owns_slot_def)
    then show ?thesis using that by (simp add: send_mobile_command_def receives_def)
  qed
  moreover have "(\<exists>err. fst (claim a m) = Inl err) \<longleftrightarrow> mobile_running m" by (simp add: claim_def)
  ultimately show ?thesis using ok by (simp add: mobile_ok_def mobile_agent_running_def) blast
qed

definition no_agent :: mobile where
  "no_agent = \<lparr>mobile_running = False, mobile_sender = None, starts = [], mobile_log = \<lparr>printed = [], mobile_events = []\<rparr>\<rparr>"

theorem one_mobile_agent_witness:
  "\<forall>a. \<exists>m. mobile_run m \<and> (\<exists>k. owns m k) \<and> (\<exists>err. fst (claim a m) = Inl err)"
proof
  fix a
  let ?m = "snd (claim a no_agent)"
  have start: "mobile_run no_agent" by (rule reachable.init) (simp add: fresh_mobile_def no_agent_def)
  have run: "mobile_run ?m" by (rule reachable.step) (rule start, rule mobile_step.claim)
  have "owns ?m 0" by (simp add: owns_def claim_def no_agent_def stage_of_def)
  with one_mobile_agent [OF run] run show "\<exists>m. mobile_run m \<and> (\<exists>k. owns m k) \<and> (\<exists>err. fst (claim a m) = Inl err)" by blast
qed

text \<open>The whole start, when nobody else acts, is a run of such accesses, and ends with an agent or without a trace.\<close>

lemma start_alone:
  assumes "mobile_run m"
  shows "mobile_run (snd (start_mobile_agent e spawn_error c m))"
    "fst (start_mobile_agent e spawn_error c m) = Inr k \<Longrightarrow> stage_of (snd (start_mobile_agent e spawn_error c m)) k = Alive"
    "fst (start_mobile_agent e spawn_error c m) = Inl err \<Longrightarrow>
      mobile_running (snd (start_mobile_agent e spawn_error c m)) = mobile_running m"
proof -
  note step = reachable.step [where start = fresh_mobile and step = mobile_step]
  let ?m1 = "snd (claim (into_args e c) m)"
  let ?n = "length (starts m)"
  have claimed: "\<not> mobile_running m \<Longrightarrow> ?n < length (starts ?m1) \<and> stage_of ?m1 ?n = Claimed"
    by (simp add: claim_def stage_of_def)
  have r1: "mobile_run ?m1" by (rule step [OF assms mobile_step.claim])
  have r2: "mobile_run (snd (check_limits ?n ?m1))" if "\<not> mobile_running m"
    using step [OF r1 mobile_step.check] claimed [OF that] by simp
  have r3: "mobile_run (publish ?n m')" "mobile_run (move ?n Alive (publish ?n m'))"
    "mobile_run (release Over ?n (withdraw Unpublished ?n (move ?n Unspawned (publish ?n m'))))"
    if "mobile_run m'" "?n < length (starts m')" "stage_of m' ?n = Checked" for m'
  proof -
    show p: "mobile_run (publish ?n m')" by (rule step [OF that(1) mobile_step.publish [OF that(2,3)]])
    show "mobile_run (move ?n Alive (publish ?n m'))"
      by (rule step [OF p mobile_step.spawn]) (use that in \<open>simp_all add: publish_def\<close>)
    have u: "mobile_run (move ?n Unspawned (publish ?n m'))"
      by (rule step [OF p mobile_step.spawn_fails]) (use that in \<open>simp_all add: publish_def\<close>)
    have w: "mobile_run (withdraw Unpublished ?n (move ?n Unspawned (publish ?n m')))"
      by (rule step [OF u mobile_step.unpublish]) (use that in \<open>simp_all add: publish_def\<close>)
    show "mobile_run (release Over ?n (withdraw Unpublished ?n (move ?n Unspawned (publish ?n m'))))"
      by (rule step [OF w mobile_step.give_up]) (use that in \<open>simp_all add: publish_def withdraw_def\<close>)
  qed
  show "mobile_run (snd (start_mobile_agent e spawn_error c m))"
  proof (cases "mobile_running m")
    case True
    then show ?thesis using assms by (simp add: start_mobile_agent_def claim_def)
  next
    case False
    then obtain m1 where y: "claim (into_args e c) m = (Inr ?n, m1)" by (simp add: claim_def)
    note run = r2 [OF False, unfolded y snd_conv] and c = claimed [OF False, unfolded y snd_conv]
    obtain z m2 where z: "check_limits ?n m1 = (z, m2)" by fastforce
    show ?thesis
    proof (cases z)
      case (Inl err)
      then show ?thesis using run z by (simp add: start_mobile_agent_def y)
    next
      case (Inr u)
      then have "m2 = move ?n Checked m1" using z by (auto simp: check_limits_def split: sum.splits)
      then have "mobile_run m2" "?n < length (starts m2)" "stage_of m2 ?n = Checked" using run z c by simp_all
      then show ?thesis using r3 [of m2] Inr by (cases spawn_error) (simp_all add: start_mobile_agent_def y z)
    qed
  qed
  show "fst (start_mobile_agent e spawn_error c m) = Inr k \<Longrightarrow> stage_of (snd (start_mobile_agent e spawn_error c m)) k = Alive"
    by (auto simp: start_mobile_agent_def claim_def check_limits_def publish_def split: sum.splits option.splits if_splits)
  show "fst (start_mobile_agent e spawn_error c m) = Inl err \<Longrightarrow>
      mobile_running (snd (start_mobile_agent e spawn_error c m)) = mobile_running m"
    by (auto simp: start_mobile_agent_def claim_def check_limits_def publish_def release_def split: sum.splits option.splits if_splits)
qed

end
