(* ===== verification/Spec2Isabelle.thy ===== *)
theory Spec2Isabelle
  imports Store_Contents Swarm_Props Artifact_Props Installation Settings Agent_Findings Agent_Start Terminal_Props Window_Commands Mobile_Props
begin

text \<open>
  Swagri (swarm grid): a verification development of the Rust workspace under \<open>src/crates\<close>.

  \<^bold>\<open>The program.\<close> An agent (\<open>swagri-node\<close>) runs on each computer or phone. Agents find each other on the local network, measure what they
  can spare, send each other small tasks, split a matrix product among themselves, exchange immutable files in verified blocks, and
  update each other with signed packages. \<open>swagri-core\<close> holds the types, limits and decisions they share, \<open>swagri-executor\<close> the tasks,
  \<open>swagri-storage\<close> the content-addressed store, \<open>swagri-updater\<close> the process that replaces an agent's program, and \<open>swagri-debugger\<close> a window
  that starts an agent, sends it commands on its standard input and reads event lines from its output. One thread of the agent, the loop
  of \<open>run_agent\<close>, owns all of its state; work that takes long is spawned and comes back as an event. So the agent is modelled as a
  state with one operation for each event, and its concurrency as an arbitrary order of events.

  \<^bold>\<open>Foundations.\<close> \<open>Prelude\<close>: widths of integers, saturating arithmetic, ordered and unordered maps behind the locale \<open>key_map\<close>, and the
  locale \<open>machine_invariant\<close> of every state machine below (\<open>reachable\<close>). \<open>Strings\<close>: the library's string operations and decimal text (locale
  \<open>codec\<close>). \<open>Floats\<close>: \<open>f32\<close> and \<open>f64\<close> as a NaN, infinities and rationals, with rounding to nearest even. \<open>FileSystem\<close>: files by path and a
  schedule of failing system calls, a state monad with errors, and its Hoare triples.

  \<^bold>\<open>Shared crates.\<close> \<open>Core\<close> (\<open>swagri-core/src/lib.rs\<close>): tasks, \<open>validate\<close>, the payload of a signed manifest, \<open>effective_cpu_score\<close> and
  \<open>choose_cpu_placement\<close>. \<open>Executor\<close> (\<open>swagri-executor/src/lib.rs\<close>): every task; the loops over a matrix are shown to be the matrix product, and
  the checksums of any chunks to add up to that of the whole.

  \<^bold>\<open>Store\<close> (\<open>swagri-storage/src/lib.rs\<close>). \<open>Storage\<close> and \<open>Store\<close> hold the types and the operations, each with its system calls in the code's
  order. \<open>Store_Frame\<close>, \<open>Store_Quota\<close>, \<open>Store_Import\<close> and \<open>Store_Session\<close> say what each does to the files when any call fails; \<open>Store_Props\<close>
  and \<open>Store_Contents\<close> hold the properties: quota, content addressing, imports, exports, commits, and what is left after errors.

  \<^bold>\<open>Agent\<close> (\<open>swagri-node/src/lib.rs\<close>). \<open>Events\<close>: \<open>emit_event\<close> and the lines it prints. \<open>Node\<close>: submission and placement of tasks. \<open>Matrix\<close>:
  distributed jobs; \<open>Matrix_Plan\<close>, \<open>Matrix_Job\<close>, \<open>Matrix_Inv\<close>, \<open>Matrix_Dispatch\<close>, \<open>Matrix_System\<close>, \<open>Matrix_Props\<close> and \<open>Matrix_Claims\<close> build the
  invariant that every row is waiting, out or done, over every run of the scheduler. \<open>Artifacts\<close>: serving and downloading;
  \<open>Artifact_Inv\<close>, \<open>Artifact_Run\<close> and \<open>Artifact_Props\<close> show that no download waits for nothing. \<open>Updates\<close>: offers, checks and transfer;
  \<open>Update_Run\<close> and \<open>Update_Props\<close> show that only what a trusted peer signed is launched, that the transfer refines an abstract one, and that an honest one ends with the updater. \<open>Inbound\<close>:
  the tasks of other peers, each answered once. \<open>Resources\<close>: the monitor, with the limits kept under all float rounding in
  \<open>Resource_Props\<close>. \<open>Settings\<close> and \<open>Startup\<close>: settings, paths, quota and identity. \<open>Agent\<close>, \<open>Commands\<close> and \<open>Run_Loop\<close> put the components side by
  side as \<open>run_agent\<close> does, with \<open>handle_command\<close> and \<open>handle_swarm_event\<close>; \<open>Agent_Frame\<close>, \<open>Agent_Run\<close> and \<open>Agent_Refine\<close> show that every run of the
  whole is a run of each part, so that what is proved of a part holds of the agent. \<open>Mobile\<close>: the flag and the sender through which the
  threads of a phone's application start and stop the agent, each access a step of its own. \<open>Agent_Start\<close> is what \<open>run_agent\<close> does before its
  loop, and shows that an agent that starts is at the beginning of a run. \<open>Agent_Findings\<close>: where the loop does more than its parts need.

  \<^bold>\<open>Swarm.\<close> \<open>Swarm\<close> puts any number of agents side by side and lets the requests of one reach the inbound tasks of another, and the answers come
  back. What the run of one agent assumes of its peers' answers is a theorem there (\<open>swarm_answers_honest\<close>), so a distributed job reports
  the product of its matrices with no such assumption (\<open>swarm_computes_product\<close>, in \<open>Swarm_Props\<close>). \<open>Swarm_Demo\<close> is a complete run of two agents,
  from the first connection to the answer of a chunk.

  \<^bold>\<open>Updater\<close> (\<open>swagri-updater/src/main.rs\<close>). \<open>Updater\<close>: \<open>apply_update\<close> with its rollback; \<open>Updater_Props\<close>: the old program is never lost, whatever
  call fails. \<open>Installation\<close> joins it to the agent's checks: only a signed program is ever installed.

  \<^bold>\<open>Debugger\<close> (\<open>swagri-debugger/src/main.rs\<close>). \<open>Terminal\<close>: escape sequences and log levels. \<open>Task_History\<close>: the list of tasks and the SQLite
  table, as the list of its rows. \<open>Debug_View\<close>: reading fields and numbers. \<open>Debugger\<close>: the state and \<open>handle_output\<close>, one definition for each
  group of events. \<open>Debug_Actions\<close>: the buttons, starting and stopping the agent, updates, \<open>poll_agent\<close>. \<open>Debug_Text\<close>: labels, the filtered log,
  the agent's command line. \<open>Terminal_Props\<close>, \<open>Task_History_Props\<close>, \<open>Debug_View_Props\<close>, \<open>Debugger_Inv\<close> and \<open>Debugger_Props\<close> hold what is proved:
  what exactly stripping removes and when it panics, that event lines are read back through it, what saving a task keeps, that resources are
  shown as printed, and that every reachable state is well formed. Lines are taken as \<open>poll_agent\<close> takes them: stripped first, then read.

  \<^bold>\<open>Window\<close> (\<open>draw_header\<close> to \<open>draw_debug_tools\<close> and \<open>ui\<close> of the same file). \<open>Window\<close>: each group of widgets as a list, with its texts,
  numbers, choices and the conditions of its buttons. \<open>Window_Actions\<close>: what each button does, and the frames as steps of the window.
  \<open>Window_Props\<close>: the window does only what the debugger may do, its curves and limits stay in their bounds, it is drawn without a panic as
  long as identifiers are ASCII, and the peer it recommends is the best one. \<open>Window_Commands\<close> puts the window beside the agent's
  \<open>handle_command\<close>, for every button: without an agent the user is told so; with one, an enabled button gives it exactly its lines, and the
  agent does with them what the button says, down to the providers of a fetch. A press acts on the state the whole frame was drawn from.

  \<^bold>\<open>How the code is read.\<close> A struct is a record, an enum a datatype, \<open>u16\<close> to \<open>u64\<close> are words of their width, \<open>usize\<close> a natural number, a
  \<open>BTreeMap\<close> a sorted association list, a \<open>HashMap\<close> a distinct one whose iteration order is any permutation (\<open>walk_ok\<close>), a text its UTF-8
  bytes, a peer or content identifier its bytes or rank in their order. A \<open>Result\<close> is a sum whose left side is the error; a panic is \<open>None\<close>.
  \<open>unwrap\<close> and indexing are modelled where they can fail. Time is a number of milliseconds given with an event.

  \<^bold>\<open>Bounds.\<close> Loops are structural or have a measure. Two definitions count down: \<open>shortest_digits\<close> stops after seventeen digits, which always
  determine a double, and \<open>move_away\<close> makes the number of attempts of the source. The runs of the whole agent (\<open>event_fair\<close>) ask that request
  numbers do not wrap around 64 bits, that a failure or answer belongs to a request that was sent, that a worker's chunk has the checksum of
  its rows when it names them rightly and node information answers only a request for it (\<open>answers_ok\<close>; the code does not check
  either, and \<open>Swarm\<close> shows it of peers that run this code), and that readings of the system are numbers.

  \<^bold>\<open>Parameters.\<close> What is not under \<open>src\<close> is an argument: SHA-256, signatures and keys, CBOR and JSON, semantic versions, multiaddresses and
  paths, the network of libp2p, the operating system, SQLite's order of equal rows, the lower case of Unicode, and the Ukrainian wording of
  messages in the debugger. Assumptions on them (a codec decodes what it encodes, the digest has its length) are hypotheses of the
  theorems that use them.

  \<^bold>\<open>Not modelled.\<close> What is printed or logged for people only; layout, sizes, colours and hints of the window, its file dialogs and
  process handles, and the editing of the programs' paths in it; building the swarm, the order of atomic memory accesses, and
  Java strings; \<open>swagri-node/src/main.rs\<close>, which only calls the library; serde derivations; the Kotlin application, packaging, scripts and
  documents.

  \<^bold>\<open>Simplifications.\<close> Work on the store that a command spawns (import, verification, export) is one step between the steps of the loop, so
  two writers that check the quota at the same moment are not covered. Paths the user gives lie outside the store's directory. White space is
  ASCII only, and zero has no sign in a text. Joining paths is used on relative names, where different names give different paths.

  \<^bold>\<open>What the model showed.\<close> \<open>node_info_strands_chunk\<close>, \<open>corrupt_block_ends_download\<close>, \<open>spare_connection_ends_download\<close>, \<open>restart_forgets_quota\<close>,
  \<open>truncated_identity_stops_the_agent\<close>, \<open>peer_message_stops_debugger\<close>, \<open>fetch_ignores_the_only_ready_provider\<close>, \<open>evicted_task_loses_its_description\<close>,
  \<open>file_name_stops_agent\<close> and \<open>late_line_shows_a_running_task\<close> are behaviours the code does not mean to have.
\<close>

end
